(* ===== verification/Prelude.thy ===== *)
theory Prelude
  imports Complex_Main "HOL-Library.Char_ord" "HOL-Library.List_Lexorder" "HOL-Library.Product_Lexorder"
    "HOL-Library.Multiset"
begin

text \<open>
  Shared vocabulary of the development: Python values and dictionaries, the string
  operations of the standard library that the sources use, the result type for
  functions that may raise, and the fact collections the component theories extend.

  A Python string is a \<^typ>\<open>string\<close>, one \<^typ>\<open>char\<close> per code point, so the model covers
  code points below 256. A Python float is an exact rational. A dictionary is an
  association list with distinct keys in insertion order.
\<close>

named_theorems py_defs \<open>definitions of the Python helpers\<close>
named_theorems str_simps \<open>evaluation rules for the string helpers\<close>

section \<open>Errors\<close>

datatype py_error =
    ValueError string
  | AssertionError
  | KeyError string
  | AttributeError
  | TypeError
  | RepoConfigError string
  | FileExistsError string
  | FileNotFoundError string
  | UniqueViolation
  | GitError string
  | RuntimeError string
  | OSError string
  | TimeoutExpired
  | SandboxError string
  | ApplyError string int string
  | TransportError string

abbreviation raise :: "'e \<Rightarrow> 'e + 'a" where
  "raise e \<equiv> Inl e"

abbreviation return_ok :: "'a \<Rightarrow> 'e + 'a" where
  "return_ok x \<equiv> Inr x"

fun bind_result :: "'e + 'a \<Rightarrow> ('a \<Rightarrow> 'e + 'b) \<Rightarrow> 'e + 'b" where
  "bind_result (Inl e) f = Inl e"
| "bind_result (Inr x) f = f x"

lemma bind_result_eq_Inr_iff:
  "bind_result m f = Inr y \<longleftrightarrow> (\<exists>x. m = Inr x \<and> f x = Inr y)"
  by (cases m) auto

lemma bind_result_eq_Inl_iff:
  "bind_result m f = Inl e \<longleftrightarrow> m = Inl e \<or> (\<exists>x. m = Inr x \<and> f x = Inl e)"
  by (cases m) auto

text \<open>\<open>map_result f xs\<close> applies a raising function to each element, stopping at the first error.\<close>

fun map_result :: "('a \<Rightarrow> 'e + 'b) \<Rightarrow> 'a list \<Rightarrow> 'e + 'b list" where
  "map_result f [] = Inr []"
| "map_result f (x # xs) =
     bind_result (f x) (\<lambda>y. bind_result (map_result f xs) (\<lambda>ys. Inr (y # ys)))"

lemma map_result_Inr_length: "map_result f xs = Inr ys \<Longrightarrow> length ys = length xs"
  by (induction xs arbitrary: ys) (auto simp: bind_result_eq_Inr_iff)

lemma map_result_Inr_nth:
  "map_result f xs = Inr ys \<Longrightarrow> i < length xs \<Longrightarrow> f (xs ! i) = Inr (ys ! i)"
proof (induction xs arbitrary: ys i)
  case Nil
  then show ?case by simp
next
  case (Cons x xs)
  then obtain y zs where "f x = Inr y" "map_result f xs = Inr zs" "ys = y # zs"
    by (auto simp: bind_result_eq_Inr_iff)
  with Cons show ?case by (cases i) auto
qed

text \<open>\<open>each_ok check xs\<close> runs a check on every element and raises the first error.\<close>

fun each_ok :: "('a \<Rightarrow> 'e + unit) \<Rightarrow> 'a list \<Rightarrow> 'e + unit" where
  "each_ok f [] = Inr ()"
| "each_ok f (x # xs) = bind_result (f x) (\<lambda>_. each_ok f xs)"

lemma each_ok_Inr_iff: "each_ok f xs = Inr () \<longleftrightarrow> (\<forall>x \<in> set xs. f x = Inr ())"
  by (induction xs) (auto simp: bind_result_eq_Inr_iff)

section \<open>Python values and dictionaries\<close>

datatype pyval =
    PNone
  | PBool bool
  | PInt int
  | PFloat rat
  | PStr string
  | PList "pyval list"
  | PDict "(string \<times> pyval) list"

type_synonym pydict = "(string \<times> pyval) list"

text \<open>\<open>d.get(k)\<close>, \<open>k in d\<close>, \<open>d[k] = v\<close> (an existing key keeps its place), \<open>d.pop(k, None)\<close>.\<close>

abbreviation dget :: "('k \<times> 'v) list \<Rightarrow> 'k \<Rightarrow> 'v option" where
  "dget d k \<equiv> map_of d k"

definition dget_or :: "('k \<times> 'v) list \<Rightarrow> 'k \<Rightarrow> 'v \<Rightarrow> 'v" where
  "dget_or d k v = (case map_of d k of None \<Rightarrow> v | Some w \<Rightarrow> w)"

definition dhas :: "('k \<times> 'v) list \<Rightarrow> 'k \<Rightarrow> bool" where
  "dhas d k \<longleftrightarrow> k \<in> set (map fst d)"

fun dset :: "('k \<times> 'v) list \<Rightarrow> 'k \<Rightarrow> 'v \<Rightarrow> ('k \<times> 'v) list" where
  "dset [] k v = [(k, v)]"
| "dset ((k', v') # d) k v = (if k = k' then (k, v) # d else (k', v') # dset d k v)"

definition ddel :: "('k \<times> 'v) list \<Rightarrow> 'k \<Rightarrow> ('k \<times> 'v) list" where
  "ddel d k = filter (\<lambda>(k', _). k' \<noteq> k) d"

abbreviation dkeys :: "('k \<times> 'v) list \<Rightarrow> 'k list" where
  "dkeys d \<equiv> map fst d"

abbreviation dvalues :: "('k \<times> 'v) list \<Rightarrow> 'v list" where
  "dvalues d \<equiv> map snd d"

lemma dget_dset [simp]: "dget (dset d k v) = (dget d)(k \<mapsto> v)"
  by (induction d k v rule: dset.induct) auto

lemma dget_or_dset [simp]: "dget_or (dset d k v) k' w = (if k' = k then v else dget_or d k' w)"
  by (simp add: dget_or_def)

lemma set_dkeys_dset [simp]: "set (dkeys (dset d k v)) = insert k (set (dkeys d))"
  by (induction d k v rule: dset.induct) auto

lemma distinct_dkeys_dset [simp]: "distinct (dkeys d) \<Longrightarrow> distinct (dkeys (dset d k v))"
proof (induction d k v rule: dset.induct)
  case (2 k' v' d k v)
  then show ?case using set_dkeys_dset [of d k v] by (simp del: list.set_map set_dkeys_dset)
qed simp

lemma dkeys_dset_present: "k \<in> set (dkeys d) \<Longrightarrow> dkeys (dset d k v) = dkeys d"
  by (induction d k v rule: dset.induct) auto

lemma dset_absent: "k \<notin> set (dkeys d) \<Longrightarrow> dset d k v = d @ [(k, v)]"
  by (induction d k v rule: dset.induct) auto

lemma dget_ddel [simp]: "dget (ddel d k) = (dget d)(k := None)"
  by (induction d) (auto simp: ddel_def fun_eq_iff)

lemma dhas_iff_dget: "dhas d k \<longleftrightarrow> dget d k \<noteq> None"
  by (simp add: dhas_def map_of_eq_None_iff)

lemma dget_or_mem: "dget d k = Some v \<Longrightarrow> dget_or d k w = v"
  by (simp add: dget_or_def)

text \<open>Truth of a value, and \<open>x or y\<close> on an optional string.\<close>

fun truthy :: "pyval \<Rightarrow> bool" where
  "truthy PNone = False"
| "truthy (PBool b) = b"
| "truthy (PInt i) = (i \<noteq> 0)"
| "truthy (PFloat q) = (q \<noteq> 0)"
| "truthy (PStr s) = (s \<noteq> [])"
| "truthy (PList xs) = (xs \<noteq> [])"
| "truthy (PDict d) = (d \<noteq> [])"

fun opt_or :: "string option \<Rightarrow> string \<Rightarrow> string" where
  "opt_or None d = d"
| "opt_or (Some s) d = (if s = [] then d else s)"

definition nonempty :: "string option \<Rightarrow> bool" where
  "nonempty s \<longleftrightarrow> s \<noteq> None \<and> s \<noteq> Some []"

definition str_or :: "string \<Rightarrow> string \<Rightarrow> string" where
  "str_or s d = (if s = [] then d else s)"

lemma str_or_nonempty: "d \<noteq> [] \<Longrightarrow> str_or s d \<noteq> []"
  by (simp add: str_or_def)

lemma opt_or_nonempty: "d \<noteq> [] \<Longrightarrow> opt_or s d \<noteq> []"
  by (cases s) simp_all

fun pstr :: "string option \<Rightarrow> pyval" where
  "pstr None = PNone"
| "pstr (Some s) = PStr s"

fun pint :: "int option \<Rightarrow> pyval" where
  "pint None = PNone"
| "pint (Some i) = PInt i"

fun pbool :: "bool option \<Rightarrow> pyval" where
  "pbool None = PNone"
| "pbool (Some b) = PBool b"

fun pfloat :: "rat option \<Rightarrow> pyval" where
  "pfloat None = PNone"
| "pfloat (Some q) = PFloat q"

fun pdict :: "pydict option \<Rightarrow> pyval" where
  "pdict None = PNone"
| "pdict (Some d) = PDict d"

text \<open>
  The scalar values a brief's frontmatter (and the queue settings read beside it) can hold,
  with their text \<open>str(v)\<close>.
\<close>

datatype scalar = SNone | SBool bool | SInt int | SStr string

type_synonym meta = "(string \<times> scalar) list"

fun scalar_truthy :: "scalar \<Rightarrow> bool" where
  "scalar_truthy SNone = False"
| "scalar_truthy (SBool b) = b"
| "scalar_truthy (SInt i) = (i \<noteq> 0)"
| "scalar_truthy (SStr s) = (s \<noteq> [])"

section \<open>String operations\<close>

definition is_space :: "char \<Rightarrow> bool" where
  "is_space c = (let n = of_char c :: nat in
     (9 \<le> n \<and> n \<le> 13) \<or> (28 \<le> n \<and> n \<le> 32) \<or> n = 133 \<or> n = 160)"

definition lower_char :: "char \<Rightarrow> char" where
  "lower_char c = (let n = of_char c :: nat in
     if (65 \<le> n \<and> n \<le> 90) \<or> (192 \<le> n \<and> n \<le> 222 \<and> n \<noteq> 215) then char_of (n + 32) else c)"

definition py_lower :: "string \<Rightarrow> string" where
  "py_lower s = map lower_char s"

definition py_lstrip_of :: "(char \<Rightarrow> bool) \<Rightarrow> string \<Rightarrow> string" where
  "py_lstrip_of p s = dropWhile p s"

definition py_strip_of :: "(char \<Rightarrow> bool) \<Rightarrow> string \<Rightarrow> string" where
  "py_strip_of p s = rev (dropWhile p (rev (dropWhile p s)))"

abbreviation py_strip :: "string \<Rightarrow> string" where
  "py_strip s \<equiv> py_strip_of is_space s"

definition py_startswith :: "string \<Rightarrow> string \<Rightarrow> bool" where
  "py_startswith s p \<longleftrightarrow> take (length p) s = p"

definition py_removesuffix :: "string \<Rightarrow> string \<Rightarrow> string" where
  "py_removesuffix s suf =
     (if suf \<noteq> [] \<and> length suf \<le> length s \<and> drop (length s - length suf) s = suf
      then take (length s - length suf) s else s)"

text \<open>\<open>s.split(c)\<close> on one character, and \<open>s.partition(c)\<close>: text before, found, text after.\<close>

fun py_split :: "char \<Rightarrow> string \<Rightarrow> string list" where
  "py_split c [] = [[]]"
| "py_split c (x # xs) =
     (if x = c then [] # py_split c xs
      else (case py_split c xs of [] \<Rightarrow> [[x]] | p # ps \<Rightarrow> (x # p) # ps))"

fun py_partition :: "char \<Rightarrow> string \<Rightarrow> string \<times> bool \<times> string" where
  "py_partition c [] = ([], False, [])"
| "py_partition c (x # xs) =
     (if x = c then ([], True, xs)
      else (case py_partition c xs of (a, f, b) \<Rightarrow> (x # a, f, b)))"

fun py_join :: "string \<Rightarrow> string list \<Rightarrow> string" where
  "py_join sep [] = []"
| "py_join sep [x] = x"
| "py_join sep (x # y # ys) = x @ sep @ py_join sep (y # ys)"

text \<open>\<open>s.splitlines()\<close>: line breaks of Python, carriage return followed by line feed as one.\<close>

definition is_linebreak :: "char \<Rightarrow> bool" where
  "is_linebreak c = (let n = of_char c :: nat in
     (10 \<le> n \<and> n \<le> 13) \<or> (28 \<le> n \<and> n \<le> 30) \<or> n = 133)"

fun splitlines_acc :: "string \<Rightarrow> bool \<Rightarrow> string \<Rightarrow> string list" where
  "splitlines_acc acc open_line [] = (if open_line then [rev acc] else [])"
| "splitlines_acc acc open_line (c # cs) =
     (if is_linebreak c then
        rev acc # (case cs of
            [] \<Rightarrow> []
          | d # ds \<Rightarrow> if c = CHR 0x0D \<and> d = CHR 0x0A then splitlines_acc [] False ds
                     else splitlines_acc [] False (d # ds))
      else splitlines_acc (c # acc) True cs)"

definition py_splitlines :: "string \<Rightarrow> string list" where
  "py_splitlines s = splitlines_acc [] False s"

lemma splitlines_acc_nonempty: "s \<noteq> [] \<or> open_line \<Longrightarrow> splitlines_acc acc open_line s \<noteq> []"
  by (induction acc open_line s rule: splitlines_acc.induct) auto

lemma py_splitlines_nonempty: "s \<noteq> [] \<Longrightarrow> py_splitlines s \<noteq> []"
  by (simp add: py_splitlines_def splitlines_acc_nonempty)

lemma py_split_not_Nil [simp]: "py_split c s \<noteq> []"
  by (induction s) (auto split: list.splits)

lemma join_split: "py_join [c] (py_split c s) = s"
proof (induction s)
  case (Cons x s)
  then show ?case by (cases "py_split c s") (auto simp: neq_Nil_conv split: list.splits, (cases "tl (py_split c s)"; simp)+)
qed simp

lemma py_partition_absent: "c \<notin> set s \<Longrightarrow> py_partition c s = (s, False, [])"
  by (induction s) auto

lemma py_partition_append: "c \<notin> set a \<Longrightarrow> py_partition c (a @ c # b) = (a, True, b)"
  by (induction a) auto

lemma py_split_absent: "c \<notin> set s \<Longrightarrow> py_split c s = [s]"
  by (induction s) auto

lemma py_split_append: "c \<notin> set a \<Longrightarrow> py_split c (a @ c # b) = a # py_split c b"
  by (induction a) auto

lemma py_split_join:
  "xs \<noteq> [] \<Longrightarrow> \<forall>x \<in> set xs. c \<notin> set x \<Longrightarrow> py_split c (py_join [c] xs) = xs"
  by (induction "[c]" xs rule: py_join.induct) (auto simp: py_split_absent py_split_append)

lemma dropWhile_idem_hd: "xs = [] \<or> \<not> P (hd xs) \<Longrightarrow> dropWhile P xs = xs"
  by (cases xs) auto

lemma py_strip_of_id:
  "s = [] \<or> (\<not> p (hd s) \<and> \<not> p (last s)) \<Longrightarrow> py_strip_of p s = s"
  by (cases "s = []") (auto simp: py_strip_of_def dropWhile_idem_hd hd_rev)

lemma hd_dropWhile_neg: "dropWhile P xs \<noteq> [] \<Longrightarrow> \<not> P (hd (dropWhile P xs))"
  by (induction xs) auto

lemma py_strip_of_ends:
  "py_strip_of p s \<noteq> [] \<Longrightarrow> \<not> p (hd (py_strip_of p s)) \<and> \<not> p (last (py_strip_of p s))"
proof -
  let ?t = "dropWhile p s" and ?r = "dropWhile p (rev (dropWhile p s))"
  assume "py_strip_of p s \<noteq> []"
  then have r: "?r \<noteq> []" by (simp add: py_strip_of_def)
  have "\<not> p (hd ?r)" using r by (rule hd_dropWhile_neg)
  then have l: "\<not> p (last (rev ?r))" by (simp add: last_rev)
  have t: "?t \<noteq> []" using r by (metis dropWhile.simps(1) rev.simps(1))
  obtain pre where pre: "rev ?t = pre @ ?r"
    by (metis takeWhile_dropWhile_id)
  then have "?t = rev ?r @ rev pre" by (metis rev_append rev_rev_ident)
  then have "hd ?t = hd (rev ?r)" using r by (metis hd_append2 rev_is_Nil_conv)
  then have "\<not> p (hd (rev ?r))" using hd_dropWhile_neg [OF t] by simp
  with l show ?thesis by (simp add: py_strip_of_def)
qed

lemma py_strip_of_strip [simp]: "py_strip_of p (py_strip_of p s) = py_strip_of p s"
  by (rule py_strip_of_id) (use py_strip_of_ends in blast)

section \<open>Integers as text\<close>

definition digit_char :: "nat \<Rightarrow> char" where
  "digit_char n = char_of (48 + n)"

definition is_digit :: "char \<Rightarrow> bool" where
  "is_digit c = (let n = of_char c :: nat in 48 \<le> n \<and> n \<le> 57)"

definition digit_val :: "char \<Rightarrow> nat" where
  "digit_val c = of_char c - 48"

fun nat_text :: "nat \<Rightarrow> string" where
  "nat_text n = (if n < 10 then [digit_char n] else nat_text (n div 10) @ [digit_char (n mod 10)])"

declare nat_text.simps [simp del]

definition int_text :: "int \<Rightarrow> string" where
  "int_text i = (if i < 0 then CHR ''-'' # nat_text (nat (- i)) else nat_text (nat i))"

fun scalar_str :: "scalar \<Rightarrow> string" where
  "scalar_str SNone = ''None''"
| "scalar_str (SBool True) = ''True''"
| "scalar_str (SBool False) = ''False''"
| "scalar_str (SInt i) = int_text i"
| "scalar_str (SStr s) = s"

text \<open>\<open>bool(meta.get(k))\<close>, and \<open>str(meta.get(k) or "").strip()\<close>.\<close>

definition meta_flag :: "meta \<Rightarrow> string \<Rightarrow> bool" where
  "meta_flag m k = (case dget m k of None \<Rightarrow> False | Some v \<Rightarrow> scalar_truthy v)"

definition meta_text :: "meta \<Rightarrow> string \<Rightarrow> string" where
  "meta_text m k = (case dget m k of
      None \<Rightarrow> []
    | Some v \<Rightarrow> if scalar_truthy v then py_strip (scalar_str v) else [])"

text \<open>
  \<open>int(s)\<close>: surrounding white space, an optional sign, digits with single underscores
  between digits. \<open>None\<close> stands for the \<open>ValueError\<close>.
\<close>

fun digits_value :: "nat \<Rightarrow> bool \<Rightarrow> string \<Rightarrow> nat option" where
  "digits_value acc prev [] = (if prev then Some acc else None)"
| "digits_value acc prev (c # cs) =
     (if is_digit c then digits_value (10 * acc + digit_val c) True cs
      else if c = CHR ''_'' \<and> prev then digits_value acc False cs
      else None)"

definition py_int :: "string \<Rightarrow> int option" where
  "py_int s = (case py_strip s of
      [] \<Rightarrow> None
    | c # cs \<Rightarrow>
        if c = CHR ''-'' then map_option (\<lambda>n. - int n) (digits_value 0 False cs)
        else if c = CHR ''+'' then map_option int (digits_value 0 False cs)
        else map_option int (digits_value 0 False (c # cs)))"

lemma of_char_digit_char [simp]: "n < 10 \<Longrightarrow> (of_char (digit_char n) :: nat) = 48 + n"
  by (simp add: digit_char_def)

lemma is_digit_digit_char [simp]: "n < 10 \<Longrightarrow> is_digit (digit_char n)"
  by (simp add: is_digit_def)

lemma digit_val_digit_char [simp]: "n < 10 \<Longrightarrow> digit_val (digit_char n) = n"
  by (simp add: digit_val_def)

lemma nat_text_digits: "\<forall>c \<in> set (nat_text n). is_digit c"
proof (induction n rule: nat_text.induct)
  case (1 n)
  then show ?case by (cases "n < 10") (auto simp: nat_text.simps [of n])
qed

lemma nat_text_nonempty [simp]: "nat_text n \<noteq> []"
  by (simp add: nat_text.simps [of n])

lemma digits_value_append:
  "\<forall>c \<in> set a. is_digit c \<Longrightarrow> a \<noteq> [] \<or> prev \<Longrightarrow>
   digits_value acc prev (a @ b) =
     digits_value (foldl (\<lambda>v c. 10 * v + digit_val c) acc a) True b"
  by (induction a arbitrary: acc prev) auto

lemma foldl_nat_text: "foldl (\<lambda>v c. 10 * v + digit_val c) 0 (nat_text n) = n"
proof (induction n rule: nat_text.induct)
  case (1 n)
  then show ?case by (cases "n < 10") (auto simp: nat_text.simps [of n])
qed

lemma digits_value_nat_text [simp]: "digits_value 0 False (nat_text n) = Some n"
  using digits_value_append [OF nat_text_digits, of n False 0 "[]"]
  by (simp add: foldl_nat_text)

lemma is_digit_not_space: "is_digit c \<Longrightarrow> \<not> is_space c"
  by (auto simp: is_digit_def is_space_def Let_def)

lemma is_digit_not_sign: "is_digit c \<Longrightarrow> c \<noteq> CHR ''-'' \<and> c \<noteq> CHR ''+''"
  by (auto simp: is_digit_def Let_def)

lemma int_text_chars: "\<forall>c \<in> set (int_text i). is_digit c \<or> c = CHR ''-''"
  using nat_text_digits by (auto simp: int_text_def)

lemma int_text_nonempty [simp]: "int_text i \<noteq> []"
  by (simp add: int_text_def)

lemma int_text_no_space: "c \<in> set (int_text i) \<Longrightarrow> \<not> is_space c"
  using int_text_chars [of i] is_digit_not_space
  by (auto simp: is_space_def Let_def)

lemma py_strip_int_text [simp]: "py_strip (int_text i) = int_text i"
  by (rule py_strip_of_id) (use int_text_no_space hd_in_set last_in_set int_text_nonempty in blast)

text \<open>Truncation towards zero, \<open>int(q)\<close> of a float.\<close>

definition py_trunc :: "rat \<Rightarrow> int" where
  "py_trunc q = (if q < 0 then - \<lfloor>- q\<rfloor> else \<lfloor>q\<rfloor>)"

theorem py_int_int_text [simp]: "py_int (int_text i) = Some i"
proof (cases "i < 0")
  case True
  then show ?thesis
    using py_strip_int_text [of i] by (simp add: py_int_def int_text_def)
next
  case False
  obtain c cs where c: "nat_text (nat i) = c # cs"
    using nat_text_nonempty by (cases "nat_text (nat i)") auto
  then have "is_digit c" using nat_text_digits [of "nat i"] by auto
  moreover have "py_strip (nat_text (nat i)) = nat_text (nat i)"
    using False py_strip_int_text [of i] by (simp add: int_text_def)
  ultimately show ?thesis
    using False c digits_value_nat_text [of "nat i"] is_digit_not_sign [of c]
    by (simp add: py_int_def int_text_def)
qed

section \<open>Text of a value\<close>

text \<open>
  \<open>repr(s)\<close> of a string, and \<open>repr(v)\<close> and \<open>str(v)\<close> of a decoded JSON value. The shortest
  decimal text of a float is the argument \<open>ftext\<close>.
\<close>

definition hex_digit :: "nat \<Rightarrow> char" where
  "hex_digit n = (if n < 10 then char_of (48 + n) else char_of (87 + n))"

definition repr_char :: "char \<Rightarrow> char \<Rightarrow> string" where
  "repr_char q c =
     (let n = of_char c :: nat; b = CHR 0x5C in
      if c = q \<or> c = b then [b, c]
      else if n = 10 then [b, CHR ''n'']
      else if n = 13 then [b, CHR ''r'']
      else if n = 9 then [b, CHR ''t'']
      else if n < 32 \<or> (127 \<le> n \<and> n \<le> 160) \<or> n = 173
        then [b, CHR ''x'', hex_digit (n div 16), hex_digit (n mod 16)]
      else [c])"

definition str_repr :: "string \<Rightarrow> string" where
  "str_repr s =
     (let q = (if CHR 0x27 \<in> set s \<and> CHR 0x22 \<notin> set s then CHR 0x22 else CHR 0x27)
      in q # concat (map (repr_char q) s) @ [q])"

fun py_repr :: "(rat \<Rightarrow> string) \<Rightarrow> pyval \<Rightarrow> string" where
  "py_repr ftext PNone = ''None''"
| "py_repr ftext (PBool b) = (if b then ''True'' else ''False'')"
| "py_repr ftext (PInt i) = int_text i"
| "py_repr ftext (PFloat q) = ftext q"
| "py_repr ftext (PStr s) = str_repr s"
| "py_repr ftext (PList vs) = ''['' @ py_join '', '' (map (py_repr ftext) vs) @ '']''"
| "py_repr ftext (PDict d) =
     ''{'' @ py_join '', '' (map (\<lambda>(k, v). str_repr k @ '': '' @ py_repr ftext v) d) @ ''}''"

fun py_str :: "(rat \<Rightarrow> string) \<Rightarrow> pyval \<Rightarrow> string" where
  "py_str ftext (PStr s) = s"
| "py_str ftext v = py_repr ftext v"

text \<open>\<open>int(v)\<close> of a decoded JSON value.\<close>

fun int_of :: "pyval \<Rightarrow> py_error + int" where
  "int_of (PInt i) = Inr i"
| "int_of (PBool b) = Inr (if b then 1 else 0)"
| "int_of (PFloat q) = Inr (py_trunc q)"
| "int_of (PStr s) = (case py_int s of Some i \<Rightarrow> Inr i
     | None \<Rightarrow> Inl (ValueError (''invalid literal for int() with base 10: '' @ str_repr s)))"
| "int_of _ = Inl TypeError"

section \<open>Searching and sorting\<close>

lemma find_split:
  "find p xs = Some c \<longleftrightarrow> (\<exists>before rest. xs = before @ c # rest \<and> p c \<and> (\<forall>d \<in> set before. \<not> p d))"
proof (induction xs)
  case (Cons a xs)
  show ?case
  proof (cases "p a")
    case True
    then show ?thesis by (auto simp: Cons_eq_append_conv)
  next
    case False
    show ?thesis (is "?l \<longleftrightarrow> ?r")
    proof
      assume ?l
      then obtain before rest where "xs = before @ c # rest" "p c" "\<forall>d \<in> set before. \<not> p d"
        using False Cons by auto
      then have "a # xs = (a # before) @ c # rest \<and> p c \<and> (\<forall>d \<in> set (a # before). \<not> p d)"
        using False by simp
      then show ?r by blast
    next
      assume ?r
      then obtain before rest where r: "a # xs = before @ c # rest" "p c" "\<forall>d \<in> set before. \<not> p d"
        by blast
      then obtain before' where "before = a # before'" using False by (cases before) auto
      with r Cons False show ?l by auto
    qed
  qed
qed simp

lemma find_None: "find p xs = None \<longleftrightarrow> (\<forall>x \<in> set xs. \<not> p x)"
  by (induction xs) auto

lemma sort_key_eq_Nil [simp]: "sort_key f xs = [] \<longleftrightarrow> xs = []"
  by (metis length_0_conv length_sort)

lemma filter_append_mset: "mset (filter p xs @ filter (\<lambda>x. \<not> p x) xs) = mset xs"
  by (induction xs) auto

end
