(* ===== verification/Sql_Table.thy ===== *)
theory Sql_Table
  imports Prelude
begin

text \<open>
  The few SQL statement shapes of \<^verbatim>\<open>src/nightshift/manager/store.py\<close> over a
  table as the list of its rows in insertion order, and the contract of the
  \<open>INSERT ... ON CONFLICT (key) DO UPDATE\<close> statement as a locale that the store's upserts
  interpret.
\<close>

section \<open>Statements\<close>

definition sql_update :: "('r \<Rightarrow> bool) \<Rightarrow> ('r \<Rightarrow> 'r) \<Rightarrow> 'r list \<Rightarrow> 'r list" where
  "sql_update p f rows = map (\<lambda>r. if p r then f r else r) rows"

definition sql_delete :: "('r \<Rightarrow> bool) \<Rightarrow> 'r list \<Rightarrow> 'r list" where
  "sql_delete p rows = filter (\<lambda>r. \<not> p r) rows"

definition sql_upsert :: "('r \<Rightarrow> 'k) \<Rightarrow> 'k \<Rightarrow> 'r \<Rightarrow> ('r \<Rightarrow> 'r) \<Rightarrow> 'r list \<Rightarrow> 'r list" where
  "sql_upsert key k fresh f rows =
     (if k \<in> set (map key rows) then sql_update (\<lambda>r. key r = k) f rows else rows @ [fresh])"

definition find_row :: "('r \<Rightarrow> 'k) \<Rightarrow> 'k \<Rightarrow> 'r list \<Rightarrow> 'r option" where
  "find_row key k rows = find (\<lambda>r. key r = k) rows"

section \<open>Facts\<close>

named_theorems sql_simps \<open>reading a table after a statement\<close>

lemma set_sql_update: "set (sql_update p f rows) = (\<lambda>r. if p r then f r else r) ` set rows"
  by (simp add: sql_update_def)

lemma set_sql_delete [simp]: "set (sql_delete p rows) = {r \<in> set rows. \<not> p r}"
  by (auto simp: sql_delete_def)

lemma keys_sql_update:
  "(\<And>r. r \<in> set rows \<Longrightarrow> p r \<Longrightarrow> key (f r) = key r) \<Longrightarrow> map key (sql_update p f rows) = map key rows"
  by (simp add: sql_update_def)

lemma distinct_sql_update:
  "(\<And>r. r \<in> set rows \<Longrightarrow> p r \<Longrightarrow> key (f r) = key r) \<Longrightarrow> distinct (map key rows) \<Longrightarrow>
   distinct (map key (sql_update p f rows))"
  by (simp add: keys_sql_update)

lemma distinct_sql_delete: "distinct (map key rows) \<Longrightarrow> distinct (map key (sql_delete p rows))"
  by (simp add: sql_delete_def distinct_map_filter)

lemma find_row_Some: "find_row key k rows = Some r \<Longrightarrow> r \<in> set rows \<and> key r = k"
  by (auto simp: find_row_def find_Some_iff)

lemma find_row_None: "find_row key k rows = None \<longleftrightarrow> k \<notin> set (map key rows)"
  by (auto simp: find_row_def find_None_iff)

lemma find_row_unique:
  assumes "distinct (map key rows)" "r \<in> set rows" "key r = k"
  shows "find_row key k rows = Some r"
proof -
  obtain r' where r': "find_row key k rows = Some r'"
    using assms(2,3) find_row_None [of key k rows] by (cases "find_row key k rows") auto
  then have "r' \<in> set rows" "key r' = key r" using find_row_Some assms(3) by fastforce+
  then have "r' = r" using assms(1,2) by (metis distinct_map inj_onD)
  with r' show ?thesis by simp
qed

lemma find_row_append:
  "find_row key k (rows @ more) =
     (case find_row key k rows of None \<Rightarrow> find_row key k more | Some r \<Rightarrow> Some r)"
  by (induction rows) (auto simp: find_row_def)

lemma find_row_sql_update:
  "(\<And>r. r \<in> set rows \<Longrightarrow> p r \<Longrightarrow> key (f r) = key r) \<Longrightarrow>
   find_row key k (sql_update p f rows) =
     map_option (\<lambda>r. if p r then f r else r) (find_row key k rows)"
  by (induction rows) (auto simp: find_row_def sql_update_def)

lemma find_row_sql_delete_other:
  "(\<And>r. key r = k \<Longrightarrow> \<not> p r) \<Longrightarrow> find_row key k (sql_delete p rows) = find_row key k rows"
  by (induction rows) (auto simp: find_row_def sql_delete_def)

lemma find_row_sql_delete:
  assumes "distinct (map key rows)"
  shows "find_row key k (sql_delete p rows) =
    (case find_row key k rows of None \<Rightarrow> None | Some r \<Rightarrow> if p r then None else Some r)"
  using assms
proof (induction rows)
  case (Cons r rows)
  show ?case
  proof (cases "key r = k")
    case True
    then have "find_row key k (sql_delete p rows) = None"
      using Cons.prems by (auto simp: find_row_None)
    with True show ?thesis by (auto simp: find_row_def sql_delete_def)
  qed (use Cons in \<open>auto simp: find_row_def sql_delete_def\<close>)
qed (simp add: find_row_def sql_delete_def)

section \<open>The upsert contract\<close>

text \<open>
  \<open>fresh k a\<close> is the row the \<open>VALUES\<close> clause builds for key \<open>k\<close> and arguments \<open>a\<close>;
  \<open>merge a\<close> is the \<open>DO UPDATE SET\<close> clause.
\<close>

locale upsert_table =
  fixes key :: "'r \<Rightarrow> 'k" and fresh :: "'k \<Rightarrow> 'a \<Rightarrow> 'r" and merge :: "'a \<Rightarrow> 'r \<Rightarrow> 'r"
  assumes key_fresh: "key (fresh k a) = k"
    and key_merge: "key (merge a r) = key r"
begin

lemma upsert_lookup:
  "find_row key k' (sql_upsert key k (fresh k a) (merge a) rows) =
     (if k' = k
      then Some (case find_row key k rows of None \<Rightarrow> fresh k a | Some r \<Rightarrow> merge a r)
      else find_row key k' rows)"
proof (cases "k \<in> set (map key rows)")
  case True
  then obtain r where r: "find_row key k rows = Some r"
    using find_row_None [of key k rows] by (cases "find_row key k rows") auto
  have "find_row key k' (sql_update (\<lambda>r. key r = k) (merge a) rows) =
      map_option (\<lambda>r. if key r = k then merge a r else r) (find_row key k' rows)"
    by (rule find_row_sql_update) (rule key_merge)
  moreover have "map_option (\<lambda>r. if key r = k then merge a r else r) (find_row key k' rows)
      = find_row key k' rows" if "k' \<noteq> k"
    using that find_row_Some [of key k' rows] by (cases "find_row key k' rows") auto
  ultimately show ?thesis
    using True r find_row_Some [of key k rows] by (auto simp: sql_upsert_def)
next
  case False
  then have "find_row key k rows = None" using find_row_None [of key k rows] by blast
  moreover have "find_row key k' [fresh k a] = (if k' = k then Some (fresh k a) else None)"
    by (simp add: find_row_def key_fresh)
  ultimately show ?thesis
    using False by (auto simp: sql_upsert_def find_row_append split: option.splits)
qed

lemma upsert_keys:
  "set (map key (sql_upsert key k (fresh k a) (merge a) rows)) = insert k (set (map key rows))"
proof (cases "k \<in> set (map key rows)")
  case True
  then show ?thesis by (auto simp: sql_upsert_def keys_sql_update key_merge simp del: set_map)
qed (simp add: sql_upsert_def key_fresh)

lemma upsert_distinct:
  "distinct (map key rows) \<Longrightarrow> distinct (map key (sql_upsert key k (fresh k a) (merge a) rows))"
  by (auto simp: sql_upsert_def key_fresh key_merge intro: distinct_sql_update)

text \<open>The invariant shape: distinct keys, and a predicate of every row.\<close>

lemma upsert_invariant:
  assumes "distinct (map key rows) \<and> (\<forall>r \<in> set rows. P r)" "P (fresh k a)"
    and "\<And>r. P r \<Longrightarrow> P (merge a r)"
  shows "distinct (map key (sql_upsert key k (fresh k a) (merge a) rows)) \<and>
    (\<forall>r \<in> set (sql_upsert key k (fresh k a) (merge a) rows). P r)"
  using assms upsert_distinct [of rows k a] by (auto simp: sql_upsert_def set_sql_update)

end

end
