(* ===== verification/Workflows.thy ===== *)
theory Workflows
  imports Prelude
begin

text \<open>
  The workflow definition layer of \<^verbatim>\<open>src/nightshift/workflows.py\<close>: the step
  and definition types, the parser and validator over decoded JSON, the role-to-model ladder,
  routing, and the visit counters. Each \<open>raise WorkflowError\<close> site is a constructor of
  \<open>workflow_error\<close>; reading a file is a parameter.
\<close>

section \<open>Definitions\<close>

datatype step_kind = DOC | CODE | SPLIT

fun step_kind_value :: "step_kind \<Rightarrow> string" where
  "step_kind_value DOC = ''doc''"
| "step_kind_value CODE = ''code''"
| "step_kind_value SPLIT = ''split''"

definition step_kind_of :: "pyval \<Rightarrow> step_kind option" where
  "step_kind_of v =
     (if v = PStr ''doc'' then Some DOC
      else if v = PStr ''code'' then Some CODE
      else if v = PStr ''split'' then Some SPLIT else None)"

definition END :: string where
  "END = ''$end''"

datatype workflow_error =
    StepNotObject nat
  | StepMissingId nat
  | StepInvalidKind string
  | StepMissingRole string
  | StepBadInputs string
  | StepBadMaxTurns string
  | StepBadSignals string
  | StepBadNext string
  | StepBadMaxVisits string
  | StepBadPrompt string
  | StepBadOutput string
  | StepIndexError
  | DefNotObject
  | DefMissingName
  | DefBadSteps string
  | DuplicateStepIds string
  | DocNeedsPromptAndOutput string
  | MustNotSetPromptOutput string
  | UnknownDestination string string
  | SplitMustRouteToEnd string string
  | UnknownInput string string
  | DefaultPathOpen string
  | CycleWithoutVisits string
  | NoSuchStep string string
  | UnknownPrompt string string
  | LoadFailed string

text \<open>\<open>max_turns\<close>: the key absent (inherit), or an explicit null or integer.\<close>

datatype turns_spec = INHERIT | Turns "int option"

record workflow_step =
  ws_id :: string
  ws_kind :: step_kind
  ws_role :: string
  ws_inputs :: "string list"
  ws_prompt :: "string option"
  ws_output :: "string option"
  ws_max_turns :: turns_spec
  ws_signals :: "(string \<times> string) list"
  ws_next :: string
  ws_max_visits :: int
  ws_max_visits_declared :: bool

record workflow_def =
  wf_name :: string
  wf_steps :: "workflow_step list"

definition find_step :: "workflow_def \<Rightarrow> string \<Rightarrow> workflow_step option" where
  "find_step w sid = find (\<lambda>s. ws_id s = sid) (wf_steps w)"

definition wf_step :: "workflow_def \<Rightarrow> string \<Rightarrow> workflow_error + workflow_step" where
  "wf_step w sid =
     (case find_step w sid of None \<Rightarrow> Inl (NoSuchStep (wf_name w) sid) | Some s \<Rightarrow> Inr s)"

definition wf_has_step :: "workflow_def \<Rightarrow> string \<Rightarrow> bool" where
  "wf_has_step w sid \<longleftrightarrow> (\<exists>s \<in> set (wf_steps w). ws_id s = sid)"

definition step_ids :: "workflow_def \<Rightarrow> string list" where
  "step_ids w = map ws_id (wf_steps w)"

section \<open>Parsing\<close>

text \<open>The \<open>next\<close> of a parsed step, before the list neighbours are known.\<close>

datatype next_dest = NEXT_IN_LIST | Dest string

fun strings_of :: "pyval list \<Rightarrow> string list option" where
  "strings_of [] = Some []"
| "strings_of (PStr s # vs) = map_option ((#) s) (strings_of vs)"
| "strings_of _ = None"

fun string_map_of :: "pydict \<Rightarrow> (string \<times> string) list option" where
  "string_map_of [] = Some []"
| "string_map_of ((k, PStr s) # d) = map_option ((#) (k, s)) (string_map_of d)"
| "string_map_of _ = None"

text \<open>One field each, in the order the parser checks them.\<close>

definition parse_inputs :: "string \<Rightarrow> pydict \<Rightarrow> workflow_error + string list" where
  "parse_inputs sid raw = (case dget raw ''inputs'' of
      None \<Rightarrow> Inr []
    | Some (PList vs) \<Rightarrow> (case strings_of vs of None \<Rightarrow> Inl (StepBadInputs sid) | Some xs \<Rightarrow> Inr xs)
    | Some _ \<Rightarrow> Inl (StepBadInputs sid))"

definition parse_max_turns :: "string \<Rightarrow> pydict \<Rightarrow> workflow_error + turns_spec" where
  "parse_max_turns sid raw = (case dget raw ''max_turns'' of
      None \<Rightarrow> Inr INHERIT
    | Some PNone \<Rightarrow> Inr (Turns None)
    | Some (PInt i) \<Rightarrow> Inr (Turns (Some i))
    | Some _ \<Rightarrow> Inl (StepBadMaxTurns sid))"

definition parse_signals :: "string \<Rightarrow> pydict \<Rightarrow> workflow_error + (string \<times> string) list" where
  "parse_signals sid raw = (case dget raw ''signals'' of
      None \<Rightarrow> Inr []
    | Some (PDict d) \<Rightarrow> (case string_map_of d of None \<Rightarrow> Inl (StepBadSignals sid) | Some m \<Rightarrow> Inr m)
    | Some _ \<Rightarrow> Inl (StepBadSignals sid))"

definition parse_next :: "string \<Rightarrow> pydict \<Rightarrow> nat \<Rightarrow> nat \<Rightarrow> workflow_error + next_dest" where
  "parse_next sid raw index n_steps = (case dget raw ''next'' of
      None \<Rightarrow> Inr (if Suc index = n_steps then Dest END else NEXT_IN_LIST)
    | Some (PStr s) \<Rightarrow> Inr (Dest s)
    | Some _ \<Rightarrow> Inl (StepBadNext sid))"

definition parse_max_visits :: "string \<Rightarrow> pydict \<Rightarrow> workflow_error + (int \<times> bool)" where
  "parse_max_visits sid raw = (case dget raw ''max_visits'' of
      None \<Rightarrow> Inr (1, False)
    | Some PNone \<Rightarrow> Inr (1, False)
    | Some (PInt i) \<Rightarrow> Inr (i, True)
    | Some _ \<Rightarrow> Inl (StepBadMaxVisits sid))"

definition parse_opt_string ::
  "workflow_error \<Rightarrow> pydict \<Rightarrow> string \<Rightarrow> workflow_error + string option" where
  "parse_opt_string err raw key = (case dget raw key of
      None \<Rightarrow> Inr None
    | Some PNone \<Rightarrow> Inr None
    | Some (PStr s) \<Rightarrow> Inr (Some s)
    | Some _ \<Rightarrow> Inl err)"

definition nonempty_string :: "workflow_error \<Rightarrow> pydict \<Rightarrow> string \<Rightarrow> workflow_error + string" where
  "nonempty_string err raw key = (case dget raw key of
      Some (PStr s) \<Rightarrow> if s = [] then Inl err else Inr s
    | _ \<Rightarrow> Inl err)"

definition parse_step ::
  "pyval \<Rightarrow> nat \<Rightarrow> nat \<Rightarrow> workflow_error + (workflow_step \<times> next_dest)" where
  "parse_step rawv index n_steps = (case rawv of
      PDict raw \<Rightarrow>
        bind_result (nonempty_string (StepMissingId index) raw ''id'') (\<lambda>sid.
        bind_result (case dget raw ''kind'' of
            None \<Rightarrow> Inl (StepInvalidKind sid)
          | Some v \<Rightarrow> (case step_kind_of v of None \<Rightarrow> Inl (StepInvalidKind sid) | Some k \<Rightarrow> Inr k))
          (\<lambda>kind.
        bind_result (nonempty_string (StepMissingRole sid) raw ''role'') (\<lambda>role.
        bind_result (parse_inputs sid raw) (\<lambda>inputs.
        bind_result (parse_max_turns sid raw) (\<lambda>max_turns.
        bind_result (parse_signals sid raw) (\<lambda>signals.
        bind_result (parse_next sid raw index n_steps) (\<lambda>nxt.
        bind_result (parse_max_visits sid raw) (\<lambda>(max_visits, declared).
        bind_result (parse_opt_string (StepBadPrompt sid) raw ''prompt'') (\<lambda>prompt.
        bind_result (parse_opt_string (StepBadOutput sid) raw ''output'') (\<lambda>out.
          Inr (\<lparr>ws_id = sid, ws_kind = kind, ws_role = role, ws_inputs = inputs,
                ws_prompt = prompt, ws_output = out, ws_max_turns = max_turns,
                ws_signals = signals, ws_next = END, ws_max_visits = max_visits,
                ws_max_visits_declared = declared\<rparr>, nxt)))))))))))
    | _ \<Rightarrow> Inl (StepNotObject index))"

text \<open>Resolve a defaulted \<open>next\<close> to the id of the following step.\<close>

fun resolve_next :: "(workflow_step \<times> next_dest) list \<Rightarrow> workflow_error + workflow_step list" where
  "resolve_next [] = Inr []"
| "resolve_next ((s, Dest d) # rest) =
     bind_result (resolve_next rest) (\<lambda>ss. Inr (s\<lparr>ws_next := d\<rparr> # ss))"
| "resolve_next ((s, NEXT_IN_LIST) # (s', d') # rest) =
     bind_result (resolve_next ((s', d') # rest)) (\<lambda>ss. Inr (s\<lparr>ws_next := ws_id s'\<rparr> # ss))"
| "resolve_next [(s, NEXT_IN_LIST)] = Inl StepIndexError"

section \<open>Validation\<close>

definition destinations :: "workflow_step \<Rightarrow> string list" where
  "destinations step = dvalues (ws_signals step) @ [ws_next step]"

definition opt_truthy :: "string option \<Rightarrow> bool" where
  "opt_truthy s \<longleftrightarrow> (case s of None \<Rightarrow> False | Some x \<Rightarrow> x \<noteq> [])"

definition check_step :: "string list \<Rightarrow> workflow_step \<Rightarrow> workflow_error + unit" where
  "check_step ids step =
     bind_result
       (if ws_kind step = DOC then
          if \<not> opt_truthy (ws_prompt step) \<or> \<not> opt_truthy (ws_output step)
          then Inl (DocNeedsPromptAndOutput (ws_id step)) else Inr ()
        else
          if ws_prompt step \<noteq> None \<or> ws_output step \<noteq> None
          then Inl (MustNotSetPromptOutput (ws_id step)) else Inr ()) (\<lambda>_.
     bind_result
       (each_ok (\<lambda>dest. if dest \<noteq> END \<and> dest \<notin> set ids
                        then Inl (UnknownDestination (ws_id step) dest) else Inr ())
          (destinations step)) (\<lambda>_.
       if ws_kind step = SPLIT then
         each_ok (\<lambda>dest. if dest \<noteq> END then Inl (SplitMustRouteToEnd (ws_id step) dest)
                         else Inr ()) (destinations step)
       else Inr ()))"

fun check_inputs :: "string list \<Rightarrow> workflow_step list \<Rightarrow> workflow_error + unit" where
  "check_inputs produced [] = Inr ()"
| "check_inputs produced (step # rest) =
     bind_result
       (each_ok (\<lambda>inp. if inp \<notin> set produced then Inl (UnknownInput (ws_id step) inp)
                       else Inr ()) (ws_inputs step))
       (\<lambda>_. check_inputs
          (case ws_output step of
             Some out \<Rightarrow> if out \<noteq> [] then out # produced else produced
           | None \<Rightarrow> produced) rest)"

text \<open>
  The default path: follow \<open>next\<close> from a step, remembering the ids seen. It stops because
  every round either ends or adds a new id of the definition to \<open>seen\<close>.
\<close>

lemma find_step_SomeD: "find_step w sid = Some s \<Longrightarrow> s \<in> set (wf_steps w) \<and> ws_id s = sid"
  by (auto simp: find_step_def find_Some_iff)

lemma find_step_in_ids: "find_step w sid = Some s \<Longrightarrow> sid \<in> set (step_ids w)"
  by (auto simp: step_ids_def dest: find_step_SomeD)

lemma card_diff_insert_less:
  "x \<in> set xs \<Longrightarrow> x \<notin> A \<Longrightarrow> card (set xs - insert x A) < card (set xs - A)"
  by (intro psubset_card_mono) auto

function default_path :: "workflow_def \<Rightarrow> string list \<Rightarrow> string \<Rightarrow> workflow_error + unit" where
  "default_path w seen cur =
     (if cur = END \<or> cur \<in> set seen then Inl (DefaultPathOpen (wf_name w))
      else case find_step w cur of
          None \<Rightarrow> Inl (NoSuchStep (wf_name w) cur)
        | Some step \<Rightarrow>
            if ws_kind step = CODE \<or> ws_kind step = SPLIT then Inr ()
            else default_path w (cur # seen) (ws_next step))"
  by pat_completeness auto
termination
  by (relation "measure (\<lambda>(w, seen, cur). card (set (step_ids w) - set seen))")
    (auto dest!: find_step_in_ids intro: card_diff_insert_less)

declare default_path.simps [simp del]

definition check_default_path :: "workflow_def \<Rightarrow> workflow_error + unit" where
  "check_default_path w =
     (case wf_steps w of [] \<Rightarrow> Inl StepIndexError | s # _ \<Rightarrow> default_path w [] (ws_id s))"

text \<open>
  The worklist search for the steps reachable from a step. The Python stack grows at its end;
  here its top is the head of the list, so \<open>extend\<close> pushes the reversed successors.
\<close>

type_synonym edge_map = "(string \<times> string list) list"

definition edges_of :: "workflow_def \<Rightarrow> edge_map" where
  "edges_of w =
     fold (\<lambda>step d. dset d (ws_id step) (filter (\<lambda>x. x \<noteq> END) (destinations step)))
       (wf_steps w) []"

definition succs :: "edge_map \<Rightarrow> string \<Rightarrow> string list" where
  "succs edges node = dget_or edges node []"

definition targets :: "edge_map \<Rightarrow> string list" where
  "targets edges = concat (dvalues edges)"

lemma succs_subset_targets: "set (succs edges n) \<subseteq> set (targets edges)"
proof (cases "dget edges n")
  case (Some xs)
  then have "(n, xs) \<in> set edges" by (rule map_of_SomeD)
  then show ?thesis using Some by (force simp: succs_def targets_def dget_or_def)
qed (simp add: succs_def dget_or_def)

function search :: "edge_map \<Rightarrow> string list \<Rightarrow> string list \<Rightarrow> string list" where
  "search edges seen [] = seen"
| "search edges seen (node # stack) =
     (if node \<in> set seen then search edges seen stack
      else search edges (node # seen) (rev (succs edges node) @ stack))"
  by pat_completeness auto
termination
proof (relation "measures [\<lambda>(edges, seen, stack).
    card ((set stack \<union> set (targets edges)) - set seen), \<lambda>(edges, seen, stack). length stack]")
  show "wf (measures [\<lambda>(edges :: edge_map, seen, stack).
      card ((set stack \<union> set (targets edges)) - set seen), \<lambda>(edges, seen, stack). length stack])"
    by simp
next
  fix edges :: edge_map and seen stack :: "string list" and node
  assume "node \<in> set seen"
  then have "(set stack \<union> set (targets edges)) - set seen
      = (set (node # stack) \<union> set (targets edges)) - set seen" by auto
  then show "((edges, seen, stack), (edges, seen, node # stack)) \<in> measures [\<lambda>(edges, seen, stack).
      card ((set stack \<union> set (targets edges)) - set seen), \<lambda>(edges, seen, stack). length stack]"
    by simp
next
  fix edges :: edge_map and seen stack :: "string list" and node
  assume new: "node \<notin> set seen"
  let ?new = "(set (rev (succs edges node) @ stack) \<union> set (targets edges)) - set (node # seen)"
  let ?old = "(set (node # stack) \<union> set (targets edges)) - set seen"
  have "?new \<subset> ?old" using new succs_subset_targets [of edges node] by auto
  then have "card ?new < card ?old" by (intro psubset_card_mono) auto
  then show "((edges, node # seen, rev (succs edges node) @ stack), (edges, seen, node # stack))
      \<in> measures [\<lambda>(edges, seen, stack). card ((set stack \<union> set (targets edges)) - set seen),
          \<lambda>(edges, seen, stack). length stack]" by simp
qed

definition reachable_from :: "edge_map \<Rightarrow> string \<Rightarrow> string list" where
  "reachable_from edges start = search edges [] (rev (succs edges start))"

definition check_cycles :: "workflow_def \<Rightarrow> workflow_error + unit" where
  "check_cycles w =
     (let edges = edges_of w in
      each_ok (\<lambda>step. if ws_id step \<in> set (reachable_from edges (ws_id step))
                         \<and> \<not> ws_max_visits_declared step
                      then Inl (CycleWithoutVisits (ws_id step)) else Inr ()) (wf_steps w))"

definition validate :: "workflow_def \<Rightarrow> workflow_error + unit" where
  "validate w =
     bind_result (if distinct (step_ids w) then Inr () else Inl (DuplicateStepIds (wf_name w)))
       (\<lambda>_.
     bind_result (each_ok (check_step (step_ids w)) (wf_steps w)) (\<lambda>_.
     bind_result (check_inputs [''brief''] (wf_steps w)) (\<lambda>_.
     bind_result (check_default_path w) (\<lambda>_.
       check_cycles w))))"

definition parse_workflow :: "pyval \<Rightarrow> workflow_error + workflow_def" where
  "parse_workflow rawv = (case rawv of
      PDict raw \<Rightarrow>
        bind_result (nonempty_string DefMissingName raw ''name'') (\<lambda>name.
        bind_result (case dget raw ''steps'' of
            Some (PList steps) \<Rightarrow> if steps = [] then Inl (DefBadSteps name) else Inr steps
          | _ \<Rightarrow> Inl (DefBadSteps name)) (\<lambda>steps.
        bind_result (map_result (\<lambda>(i, s). parse_step s i (length steps)) (enumerate 0 steps))
          (\<lambda>parsed.
        bind_result (resolve_next parsed) (\<lambda>resolved.
          let w = \<lparr>wf_name = name, wf_steps = resolved\<rparr> in
          bind_result (validate w) (\<lambda>_. Inr w)))))
    | _ \<Rightarrow> Inl DefNotObject)"

section \<open>Prompt references and loading\<close>

definition check_prompt_refs :: "workflow_def \<Rightarrow> (string \<Rightarrow> bool) \<Rightarrow> workflow_error + unit" where
  "check_prompt_refs w exists =
     each_ok (\<lambda>step. case ws_prompt step of
         Some p \<Rightarrow> if ws_kind step = DOC \<and> p \<noteq> [] \<and> \<not> exists p
                   then Inl (UnknownPrompt (ws_id step) p) else Inr ()
       | None \<Rightarrow> Inr ()) (wf_steps w)"

text \<open>
  A directory of files is the list of its \<open>(name, content)\<close> pairs in the order \<open>sorted\<close> gives
  them; the content of an unreadable file, or of one that is no JSON, is \<^const>\<open>None\<close>.
\<close>

type_synonym file_dir = "(string \<times> string option) list"
type_synonym json_dir = "(string \<times> pyval option) list"

definition prompt_path :: "file_dir \<Rightarrow> file_dir \<Rightarrow> string \<Rightarrow> string option option" where
  "prompt_path op shipped name =
     (case dget op name of
        Some body \<Rightarrow> Some body
      | None \<Rightarrow> (case dget shipped name of Some body \<Rightarrow> Some body | None \<Rightarrow> None))"

definition prompt_exists :: "file_dir \<Rightarrow> file_dir \<Rightarrow> string \<Rightarrow> bool" where
  "prompt_exists op shipped name \<longleftrightarrow> prompt_path op shipped name \<noteq> None"

definition resolve_prompt_text :: "file_dir \<Rightarrow> file_dir \<Rightarrow> string \<Rightarrow> string option" where
  "resolve_prompt_text op shipped name =
     (case prompt_path op shipped name of None \<Rightarrow> None | Some body \<Rightarrow> body)"

definition load_file :: "string \<times> pyval option \<Rightarrow> workflow_error + workflow_def" where
  "load_file f = (case f of (path, content) \<Rightarrow>
     (case content of None \<Rightarrow> Inl (LoadFailed path) | Some raw \<Rightarrow> parse_workflow raw))"

fun load_dir ::
  "(string \<times> workflow_def) list \<Rightarrow> json_dir \<Rightarrow> workflow_error + (string \<times> workflow_def) list" where
  "load_dir defs [] = Inr defs"
| "load_dir defs (f # fs) =
     bind_result (load_file f) (\<lambda>w. load_dir (dset defs (wf_name w) w) fs)"

definition load_workflows ::
  "json_dir \<Rightarrow> json_dir \<Rightarrow> bool \<Rightarrow> (string \<Rightarrow> bool) \<Rightarrow>
   workflow_error + (string \<times> workflow_def) list" where
  "load_workflows shipped op check_prompts exists =
     bind_result (load_dir [] shipped) (\<lambda>defs0.
     bind_result (load_dir defs0 op) (\<lambda>defs.
     bind_result (if check_prompts
                  then each_ok (\<lambda>w. check_prompt_refs w exists) (dvalues defs) else Inr ())
       (\<lambda>_. Inr defs)))"

section \<open>Role to model, routing, visits\<close>

definition clean_opt :: "scalar option \<Rightarrow> string" where
  "clean_opt v = (case v of
      None \<Rightarrow> [] | Some SNone \<Rightarrow> [] | Some s \<Rightarrow> py_strip (scalar_str s))"

definition role_candidates ::
  "string \<Rightarrow> meta \<Rightarrow> meta \<Rightarrow> string \<Rightarrow> string \<Rightarrow> string list" where
  "role_candidates role brief_meta workflow_models planner_model default_model =
     (let queue_pin = clean_opt (dget workflow_models role) in
      if role = ''implementor'' then
        [clean_opt (dget brief_meta ''model''), queue_pin, py_strip default_model]
      else if role = ''planner'' then
        [clean_opt (dget brief_meta ''planner_model''), queue_pin, py_strip planner_model,
         py_strip default_model]
      else [queue_pin, py_strip default_model])"

definition resolve_role_model ::
  "string \<Rightarrow> meta \<Rightarrow> meta \<Rightarrow> string \<Rightarrow> string \<Rightarrow> string option" where
  "resolve_role_model role brief_meta workflow_models planner_model default_model =
     find (\<lambda>c. c \<noteq> [])
       (role_candidates role brief_meta workflow_models planner_model default_model)"

definition quoted :: "string \<Rightarrow> string" where
  "quoted s = CHR 0x27 # s @ [CHR 0x27]"

text \<open>The resolver's answer: an authoring error text, or workflow, step id and model.\<close>

definition make_resolver ::
  "(string \<times> workflow_def) list \<Rightarrow> string \<Rightarrow> string \<Rightarrow> meta \<Rightarrow> meta \<Rightarrow>
   string + (string \<times> string \<times> string)" where
  "make_resolver defs planner_model default_model m workflow_models =
     (let name = meta_text m ''workflow'' in
      case dget defs name of
        None \<Rightarrow> Inl (''unknown workflow '' @ quoted name)
      | Some w \<Rightarrow>
          let step_id = str_or (meta_text m ''workflow_step'')
                (case wf_steps w of [] \<Rightarrow> [] | s # _ \<Rightarrow> ws_id s)
          in case find_step w step_id of
               None \<Rightarrow> Inl (''workflow '' @ quoted name @ '' has no step '' @ quoted step_id)
             | Some step \<Rightarrow>
                 (case resolve_role_model (ws_role step) m workflow_models planner_model
                         default_model of
                    None \<Rightarrow> Inl (''workflow '' @ quoted name @ '' step '' @ quoted step_id @
                      '': cannot resolve model for role '' @ quoted (ws_role step))
                  | Some model \<Rightarrow> Inr (name, step_id, model)))"

definition step_max_turns :: "workflow_step \<Rightarrow> int option \<Rightarrow> int option" where
  "step_max_turns step inherited =
     (case ws_max_turns step of INHERIT \<Rightarrow> inherited | Turns t \<Rightarrow> t)"

definition route :: "workflow_step \<Rightarrow> string option \<Rightarrow> string" where
  "route step sig = (case sig of
      None \<Rightarrow> ws_next step
    | Some s \<Rightarrow> (case dget (ws_signals step) s of Some d \<Rightarrow> d | None \<Rightarrow> ws_next step))"

type_synonym visits = "(string \<times> int) list"

fun visit_chunks :: "visits \<Rightarrow> string list \<Rightarrow> visits" where
  "visit_chunks out [] = out"
| "visit_chunks out (chunk # chunks) =
     (let c = py_strip chunk in
      if c = [] then visit_chunks out chunks
      else (case py_partition (CHR '':'') c of (k, _, v) \<Rightarrow>
        let key = py_strip k in
        if key = [] then visit_chunks out chunks
        else (case py_int (py_strip v) of
            None \<Rightarrow> visit_chunks out chunks
          | Some n \<Rightarrow> visit_chunks (dset out key n) chunks)))"

definition parse_visits :: "string option \<Rightarrow> visits" where
  "parse_visits raw = (case raw of
      None \<Rightarrow> [] | Some s \<Rightarrow> if s = [] then [] else visit_chunks [] (py_split (CHR '','') s))"

definition visit_text :: "string \<times> int \<Rightarrow> string" where
  "visit_text kv = fst kv @ '':'' @ int_text (snd kv)"

definition format_visits :: "visits \<Rightarrow> string" where
  "format_visits visits = py_join '','' (map visit_text visits)"

section \<open>The definition invariant\<close>

text \<open>
  What a validated definition promises, stated over the graph it draws rather than over the
  checks: \<open>next_rel\<close> follows \<open>next\<close>, \<open>step_rel\<close> follows any destination.
\<close>

definition step_wf :: "workflow_def \<Rightarrow> workflow_step \<Rightarrow> bool" where
  "step_wf w s \<longleftrightarrow>
     (if ws_kind s = DOC then opt_truthy (ws_prompt s) \<and> opt_truthy (ws_output s)
      else ws_prompt s = None \<and> ws_output s = None) \<and>
     (\<forall>d \<in> set (destinations s). d = END \<or> d \<in> set (step_ids w) \<and> ws_kind s \<noteq> SPLIT)"

definition inputs_wf :: "workflow_def \<Rightarrow> bool" where
  "inputs_wf w \<longleftrightarrow>
     (\<forall>i < length (wf_steps w). \<forall>inp \<in> set (ws_inputs (wf_steps w ! i)).
        inp = ''brief'' \<or>
        (\<exists>j < i. inp \<noteq> [] \<and> ws_output (wf_steps w ! j) = Some inp))"

definition next_rel :: "workflow_def \<Rightarrow> (string \<times> string) set" where
  "next_rel w = {(a, b). a \<noteq> END \<and> (\<exists>s. find_step w a = Some s \<and> ws_next s = b)}"

definition step_rel :: "workflow_def \<Rightarrow> (string \<times> string) set" where
  "step_rel w = {(a, b). b \<noteq> END \<and> (\<exists>s \<in> set (wf_steps w). ws_id s = a \<and> b \<in> set (destinations s))}"

definition works_at :: "workflow_def \<Rightarrow> string \<Rightarrow> bool" where
  "works_at w a \<longleftrightarrow> a \<noteq> END \<and> (\<exists>s. find_step w a = Some s \<and> ws_kind s \<noteq> DOC)"

definition well_formed_workflow :: "workflow_def \<Rightarrow> bool" where
  "well_formed_workflow w \<longleftrightarrow>
     wf_steps w \<noteq> [] \<and> distinct (step_ids w) \<and>
     (\<forall>s \<in> set (wf_steps w). step_wf w s) \<and> inputs_wf w \<and>
     (\<exists>a. (ws_id (hd (wf_steps w)), a) \<in> (next_rel w)\<^sup>* \<and> works_at w a) \<and>
     (\<forall>s \<in> set (wf_steps w). (ws_id s, ws_id s) \<in> (step_rel w)\<^sup>+ \<longrightarrow> ws_max_visits_declared s)"

subsection \<open>The single checks\<close>

lemma check_step_iff: "check_step (step_ids w) s = Inr () \<longleftrightarrow> step_wf w s"
  by (cases "ws_kind s")
    (auto simp: check_step_def step_wf_def bind_result_eq_Inr_iff each_ok_Inr_iff split: if_splits)

lemma check_inputs_iff:
  "check_inputs produced steps = Inr () \<longleftrightarrow>
     (\<forall>i < length steps. \<forall>inp \<in> set (ws_inputs (steps ! i)).
        inp \<in> set produced \<or> (\<exists>j < i. inp \<noteq> [] \<and> ws_output (steps ! j) = Some inp))"
proof (induction produced steps rule: check_inputs.induct)
  case (1 produced)
  then show ?case by simp
next
  case (2 produced step rest)
  let ?p = "case ws_output step of
             Some out \<Rightarrow> if out \<noteq> [] then out # produced else produced
           | None \<Rightarrow> produced"
  have mem: "inp \<in> set ?p \<longleftrightarrow> inp \<in> set produced \<or> inp \<noteq> [] \<and> ws_output step = Some inp" for inp
    by (auto split: option.splits)
  have "check_inputs produced (step # rest) = Inr () \<longleftrightarrow>
      (\<forall>inp \<in> set (ws_inputs step). inp \<in> set produced) \<and> check_inputs ?p rest = Inr ()"
    by (auto simp: bind_result_eq_Inr_iff each_ok_Inr_iff split: if_splits)
  also have "\<dots> \<longleftrightarrow> (\<forall>inp \<in> set (ws_inputs step). inp \<in> set produced) \<and>
      (\<forall>i < length rest. \<forall>inp \<in> set (ws_inputs (rest ! i)).
        inp \<in> set ?p \<or> (\<exists>j < i. inp \<noteq> [] \<and> ws_output (rest ! j) = Some inp))"
    using 2 by blast
  also have "\<dots> \<longleftrightarrow> (\<forall>i < length (step # rest). \<forall>inp \<in> set (ws_inputs ((step # rest) ! i)).
        inp \<in> set produced \<or> (\<exists>j < i. inp \<noteq> [] \<and> ws_output ((step # rest) ! j) = Some inp))"
    by (simp add: All_less_Suc2 Ex_less_Suc2 mem disj_assoc)
  finally show ?case .
qed

lemma next_rel_step:
  "a \<noteq> END \<Longrightarrow> find_step w a = Some s \<Longrightarrow> (a, b) \<in> next_rel w \<longleftrightarrow> b = ws_next s"
  by (auto simp: next_rel_def)

lemma default_path_sound:
  "default_path w seen cur = Inr () \<Longrightarrow> \<exists>a. (cur, a) \<in> (next_rel w)\<^sup>* \<and> works_at w a"
proof (induction w seen cur rule: default_path.induct)
  case (1 w seen cur)
  show ?case
  proof (cases "cur = END \<or> cur \<in> set seen")
    case True
    then show ?thesis using 1 by (simp add: default_path.simps [of w seen cur])
  next
    case not_seen: False
    then obtain s where s: "find_step w cur = Some s"
      using 1 by (auto simp: default_path.simps [of w seen cur] split: option.splits)
    show ?thesis
    proof (cases "ws_kind s")
      case DOC
      then obtain a where "(ws_next s, a) \<in> (next_rel w)\<^sup>*" "works_at w a"
        using 1 s not_seen by (auto simp: default_path.simps [of w seen cur])
      then show ?thesis using s not_seen
        by (meson converse_rtrancl_into_rtrancl next_rel_step)
    qed (use s not_seen in \<open>auto simp: works_at_def\<close>)
  qed
qed

lemma default_path_complete:
  assumes "(cur, a) \<in> next_rel w ^^ n" "works_at w a"
    and "\<And>m b. m < n \<Longrightarrow> (cur, b) \<in> next_rel w ^^ m \<Longrightarrow> \<not> works_at w b"
    and "\<And>y m b. y \<in> set seen \<Longrightarrow> m \<le> n \<Longrightarrow> (y, b) \<in> next_rel w ^^ m \<Longrightarrow> \<not> works_at w b"
  shows "default_path w seen cur = Inr ()"
  using assms
proof (induction n arbitrary: cur seen)
  case 0
  note zero = "0.prems"(1)
  from 0 have "cur \<notin> set seen" using "0.prems"(4) [of cur 0 cur] by auto
  moreover have "cur = a" "works_at w cur" using 0 by auto
  moreover obtain s where "cur \<noteq> END" "find_step w cur = Some s" "ws_kind s \<noteq> DOC"
    using \<open>works_at w cur\<close> by (auto simp: works_at_def)
  ultimately show ?case
    using zero
    by (cases "ws_kind s") (simp_all add: default_path.simps [of w seen a])
next
  case (Suc n)
  have "\<not> works_at w cur" using Suc.prems(3) [of 0 cur] by auto
  moreover obtain b where b: "(cur, b) \<in> next_rel w" "(b, a) \<in> next_rel w ^^ n"
    using relpow_Suc_D2 [OF Suc.prems(1)] by blast
  ultimately obtain s where s: "cur \<noteq> END" "find_step w cur = Some s" "ws_next s = b" "ws_kind s = DOC"
    by (auto simp: next_rel_def works_at_def)
  have "cur \<notin> set seen" using Suc.prems(4) [of cur "Suc n" a] Suc.prems(1,2) by auto
  have closer: "\<not> works_at w c" if "m < n" "(b, c) \<in> next_rel w ^^ m" for m c
    using Suc.prems(3) [of "Suc m" c] that b(1) relpow_Suc_I2 by fastforce
  have later: "\<not> works_at w c"
    if "y \<in> set (cur # seen)" "m \<le> n" "(y, c) \<in> next_rel w ^^ m" for y m c
    using that Suc.prems(3) [of m c] Suc.prems(4) [of y m c] by auto
  have "default_path w (cur # seen) b = Inr ()"
    by (rule Suc.IH [OF b(2) Suc.prems(2)]) (use closer later in blast)+
  then show ?case using s \<open>cur \<notin> set seen\<close> by (simp add: default_path.simps [of w seen cur])
qed

lemma default_path_iff:
  "default_path w [] cur = Inr () \<longleftrightarrow> (\<exists>a. (cur, a) \<in> (next_rel w)\<^sup>* \<and> works_at w a)"
proof
  assume "\<exists>a. (cur, a) \<in> (next_rel w)\<^sup>* \<and> works_at w a"
  then have ex: "\<exists>n a. (cur, a) \<in> next_rel w ^^ n \<and> works_at w a"
    by (meson rtrancl_imp_relpow)
  define n where "n = (LEAST n. \<exists>a. (cur, a) \<in> next_rel w ^^ n \<and> works_at w a)"
  have "\<exists>a. (cur, a) \<in> next_rel w ^^ n \<and> works_at w a"
    unfolding n_def using ex by (rule LeastI_ex)
  moreover have "\<not> works_at w b" if "m < n" "(cur, b) \<in> next_rel w ^^ m" for m b
    using not_less_Least [OF that(1) [unfolded n_def]] that(2) by blast
  ultimately show "default_path w [] cur = Inr ()" by (auto intro: default_path_complete)
qed (rule default_path_sound)

subsection \<open>The worklist search\<close>

lemma search_superset: "set seen \<union> set stack \<subseteq> set (search edges seen stack)"
  by (induction edges seen stack rule: search.induct) (auto split: if_splits)

lemma search_closed:
  "(\<And>x. x \<in> set seen \<Longrightarrow> set (succs edges x) \<subseteq> set seen \<union> set stack) \<Longrightarrow>
   y \<in> set (search edges seen stack) \<Longrightarrow> set (succs edges y) \<subseteq> set (search edges seen stack)"
proof (induction edges seen stack rule: search.induct)
  case (2 edges seen node stack)
  show ?case
  proof (cases "node \<in> set seen")
    case True
    then have "set (succs edges x) \<subseteq> set seen \<union> set stack" if "x \<in> set seen" for x
      using 2(3) [OF that] by auto
    with True 2 show ?thesis by auto
  next
    case False
    have "set (succs edges x) \<subseteq> set (node # seen) \<union> set (rev (succs edges node) @ stack)"
      if "x \<in> set (node # seen)" for x using that 2(3) [of x] by auto
    with False 2 show ?thesis by auto
  qed
qed auto

lemma search_within:
  "set seen \<union> set stack \<subseteq> S \<Longrightarrow> (\<And>x. x \<in> S \<Longrightarrow> set (succs edges x) \<subseteq> S) \<Longrightarrow>
   set (search edges seen stack) \<subseteq> S"
  by (induction edges seen stack rule: search.induct) (auto split: if_splits)

lemma reachable_from_iff:
  "n \<in> set (reachable_from edges s) \<longleftrightarrow> (s, n) \<in> {(a, b). b \<in> set (succs edges a)}\<^sup>+"
    (is "_ \<longleftrightarrow> _ \<in> ?E\<^sup>+")
proof
  assume n: "n \<in> set (reachable_from edges s)"
  have "set (reachable_from edges s) \<subseteq> {x. (s, x) \<in> ?E\<^sup>+}"
    unfolding reachable_from_def by (rule search_within) (auto intro: trancl_into_trancl)
  with n show "(s, n) \<in> ?E\<^sup>+" by blast
next
  assume "(s, n) \<in> ?E\<^sup>+"
  then show "n \<in> set (reachable_from edges s)"
  proof induction
    case (base y)
    then show ?case using search_superset [of "[]" "rev (succs edges s)" edges]
      by (auto simp: reachable_from_def)
  next
    case (step y z)
    then show ?case using search_closed [of "[]" edges "rev (succs edges s)" y]
      by (auto simp: reachable_from_def)
  qed
qed

lemma dget_fold_dset:
  "dget (fold (\<lambda>x d. dset d (k x) (v x)) xs d) = dget d ++ map_of (rev (map (\<lambda>x. (k x, v x)) xs))"
  by (induction xs arbitrary: d) (simp_all add: map_add_assoc [symmetric])

lemma map_of_rev_distinct: "distinct (map fst xs) \<Longrightarrow> map_of (rev xs) = map_of xs"
proof (induction xs)
  case (Cons x xs)
  then have "map_of xs (fst x) = None" by (auto simp: map_of_eq_None_iff)
  with Cons show ?case by (auto simp: map_add_def fun_eq_iff split: option.split)
qed simp

lemma dget_edges_of:
  assumes "distinct (step_ids w)"
  shows "dget (edges_of w) = map_of (map (\<lambda>s. (ws_id s, filter (\<lambda>x. x \<noteq> END) (destinations s))) (wf_steps w))"
proof -
  have "distinct (map fst (map (\<lambda>s. (ws_id s, filter (\<lambda>x. x \<noteq> END) (destinations s))) (wf_steps w)))"
    using assms by (simp add: step_ids_def o_def)
  from map_of_rev_distinct [OF this] show ?thesis
    unfolding edges_of_def dget_fold_dset by simp
qed

lemma succs_edges_of:
  assumes "distinct (step_ids w)"
  shows "{(a, b). b \<in> set (succs (edges_of w) a)} = step_rel w"
proof -
  have eq: "dget (edges_of w) (ws_id s) = Some (filter (\<lambda>x. x \<noteq> END) (destinations s))"
    if "s \<in> set (wf_steps w)" for s
    unfolding dget_edges_of [OF assms]
    by (rule map_of_is_SomeI) (use assms that in \<open>auto simp: step_ids_def o_def\<close>)
  have dom: "\<exists>s \<in> set (wf_steps w). ws_id s = a" if "dget (edges_of w) a = Some xs" for a xs
    using map_of_SomeD [OF that [unfolded dget_edges_of [OF assms]]] by auto
  have "b \<in> set (succs (edges_of w) a) \<longleftrightarrow> (a, b) \<in> step_rel w" for a b
  proof (cases "\<exists>s \<in> set (wf_steps w). ws_id s = a")
    case True
    then obtain s where s: "s \<in> set (wf_steps w)" "ws_id s = a" by blast
    have "s' = s" if "s' \<in> set (wf_steps w)" "ws_id s' = a" for s'
      using assms s that by (auto simp: step_ids_def distinct_map inj_on_def)
    then have "(a, b) \<in> step_rel w \<longleftrightarrow> b \<noteq> END \<and> b \<in> set (destinations s)"
      using s unfolding step_rel_def by blast
    with s(2) eq [OF s(1)] show ?thesis by (auto simp: succs_def dget_or_def)
  next
    case False
    then have "dget (edges_of w) a = None" using dom by (cases "dget (edges_of w) a") auto
    with False show ?thesis by (auto simp: step_rel_def succs_def dget_or_def)
  qed
  then show ?thesis by auto
qed

lemma check_cycles_iff:
  assumes "distinct (step_ids w)"
  shows "check_cycles w = Inr () \<longleftrightarrow>
    (\<forall>s \<in> set (wf_steps w). (ws_id s, ws_id s) \<in> (step_rel w)\<^sup>+ \<longrightarrow> ws_max_visits_declared s)"
  by (auto simp: check_cycles_def Let_def each_ok_Inr_iff reachable_from_iff succs_edges_of [OF assms])

lemma check_default_path_iff:
  "check_default_path w = Inr () \<longleftrightarrow> wf_steps w \<noteq> [] \<and>
     (\<exists>a. (ws_id (hd (wf_steps w)), a) \<in> (next_rel w)\<^sup>* \<and> works_at w a)"
  by (auto simp: check_default_path_def default_path_iff split: list.split)

lemma validate_iff: "validate w = Inr () \<longleftrightarrow> well_formed_workflow w"
  by (auto simp: validate_def bind_result_eq_Inr_iff check_step_iff each_ok_Inr_iff
      check_inputs_iff inputs_wf_def check_default_path_iff check_cycles_iff
      well_formed_workflow_def split: if_splits)

subsection \<open>Parsed definitions\<close>

lemma parse_workflow_validated: "parse_workflow raw = Inr w \<Longrightarrow> validate w = Inr ()"
  by (auto simp: parse_workflow_def bind_result_eq_Inr_iff Let_def split: pyval.splits)

lemma load_dir_parsed:
  "load_dir defs fs = Inr defs' \<Longrightarrow> (name, w) \<in> set defs' \<Longrightarrow>
     (name, w) \<in> set defs \<or> (wf_name w = name \<and> well_formed_workflow w)"
proof (induction defs fs rule: load_dir.induct)
  case (2 defs f fs)
  then obtain v where v: "load_file f = Inr v" "load_dir (dset defs (wf_name v) v) fs = Inr defs'"
    by (auto simp: bind_result_eq_Inr_iff)
  have ok: "well_formed_workflow v"
    using v(1) parse_workflow_validated
    by (auto simp: load_file_def validate_iff [symmetric] split: prod.splits option.splits)
  have "(name, w) \<in> set (dset defs (wf_name v) v) \<Longrightarrow> (name, w) \<in> set defs \<or> name = wf_name v \<and> w = v"
    by (induction defs "wf_name v" v rule: dset.induct) (auto split: if_splits)
  with 2(1) [OF v(2) 2(3)] ok show ?case by auto
qed auto

lemma load_workflows_parsed:
  assumes "load_workflows shipped op check exists = Inr defs" "(name, w) \<in> set defs"
  shows "wf_name w = name \<and> well_formed_workflow w"
proof -
  obtain defs0 where d: "load_dir [] shipped = Inr defs0" "load_dir defs0 op = Inr defs"
    using assms(1) by (auto simp: load_workflows_def bind_result_eq_Inr_iff)
  show ?thesis using load_dir_parsed [OF d(2) assms(2)] load_dir_parsed [OF d(1)] by auto
qed

lemma find_step_has: "find_step w sid \<noteq> None \<longleftrightarrow> wf_has_step w sid"
  by (auto simp: find_step_def wf_has_step_def find_None_iff)

lemma wf_has_step_ids: "wf_has_step w sid \<longleftrightarrow> sid \<in> set (step_ids w)"
  by (auto simp: wf_has_step_def step_ids_def)

lemma route_destination: "route s sig \<in> set (destinations s)"
  by (auto simp: route_def destinations_def split: option.splits dest!: map_of_SomeD)
    (metis image_eqI snd_conv)

subsection \<open>Visit counters\<close>

text \<open>A step id survives the visit text when it is non-empty, unpadded and free of separators.\<close>

definition visit_key :: "string \<Rightarrow> bool" where
  "visit_key k \<longleftrightarrow> k \<noteq> [] \<and> py_strip k = k \<and> CHR '':'' \<notin> set k \<and> CHR '','' \<notin> set k"

lemma visit_text_parts:
  assumes "visit_key k"
  shows "py_strip (visit_text (k, n)) = visit_text (k, n)"
    and "py_partition (CHR '':'') (visit_text (k, n)) = (k, True, int_text n)"
    and "CHR '','' \<notin> set (visit_text (k, n))"
proof -
  have "\<not> is_space (hd k)"
    using assms py_strip_of_ends [of is_space k] by (simp add: visit_key_def)
  moreover have "\<not> is_space (last (int_text n))"
    using int_text_no_space [of "last (int_text n)" n] by simp
  ultimately show "py_strip (visit_text (k, n)) = visit_text (k, n)"
    using assms by (intro py_strip_of_id) (auto simp: visit_text_def visit_key_def)
  show "py_partition (CHR '':'') (visit_text (k, n)) = (k, True, int_text n)"
    using assms py_partition_append [of "CHR '':''" k "int_text n"]
    by (simp add: visit_text_def visit_key_def)
  show "CHR '','' \<notin> set (visit_text (k, n))"
    using assms int_text_chars [of n] by (auto simp: visit_text_def visit_key_def is_digit_def)
qed

lemma visit_chunks_texts:
  assumes "\<forall>kv \<in> set vs. visit_key (fst kv)" "distinct (dkeys (out @ vs))"
  shows "visit_chunks out (map visit_text vs) = out @ vs"
  using assms
proof (induction vs arbitrary: out)
  case (Cons kv vs)
  obtain k n where kv: "kv = (k, n)" by force
  then have key: "visit_key k" and new: "k \<notin> set (dkeys out)" using Cons.prems by auto
  have "visit_text (k, n) \<noteq> []" by (simp add: visit_text_def)
  moreover have "py_strip k = k" "k \<noteq> []" using key by (simp_all add: visit_key_def)
  ultimately have "visit_chunks out (map visit_text (kv # vs)) =
      visit_chunks (dset out k n) (map visit_text vs)"
    using visit_text_parts [OF key] kv by simp
  also have "\<dots> = (out @ [(k, n)]) @ vs"
    using Cons.IH [of "out @ [(k, n)]"] Cons.prems kv by (simp add: dset_absent [OF new])
  finally show ?case using kv by simp
qed simp

lemma parse_format_visits:
  assumes "\<forall>kv \<in> set vs. visit_key (fst kv)" "distinct (dkeys vs)"
  shows "parse_visits (Some (format_visits vs)) = vs"
proof (cases vs)
  case (Cons kv rest)
  have ne: "format_visits vs \<noteq> []"
    using Cons by (cases rest) (simp_all add: format_visits_def visit_text_def)
  have "\<forall>x \<in> set (map visit_text vs). CHR '','' \<notin> set x"
    using assms(1) visit_text_parts(3) by auto
  then have "py_split (CHR '','') (format_visits vs) = map visit_text vs"
    unfolding format_visits_def using Cons by (intro py_split_join) auto
  then show ?thesis
    using ne visit_chunks_texts [of vs "[]"] assms by (simp add: parse_visits_def)
qed (simp add: format_visits_def parse_visits_def)

section \<open>Properties\<close>

definition sample_json_step :: "string \<Rightarrow> string \<Rightarrow> pydict \<Rightarrow> pyval" where
  "sample_json_step sid kind extra =
     PDict ([(''id'', PStr sid), (''kind'', PStr kind), (''role'', PStr ''planner'')] @ extra)"

definition sample_workflow_json :: pyval where
  "sample_workflow_json = PDict [(''name'', PStr ''feature''), (''steps'', PList
     [sample_json_step ''plan'' ''doc'' [(''prompt'', PStr ''p.md''), (''output'', PStr ''plan'')],
      sample_json_step ''build'' ''code'' [(''inputs'', PList [PStr ''brief'', PStr ''plan''])]])]"

definition sample_plan :: workflow_step where
  "sample_plan = \<lparr>ws_id = ''plan'', ws_kind = DOC, ws_role = ''planner'', ws_inputs = [],
     ws_prompt = Some ''p.md'', ws_output = Some ''plan'', ws_max_turns = INHERIT,
     ws_signals = [], ws_next = ''build'', ws_max_visits = 1, ws_max_visits_declared = False\<rparr>"

definition sample_build :: workflow_step where
  "sample_build = \<lparr>ws_id = ''build'', ws_kind = CODE, ws_role = ''planner'',
     ws_inputs = [''brief'', ''plan''], ws_prompt = None, ws_output = None,
     ws_max_turns = INHERIT, ws_signals = [], ws_next = END, ws_max_visits = 1,
     ws_max_visits_declared = False\<rparr>"

definition sample_workflow :: workflow_def where
  "sample_workflow = \<lparr>wf_name = ''feature'', wf_steps = [sample_plan, sample_build]\<rparr>"

lemmas parse_defs = parse_step_def nonempty_string_def step_kind_of_def parse_inputs_def
  parse_max_turns_def parse_signals_def parse_next_def parse_max_visits_def parse_opt_string_def

lemma sample_validated: "validate sample_workflow = Inr ()"
  by (simp add: validate_def sample_workflow_def sample_plan_def sample_build_def step_ids_def
      check_step_def opt_truthy_def destinations_def END_def check_default_path_def
      default_path.simps find_step_def check_cycles_def edges_of_def reachable_from_def succs_def
      dget_or_def Let_def)

lemma sample_parsed: "parse_workflow sample_workflow_json = Inr sample_workflow"
  using sample_validated
  by (simp add: parse_workflow_def sample_workflow_json_def sample_json_step_def parse_defs
      nonempty_string_def enumerate_eq_zip sample_workflow_def sample_plan_def sample_build_def
      END_def)

text \<open>
  C38: the validator is exact. It accepts a definition if and only if the graph the definition
  draws is well formed: distinct step ids, document steps with prompt and output and no others,
  every destination a step or the end, split steps only to the end, inputs produced by earlier
  steps, some code or split step reached along \<open>next\<close> from the first step, and a declared
  visit bound on every step that lies on a cycle.
\<close>

theorem validation_is_exact: "validate w = Inr () \<longleftrightarrow> well_formed_workflow w"
  by (rule validate_iff)

text \<open>
  The worklist search of the cycle check terminates on every edge map and finds exactly the
  steps reachable by one or more edges.
\<close>

theorem search_finds_reachable:
  "n \<in> set (reachable_from edges s) \<longleftrightarrow> (s, n) \<in> {(a, b). b \<in> set (succs edges a)}\<^sup>+"
  by (rule reachable_from_iff)

text \<open>
  Every definition the loader returns, shipped or the operator's, is filed under its own
  name and is well formed, and with the prompt check on every document step names a prompt that
  exists.
\<close>

theorem loaded_definitions_sound:
  assumes "load_workflows shipped op True exists = Inr defs" "(name, w) \<in> set defs"
  shows "wf_name w = name \<and> well_formed_workflow w \<and>
    (\<forall>s \<in> set (wf_steps w). \<forall>p. ws_kind s = DOC \<and> ws_prompt s = Some p \<longrightarrow> exists p)"
proof -
  have "\<forall>w \<in> set (dvalues defs). check_prompt_refs w exists = Inr ()"
    using assms(1) by (auto simp: load_workflows_def bind_result_eq_Inr_iff each_ok_Inr_iff)
  then have refs: "check_prompt_refs w exists = Inr ()" using assms(2) by force
  have ok: "wf_name w = name \<and> well_formed_workflow w" using assms by (rule load_workflows_parsed)
  have "exists p" if "s \<in> set (wf_steps w)" "ws_kind s = DOC" "ws_prompt s = Some p" for s p
    using refs ok that
    by (auto simp: check_prompt_refs_def each_ok_Inr_iff well_formed_workflow_def step_wf_def
        opt_truthy_def split: if_splits dest!: bspec [of _ _ s])
  with ok show ?thesis by blast
qed

lemma loaded_definitions_sound_witness:
  "wf_name sample_workflow = ''feature'' \<and> well_formed_workflow sample_workflow"
proof -
  have "load_workflows [(''feature.json'', Some sample_workflow_json)] [] True (\<lambda>p. p = ''p.md'')
      = Inr [(''feature'', sample_workflow)]"
    using sample_parsed
    by (simp add: load_workflows_def load_file_def check_prompt_refs_def sample_workflow_def
        sample_plan_def sample_build_def)
  from loaded_definitions_sound [OF this, of "''feature''" sample_workflow] show ?thesis by simp
qed

text \<open>
  Routing stays inside an accepted definition. Whatever signal a step reports, declared or
  not, the destination is the end or a step of the definition, and a split step always ends.
\<close>

theorem route_stays_inside:
  assumes "parse_workflow raw = Inr w" "s \<in> set (wf_steps w)"
  shows "route s sig = END \<or> (wf_has_step w (route s sig) \<and> ws_kind s \<noteq> SPLIT)"
proof -
  have "well_formed_workflow w" using assms(1) parse_workflow_validated validate_iff by blast
  then have "step_wf w s" using assms(2) by (simp add: well_formed_workflow_def)
  then show ?thesis using route_destination [of s sig]
    by (auto simp: step_wf_def wf_has_step_ids)
qed

lemma route_stays_inside_witness:
  "route sample_plan (Some ''ready'') = END \<or>
     (wf_has_step sample_workflow (route sample_plan (Some ''ready'')) \<and> ws_kind sample_plan \<noteq> SPLIT)"
  by (rule route_stays_inside [OF sample_parsed]) (simp add: sample_workflow_def)

text \<open>
  A step the resolver answers with is runnable: the workflow is one of the definitions, the
  step is one of its steps, and the model is the first non-empty candidate of the ladder for
  the step's role.
\<close>

theorem resolver_answers_runnable:
  assumes "make_resolver defs planner def_model m wm = Inr (name, sid, model)"
  shows "\<exists>w step pre post. dget defs name = Some w \<and> find_step w sid = Some step \<and> model \<noteq> [] \<and>
    role_candidates (ws_role step) m wm planner def_model = pre @ model # post \<and> (\<forall>c \<in> set pre. c = [])"
proof -
  obtain w step where w: "dget defs name = Some w" "find_step w sid = Some step"
      "resolve_role_model (ws_role step) m wm planner def_model = Some model"
    using assms by (auto simp: make_resolver_def Let_def split: option.splits)
  then obtain i where "i < length (role_candidates (ws_role step) m wm planner def_model)"
      "model = role_candidates (ws_role step) m wm planner def_model ! i" "model \<noteq> []"
      "\<forall>j < i. role_candidates (ws_role step) m wm planner def_model ! j = []"
    by (auto simp: resolve_role_model_def find_Some_iff)
  then show ?thesis using w
    by (intro exI conjI) (auto intro: id_take_nth_drop simp: in_set_conv_nth)
qed

lemma resolver_answers_runnable_witness:
  "\<exists>w step pre post. dget [(''feature'', sample_workflow)] ''feature'' = Some w \<and>
    find_step w ''plan'' = Some step \<and> ''opus'' \<noteq> [] \<and>
    role_candidates (ws_role step) [(''workflow'', SStr ''feature'')] [] ''opus'' ''sonnet''
      = pre @ ''opus'' # post \<and> (\<forall>c \<in> set pre. c = [])"
  by (rule resolver_answers_runnable)
    (simp add: make_resolver_def sample_workflow_def sample_plan_def meta_text_def find_step_def
      resolve_role_model_def role_candidates_def clean_opt_def py_strip_of_def is_space_def
      str_or_def Let_def)

text \<open>
  The visit counters survive the brief's frontmatter: parsing the formatted counters gives
  them back, for step ids without padding or separators and each listed once.
\<close>

theorem visits_roundtrip:
  assumes "\<forall>kv \<in> set vs. visit_key (fst kv)" "distinct (dkeys vs)"
  shows "parse_visits (Some (format_visits vs)) = vs"
  using assms by (rule parse_format_visits)

lemma visits_roundtrip_witness:
  "parse_visits (Some (format_visits [(''plan'', 1), (''build'', 12)])) = [(''plan'', 1), (''build'', 12)]"
  by (rule visits_roundtrip) (simp_all add: visit_key_def py_strip_of_def is_space_def Let_def)

end
