(* ===== verification/Lifecycle.thy ===== *)
theory Lifecycle
  imports Workflows
begin

text \<open>
  The lifecycle vocabulary of \<^verbatim>\<open>src/nightshift/lifecycle.py\<close>: every status
  enumeration with its wire value, the telemetry and outcome shapes, the retry policy with
  its back-off, the effect and transition values, and the land vocabulary. A string
  enumeration is a datatype with a value function; a model class is a record and its
  subclass a record extension.
\<close>

section \<open>Status enumerations\<close>

datatype run_status =
    RS_RUNNING | RS_COMPLETED | RS_BLOCKED | RS_ERROR | RS_SKIPPED | RS_ABORTED

fun run_status_value :: "run_status \<Rightarrow> string" where
  "run_status_value RS_RUNNING = ''running''"
| "run_status_value RS_COMPLETED = ''completed''"
| "run_status_value RS_BLOCKED = ''blocked''"
| "run_status_value RS_ERROR = ''error''"
| "run_status_value RS_SKIPPED = ''skipped''"
| "run_status_value RS_ABORTED = ''aborted''"

datatype attempt_state =
    AS_CLAIMED | AS_RUNNING | AS_SUBMITTED | AS_LANDING | AS_RESOLVING
  | AS_LANDED | AS_NO_CHANGE | AS_BLOCKED | AS_FAILED | AS_CONFLICT
  | AS_EXPIRED | AS_ABORTED | AS_SKIPPED

fun attempt_state_value :: "attempt_state \<Rightarrow> string" where
  "attempt_state_value AS_CLAIMED = ''claimed''"
| "attempt_state_value AS_RUNNING = ''running''"
| "attempt_state_value AS_SUBMITTED = ''submitted''"
| "attempt_state_value AS_LANDING = ''landing''"
| "attempt_state_value AS_RESOLVING = ''resolving''"
| "attempt_state_value AS_LANDED = ''landed''"
| "attempt_state_value AS_NO_CHANGE = ''no_change''"
| "attempt_state_value AS_BLOCKED = ''blocked''"
| "attempt_state_value AS_FAILED = ''failed''"
| "attempt_state_value AS_CONFLICT = ''conflict''"
| "attempt_state_value AS_EXPIRED = ''expired''"
| "attempt_state_value AS_ABORTED = ''aborted''"
| "attempt_state_value AS_SKIPPED = ''skipped''"

definition ATTEMPT_TERMINAL_STATES :: "attempt_state set" where
  "ATTEMPT_TERMINAL_STATES =
     {AS_LANDED, AS_NO_CHANGE, AS_BLOCKED, AS_FAILED, AS_CONFLICT, AS_EXPIRED,
      AS_ABORTED, AS_SKIPPED}"

definition ATTEMPT_LIVE_STATES :: "attempt_state set" where
  "ATTEMPT_LIVE_STATES = {AS_RUNNING, AS_LANDING}"

definition ATTEMPT_RESOLVABLE_STATES :: "attempt_state set" where
  "ATTEMPT_RESOLVABLE_STATES = {AS_FAILED, AS_CONFLICT, AS_BLOCKED}"

datatype task_hold_kind =
    TH_BLOCKED | TH_FAILED | TH_QUARANTINED | TH_REPO_UNAVAILABLE | TH_CI_RED

fun task_hold_kind_value :: "task_hold_kind \<Rightarrow> string" where
  "task_hold_kind_value TH_BLOCKED = ''blocked''"
| "task_hold_kind_value TH_FAILED = ''failed''"
| "task_hold_kind_value TH_QUARANTINED = ''quarantined''"
| "task_hold_kind_value TH_REPO_UNAVAILABLE = ''repo_unavailable''"
| "task_hold_kind_value TH_CI_RED = ''ci_red''"

datatype failure_kind =
    MODEL_UNAVAILABLE | BACKEND_UNAVAILABLE | REPO_UNAVAILABLE | PREFLIGHT_FAILED
  | WORKTREE_FAILED | WORKER_LAUNCH | PUBLISH_FAILED | DOCUMENT_UNAVAILABLE
  | WORKER_ERROR | VALIDATION_ERROR | FK_BLOCKED
  | MERGE_CONFLICT | MERGE_REJECTED

fun failure_kind_value :: "failure_kind \<Rightarrow> string" where
  "failure_kind_value MODEL_UNAVAILABLE = ''model_unavailable''"
| "failure_kind_value BACKEND_UNAVAILABLE = ''backend_unavailable''"
| "failure_kind_value REPO_UNAVAILABLE = ''repo_unavailable''"
| "failure_kind_value PREFLIGHT_FAILED = ''preflight_failed''"
| "failure_kind_value WORKTREE_FAILED = ''worktree_failed''"
| "failure_kind_value WORKER_LAUNCH = ''worker_launch''"
| "failure_kind_value PUBLISH_FAILED = ''publish_failed''"
| "failure_kind_value DOCUMENT_UNAVAILABLE = ''document_unavailable''"
| "failure_kind_value WORKER_ERROR = ''worker_error''"
| "failure_kind_value VALIDATION_ERROR = ''validation_error''"
| "failure_kind_value FK_BLOCKED = ''blocked''"
| "failure_kind_value MERGE_CONFLICT = ''merge_conflict''"
| "failure_kind_value MERGE_REJECTED = ''merge_rejected''"

text \<open>The finite enumerations as instances of the library's class, so sets of kinds compute.\<close>

instantiation failure_kind :: enum
begin
definition enum_failure_kind :: "failure_kind list" where
  "enum_failure_kind =
     [MODEL_UNAVAILABLE, BACKEND_UNAVAILABLE, REPO_UNAVAILABLE, PREFLIGHT_FAILED,
      WORKTREE_FAILED, WORKER_LAUNCH, PUBLISH_FAILED, DOCUMENT_UNAVAILABLE,
      WORKER_ERROR, VALIDATION_ERROR, FK_BLOCKED, MERGE_CONFLICT, MERGE_REJECTED]"
definition enum_all_failure_kind :: "(failure_kind \<Rightarrow> bool) \<Rightarrow> bool" where
  "enum_all_failure_kind P \<longleftrightarrow> list_all P (Enum.enum :: failure_kind list)"
definition enum_ex_failure_kind :: "(failure_kind \<Rightarrow> bool) \<Rightarrow> bool" where
  "enum_ex_failure_kind P \<longleftrightarrow> list_ex P (Enum.enum :: failure_kind list)"
instance
proof
  have mem: "k \<in> set (Enum.enum :: failure_kind list)" for k
    by (cases k) (simp_all add: enum_failure_kind_def)
  then show univ: "(UNIV :: failure_kind set) = set Enum.enum" by blast
  show "distinct (Enum.enum :: failure_kind list)" by (simp add: enum_failure_kind_def)
  show "Enum.enum_all P = Ball UNIV P" for P :: "failure_kind \<Rightarrow> bool"
    by (simp add: enum_all_failure_kind_def univ list_all_iff)
  show "Enum.enum_ex P = Bex UNIV P" for P :: "failure_kind \<Rightarrow> bool"
    by (simp add: enum_ex_failure_kind_def univ list_ex_iff)
qed
end

instantiation attempt_state :: enum
begin
definition enum_attempt_state :: "attempt_state list" where
  "enum_attempt_state =
     [AS_CLAIMED, AS_RUNNING, AS_SUBMITTED, AS_LANDING, AS_RESOLVING, AS_LANDED,
      AS_NO_CHANGE, AS_BLOCKED, AS_FAILED, AS_CONFLICT, AS_EXPIRED, AS_ABORTED, AS_SKIPPED]"
definition enum_all_attempt_state :: "(attempt_state \<Rightarrow> bool) \<Rightarrow> bool" where
  "enum_all_attempt_state P \<longleftrightarrow> list_all P (Enum.enum :: attempt_state list)"
definition enum_ex_attempt_state :: "(attempt_state \<Rightarrow> bool) \<Rightarrow> bool" where
  "enum_ex_attempt_state P \<longleftrightarrow> list_ex P (Enum.enum :: attempt_state list)"
instance
proof
  have mem: "k \<in> set (Enum.enum :: attempt_state list)" for k
    by (cases k) (simp_all add: enum_attempt_state_def)
  then show univ: "(UNIV :: attempt_state set) = set Enum.enum" by blast
  show "distinct (Enum.enum :: attempt_state list)" by (simp add: enum_attempt_state_def)
  show "Enum.enum_all P = Ball UNIV P" for P :: "attempt_state \<Rightarrow> bool"
    by (simp add: enum_all_attempt_state_def univ list_all_iff)
  show "Enum.enum_ex P = Bex UNIV P" for P :: "attempt_state \<Rightarrow> bool"
    by (simp add: enum_ex_attempt_state_def univ list_ex_iff)
qed
end

definition MERGE_FAILURE_KINDS :: "failure_kind set" where
  "MERGE_FAILURE_KINDS = {MERGE_CONFLICT, MERGE_REJECTED}"

definition error_state_for :: "failure_kind option \<Rightarrow> attempt_state" where
  "error_state_for kind =
     (case kind of
        Some k \<Rightarrow> if k \<in> MERGE_FAILURE_KINDS then AS_CONFLICT else AS_FAILED
      | None \<Rightarrow> AS_FAILED)"

text \<open>The \<open>status\<close> string the run views serve for a stored state.\<close>

fun run_status_of :: "attempt_state \<Rightarrow> string" where
  "run_status_of AS_CLAIMED = ''running''"
| "run_status_of AS_RUNNING = ''running''"
| "run_status_of AS_SUBMITTED = ''running''"
| "run_status_of AS_LANDING = ''running''"
| "run_status_of AS_RESOLVING = ''running''"
| "run_status_of AS_LANDED = ''completed''"
| "run_status_of AS_NO_CHANGE = ''completed''"
| "run_status_of AS_BLOCKED = ''blocked''"
| "run_status_of AS_FAILED = ''error''"
| "run_status_of AS_CONFLICT = ''error''"
| "run_status_of AS_SKIPPED = ''skipped''"
| "run_status_of AS_ABORTED = ''aborted''"
| "run_status_of AS_EXPIRED = ''expired''"

definition RESOLVE_WORKER_ID :: string where
  "RESOLVE_WORKER_ID = ''manager:resolve''"

datatype landing_mode = LM_NONE | LM_PUSH | LM_PR

fun is_remote :: "landing_mode \<Rightarrow> bool" where
  "is_remote LM_PUSH = True"
| "is_remote LM_PR = True"
| "is_remote LM_NONE = False"

section \<open>Telemetry and outcomes\<close>

record telemetry =
  tel_turns :: "int option"
  tel_input_tokens :: "int option"
  tel_output_tokens :: "int option"
  tel_cache_read_input_tokens :: "int option"
  tel_cache_creation_input_tokens :: "int option"
  tel_usage :: "pydict option"
  tel_cost_usd :: "rat option"
  tel_billing :: "string option"
  tel_validate_cmd :: "string option"
  tel_worktree :: "string option"
  tel_timings :: "(string \<times> rat) list option"

definition empty_telemetry :: telemetry where
  "empty_telemetry = \<lparr>tel_turns = None, tel_input_tokens = None, tel_output_tokens = None,
     tel_cache_read_input_tokens = None, tel_cache_creation_input_tokens = None,
     tel_usage = None, tel_cost_usd = None, tel_billing = None, tel_validate_cmd = None,
     tel_worktree = None, tel_timings = None\<rparr>"

record failure =
  f_kind :: failure_kind
  f_reason :: "string option"

text \<open>\<open>Outcome(Telemetry)\<close>: the subclass is a record extension, so the telemetry stays flat.\<close>

record outcome = telemetry +
  o_status :: run_status
  o_result_line :: string
  o_landable :: bool
  o_model :: "string option"
  o_backend :: "string option"
  o_document :: "string option"
  o_signal :: "string option"
  o_branch_ref :: "string option"
  o_head_sha :: "string option"
  o_failure_kind :: "failure_kind option"
  o_failure_reason :: "string option"

definition failure_of :: "'a outcome_scheme \<Rightarrow> failure option" where
  "failure_of out =
     (case o_failure_kind out of
        None \<Rightarrow> None
      | Some k \<Rightarrow> Some \<lparr>f_kind = k, f_reason = o_failure_reason out\<rparr>)"

definition telemetry_of :: "'a outcome_scheme \<Rightarrow> telemetry" where
  "telemetry_of out = telemetry.truncate out"

text \<open>An outcome with every optional field absent, as the constructor's defaults give it.\<close>

definition new_outcome :: "run_status \<Rightarrow> outcome" where
  "new_outcome st = telemetry.extend empty_telemetry
     \<lparr>o_status = st, o_result_line = [], o_landable = False, o_model = None,
      o_backend = Some [], o_document = None, o_signal = None, o_branch_ref = None,
      o_head_sha = None, o_failure_kind = None, o_failure_reason = None\<rparr>"

text \<open>\<open>Telemetry.model_dump()\<close>: the eleven fields in declaration order.\<close>

definition telemetry_dump :: "telemetry \<Rightarrow> pydict" where
  "telemetry_dump t =
     [(''turns'', pint (tel_turns t)),
      (''input_tokens'', pint (tel_input_tokens t)),
      (''output_tokens'', pint (tel_output_tokens t)),
      (''cache_read_input_tokens'', pint (tel_cache_read_input_tokens t)),
      (''cache_creation_input_tokens'', pint (tel_cache_creation_input_tokens t)),
      (''usage'', pdict (tel_usage t)),
      (''cost_usd'', pfloat (tel_cost_usd t)),
      (''billing'', pstr (tel_billing t)),
      (''validate_cmd'', pstr (tel_validate_cmd t)),
      (''worktree'', pstr (tel_worktree t)),
      (''timings'', pdict (map_option (map (\<lambda>(k, q). (k, PFloat q))) (tel_timings t)))]"

section \<open>Retry policy\<close>

record attempt_ref =
  ref_id :: string
  ref_queue :: "string option"
  ref_task :: string

datatype retry_action = RETRY | RETRY_ELSEWHERE | HOLD | QUARANTINE

record backoff =
  base_seconds :: rat
  cap_seconds :: rat

definition default_backoff :: backoff where
  "default_backoff = \<lparr>base_seconds = 60, cap_seconds = 3600\<rparr>"

text \<open>
  \<open>base * 2.0 ** min(attempts - 1, 63)\<close>, capped. Scaling a float by a power of two is
  exact, so rationals compute the same number.
\<close>

definition backoff_delay :: "backoff \<Rightarrow> int \<Rightarrow> rat" where
  "backoff_delay b attempts =
     min (base_seconds b * (2 powi (min (attempts - 1) 63))) (cap_seconds b)"

record retry_policy =
  quarantine_after :: int
  immediate_quarantine :: bool
  rp_backoff :: backoff

definition default_retry_policy :: retry_policy where
  "default_retry_policy =
     \<lparr>quarantine_after = 0, immediate_quarantine = False, rp_backoff = default_backoff\<rparr>"

fun on_failure :: "retry_policy \<Rightarrow> failure_kind \<Rightarrow> retry_action" where
  "on_failure p MODEL_UNAVAILABLE = RETRY_ELSEWHERE"
| "on_failure p BACKEND_UNAVAILABLE = RETRY_ELSEWHERE"
| "on_failure p REPO_UNAVAILABLE = RETRY_ELSEWHERE"
| "on_failure p PREFLIGHT_FAILED = RETRY_ELSEWHERE"
| "on_failure p WORKTREE_FAILED = RETRY_ELSEWHERE"
| "on_failure p WORKER_LAUNCH = RETRY_ELSEWHERE"
| "on_failure p PUBLISH_FAILED = RETRY_ELSEWHERE"
| "on_failure p DOCUMENT_UNAVAILABLE = RETRY_ELSEWHERE"
| "on_failure p WORKER_ERROR = (if immediate_quarantine p then QUARANTINE else RETRY)"
| "on_failure p VALIDATION_ERROR = HOLD"
| "on_failure p FK_BLOCKED = HOLD"
| "on_failure p MERGE_CONFLICT = HOLD"
| "on_failure p MERGE_REJECTED = HOLD"

definition ENVIRONMENT_FAILURE_KINDS :: "failure_kind set" where
  "ENVIRONMENT_FAILURE_KINDS =
     set (filter (\<lambda>k. on_failure default_retry_policy k = RETRY_ELSEWHERE) Enum.enum)"

section \<open>Submit policy\<close>

record workflow_step_policy =
  wsp_workflow :: string
  wsp_step_id :: string
  wsp_kind :: step_kind
  wsp_output :: "string option"
  wsp_route_to :: string
  wsp_dest_kind :: "step_kind option"
  wsp_dest_visits_exhausted :: bool
  wsp_evergreen :: bool
  wsp_visits :: "(string \<times> int) list"
  wsp_exhausted_reason :: string

record submit_policy =
  sp_retry :: retry_policy
  sp_attempts_without_progress :: int
  sp_was_retry :: bool
  sp_watch_armed :: bool
  sp_queue_paused :: bool
  sp_split :: bool
  sp_evergreen :: bool
  sp_auto_resolve :: bool
  sp_pr_mode :: bool
  sp_workflow_step :: "workflow_step_policy option"

definition default_submit_policy :: submit_policy where
  "default_submit_policy = \<lparr>sp_retry = default_retry_policy,
     sp_attempts_without_progress = 0, sp_was_retry = False, sp_watch_armed = False,
     sp_queue_paused = False, sp_split = False, sp_evergreen = False,
     sp_auto_resolve = False, sp_pr_mode = False, sp_workflow_step = None\<rparr>"

section \<open>Effects and transitions\<close>

record task_hold =
  hold_kind :: task_hold_kind
  hold_reason :: "string option"
  hold_retry_eligible :: bool

record frontmatter_flag =
  flag_key :: string
  flag_value :: bool
  flag_reason_key :: "string option"
  flag_reason :: "string option"

datatype progress = PG_NONE | PG_INCREMENT | PG_RESET

record task_effects =
  te_hold :: "task_hold option"
  te_clear_hold :: bool
  te_progress :: progress
  te_next_eligible_in :: "rat option"
  te_worker_cooldown :: bool
  te_frontmatter :: "frontmatter_flag list"
  te_watch_armed :: "bool option"
  te_pause_queue :: "string option"
  te_drop_brief :: bool
  te_start_resolve :: bool
  te_write_artifact :: "(string \<times> string) option"
  te_engine_meta :: "pydict option"
  te_workflow_reset :: bool

definition no_effects :: task_effects where
  "no_effects = \<lparr>te_hold = None, te_clear_hold = False, te_progress = PG_NONE,
     te_next_eligible_in = None, te_worker_cooldown = False, te_frontmatter = [],
     te_watch_armed = None, te_pause_queue = None, te_drop_brief = False,
     te_start_resolve = False, te_write_artifact = None, te_engine_meta = None,
     te_workflow_reset = False\<rparr>"

record transition_event =
  ev_kind :: string
  ev_run_id :: "string option"
  ev_queue :: "string option"
  ev_task :: "string option"
  ev_payload :: "pydict option"

record transition =
  t_ref :: attempt_ref
  t_fields :: pydict
  t_state :: attempt_state
  t_effects :: task_effects
  t_events :: "transition_event list"
  t_response :: pydict

datatype git_phase = GP_LAND | GP_ADOPT_CHECK | GP_HARVEST_SPLIT

section \<open>Land outcomes\<close>

datatype land_kind =
    LK_LANDED | LK_NO_CHANGES | LK_ADOPTED | LK_CONFLICT | LK_CHECKOUT_BEHIND
  | LK_PUSH_REJECTED | LK_TRANSPORT_FAILED

fun land_kind_value :: "land_kind \<Rightarrow> string" where
  "land_kind_value LK_LANDED = ''landed''"
| "land_kind_value LK_NO_CHANGES = ''no_changes''"
| "land_kind_value LK_ADOPTED = ''adopted''"
| "land_kind_value LK_CONFLICT = ''conflict''"
| "land_kind_value LK_CHECKOUT_BEHIND = ''checkout_behind''"
| "land_kind_value LK_PUSH_REJECTED = ''push_rejected''"
| "land_kind_value LK_TRANSPORT_FAILED = ''transport_failed''"

definition LAND_SUCCESS_KINDS :: "land_kind set" where
  "LAND_SUCCESS_KINDS = {LK_LANDED, LK_CHECKOUT_BEHIND, LK_ADOPTED}"

fun land_failure_kind :: "land_kind \<Rightarrow> py_error + failure_kind" where
  "land_failure_kind LK_CONFLICT = Inr MERGE_CONFLICT"
| "land_failure_kind LK_PUSH_REJECTED = Inr MERGE_REJECTED"
| "land_failure_kind LK_TRANSPORT_FAILED = Inr MERGE_REJECTED"
| "land_failure_kind k = Inl (ValueError (land_kind_value k @ '' is not a land failure''))"

record land_outcome =
  lo_kind :: land_kind
  lo_sha :: "string option"
  lo_detail :: string
  lo_conflicts :: "string list"
  lo_dropped_commits :: "string list"
  lo_pr_url :: "string option"
  lo_remote :: "string option"
  lo_pushed :: "bool option"
  lo_retryable :: bool
  lo_loc :: "int option"

definition new_land_outcome :: "land_kind \<Rightarrow> land_outcome" where
  "new_land_outcome k = \<lparr>lo_kind = k, lo_sha = None, lo_detail = [], lo_conflicts = [],
     lo_dropped_commits = [], lo_pr_url = None, lo_remote = None, lo_pushed = None,
     lo_retryable = False, lo_loc = None\<rparr>"

section \<open>Facts about the vocabulary\<close>

named_theorems lifecycle_sets \<open>the status sets, unfolded\<close>

declare ATTEMPT_TERMINAL_STATES_def [lifecycle_sets]
declare ATTEMPT_LIVE_STATES_def [lifecycle_sets]
declare ATTEMPT_RESOLVABLE_STATES_def [lifecycle_sets]
declare MERGE_FAILURE_KINDS_def [lifecycle_sets]
declare LAND_SUCCESS_KINDS_def [lifecycle_sets]

lemma live_not_terminal: "s \<in> ATTEMPT_LIVE_STATES \<Longrightarrow> s \<notin> ATTEMPT_TERMINAL_STATES"
  by (auto simp: lifecycle_sets)

lemma resolvable_terminal: "s \<in> ATTEMPT_RESOLVABLE_STATES \<Longrightarrow> s \<in> ATTEMPT_TERMINAL_STATES"
  by (auto simp: lifecycle_sets)

lemma error_state_terminal: "error_state_for k \<in> ATTEMPT_TERMINAL_STATES"
  by (auto simp: error_state_for_def lifecycle_sets split: option.split)

lemma error_state_not_landed [simp]:
  "error_state_for k \<noteq> AS_LANDED" "error_state_for k \<noteq> AS_NO_CHANGE"
  "error_state_for k \<noteq> AS_RUNNING" "error_state_for k \<noteq> AS_LANDING"
  by (auto simp: error_state_for_def split: option.split)

lemma error_state_conflict_iff:
  "error_state_for k = AS_CONFLICT \<longleftrightarrow> (\<exists>f \<in> MERGE_FAILURE_KINDS. k = Some f)"
  by (auto simp: error_state_for_def split: option.split)

text \<open>A non-terminal state projects to \<open>running\<close> and no terminal state does.\<close>

lemma run_status_of_running_iff:
  "run_status_of s = ''running'' \<longleftrightarrow> s \<notin> ATTEMPT_TERMINAL_STATES"
  by (cases s) (auto simp: lifecycle_sets)

lemma on_failure_elsewhere_iff:
  "on_failure p k = RETRY_ELSEWHERE \<longleftrightarrow> k \<in> ENVIRONMENT_FAILURE_KINDS"
  by (cases k) (simp_all add: ENVIRONMENT_FAILURE_KINDS_def enum_failure_kind_def
      default_retry_policy_def)

lemma on_failure_hold_iff:
  "on_failure p k = HOLD \<longleftrightarrow> k \<in> MERGE_FAILURE_KINDS \<or> k = VALIDATION_ERROR \<or> k = FK_BLOCKED"
  by (cases k) (auto simp: lifecycle_sets)

lemma land_failure_kind_Inr_iff:
  "(\<exists>f. land_failure_kind k = Inr f) \<longleftrightarrow> k \<notin> LAND_SUCCESS_KINDS \<and> k \<noteq> LK_NO_CHANGES"
  by (cases k) (auto simp: lifecycle_sets)

lemma land_failure_kind_merge: "land_failure_kind k = Inr f \<Longrightarrow> f \<in> MERGE_FAILURE_KINDS"
  by (cases k) (auto simp: lifecycle_sets)

subsection \<open>Back-off\<close>

lemma backoff_delay_cap: "backoff_delay b n \<le> cap_seconds b"
  by (simp add: backoff_delay_def)

lemma two_powi_mono: "m \<le> n \<Longrightarrow> (2 :: rat) powi m \<le> 2 powi n"
  by (rule power_int_increasing) simp_all

lemma backoff_delay_mono:
  assumes "0 \<le> base_seconds b" "m \<le> n"
  shows "backoff_delay b m \<le> backoff_delay b n"
proof -
  have "(2 :: rat) powi (min (m - 1) 63) \<le> 2 powi (min (n - 1) 63)"
    using assms(2) by (intro two_powi_mono) linarith
  then have "base_seconds b * 2 powi (min (m - 1) 63) \<le> base_seconds b * 2 powi (min (n - 1) 63)"
    using assms(1) by (rule mult_left_mono)
  then show ?thesis by (simp add: backoff_delay_def min.coboundedI1 min_le_iff_disj)
qed

lemma backoff_delay_first: "backoff_delay b 1 = min (base_seconds b) (cap_seconds b)"
  by (simp add: backoff_delay_def)

lemma backoff_delay_lower:
  assumes "0 \<le> base_seconds b" "base_seconds b \<le> cap_seconds b" "1 \<le> n"
  shows "base_seconds b \<le> backoff_delay b n"
  using backoff_delay_mono [OF assms(1,3)] assms(2) by (simp add: backoff_delay_first)

section \<open>Properties\<close>

text \<open>
  The retry back-off is monotone in the number of failures and stays between the base and
  the cap, the first failure waiting exactly the base.
\<close>

theorem backoff_bounded:
  assumes "0 \<le> base_seconds b" "base_seconds b \<le> cap_seconds b" "1 \<le> m" "m \<le> n"
  shows "base_seconds b = backoff_delay b 1 \<and> base_seconds b \<le> backoff_delay b m \<and>
    backoff_delay b m \<le> backoff_delay b n \<and> backoff_delay b n \<le> cap_seconds b"
  using assms backoff_delay_lower [OF assms(1,2,3)] backoff_delay_mono [OF assms(1,4)]
    backoff_delay_cap [of b n] backoff_delay_first [of b]
  by simp

lemma backoff_bounded_witness:
  "60 \<le> backoff_delay default_backoff 3 \<and> backoff_delay default_backoff 9 \<le> 3600"
  using backoff_bounded [of default_backoff 3 9] by (simp add: default_backoff_def)

end
