(* ===== verification/Transitions.thy ===== *)
theory Transitions
  imports Lifecycle
begin

text \<open>
  The pure transition functions of \<^verbatim>\<open>src/nightshift/transitions.py\<close>: each
  computes the one atomic state change (row fields, new state, task effects, events, HTTP
  response) for an outcome. A Python \<open>assert\<close> or \<open>raise\<close> is an \<^const>\<open>Inl\<close> value.
  The first part holds the functions in the order of the source, the second part the facts
  about them that the properties share.
\<close>

section \<open>Events and base fields\<close>

definition event ::
  "string \<Rightarrow> string option \<Rightarrow> string option \<Rightarrow> string option \<Rightarrow> pydict option \<Rightarrow> transition_event"
  where
  "event k run q t p = \<lparr>ev_kind = k, ev_run_id = run, ev_queue = q, ev_task = t, ev_payload = p\<rparr>"

text \<open>The event shapes the transitions emit.\<close>

definition task_result_event :: "attempt_ref \<Rightarrow> pydict \<Rightarrow> transition_event" where
  "task_result_event ref p =
     event ''task_result'' (Some (ref_id ref)) (ref_queue ref) (Some (ref_task ref)) (Some p)"

definition queue_changed_event :: "attempt_ref \<Rightarrow> transition_event" where
  "queue_changed_event ref = event ''queue_changed'' None (ref_queue ref) None None"

definition queue_paused_event :: "attempt_ref \<Rightarrow> string \<Rightarrow> transition_event" where
  "queue_paused_event ref reason = event ''queue_paused'' None (ref_queue ref) None
     (Some [(''reason'', PStr reason), (''task'', PStr (ref_task ref))])"

definition task_blocked_event :: "attempt_ref \<Rightarrow> pydict \<Rightarrow> transition_event" where
  "task_blocked_event ref p =
     event ''task_blocked'' None (ref_queue ref) (Some (ref_task ref)) (Some p)"

definition task_quarantined_event :: "attempt_ref \<Rightarrow> pydict \<Rightarrow> transition_event" where
  "task_quarantined_event ref p =
     event ''task_quarantined'' (Some (ref_id ref)) (ref_queue ref) (Some (ref_task ref)) (Some p)"

lemmas event_defs = event_def task_result_event_def queue_changed_event_def
  queue_paused_event_def task_blocked_event_def task_quarantined_event_def

definition base_run_fields :: "'a outcome_scheme \<Rightarrow> pydict" where
  "base_run_fields out = (''model'', pstr (o_model out)) # telemetry_dump (telemetry_of out)"

definition pkind :: "failure_kind option \<Rightarrow> pyval" where
  "pkind k = pstr (map_option failure_kind_value k)"

section \<open>The failure ladder\<close>

definition watch_failure ::
  "attempt_ref \<Rightarrow> submit_policy \<Rightarrow> string option \<times> transition_event list" where
  "watch_failure ref policy =
     (if sp_watch_armed policy \<and> \<not> sp_queue_paused policy
      then (Some ''consecutive_failures'', [queue_paused_event ref ''consecutive_failures''])
      else (None, []))"

definition quarantine_flag :: "string \<Rightarrow> frontmatter_flag" where
  "quarantine_flag reason = \<lparr>flag_key = ''quarantined'', flag_value = True,
     flag_reason_key = Some ''quarantine_reason'', flag_reason = Some reason\<rparr>"

definition failed_flag :: "string \<Rightarrow> frontmatter_flag" where
  "failed_flag reason = \<lparr>flag_key = ''failed'', flag_value = True,
     flag_reason_key = Some ''failed_reason'', flag_reason = Some reason\<rparr>"

definition completed_flag :: frontmatter_flag where
  "completed_flag = \<lparr>flag_key = ''completed'', flag_value = True,
     flag_reason_key = None, flag_reason = None\<rparr>"

definition retry_quarantine ::
  "attempt_ref \<Rightarrow> string \<Rightarrow> frontmatter_flag \<times> transition_event list" where
  "retry_quarantine ref detail =
     (let reason = ''quarantined after failing again on retry ('' @ detail @
            ''); review the run logs and edit or delete the task to release it''
      in (quarantine_flag reason,
          [task_quarantined_event ref [(''reason'', PStr reason), (''streak'', PInt 2)],
           queue_paused_event ref ''retry_failed'']))"

definition immediate_quarantine_flag ::
  "attempt_ref \<Rightarrow> string \<Rightarrow> frontmatter_flag \<times> transition_event list" where
  "immediate_quarantine_flag ref detail =
     (let reason = ''quarantined by worker on first failure ('' @ detail @
            ''); review the run logs and edit or delete the task to release it''
      in (quarantine_flag reason,
          [task_quarantined_event ref [(''reason'', PStr reason), (''streak'', PInt 1)]]))"

text \<open>The dash in the source's message is a code point above 255 and is written \<open>-\<close> here.\<close>

definition looping_quarantine ::
  "attempt_ref \<Rightarrow> int \<Rightarrow> string \<Rightarrow> frontmatter_flag \<times> transition_event list" where
  "looping_quarantine ref attempts detail =
     (let reason = ''quarantined after '' @ int_text attempts @
            '' consecutive runs with no progress ('' @ detail @
            ''); execution halted to protect budget - review the run '' @
            ''logs and edit or delete the task to release it''
      in (quarantine_flag reason,
          [task_quarantined_event ref [(''reason'', PStr reason), (''streak'', PInt attempts)]]))"

text \<open>The six components of the ladder's result.\<close>

record ladder =
  lad_quarantined :: bool
  lad_frontmatter :: "frontmatter_flag list"
  lad_events :: "transition_event list"
  lad_pause :: "string option"
  lad_watch :: "bool option"
  lad_backoff :: "rat option"

definition failure_ladder ::
  "attempt_ref \<Rightarrow> submit_policy \<Rightarrow> string \<Rightarrow> string \<Rightarrow> bool \<Rightarrow> ladder" where
  "failure_ladder ref policy quarantine_detail failure_reason retry_pause_after_quarantine =
     (let attempts = sp_attempts_without_progress policy + 1 in
      if immediate_quarantine (sp_retry policy) then
        (case immediate_quarantine_flag ref quarantine_detail of (flag, evs) \<Rightarrow>
           \<lparr>lad_quarantined = True, lad_frontmatter = [flag], lad_events = evs,
            lad_pause = None, lad_watch = None, lad_backoff = None\<rparr>)
      else if 0 < quarantine_after (sp_retry policy)
              \<and> quarantine_after (sp_retry policy) \<le> attempts then
        (case looping_quarantine ref attempts quarantine_detail of (flag, evs) \<Rightarrow>
           if retry_pause_after_quarantine \<and> sp_was_retry policy then
             \<lparr>lad_quarantined = True, lad_frontmatter = [flag],
              lad_events = evs @ [queue_paused_event ref ''retry_failed''],
              lad_pause = Some ''retry_failed'', lad_watch = None, lad_backoff = None\<rparr>
           else
             \<lparr>lad_quarantined = True, lad_frontmatter = [flag], lad_events = evs,
              lad_pause = None, lad_watch = None, lad_backoff = None\<rparr>)
      else
        (case watch_failure ref policy of (pause, watch_events) \<Rightarrow>
           if sp_was_retry policy then
             (case retry_quarantine ref failure_reason of (flag, retry_events) \<Rightarrow>
                \<lparr>lad_quarantined = False,
                 lad_frontmatter = [failed_flag failure_reason, flag],
                 lad_events = watch_events @ retry_events,
                 lad_pause = Some ''retry_failed'', lad_watch = Some True,
                 lad_backoff = Some (backoff_delay (rp_backoff (sp_retry policy)) attempts)\<rparr>)
           else
             \<lparr>lad_quarantined = False, lad_frontmatter = [failed_flag failure_reason],
              lad_events = watch_events, lad_pause = pause, lad_watch = Some True,
              lad_backoff = Some (backoff_delay (rp_backoff (sp_retry policy)) attempts)\<rparr>))"

section \<open>Blocked, error and neutral outcomes\<close>

definition blocked_transition ::
  "attempt_ref \<Rightarrow> 'a outcome_scheme \<Rightarrow> submit_policy \<Rightarrow> transition" where
  "blocked_transition ref out policy =
     (let reason = opt_or (o_failure_reason out) (str_or (o_result_line out) ''blocked'');
          (pause0, watch_events) = watch_failure ref policy;
          (frontmatter, retry_events, pause) =
            (if sp_was_retry policy
             then (case retry_quarantine ref reason of (flag, evs) \<Rightarrow>
                     ([flag], evs, Some ''retry_failed''))
             else ([], [], pause0));
          events = watch_events @ retry_events @
            [task_blocked_event ref [(''reason'', PStr reason)],
             task_result_event ref
               [(''status'', PStr ''blocked''), (''result_line'', PStr (o_result_line out))]]
      in \<lparr>t_ref = ref,
          t_fields =
            [(''result_line'', PStr (o_result_line out)),
             (''failure_kind'', pkind (Some (case o_failure_kind out of
                 None \<Rightarrow> FK_BLOCKED | Some k \<Rightarrow> k))),
             (''failure_reason'', pstr (o_failure_reason out))] @ base_run_fields out,
          t_state = AS_BLOCKED,
          t_effects = no_effects
            \<lparr>te_hold := Some \<lparr>hold_kind = TH_BLOCKED, hold_reason = Some reason,
                             hold_retry_eligible = True\<rparr>,
             te_frontmatter := frontmatter, te_pause_queue := pause,
             te_watch_armed := Some True\<rparr>,
          t_events = events,
          t_response = [(''landed'', PBool False), (''status'', PStr ''blocked'')]\<rparr>)"

definition error_fields :: "'a outcome_scheme \<Rightarrow> pydict" where
  "error_fields out =
     [(''result_line'', PStr (o_result_line out)),
      (''failure_kind'', pkind (o_failure_kind out)),
      (''failure_reason'', pstr (o_failure_reason out))] @ base_run_fields out"

definition status_result_event :: "attempt_ref \<Rightarrow> 'a outcome_scheme \<Rightarrow> transition_event" where
  "status_result_event ref out = task_result_event ref
     [(''status'', PStr (run_status_value (o_status out))),
      (''result_line'', PStr (o_result_line out))]"

definition environment_failure_transition ::
  "attempt_ref \<Rightarrow> 'a outcome_scheme \<Rightarrow> transition" where
  "environment_failure_transition ref out =
     \<lparr>t_ref = ref, t_fields = error_fields out,
      t_state = error_state_for (o_failure_kind out),
      t_effects = no_effects\<lparr>te_worker_cooldown := True\<rparr>,
      t_events = [status_result_event ref out],
      t_response = [(''landed'', PBool False),
        (''status'', PStr (run_status_value (o_status out))), (''quarantined'', PBool False)]\<rparr>"

definition hold_reason_text :: "failure_kind \<Rightarrow> 'a outcome_scheme \<Rightarrow> string" where
  "hold_reason_text kind out =
     (if kind = VALIDATION_ERROR then
        ''validation failed: '' @
          str_or (o_result_line out) ''validate command returned non-zero''
      else
        let detail = str_or (o_result_line out)
              (case o_failure_reason out of None \<Rightarrow> [] | Some r \<Rightarrow> r)
        in if detail \<noteq> [] then failure_kind_value kind @ '': '' @ detail
           else failure_kind_value kind)"

definition error_kind :: "'a outcome_scheme \<Rightarrow> failure_kind" where
  "error_kind out = (case o_failure_kind out of None \<Rightarrow> WORKER_ERROR | Some k \<Rightarrow> k)"

text \<open>The transition an error builds after the action is decided.\<close>

definition error_finish ::
  "attempt_ref \<Rightarrow> 'a outcome_scheme \<Rightarrow> task_hold option \<Rightarrow> ladder \<Rightarrow> transition" where
  "error_finish ref out hold lad =
     \<lparr>t_ref = ref, t_fields = error_fields out,
      t_state = error_state_for (Some (error_kind out)),
      t_effects = no_effects
        \<lparr>te_hold := hold, te_progress := PG_INCREMENT,
         te_next_eligible_in := lad_backoff lad,
         te_frontmatter := lad_frontmatter lad,
         te_pause_queue := lad_pause lad, te_watch_armed := lad_watch lad\<rparr>,
      t_events = lad_events lad @ [status_result_event ref out],
      t_response = [(''landed'', PBool False),
        (''status'', PStr (run_status_value (o_status out))),
        (''quarantined'', PBool (lad_quarantined lad))]\<rparr>"

definition held_ladder :: "attempt_ref \<Rightarrow> 'a outcome_scheme \<Rightarrow> ladder" where
  "held_ladder ref out =
     \<lparr>lad_quarantined = False, lad_frontmatter = [],
      lad_events = [task_blocked_event ref
        [(''reason'', PStr (failure_kind_value (error_kind out))),
         (''detail'', pstr (o_failure_reason out))]],
      lad_pause = None, lad_watch = None, lad_backoff = None\<rparr>"

definition error_transition ::
  "attempt_ref \<Rightarrow> 'a outcome_scheme \<Rightarrow> submit_policy \<Rightarrow> transition" where
  "error_transition ref out policy =
     (case on_failure (sp_retry policy) (error_kind out) of
        RETRY_ELSEWHERE \<Rightarrow> environment_failure_transition ref out
      | HOLD \<Rightarrow>
          error_finish ref out
            (Some \<lparr>hold_kind = TH_BLOCKED,
                   hold_reason = Some (hold_reason_text (error_kind out) out),
                   hold_retry_eligible = False\<rparr>)
            (held_ladder ref out)
      | _ \<Rightarrow>
          error_finish ref out None
            (failure_ladder ref policy ''worker error''
              (str_or (o_result_line out) (opt_or (o_failure_reason out) ''worker error''))
              True))"

definition neutral_transition :: "attempt_ref \<Rightarrow> 'a outcome_scheme \<Rightarrow> transition" where
  "neutral_transition ref out =
     \<lparr>t_ref = ref, t_fields = error_fields out,
      t_state = (if o_status out = RS_SKIPPED then AS_SKIPPED else AS_ABORTED),
      t_effects = no_effects,
      t_events = [status_result_event ref out],
      t_response = [(''landed'', PBool False),
        (''status'', PStr (run_status_value (o_status out))), (''quarantined'', PBool False)]\<rparr>"

section \<open>Split, no-change and land results\<close>

definition str_list :: "string list \<Rightarrow> pyval" where
  "str_list xs = PList (map PStr xs)"

definition decomposed_line :: "string list \<Rightarrow> string" where
  "decomposed_line created =
     ''decomposed into '' @ int_text (int (length created)) @ '' subtask(s): '' @
     py_join '', '' created"

text \<open>The event pair and the response of a harvested split.\<close>

definition split_events :: "attempt_ref \<Rightarrow> string \<Rightarrow> string list \<Rightarrow> transition_event list" where
  "split_events ref result_line created =
     [task_result_event ref
        [(''status'', PStr ''completed''), (''result_line'', PStr result_line),
         (''subtasks'', str_list created)],
      queue_changed_event ref]"

definition split_response :: "string list \<Rightarrow> pydict" where
  "split_response created =
     [(''landed'', PBool False), (''status'', PStr ''completed''),
      (''split'', PBool True), (''subtasks'', str_list created)]"

definition on_split_result ::
  "attempt_ref \<Rightarrow> 'a outcome_scheme \<Rightarrow> string list \<Rightarrow> transition" where
  "on_split_result ref out created =
     (let result_line = (if created \<noteq> [] then decomposed_line created
                         else ''decomposition run produced no subtasks'')
      in \<lparr>t_ref = ref,
          t_fields = (''result_line'', PStr result_line) # base_run_fields out,
          t_state = AS_NO_CHANGE,
          t_effects = no_effects\<lparr>te_clear_hold := True, te_progress := PG_RESET\<rparr>,
          t_events = split_events ref result_line created,
          t_response = split_response created\<rparr>)"

definition completed_result_event :: "attempt_ref \<Rightarrow> string \<Rightarrow> transition_event" where
  "completed_result_event ref result_line = task_result_event ref
     [(''status'', PStr ''completed''), (''result_line'', PStr result_line)]"

definition no_change_transition ::
  "attempt_ref \<Rightarrow> 'a outcome_scheme \<Rightarrow> submit_policy \<Rightarrow> transition" where
  "no_change_transition ref out policy =
     (let result_line = str_or (o_result_line out) ''no changes'';
          lad = failure_ladder ref policy ''no changes produced'' ''no changes produced'' False
      in \<lparr>t_ref = ref,
          t_fields = (''result_line'', PStr result_line) # base_run_fields out,
          t_state = AS_NO_CHANGE,
          t_effects = no_effects
            \<lparr>te_progress := PG_INCREMENT, te_next_eligible_in := lad_backoff lad,
             te_frontmatter := lad_frontmatter lad, te_pause_queue := lad_pause lad,
             te_watch_armed := lad_watch lad\<rparr>,
          t_events = lad_events lad @
            [completed_result_event ref result_line, queue_changed_event ref],
          t_response = [(''landed'', PBool False), (''status'', PStr ''completed''),
            (''no_changes'', PBool True), (''quarantined'', PBool (lad_quarantined lad))]\<rparr>)"

text \<open>Fields, events and response shared by every landed transition.\<close>

definition landed_fields :: "'a outcome_scheme \<Rightarrow> land_outcome \<Rightarrow> string \<Rightarrow> pydict" where
  "landed_fields out land result_line =
     [(''result_line'', PStr result_line), (''commit_sha'', pstr (lo_sha land)),
      (''loc'', pint (lo_loc land)), (''remote'', pstr (lo_remote land)),
      (''pushed'', pbool (lo_pushed land))] @ base_run_fields out"

definition landed_events :: "attempt_ref \<Rightarrow> land_outcome \<Rightarrow> transition_event list" where
  "landed_events ref land =
     [task_result_event ref
        [(''status'', PStr ''completed''), (''commit_sha'', pstr (lo_sha land)),
         (''remote'', pstr (lo_remote land)), (''pushed'', pbool (lo_pushed land)),
         (''pr_url'', pstr (lo_pr_url land))],
      queue_changed_event ref]"

definition landed_response :: "land_outcome \<Rightarrow> pydict" where
  "landed_response land =
     [(''landed'', PBool True), (''sha'', pstr (lo_sha land)),
      (''remote'', pstr (lo_remote land)), (''pushed'', pbool (lo_pushed land)),
      (''pr_url'', pstr (lo_pr_url land))]"

definition landed_line :: "'a outcome_scheme \<Rightarrow> land_outcome \<Rightarrow> string" where
  "landed_line out land = str_or (o_result_line out) (str_or (lo_detail land) ''landed'')"

definition landed_transition ::
  "attempt_ref \<Rightarrow> 'a outcome_scheme \<Rightarrow> land_outcome \<Rightarrow> submit_policy \<Rightarrow> transition" where
  "landed_transition ref out land policy =
     (let result_line =
            (if lo_kind land = LK_ADOPTED \<and> \<not> o_landable out then ''agent landed on main''
             else landed_line out land)
      in \<lparr>t_ref = ref, t_fields = landed_fields out land result_line, t_state = AS_LANDED,
          t_effects = no_effects
            \<lparr>te_clear_hold := True, te_progress := PG_RESET, te_watch_armed := Some False,
             te_drop_brief := \<not> sp_evergreen policy\<rparr>,
          t_events = landed_events ref land, t_response = landed_response land\<rparr>)"

text \<open>\<open>land.detail.splitlines()[0]\<close>, guarded by a non-empty detail.\<close>

definition first_line :: "string \<Rightarrow> string" where
  "first_line s = (case py_splitlines s of [] \<Rightarrow> [] | l # _ \<Rightarrow> l)"

definition land_resolvable :: "land_outcome \<Rightarrow> bool" where
  "land_resolvable land \<longleftrightarrow>
     lo_kind land = LK_CONFLICT \<or> lo_kind land = LK_PUSH_REJECTED \<or>
     (lo_kind land = LK_TRANSPORT_FAILED \<and> lo_retryable land)"

definition land_failed_transition ::
  "attempt_ref \<Rightarrow> 'a outcome_scheme \<Rightarrow> land_outcome \<Rightarrow> submit_policy \<Rightarrow> py_error + transition" where
  "land_failed_transition ref out land policy =
     bind_result (land_failure_kind (lo_kind land)) (\<lambda>kind.
       let resolvable = land_resolvable land;
           land_reason = ''needs resolve: '' @
             (if lo_detail land \<noteq> [] then first_line (lo_detail land)
              else failure_kind_value kind);
           (pause, watch_events) =
             (if resolvable then watch_failure ref policy else (None, []))
       in Inr \<lparr>t_ref = ref,
           t_fields =
             [(''result_line'', PStr (if lo_detail land \<noteq> []
                 then take 200 (first_line (lo_detail land)) else ''land failed'')),
              (''failure_kind'', pkind (Some kind)),
              (''failure_reason'', PStr (lo_detail land))] @ base_run_fields out,
           t_state = error_state_for (Some kind),
           t_effects = no_effects
             \<lparr>te_hold := (if resolvable then
                 Some \<lparr>hold_kind = TH_BLOCKED, hold_reason = Some land_reason,
                       hold_retry_eligible = False\<rparr> else None),
              te_pause_queue := pause,
              te_watch_armed := (if resolvable then Some True else None),
              te_start_resolve := sp_auto_resolve policy \<and> resolvable \<and> \<not> sp_pr_mode policy\<rparr>,
           t_events =
             (if resolvable then
                watch_events @ [task_blocked_event ref
                  [(''reason'', PStr (failure_kind_value kind)),
                   (''detail'', PStr (lo_detail land))]]
              else []) @
             [task_result_event ref
               [(''status'', PStr (run_status_value RS_ERROR)),
                (''failure_kind'', PStr (failure_kind_value kind))]],
           t_response = [(''landed'', PBool False),
             (''conflict'', PBool (lo_kind land = LK_CONFLICT)),
             (''detail'', PStr (lo_detail land)), (''resolving'', PBool False)]\<rparr>)"

definition on_land_result ::
  "attempt_ref \<Rightarrow> 'a outcome_scheme \<Rightarrow> land_outcome \<Rightarrow> submit_policy \<Rightarrow> py_error + transition" where
  "on_land_result ref out land policy =
     (case lo_kind land of
        LK_NO_CHANGES \<Rightarrow> Inr (no_change_transition ref out policy)
      | LK_LANDED \<Rightarrow> Inr (landed_transition ref out land policy)
      | LK_CHECKOUT_BEHIND \<Rightarrow> Inr (landed_transition ref out land policy)
      | LK_ADOPTED \<Rightarrow> Inr (landed_transition ref out land policy)
      | LK_CONFLICT \<Rightarrow> land_failed_transition ref out land policy
      | LK_PUSH_REJECTED \<Rightarrow> land_failed_transition ref out land policy
      | LK_TRANSPORT_FAILED \<Rightarrow> land_failed_transition ref out land policy)"

section \<open>Recovery, enqueueing, stop and deadline\<close>

definition on_land_interrupted :: "attempt_ref \<Rightarrow> transition" where
  "on_land_interrupted ref =
     (let detail = ''manager restarted mid-land; task branch preserved for resolve''
      in \<lparr>t_ref = ref,
          t_fields = [(''result_line'', PStr detail),
            (''failure_kind'', pkind (Some MERGE_REJECTED)), (''failure_reason'', PStr detail)],
          t_state = AS_CONFLICT,
          t_effects = no_effects\<lparr>te_hold := Some
            \<lparr>hold_kind = TH_BLOCKED, hold_reason = Some (''needs resolve: '' @ detail),
             hold_retry_eligible = False\<rparr>\<rparr>,
          t_events =
            [task_blocked_event ref
               [(''reason'', PStr (failure_kind_value MERGE_REJECTED)), (''detail'', PStr detail)],
             task_result_event ref
               [(''status'', PStr (run_status_value RS_ERROR)),
                (''failure_kind'', PStr (failure_kind_value MERGE_REJECTED))]],
          t_response = []\<rparr>)"

definition on_land_recovered :: "attempt_ref \<Rightarrow> string \<Rightarrow> string option \<Rightarrow> transition" where
  "on_land_recovered ref sha note =
     (let result_line = ''recovered: landed (manager restarted mid-land)'' @
            (case note of None \<Rightarrow> [] | Some n \<Rightarrow> n)
      in \<lparr>t_ref = ref,
          t_fields = [(''result_line'', PStr result_line), (''commit_sha'', PStr sha)],
          t_state = AS_LANDED,
          t_effects = no_effects
            \<lparr>te_clear_hold := True, te_progress := PG_RESET, te_watch_armed := Some False\<rparr>,
          t_events =
            [task_result_event ref
               [(''status'', PStr ''completed''), (''commit_sha'', PStr sha),
                (''result_line'', PStr result_line)],
             queue_changed_event ref],
          t_response = []\<rparr>)"

definition on_land_enqueued ::
  "attempt_ref \<Rightarrow> string option \<Rightarrow> string option \<Rightarrow> transition" where
  "on_land_enqueued ref branch_ref head_sha =
     \<lparr>t_ref = ref,
      t_fields = [(''phase'', PStr ''landing''), (''branch_ref'', pstr branch_ref),
        (''head_sha'', pstr head_sha)],
      t_state = AS_LANDING, t_effects = no_effects, t_events = [], t_response = []\<rparr>"

definition on_operator_stop :: "attempt_ref \<Rightarrow> transition" where
  "on_operator_stop ref =
     \<lparr>t_ref = ref, t_fields = [], t_state = AS_ABORTED, t_effects = no_effects,
      t_events = [], t_response = []\<rparr>"

definition on_deadline :: "attempt_ref \<Rightarrow> transition" where
  "on_deadline ref =
     \<lparr>t_ref = ref, t_fields = [], t_state = AS_EXPIRED, t_effects = no_effects,
      t_events = [], t_response = []\<rparr>"

section \<open>Workflow step transitions\<close>

definition advance_visits :: "workflow_step_policy \<Rightarrow> pydict" where
  "advance_visits step =
     (let visits = dset (wsp_visits step) (wsp_route_to step)
            (dget_or (wsp_visits step) (wsp_route_to step) 0 + 1)
      in [(''workflow_step'', PStr (wsp_route_to step)),
          (''workflow_visits'', PStr (format_visits visits))])"

definition exhausted_text :: "workflow_step_policy \<Rightarrow> string" where
  "exhausted_text step = str_or (wsp_exhausted_reason step)
     (''workflow budget exhausted at '' @ quoted (wsp_route_to step))"

definition workflow_budget_quarantine ::
  "attempt_ref \<Rightarrow> 'a outcome_scheme \<Rightarrow> workflow_step_policy \<Rightarrow> (string \<times> string) option \<Rightarrow>
   transition" where
  "workflow_budget_quarantine ref out step write_artifact =
     (let reason = exhausted_text step in
      \<lparr>t_ref = ref,
       t_fields = (''result_line'', PStr (o_result_line out)) # base_run_fields out,
       t_state = AS_NO_CHANGE,
       t_effects = no_effects\<lparr>te_frontmatter := [quarantine_flag reason],
                              te_write_artifact := write_artifact\<rparr>,
       t_events = [task_quarantined_event ref [(''reason'', PStr reason)],
                   completed_result_event ref (o_result_line out)],
       t_response = [(''landed'', PBool False), (''status'', PStr ''completed''),
                     (''quarantined'', PBool True)]\<rparr>)"

definition workflow_end ::
  "attempt_ref \<Rightarrow> 'a outcome_scheme \<Rightarrow> workflow_step_policy \<Rightarrow> (string \<times> string) option \<Rightarrow>
   transition" where
  "workflow_end ref out step write_artifact =
     (let result_line = str_or (o_result_line out) ''workflow complete'' in
      \<lparr>t_ref = ref,
       t_fields = (''result_line'', PStr result_line) # base_run_fields out,
       t_state = AS_NO_CHANGE,
       t_effects =
         (if wsp_evergreen step
          then no_effects\<lparr>te_progress := PG_RESET, te_write_artifact := write_artifact,
                          te_workflow_reset := True\<rparr>
          else no_effects\<lparr>te_progress := PG_RESET, te_write_artifact := write_artifact,
                          te_frontmatter := [completed_flag]\<rparr>),
       t_events = [completed_result_event ref result_line, queue_changed_event ref],
       t_response = [(''landed'', PBool False), (''status'', PStr ''completed''),
                     (''workflow_complete'', PBool True)]\<rparr>)"

definition produced_line :: "workflow_step_policy \<Rightarrow> string" where
  "produced_line step =
     ''produced '' @ quoted (case wsp_output step of None \<Rightarrow> ''None'' | Some p \<Rightarrow> p)"

definition workflow_doc_advance ::
  "attempt_ref \<Rightarrow> 'a outcome_scheme \<Rightarrow> workflow_step_policy \<Rightarrow> (string \<times> string) option \<Rightarrow>
   transition" where
  "workflow_doc_advance ref out step write_artifact =
     (let result_line = str_or (o_result_line out) (produced_line step) in
      \<lparr>t_ref = ref,
       t_fields = (''result_line'', PStr result_line) # base_run_fields out,
       t_state = AS_NO_CHANGE,
       t_effects = no_effects\<lparr>te_progress := PG_RESET, te_write_artifact := write_artifact,
                              te_engine_meta := Some (advance_visits step)\<rparr>,
       t_events = [completed_result_event ref result_line, queue_changed_event ref],
       t_response = [(''landed'', PBool False), (''status'', PStr ''completed''),
                     (''workflow_step'', PStr (wsp_route_to step))]\<rparr>)"

text \<open>\<open>Transition | GitPhase\<close>: what a submit is answered with.\<close>

datatype submit_answer = Apply transition | Git git_phase

definition document_missing :: "'a outcome_scheme \<Rightarrow> 'a outcome_scheme" where
  "document_missing out = out
     \<lparr>o_status := RS_ERROR, o_failure_kind := Some WORKER_ERROR,
      o_failure_reason := Some ''doc step produced no document'',
      o_result_line := ''doc step produced no document''\<rparr>"

definition on_workflow_step ::
  "attempt_ref \<Rightarrow> 'a outcome_scheme \<Rightarrow> submit_policy \<Rightarrow> py_error + submit_answer" where
  "on_workflow_step ref out policy =
     (case sp_workflow_step policy of
        None \<Rightarrow> Inl AssertionError
      | Some step \<Rightarrow>
          (case o_status out of
             RS_BLOCKED \<Rightarrow> Inr (Apply (blocked_transition ref out policy))
           | RS_ERROR \<Rightarrow> Inr (Apply (error_transition ref out policy))
           | RS_RUNNING \<Rightarrow> Inr (Apply (neutral_transition ref out))
           | RS_SKIPPED \<Rightarrow> Inr (Apply (neutral_transition ref out))
           | RS_ABORTED \<Rightarrow> Inr (Apply (neutral_transition ref out))
           | RS_COMPLETED \<Rightarrow>
               (case wsp_kind step of
                  DOC \<Rightarrow>
                    (case o_document out of
                       None \<Rightarrow> Inr (Apply (error_transition ref (document_missing out) policy))
                     | Some document \<Rightarrow>
                         let write_artifact =
                               (case wsp_output step of
                                  None \<Rightarrow> None
                                | Some p \<Rightarrow> if p = [] then None else Some (p, document))
                         in if wsp_route_to step = END
                            then Inr (Apply (workflow_end ref out step write_artifact))
                            else if wsp_dest_visits_exhausted step
                            then Inr (Apply (workflow_budget_quarantine ref out step write_artifact))
                            else Inr (Apply (workflow_doc_advance ref out step write_artifact)))
                | CODE \<Rightarrow> Inr (Git (if o_landable out then GP_LAND else GP_ADOPT_CHECK))
                | SPLIT \<Rightarrow> Inr (Git GP_HARVEST_SPLIT))))"

definition on_submit ::
  "attempt_ref \<Rightarrow> 'a outcome_scheme \<Rightarrow> submit_policy \<Rightarrow> py_error + submit_answer" where
  "on_submit ref out policy =
     (if sp_workflow_step policy \<noteq> None then on_workflow_step ref out policy
      else case o_status out of
          RS_BLOCKED \<Rightarrow> Inr (Apply (blocked_transition ref out policy))
        | RS_ERROR \<Rightarrow> Inr (Apply (error_transition ref out policy))
        | RS_RUNNING \<Rightarrow> Inr (Apply (neutral_transition ref out))
        | RS_SKIPPED \<Rightarrow> Inr (Apply (neutral_transition ref out))
        | RS_ABORTED \<Rightarrow> Inr (Apply (neutral_transition ref out))
        | RS_COMPLETED \<Rightarrow>
            Inr (Git (if sp_split policy \<and> \<not> o_landable out then GP_HARVEST_SPLIT
                      else if o_landable out then GP_LAND else GP_ADOPT_CHECK)))"

definition workflow_landed_transition ::
  "attempt_ref \<Rightarrow> 'a outcome_scheme \<Rightarrow> land_outcome \<Rightarrow> task_effects \<Rightarrow> transition_event list \<Rightarrow>
   transition" where
  "workflow_landed_transition ref out land eff extra =
     \<lparr>t_ref = ref, t_fields = landed_fields out land (landed_line out land), t_state = AS_LANDED,
      t_effects = eff, t_events = landed_events ref land @ extra,
      t_response = landed_response land\<rparr>"

definition land_effects :: task_effects where
  "land_effects = no_effects\<lparr>te_clear_hold := True, te_progress := PG_RESET,
                             te_watch_armed := Some False\<rparr>"

definition on_workflow_land ::
  "attempt_ref \<Rightarrow> 'a outcome_scheme \<Rightarrow> land_outcome \<Rightarrow> submit_policy \<Rightarrow> py_error + transition" where
  "on_workflow_land ref out land policy =
     (case sp_workflow_step policy of
        None \<Rightarrow> Inl AssertionError
      | Some step \<Rightarrow>
          (let advance =
                 (if wsp_route_to step = END then
                    workflow_landed_transition ref out land
                      (land_effects\<lparr>te_drop_brief := \<not> wsp_evergreen step,
                                    te_workflow_reset := wsp_evergreen step\<rparr>) []
                  else if wsp_dest_visits_exhausted step then
                    workflow_landed_transition ref out land
                      (land_effects\<lparr>te_frontmatter := [quarantine_flag (exhausted_text step)]\<rparr>)
                      [task_quarantined_event ref [(''reason'', PStr (exhausted_text step))]]
                  else
                    workflow_landed_transition ref out land
                      (land_effects\<lparr>te_engine_meta := Some (advance_visits step)\<rparr>) [])
           in case lo_kind land of
                LK_NO_CHANGES \<Rightarrow> Inr (no_change_transition ref out policy)
              | LK_LANDED \<Rightarrow> Inr advance
              | LK_CHECKOUT_BEHIND \<Rightarrow> Inr advance
              | LK_ADOPTED \<Rightarrow> Inr advance
              | LK_CONFLICT \<Rightarrow> land_failed_transition ref out land policy
              | LK_PUSH_REJECTED \<Rightarrow> land_failed_transition ref out land policy
              | LK_TRANSPORT_FAILED \<Rightarrow> land_failed_transition ref out land policy))"

definition on_workflow_split ::
  "attempt_ref \<Rightarrow> 'a outcome_scheme \<Rightarrow> string list \<Rightarrow> submit_policy \<Rightarrow> py_error + transition" where
  "on_workflow_split ref out created policy =
     (case sp_workflow_step policy of
        None \<Rightarrow> Inl AssertionError
      | Some step \<Rightarrow>
          let result_line = (if created = [] then ''decomposition run produced no subtasks''
                             else decomposed_line created)
          in Inr \<lparr>t_ref = ref,
               t_fields = (''result_line'', PStr result_line) # base_run_fields out,
               t_state = AS_NO_CHANGE,
               t_effects =
                 (if created = [] then no_effects\<lparr>te_progress := PG_INCREMENT\<rparr>
                  else no_effects\<lparr>te_clear_hold := True, te_progress := PG_RESET,
                                  te_workflow_reset := wsp_evergreen step\<rparr>),
               t_events = split_events ref result_line created,
               t_response = split_response created\<rparr>)"

section \<open>Facts about the transitions\<close>

text \<open>
  Every transition a submit can end in: answered at once, or after the git phase the caller
  runs, whose land outcome or harvested children are inputs here.
\<close>

inductive submit_ends ::
  "attempt_ref \<Rightarrow> 'a outcome_scheme \<Rightarrow> submit_policy \<Rightarrow> transition \<Rightarrow> bool"
  for ref out policy where
  answered: "on_submit ref out policy = Inr (Apply t) \<Longrightarrow> submit_ends ref out policy t"
| landed: "on_submit ref out policy = Inr (Git g) \<Longrightarrow> g = GP_LAND \<or> g = GP_ADOPT_CHECK \<Longrightarrow>
    sp_workflow_step policy = None \<Longrightarrow> on_land_result ref out land policy = Inr t \<Longrightarrow>
    submit_ends ref out policy t"
| workflow_landed: "on_submit ref out policy = Inr (Git g) \<Longrightarrow> g = GP_LAND \<or> g = GP_ADOPT_CHECK \<Longrightarrow>
    on_workflow_land ref out land policy = Inr t \<Longrightarrow> submit_ends ref out policy t"
| split: "on_submit ref out policy = Inr (Git GP_HARVEST_SPLIT) \<Longrightarrow>
    sp_workflow_step policy = None \<Longrightarrow> t = on_split_result ref out created \<Longrightarrow>
    submit_ends ref out policy t"
| workflow_split: "on_submit ref out policy = Inr (Git GP_HARVEST_SPLIT) \<Longrightarrow>
    on_workflow_split ref out created policy = Inr t \<Longrightarrow> submit_ends ref out policy t"

subsection \<open>Where a submit can end\<close>

lemma on_submit_answer_cases:
  assumes "on_submit ref out policy = Inr a"
  obtains
    (blocked) "o_status out = RS_BLOCKED" "a = Apply (blocked_transition ref out policy)"
  | (error) "o_status out = RS_ERROR" "a = Apply (error_transition ref out policy)"
  | (neutral) "o_status out \<in> {RS_RUNNING, RS_SKIPPED, RS_ABORTED}"
      "a = Apply (neutral_transition ref out)"
  | (no_document) step where "o_status out = RS_COMPLETED" "sp_workflow_step policy = Some step"
      "wsp_kind step = DOC" "o_document out = None"
      "a = Apply (error_transition ref (document_missing out) policy)"
  | (doc_end) step artifact where "o_status out = RS_COMPLETED" "sp_workflow_step policy = Some step"
      "wsp_kind step = DOC" "wsp_route_to step = END" "o_document out \<noteq> None"
      "a = Apply (workflow_end ref out step artifact)"
  | (doc_exhausted) step artifact where "o_status out = RS_COMPLETED"
      "sp_workflow_step policy = Some step" "wsp_kind step = DOC" "wsp_route_to step \<noteq> END"
      "wsp_dest_visits_exhausted step" "o_document out \<noteq> None"
      "a = Apply (workflow_budget_quarantine ref out step artifact)"
  | (doc_advance) step artifact where "o_status out = RS_COMPLETED"
      "sp_workflow_step policy = Some step" "wsp_kind step = DOC" "wsp_route_to step \<noteq> END"
      "\<not> wsp_dest_visits_exhausted step" "o_document out \<noteq> None"
      "a = Apply (workflow_doc_advance ref out step artifact)"
  | (git) g where "o_status out = RS_COMPLETED" "a = Git g"
proof -
  note defs = on_submit_def on_workflow_step_def Let_def
  show thesis
  proof (cases "o_status out")
    case RS_COMPLETED
    show thesis
    proof (cases "sp_workflow_step policy")
      case None
      then show thesis using assms RS_COMPLETED git by (auto simp: defs)
    next
      case (Some step)
      show thesis
      proof (cases "wsp_kind step")
        case DOC
        then show thesis
          using assms RS_COMPLETED Some no_document doc_end doc_exhausted doc_advance
          by (auto simp: defs split: option.splits if_splits)
      qed (use assms RS_COMPLETED Some git in \<open>auto simp: defs\<close>)
    qed
  qed (use assms blocked error neutral in \<open>cases "sp_workflow_step policy"; auto simp: defs\<close>)+
qed

lemma on_land_result_cases:
  assumes "on_land_result ref out land policy = Inr t"
  obtains
    (no_change) "lo_kind land = LK_NO_CHANGES" "t = no_change_transition ref out policy"
  | (landed) "lo_kind land \<in> LAND_SUCCESS_KINDS" "t = landed_transition ref out land policy"
  | (failed) "lo_kind land \<notin> LAND_SUCCESS_KINDS"
      "land_failed_transition ref out land policy = Inr t"
  using assms by (cases "lo_kind land") (auto simp: on_land_result_def lifecycle_sets)

lemma on_workflow_land_cases:
  assumes "on_workflow_land ref out land policy = Inr t"
  obtains
    (no_change) "lo_kind land = LK_NO_CHANGES" "t = no_change_transition ref out policy"
  | (failed) "lo_kind land \<notin> LAND_SUCCESS_KINDS"
      "land_failed_transition ref out land policy = Inr t"
  | (finish) step where "sp_workflow_step policy = Some step"
      "lo_kind land \<in> LAND_SUCCESS_KINDS" "wsp_route_to step = END"
      "t = workflow_landed_transition ref out land
             (land_effects\<lparr>te_drop_brief := \<not> wsp_evergreen step,
                           te_workflow_reset := wsp_evergreen step\<rparr>) []"
  | (exhausted) step where "sp_workflow_step policy = Some step"
      "lo_kind land \<in> LAND_SUCCESS_KINDS" "wsp_route_to step \<noteq> END" "wsp_dest_visits_exhausted step"
      "t = workflow_landed_transition ref out land
             (land_effects\<lparr>te_frontmatter := [quarantine_flag (exhausted_text step)]\<rparr>)
             [task_quarantined_event ref [(''reason'', PStr (exhausted_text step))]]"
  | (advance) step where "sp_workflow_step policy = Some step"
      "lo_kind land \<in> LAND_SUCCESS_KINDS" "wsp_route_to step \<noteq> END" "\<not> wsp_dest_visits_exhausted step"
      "t = workflow_landed_transition ref out land
             (land_effects\<lparr>te_engine_meta := Some (advance_visits step)\<rparr>) []"
proof -
  obtain step where step: "sp_workflow_step policy = Some step"
    using assms by (auto simp: on_workflow_land_def split: option.splits)
  show thesis
  proof (cases "lo_kind land \<in> LAND_SUCCESS_KINDS")
    case True
    then show thesis
      using assms step finish exhausted advance
      by (auto simp: on_workflow_land_def Let_def lifecycle_sets workflow_landed_transition_def
          land_effects_def split: if_splits)
  next
    case False
    then show thesis
      using assms step no_change failed
      by (cases "lo_kind land") (auto simp: on_workflow_land_def Let_def lifecycle_sets)
  qed
qed


text \<open>
  A submit's transition as one of its leaves. Each case keeps what its proof path knows.
\<close>

lemma submit_ends_leaves:
  assumes "submit_ends ref out policy t"
  obtains
    (blocked) "o_status out = RS_BLOCKED" "t = blocked_transition ref out policy"
  | (error) out' where "out' = out \<and> o_status out = RS_ERROR
        \<or> out' = document_missing out \<and> o_status out = RS_COMPLETED"
      "t = error_transition ref out' policy"
  | (neutral) "o_status out \<in> {RS_RUNNING, RS_SKIPPED, RS_ABORTED}" "t = neutral_transition ref out"
  | (doc_end) step artifact where "o_status out = RS_COMPLETED" "sp_workflow_step policy = Some step"
      "t = workflow_end ref out step artifact"
  | (doc_exhausted) step artifact where "o_status out = RS_COMPLETED"
      "sp_workflow_step policy = Some step" "wsp_dest_visits_exhausted step"
      "t = workflow_budget_quarantine ref out step artifact"
  | (doc_advance) step artifact where "o_status out = RS_COMPLETED"
      "sp_workflow_step policy = Some step" "wsp_route_to step \<noteq> END"
      "\<not> wsp_dest_visits_exhausted step" "t = workflow_doc_advance ref out step artifact"
  | (no_change) "o_status out = RS_COMPLETED" "t = no_change_transition ref out policy"
  | (landed) land where "o_status out = RS_COMPLETED" "sp_workflow_step policy = None"
      "t = landed_transition ref out land policy"
  | (land_failed) land where "o_status out = RS_COMPLETED"
      "land_failed_transition ref out land policy = Inr t"
  | (step_end) land step where "o_status out = RS_COMPLETED" "sp_workflow_step policy = Some step"
      "t = workflow_landed_transition ref out land
             (land_effects\<lparr>te_drop_brief := \<not> wsp_evergreen step,
                           te_workflow_reset := wsp_evergreen step\<rparr>) []"
  | (step_exhausted) land step where "o_status out = RS_COMPLETED"
      "sp_workflow_step policy = Some step" "wsp_dest_visits_exhausted step"
      "t = workflow_landed_transition ref out land
             (land_effects\<lparr>te_frontmatter := [quarantine_flag (exhausted_text step)]\<rparr>)
             [task_quarantined_event ref [(''reason'', PStr (exhausted_text step))]]"
  | (step_advance) land step where "o_status out = RS_COMPLETED"
      "sp_workflow_step policy = Some step" "wsp_route_to step \<noteq> END"
      "\<not> wsp_dest_visits_exhausted step"
      "t = workflow_landed_transition ref out land
             (land_effects\<lparr>te_engine_meta := Some (advance_visits step)\<rparr>) []"
  | (harvested) created where "o_status out = RS_COMPLETED" "t = on_split_result ref out created"
  | (step_split) created step where "o_status out = RS_COMPLETED"
      "sp_workflow_step policy = Some step" "on_workflow_split ref out created policy = Inr t"
  using assms
proof cases
  case answered
  then show thesis
    by (cases rule: on_submit_answer_cases)
      (use blocked error neutral doc_end doc_exhausted doc_advance in auto)
next
  case (landed g land)
  from landed(1) have "o_status out = RS_COMPLETED" by (cases rule: on_submit_answer_cases) auto
  with landed(4) show thesis
    by (cases rule: on_land_result_cases)
      (use landed(3) no_change \<open>\<And>land. _ \<Longrightarrow> _ \<Longrightarrow> t = landed_transition ref out land policy \<Longrightarrow> thesis\<close>
        land_failed in auto)
next
  case (workflow_landed g land)
  from workflow_landed(1) have "o_status out = RS_COMPLETED"
    by (cases rule: on_submit_answer_cases) auto
  with workflow_landed(3) show thesis
    by (cases rule: on_workflow_land_cases)
      (use no_change land_failed step_end step_exhausted step_advance in auto)
next
  case (split created)
  from split(1) have "o_status out = RS_COMPLETED" by (cases rule: on_submit_answer_cases) auto
  with split(3) harvested show thesis by simp
next
  case (workflow_split created)
  from workflow_split(1) have "o_status out = RS_COMPLETED"
    by (cases rule: on_submit_answer_cases) auto
  moreover obtain step where "sp_workflow_step policy = Some step"
    using workflow_split(2) by (auto simp: on_workflow_split_def split: option.splits)
  ultimately show thesis using workflow_split(2) step_split by simp
qed


subsection \<open>What the leaves have in common\<close>

abbreviation results_of :: "transition_event list \<Rightarrow> transition_event list" where
  "results_of evs \<equiv> filter (\<lambda>e. ev_kind e = ''task_result'') evs"

abbreviation pauses_of :: "transition_event list \<Rightarrow> transition_event list" where
  "pauses_of evs \<equiv> filter (\<lambda>e. ev_kind e = ''queue_paused'') evs"

abbreviation quarantines_of :: "transition_event list \<Rightarrow> transition_event list" where
  "quarantines_of evs \<equiv> filter (\<lambda>e. ev_kind e = ''task_quarantined'') evs"

definition quarantine_flags :: "frontmatter_flag list \<Rightarrow> frontmatter_flag list" where
  "quarantine_flags fs = filter (\<lambda>f. flag_key f = ''quarantined'') fs"

text \<open>
  The contract of a submit's transition: its attempt ends, exactly one result is reported for
  it, a quarantine is announced exactly when the brief is flagged, and the last pause event
  carries the pause that the queue is put in.
\<close>

definition sound_submit :: "attempt_ref \<Rightarrow> transition \<Rightarrow> bool" where
  "sound_submit ref t \<longleftrightarrow>
     t_ref t = ref \<and> t_state t \<in> ATTEMPT_TERMINAL_STATES \<and>
     map ev_run_id (results_of (t_events t)) = [Some (ref_id ref)] \<and>
     length (quarantines_of (t_events t)) = length (quarantine_flags (te_frontmatter (t_effects t))) \<and>
     (case te_pause_queue (t_effects t) of
        None \<Rightarrow> pauses_of (t_events t) = []
      | Some r \<Rightarrow> pauses_of (t_events t) \<noteq> [] \<and>
          ev_payload (last (pauses_of (t_events t)))
            = Some [(''reason'', PStr r), (''task'', PStr (ref_task ref))]) \<and>
     (dget (t_response t) ''landed'' = Some (PBool (t_state t = AS_LANDED))) \<and>
     (te_hold (t_effects t) \<noteq> None \<longrightarrow>
        t_state t \<in> ATTEMPT_RESOLVABLE_STATES \<and> \<not> te_clear_hold (t_effects t) \<and>
        te_progress (t_effects t) \<noteq> PG_RESET)"

lemma watch_failure_sound:
  "watch_failure ref policy = (pause, evs) \<Longrightarrow>
     results_of evs = [] \<and> quarantines_of evs = [] \<and>
     pauses_of evs = (case pause of None \<Rightarrow> [] | Some r \<Rightarrow> [queue_paused_event ref r])"
  by (auto simp: watch_failure_def event_defs split: if_splits)

definition ladder_sound :: "attempt_ref \<Rightarrow> ladder \<Rightarrow> bool" where
  "ladder_sound ref lad \<longleftrightarrow>
     results_of (lad_events lad) = [] \<and>
     length (quarantines_of (lad_events lad)) = length (quarantine_flags (lad_frontmatter lad)) \<and>
     (case lad_pause lad of
        None \<Rightarrow> pauses_of (lad_events lad) = []
      | Some r \<Rightarrow> pauses_of (lad_events lad) \<noteq> [] \<and>
          ev_payload (last (pauses_of (lad_events lad)))
            = Some [(''reason'', PStr r), (''task'', PStr (ref_task ref))])"

lemma failure_ladder_sound: "ladder_sound ref (failure_ladder ref policy d r b)"
  by (auto simp: ladder_sound_def failure_ladder_def Let_def immediate_quarantine_flag_def
      looping_quarantine_def retry_quarantine_def watch_failure_def event_defs
      quarantine_flags_def quarantine_flag_def failed_flag_def)

lemma held_ladder_sound: "ladder_sound ref (held_ladder ref out)"
  by (simp add: ladder_sound_def held_ladder_def event_defs quarantine_flags_def)

lemmas leaf_defs = event_defs sound_submit_def no_effects_def lifecycle_sets
  quarantine_flags_def status_result_event_def completed_result_event_def

lemma blocked_sound: "sound_submit ref (blocked_transition ref out policy)"
  by (auto simp: blocked_transition_def leaf_defs Let_def watch_failure_def retry_quarantine_def
      quarantine_flag_def)

lemma neutral_sound: "sound_submit ref (neutral_transition ref out)"
  by (auto simp: neutral_transition_def leaf_defs)

lemma environment_sound: "sound_submit ref (environment_failure_transition ref out)"
  by (auto simp: environment_failure_transition_def leaf_defs error_state_for_def split: option.split)

lemma no_change_sound: "sound_submit ref (no_change_transition ref out policy)"
  using failure_ladder_sound [of ref policy "''no changes produced''" "''no changes produced''" False]
  by (auto simp: no_change_transition_def ladder_sound_def leaf_defs Let_def split: option.splits)

lemma landed_sound: "sound_submit ref (landed_transition ref out land policy)"
  by (auto simp: landed_transition_def leaf_defs landed_events_def landed_response_def Let_def)

lemma workflow_landed_sound:
  "results_of extra = [] \<Longrightarrow> pauses_of extra = [] \<Longrightarrow>
   length (quarantines_of extra) = length (quarantine_flags (te_frontmatter eff)) \<Longrightarrow>
   te_pause_queue eff = None \<Longrightarrow> te_hold eff = None \<Longrightarrow>
   sound_submit ref (workflow_landed_transition ref out land eff extra)"
  by (auto simp: workflow_landed_transition_def leaf_defs landed_events_def landed_response_def)

lemma land_failed_sound:
  assumes "land_failed_transition ref out land policy = Inr t" shows "sound_submit ref t"
proof -
  obtain k where k: "land_failure_kind (lo_kind land) = Inr k"
    using assms by (auto simp: land_failed_transition_def bind_result_eq_Inr_iff)
  obtain pause evs where w: "(if land_resolvable land then watch_failure ref policy else (None, [])) = (pause, evs)"
    by fastforce
  have e: "results_of evs = []" "quarantines_of evs = []"
    "pauses_of evs = (case pause of None \<Rightarrow> [] | Some r \<Rightarrow> [queue_paused_event ref r])"
    using w watch_failure_sound [of ref policy pause evs] by (auto split: if_splits)
  have s: "error_state_for (Some k) \<in> ATTEMPT_TERMINAL_STATES"
    "error_state_for (Some k) \<in> ATTEMPT_RESOLVABLE_STATES" "error_state_for (Some k) \<noteq> AS_LANDED"
    using land_failure_kind_merge [OF k] by (auto simp: error_state_for_def lifecycle_sets)
  show ?thesis
    using assms k w e s
    by (cases "land_resolvable land"; cases pause)
      (auto simp: land_failed_transition_def sound_submit_def no_effects_def event_defs quarantine_flags_def)
qed

lemma error_hold_resolvable:
  "on_failure p k = HOLD \<Longrightarrow> error_state_for (Some k) \<in> ATTEMPT_RESOLVABLE_STATES"
  by (auto simp: error_state_for_def lifecycle_sets)

lemma error_finish_sound:
  "ladder_sound ref lad \<Longrightarrow>
   hold \<noteq> None \<longrightarrow> error_state_for (Some (error_kind out)) \<in> ATTEMPT_RESOLVABLE_STATES \<Longrightarrow>
   sound_submit ref (error_finish ref out hold lad)"
  using error_state_terminal
  by (auto simp: error_finish_def ladder_sound_def sound_submit_def event_defs no_effects_def
      status_result_event_def quarantine_flags_def split: option.splits)

lemma error_sound: "sound_submit ref (error_transition ref out policy)"
  using environment_sound error_hold_resolvable [of "sp_retry policy" "error_kind out"]
  by (auto simp: error_transition_def intro: error_finish_sound failure_ladder_sound
      held_ladder_sound split: retry_action.split)

lemma workflow_doc_sound:
  "sound_submit ref (workflow_end ref out step a)"
  "sound_submit ref (workflow_budget_quarantine ref out step a)"
  "sound_submit ref (workflow_doc_advance ref out step a)"
  by (auto simp: workflow_end_def workflow_budget_quarantine_def workflow_doc_advance_def leaf_defs
      Let_def completed_flag_def quarantine_flag_def)

lemma split_sound:
  "sound_submit ref (on_split_result ref out created)"
  "on_workflow_split ref out created policy = Inr t \<Longrightarrow> sound_submit ref t"
  by (auto simp: on_split_result_def on_workflow_split_def split_events_def split_response_def
      leaf_defs Let_def split: option.splits if_splits)

lemmas leaves_sound = blocked_sound neutral_sound environment_sound no_change_sound landed_sound
  land_failed_sound error_sound workflow_doc_sound split_sound

lemma submit_ends_sound:
  assumes "submit_ends ref out policy t" shows "sound_submit ref t"
  using assms
proof (cases rule: submit_ends_leaves)
  case (step_end land step)
  then show ?thesis by (simp add: workflow_landed_sound land_effects_def no_effects_def quarantine_flags_def)
next
  case (step_exhausted land step)
  then show ?thesis
    by (simp add: workflow_landed_sound land_effects_def no_effects_def quarantine_flags_def
        quarantine_flag_def event_defs)
next
  case (step_advance land step)
  then show ?thesis by (simp add: workflow_landed_sound land_effects_def no_effects_def quarantine_flags_def)
qed (use leaves_sound in simp_all)

subsection \<open>Single facts\<close>

lemma on_submit_total: "\<exists>a. on_submit ref out policy = Inr a"
  by (cases "sp_workflow_step policy"; cases "o_status out")
    (auto simp: on_submit_def on_workflow_step_def Let_def split: step_kind.split option.split)

lemma land_failed_total:
  "(\<exists>t. land_failed_transition ref out land policy = Inr t) \<longleftrightarrow>
     lo_kind land \<notin> LAND_SUCCESS_KINDS \<and> lo_kind land \<noteq> LK_NO_CHANGES"
  by (cases "lo_kind land")
    (auto simp: land_failed_transition_def lifecycle_sets Let_def split: prod.splits)

lemma on_land_result_total: "\<exists>t. on_land_result ref out land policy = Inr t"
  using land_failed_total [of ref out land policy]
  by (cases "lo_kind land") (auto simp: on_land_result_def lifecycle_sets)

lemma on_workflow_land_total:
  "(\<exists>t. on_workflow_land ref out land policy = Inr t) \<longleftrightarrow> sp_workflow_step policy \<noteq> None"
  using land_failed_total [of ref out land policy]
  by (cases "lo_kind land") (auto simp: on_workflow_land_def Let_def lifecycle_sets split: option.split)

lemma on_workflow_split_total:
  "(\<exists>t. on_workflow_split ref out created policy = Inr t) \<longleftrightarrow> sp_workflow_step policy \<noteq> None"
  by (auto simp: on_workflow_split_def Let_def split: option.split)

text \<open>The leaves that are not workflow advances never write the cursor.\<close>

lemma no_cursor [simp]:
  "te_engine_meta (t_effects (blocked_transition ref out policy)) = None"
  "te_engine_meta (t_effects (error_transition ref out policy)) = None"
  "te_engine_meta (t_effects (neutral_transition ref out)) = None"
  "te_engine_meta (t_effects (no_change_transition ref out policy)) = None"
  "te_engine_meta (t_effects (landed_transition ref out land policy)) = None"
  "te_engine_meta (t_effects (workflow_end ref out step a)) = None"
  "te_engine_meta (t_effects (workflow_budget_quarantine ref out step a)) = None"
  "te_engine_meta (t_effects (on_split_result ref out created)) = None"
  by (auto simp: blocked_transition_def error_transition_def neutral_transition_def Let_def
      no_change_transition_def landed_transition_def workflow_end_def error_finish_def
      workflow_budget_quarantine_def on_split_result_def environment_failure_transition_def
      no_effects_def split: prod.splits retry_action.split)

lemma no_cursor_land_failed:
  "land_failed_transition ref out land policy = Inr t \<Longrightarrow> te_engine_meta (t_effects t) = None"
  by (cases "if land_resolvable land then watch_failure ref policy else (None, [])")
    (auto simp: land_failed_transition_def bind_result_eq_Inr_iff Let_def no_effects_def)

lemma no_cursor_workflow_split:
  "on_workflow_split ref out created policy = Inr t \<Longrightarrow> te_engine_meta (t_effects t) = None"
  by (auto simp: on_workflow_split_def Let_def no_effects_def split: option.splits)

lemma submit_cursor:
  assumes "submit_ends ref out policy t" "te_engine_meta (t_effects t) = Some m"
  shows "\<exists>step. sp_workflow_step policy = Some step \<and> o_status out = RS_COMPLETED \<and>
           wsp_route_to step \<noteq> END \<and> \<not> wsp_dest_visits_exhausted step \<and>
           m = advance_visits step \<and> t_state t \<in> {AS_LANDED, AS_NO_CHANGE}"
  using assms
  by (cases rule: submit_ends_leaves)
    (auto simp: workflow_landed_transition_def workflow_doc_advance_def land_effects_def
      no_effects_def Let_def no_cursor_land_failed no_cursor_workflow_split)

lemma error_environment:
  "error_kind out \<in> ENVIRONMENT_FAILURE_KINDS \<Longrightarrow>
   error_transition ref out policy = environment_failure_transition ref out"
  using on_failure_elsewhere_iff [of "sp_retry policy" "error_kind out"]
  by (simp add: error_transition_def)

lemma failure_ladder_quarantined:
  "lad_quarantined (failure_ladder ref policy d r b) \<longleftrightarrow>
     immediate_quarantine (sp_retry policy) \<or>
     0 < quarantine_after (sp_retry policy) \<and>
       quarantine_after (sp_retry policy) \<le> sp_attempts_without_progress policy + 1"
  by (simp add: failure_ladder_def Let_def immediate_quarantine_flag_def looping_quarantine_def
      watch_failure_def retry_quarantine_def)

lemma failure_ladder_failed:
  "\<not> lad_quarantined (failure_ladder ref policy d r b) \<Longrightarrow>
   failed_flag r \<in> set (lad_frontmatter (failure_ladder ref policy d r b)) \<and>
   lad_watch (failure_ladder ref policy d r b) = Some True \<and>
   lad_backoff (failure_ladder ref policy d r b) =
     Some (backoff_delay (rp_backoff (sp_retry policy)) (sp_attempts_without_progress policy + 1)) \<and>
   (quarantine_flags (lad_frontmatter (failure_ladder ref policy d r b)) \<noteq> [] \<longleftrightarrow> sp_was_retry policy)"
  by (auto simp: failure_ladder_def Let_def immediate_quarantine_flag_def looping_quarantine_def
      watch_failure_def retry_quarantine_def quarantine_flags_def quarantine_flag_def failed_flag_def
      split: if_splits)

section \<open>Properties\<close>

definition sample_ref :: attempt_ref where
  "sample_ref = \<lparr>ref_id = ''run-1'', ref_queue = Some ''main'', ref_task = ''fix''\<rparr>"

definition sample_error :: outcome where
  "sample_error = (new_outcome RS_ERROR)\<lparr>o_failure_kind := Some WORKER_ERROR,
     o_result_line := ''boom''\<rparr>"

definition sample_step :: workflow_step_policy where
  "sample_step = \<lparr>wsp_workflow = ''feature'', wsp_step_id = ''plan'', wsp_kind = DOC,
     wsp_output = Some ''plan'', wsp_route_to = ''build'', wsp_dest_kind = Some CODE,
     wsp_dest_visits_exhausted = False, wsp_evergreen = False, wsp_visits = [(''plan'', 1)],
     wsp_exhausted_reason = []\<rparr>"

definition sample_policy :: submit_policy where
  "sample_policy = default_submit_policy\<lparr>sp_workflow_step := Some sample_step\<rparr>"

definition sample_document :: outcome where
  "sample_document = (new_outcome RS_COMPLETED)\<lparr>o_document := Some ''text''\<rparr>"

lemmas sample_defs = sample_ref_def sample_error_def sample_step_def sample_policy_def
  sample_document_def new_outcome_def empty_telemetry_def telemetry.defs outcome.defs
  default_submit_policy_def

lemma sample_error_answer:
  "on_submit sample_ref sample_error default_submit_policy =
     Inr (Apply (error_transition sample_ref sample_error default_submit_policy))"
  by (simp add: on_submit_def sample_defs)

lemma sample_document_answer:
  "on_submit sample_ref sample_document sample_policy =
     Inr (Apply (workflow_doc_advance sample_ref sample_document sample_step
       (Some (''plan'', ''text''))))"
  by (simp add: on_submit_def on_workflow_step_def sample_defs END_def)

text \<open>
  C1: the contract of every transition a submit can end in, on every path through the submit
  table, the land table, the split harvest and their workflow counterparts: the attempt ends in
  a terminal state, exactly one result event is reported for it, a quarantine event is emitted
  for each quarantine flag written on the brief, the last pause event names the pause the queue
  is put in, the response says \<open>landed\<close> exactly for a landed attempt, and a task is held only
  by an attempt that can be resolved, never together with a clear or a counter reset.
\<close>

theorem submit_contract:
  assumes "submit_ends ref out policy t"
  shows "sound_submit ref t"
  using assms by (rule submit_ends_sound)

lemma submit_contract_witness:
  "sound_submit sample_ref (error_transition sample_ref sample_error default_submit_policy)"
  by (rule submit_contract [OF submit_ends.answered [OF sample_error_answer]])

text \<open>
  The submit and land tables are total. No outcome and no policy makes \<open>on_submit\<close> or
  \<open>on_land_result\<close> raise, and the workflow counterparts raise only when the policy carries no
  workflow step, the assertion they open with.
\<close>

theorem submit_tables_total:
  "(\<exists>a. on_submit ref out policy = Inr a) \<and>
   (\<exists>t. on_land_result ref out land policy = Inr t) \<and>
   ((\<exists>t. on_workflow_land ref out land policy = Inr t) \<longleftrightarrow> sp_workflow_step policy \<noteq> None) \<and>
   ((\<exists>t. on_workflow_split ref out created policy = Inr t) \<longleftrightarrow> sp_workflow_step policy \<noteq> None)"
  by (intro conjI on_submit_total on_land_result_total on_workflow_land_total
      on_workflow_split_total)

text \<open>
  An attempt is recorded as landed exactly when the land phase reports a success (landed,
  adopted, or landed with the checkout left behind). Only then is the brief consumed, unless
  the task is evergreen, and an automatic resolve starts only for a refused land that can be
  resolved outside pull-request mode.
\<close>

theorem landed_iff_land_succeeded:
  assumes "on_land_result ref out land policy = Inr t"
  shows "(t_state t = AS_LANDED \<longleftrightarrow> lo_kind land \<in> LAND_SUCCESS_KINDS) \<and>
    (te_drop_brief (t_effects t) \<longleftrightarrow> lo_kind land \<in> LAND_SUCCESS_KINDS \<and> \<not> sp_evergreen policy) \<and>
    (te_start_resolve (t_effects t) \<longleftrightarrow>
       lo_kind land \<notin> LAND_SUCCESS_KINDS \<and> land_resolvable land \<and> sp_auto_resolve policy
         \<and> \<not> sp_pr_mode policy)"
  using assms
proof (cases rule: on_land_result_cases)
  case no_change
  then show ?thesis
    by (simp add: no_change_transition_def Let_def no_effects_def lifecycle_sets land_resolvable_def)
next
  case landed
  then show ?thesis by (simp add: landed_transition_def Let_def no_effects_def)
next
  case failed
  then show ?thesis
    by (cases "if land_resolvable land then watch_failure ref policy else (None, [])")
      (auto simp: land_failed_transition_def bind_result_eq_Inr_iff Let_def no_effects_def)
qed

lemma landed_iff_land_succeeded_witness:
  "t_state (landed_transition sample_ref sample_document (new_land_outcome LK_ADOPTED)
     default_submit_policy) = AS_LANDED"
  using landed_iff_land_succeeded [of sample_ref sample_document "new_land_outcome LK_ADOPTED"
      default_submit_policy]
  by (simp add: on_land_result_def new_land_outcome_def lifecycle_sets)

text \<open>
  Failures never move a workflow's cursor. A submit writes the cursor only when it completed
  under a workflow step that routes to another step whose visit budget is not exhausted, and
  what it writes is that step with one more visit counted.
\<close>

theorem cursor_moves_only_forward:
  assumes "submit_ends ref out policy t" "te_engine_meta (t_effects t) = Some m"
  shows "\<exists>step. sp_workflow_step policy = Some step \<and> o_status out = RS_COMPLETED \<and>
    wsp_route_to step \<noteq> END \<and> \<not> wsp_dest_visits_exhausted step \<and>
    m = advance_visits step \<and> t_state t \<in> {AS_LANDED, AS_NO_CHANGE}"
  using assms by (rule submit_cursor)

lemma cursor_moves_only_forward_witness:
  "\<exists>step. sp_workflow_step sample_policy = Some step \<and> o_status sample_document = RS_COMPLETED \<and>
    wsp_route_to step \<noteq> END \<and> \<not> wsp_dest_visits_exhausted step \<and>
    advance_visits sample_step = advance_visits step \<and>
    t_state (workflow_doc_advance sample_ref sample_document sample_step
       (Some (''plan'', ''text''))) \<in> {AS_LANDED, AS_NO_CHANGE}"
  by (rule cursor_moves_only_forward [OF submit_ends.answered [OF sample_document_answer]])
    (simp add: workflow_doc_advance_def Let_def no_effects_def)

text \<open>
  An error is neutral to its task (no hold, no counter, no flag, no pause, only the worker
  cools down) exactly when its kind is an environment failure; every other kind counts the run.
\<close>

theorem environment_failures_neutral:
  "t_effects (error_transition ref out policy) =
     (if error_kind out \<in> ENVIRONMENT_FAILURE_KINDS then no_effects\<lparr>te_worker_cooldown := True\<rparr>
      else t_effects (error_transition ref out policy)\<lparr>te_progress := PG_INCREMENT,
        te_worker_cooldown := False\<rparr>)"
proof (cases "error_kind out \<in> ENVIRONMENT_FAILURE_KINDS")
  case True
  then show ?thesis by (simp add: error_environment environment_failure_transition_def)
next
  case False
  then have "on_failure (sp_retry policy) (error_kind out) \<noteq> RETRY_ELSEWHERE"
    by (simp add: on_failure_elsewhere_iff)
  with False show ?thesis
    by (auto simp: error_transition_def error_finish_def no_effects_def split: retry_action.split)
qed

end
