(* ===== verification/Store.thy ===== *)
theory Store
  imports Sql_Table Transitions
begin

text \<open>
  The manager's durable state: \<^verbatim>\<open>src/nightshift/manager/store.py\<close> over the
  schema of \<^verbatim>\<open>store_sqlite.py\<close>. A table is the list of its rows; every verb
  of the query layer is a function on the database, with \<open>now()\<close> as an argument (seconds). A
  JSON column holds the decoded value. A violated unique index or primary key is the error
  \<^const>\<open>UniqueViolation\<close>, and a transaction that raises leaves the caller's database.
\<close>

section \<open>Rows and the database\<close>

type_synonym time = rat

text \<open>
  An attempt row: the columns the store's statements read or stamp are fields, the remaining
  columns are the dictionary \<open>at_cols\<close>.
\<close>

record attempt_row =
  at_id :: string
  at_task :: string
  at_queue :: string
  at_worker_id :: "string option"
  at_state :: attempt_state
  at_started_at :: time
  at_acquired_at :: time
  at_heartbeat_at :: time
  at_deadline_at :: "time option"
  at_finished_at :: "time option"
  at_released_at :: "time option"
  at_cols :: pydict

record task_row =
  tk_queue :: string
  tk_task :: string
  tk_state :: "task_hold_kind option"
  tk_blocked_reason :: "string option"
  tk_repo :: "string option"
  tk_retry_eligible :: bool
  tk_attempts :: int
  tk_next_eligible_at :: "time option"
  tk_updated_at :: time

record event_row =
  er_id :: nat
  er_kind :: string
  er_run_id :: "string option"
  er_queue :: "string option"
  er_task :: "string option"
  er_payload :: pydict
  er_ts :: time

record queue_state_row =
  qs_queue :: string
  qs_paused_reason :: "string option"
  qs_mode :: "string option"
  qs_updated_at :: time

record repo_ci_row =
  ci_repo :: string
  ci_state :: string
  ci_head_sha :: "string option"
  ci_url :: "string option"
  ci_detail :: "string option"
  ci_fix_task :: "string option"
  ci_fix_sha :: "string option"
  ci_updated_at :: time

record worker_row =
  wk_id :: string
  wk_backend :: string
  wk_queues :: "string list option"
  wk_priorities :: "int list option"
  wk_models :: "string list"
  wk_mcps :: "string list"
  wk_status :: string
  wk_current_task :: "string option"
  wk_current_queue :: "string option"
  wk_current_run_id :: "string option"
  wk_meta :: pydict
  wk_registered_at :: time
  wk_last_checkin_at :: time
  wk_last_heartbeat_at :: time

record db =
  db_workers :: "worker_row list"
  db_attempts :: "attempt_row list"
  db_tasks :: "task_row list"
  db_events :: "event_row list"
  db_event_seq :: nat
  db_routing :: "(string \<times> string) list"
  db_queue_state :: "queue_state_row list"
  db_repo_ci :: "repo_ci_row list"

definition empty_db :: db where
  "empty_db = \<lparr>db_workers = [], db_attempts = [], db_tasks = [], db_events = [],
     db_event_seq = 0, db_routing = [], db_queue_state = [], db_repo_ci = []\<rparr>"

definition qkey :: "string option \<Rightarrow> string" where
  "qkey queue = opt_or queue []"

definition task_key :: "task_row \<Rightarrow> string \<times> string" where
  "task_key r = (tk_queue r, tk_task r)"

section \<open>Attempts\<close>

definition ATTEMPT_UPDATABLE_FIELDS :: "string list" where
  "ATTEMPT_UPDATABLE_FIELDS =
     [''result_line'', ''model'', ''backend'', ''branch_ref'', ''head_sha'', ''failure_kind'',
      ''failure_reason'', ''turns'', ''input_tokens'', ''output_tokens'',
      ''cache_read_input_tokens'', ''cache_creation_input_tokens'', ''usage'', ''cost_usd'',
      ''billing'', ''validate_cmd'', ''worktree'', ''timings'',
      ''state'', ''phase'', ''commit_sha'', ''loc'', ''remote'', ''pushed'', ''rating'', ''notes'']"

definition check_attempt_fields :: "string list \<Rightarrow> bool \<Rightarrow> py_error + unit" where
  "check_attempt_fields names allow_state =
     (let allowed = (if allow_state then ATTEMPT_UPDATABLE_FIELDS
                     else filter (\<lambda>k. k \<noteq> ''state'') ATTEMPT_UPDATABLE_FIELDS);
          unknown = filter (\<lambda>k. k \<notin> set allowed) names
      in if unknown \<noteq> []
         then Inl (ValueError (''update_attempt: unknown field(s): '' @ py_join '', '' unknown))
         else Inr ())"

definition coalesce :: "'a option \<Rightarrow> 'a \<Rightarrow> 'a option" where
  "coalesce v d = (case v of None \<Rightarrow> Some d | Some x \<Rightarrow> Some x)"

text \<open>The assembled \<open>SET\<close> clause: the fields, a new state, and the one-shot terminal stamps.\<close>

definition set_columns :: "pydict \<Rightarrow> pydict \<Rightarrow> pydict" where
  "set_columns flds cols = fold (\<lambda>(k, v) d. dset d k v) flds cols"

definition attempt_set ::
  "time \<Rightarrow> pydict \<Rightarrow> attempt_state option \<Rightarrow> attempt_row \<Rightarrow> attempt_row" where
  "attempt_set now flds new_state r =
     (let r1 = r\<lparr>at_cols := set_columns flds (at_cols r),
                 at_state := (case new_state of None \<Rightarrow> at_state r | Some s \<Rightarrow> s)\<rparr>
      in case new_state of
           Some s \<Rightarrow>
             if s \<in> ATTEMPT_TERMINAL_STATES
             then r1\<lparr>at_finished_at := coalesce (at_finished_at r1) now,
                     at_released_at := coalesce (at_released_at r1) now\<rparr>
             else r1
         | None \<Rightarrow> r1)"

text \<open>The partial unique index \<open>attempts_live_task_uniq\<close>.\<close>

definition live_keys :: "attempt_row list \<Rightarrow> (string \<times> string) list" where
  "live_keys rows =
     map (\<lambda>r. (at_queue r, at_task r)) (filter (\<lambda>r. at_state r \<in> ATTEMPT_LIVE_STATES) rows)"

definition write_attempts :: "db \<Rightarrow> attempt_row list \<Rightarrow> py_error + db" where
  "write_attempts d rows =
     (if distinct (live_keys rows) \<and> distinct (map at_id rows) then Inr (d\<lparr>db_attempts := rows\<rparr>)
      else Inl UniqueViolation)"

text \<open>\<open>str(int(ttl))\<close>: truncation towards zero.\<close>

definition ttl_deadline :: "time \<Rightarrow> rat \<Rightarrow> time" where
  "ttl_deadline now ttl = now + of_int (py_trunc ttl)"

record attempt_args =
  aa_id :: string
  aa_task :: string
  aa_queue :: "string option"
  aa_worker_id :: "string option"
  aa_ttl_seconds :: rat
  aa_state :: attempt_state
  aa_cols :: pydict

definition create_attempt :: "time \<Rightarrow> attempt_args \<Rightarrow> db \<Rightarrow> py_error + (db \<times> attempt_row option)" where
  "create_attempt now a d =
     (let row = \<lparr>at_id = aa_id a, at_task = aa_task a, at_queue = qkey (aa_queue a),
            at_worker_id = aa_worker_id a, at_state = aa_state a, at_started_at = now,
            at_acquired_at = now, at_heartbeat_at = now,
            at_deadline_at = (if aa_state a \<in> ATTEMPT_LIVE_STATES
                              then Some (ttl_deadline now (aa_ttl_seconds a)) else None),
            at_finished_at = None, at_released_at = None, at_cols = aa_cols a\<rparr>
      in if aa_state a \<in> ATTEMPT_LIVE_STATES
            \<and> (qkey (aa_queue a), aa_task a) \<in> set (live_keys (db_attempts d))
         then Inr (d, None)
         else bind_result (write_attempts d (db_attempts d @ [row])) (\<lambda>d'. Inr (d', Some row)))"

definition get_attempt :: "db \<Rightarrow> string \<Rightarrow> attempt_row option" where
  "get_attempt d rid = find_row at_id rid (db_attempts d)"

text \<open>\<open>update_attempt\<close>: the optional state, then the other fields.\<close>

definition update_attempt ::
  "time \<Rightarrow> string \<Rightarrow> attempt_state option \<Rightarrow> pydict \<Rightarrow> db \<Rightarrow> py_error + db" where
  "update_attempt now rid new_state flds d =
     (if new_state = None \<and> flds = [] then Inr d
      else bind_result (check_attempt_fields (dkeys flds) True) (\<lambda>_.
        write_attempts d (sql_update (\<lambda>r. at_id r = rid) (attempt_set now flds new_state)
          (db_attempts d))))"

definition live_attempts :: "db \<Rightarrow> attempt_row list" where
  "live_attempts d = filter (\<lambda>r. at_state r \<in> ATTEMPT_LIVE_STATES) (db_attempts d)"

definition list_attempts ::
  "nat \<Rightarrow> string option \<Rightarrow> string option \<Rightarrow> time option \<Rightarrow> db \<Rightarrow> attempt_row list" where
  "list_attempts limit queue worker_id since d =
     take limit (sort_key (\<lambda>r. - at_started_at r)
       (filter (\<lambda>r.
          (queue = None \<or> at_queue r = qkey queue) \<and>
          (worker_id = None \<or> at_worker_id r = worker_id) \<and>
          (case since of None \<Rightarrow> True | Some s \<Rightarrow> s \<le> at_started_at r)) (db_attempts d)))"

definition heartbeat_attempt :: "time \<Rightarrow> string \<Rightarrow> rat \<Rightarrow> db \<Rightarrow> db" where
  "heartbeat_attempt now rid ttl d = d\<lparr>db_attempts :=
     sql_update (\<lambda>r. at_id r = rid \<and> at_state r \<in> ATTEMPT_LIVE_STATES)
       (\<lambda>r. r\<lparr>at_heartbeat_at := now, at_deadline_at := Some (ttl_deadline now ttl)\<rparr>)
       (db_attempts d)\<rparr>"

definition started_tasks :: "string option \<Rightarrow> db \<Rightarrow> string set" where
  "started_tasks queue d =
     set (map at_task (filter (\<lambda>r. at_queue r = qkey queue) (db_attempts d)))"

section \<open>The task overlay\<close>

record hold_args =
  ha_state :: task_hold_kind
  ha_reason :: "string option"
  ha_repo :: "string option"
  ha_retry_eligible :: bool

definition fresh_hold :: "time \<Rightarrow> string \<times> string \<Rightarrow> hold_args \<Rightarrow> task_row" where
  "fresh_hold now k a =
     \<lparr>tk_queue = fst k, tk_task = snd k, tk_state = Some (ha_state a),
      tk_blocked_reason = ha_reason a, tk_repo = ha_repo a,
      tk_retry_eligible = ha_retry_eligible a, tk_attempts = 0,
      tk_next_eligible_at = None, tk_updated_at = now\<rparr>"

definition merge_hold :: "time \<Rightarrow> hold_args \<Rightarrow> task_row \<Rightarrow> task_row" where
  "merge_hold now a r = r\<lparr>tk_state := Some (ha_state a), tk_blocked_reason := ha_reason a,
     tk_repo := ha_repo a, tk_retry_eligible := ha_retry_eligible a, tk_updated_at := now\<rparr>"

definition task_upsert :: "time \<Rightarrow> string \<times> string \<Rightarrow> hold_args \<Rightarrow> task_row list \<Rightarrow> task_row list" where
  "task_upsert now k a = sql_upsert task_key k (fresh_hold now k a) (merge_hold now a)"

definition eligible_after :: "time \<Rightarrow> rat option \<Rightarrow> time option" where
  "eligible_after now secs = map_option (\<lambda>s. now + s) secs"

definition fresh_counter :: "time \<Rightarrow> string \<times> string \<Rightarrow> rat option \<Rightarrow> task_row" where
  "fresh_counter now k secs =
     \<lparr>tk_queue = fst k, tk_task = snd k, tk_state = None, tk_blocked_reason = None,
      tk_repo = None, tk_retry_eligible = False, tk_attempts = 1,
      tk_next_eligible_at = eligible_after now secs, tk_updated_at = now\<rparr>"

definition merge_counter :: "time \<Rightarrow> rat option \<Rightarrow> task_row \<Rightarrow> task_row" where
  "merge_counter now secs r = r\<lparr>tk_attempts := tk_attempts r + 1,
     tk_next_eligible_at := eligible_after now secs, tk_updated_at := now\<rparr>"

definition task_increment :: "time \<Rightarrow> string \<times> string \<Rightarrow> rat option \<Rightarrow> task_row list \<Rightarrow> task_row list" where
  "task_increment now k secs = sql_upsert task_key k (fresh_counter now k secs) (merge_counter now secs)"

definition task_reset :: "time \<Rightarrow> string \<times> string \<Rightarrow> task_row list \<Rightarrow> task_row list" where
  "task_reset now k = sql_update (\<lambda>r. task_key r = k)
     (\<lambda>r. r\<lparr>tk_attempts := 0, tk_next_eligible_at := None, tk_updated_at := now\<rparr>)"

definition task_delete_if_clean :: "string \<times> string \<Rightarrow> task_row list \<Rightarrow> task_row list" where
  "task_delete_if_clean k = sql_delete (\<lambda>r. task_key r = k \<and> tk_attempts r = 0
     \<and> tk_next_eligible_at r = None)"

definition task_demote :: "time \<Rightarrow> string \<times> string \<Rightarrow> task_row list \<Rightarrow> task_row list" where
  "task_demote now k = sql_update (\<lambda>r. task_key r = k)
     (\<lambda>r. r\<lparr>tk_state := None, tk_blocked_reason := None, tk_repo := None,
            tk_retry_eligible := False, tk_updated_at := now\<rparr>)"

definition task_release_delete :: "string \<times> string \<Rightarrow> task_row list \<Rightarrow> task_row list" where
  "task_release_delete k = sql_delete (\<lambda>r. task_key r = k \<and> tk_attempts r = 0)"

definition task_release_demote :: "time \<Rightarrow> string \<times> string \<Rightarrow> task_row list \<Rightarrow> task_row list" where
  "task_release_demote now k = sql_update (\<lambda>r. task_key r = k)
     (\<lambda>r. r\<lparr>tk_state := None, tk_blocked_reason := None, tk_repo := None,
            tk_retry_eligible := False, tk_next_eligible_at := None, tk_updated_at := now\<rparr>)"

section \<open>Transitions\<close>

definition event_rows :: "time \<Rightarrow> nat \<Rightarrow> transition_event list \<Rightarrow> event_row list" where
  "event_rows now seq evs =
     map (\<lambda>(i, ev). \<lparr>er_id = i, er_kind = ev_kind ev, er_run_id = ev_run_id ev,
       er_queue = ev_queue ev, er_task = ev_task ev,
       er_payload = (case ev_payload ev of None \<Rightarrow> [] | Some p \<Rightarrow> p), er_ts = now\<rparr>)
       (zip [Suc seq ..< Suc (seq + length evs)] evs)"

text \<open>The inserts of a transition's events, with the ids the sequence gives them.\<close>

definition append_events :: "time \<Rightarrow> transition_event list \<Rightarrow> db \<Rightarrow> db \<times> nat list" where
  "append_events now evs d =
     (let rows = event_rows now (db_event_seq d) evs in
      (d\<lparr>db_events := db_events d @ rows, db_event_seq := db_event_seq d + length evs\<rparr>,
       map er_id rows))"

text \<open>The task-overlay writes of a transition, in the statement order of the transaction.\<close>

definition hold_args_of :: "task_hold \<Rightarrow> hold_args" where
  "hold_args_of h = \<lparr>ha_state = hold_kind h, ha_reason = hold_reason h, ha_repo = None,
     ha_retry_eligible = hold_retry_eligible h\<rparr>"

definition apply_hold :: "time \<Rightarrow> string \<times> string \<Rightarrow> task_effects \<Rightarrow> task_row list \<Rightarrow> task_row list" where
  "apply_hold now k e rows = (case te_hold e of
      None \<Rightarrow> rows | Some h \<Rightarrow> task_upsert now k (hold_args_of h) rows)"

definition apply_progress :: "time \<Rightarrow> string \<times> string \<Rightarrow> task_effects \<Rightarrow> task_row list \<Rightarrow> task_row list" where
  "apply_progress now k e rows = (case te_progress e of
      PG_INCREMENT \<Rightarrow> task_increment now k (te_next_eligible_in e) rows
    | PG_RESET \<Rightarrow> task_reset now k rows
    | PG_NONE \<Rightarrow> rows)"

definition apply_clear :: "time \<Rightarrow> string \<times> string \<Rightarrow> task_effects \<Rightarrow> task_row list \<Rightarrow> task_row list" where
  "apply_clear now k e rows =
     (if te_hold e = None \<and> te_clear_hold e
      then task_demote now k (task_delete_if_clean k rows) else rows)"

definition apply_effects :: "time \<Rightarrow> string \<times> string \<Rightarrow> task_effects \<Rightarrow> task_row list \<Rightarrow> task_row list" where
  "apply_effects now k e rows =
     apply_clear now k e (apply_progress now k e (apply_hold now k e rows))"

definition cas_matches :: "transition \<Rightarrow> attempt_state \<Rightarrow> string option \<Rightarrow> attempt_row \<Rightarrow> bool" where
  "cas_matches t expected worker r \<longleftrightarrow>
     at_id r = ref_id (t_ref t) \<and> at_state r = expected \<and>
     (worker = None \<or> at_worker_id r = worker)"

definition apply_transition ::
  "time \<Rightarrow> transition \<Rightarrow> attempt_state \<Rightarrow> string option \<Rightarrow> db \<Rightarrow>
   py_error + (db \<times> nat list option)" where
  "apply_transition now t expected worker d =
     bind_result (check_attempt_fields (dkeys (t_fields t)) False) (\<lambda>_.
       if \<not> (\<exists>r \<in> set (db_attempts d). cas_matches t expected worker r) then Inr (d, None)
       else
         bind_result (write_attempts d (sql_update (cas_matches t expected worker)
             (attempt_set now (t_fields t) (Some (t_state t))) (db_attempts d))) (\<lambda>d1.
           let k = (qkey (ref_queue (t_ref t)), ref_task (t_ref t));
               d2 = d1\<lparr>db_tasks := apply_effects now k (t_effects t) (db_tasks d1)\<rparr>
           in (case append_events now (t_events t) d2 of (d3, ids) \<Rightarrow> Inr (d3, Some ids))))"

section \<open>Task state verbs\<close>

definition set_task_state ::
  "time \<Rightarrow> string option \<Rightarrow> string \<Rightarrow> hold_args \<Rightarrow> db \<Rightarrow> db" where
  "set_task_state now queue task a d =
     d\<lparr>db_tasks := task_upsert now (qkey queue, task) a (db_tasks d)\<rparr>"

definition get_task_state :: "string option \<Rightarrow> string \<Rightarrow> db \<Rightarrow> task_row option" where
  "get_task_state queue task d = find_row task_key (qkey queue, task) (db_tasks d)"

definition list_blocked :: "db \<Rightarrow> task_row list" where
  "list_blocked d = filter (\<lambda>r. tk_state r = Some TH_BLOCKED) (db_tasks d)"

definition tasks_in_state :: "task_hold_kind \<Rightarrow> db \<Rightarrow> task_row list" where
  "tasks_in_state s d = filter (\<lambda>r. tk_state r = Some s) (db_tasks d)"

definition retryable_tasks :: "string option \<Rightarrow> db \<Rightarrow> task_row list" where
  "retryable_tasks queue d = filter (\<lambda>r. tk_queue r = qkey queue \<and>
     (tk_state r = Some TH_FAILED \<or> tk_state r = Some TH_BLOCKED \<and> tk_retry_eligible r))
     (db_tasks d)"

definition clear_task_state ::
  "time \<Rightarrow> string option \<Rightarrow> string \<Rightarrow> bool \<Rightarrow> db \<Rightarrow> db" where
  "clear_task_state now queue task reset_progress d =
     (let k = (qkey queue, task) in
      if reset_progress then d\<lparr>db_tasks := sql_delete (\<lambda>r. task_key r = k) (db_tasks d)\<rparr>
      else d\<lparr>db_tasks := task_release_demote now k (task_release_delete k (db_tasks d))\<rparr>)"

definition tasks_backing_off :: "time \<Rightarrow> db \<Rightarrow> task_row list" where
  "tasks_backing_off now d = filter (\<lambda>r. case tk_next_eligible_at r of
      None \<Rightarrow> False | Some w \<Rightarrow> now < w) (db_tasks d)"

definition clear_task_backoff :: "time \<Rightarrow> string option \<Rightarrow> string \<Rightarrow> db \<Rightarrow> db" where
  "clear_task_backoff now queue task d = d\<lparr>db_tasks :=
     sql_update (\<lambda>r. task_key r = (qkey queue, task) \<and> tk_next_eligible_at r \<noteq> None)
       (\<lambda>r. r\<lparr>tk_next_eligible_at := None, tk_updated_at := now\<rparr>) (db_tasks d)\<rparr>"

section \<open>Queue dedication, transport state and rename\<close>

text \<open>\<open>ORDER BY queue\<close> with insertion order between equal queues, grouped by queue.\<close>

definition dedication_add ::
  "string \<times> string \<Rightarrow> (string \<times> string list) list \<Rightarrow> (string \<times> string list) list" where
  "dedication_add qw out = dset out (fst qw) (dget_or out (fst qw) [] @ [snd qw])"

definition queue_dedication :: "db \<Rightarrow> (string \<times> string list) list" where
  "queue_dedication d = fold dedication_add (sort_key fst (db_routing d)) []"

definition routing_insert :: "string \<Rightarrow> string \<Rightarrow> (string \<times> string) list \<Rightarrow> (string \<times> string) list" where
  "routing_insert label wid rows =
     (if (label, wid) \<in> set rows then rows else rows @ [(label, wid)])"

definition set_queue_dedication :: "string \<Rightarrow> string list \<Rightarrow> db \<Rightarrow> db" where
  "set_queue_dedication label worker_ids d =
     (let cleaned = filter (\<lambda>w. w \<noteq> []) worker_ids in
      d\<lparr>db_routing := fold (routing_insert label) cleaned
          (sql_delete (\<lambda>r. fst r = label) (db_routing d))\<rparr>)"

definition queue_state_prune :: "string \<Rightarrow> queue_state_row list \<Rightarrow> queue_state_row list" where
  "queue_state_prune label = sql_delete (\<lambda>r. qs_queue r = label \<and> qs_paused_reason r = None
     \<and> qs_mode r = None)"

definition fresh_pause :: "time \<Rightarrow> string \<Rightarrow> string option \<Rightarrow> queue_state_row" where
  "fresh_pause now label reason = \<lparr>qs_queue = label, qs_paused_reason = reason, qs_mode = None,
     qs_updated_at = now\<rparr>"

definition merge_pause :: "time \<Rightarrow> string option \<Rightarrow> queue_state_row \<Rightarrow> queue_state_row" where
  "merge_pause now reason r = r\<lparr>qs_paused_reason := reason, qs_updated_at := now\<rparr>"

definition fresh_mode :: "time \<Rightarrow> string \<Rightarrow> string option \<Rightarrow> queue_state_row" where
  "fresh_mode now label mode = \<lparr>qs_queue = label, qs_paused_reason = None, qs_mode = mode,
     qs_updated_at = now\<rparr>"

definition merge_mode :: "time \<Rightarrow> string option \<Rightarrow> queue_state_row \<Rightarrow> queue_state_row" where
  "merge_mode now mode r = r\<lparr>qs_mode := mode, qs_updated_at := now\<rparr>"

definition set_queue_pause :: "time \<Rightarrow> string \<Rightarrow> string option \<Rightarrow> db \<Rightarrow> db" where
  "set_queue_pause now label reason d = d\<lparr>db_queue_state := queue_state_prune label
     (sql_upsert qs_queue label (fresh_pause now label reason) (merge_pause now reason)
       (db_queue_state d))\<rparr>"

definition set_queue_mode :: "time \<Rightarrow> string \<Rightarrow> string option \<Rightarrow> db \<Rightarrow> db" where
  "set_queue_mode now label mode d = d\<lparr>db_queue_state := queue_state_prune label
     (sql_upsert qs_queue label (fresh_mode now label mode) (merge_mode now mode)
       (db_queue_state d))\<rparr>"

definition queue_pauses :: "db \<Rightarrow> (string \<times> string) list" where
  "queue_pauses d = List.map_filter (\<lambda>r. map_option (\<lambda>p. (qs_queue r, p)) (qs_paused_reason r))
     (db_queue_state d)"

definition queue_modes :: "db \<Rightarrow> (string \<times> string) list" where
  "queue_modes d = List.map_filter (\<lambda>r. map_option (\<lambda>m. (qs_queue r, m)) (qs_mode r))
     (db_queue_state d)"

text \<open>
  \<open>rename_queue\<close> runs five statements outside a transaction: a statement that breaks a unique
  index raises, and what the earlier ones wrote stays. The answer is the database left and
  the error, if any.
\<close>

definition rename_attempts :: "string \<Rightarrow> string \<Rightarrow> db \<Rightarrow> py_error + db" where
  "rename_attempts old new d = write_attempts d
     (sql_update (\<lambda>r. at_queue r = old) (\<lambda>r. r\<lparr>at_queue := new\<rparr>) (db_attempts d))"

definition rename_tasks :: "string \<Rightarrow> string \<Rightarrow> db \<Rightarrow> py_error + db" where
  "rename_tasks old new d =
     (let rows = sql_update (\<lambda>r. tk_queue r = old) (\<lambda>r. r\<lparr>tk_queue := new\<rparr>) (db_tasks d)
      in if distinct (map task_key rows) then Inr (d\<lparr>db_tasks := rows\<rparr>) else Inl UniqueViolation)"

definition rename_events :: "string \<Rightarrow> string \<Rightarrow> db \<Rightarrow> py_error + db" where
  "rename_events old new d = Inr (d\<lparr>db_events :=
     sql_update (\<lambda>r. er_queue r = Some old) (\<lambda>r. r\<lparr>er_queue := Some new\<rparr>) (db_events d)\<rparr>)"

definition rename_routing :: "string \<Rightarrow> string \<Rightarrow> db \<Rightarrow> py_error + db" where
  "rename_routing old new d =
     (let rows = sql_update (\<lambda>r. fst r = old) (\<lambda>r. (new, snd r)) (db_routing d)
      in if distinct rows then Inr (d\<lparr>db_routing := rows\<rparr>) else Inl UniqueViolation)"

definition rename_queue_state :: "string \<Rightarrow> string \<Rightarrow> db \<Rightarrow> py_error + db" where
  "rename_queue_state old new d =
     (let rows = sql_update (\<lambda>r. qs_queue r = old) (\<lambda>r. r\<lparr>qs_queue := new\<rparr>) (db_queue_state d)
      in if distinct (map qs_queue rows) then Inr (d\<lparr>db_queue_state := rows\<rparr>)
         else Inl UniqueViolation)"

fun run_statements :: "(db \<Rightarrow> py_error + db) list \<Rightarrow> db \<Rightarrow> db \<times> py_error option" where
  "run_statements [] d = (d, None)"
| "run_statements (s # ss) d = (case s d of Inl e \<Rightarrow> (d, Some e) | Inr d' \<Rightarrow> run_statements ss d')"

definition rename_queue :: "string \<Rightarrow> string \<Rightarrow> db \<Rightarrow> db \<times> py_error option" where
  "rename_queue old new d =
     (if old = [] \<or> old = new then (d, None)
      else run_statements [rename_attempts old new, rename_tasks old new, rename_events old new,
             rename_routing old new, rename_queue_state old new] d)"

section \<open>Repo CI\<close>

record ci_args =
  ca_state :: string
  ca_head_sha :: "string option"
  ca_url :: "string option"
  ca_detail :: "string option"

definition fresh_ci :: "time \<Rightarrow> string \<Rightarrow> ci_args \<Rightarrow> repo_ci_row" where
  "fresh_ci now repo a = \<lparr>ci_repo = repo, ci_state = ca_state a, ci_head_sha = ca_head_sha a,
     ci_url = ca_url a, ci_detail = ca_detail a, ci_fix_task = None, ci_fix_sha = None,
     ci_updated_at = now\<rparr>"

definition merge_ci :: "time \<Rightarrow> ci_args \<Rightarrow> repo_ci_row \<Rightarrow> repo_ci_row" where
  "merge_ci now a r = r\<lparr>ci_state := ca_state a, ci_head_sha := ca_head_sha a, ci_url := ca_url a,
     ci_detail := ca_detail a, ci_fix_task := None, ci_fix_sha := None, ci_updated_at := now\<rparr>"

definition find_ci :: "string \<Rightarrow> db \<Rightarrow> repo_ci_row option" where
  "find_ci repo d = find_row ci_repo repo (db_repo_ci d)"

definition set_repo_ci :: "time \<Rightarrow> string \<Rightarrow> ci_args \<Rightarrow> db \<Rightarrow> db \<times> string option" where
  "set_repo_ci now repo a d =
     (let previous = map_option ci_state (find_ci repo d) in
      if previous \<noteq> Some (ca_state a) then
        (d\<lparr>db_repo_ci := sql_upsert ci_repo repo (fresh_ci now repo a) (merge_ci now a)
             (db_repo_ci d)\<rparr>, previous)
      else
        (d\<lparr>db_repo_ci := sql_update (\<lambda>r. ci_repo r = repo)
             (\<lambda>r. r\<lparr>ci_head_sha := ca_head_sha a, ci_url := ca_url a, ci_detail := ca_detail a,
                    ci_updated_at := now\<rparr>) (db_repo_ci d)\<rparr>, previous))"

definition set_repo_ci_fix :: "string \<Rightarrow> string \<Rightarrow> string \<Rightarrow> db \<Rightarrow> db" where
  "set_repo_ci_fix repo fix_task fix_sha d = d\<lparr>db_repo_ci := sql_update (\<lambda>r. ci_repo r = repo)
     (\<lambda>r. r\<lparr>ci_fix_task := Some fix_task, ci_fix_sha := Some fix_sha\<rparr>) (db_repo_ci d)\<rparr>"

section \<open>Events\<close>

definition append_event :: "time \<Rightarrow> transition_event \<Rightarrow> db \<Rightarrow> db \<times> nat list" where
  "append_event now ev d = append_events now [ev] d"

definition events_since :: "nat \<Rightarrow> nat \<Rightarrow> db \<Rightarrow> event_row list" where
  "events_since cursor limit d =
     take limit (sort_key er_id (filter (\<lambda>e. cursor < er_id e) (db_events d)))"

definition max_event_id :: "db \<Rightarrow> nat" where
  "max_event_id d = fold (\<lambda>e m. max (er_id e) m) (db_events d) 0"

definition run_events :: "string \<Rightarrow> db \<Rightarrow> event_row list" where
  "run_events rid d = sort_key er_id (filter (\<lambda>e. er_run_id e = Some rid) (db_events d))"

section \<open>Workers\<close>

record worker_args =
  wa_backend :: string
  wa_queues :: "string list option"
  wa_priorities :: "int list option"
  wa_models :: "string list option"
  wa_mcps :: "string list option"
  wa_meta :: "pydict option"

definition or_empty :: "'a list option \<Rightarrow> 'a list" where
  "or_empty v = (case v of None \<Rightarrow> [] | Some xs \<Rightarrow> xs)"

definition fresh_worker :: "time \<Rightarrow> string \<Rightarrow> worker_args \<Rightarrow> worker_row" where
  "fresh_worker now wid a = \<lparr>wk_id = wid, wk_backend = wa_backend a, wk_queues = wa_queues a,
     wk_priorities = wa_priorities a, wk_models = or_empty (wa_models a),
     wk_mcps = or_empty (wa_mcps a), wk_status = ''idle'', wk_current_task = None,
     wk_current_queue = None, wk_current_run_id = None, wk_meta = or_empty (wa_meta a),
     wk_registered_at = now, wk_last_checkin_at = now, wk_last_heartbeat_at = now\<rparr>"

definition merge_worker :: "time \<Rightarrow> worker_args \<Rightarrow> worker_row \<Rightarrow> worker_row" where
  "merge_worker now a r = r\<lparr>wk_backend := wa_backend a, wk_queues := wa_queues a,
     wk_priorities := wa_priorities a, wk_models := or_empty (wa_models a),
     wk_mcps := or_empty (wa_mcps a), wk_status := ''idle'', wk_meta := or_empty (wa_meta a),
     wk_last_checkin_at := now, wk_last_heartbeat_at := now\<rparr>"

definition register_worker :: "time \<Rightarrow> string \<Rightarrow> worker_args \<Rightarrow> db \<Rightarrow> db \<times> worker_row option" where
  "register_worker now wid a d =
     (let rows = sql_upsert wk_id wid (fresh_worker now wid a) (merge_worker now a) (db_workers d)
      in (d\<lparr>db_workers := rows\<rparr>, find_row wk_id wid rows))"

definition set_worker_status ::
  "time \<Rightarrow> string \<Rightarrow> string \<Rightarrow> string option \<Rightarrow> string option \<Rightarrow> string option \<Rightarrow> db \<Rightarrow> db" where
  "set_worker_status now wid status task queue rid d = d\<lparr>db_workers :=
     sql_update (\<lambda>r. wk_id r = wid)
       (\<lambda>r. r\<lparr>wk_status := status, wk_current_task := task, wk_current_queue := queue,
              wk_current_run_id := rid, wk_last_heartbeat_at := now\<rparr>) (db_workers d)\<rparr>"

definition heartbeat_worker :: "time \<Rightarrow> string \<Rightarrow> db \<Rightarrow> db" where
  "heartbeat_worker now wid d = d\<lparr>db_workers := sql_update (\<lambda>r. wk_id r = wid)
     (\<lambda>r. r\<lparr>wk_last_heartbeat_at := now\<rparr>) (db_workers d)\<rparr>"

definition list_workers :: "db \<Rightarrow> worker_row list" where
  "list_workers d = sort_key wk_id (db_workers d)"

definition get_worker :: "string \<Rightarrow> db \<Rightarrow> worker_row option" where
  "get_worker wid d = find_row wk_id wid (db_workers d)"

definition stale_worker :: "time \<Rightarrow> rat \<Rightarrow> worker_row \<Rightarrow> bool" where
  "stale_worker now ttl r \<longleftrightarrow> wk_status r \<noteq> ''offline''
     \<and> wk_last_heartbeat_at r < now - of_int (py_trunc ttl)"

definition expire_stale_workers :: "time \<Rightarrow> rat \<Rightarrow> db \<Rightarrow> db \<times> string list" where
  "expire_stale_workers now ttl d =
     (d\<lparr>db_workers := sql_update (stale_worker now ttl) (\<lambda>r. r\<lparr>wk_status := ''offline''\<rparr>)
          (db_workers d)\<rparr>,
      map wk_id (filter (stale_worker now ttl) (db_workers d)))"

end
