(* ===== verification/Store_Facts.thy ===== *)
theory Store_Facts
  imports Store
begin

text \<open>
  What the store promises: the row and table invariants, kept by every verb and so by every
  database the verbs reach; the compare-and-swap of a transition; the counter a transition
  carries. The upserts are interpretations of the contract of Sql\_Table.
\<close>

section \<open>The upserts\<close>

interpretation hold_upsert: upsert_table task_key "fresh_hold now" "merge_hold now" for now
  by unfold_locales (simp_all add: task_key_def fresh_hold_def merge_hold_def)

interpretation counter_upsert: upsert_table task_key "fresh_counter now" "merge_counter now" for now
  by unfold_locales (simp_all add: task_key_def fresh_counter_def merge_counter_def)

interpretation pause_upsert: upsert_table qs_queue "fresh_pause now" "merge_pause now" for now
  by unfold_locales (simp_all add: fresh_pause_def merge_pause_def)

interpretation mode_upsert: upsert_table qs_queue "fresh_mode now" "merge_mode now" for now
  by unfold_locales (simp_all add: fresh_mode_def merge_mode_def)

interpretation ci_upsert: upsert_table ci_repo "fresh_ci now" "merge_ci now" for now
  by unfold_locales (simp_all add: fresh_ci_def merge_ci_def)

interpretation worker_upsert: upsert_table wk_id "fresh_worker now" "merge_worker now" for now
  by unfold_locales (simp_all add: fresh_worker_def merge_worker_def)

section \<open>Attempt rows\<close>

definition attempt_ok :: "attempt_row \<Rightarrow> bool" where
  "attempt_ok r \<longleftrightarrow> (at_state r \<in> ATTEMPT_TERMINAL_STATES \<longrightarrow>
     at_finished_at r \<noteq> None \<and> at_released_at r \<noteq> None)"

definition attempts_ok :: "attempt_row list \<Rightarrow> bool" where
  "attempts_ok rows \<longleftrightarrow> distinct (map at_id rows) \<and> distinct (live_keys rows) \<and>
     (\<forall>r \<in> set rows. attempt_ok r)"

lemma attempt_set_simps [simp]:
  "at_id (attempt_set now flds s r) = at_id r"
  "at_task (attempt_set now flds s r) = at_task r"
  "at_queue (attempt_set now flds s r) = at_queue r"
  "at_worker_id (attempt_set now flds s r) = at_worker_id r"
  "at_started_at (attempt_set now flds s r) = at_started_at r"
  "at_state (attempt_set now flds (Some q) r) = q"
  "at_state (attempt_set now flds None r) = at_state r"
  by (simp_all add: attempt_set_def Let_def split: option.split)

lemma attempt_set_ok: "attempt_ok r \<Longrightarrow> attempt_ok (attempt_set now flds s r)"
  by (auto simp: attempt_ok_def attempt_set_def coalesce_def Let_def split: option.splits)

lemma attempt_set_keeps_stamps:
  "at_finished_at r = Some w \<Longrightarrow> at_finished_at (attempt_set now flds s r) = Some w"
  by (auto simp: attempt_set_def coalesce_def Let_def split: option.splits)

lemma write_attempts_Inr:
  "write_attempts d rows = Inr d' \<longleftrightarrow>
     d' = d\<lparr>db_attempts := rows\<rparr> \<and> distinct (live_keys rows) \<and> distinct (map at_id rows)"
  by (auto simp: write_attempts_def)

lemma write_attempts_ok:
  "write_attempts d rows = Inr d' \<Longrightarrow> \<forall>r \<in> set rows. attempt_ok r \<Longrightarrow> attempts_ok (db_attempts d')"
  by (auto simp: write_attempts_Inr attempts_ok_def)

lemma live_keys_mem:
  "(q, t) \<in> set (live_keys rows) \<longleftrightarrow>
     (\<exists>r \<in> set rows. at_queue r = q \<and> at_task r = t \<and> at_state r \<in> ATTEMPT_LIVE_STATES)"
  by (auto simp: live_keys_def)

lemma live_keys_append: "live_keys (xs @ ys) = live_keys xs @ live_keys ys"
  by (simp add: live_keys_def)

lemma live_keys_Cons:
  "live_keys (r # rows) = (if at_state r \<in> ATTEMPT_LIVE_STATES then [(at_queue r, at_task r)] else [])
     @ live_keys rows"
  by (simp add: live_keys_def)

text \<open>Ending attempts never breaks the live index: live rows only leave it.\<close>

lemma live_keys_sql_update_subset:
  assumes "\<And>r. r \<in> set rows \<Longrightarrow> p r \<Longrightarrow> at_queue (f r) = at_queue r \<and> at_task (f r) = at_task r \<and>
      (at_state (f r) \<in> ATTEMPT_LIVE_STATES \<longrightarrow> at_state r \<in> ATTEMPT_LIVE_STATES)"
    and "distinct (live_keys rows)"
  shows "distinct (live_keys (sql_update p f rows)) \<and>
         set (live_keys (sql_update p f rows)) \<subseteq> set (live_keys rows)"
  using assms
proof (induction rows)
  case (Cons r rows)
  have "distinct (live_keys rows)" using Cons.prems(2) by (simp add: live_keys_Cons)
  with Cons.IH Cons.prems(1) have IH: "distinct (live_keys (sql_update p f rows))"
    "set (live_keys (sql_update p f rows)) \<subseteq> set (live_keys rows)" by auto
  have "live_keys (sql_update p f (r # rows)) =
      live_keys [if p r then f r else r] @ live_keys (sql_update p f rows)"
    by (simp add: sql_update_def live_keys_append [symmetric] live_keys_Cons)
  then show ?case using IH Cons.prems
    by (auto simp: live_keys_Cons live_keys_def [of "[]"] split: if_splits)
qed (simp add: sql_update_def live_keys_def)

subsection \<open>Creating and updating attempts\<close>

lemma create_attempt_ok:
  assumes "attempts_ok (db_attempts d)" "create_attempt now a d = Inr (d', row)"
    "aa_state a \<notin> ATTEMPT_TERMINAL_STATES"
  shows "attempts_ok (db_attempts d')"
  using assms
  by (auto simp: create_attempt_def Let_def bind_result_eq_Inr_iff attempts_ok_def
      write_attempts_Inr attempt_ok_def split: if_splits)

text \<open>A live attempt is created exactly when the task has none.\<close>

lemma create_attempt_live:
  assumes "aa_state a \<in> ATTEMPT_LIVE_STATES" "create_attempt now a d = Inr (d', row)"
  shows "row = None \<longleftrightarrow> (qkey (aa_queue a), aa_task a) \<in> set (live_keys (db_attempts d))"
    and "row = None \<Longrightarrow> d' = d"
  using assms by (auto simp: create_attempt_def Let_def bind_result_eq_Inr_iff split: if_splits)

lemma update_attempt_ok:
  assumes "attempts_ok (db_attempts d)" "update_attempt now rid s flds d = Inr d'"
  shows "attempts_ok (db_attempts d')"
proof (cases "s = None \<and> flds = []")
  case False
  then have "write_attempts d (sql_update (\<lambda>r. at_id r = rid) (attempt_set now flds s) (db_attempts d)) = Inr d'"
    using assms(2) by (auto simp: update_attempt_def bind_result_eq_Inr_iff)
  then show ?thesis
    by (rule write_attempts_ok)
      (use assms(1) attempt_set_ok in \<open>auto simp: set_sql_update attempts_ok_def\<close>)
qed (use assms in \<open>simp add: update_attempt_def\<close>)

lemma heartbeat_attempt_ok:
  assumes "attempts_ok (db_attempts d)"
  shows "attempts_ok (db_attempts (heartbeat_attempt now rid ttl d))"
proof -
  let ?f = "\<lambda>r. r\<lparr>at_heartbeat_at := now, at_deadline_at := Some (ttl_deadline now ttl)\<rparr>"
  let ?p = "\<lambda>r. at_id r = rid \<and> at_state r \<in> ATTEMPT_LIVE_STATES"
  have "distinct (live_keys (sql_update ?p ?f (db_attempts d)))"
    using live_keys_sql_update_subset [of "db_attempts d" ?p ?f] assms by (simp add: attempts_ok_def)
  moreover have "distinct (map at_id (sql_update ?p ?f (db_attempts d)))"
    using assms by (intro distinct_sql_update) (simp_all add: attempts_ok_def)
  ultimately show ?thesis
    using assms by (auto simp: heartbeat_attempt_def attempts_ok_def set_sql_update attempt_ok_def)
qed

section \<open>Task rows\<close>

text \<open>
  \<open>task_row_ok\<close> holds of every reachable row. \<open>task_row_carries\<close> is the stricter invariant the
  source documents: a row exists only while it carries a hold or retry state.
\<close>

definition task_row_ok :: "task_row \<Rightarrow> bool" where
  "task_row_ok r \<longleftrightarrow> 0 \<le> tk_attempts r \<and> (tk_next_eligible_at r \<noteq> None \<longrightarrow> 0 < tk_attempts r)"

definition task_row_carries :: "task_row \<Rightarrow> bool" where
  "task_row_carries r \<longleftrightarrow> tk_state r \<noteq> None \<or> tk_attempts r \<noteq> 0 \<or> tk_next_eligible_at r \<noteq> None"

definition tasks_ok :: "task_row list \<Rightarrow> bool" where
  "tasks_ok rows \<longleftrightarrow> distinct (map task_key rows) \<and> (\<forall>r \<in> set rows. task_row_ok r)"

definition tasks_carry :: "task_row list \<Rightarrow> bool" where
  "tasks_carry rows \<longleftrightarrow> (\<forall>r \<in> set rows. task_row_carries r)"

lemmas task_row_defs = task_row_ok_def task_row_carries_def

lemma task_key_updates [simp]:
  "task_key (r\<lparr>tk_state := a\<rparr>) = task_key r" "task_key (r\<lparr>tk_blocked_reason := b\<rparr>) = task_key r"
  "task_key (r\<lparr>tk_repo := b\<rparr>) = task_key r" "task_key (r\<lparr>tk_retry_eligible := c\<rparr>) = task_key r"
  "task_key (r\<lparr>tk_attempts := e\<rparr>) = task_key r" "task_key (r\<lparr>tk_next_eligible_at := f\<rparr>) = task_key r"
  "task_key (r\<lparr>tk_updated_at := g\<rparr>) = task_key r"
  by (simp_all add: task_key_def)

lemma tasks_ok_sql_update:
  "tasks_ok rows \<Longrightarrow> (\<And>r. r \<in> set rows \<Longrightarrow> p r \<Longrightarrow> task_key (f r) = task_key r) \<Longrightarrow>
   (\<And>r. r \<in> set rows \<Longrightarrow> p r \<Longrightarrow> task_row_ok r \<Longrightarrow> task_row_ok (f r)) \<Longrightarrow> tasks_ok (sql_update p f rows)"
  by (auto simp: tasks_ok_def set_sql_update intro: distinct_sql_update)

lemma tasks_ok_sql_delete: "tasks_ok rows \<Longrightarrow> tasks_ok (sql_delete p rows)"
  by (auto simp: tasks_ok_def intro: distinct_sql_delete)

lemma task_upsert_ok: "tasks_ok rows \<Longrightarrow> tasks_ok (task_upsert now k a rows)"
  unfolding tasks_ok_def task_upsert_def
  by (rule hold_upsert.upsert_invariant)
    (auto simp: task_row_ok_def fresh_hold_def merge_hold_def)

lemma task_increment_ok: "tasks_ok rows \<Longrightarrow> tasks_ok (task_increment now k secs rows)"
  unfolding tasks_ok_def task_increment_def
  by (rule counter_upsert.upsert_invariant)
    (auto simp: task_row_ok_def fresh_counter_def merge_counter_def)

lemma task_reset_ok: "tasks_ok rows \<Longrightarrow> tasks_ok (task_reset now k rows)"
  unfolding task_reset_def by (rule tasks_ok_sql_update) (auto simp: task_row_ok_def)

lemma task_demote_ok: "tasks_ok rows \<Longrightarrow> tasks_ok (task_demote now k rows)"
  unfolding task_demote_def by (rule tasks_ok_sql_update) (auto simp: task_row_ok_def)

lemma task_release_demote_ok: "tasks_ok rows \<Longrightarrow> tasks_ok (task_release_demote now k rows)"
  unfolding task_release_demote_def by (rule tasks_ok_sql_update) (auto simp: task_row_ok_def)

lemma apply_effects_ok: "tasks_ok rows \<Longrightarrow> tasks_ok (apply_effects now k e rows)"
  by (auto simp: apply_effects_def apply_hold_def apply_progress_def apply_clear_def
      task_delete_if_clean_def
      intro!: task_upsert_ok task_increment_ok task_reset_ok task_demote_ok tasks_ok_sql_delete
      split: option.split progress.split)

text \<open>
  The documented row lifecycle survives a transition whose reset comes with a clear.
\<close>

lemma task_upsert_carries: "tasks_carry rows \<Longrightarrow> tasks_carry (task_upsert now k a rows)"
  unfolding tasks_carry_def task_upsert_def sql_upsert_def
  by (auto simp: set_sql_update task_row_carries_def fresh_hold_def merge_hold_def)

lemma task_increment_carries:
  assumes "tasks_ok rows" "tasks_carry rows"
  shows "tasks_carry (task_increment now k secs rows)"
proof -
  have "distinct (map task_key rows) \<and> (\<forall>r \<in> set rows. task_row_ok r \<and> task_row_carries r)"
    using assms by (simp add: tasks_ok_def tasks_carry_def)
  then have "\<forall>r \<in> set (task_increment now k secs rows). task_row_ok r \<and> task_row_carries r"
    unfolding task_increment_def
    by (rule counter_upsert.upsert_invariant [THEN conjunct2])
      (auto simp: task_row_defs fresh_counter_def merge_counter_def)
  then show ?thesis by (simp add: tasks_carry_def)
qed

lemma apply_clear_carries:
  "te_hold e = None \<Longrightarrow> te_clear_hold e \<Longrightarrow> (\<And>r. r \<in> set rows \<Longrightarrow> task_key r \<noteq> k \<Longrightarrow> task_row_carries r) \<Longrightarrow>
   tasks_carry (apply_clear now k e rows)"
  by (auto simp: tasks_carry_def apply_clear_def task_demote_def task_delete_if_clean_def
      set_sql_update task_row_carries_def)

lemma apply_effects_carries:
  assumes "tasks_ok rows" "tasks_carry rows"
    and reset: "te_progress e = PG_RESET \<longrightarrow> te_hold e = None \<and> te_clear_hold e"
  shows "tasks_carry (apply_effects now k e rows)"
proof -
  let ?h = "apply_hold now k e rows" and ?p = "apply_progress now k e (apply_hold now k e rows)"
  have h: "tasks_ok ?h" "tasks_carry ?h"
    using assms by (auto simp: apply_hold_def task_upsert_ok task_upsert_carries split: option.split)
  have p: "task_row_carries r" if "r \<in> set ?p" "task_key r \<noteq> k \<or> te_progress e \<noteq> PG_RESET" for r
    using h that task_increment_carries [of ?h now k "te_next_eligible_in e"]
    by (cases "te_progress e")
      (auto simp: apply_progress_def tasks_carry_def task_reset_def set_sql_update)
  show ?thesis
  proof (cases "te_hold e = None \<and> te_clear_hold e")
    case True
    then show ?thesis using p unfolding apply_effects_def by (intro apply_clear_carries) auto
  next
    case False
    then have "te_progress e \<noteq> PG_RESET" using reset by blast
    with False p show ?thesis by (auto simp: apply_effects_def apply_clear_def tasks_carry_def)
  qed
qed

lemma clear_task_state_carries:
  assumes "tasks_ok (db_tasks d)" "tasks_carry (db_tasks d)"
  shows "tasks_carry (db_tasks (clear_task_state now queue task reset d))"
  using assms
  by (auto simp: clear_task_state_def Let_def tasks_carry_def task_release_demote_def
      task_release_delete_def set_sql_update task_row_carries_def)

section \<open>Transitions against the store\<close>

lemma check_fields_iff:
  "check_attempt_fields names b = Inr () \<longleftrightarrow>
     set names \<subseteq> set ATTEMPT_UPDATABLE_FIELDS \<and> (b \<or> ''state'' \<notin> set names)"
  by (auto simp: check_attempt_fields_def Let_def filter_empty_conv)

lemma event_rows_columns:
  "map er_id (event_rows now seq evs) = [Suc seq ..< Suc (seq + length evs)]"
  "map er_kind (event_rows now seq evs) = map ev_kind evs"
  "map er_run_id (event_rows now seq evs) = map ev_run_id evs"
  "map er_task (event_rows now seq evs) = map ev_task evs"
  by (auto simp: event_rows_def simp del: upt_Suc intro!: nth_equalityI)

lemma append_events_simps [simp]:
  "db_attempts (fst (append_events now evs d)) = db_attempts d"
  "db_tasks (fst (append_events now evs d)) = db_tasks d"
  "db_workers (fst (append_events now evs d)) = db_workers d"
  "db_routing (fst (append_events now evs d)) = db_routing d"
  "db_queue_state (fst (append_events now evs d)) = db_queue_state d"
  "db_repo_ci (fst (append_events now evs d)) = db_repo_ci d"
  "db_event_seq (fst (append_events now evs d)) = db_event_seq d + length evs"
  "db_events (fst (append_events now evs d)) = db_events d @ event_rows now (db_event_seq d) evs"
  "snd (append_events now evs d) = [Suc (db_event_seq d) ..< Suc (db_event_seq d + length evs)]"
  by (simp_all add: append_events_def Let_def event_rows_columns del: upt_Suc)

text \<open>A successful application, spelled out.\<close>

lemma apply_transition_SomeD:
  assumes "apply_transition now t expected worker d = Inr (d', Some ids)"
  shows "\<exists>r \<in> set (db_attempts d). cas_matches t expected worker r"
    and "db_attempts d' = sql_update (cas_matches t expected worker)
           (attempt_set now (t_fields t) (Some (t_state t))) (db_attempts d)"
    and "db_tasks d' = apply_effects now (qkey (ref_queue (t_ref t)), ref_task (t_ref t))
           (t_effects t) (db_tasks d)"
    and "distinct (live_keys (db_attempts d'))" "distinct (map at_id (db_attempts d'))"
    and "db_events d' = db_events d @ event_rows now (db_event_seq d) (t_events t)"
    and "db_event_seq d' = db_event_seq d + length (t_events t)"
    and "ids = [Suc (db_event_seq d) ..< Suc (db_event_seq d + length (t_events t))]"
    and "db_workers d' = db_workers d" "db_routing d' = db_routing d"
    and "db_queue_state d' = db_queue_state d" "db_repo_ci d' = db_repo_ci d"
  using assms
  by (auto simp: apply_transition_def bind_result_eq_Inr_iff write_attempts_Inr append_events_def
      event_rows_columns Let_def simp del: upt_Suc split: if_splits)

lemma apply_transition_NoneD:
  assumes "apply_transition now t expected worker d = Inr (d', None)"
  shows "d' = d" and "\<not> (\<exists>r \<in> set (db_attempts d). cas_matches t expected worker r)"
  using assms
  by (auto simp: apply_transition_def bind_result_eq_Inr_iff append_events_def Let_def split: if_splits)

lemma apply_transition_attempts_ok:
  assumes "attempts_ok (db_attempts d)" "apply_transition now t expected worker d = Inr (d', ids)"
  shows "attempts_ok (db_attempts d')"
proof (cases ids)
  case (Some ids')
  from assms(2) [unfolded Some] have d': "db_attempts d' = sql_update (cas_matches t expected worker)
      (attempt_set now (t_fields t) (Some (t_state t))) (db_attempts d)"
    "distinct (live_keys (db_attempts d'))" "distinct (map at_id (db_attempts d'))"
    by (rule apply_transition_SomeD)+
  have "\<forall>r \<in> set (db_attempts d'). attempt_ok r"
    unfolding d'(1) set_sql_update using assms(1) attempt_set_ok by (auto simp: attempts_ok_def)
  with d' show ?thesis by (simp add: attempts_ok_def)
next
  case None
  then show ?thesis using assms apply_transition_NoneD(1) [of now t expected worker d d'] by simp
qed

text \<open>
  A transition out of a state happens at most once: when it wins, the row has left the expected
  state, so no later transition that expects it on the same attempt matches.
\<close>

lemma apply_transition_excludes:
  assumes "attempts_ok (db_attempts d)"
    and win: "apply_transition now t expected worker d = Inr (d1, Some ids)"
    and "t_state t \<noteq> expected" "ref_id (t_ref u) = ref_id (t_ref t)"
  shows "\<not> (\<exists>r \<in> set (db_attempts d1). cas_matches u expected worker' r)"
proof
  assume "\<exists>r \<in> set (db_attempts d1). cas_matches u expected worker' r"
  then obtain r1 where r1: "r1 \<in> set (db_attempts d1)" "at_id r1 = ref_id (t_ref t)"
      "at_state r1 = expected"
    using assms(4) by (auto simp: cas_matches_def)
  obtain r0 where r0: "r0 \<in> set (db_attempts d)" "cas_matches t expected worker r0"
    using apply_transition_SomeD(1) [OF win] by blast
  let ?f = "attempt_set now (t_fields t) (Some (t_state t))"
  have "?f r0 \<in> set (db_attempts d1)"
    using r0 unfolding apply_transition_SomeD(2) [OF win] set_sql_update
    by (auto intro!: image_eqI [of _ _ r0])
  moreover have "at_id (?f r0) = at_id r1" using r0 r1 by (simp add: cas_matches_def)
  ultimately have "?f r0 = r1"
    using r1(1) apply_transition_SomeD(5) [OF win] by (metis distinct_map inj_onD)
  then have "at_state r1 = t_state t" by auto
  with r1(3) assms(3) show False by simp
qed

section \<open>The reachable databases\<close>

definition queue_state_ok :: "queue_state_row list \<Rightarrow> bool" where
  "queue_state_ok rows \<longleftrightarrow> distinct (map qs_queue rows) \<and>
     (\<forall>r \<in> set rows. qs_paused_reason r \<noteq> None \<or> qs_mode r \<noteq> None)"

definition events_ok :: "event_row list \<Rightarrow> nat \<Rightarrow> bool" where
  "events_ok rows seq \<longleftrightarrow> map er_id rows = [Suc 0 ..< Suc seq]"

definition store_ok :: "db \<Rightarrow> bool" where
  "store_ok d \<longleftrightarrow> attempts_ok (db_attempts d) \<and> tasks_ok (db_tasks d) \<and>
     events_ok (db_events d) (db_event_seq d) \<and>
     queue_state_ok (db_queue_state d) \<and> distinct (map ci_repo (db_repo_ci d)) \<and>
     distinct (map wk_id (db_workers d)) \<and> distinct (db_routing d)"

text \<open>One verb of the store that changes the database.\<close>

inductive store_step :: "db \<Rightarrow> db \<Rightarrow> bool" where
  step_create: "create_attempt now a d = Inr (d', row) \<Longrightarrow> aa_state a \<notin> ATTEMPT_TERMINAL_STATES \<Longrightarrow>
    store_step d d'"
| step_update: "update_attempt now rid s flds d = Inr d' \<Longrightarrow> store_step d d'"
| step_heartbeat: "store_step d (heartbeat_attempt now rid ttl d)"
| step_apply: "apply_transition now t expected worker d = Inr (d', ids) \<Longrightarrow> store_step d d'"
| step_set_task: "store_step d (set_task_state now q task ha d)"
| step_clear_task: "store_step d (clear_task_state now q task reset d)"
| step_clear_backoff: "store_step d (clear_task_backoff now q task d)"
| step_dedication: "store_step d (set_queue_dedication label wids d)"
| step_pause: "store_step d (set_queue_pause now label reason d)"
| step_mode: "store_step d (set_queue_mode now label mode d)"
| step_rename: "store_step d (fst (rename_queue old new d))"
| step_ci: "store_step d (fst (set_repo_ci now repo ca d))"
| step_ci_fix: "store_step d (set_repo_ci_fix repo fix_task fix_sha d)"
| step_event: "store_step d (fst (append_event now ev d))"
| step_register: "store_step d (fst (register_worker now wid wa d))"
| step_worker_status: "store_step d (set_worker_status now wid status ct cq rid d)"
| step_worker_beat: "store_step d (heartbeat_worker now wid d)"
| step_expire_workers: "store_step d (fst (expire_stale_workers now ttl d))"

inductive reachable_db :: "db \<Rightarrow> bool" where
  reach_empty: "reachable_db empty_db"
| reach_step: "reachable_db d \<Longrightarrow> store_step d d' \<Longrightarrow> reachable_db d'"

subsection \<open>Every verb keeps the invariant\<close>

lemma events_ok_append:
  "events_ok rows seq \<Longrightarrow> events_ok (rows @ event_rows now seq evs) (seq + length evs)"
  using upt_add_eq_append [of "Suc 0" "Suc seq" "length evs"]
  by (simp add: events_ok_def event_rows_columns del: upt_Suc)

lemma append_events_ok: "store_ok d \<Longrightarrow> store_ok (fst (append_events now evs d))"
  by (simp add: store_ok_def events_ok_append)

lemma apply_transition_ok:
  assumes "store_ok d" "apply_transition now t expected worker d = Inr (d', ids)"
  shows "store_ok d'"
proof (cases ids)
  case None
  then show ?thesis using assms apply_transition_NoneD(1) by blast
next
  case (Some ids')
  have att: "attempts_ok (db_attempts d')"
    using assms by (intro apply_transition_attempts_ok [OF _ assms(2)]) (simp add: store_ok_def)
  show ?thesis
    using assms(1) att events_ok_append apply_effects_ok
      apply_transition_SomeD [OF assms(2) [unfolded Some]]
    by (simp add: store_ok_def)
qed

lemma queue_state_prune_ok:
  assumes "distinct (map qs_queue rows)"
    and "\<And>r. r \<in> set rows \<Longrightarrow> qs_queue r \<noteq> label \<Longrightarrow> qs_paused_reason r \<noteq> None \<or> qs_mode r \<noteq> None"
  shows "queue_state_ok (queue_state_prune label rows)"
  using assms by (auto simp: queue_state_ok_def queue_state_prune_def intro: distinct_sql_delete)

lemma upsert_other_rows:
  "r \<in> set (sql_upsert key k fresh f rows) \<Longrightarrow> key fresh = k \<Longrightarrow> (\<And>r. key (f r) = key r) \<Longrightarrow>
   key r \<noteq> k \<Longrightarrow> r \<in> set rows"
  by (auto simp: sql_upsert_def set_sql_update split: if_splits)

lemma set_queue_pause_ok:
  "queue_state_ok (db_queue_state d) \<Longrightarrow> queue_state_ok (db_queue_state (set_queue_pause now l reason d))"
  by (auto simp: set_queue_pause_def queue_state_ok_def [of "db_queue_state d"] pause_upsert.key_fresh
      pause_upsert.key_merge intro!: queue_state_prune_ok pause_upsert.upsert_distinct
      dest: upsert_other_rows)

lemma set_queue_mode_ok:
  "queue_state_ok (db_queue_state d) \<Longrightarrow> queue_state_ok (db_queue_state (set_queue_mode now l mode d))"
  by (auto simp: set_queue_mode_def queue_state_ok_def [of "db_queue_state d"] mode_upsert.key_fresh
      mode_upsert.key_merge intro!: queue_state_prune_ok mode_upsert.upsert_distinct
      dest: upsert_other_rows)

lemma routing_insert_distinct: "distinct rows \<Longrightarrow> distinct (routing_insert label w rows)"
  by (simp add: routing_insert_def)

lemma fold_routing_distinct: "distinct rows \<Longrightarrow> distinct (fold (routing_insert label) ws rows)"
  by (induction ws arbitrary: rows) (simp_all add: routing_insert_distinct)

lemma run_statements_invariant:
  "(\<And>s d d'. s \<in> set ss \<Longrightarrow> P d \<Longrightarrow> s d = Inr d' \<Longrightarrow> P d') \<Longrightarrow> P d \<Longrightarrow> P (fst (run_statements ss d))"
  by (induction ss d rule: run_statements.induct) (auto split: sum.split)

lemma rename_attempts_ok:
  "store_ok d \<Longrightarrow> rename_attempts old new d = Inr d' \<Longrightarrow> store_ok d'"
  by (auto simp: rename_attempts_def write_attempts_Inr store_ok_def attempts_ok_def set_sql_update
      attempt_ok_def)

lemma rename_tasks_ok: "store_ok d \<Longrightarrow> rename_tasks old new d = Inr d' \<Longrightarrow> store_ok d'"
  by (auto simp: rename_tasks_def Let_def store_ok_def tasks_ok_def set_sql_update task_row_ok_def
      split: if_splits)

lemma rename_events_ok: "store_ok d \<Longrightarrow> rename_events old new d = Inr d' \<Longrightarrow> store_ok d'"
  by (auto simp: rename_events_def store_ok_def events_ok_def keys_sql_update simp del: upt_Suc)

lemma rename_routing_ok: "store_ok d \<Longrightarrow> rename_routing old new d = Inr d' \<Longrightarrow> store_ok d'"
  by (auto simp: rename_routing_def Let_def store_ok_def split: if_splits)

lemma rename_queue_state_ok: "store_ok d \<Longrightarrow> rename_queue_state old new d = Inr d' \<Longrightarrow> store_ok d'"
  by (fastforce simp: rename_queue_state_def Let_def store_ok_def queue_state_ok_def set_sql_update
      split: if_splits)

lemma rename_queue_ok: "store_ok d \<Longrightarrow> store_ok (fst (rename_queue old new d))"
  unfolding rename_queue_def
  by (auto intro!: run_statements_invariant [where P = store_ok]
      dest: rename_attempts_ok rename_tasks_ok rename_events_ok rename_routing_ok rename_queue_state_ok
      simp del: run_statements.simps)

lemma store_step_ok: "store_step d d' \<Longrightarrow> store_ok d \<Longrightarrow> store_ok d'"
proof (induction rule: store_step.induct)
  case (step_create now a d d' row)
  have "db_tasks d' = db_tasks d \<and> db_events d' = db_events d \<and> db_event_seq d' = db_event_seq d \<and>
      db_queue_state d' = db_queue_state d \<and> db_repo_ci d' = db_repo_ci d \<and>
      db_workers d' = db_workers d \<and> db_routing d' = db_routing d"
    using step_create(1)
    by (auto simp: create_attempt_def Let_def bind_result_eq_Inr_iff write_attempts_Inr split: if_splits)
  with create_attempt_ok [OF _ step_create(1,2)] step_create(3) show ?case by (simp add: store_ok_def)
next
  case (step_update now rid s flds d d')
  have "db_tasks d' = db_tasks d \<and> db_events d' = db_events d \<and> db_event_seq d' = db_event_seq d \<and>
      db_queue_state d' = db_queue_state d \<and> db_repo_ci d' = db_repo_ci d \<and>
      db_workers d' = db_workers d \<and> db_routing d' = db_routing d"
    using step_update(1)
    by (auto simp: update_attempt_def bind_result_eq_Inr_iff write_attempts_Inr split: if_splits)
  with update_attempt_ok [OF _ step_update(1)] step_update(2) show ?case by (simp add: store_ok_def)
next
  case (step_heartbeat d now rid ttl)
  then show ?case using heartbeat_attempt_ok [of d now rid ttl]
    by (simp add: store_ok_def heartbeat_attempt_def)
next
  case (step_apply now t expected worker d d' ids)
  then show ?case by (metis apply_transition_ok)
next
  case (step_set_task d now q task ha)
  then show ?case by (simp add: set_task_state_def store_ok_def task_upsert_ok)
next
  case (step_clear_task d now q task reset)
  then show ?case
    by (simp add: clear_task_state_def Let_def store_ok_def tasks_ok_sql_delete task_release_demote_ok
        task_release_delete_def)
next
  case (step_clear_backoff d now q task)
  have "tasks_ok (db_tasks (clear_task_backoff now q task d))"
    unfolding clear_task_backoff_def using step_clear_backoff
    by (auto simp: store_ok_def task_row_ok_def intro!: tasks_ok_sql_update)
  with step_clear_backoff show ?case by (simp add: store_ok_def clear_task_backoff_def)
next
  case (step_dedication d label wids)
  then show ?case
    by (simp add: set_queue_dedication_def Let_def store_ok_def fold_routing_distinct sql_delete_def)
next
  case (step_pause d now label reason)
  then show ?case using set_queue_pause_ok [of d now label reason]
    by (simp add: store_ok_def) (simp add: set_queue_pause_def)
next
  case (step_mode d now label mode)
  then show ?case using set_queue_mode_ok [of d now label mode]
    by (simp add: store_ok_def) (simp add: set_queue_mode_def)
next
  case (step_rename d old new)
  then show ?case by (rule rename_queue_ok)
next
  case (step_ci d now repo ca)
  then show ?case
    by (auto simp: set_repo_ci_def Let_def store_ok_def
        intro: ci_upsert.upsert_distinct distinct_sql_update)
next
  case (step_ci_fix d repo fix_task fix_sha)
  then show ?case by (auto simp: set_repo_ci_fix_def store_ok_def intro: distinct_sql_update)
next
  case (step_event d now ev)
  then show ?case by (simp add: append_event_def append_events_ok)
next
  case (step_register d now wid wa)
  then show ?case
    by (auto simp: register_worker_def Let_def store_ok_def intro: worker_upsert.upsert_distinct)
next
  case (step_worker_status d now wid status ct cq rid)
  then show ?case by (auto simp: set_worker_status_def store_ok_def intro: distinct_sql_update)
next
  case (step_worker_beat d now wid)
  then show ?case by (auto simp: heartbeat_worker_def store_ok_def intro: distinct_sql_update)
next
  case (step_expire_workers d now ttl)
  then show ?case by (auto simp: expire_stale_workers_def store_ok_def intro: distinct_sql_update)
qed

lemma reachable_store_ok: "reachable_db d \<Longrightarrow> store_ok d"
proof (induction rule: reachable_db.induct)
  case reach_empty
  show ?case by (simp add: store_ok_def empty_db_def attempts_ok_def tasks_ok_def queue_state_ok_def
      live_keys_def events_ok_def)
qed (rule store_step_ok)

section \<open>Reading events and dedications back\<close>

lemma filter_upt_greater: "filter (\<lambda>i. c < i) [Suc 0 ..< Suc n] = [Suc c ..< Suc n]"
proof (induction n)
  case (Suc n)
  have "filter (\<lambda>i. c < i) [Suc 0 ..< Suc (Suc n)] = filter (\<lambda>i. c < i) ([Suc 0 ..< Suc n] @ [Suc n])"
    by (simp only: upt_Suc) simp
  with Suc show ?case by auto
qed simp

lemma map_filter_key: "map f (filter (\<lambda>x. P (f x)) xs) = filter P (map f xs)"
  by (induction xs) auto

lemma events_since_ids:
  assumes "events_ok (db_events d) (db_event_seq d)"
  shows "map er_id (events_since c n d) = [Suc c ..< Suc (min (c + n) (db_event_seq d))]"
proof -
  let ?rows = "filter (\<lambda>e. c < er_id e) (db_events d)"
  have ids: "map er_id ?rows = [Suc c ..< Suc (db_event_seq d)]"
    using assms map_filter_key [of er_id "\<lambda>i. c < i" "db_events d"] filter_upt_greater
    by (simp add: events_ok_def del: upt_Suc)
  then have "sorted (map er_id ?rows)" by (simp del: upt_Suc)
  then have "sort_key er_id ?rows = ?rows" by (rule sort_key_id_if_sorted)
  then have "map er_id (events_since c n d) = take n [Suc c ..< Suc (db_event_seq d)]"
    using ids by (simp add: events_since_def take_map [symmetric] del: upt_Suc)
  also have "\<dots> = [Suc c ..< Suc (min (c + n) (db_event_seq d))]"
    by (cases "n \<le> db_event_seq d - c") (auto simp: min_def simp del: upt_Suc)
  finally show ?thesis .
qed

lemma fold_max_er_id:
  "fold (\<lambda>e m. max (er_id e) m) rows m = fold max (map er_id rows) (m :: nat)"
  by (induction rows arbitrary: m) simp_all

lemma fold_max_upt: "fold max [Suc 0 ..< Suc n] (0 :: nat) = n"
proof (induction n)
  case (Suc n)
  have "[Suc 0 ..< Suc (Suc n)] = [Suc 0 ..< Suc n] @ [Suc n]" by simp
  then have "fold max [Suc 0 ..< Suc (Suc n)] 0 = max (Suc n) (fold max [Suc 0 ..< Suc n] 0)"
    by (simp only: fold_append) simp
  with Suc show ?case by (simp del: upt_Suc)
qed simp

lemma max_event_id_seq:
  "events_ok (db_events d) (db_event_seq d) \<Longrightarrow> max_event_id d = db_event_seq d"
  by (simp add: max_event_id_def fold_max_er_id events_ok_def fold_max_upt del: upt_Suc)

lemma dget_or_fold_dedication:
  "dget_or (fold dedication_add rows out) l [] = dget_or out l [] @ map snd (filter (\<lambda>r. fst r = l) rows)"
  by (induction rows arbitrary: out) (auto simp: dedication_add_def)

lemma queue_dedication_rows:
  "dget_or (queue_dedication d) l [] = map snd (filter (\<lambda>r. fst r = l) (db_routing d))"
  by (simp add: queue_dedication_def dget_or_fold_dedication sort_key_stable)
    (simp add: dget_or_def)

text \<open>The first occurrence of each worker, in the operator's order.\<close>

definition first_occurrences :: "'a list \<Rightarrow> 'a list" where
  "first_occurrences ws = rev (remdups (rev ws))"

lemma fold_routing_insert:
  "l \<notin> fst ` set rows \<Longrightarrow>
   fold (routing_insert l) ws rows = rows @ map (Pair l) (first_occurrences ws)"
proof (induction ws rule: rev_induct)
  case (snoc w ws)
  have "(l, w) \<in> set rows \<longleftrightarrow> False" using snoc.prems by force
  then show ?case using snoc by (auto simp: routing_insert_def first_occurrences_def)
qed (simp add: first_occurrences_def)

lemma dedication_after_set:
  "dget_or (queue_dedication (set_queue_dedication label ws d)) l [] =
     (if l = label then first_occurrences (filter (\<lambda>w. w \<noteq> []) ws)
      else dget_or (queue_dedication d) l [])"
proof -
  have "label \<notin> fst ` set (sql_delete (\<lambda>r. fst r = label) (db_routing d))" by auto
  from fold_routing_insert [OF this] show ?thesis
    by (auto simp: queue_dedication_rows set_queue_dedication_def Let_def sql_delete_def
        filter_map o_def intro: arg_cong [where f = "map snd"] filter_cong)
qed

section \<open>Properties\<close>

definition sample_args :: attempt_args where
  "sample_args = \<lparr>aa_id = ''run-1'', aa_task = ''fix'', aa_queue = Some ''main'',
     aa_worker_id = Some ''w1'', aa_ttl_seconds = 120, aa_state = AS_RUNNING, aa_cols = []\<rparr>"

definition sample_row :: attempt_row where
  "sample_row = \<lparr>at_id = ''run-1'', at_task = ''fix'', at_queue = ''main'',
     at_worker_id = Some ''w1'', at_state = AS_RUNNING, at_started_at = 0, at_acquired_at = 0,
     at_heartbeat_at = 0, at_deadline_at = Some 120, at_finished_at = None,
     at_released_at = None, at_cols = []\<rparr>"

definition sample_db :: db where
  "sample_db = empty_db\<lparr>db_attempts := [sample_row]\<rparr>"

lemma sample_created: "create_attempt 0 sample_args empty_db = Inr (sample_db, Some sample_row)"
  by (simp add: create_attempt_def sample_args_def empty_db_def live_keys_def write_attempts_def
      sample_db_def sample_row_def lifecycle_sets qkey_def ttl_deadline_def py_trunc_def Let_def)

lemma sample_reachable: "reachable_db sample_db"
  by (rule reach_step [OF reach_empty], rule step_create [OF sample_created])
    (simp add: sample_args_def lifecycle_sets)

lemma sample_expired:
  "apply_transition 200 (on_deadline sample_ref) AS_RUNNING None sample_db =
     Inr (sample_db\<lparr>db_attempts := [sample_row\<lparr>at_state := AS_EXPIRED, at_finished_at := Some 200,
       at_released_at := Some 200\<rparr>]\<rparr>, Some [])"
  by (simp add: apply_transition_def on_deadline_def check_attempt_fields_def sample_db_def
      cas_matches_def sample_row_def sample_ref_def write_attempts_def sql_update_def attempt_set_def
      set_columns_def lifecycle_sets coalesce_def live_keys_def empty_db_def Let_def
      append_events_def event_rows_def apply_effects_def apply_hold_def apply_progress_def
      apply_clear_def no_effects_def)

text \<open>
  C30: every database the store's verbs can reach, in any order and with any arguments, satisfies
  the store invariant: attempt ids unique, at most one live attempt per task, terminal attempts
  stamped as finished and released, task rows unique with a back-off only beside a positive
  counter, event ids numbered without gaps, a transport row only while it carries a pause or a
  mode, and unique repository, worker and routing rows.
\<close>

theorem store_invariant:
  assumes "reachable_db d" shows "store_ok d"
  using assms by (rule reachable_store_ok)

lemma store_invariant_witness: "store_ok sample_db"
  by (rule store_invariant [OF sample_reachable])

text \<open>
  The compare-and-swap. A transition whose attempt is no longer in the expected state (or
  not the expected worker's) writes nothing. One that matches moves exactly the attempt it names
  to its new state, leaves every other attempt as it was, and appends its events, in order and
  with the next consecutive ids, in the same step.
\<close>

theorem transition_is_atomic:
  assumes "reachable_db d" "apply_transition now t expected worker d = Inr (d', res)"
  shows "case res of
      None \<Rightarrow> d' = d
    | Some ids \<Rightarrow>
        (\<exists>r. get_attempt d (ref_id (t_ref t)) = Some r \<and> cas_matches t expected worker r \<and>
           get_attempt d' (ref_id (t_ref t)) = Some (attempt_set now (t_fields t) (Some (t_state t)) r)) \<and>
        (\<forall>rid. rid \<noteq> ref_id (t_ref t) \<longrightarrow> get_attempt d' rid = get_attempt d rid) \<and>
        ids = [Suc (db_event_seq d) ..< Suc (db_event_seq d + length (t_events t))] \<and>
        (\<exists>rows. db_events d' = db_events d @ rows \<and> map er_id rows = ids \<and>
           map er_kind rows = map ev_kind (t_events t))"
proof (cases res)
  case None
  then show ?thesis using apply_transition_NoneD(1) assms(2) by simp
next
  case (Some ids)
  note ap = assms(2) [unfolded Some]
  have dist: "distinct (map at_id (db_attempts d))"
    using reachable_store_ok [OF assms(1)] by (simp add: store_ok_def attempts_ok_def)
  obtain r where r: "r \<in> set (db_attempts d)" "cas_matches t expected worker r"
    using apply_transition_SomeD(1) [OF ap] by blast
  then have got: "get_attempt d (ref_id (t_ref t)) = Some r"
    unfolding get_attempt_def by (intro find_row_unique [OF dist]) (simp_all add: cas_matches_def)
  have upd: "get_attempt d' rid = map_option (\<lambda>r. if cas_matches t expected worker r
      then attempt_set now (t_fields t) (Some (t_state t)) r else r) (get_attempt d rid)" for rid
    unfolding get_attempt_def apply_transition_SomeD(2) [OF ap] by (rule find_row_sql_update) simp
  have "get_attempt d' rid = get_attempt d rid" if "rid \<noteq> ref_id (t_ref t)" for rid
    using that find_row_Some [of at_id rid "db_attempts d"] unfolding upd
    by (cases "get_attempt d rid") (auto simp: get_attempt_def cas_matches_def)
  moreover have "get_attempt d' (ref_id (t_ref t)) =
      Some (attempt_set now (t_fields t) (Some (t_state t)) r)"
    using upd got r(2) by simp
  ultimately show ?thesis
    using Some got r(2) apply_transition_SomeD(6,8) [OF ap] by (auto simp: event_rows_columns simp del: upt_Suc)
qed

lemma transition_is_atomic_witness:
  "\<exists>r. get_attempt sample_db ''run-1'' = Some r \<and>
     cas_matches (on_deadline sample_ref) AS_RUNNING None r"
  using transition_is_atomic [OF sample_reachable sample_expired]
  by (auto simp: on_deadline_def sample_ref_def)

text \<open>
  C23: two actors racing on one attempt. When a transition out of the expected state has been
  applied, every later transition on the same attempt that expects that state is refused without
  a write, whoever sends it.
\<close>

theorem racing_transitions_exclude:
  assumes "reachable_db d" "apply_transition now t expected worker d = Inr (d1, Some ids)"
    and "t_state t \<noteq> expected" "ref_id (t_ref u) = ref_id (t_ref t)"
    and "check_attempt_fields (dkeys (t_fields u)) False = Inr ()"
  shows "apply_transition now' u expected worker' d1 = Inr (d1, None)"
proof -
  have "attempts_ok (db_attempts d)"
    using reachable_store_ok [OF assms(1)] by (simp add: store_ok_def)
  from apply_transition_excludes [OF this assms(2-4)] show ?thesis
    using assms(5) by (simp add: apply_transition_def)
qed

lemma racing_transitions_exclude_witness:
  "apply_transition 201 (on_operator_stop sample_ref) AS_RUNNING (Some ''w1'')
     (sample_db\<lparr>db_attempts := [sample_row\<lparr>at_state := AS_EXPIRED, at_finished_at := Some 200,
       at_released_at := Some 200\<rparr>]\<rparr>)
   = Inr (sample_db\<lparr>db_attempts := [sample_row\<lparr>at_state := AS_EXPIRED, at_finished_at := Some 200,
       at_released_at := Some 200\<rparr>]\<rparr>, None)"
  by (rule racing_transitions_exclude [OF sample_reachable sample_expired])
    (simp_all add: on_deadline_def on_operator_stop_def check_attempt_fields_def)

text \<open>
  The event feed. A reader at cursor \<open>c\<close> that asks for at most \<open>n\<close> events gets exactly the
  next \<open>n\<close> consecutive ids, or all that exist, and the largest id is the number of events: paging
  from the last id seen neither skips nor repeats an event.
\<close>

theorem event_feed_exact:
  assumes "reachable_db d"
  shows "map er_id (events_since c n d) = [Suc c ..< Suc (min (c + n) (max_event_id d))] \<and>
    max_event_id d = length (db_events d)"
proof -
  have ok: "events_ok (db_events d) (db_event_seq d)"
    using reachable_store_ok [OF assms] by (simp add: store_ok_def)
  then have "length (map er_id (db_events d)) = db_event_seq d"
    by (simp add: events_ok_def del: upt_Suc length_map)
  with ok show ?thesis by (simp add: events_since_ids max_event_id_seq del: upt_Suc)
qed

lemma event_feed_exact_witness: "events_since 0 10 sample_db = []"
  using event_feed_exact [OF sample_reachable, of 0 10]
  by (simp add: sample_db_def empty_db_def max_event_id_def)

text \<open>
  Setting a queue's dedication replaces exactly that queue's list: reading back gives the
  non-empty worker ids in the operator's order, each at its first occurrence, and every other
  queue keeps its list.
\<close>

theorem dedication_roundtrip:
  "dget_or (queue_dedication (set_queue_dedication label ws d)) l [] =
     (if l = label then first_occurrences (filter (\<lambda>w. w \<noteq> []) ws)
      else dget_or (queue_dedication d) l [])"
  by (rule dedication_after_set)

text \<open>
  Renaming a queue is five separate statements. When the new name still has a transport row,
  as a deleted playlist of that name leaves behind, the last statement breaks the primary key:
  the rename raises after the attempts, tasks, events and routing have moved, so the pause of the
  old name stays behind and the queue's rows are split over both names.
\<close>

theorem rename_queue_not_atomic:
  "\<exists>d d'. reachable_db d \<and> rename_queue ''b'' ''a'' d = (d', Some UniqueViolation) \<and>
     map at_queue (db_attempts d) = [''b''] \<and> map at_queue (db_attempts d') = [''a''] \<and>
     dget (queue_pauses d') ''b'' = Some ''operator''"
proof -
  define d0 where "d0 = set_queue_pause 0 ''b'' (Some ''operator'')
    (set_queue_mode 0 ''a'' (Some ''loop'') empty_db)"
  let ?args = "sample_args\<lparr>aa_queue := Some ''b''\<rparr>" and ?row = "sample_row\<lparr>at_queue := ''b''\<rparr>"
  let ?d = "d0\<lparr>db_attempts := [?row]\<rparr>"
  have d0: "d0 = empty_db\<lparr>db_queue_state :=
      [\<lparr>qs_queue = ''a'', qs_paused_reason = None, qs_mode = Some ''loop'', qs_updated_at = 0\<rparr>,
       \<lparr>qs_queue = ''b'', qs_paused_reason = Some ''operator'', qs_mode = None, qs_updated_at = 0\<rparr>]\<rparr>"
    by (simp add: d0_def set_queue_pause_def set_queue_mode_def queue_state_prune_def sql_upsert_def
        sql_update_def sql_delete_def fresh_pause_def fresh_mode_def empty_db_def)
  have "reachable_db d0"
    unfolding d0_def by (rule reach_step [OF reach_step [OF reach_empty step_mode] step_pause])
  moreover have "create_attempt 0 ?args d0 = Inr (?d, Some ?row)"
    by (simp add: create_attempt_def sample_args_def d0 empty_db_def live_keys_def
        write_attempts_def sample_row_def lifecycle_sets qkey_def ttl_deadline_def py_trunc_def Let_def)
  ultimately have "reachable_db ?d"
    by (rule reach_step [OF _ step_create]) (simp add: sample_args_def lifecycle_sets)
  moreover have "rename_queue ''b'' ''a'' ?d =
      (?d\<lparr>db_attempts := [?row\<lparr>at_queue := ''a''\<rparr>]\<rparr>, Some UniqueViolation)"
    by (simp add: rename_queue_def rename_attempts_def rename_tasks_def rename_events_def
        rename_routing_def rename_queue_state_def d0 empty_db_def sql_update_def write_attempts_def
        live_keys_def sample_row_def Let_def)
  ultimately show ?thesis
    by (intro exI [of _ ?d] exI conjI)
      (assumption+, simp_all add: sample_row_def queue_pauses_def d0 empty_db_def map_filter_simps)
qed

end
