(* ===== verification/Attempt_Life.thy ===== *)
theory Attempt_Life
  imports Store_Facts
begin

text \<open>
  Transitions against the store, across both components: every transition a submit ends in is
  accepted by the attempt table, and the no-progress counter the failure ladder reads is the
  streak of outcomes that the transitions recorded.
\<close>

section \<open>Accepted fields\<close>

lemma telemetry_dump_keys:
  "fst ` set (telemetry_dump t) = {''turns'', ''input_tokens'', ''output_tokens'',
     ''cache_read_input_tokens'', ''cache_creation_input_tokens'', ''usage'', ''cost_usd'',
     ''billing'', ''validate_cmd'', ''worktree'', ''timings''}"
  by (simp add: telemetry_dump_def)

definition fields_accepted :: "transition \<Rightarrow> bool" where
  "fields_accepted t \<longleftrightarrow> check_attempt_fields (dkeys (t_fields t)) False = Inr ()"

lemmas fields_simps = fields_accepted_def check_fields_iff ATTEMPT_UPDATABLE_FIELDS_def
  base_run_fields_def telemetry_dump_keys error_fields_def landed_fields_def Let_def

lemma leaf_fields:
  "fields_accepted (blocked_transition ref out policy)"
  "fields_accepted (neutral_transition ref out)"
  "fields_accepted (environment_failure_transition ref out)"
  "fields_accepted (error_finish ref out hold lad)"
  "fields_accepted (no_change_transition ref out policy)"
  "fields_accepted (landed_transition ref out land policy)"
  "fields_accepted (workflow_landed_transition ref out land eff extra)"
  "fields_accepted (workflow_end ref out step a)"
  "fields_accepted (workflow_budget_quarantine ref out step a)"
  "fields_accepted (workflow_doc_advance ref out step a)"
  "fields_accepted (on_split_result ref out created)"
  by (simp_all add: fields_simps blocked_transition_def neutral_transition_def
      environment_failure_transition_def error_finish_def no_change_transition_def
      landed_transition_def workflow_landed_transition_def workflow_end_def
      workflow_budget_quarantine_def workflow_doc_advance_def on_split_result_def
      split: prod.split)

lemma error_fields_accepted: "fields_accepted (error_transition ref out policy)"
  by (auto simp: error_transition_def leaf_fields split: retry_action.split)

lemma land_failed_fields:
  assumes "land_failed_transition ref out land policy = Inr t" shows "fields_accepted t"
proof -
  obtain a b c where "t_fields t = [(''result_line'', a), (''failure_kind'', b), (''failure_reason'', c)]
      @ base_run_fields out"
    using assms by (cases "if land_resolvable land then watch_failure ref policy else (None, [])")
      (auto simp: land_failed_transition_def bind_result_eq_Inr_iff Let_def)
  then show ?thesis by (simp add: fields_simps)
qed

lemma workflow_split_fields:
  assumes "on_workflow_split ref out created policy = Inr t" shows "fields_accepted t"
proof -
  obtain a where "t_fields t = (''result_line'', a) # base_run_fields out"
    using assms by (auto simp: on_workflow_split_def Let_def split: option.splits)
  then show ?thesis by (simp add: fields_simps)
qed

lemma submit_fields:
  assumes "submit_ends ref out policy t" shows "fields_accepted t"
  using assms
  by (cases rule: submit_ends_leaves)
    (simp_all add: leaf_fields error_fields_accepted land_failed_fields workflow_split_fields)

lemma recovery_fields:
  "fields_accepted (on_land_interrupted ref)" "fields_accepted (on_land_recovered ref sha note)"
  "fields_accepted (on_land_enqueued ref branch head)" "fields_accepted (on_operator_stop ref)"
  "fields_accepted (on_deadline ref)"
  by (simp_all add: fields_simps on_land_interrupted_def on_land_recovered_def on_land_enqueued_def
      on_operator_stop_def on_deadline_def)

text \<open>
  A transition to a terminal state, or from a live state to a live state, cannot break the live
  index, so the store takes it or answers that it lost the race.
\<close>

lemma apply_transition_total:
  assumes "attempts_ok (db_attempts d)" "fields_accepted t"
    and "t_state t \<in> ATTEMPT_LIVE_STATES \<longrightarrow> expected \<in> ATTEMPT_LIVE_STATES"
  shows "\<exists>res. apply_transition now t expected worker d = Inr res"
proof -
  let ?f = "attempt_set now (t_fields t) (Some (t_state t))"
  let ?rows = "sql_update (cas_matches t expected worker) ?f (db_attempts d)"
  have "distinct (live_keys ?rows)"
    using live_keys_sql_update_subset [of "db_attempts d" "cas_matches t expected worker" ?f] assms
    by (auto simp: attempts_ok_def cas_matches_def)
  moreover have "distinct (map at_id ?rows)"
    using assms by (intro distinct_sql_update) (simp_all add: attempts_ok_def)
  ultimately show ?thesis
    using assms(2)
    by (simp add: apply_transition_def fields_accepted_def write_attempts_def Let_def split: prod.split)
qed

section \<open>The no-progress counter\<close>

definition attempts_of :: "task_row list \<Rightarrow> string \<times> string \<Rightarrow> int" where
  "attempts_of rows k = (case find_row task_key k rows of None \<Rightarrow> 0 | Some r \<Rightarrow> tk_attempts r)"

lemma counter_columns [simp]:
  "tk_attempts (fresh_hold now k a) = 0" "tk_attempts (merge_hold now a r) = tk_attempts r"
  "tk_attempts (fresh_counter now k secs) = 1"
  "tk_attempts (merge_counter now secs r) = tk_attempts r + 1"
  by (simp_all add: fresh_hold_def merge_hold_def fresh_counter_def merge_counter_def)

lemma attempts_of_upsert: "attempts_of (task_upsert now k a rows) k' = attempts_of rows k'"
  by (auto simp: attempts_of_def task_upsert_def hold_upsert.upsert_lookup split: option.split)

lemma attempts_of_increment:
  "attempts_of (task_increment now k secs rows) k' = attempts_of rows k' + (if k' = k then 1 else 0)"
  by (auto simp: attempts_of_def task_increment_def counter_upsert.upsert_lookup split: option.split)

lemma attempts_of_reset:
  "attempts_of (task_reset now k rows) k' = (if k' = k then 0 else attempts_of rows k')"
proof -
  have "find_row task_key k' (task_reset now k rows) =
      map_option (\<lambda>r. if task_key r = k then r\<lparr>tk_attempts := 0, tk_next_eligible_at := None,
        tk_updated_at := now\<rparr> else r) (find_row task_key k' rows)"
    unfolding task_reset_def by (rule find_row_sql_update) simp
  then show ?thesis
    using find_row_Some [of task_key k' rows] by (auto simp: attempts_of_def split: option.split)
qed

lemma attempts_of_demote: "attempts_of (task_demote now k rows) k' = attempts_of rows k'"
proof -
  have "find_row task_key k' (task_demote now k rows) =
      map_option (\<lambda>r. if task_key r = k then r\<lparr>tk_state := None, tk_blocked_reason := None,
        tk_repo := None, tk_retry_eligible := False, tk_updated_at := now\<rparr> else r)
        (find_row task_key k' rows)"
    unfolding task_demote_def by (rule find_row_sql_update) simp
  then show ?thesis by (auto simp: attempts_of_def split: option.split)
qed

lemma attempts_of_delete_if_clean:
  "distinct (map task_key rows) \<Longrightarrow> attempts_of (task_delete_if_clean k rows) k' = attempts_of rows k'"
  by (auto simp: attempts_of_def task_delete_if_clean_def find_row_sql_delete split: option.split)

text \<open>What one transition does to the counter of any task.\<close>

lemma attempts_of_apply:
  assumes "tasks_ok rows"
  shows "attempts_of (apply_effects now k e rows) k' =
    (if k' \<noteq> k then attempts_of rows k'
     else case te_progress e of PG_INCREMENT \<Rightarrow> attempts_of rows k + 1 | PG_RESET \<Rightarrow> 0
        | PG_NONE \<Rightarrow> attempts_of rows k)"
proof -
  let ?h = "apply_hold now k e rows" and ?p = "apply_progress now k e (apply_hold now k e rows)"
  have "tasks_ok ?p"
    using assms by (auto simp: apply_hold_def apply_progress_def task_upsert_ok task_increment_ok
        task_reset_ok split: option.split progress.split)
  then have "attempts_of (apply_effects now k e rows) k' = attempts_of ?p k'"
    by (simp add: apply_effects_def apply_clear_def attempts_of_demote attempts_of_delete_if_clean
        tasks_ok_def)
  also have "\<dots> = (if k' \<noteq> k then attempts_of ?h k'
     else case te_progress e of PG_INCREMENT \<Rightarrow> attempts_of ?h k + 1 | PG_RESET \<Rightarrow> 0
        | PG_NONE \<Rightarrow> attempts_of ?h k)"
    by (cases "te_progress e") (auto simp: apply_progress_def attempts_of_increment attempts_of_reset)
  also have "attempts_of ?h = attempts_of rows"
    by (auto simp: fun_eq_iff apply_hold_def attempts_of_upsert split: option.split)
  finally show ?thesis .
qed

text \<open>
  The abstract counter: the outcomes of one task since its last progress, whatever other tasks
  did in between.
\<close>

fun streak :: "string \<times> string \<Rightarrow> ((string \<times> string) \<times> progress) list \<Rightarrow> int \<Rightarrow> int" where
  "streak k [] n = n"
| "streak k ((k', p) # ops) n =
     streak k ops (if k' \<noteq> k then n
       else case p of PG_INCREMENT \<Rightarrow> n + 1 | PG_RESET \<Rightarrow> 0 | PG_NONE \<Rightarrow> n)"

definition apply_all :: "(time \<times> (string \<times> string) \<times> task_effects) list \<Rightarrow> task_row list \<Rightarrow> task_row list" where
  "apply_all ops rows = fold (\<lambda>(now, k, e). apply_effects now k e) ops rows"

lemma apply_all_streak:
  "tasks_ok rows \<Longrightarrow>
   attempts_of (apply_all ops rows) k =
     streak k (map (\<lambda>(now, k, e). (k, te_progress e)) ops) (attempts_of rows k)"
proof (induction ops arbitrary: rows)
  case (Cons op ops)
  obtain now k' e where op: "op = (now, k', e)" by (cases op)
  have "tasks_ok (apply_effects now k' e rows)" using Cons.prems by (rule apply_effects_ok)
  from Cons.IH [OF this] show ?case
    by (simp add: op apply_all_def attempts_of_apply [OF Cons.prems] split: progress.split)
qed (simp add: apply_all_def)

lemma streak_filter:
  "streak k ops n = streak k (filter (\<lambda>op. fst op = k) ops) n"
  by (induction k ops n rule: streak.induct) simp_all

section \<open>Properties\<close>

text \<open>
  C37: no submit is lost to an exception of the store. For every reachable database and every
  transition a submit can end in, applying it returns an answer: its fields are columns the
  store may write and its terminal state cannot break the live index.
\<close>

theorem submit_always_applies:
  assumes "reachable_db d" "submit_ends ref out policy t"
  shows "\<exists>res. apply_transition now t expected worker d = Inr res"
proof (rule apply_transition_total)
  show "attempts_ok (db_attempts d)" using reachable_store_ok [OF assms(1)] by (simp add: store_ok_def)
  show "fields_accepted t" using assms(2) by (rule submit_fields)
  have "t_state t \<in> ATTEMPT_TERMINAL_STATES"
    using submit_ends_sound [OF assms(2)] by (simp add: sound_submit_def)
  then show "t_state t \<in> ATTEMPT_LIVE_STATES \<longrightarrow> expected \<in> ATTEMPT_LIVE_STATES"
    using live_not_terminal by blast
qed

lemma submit_always_applies_witness:
  "\<exists>res. apply_transition 5 (error_transition sample_ref sample_error default_submit_policy)
     AS_RUNNING (Some ''w1'') sample_db = Inr res"
  by (rule submit_always_applies [OF sample_reachable submit_ends.answered [OF sample_error_answer]])

text \<open>
  C28: the persisted counter is the streak of no-progress outcomes. After any sequence of
  transitions over any tasks, the counter a task's next submit reads is the number of its
  increments since its last reset: outcomes of other tasks in between change nothing.
\<close>

theorem counter_is_streak:
  assumes "tasks_ok rows"
  shows "attempts_of (apply_all ops rows) k =
    streak k (filter (\<lambda>op. fst op = k) (map (\<lambda>(now, k, e). (k, te_progress e)) ops)) (attempts_of rows k)"
  using apply_all_streak [OF assms] streak_filter by metis

lemma counter_is_streak_witness:
  "attempts_of (apply_all [(1, (''q'', ''a''), no_effects\<lparr>te_progress := PG_INCREMENT\<rparr>),
      (2, (''q'', ''b''), no_effects\<lparr>te_progress := PG_RESET\<rparr>),
      (3, (''q'', ''a''), no_effects\<lparr>te_progress := PG_INCREMENT\<rparr>)] []) (''q'', ''a'') = 2"
  using counter_is_streak [of "[]" "[(1, (''q'', ''a''), no_effects\<lparr>te_progress := PG_INCREMENT\<rparr>),
      (2, (''q'', ''b''), no_effects\<lparr>te_progress := PG_RESET\<rparr>),
      (3, (''q'', ''a''), no_effects\<lparr>te_progress := PG_INCREMENT\<rparr>)]" "(''q'', ''a'')"]
  by (simp add: tasks_ok_def attempts_of_def find_row_def no_effects_def)

text \<open>
  The row lifecycle of the task overlay. Every verb that touches the overlay keeps the rule
  that a row exists only while it carries a hold, a counter or a back-off, provided a transition
  that resets the counter also clears the hold.
\<close>

theorem overlay_rows_carry_state:
  assumes "reachable_db d" "tasks_carry (db_tasks d)"
    and "te_progress (t_effects t) = PG_RESET \<longrightarrow> te_hold (t_effects t) = None \<and> te_clear_hold (t_effects t)"
    and "apply_transition now t expected worker d = Inr (d', res)"
  shows "tasks_carry (db_tasks d') \<and> tasks_carry (db_tasks (set_task_state now q task ha d)) \<and>
    tasks_carry (db_tasks (clear_task_state now q task reset d))"
proof -
  have ok: "tasks_ok (db_tasks d)" using reachable_store_ok [OF assms(1)] by (simp add: store_ok_def)
  have "tasks_carry (db_tasks d')"
  proof (cases res)
    case None
    then show ?thesis using assms(2,4) apply_transition_NoneD(1) by metis
  next
    case (Some ids)
    then show ?thesis
      using apply_transition_SomeD(3) [OF assms(4) [unfolded Some]]
        apply_effects_carries [OF ok assms(2,3)] by simp
  qed
  moreover have "tasks_carry (db_tasks (set_task_state now q task ha d))"
    using assms(2) by (simp add: set_task_state_def task_upsert_carries)
  moreover have "tasks_carry (db_tasks (clear_task_state now q task reset d))"
    using ok assms(2) by (rule clear_task_state_carries)
  ultimately show ?thesis by blast
qed

lemma overlay_rows_carry_state_witness:
  "tasks_carry (db_tasks (clear_task_state 200 (Some ''main'') ''fix'' False sample_db))"
proof -
  have "tasks_carry (db_tasks sample_db)" by (simp add: tasks_carry_def sample_db_def empty_db_def)
  moreover have "te_progress (t_effects (on_deadline sample_ref)) = PG_NONE"
    by (simp add: on_deadline_def no_effects_def)
  ultimately show ?thesis
    using overlay_rows_carry_state [OF sample_reachable _ _ sample_expired] by simp
qed

text \<open>
  The documented row lifecycle fails for one kind of transition: a workflow document step
  that advances resets the counter without clearing, so a task that had only a retry counter is
  left with a row that carries no hold, no counter and no back-off.
\<close>

theorem doc_advance_leaves_empty_row:
  "task_row_carries (fresh_counter 0 (''main'', ''fix'') (Some 60)) \<and>
   apply_effects 1 (''main'', ''fix'')
     (t_effects (workflow_doc_advance sample_ref sample_document sample_step artifact))
     [fresh_counter 0 (''main'', ''fix'') (Some 60)]
   = [(fresh_counter 0 (''main'', ''fix'') None)\<lparr>tk_attempts := 0, tk_updated_at := 1\<rparr>] \<and>
   \<not> task_row_carries ((fresh_counter 0 (''main'', ''fix'') None)\<lparr>tk_attempts := 0, tk_updated_at := 1\<rparr>)"
  by (simp add: fresh_counter_def workflow_doc_advance_def Let_def no_effects_def apply_effects_def
      apply_hold_def apply_progress_def apply_clear_def task_reset_def sql_update_def task_key_def
      task_row_carries_def eligible_after_def)

end
