(* ===== verification/Frontmatter.thy ===== *)
theory Frontmatter
  imports Prelude
begin

text \<open>
  The two frontmatter codecs of a task brief: the reader \<open>split_frontmatter\<close> and writer
  \<open>join_frontmatter\<close> of \<^verbatim>\<open>src/nightshift/spawn_daily.py\<close>, and the in-place
  rewrite \<open>set_frontmatter_text\<close> of \<^verbatim>\<open>src/nightshift/task_files.py\<close> through which
  the manager writes every flag, hold reason and workflow cursor. The reader cuts at the
  characters \<open>---\<close> wherever they stand; the rewriter works on lines. The theorems say when the
  two agree.
\<close>

section \<open>Reading\<close>

text \<open>\<open>s.split(sep, 1)\<close> on a string separator.\<close>

fun partition_str :: "string \<Rightarrow> string \<Rightarrow> (string \<times> string) option" where
  "partition_str sep [] = (if sep = [] then Some ([], []) else None)"
| "partition_str sep (c # cs) =
     (if take (length sep) (c # cs) = sep then Some ([], drop (length sep) (c # cs))
      else map_option (\<lambda>(a, b). (c # a, b)) (partition_str sep cs))"

abbreviation newline :: char where
  "newline \<equiv> CHR 0x0A"

text \<open>\<open>str.isdigit()\<close> also accepts the superscript digits, which \<open>int()\<close> refuses.\<close>

definition py_isdigit :: "string \<Rightarrow> bool" where
  "py_isdigit s \<longleftrightarrow> s \<noteq> [] \<and>
     (\<forall>c \<in> set s. is_digit c \<or> (of_char c :: nat) = 178 \<or> (of_char c :: nat) = 179 \<or> (of_char c :: nat) = 185)"

definition meta_value :: "string \<Rightarrow> py_error + scalar" where
  "meta_value raw =
     (if py_lower raw = ''true'' then Inr (SBool True)
      else if py_lower raw = ''false'' then Inr (SBool False)
      else if py_isdigit raw then
        (case py_int raw of
           Some i \<Rightarrow> Inr (SInt i)
         | None \<Rightarrow> Inl (ValueError ''invalid literal for int() with base 10''))
      else Inr (SStr raw))"

text \<open>The key and raw value of a line, when it has them.\<close>

definition line_entry :: "string \<Rightarrow> (string \<times> string) option" where
  "line_entry line =
     (let s = py_strip line in
      if s = [] \<or> py_startswith s ''#'' \<or> CHR '':'' \<notin> set line then None
      else (case py_partition (CHR '':'') line of (k, _, v) \<Rightarrow> Some (py_strip k, py_strip v)))"

fun meta_lines :: "meta \<Rightarrow> string list \<Rightarrow> py_error + meta" where
  "meta_lines m [] = Inr m"
| "meta_lines m (line # ls) =
     (case line_entry line of
        None \<Rightarrow> meta_lines m ls
      | Some (k, raw) \<Rightarrow> bind_result (meta_value raw) (\<lambda>v. meta_lines (dset m k v) ls))"

definition split_frontmatter :: "string \<Rightarrow> py_error + (meta \<times> string)" where
  "split_frontmatter text =
     (if \<not> py_startswith text ''---'' then Inr ([], text)
      else case partition_str ''---'' (drop 3 text) of
          None \<Rightarrow> Inr ([], text)
        | Some (block, rest) \<Rightarrow>
            bind_result (meta_lines [] (py_splitlines block))
              (\<lambda>m. Inr (m, dropWhile (\<lambda>c. c = newline) rest)))"

section \<open>Writing\<close>

fun render_meta_value :: "scalar \<Rightarrow> string" where
  "render_meta_value (SBool True) = ''true''"
| "render_meta_value (SBool False) = ''false''"
| "render_meta_value v = scalar_str v"

definition meta_line :: "string \<Rightarrow> scalar \<Rightarrow> string" where
  "meta_line k v = k @ '': '' @ render_meta_value v"

definition join_frontmatter :: "meta \<Rightarrow> string \<Rightarrow> string" where
  "join_frontmatter m body =
     (if m = [] then body
      else ''---'' @ [newline] @ py_join [newline] (map (\<lambda>(k, v). meta_line k v) m) @
           [newline] @ ''---'' @ [newline, newline] @ body)"

section \<open>Rewriting in place\<close>

definition is_fence :: "string \<Rightarrow> bool" where
  "is_fence line \<longleftrightarrow> py_strip line = ''---''"

fun until_fence :: "string list \<Rightarrow> (string list \<times> string list) option" where
  "until_fence [] = None"
| "until_fence (l # ls) =
     (if is_fence l then Some ([], ls)
      else map_option (\<lambda>(a, b). (l # a, b)) (until_fence ls))"

definition split_fence :: "string \<Rightarrow> string list \<times> string list" where
  "split_fence text =
     (let lines = py_splitlines text in
      case lines of
        [] \<Rightarrow> ([], lines)
      | l # ls \<Rightarrow>
          if is_fence l
          then (case until_fence ls of None \<Rightarrow> ([], lines) | Some (a, b) \<Rightarrow> (a, b))
          else ([], lines))"

text \<open>A change maps a key to a new value, or to \<^const>\<open>None\<close> to drop it.\<close>

type_synonym meta_changes = "(string \<times> scalar option) list"

fun rendered_changes :: "meta_changes \<Rightarrow> string list" where
  "rendered_changes [] = []"
| "rendered_changes ((k, None) # cs) = rendered_changes cs"
| "rendered_changes ((k, Some v) # cs) = meta_line k v # rendered_changes cs"

fun apply_fence_changes :: "string list \<Rightarrow> meta_changes \<Rightarrow> string list" where
  "apply_fence_changes [] remaining = rendered_changes remaining"
| "apply_fence_changes (line # ls) remaining =
     (case line_entry line of
        None \<Rightarrow> line # apply_fence_changes ls remaining
      | Some (k, _) \<Rightarrow>
          (case dget remaining k of
             None \<Rightarrow> line # apply_fence_changes ls remaining
           | Some change \<Rightarrow>
               (case change of None \<Rightarrow> [] | Some v \<Rightarrow> [meta_line k v]) @
               apply_fence_changes ls (ddel remaining k)))"

definition rstrip_newlines :: "string \<Rightarrow> string" where
  "rstrip_newlines s = rev (dropWhile (\<lambda>c. c = newline) (rev s))"

definition join_fence :: "string list \<Rightarrow> string list \<Rightarrow> string" where
  "join_fence fence_lines body_lines =
     (let body = dropWhile (\<lambda>l. py_strip l = []) body_lines;
          out = (if fence_lines \<noteq> [] then ''---'' # fence_lines @ [''---'', []] @ body else body)
      in rstrip_newlines (py_join [newline] out) @ [newline])"

definition set_frontmatter_text :: "string \<Rightarrow> meta_changes \<Rightarrow> string" where
  "set_frontmatter_text text changes =
     (case split_fence text of (fence_lines, body_lines) \<Rightarrow>
        join_fence (apply_fence_changes fence_lines changes) body_lines)"

section \<open>Cutting at the fence\<close>

definition plain_line :: "string \<Rightarrow> bool" where
  "plain_line l \<longleftrightarrow> (\<forall>c \<in> set l. \<not> is_linebreak c) \<and> partition_str ''---'' l = None"

lemma newline_linebreak [simp]: "is_linebreak newline"
  by (simp add: is_linebreak_def)

lemma plain_line_no_newline: "plain_line l \<Longrightarrow> newline \<notin> set l"
  using newline_linebreak by (auto simp: plain_line_def)

lemma partition_str_line:
  assumes "newline \<notin> set l" "partition_str ''---'' l = None"
  shows "partition_str ''---'' (l @ newline # rest) =
    map_option (\<lambda>(a, b). (l @ newline # a, b)) (partition_str ''---'' rest)"
  using assms
proof (induction l)
  case Nil
  then show ?case by simp
next
  case (Cons c l)
  have not_here: "take 3 (c # l @ newline # rest) \<noteq> ''---''"
  proof (cases "2 \<le> length l")
    case True
    then have "take 3 (c # l @ newline # rest) = take 3 (c # l)"
      by (cases l; cases "tl l") auto
    then show ?thesis using Cons.prems(2) by (auto simp: numeral_3_eq_3 split: if_splits)
  next
    case False
    then have "newline \<in> set (take 3 (c # l @ newline # rest))"
      by (cases l; cases "tl l") auto
    moreover have "newline \<notin> set ''---''" by simp
    ultimately show ?thesis by metis
  qed
  have "partition_str ''---'' l = None"
    using Cons.prems(2) by (auto split: if_splits)
  then have IH: "partition_str ''---'' (l @ newline # rest) =
      map_option (\<lambda>(a, b). (l @ newline # a, b)) (partition_str ''---'' rest)"
    using Cons by simp
  show ?case
    by (subst append_Cons, subst partition_str.simps(2))
      (use not_here in \<open>cases "partition_str ''---'' rest"; auto simp: IH numeral_3_eq_3\<close>)
qed

definition lines_text :: "string list \<Rightarrow> string" where
  "lines_text ls = concat (map (\<lambda>l. l @ [newline]) ls)"

lemma partition_str_lines:
  "\<forall>l \<in> set ls. plain_line l \<Longrightarrow>
   partition_str ''---'' (lines_text ls @ ''---'' @ rest) = Some (lines_text ls, rest)"
proof (induction ls)
  case (Cons l ls)
  then have "newline \<notin> set l" "partition_str ''---'' l = None"
    using plain_line_no_newline by (auto simp: plain_line_def)
  from partition_str_line [OF this, of "lines_text ls @ ''---'' @ rest"] Cons
  show ?case by (simp add: lines_text_def)
qed (simp add: lines_text_def)

lemma splitlines_acc_lines:
  "\<forall>c \<in> set l. \<not> is_linebreak c \<Longrightarrow>
   splitlines_acc acc b (l @ newline # rest) = (rev acc @ l) # splitlines_acc [] False rest"
proof (induction l arbitrary: acc b)
  case Nil
  then show ?case by (cases rest) simp_all
qed simp

text \<open>A line without a line break, and a text of such lines.\<close>

definition unbroken :: "string \<Rightarrow> bool" where
  "unbroken l \<longleftrightarrow> (\<forall>c \<in> set l. \<not> is_linebreak c)"

lemma splitlines_unbroken: "\<forall>l \<in> set ls. unbroken l \<Longrightarrow> py_splitlines (lines_text ls) = ls"
  unfolding py_splitlines_def by (induction ls) (auto simp: lines_text_def unbroken_def splitlines_acc_lines)

lemma splitlines_acc_unbroken: "unbroken acc \<Longrightarrow> \<forall>l \<in> set (splitlines_acc acc b s). unbroken l"
proof (induction acc b s rule: splitlines_acc.induct)
  case (1 acc b)
  then show ?case by (simp add: unbroken_def)
next
  case (2 acc b c cs)
  have nil: "unbroken []" by (simp add: unbroken_def)
  show ?case
  proof (cases "is_linebreak c")
    case True
    have "\<forall>l \<in> set (case cs of [] \<Rightarrow> [] | d # ds \<Rightarrow> if c = CHR 0x0D \<and> d = CHR 0x0A then splitlines_acc [] False ds
        else splitlines_acc [] False (d # ds)). unbroken l"
      using 2(1,2) [OF True _ _ nil] by (cases cs) (simp_all del: splitlines_acc.simps)
    then show ?thesis
      using True 2(4) by (simp add: unbroken_def del: splitlines_acc.simps(2) add: splitlines_acc.simps(2) [of acc b c cs])
  next
    case False
    then have "unbroken (c # acc)" using 2(4) by (simp add: unbroken_def)
    with 2(3) [OF False] False show ?thesis by simp
  qed
qed

lemma splitlines_lines_unbroken: "l \<in> set (py_splitlines s) \<Longrightarrow> unbroken l"
  using splitlines_acc_unbroken [of "[]" False s] by (simp add: py_splitlines_def unbroken_def)

lemma py_splitlines_lines_text:
  "\<forall>l \<in> set ls. plain_line l \<Longrightarrow> py_splitlines (lines_text ls) = ls"
  unfolding py_splitlines_def
  by (induction ls) (auto simp: lines_text_def plain_line_def splitlines_acc_lines)

lemma split_frontmatter_fenced:
  assumes "\<forall>l \<in> set ls. plain_line l"
  shows "split_frontmatter (''---'' @ [newline] @ lines_text ls @ ''---'' @ rest) =
    bind_result (meta_lines [] ls) (\<lambda>m. Inr (m, dropWhile (\<lambda>c. c = newline) rest))"
proof -
  have plain: "\<forall>l \<in> set ([] # ls). plain_line l"
    using assms by (simp add: plain_line_def)
  have lead: "[newline] @ lines_text ls = lines_text ([] # ls)" by (simp add: lines_text_def)
  have "partition_str ''---'' ([newline] @ lines_text ls @ ''---'' @ rest)
      = Some (lines_text ([] # ls), rest)"
    using partition_str_lines [OF plain, of rest] by (simp add: lines_text_def del: partition_str.simps)
  then show ?thesis
    using py_splitlines_lines_text [OF plain]
    by (simp add: split_frontmatter_def py_startswith_def line_entry_def py_strip_of_def
        del: partition_str.simps)
qed

lemma join_lines_text: "ls \<noteq> [] \<Longrightarrow> py_join [newline] ls @ [newline] = lines_text ls"
  by (induction "[newline]" ls rule: py_join.induct) (simp_all add: lines_text_def)

section \<open>Lines that read back\<close>

definition meta_key :: "string \<Rightarrow> bool" where
  "meta_key k \<longleftrightarrow> k \<noteq> [] \<and> py_strip k = k \<and> CHR '':'' \<notin> set k \<and> hd k \<noteq> CHR ''#''"

text \<open>A value survives when it is a flag, a natural number or a plain, unpadded text.\<close>

fun meta_plain :: "scalar \<Rightarrow> bool" where
  "meta_plain SNone \<longleftrightarrow> False"
| "meta_plain (SBool b) \<longleftrightarrow> True"
| "meta_plain (SInt i) \<longleftrightarrow> 0 \<le> i"
| "meta_plain (SStr s) \<longleftrightarrow> py_strip s = s \<and> py_lower s \<noteq> ''true'' \<and> py_lower s \<noteq> ''false'' \<and> \<not> py_isdigit s"

lemma lower_digit: "is_digit c \<Longrightarrow> lower_char c = c"
  by (auto simp: lower_char_def is_digit_def Let_def)

lemma int_text_digits: "0 \<le> i \<Longrightarrow> \<forall>c \<in> set (int_text i). is_digit c"
  using nat_text_digits by (simp add: int_text_def)

lemma py_lower_int_text: "0 \<le> i \<Longrightarrow> py_lower (int_text i) = int_text i"
  using int_text_digits by (simp add: py_lower_def lower_digit map_idI)

lemma py_isdigit_int_text: "0 \<le> i \<Longrightarrow> py_isdigit (int_text i)"
  using int_text_digits by (simp add: py_isdigit_def)

lemma int_text_not_word: "0 \<le> i \<Longrightarrow> int_text i \<noteq> ''true'' \<and> int_text i \<noteq> ''false''"
  using int_text_digits [of i] by (auto simp: is_digit_def)

lemma meta_value_render: "meta_plain v \<Longrightarrow> meta_value (py_strip (render_meta_value v)) = Inr v"
proof (cases v)
  case (SBool b)
  then show ?thesis
    by (cases b) (simp_all add: meta_value_def py_lower_def lower_char_def py_strip_of_def is_space_def)
next
  case (SInt i)
  then show "meta_plain v \<Longrightarrow> ?thesis"
    by (simp add: meta_value_def py_lower_int_text py_isdigit_int_text int_text_not_word)
qed (simp_all add: meta_value_def)

lemma dropWhile_snoc_neg: "\<not> p c \<Longrightarrow> dropWhile p (ys @ [c]) = dropWhile p ys @ [c]"
  by (induction ys) auto

lemma py_strip_Cons: "\<not> is_space c \<Longrightarrow> py_strip (c # cs) = c # rev (dropWhile is_space (rev cs))"
  by (simp add: py_strip_of_def dropWhile_snoc_neg)

lemma line_entry_meta_line:
  assumes "meta_key k"
  shows "line_entry (meta_line k v) = Some (k, py_strip (render_meta_value v))"
proof -
  have k: "k \<noteq> []" "py_strip k = k" "CHR '':'' \<notin> set k" "hd k \<noteq> CHR ''#''"
    using assms by (auto simp: meta_key_def)
  obtain c cs where kc: "k = c # cs" using k(1) by (cases k) auto
  have c: "\<not> is_space c" using py_strip_of_ends [of is_space k] k kc by simp
  have part: "py_partition (CHR '':'') (meta_line k v) = (k, True, CHR '' '' # render_meta_value v)"
    using py_partition_append [OF k(3), of "CHR '' '' # render_meta_value v"] by (simp add: meta_line_def)
  have strip: "py_strip (CHR '' '' # s) = py_strip s" for s
    by (simp add: py_strip_of_def is_space_def)
  have "\<exists>xs. py_strip (meta_line k v) = c # xs"
    using py_strip_Cons [OF c] kc by (simp add: meta_line_def)
  then obtain xs where xs: "py_strip (meta_line k v) = c # xs" by blast
  have colon: "CHR '':'' \<in> set (meta_line k v)" by (simp add: meta_line_def)
  show ?thesis
    using xs k(2,4) kc part colon strip
    by (simp add: line_entry_def py_startswith_def)
qed

section \<open>The entries of a fence\<close>

abbreviation entries :: "string list \<Rightarrow> (string \<times> string) list" where
  "entries ls \<equiv> List.map_filter line_entry ls"

lemma entries_simps [simp]:
  "entries [] = []"
  "entries (l # ls) = (case line_entry l of None \<Rightarrow> entries ls | Some e \<Rightarrow> e # entries ls)"
  by (simp_all add: List.map_filter_simps split: option.split)

lemma entries_append [simp]: "entries (xs @ ys) = entries xs @ entries ys"
  by (induction xs) (auto split: option.split)

lemma meta_lines_result:
  "(\<forall>e \<in> set (entries ls). \<exists>v. meta_value (snd e) = Inr v) \<longleftrightarrow> (\<exists>m. meta_lines acc ls = Inr m)"
proof (induction ls arbitrary: acc)
  case (Cons l ls)
  show ?case
  proof (cases "line_entry l")
    case (Some e)
    then show ?thesis
      using Cons by (cases "meta_value (snd e)"; cases e) auto
  qed (use Cons in simp)
qed simp

lemma meta_lines_lookup:
  "meta_lines acc ls = Inr m \<Longrightarrow> distinct (map fst (entries ls)) \<Longrightarrow>
   dget m k = (case map_of (entries ls) k of
      None \<Rightarrow> dget acc k
    | Some raw \<Rightarrow> Some (projr (meta_value raw)))"
proof (induction ls arbitrary: acc)
  case (Cons l ls)
  show ?case
  proof (cases "line_entry l")
    case None
    then show ?thesis using Cons by simp
  next
    case (Some e)
    obtain k' raw where e: "e = (k', raw)" by (cases e) auto
    obtain v where v: "meta_value raw = Inr v" "meta_lines (dset acc k' v) ls = Inr m"
      using Cons.prems(1) Some e by (auto simp: bind_result_eq_Inr_iff)
    have d: "distinct (map fst (entries ls))" "k' \<notin> set (map fst (entries ls))"
      using Cons.prems(2) Some e by simp_all
    from d(2) have "map_of (entries ls) k' = None" by (simp add: map_of_eq_None_iff)
    then show ?thesis
      using Cons.IH [OF v(2) d(1)] Some e v(1) by (cases "k = k'") (simp_all split: option.split)
  qed
qed simp

lemma meta_lines_order:
  "meta_lines acc ls = Inr m \<Longrightarrow> distinct (map fst acc @ map fst (entries ls)) \<Longrightarrow>
   m = acc @ map (\<lambda>(k, raw). (k, projr (meta_value raw))) (entries ls)"
proof (induction ls arbitrary: acc)
  case (Cons l ls)
  show ?case
  proof (cases "line_entry l")
    case None
    then show ?thesis using Cons by simp
  next
    case (Some e)
    obtain k' raw where e: "e = (k', raw)" by (cases e) auto
    obtain v where v: "meta_value raw = Inr v" "meta_lines (dset acc k' v) ls = Inr m"
      using Cons.prems(1) Some e by (auto simp: bind_result_eq_Inr_iff)
    have "k' \<notin> set (map fst acc)" using Cons.prems(2) Some e by simp
    then have dset: "dset acc k' v = acc @ [(k', v)]" by (rule dset_absent)
    show ?thesis
      using Cons.IH [OF v(2)] Cons.prems(2) Some e v(1) dset by simp
  qed
qed simp

section \<open>Every change reads back\<close>

definition changes_ok :: "meta_changes \<Rightarrow> bool" where
  "changes_ok cs \<longleftrightarrow> distinct (map fst cs) \<and> (\<forall>k \<in> fst ` set cs. meta_key k)"

lemma changes_ok_ddel: "changes_ok cs \<Longrightarrow> changes_ok (ddel cs k)"
  by (auto simp: changes_ok_def ddel_def distinct_map_filter)

lemma entries_rendered:
  "\<forall>k \<in> fst ` set cs. meta_key k \<Longrightarrow>
   entries (rendered_changes cs) =
     List.map_filter (\<lambda>(k, c). map_option (\<lambda>v. (k, py_strip (render_meta_value v))) c) cs"
  by (induction cs rule: rendered_changes.induct)
    (simp_all add: line_entry_meta_line List.map_filter_simps)

lemma rendered_keys: "changes_ok cs \<Longrightarrow> set (map fst (entries (rendered_changes cs))) \<subseteq> set (map fst cs)"
  by (induction cs rule: rendered_changes.induct) (auto simp: changes_ok_def line_entry_meta_line)

lemma rendered_distinct: "changes_ok cs \<Longrightarrow> distinct (map fst (entries (rendered_changes cs)))"
proof (induction cs rule: rendered_changes.induct)
  case (3 k v cs)
  then have "changes_ok cs" "meta_key k" "k \<notin> set (map fst cs)" by (auto simp: changes_ok_def)
  then show ?case using 3 rendered_keys [of cs] by (auto simp: line_entry_meta_line)
qed (auto simp: changes_ok_def)

lemma rendered_lookup:
  "changes_ok cs \<Longrightarrow> map_of (entries (rendered_changes cs)) k =
     (case dget cs k of Some (Some v) \<Rightarrow> Some (py_strip (render_meta_value v)) | _ \<Rightarrow> None)"
proof (induction cs rule: rendered_changes.induct)
  case (2 k' cs)
  then have ok: "changes_ok cs" and "k' \<notin> set (map fst cs)" by (auto simp: changes_ok_def)
  then have "dget cs k' = None" by (simp add: map_of_eq_None_iff)
  then show ?case using 2 ok by simp
next
  case (3 k' v cs)
  then have "changes_ok cs" "meta_key k'" by (auto simp: changes_ok_def)
  then show ?case using 3 by (simp add: line_entry_meta_line)
qed simp

lemma applied_keys:
  "changes_ok cs \<Longrightarrow>
   set (map fst (entries (apply_fence_changes fence cs))) \<subseteq> set (map fst (entries fence)) \<union> set (map fst cs)"
proof (induction fence cs rule: apply_fence_changes.induct)
  case (1 cs)
  then show ?case using rendered_keys by simp
next
  case (2 line ls cs)
  show ?case
  proof (cases "line_entry line")
    case None
    then show ?thesis using 2 by simp
  next
    case (Some e)
    obtain k raw where e: "e = (k, raw)" by (cases e) auto
    show ?thesis
    proof (cases "dget cs k")
      case None
      have "set (map fst (entries (apply_fence_changes ls cs)))
          \<subseteq> set (map fst (entries ls)) \<union> set (map fst cs)"
        using 2(2) [OF Some e [symmetric] None 2(4)] by simp
      then show ?thesis using Some e None by auto
    next
      case change: (Some c)
      have k: "meta_key k" using 2(4) map_of_SomeD [OF change] by (force simp: changes_ok_def)
      have sub: "set (map fst (ddel cs k)) \<subseteq> set (map fst cs)" by (auto simp: ddel_def)
      have IH: "set (map fst (entries (apply_fence_changes ls (ddel cs k))))
          \<subseteq> set (map fst (entries ls)) \<union> set (map fst (ddel cs k))"
        using 2(3) [OF Some e [symmetric] change] changes_ok_ddel [OF 2(4)] by simp
      then show ?thesis
        using Some e change sub k by (cases c) (auto simp: line_entry_meta_line)
    qed
  qed
qed

lemma applied_lookup:
  "changes_ok cs \<Longrightarrow> distinct (map fst (entries fence)) \<Longrightarrow>
   distinct (map fst (entries (apply_fence_changes fence cs))) \<and>
   map_of (entries (apply_fence_changes fence cs)) k =
     (case dget cs k of
        None \<Rightarrow> map_of (entries fence) k
      | Some None \<Rightarrow> None
      | Some (Some v) \<Rightarrow> Some (py_strip (render_meta_value v)))"
proof (induction fence cs rule: apply_fence_changes.induct)
  case (1 cs)
  then show ?case using rendered_lookup [of cs k] rendered_distinct [of cs]
    by (simp split: option.splits)
next
  case (2 line ls cs)
  show ?case
  proof (cases "line_entry line")
    case None
    then show ?thesis using 2 by (simp split: option.split)
  next
    case (Some e)
    obtain k' raw where e: "e = (k', raw)" by (cases e) auto
    have d: "distinct (map fst (entries ls))" "k' \<notin> set (map fst (entries ls))"
      using 2(5) Some e by simp_all
    then have gone: "map_of (entries ls) k' = None" by (simp add: map_of_eq_None_iff)
    show ?thesis
    proof (cases "dget cs k'")
      case None
      then have "k' \<notin> set (map fst cs)" by (simp add: map_of_eq_None_iff)
      then have "k' \<notin> set (map fst (entries (apply_fence_changes ls cs)))"
        using applied_keys [OF 2(4), of ls] d(2) by blast
      then show ?thesis
        using 2(2) [OF Some e [symmetric] None 2(4) d(1)] Some e None by (simp split: option.split)
    next
      case change: (Some c)
      have ok: "changes_ok (ddel cs k')" by (rule changes_ok_ddel [OF 2(4)])
      have k: "meta_key k'" using 2(4) map_of_SomeD [OF change] by (force simp: changes_ok_def)
      have "k' \<notin> set (map fst (ddel cs k'))" by (auto simp: ddel_def)
      then have "k' \<notin> set (map fst (entries (apply_fence_changes ls (ddel cs k'))))"
        using applied_keys [OF ok, of ls] d(2) by blast
      then show ?thesis
        using 2(3) [OF Some e [symmetric] change ok d(1)] Some e change k gone
        by (cases c) (simp_all add: line_entry_meta_line split: option.split)
    qed
  qed
qed

lemma applied_values:
  assumes "changes_ok cs" "\<forall>c \<in> set cs. \<forall>v. snd c = Some v \<longrightarrow> meta_plain v"
    "distinct (map fst (entries fence))" "meta_lines [] fence = Inr m"
  shows "\<exists>m'. meta_lines [] (apply_fence_changes fence cs) = Inr m' \<and>
    (\<forall>k. dget m' k = (case dget cs k of None \<Rightarrow> dget m k | Some c \<Rightarrow> c))"
proof -
  let ?out = "apply_fence_changes fence cs"
  note lookup = applied_lookup [OF assms(1,3)]
  have distinct: "distinct (map fst (entries ?out))" using lookup by blast
  have plain: "meta_plain v" if "dget cs k = Some (Some v)" for k v
    using assms(2) map_of_SomeD [OF that] by force
  have "\<exists>v. meta_value (snd e) = Inr v" if "e \<in> set (entries ?out)" for e
  proof -
    obtain k raw where e: "e = (k, raw)" by (cases e) auto
    have at: "map_of (entries ?out) k = Some raw" using that e distinct by simp
    show ?thesis
    proof (cases "dget cs k")
      case None
      then have "(k, raw) \<in> set (entries fence)" using at lookup [of k] map_of_SomeD by fastforce
      then show ?thesis using assms(4) meta_lines_result [of fence "[]"] e by auto
    next
      case (Some c)
      then show ?thesis using at lookup [of k] plain meta_value_render e by (cases c) auto
    qed
  qed
  then obtain m' where m': "meta_lines [] ?out = Inr m'" using meta_lines_result [of ?out "[]"] by auto
  have "dget m' k = (case dget cs k of None \<Rightarrow> dget m k | Some c \<Rightarrow> c)" for k
    using meta_lines_lookup [OF m' distinct, of k] meta_lines_lookup [OF assms(4,3), of k]
      lookup [of k] plain [of k] meta_value_render
    by (simp split: option.split)
  with m' show ?thesis by blast
qed

section \<open>The text of a rewritten brief\<close>

lemma rstrip_newlines_keep: "c \<noteq> newline \<Longrightarrow> \<exists>rest'. rstrip_newlines (pre @ [c] @ rest) = pre @ [c] @ rest'"
proof -
  assume c: "c \<noteq> newline"
  let ?p = "\<lambda>c. c = newline"
  have "dropWhile ?p (rev rest @ c # rev pre) = dropWhile ?p (rev rest) @ c # rev pre"
    using c by (induction "rev rest" arbitrary: rest) (auto simp: dropWhile_append)
  then show ?thesis by (simp add: rstrip_newlines_def)
qed

lemma py_join_Cons: "xs \<noteq> [] \<Longrightarrow> py_join sep (x # xs) = x @ sep @ py_join sep xs"
  by (cases xs) auto

lemma py_join_lines: "py_join [newline] (ls @ x # xs) = lines_text ls @ py_join [newline] (x # xs)"
  by (induction ls) (simp_all add: lines_text_def py_join_Cons)

lemma join_fence_text:
  assumes "fence \<noteq> []"
  shows "\<exists>rest. join_fence fence body = ''---'' @ [newline] @ lines_text fence @ ''---'' @ rest"
proof -
  let ?body = "dropWhile (\<lambda>l. py_strip l = []) body"
  let ?front = "''---'' @ [newline] @ lines_text fence @ ''--''"
  let ?tail = "[newline] @ py_join [newline] ([] # ?body)"
  have "py_join [newline] ((''---'' # fence) @ ''---'' # [] # ?body) = ?front @ [CHR ''-''] @ ?tail"
    by (subst py_join_lines) (simp add: lines_text_def)
  moreover obtain rest' where "rstrip_newlines (?front @ [CHR ''-''] @ ?tail) = ?front @ [CHR ''-''] @ rest'"
    using rstrip_newlines_keep [of "CHR ''-''" ?front ?tail] by auto
  ultimately show ?thesis using assms by (simp add: join_fence_def Let_def)
qed

text \<open>
  A frontmatter that can be rewritten line by line: no key occurs twice, and no line holds a line
  break or three dashes. Changes that can be written and read again: no key twice, keys of the
  frontmatter syntax, and values that render to one line without three dashes and back (a truth
  value, a whole number from zero on, or a stripped text that does not read as one of these).
\<close>

definition plain_fence :: "string list \<Rightarrow> bool" where
  "plain_fence fence \<longleftrightarrow> distinct (map fst (entries fence)) \<and> (\<forall>l \<in> set fence. plain_line l)"

definition plain_changes :: "meta_changes \<Rightarrow> bool" where
  "plain_changes cs \<longleftrightarrow> changes_ok cs \<and>
     (\<forall>(k, c) \<in> set cs. case c of None \<Rightarrow> True | Some v \<Rightarrow> meta_plain v \<and> plain_line (meta_line k v))"

lemma plain_changesD:
  assumes "plain_changes cs"
  shows "changes_ok cs" "\<forall>c \<in> set cs. \<forall>v. snd c = Some v \<longrightarrow> meta_plain v"
    "(k, Some v) \<in> set cs \<Longrightarrow> plain_line (meta_line k v)"
  using assms by (auto simp: plain_changes_def)

lemma rendered_changes_lines: "l \<in> set (rendered_changes cs) \<Longrightarrow> \<exists>k v. (k, Some v) \<in> set cs \<and> l = meta_line k v"
  by (induction cs rule: rendered_changes.induct) auto

lemma applied_lines:
  "l \<in> set (apply_fence_changes fence cs) \<Longrightarrow> l \<in> set fence \<or> (\<exists>k v. (k, Some v) \<in> set cs \<and> l = meta_line k v)"
proof (induction fence cs rule: apply_fence_changes.induct)
  case (1 cs)
  then show ?case using rendered_changes_lines by simp
next
  case (2 line ls cs)
  show ?case
  proof (cases "line_entry line")
    case None
    then show ?thesis using 2(1) "2.prems" by auto
  next
    case (Some e)
    then obtain k t where e: "line_entry line = Some (k, t)" by (cases e) simp
    have "set (ddel cs k) \<subseteq> set cs" by (auto simp: ddel_def)
    then show ?thesis
      using 2(2) [OF e refl] 2(3) [OF e refl] "2.prems" e map_of_SomeD [of cs k]
      by (auto split: option.splits; blast)
  qed
qed

lemma applied_plain:
  "plain_fence fence \<Longrightarrow> plain_changes cs \<Longrightarrow> \<forall>l \<in> set (apply_fence_changes fence cs). plain_line l"
  using applied_lines [of _ fence cs] plain_changesD(3) [of cs] by (fastforce simp: plain_fence_def)

text \<open>The frontmatter is rewritten to one with the values wanted.\<close>

lemma applied_reads_back:
  assumes "plain_fence fence" "plain_changes cs" "meta_lines [] fence = Inr m"
    and "(case dget cs k0 of None \<Rightarrow> dget m k0 | Some c \<Rightarrow> c) \<noteq> None"
  obtains m' where "meta_lines [] (apply_fence_changes fence cs) = Inr m'"
    "\<forall>k. dget m' k = (case dget cs k of None \<Rightarrow> dget m k | Some c \<Rightarrow> c)"
    "apply_fence_changes fence cs \<noteq> []"
proof -
  have keys: "distinct (map fst (entries fence))" using assms(1) by (simp add: plain_fence_def)
  obtain m' where m': "meta_lines [] (apply_fence_changes fence cs) = Inr m'"
    "\<forall>k. dget m' k = (case dget cs k of None \<Rightarrow> dget m k | Some c \<Rightarrow> c)"
    using applied_values [OF plain_changesD(1,2) [OF assms(2)] keys assms(3)] by blast
  moreover have "apply_fence_changes fence cs \<noteq> []"
  proof
    assume "apply_fence_changes fence cs = []"
    then have "m' = []" using m'(1) by simp
    then show False using m'(2) assms(4) by (metis map_of.simps(1))
  qed
  ultimately show thesis by (rule that)
qed

text \<open>
  C33: writing changes into a fenced brief and reading it back gives every changed key its new
  value, drops the dropped keys and keeps the others, under the conditions the writer needs: the
  keys of the frontmatter are distinct; no line of it, and no line that is written, holds a line
  break or \<^verbatim>\<open>---\<close>; the changes have distinct keys of the key syntax and are scalars that read back
  as they are rendered (\<^const>\<open>plain_changes\<close>); and some key is left afterwards.
\<close>

theorem brief_changes_read_back:
  assumes "split_fence doc = (fence, body)" "meta_lines [] fence = Inr m"
    and "plain_fence fence" "plain_changes changes"
    and "(case dget changes kept of None \<Rightarrow> dget m kept | Some c \<Rightarrow> c) \<noteq> None"
  shows "\<exists>m' body'. split_frontmatter (set_frontmatter_text doc changes) = Inr (m', body') \<and>
    (\<forall>k. dget m' k = (case dget changes k of None \<Rightarrow> dget m k | Some c \<Rightarrow> c))"
proof -
  obtain m' where m': "meta_lines [] (apply_fence_changes fence changes) = Inr m'"
    "\<forall>k. dget m' k = (case dget changes k of None \<Rightarrow> dget m k | Some c \<Rightarrow> c)"
    and some: "apply_fence_changes fence changes \<noteq> []"
    using applied_reads_back [OF assms(3,4,2,5)] by blast
  obtain rest where "set_frontmatter_text doc changes =
      ''---'' @ [newline] @ lines_text (apply_fence_changes fence changes) @ ''---'' @ rest"
    using join_fence_text [OF some] assms(1) by (auto simp: set_frontmatter_text_def)
  then show ?thesis
    using split_frontmatter_fenced [OF applied_plain [OF assms(3,4)], of rest] m' by simp
qed

lemma split_joined:
  assumes "m \<noteq> []" "distinct (map fst m)"
    and "\<forall>(k, v) \<in> set m. meta_key k \<and> meta_plain v \<and> plain_line (meta_line k v)"
  shows "split_frontmatter (join_frontmatter m body) = Inr (m, dropWhile (\<lambda>c. c = newline) body)"
proof -
  let ?ls = "map (\<lambda>(k, v). meta_line k v) m"
  have entries: "entries ?ls = map (\<lambda>(k, v). (k, py_strip (render_meta_value v))) m"
    using assms(3) by (induction m) (auto simp: line_entry_meta_line)
  have vals: "\<forall>e \<in> set (entries ?ls). \<exists>v. meta_value (snd e) = Inr v"
    using assms(3) meta_value_render by (fastforce simp: entries)
  then obtain m' where m': "meta_lines [] ?ls = Inr m'" using meta_lines_result by blast
  have keys: "map fst (entries ?ls) = map fst m" by (simp add: entries case_prod_beta o_def)
  have "m' = map (\<lambda>(k, raw). (k, projr (meta_value raw))) (entries ?ls)"
    using meta_lines_order [OF m'] assms(2) keys by simp
  also have "\<dots> = m"
    unfolding entries map_map by (rule map_idI) (use assms(3) meta_value_render in \<open>force simp: o_def\<close>)
  finally have "m' = m" .
  have plain: "\<forall>l \<in> set ?ls. plain_line l" using assms(3) by auto
  have "join_frontmatter m body =
      ''---'' @ [newline] @ lines_text ?ls @ ''---'' @ [newline, newline] @ body"
    using assms(1) join_lines_text [of ?ls] by (simp add: join_frontmatter_def flip: append_assoc)
  then show ?thesis
    using split_frontmatter_fenced [OF plain, of "[newline, newline] @ body"] m' \<open>m' = m\<close> by simp
qed

text \<open>Reading a written brief gives the same frontmatter and the body without its leading
  blank lines.\<close>

theorem frontmatter_roundtrip:
  assumes "m \<noteq> []" "distinct (map fst m)"
    and "\<forall>(k, v) \<in> set m. meta_key k \<and> meta_plain v \<and> plain_line (meta_line k v)"
  shows "split_frontmatter (join_frontmatter m body) = Inr (m, dropWhile (\<lambda>c. c = newline) body)"
  using assms by (rule split_joined)

section \<open>Sample inputs\<close>

definition sample_brief :: string where
  "sample_brief = lines_text [''---'', ''title: Fix it'', ''# note'', ''priority: 3'', ''---'', [], ''Do it.'']"

definition sample_changes :: meta_changes where
  "sample_changes = [(''disabled'', Some (SBool True)), (''priority'', None)]"

definition sample_meta :: meta where
  "sample_meta = [(''title'', SStr ''Fix it''), (''disabled'', SBool True), (''priority'', SInt 3)]"

lemma plain_samples:
  "plain_line ''title: Fix it'' \<and> plain_line ''# note'' \<and> plain_line ''disabled: true'' \<and>
   plain_line ''priority: 3''"
  by code_simp

lemma sample_fence:
  "split_fence sample_brief = ([''title: Fix it'', ''# note'', ''priority: 3''], [[], ''Do it.''])"
  by code_simp

lemma sample_entries:
  "entries [''title: Fix it'', ''# note'', ''priority: 3''] = [(''title'', ''Fix it''), (''priority'', ''3'')]"
  by code_simp

lemma sample_read:
  "meta_lines [] [''title: Fix it'', ''# note'', ''priority: 3''] =
     Inr [(''title'', SStr ''Fix it''), (''priority'', SInt 3)]"
  by code_simp

lemma sample_plain_changes: "plain_changes sample_changes"
  by code_simp

lemma sample_plain_fence: "plain_fence [''title: Fix it'', ''# note'', ''priority: 3'']"
  unfolding plain_fence_def using plain_samples by (simp only: sample_entries) simp

theorem brief_changes_read_back_witness:
  "\<exists>m' body'. split_frontmatter (set_frontmatter_text sample_brief sample_changes) = Inr (m', body') \<and>
     dget m' ''disabled'' = Some (SBool True) \<and> dget m' ''priority'' = None \<and>
     dget m' ''title'' = Some (SStr ''Fix it'')"
proof -
  have "\<exists>m' body'. split_frontmatter (set_frontmatter_text sample_brief sample_changes) = Inr (m', body') \<and>
      (\<forall>k. dget m' k = (case dget sample_changes k of
         None \<Rightarrow> dget [(''title'', SStr ''Fix it''), (''priority'', SInt 3)] k | Some c \<Rightarrow> c))"
    by (rule brief_changes_read_back [OF sample_fence sample_read sample_plain_fence sample_plain_changes, of "''title''"])
      (simp add: sample_changes_def)
  then show ?thesis by (auto simp: sample_changes_def)
qed

lemma sample_meta_ok:
  "(\<forall>(k, v) \<in> set sample_meta. meta_key k \<and> meta_plain v \<and> plain_line (meta_line k v)) \<and>
   distinct (map fst sample_meta) \<and> sample_meta \<noteq> []"
  by code_simp

theorem frontmatter_roundtrip_witness:
  "split_frontmatter (join_frontmatter sample_meta ''Do it.'') = Inr (sample_meta, ''Do it.'')"
  using frontmatter_roundtrip [of sample_meta "''Do it.''"] sample_meta_ok by simp

section \<open>What does not survive\<close>

text \<open>A title with three dashes ends the frontmatter where the dashes stand, so that every key
  written after it is read as body text.\<close>

theorem dashes_cut_frontmatter:
  "\<exists>body'. split_frontmatter (join_frontmatter ((''title'', SStr ''a --- b'') # m) body) =
     Inr ([(''title'', SStr ''a'')], body')"
proof -
  obtain tail where tail: "join_frontmatter ((''title'', SStr ''a --- b'') # m) body =
      ''---'' @ ([newline] @ ''title: a '') @ ''---'' @ '' b'' @ tail"
    by (cases m) (auto simp: join_frontmatter_def meta_line_def)
  have "partition_str ''---'' (([newline] @ ''title: a '') @ ''---'' @ '' b'' @ tail) =
      Some ([newline] @ ''title: a '', '' b'' @ tail)"
    by simp
  moreover have "meta_lines [] (py_splitlines ([newline] @ ''title: a '')) = Inr [(''title'', SStr ''a'')]"
    by code_simp
  ultimately show ?thesis
    unfolding tail by (simp add: split_frontmatter_def py_startswith_def del: partition_str.simps)
qed

text \<open>A flag value made of a superscript digit is taken for a number and refused, so the
  whole brief cannot be read.\<close>

theorem superscript_value_raises:
  "split_frontmatter (lines_text [''---'', ''priority: '' @ [CHR 0xB2], ''---'']) =
     Inl (ValueError ''invalid literal for int() with base 10'')"
  by code_simp

end
