(* ===== verification/Queues.thy ===== *)
theory Queues
  imports Frontmatter
begin

text \<open>
  The queues of the content store: the settings file and execution order of a queue
  (\<^verbatim>\<open>src/nightshift/queue_config.py\<close>), the scan for its runnable tasks
  (\<^verbatim>\<open>src/nightshift/task_files.py\<close>), the queue directories themselves
  (\<^verbatim>\<open>src/nightshift/playlists.py\<close>) and the target repository of a task
  (\<^verbatim>\<open>src/nightshift/repos.py\<close>).

  A queue directory is its settings file, read and decoded, and its briefs as pairs of stem and
  text in the order the directory lists them.
\<close>

section \<open>The settings file\<close>

datatype config_file = NoFile | BadJson | Json pyval

record queue_dir =
  qd_config :: config_file
  qd_briefs :: "(string \<times> string) list"

type_synonym content_store = "(string \<times> queue_dir) list"

definition load_queue_config :: "config_file \<Rightarrow> pydict" where
  "load_queue_config f = (case f of Json (PDict d) \<Rightarrow> d | _ \<Rightarrow> [])"

definition load_order :: "(rat \<Rightarrow> string) \<Rightarrow> config_file \<Rightarrow> string list" where
  "load_order ftext f =
     (case dget (load_queue_config f) ''order'' of
        Some (PList names) \<Rightarrow> map (py_str ftext) names
      | _ \<Rightarrow> [])"

definition save_order :: "config_file \<Rightarrow> string list \<Rightarrow> config_file" where
  "save_order f order = Json (PDict (dset (load_queue_config f) ''order'' (PList (map PStr order))))"

text \<open>A value of \<^const>\<open>None\<close> removes the key.\<close>

definition save_queue_config_value :: "config_file \<Rightarrow> string \<Rightarrow> pyval option \<Rightarrow> config_file" where
  "save_queue_config_value f key v =
     (let d = load_queue_config f
      in Json (PDict (case v of None \<Rightarrow> ddel d key | Some x \<Rightarrow> dset d key x)))"

definition SORT_MODES :: "string list" where
  "SORT_MODES = [''manual'', ''priority'']"

definition load_sort_mode :: "config_file \<Rightarrow> string" where
  "load_sort_mode f =
     (case dget (load_queue_config f) ''sort'' of
        Some (PStr mode) \<Rightarrow> if mode \<in> set SORT_MODES then mode else ''manual''
      | _ \<Rightarrow> ''manual'')"

definition save_sort_mode :: "config_file \<Rightarrow> string \<Rightarrow> config_file" where
  "save_sort_mode f mode =
     save_queue_config_value f ''sort''
       (Some (PStr (if mode \<in> set SORT_MODES then mode else ''manual'')))"

definition ci_monitoring_enabled :: "pydict \<Rightarrow> bool" where
  "ci_monitoring_enabled d = (case dget d ''ci_monitoring'' of None \<Rightarrow> False | Some v \<Rightarrow> truthy v)"

section \<open>Priorities\<close>

definition MIN_PRIORITY :: int where "MIN_PRIORITY = 0"
definition MAX_PRIORITY :: int where "MAX_PRIORITY = 5"
definition DEFAULT_PRIORITY :: int where "DEFAULT_PRIORITY = MAX_PRIORITY"

fun scalar_int :: "scalar \<Rightarrow> int option" where
  "scalar_int SNone = None"
| "scalar_int (SBool b) = Some (if b then 1 else 0)"
| "scalar_int (SInt i) = Some i"
| "scalar_int (SStr s) = py_int s"

definition task_priority :: "meta \<Rightarrow> int" where
  "task_priority m =
     (case dget m ''priority'' of
        None \<Rightarrow> DEFAULT_PRIORITY
      | Some raw \<Rightarrow> (case scalar_int raw of
            None \<Rightarrow> DEFAULT_PRIORITY
          | Some i \<Rightarrow> max MIN_PRIORITY (min MAX_PRIORITY i)))"

fun value_int :: "pyval \<Rightarrow> int option" where
  "value_int (PBool b) = Some (if b then 1 else 0)"
| "value_int (PInt i) = Some i"
| "value_int (PFloat q) = Some (py_trunc q)"
| "value_int (PStr s) = py_int s"
| "value_int _ = None"

definition clean_priority_list :: "pyval option \<Rightarrow> int list" where
  "clean_priority_list v =
     (case v of
        Some (PList xs) \<Rightarrow>
          sort (remdups (filter (\<lambda>p. MIN_PRIORITY \<le> p \<and> p \<le> MAX_PRIORITY) (List.map_filter value_int xs)))
      | _ \<Rightarrow> [])"

definition load_play_priorities :: "config_file \<Rightarrow> int list" where
  "load_play_priorities f = clean_priority_list (dget (load_queue_config f) ''play_priorities'')"

definition save_play_priorities :: "config_file \<Rightarrow> pyval \<Rightarrow> config_file" where
  "save_play_priorities f priorities =
     save_queue_config_value f ''play_priorities''
       (Some (PList (map PInt (clean_priority_list (Some priorities)))))"

section \<open>The frontmatter of a queue's briefs\<close>

definition brief_meta :: "string \<Rightarrow> py_error + meta" where
  "brief_meta text =
     (if py_startswith text ''---'' then bind_result (split_frontmatter text) (\<lambda>(m, _). Inr m)
      else Inr [])"

definition read_brief :: "queue_dir \<Rightarrow> string \<Rightarrow> py_error + meta" where
  "read_brief qd stem =
     (case dget (qd_briefs qd) stem of None \<Rightarrow> Inr [] | Some text \<Rightarrow> brief_meta text)"

definition read_priorities :: "queue_dir \<Rightarrow> string list \<Rightarrow> py_error + (string \<times> int) list" where
  "read_priorities qd stems =
     map_result (\<lambda>stem. bind_result (read_brief qd stem) (\<lambda>m. Inr (stem, task_priority m))) stems"

abbreviation is_disabled :: "meta \<Rightarrow> bool" where
  "is_disabled m \<equiv> meta_flag m ''disabled''"

abbreviation is_quarantined :: "meta \<Rightarrow> bool" where
  "is_quarantined m \<equiv> meta_flag m ''quarantined''"

abbreviation is_failed :: "meta \<Rightarrow> bool" where
  "is_failed m \<equiv> meta_flag m ''failed''"

abbreviation is_completed :: "meta \<Rightarrow> bool" where
  "is_completed m \<equiv> meta_flag m ''completed''"

section \<open>Execution order\<close>

text \<open>The rank table \<open>{name: i for i, name in enumerate(order)}\<close>: the last occurrence counts.\<close>

definition rank_of :: "string list \<Rightarrow> string \<Rightarrow> nat option" where
  "rank_of order = map_of (rev (zip order [0..<length order]))"

definition manual_order :: "string list \<Rightarrow> string list \<Rightarrow> string list" where
  "manual_order order stems =
     sort_key (\<lambda>s. the (rank_of order s)) (filter (\<lambda>s. rank_of order s \<noteq> None) stems) @
     sort (filter (\<lambda>s. rank_of order s = None) stems)"

definition priority_order :: "(string \<times> int) list \<Rightarrow> string list \<Rightarrow> string list" where
  "priority_order priorities manual =
     sort_key (\<lambda>s. (dget_or priorities s DEFAULT_PRIORITY, the (rank_of manual s))) manual"

definition order_stems ::
  "(rat \<Rightarrow> string) \<Rightarrow> queue_dir \<Rightarrow> string list \<Rightarrow> (string \<times> int) list option \<Rightarrow> string option \<Rightarrow>
   py_error + string list" where
  "order_stems ftext qd stems priorities sort_mode =
     (let manual = manual_order (load_order ftext (qd_config qd)) stems;
          mode = (case sort_mode of None \<Rightarrow> load_sort_mode (qd_config qd) | Some m \<Rightarrow> m)
      in if mode \<noteq> ''priority'' then Inr manual
         else bind_result
                (case priorities of None \<Rightarrow> read_priorities qd manual | Some p \<Rightarrow> Inr p)
                (\<lambda>p. Inr (priority_order p manual)))"

definition apply_play_filter ::
  "queue_dir \<Rightarrow> string list \<Rightarrow> (string \<times> int) list option \<Rightarrow> py_error + string list" where
  "apply_play_filter qd stems priorities =
     (let selected = load_play_priorities (qd_config qd) in
      if selected = [] then Inr stems
      else bind_result
             (case priorities of None \<Rightarrow> read_priorities qd stems | Some p \<Rightarrow> Inr p)
             (\<lambda>p. Inr (filter (\<lambda>s. dget_or p s DEFAULT_PRIORITY \<in> set selected) stems)))"

text \<open>A drag of the queue: existing names once each, in the asked order, then the rest by name.\<close>

definition cleaned_order :: "string list \<Rightarrow> string list \<Rightarrow> string list" where
  "cleaned_order existing order =
     (let kept = rev (remdups (rev (filter (\<lambda>n. n \<in> set existing) order)))
      in kept @ sort (remdups (filter (\<lambda>n. n \<notin> set kept) existing)))"

definition reorder_queue :: "queue_dir \<Rightarrow> string list \<Rightarrow> queue_dir" where
  "reorder_queue qd order =
     qd\<lparr>qd_config := save_order (qd_config qd) (cleaned_order (map fst (qd_briefs qd)) order)\<rparr>"

section \<open>Scans of a queue\<close>

fun autosplit_stems :: "(string \<times> string) list \<Rightarrow> py_error + string list" where
  "autosplit_stems [] = Inr []"
| "autosplit_stems ((stem, text) # bs) =
     bind_result (brief_meta text) (\<lambda>m. bind_result (autosplit_stems bs) (\<lambda>rest.
       Inr (if meta_flag m ''autosplit'' then stem # rest else rest)))"

text \<open>The stems and priorities of the runnable briefs.\<close>

fun runnable_stems :: "string list \<Rightarrow> (string \<times> string) list \<Rightarrow> py_error + (string \<times> int) list" where
  "runnable_stems autosplit [] = Inr []"
| "runnable_stems autosplit ((stem, text) # bs) =
     (if stem \<in> set autosplit then runnable_stems autosplit bs
      else bind_result (brief_meta text) (\<lambda>m. bind_result (runnable_stems autosplit bs) (\<lambda>rest.
        Inr (if is_disabled m \<or> is_quarantined m \<or> is_completed m then rest
             else (stem, task_priority m) # rest))))"

definition live_ordered_queue :: "(rat \<Rightarrow> string) \<Rightarrow> queue_dir \<Rightarrow> py_error + string list" where
  "live_ordered_queue ftext qd =
     bind_result (autosplit_stems (qd_briefs qd)) (\<lambda>autosplit.
     bind_result (runnable_stems autosplit (qd_briefs qd)) (\<lambda>found.
     bind_result (order_stems ftext qd (map fst found) (Some found) None) (\<lambda>ordered.
       apply_play_filter qd ordered (Some found))))"

text \<open>A held brief: stem, state and reason.\<close>

definition held_entry :: "string \<Rightarrow> meta \<Rightarrow> (string \<times> string \<times> scalar) list" where
  "held_entry stem m =
     (if is_quarantined m
        then [(stem, ''quarantined'', dget_or m ''quarantine_reason'' (SStr []))]
      else if is_failed m then [(stem, ''failed'', dget_or m ''failed_reason'' (SStr []))]
      else [])"

definition frontmatter_held_tasks :: "queue_dir \<Rightarrow> py_error + (string \<times> string \<times> scalar) list" where
  "frontmatter_held_tasks qd =
     bind_result
       (map_result (\<lambda>(stem, text). bind_result (brief_meta text) (\<lambda>m. Inr (held_entry stem m)))
         (qd_briefs qd))
       (\<lambda>rows. Inr (concat rows))"

definition failed_tasks :: "queue_dir \<Rightarrow> py_error + string list" where
  "failed_tasks qd =
     bind_result
       (map_result (\<lambda>(stem, text). bind_result (brief_meta text) (\<lambda>m.
            Inr (if is_failed m \<and> \<not> is_quarantined m \<and> \<not> is_completed m then [stem] else [])))
         (sort_key fst (qd_briefs qd)))
       (\<lambda>rows. Inr (concat rows))"

section \<open>Queue names\<close>

definition slug_char :: "char \<Rightarrow> bool" where
  "slug_char c \<longleftrightarrow> (let n = of_char c :: nat in (97 \<le> n \<and> n \<le> 122) \<or> (48 \<le> n \<and> n \<le> 57))"

text \<open>\<open>re.sub("[^a-z0-9]+", "-", s)\<close>; the flag says that the run has its dash already.\<close>

fun dash_runs :: "bool \<Rightarrow> string \<Rightarrow> string" where
  "dash_runs in_run [] = []"
| "dash_runs in_run (c # cs) =
     (if slug_char c then c # dash_runs False cs
      else if in_run then dash_runs True cs
      else CHR ''-'' # dash_runs True cs)"

definition slugify_name :: "string \<Rightarrow> string" where
  "slugify_name name = py_strip_of (\<lambda>c. c = CHR ''-'') (dash_runs False (py_lower (py_strip name)))"

text \<open>The pattern's \<open>$\<close> also matches before a final newline.\<close>

definition is_valid_name :: "string \<Rightarrow> bool" where
  "is_valid_name name \<longleftrightarrow>
     (let core = (if name \<noteq> [] \<and> last name = newline then butlast name else name)
      in core \<noteq> [] \<and> slug_char (hd core) \<and> (\<forall>c \<in> set core. slug_char c \<or> c = CHR ''-'')
         \<and> name \<noteq> ''runs'')"

definition tasks_rel :: "string option \<Rightarrow> string" where
  "tasks_rel name = opt_or name ''main''"

definition queue_from_tasks_rel :: "string \<Rightarrow> string option" where
  "queue_from_tasks_rel rel = (if rel = [] \<or> rel = ''main'' then None else Some rel)"

section \<open>Queue directories\<close>

definition is_queue :: "queue_dir \<Rightarrow> bool" where
  "is_queue qd \<longleftrightarrow> qd_config qd \<noteq> NoFile"

definition config_disabled :: "config_file \<Rightarrow> bool" where
  "config_disabled f = (case dget (load_queue_config f) ''disabled'' of None \<Rightarrow> False | Some v \<Rightarrow> truthy v)"

definition queue_disabled :: "content_store \<Rightarrow> string option \<Rightarrow> bool" where
  "queue_disabled st name =
     (case name of
        None \<Rightarrow> False
      | Some n \<Rightarrow> (case dget st (tasks_rel name) of None \<Rightarrow> False | Some qd \<Rightarrow> config_disabled (qd_config qd)))"

definition list_playlists :: "content_store \<Rightarrow> (string \<times> nat \<times> bool) list" where
  "list_playlists st =
     map (\<lambda>(name, qd). (name, length (qd_briefs qd), config_disabled (qd_config qd)))
       (filter (\<lambda>(name, qd). name \<noteq> ''runs'' \<and> name \<noteq> ''main'' \<and> \<not> py_startswith name ''.'' \<and> is_queue qd)
         (sort_key fst st))"

definition queue_exists :: "content_store \<Rightarrow> string \<Rightarrow> bool" where
  "queue_exists st name \<longleftrightarrow>
     is_valid_name name \<and> (case dget st name of None \<Rightarrow> False | Some qd \<Rightarrow> is_queue qd)"

definition bad_queue_name :: py_error where
  "bad_queue_name = ValueError ''queue name must contain letters or numbers''"

definition create_playlist :: "content_store \<Rightarrow> string \<Rightarrow> py_error + content_store" where
  "create_playlist st name =
     (let slug = slugify_name name in
      if slug = [] \<or> \<not> is_valid_name slug then Inl bad_queue_name
      else case dget st slug of
          None \<Rightarrow> Inr (dset st slug \<lparr>qd_config = Json (PDict [(''order'', PList [])]), qd_briefs = []\<rparr>)
        | Some qd \<Rightarrow>
            if is_queue qd then Inl (FileExistsError slug)
            else Inr (dset st slug (qd\<lparr>qd_config := Json (PDict [(''order'', PList [])])\<rparr>)))"

definition delete_playlist :: "content_store \<Rightarrow> string \<Rightarrow> bool \<times> content_store" where
  "delete_playlist st name =
     (if \<not> is_valid_name name \<or> name = ''main'' then (False, st)
      else case dget st name of
          None \<Rightarrow> (False, st)
        | Some qd \<Rightarrow> if is_queue qd then (True, ddel st name) else (False, st))"

definition rename_playlist :: "content_store \<Rightarrow> string \<Rightarrow> string \<Rightarrow> py_error + (string \<times> content_store)" where
  "rename_playlist st old new =
     (if \<not> is_valid_name old \<or> old = ''main'' then Inl (ValueError ''cannot rename this queue'')
      else case dget st old of
          None \<Rightarrow> Inl (FileNotFoundError old)
        | Some qd \<Rightarrow>
            if \<not> is_queue qd then Inl (FileNotFoundError old)
            else
              let slug = slugify_name new in
              if slug = [] \<or> \<not> is_valid_name slug then Inl bad_queue_name
              else if slug = old then Inr (slug, st)
              else if dhas st slug then Inl (FileExistsError slug)
              else Inr (slug, dset (ddel st old) slug qd))"

text \<open>The directory is created when it is missing.\<close>

definition edit_config :: "content_store \<Rightarrow> string \<Rightarrow> (config_file \<Rightarrow> config_file) \<Rightarrow> content_store" where
  "edit_config st rel f =
     (case dget st rel of
        None \<Rightarrow> dset st rel \<lparr>qd_config = f NoFile, qd_briefs = []\<rparr>
      | Some qd \<Rightarrow> dset st rel (qd\<lparr>qd_config := f (qd_config qd)\<rparr>))"

definition set_playlist_repo :: "content_store \<Rightarrow> string \<Rightarrow> string option \<Rightarrow> content_store" where
  "set_playlist_repo st name repo =
     edit_config st (tasks_rel (Some name)) (\<lambda>f. save_queue_config_value f ''repo'' (map_option PStr repo))"

definition set_playlist_disabled :: "content_store \<Rightarrow> string \<Rightarrow> bool \<Rightarrow> content_store" where
  "set_playlist_disabled st name disabled =
     edit_config st (tasks_rel (Some name))
       (\<lambda>f. save_queue_config_value f ''disabled'' (if disabled then Some (PBool True) else None))"

text \<open>Created names, configured names and the store, over the discovered repositories.\<close>

fun rescan_into_playlists ::
  "string list \<Rightarrow> content_store \<Rightarrow> string list \<Rightarrow> py_error + (string list \<times> string list \<times> content_store)" where
  "rescan_into_playlists skip st [] = Inr ([], [], st)"
| "rescan_into_playlists skip st (name # names) =
     (let slug = slugify_name name in
      if slug = [] \<or> \<not> is_valid_name slug \<or> slug \<in> set skip then rescan_into_playlists skip st names
      else if (case dget st slug of None \<Rightarrow> False | Some qd \<Rightarrow> is_queue qd)
        then bind_result (rescan_into_playlists skip (set_playlist_repo st slug (Some name)) names)
               (\<lambda>(created, configured, st'). Inr (created, slug # configured, st'))
      else bind_result (create_playlist st slug) (\<lambda>st'.
             bind_result (rescan_into_playlists skip (set_playlist_repo st' slug (Some name)) names)
               (\<lambda>(created, configured, st''). Inr (slug # created, configured, st''))))"

section \<open>The target repository of a task\<close>

definition is_valid_repo_ref :: "string \<Rightarrow> bool" where
  "is_valid_repo_ref ref \<longleftrightarrow> ref \<noteq> [] \<and> is_valid_name ref"

text \<open>\<open>(v or "").strip()\<close> on a frontmatter scalar and on a settings value.\<close>

fun strip_scalar :: "scalar option \<Rightarrow> py_error + string" where
  "strip_scalar (Some (SStr s)) = Inr (py_strip s)"
| "strip_scalar (Some v) = (if scalar_truthy v then Inl AttributeError else Inr [])"
| "strip_scalar None = Inr []"

fun strip_value :: "pyval option \<Rightarrow> py_error + string" where
  "strip_value (Some (PStr s)) = Inr (py_strip s)"
| "strip_value (Some v) = (if truthy v then Inl AttributeError else Inr [])"
| "strip_value None = Inr []"

definition no_repo_set :: string where
  "no_repo_set =
     ''no target repo set: the queue'' @ [CHR 0x27] @ ''s config.json must set a default `repo` (or the task frontmatter must override it)''"

definition invalid_repo :: "string \<Rightarrow> string" where
  "invalid_repo ref =
     ''invalid repo reference '' @ str_repr ref @
     '': a repo must be a bare workspace child name matching [a-z0-9][a-z0-9-]* (no paths, '' @
     [CHR 0x27] @ ''..'' @ [CHR 0x27] @ '', '' @ [CHR 0x27] @ ''/'' @ [CHR 0x27] @ '', or absolute paths)''"

definition resolve_repo :: "scalar option \<Rightarrow> pyval option \<Rightarrow> py_error + string" where
  "resolve_repo task_repo queue_repo =
     bind_result (strip_scalar task_repo) (\<lambda>t.
     bind_result (if t \<noteq> [] then Inr t else strip_value queue_repo) (\<lambda>ref.
       if ref = [] then Inl (RepoConfigError no_repo_set)
       else if \<not> is_valid_repo_ref ref then Inl (RepoConfigError (invalid_repo ref))
       else Inr ref))"

end
