(* ===== verification/Scheduler.thy ===== *)
theory Scheduler
  imports Queues Workflows
begin

text \<open>
  The next-task arbitration of \<^verbatim>\<open>src/nightshift/manager/scheduler.py\<close>: a brief
  becomes a candidate, a polling worker's filter accepts or refuses it, the first eligible
  candidate of a queue is its head, and the heads are arbitrated by priority, times served and
  label. The workflow resolver is an interface, interpreted with the closure of the loaded
  definitions.
\<close>

section \<open>Labels and sets\<close>

definition AGNOSTIC_MODELS :: "string list" where
  "AGNOSTIC_MODELS = [''auto'', ''max'', [], ''default'']"

definition is_agnostic_model :: "string \<Rightarrow> bool" where
  "is_agnostic_model model \<longleftrightarrow> py_lower (py_strip model) \<in> set AGNOSTIC_MODELS"

definition queue_label :: "string option \<Rightarrow> string" where
  "queue_label queue = opt_or queue ''main''"

definition norm_set :: "string list option \<Rightarrow> string set" where
  "norm_set values = (case values of
      None \<Rightarrow> {}
    | Some vs \<Rightarrow> set (map (\<lambda>v. py_lower (py_strip v)) (filter (\<lambda>v. py_strip v \<noteq> []) vs)))"

definition NO_CAPABLE_WORKER_PREFIX :: string where
  "NO_CAPABLE_WORKER_PREFIX = ''no live worker provides ''"

definition DEDICATED_OFFLINE_PREFIX :: string where
  "DEDICATED_OFFLINE_PREFIX = ''queue '' @ [CHR 0x27]"

definition UNROUTABLE_REASON_PREFIXES :: "string list" where
  "UNROUTABLE_REASON_PREFIXES = [NO_CAPABLE_WORKER_PREFIX, DEDICATED_OFFLINE_PREFIX]"

definition no_capable_worker_reason :: "string \<Rightarrow> string \<Rightarrow> string" where
  "no_capable_worker_reason kind name = NO_CAPABLE_WORKER_PREFIX @ kind @ '' '' @ quoted name"

definition dedicated_offline_reason :: "string \<Rightarrow> string list \<Rightarrow> string" where
  "dedicated_offline_reason label owners =
     DEDICATED_OFFLINE_PREFIX @ label @ [CHR 0x27] @ '' is dedicated to offline worker(s) '' @
     py_join '', '' owners"

section \<open>Candidates and filters\<close>

record task_candidate =
  tc_queue :: "string option"
  tc_task :: string
  tc_priority :: int
  tc_model :: string
  tc_required_mcps :: "string list"
  tc_after :: "string list"
  tc_repo :: "string option"
  tc_repo_error :: "string option"
  tc_workflow :: "string option"
  tc_workflow_step :: "string option"
  tc_workflow_error :: "string option"

definition cand_label :: "task_candidate \<Rightarrow> string" where
  "cand_label c = queue_label (tc_queue c)"

type_synonym task_key = "string option \<times> string"

definition cand_key :: "task_candidate \<Rightarrow> task_key" where
  "cand_key c = (tc_queue c, tc_task c)"

record worker_filter =
  fl_worker_id :: string
  fl_queues :: "string list option"
  fl_priorities :: "int list option"
  fl_models :: "string list option"
  fl_mcps :: "string list option"

definition model_ok :: "worker_filter \<Rightarrow> task_candidate \<Rightarrow> bool" where
  "model_ok w c \<longleftrightarrow>
     is_agnostic_model (tc_model c) \<or> py_lower (py_strip (tc_model c)) \<in> norm_set (fl_models w)"

definition mcps_ok :: "worker_filter \<Rightarrow> task_candidate \<Rightarrow> bool" where
  "mcps_ok w c \<longleftrightarrow>
     tc_required_mcps c = [] \<or> norm_set (Some (tc_required_mcps c)) \<subseteq> norm_set (fl_mcps w)"

text \<open>The owners of a dedicated queue; an empty list dedicates nothing.\<close>

type_synonym dedication = "(string \<times> string list) list"

definition owners_of :: "dedication \<Rightarrow> string \<Rightarrow> string list" where
  "owners_of ded label = dget_or ded label []"

definition accepts :: "worker_filter \<Rightarrow> task_candidate \<Rightarrow> dedication \<Rightarrow> bool" where
  "accepts w c ded \<longleftrightarrow>
     (case fl_queues w of None \<Rightarrow> True | Some qs \<Rightarrow> cand_label c \<in> set qs) \<and>
     (owners_of ded (cand_label c) = [] \<or> fl_worker_id w \<in> set (owners_of ded (cand_label c))) \<and>
     (case fl_priorities w of None \<Rightarrow> True | Some ps \<Rightarrow> tc_priority c \<in> set ps) \<and>
     model_ok w c \<and> mcps_ok w c"

text \<open>How often each queue has been served.\<close>

type_synonym served = "(string \<times> int) list"

definition record_served :: "served \<Rightarrow> string option \<Rightarrow> served" where
  "record_served st queue = dset st (queue_label queue) (dget_or st (queue_label queue) 0 + 1)"

section \<open>From frontmatter to candidate\<close>

definition after_deps :: "meta \<Rightarrow> string list" where
  "after_deps m =
     (case dget m ''after'' of
        None \<Rightarrow> []
      | Some raw \<Rightarrow>
          if scalar_truthy raw
          then filter (\<lambda>s. s \<noteq> []) (map (\<lambda>p. py_removesuffix (py_strip p) ''.md'') (py_split (CHR '','') (scalar_str raw)))
          else [])"

definition normalize_model :: "meta \<Rightarrow> string \<Rightarrow> string" where
  "normalize_model m default_model =
     (case dget m ''model'' of
        None \<Rightarrow> default_model
      | Some SNone \<Rightarrow> default_model
      | Some v \<Rightarrow> if py_strip (scalar_str v) = [] then default_model else py_strip (scalar_str v))"

definition is_bracket :: "char \<Rightarrow> bool" where
  "is_bracket c \<longleftrightarrow> c = CHR ''['' \<or> c = CHR '']''"

definition is_quote :: "char \<Rightarrow> bool" where
  "is_quote c \<longleftrightarrow> c = CHR 0x27 \<or> c = CHR 0x22"

definition parse_required_mcps :: "meta \<Rightarrow> string list" where
  "parse_required_mcps m =
     (case dget m ''mcp'' of
        None \<Rightarrow> []
      | Some SNone \<Rightarrow> []
      | Some raw \<Rightarrow>
          filter (\<lambda>s. s \<noteq> [])
            (map (\<lambda>part. py_strip (py_strip_of is_quote (py_strip part)))
              (py_split (CHR '','') (py_strip_of is_bracket (py_strip (scalar_str raw))))))"

text \<open>A resolver answers with an authoring error or with workflow, step and model.\<close>

type_synonym resolver = "meta \<Rightarrow> pydict \<Rightarrow> py_error + (string + (string \<times> string \<times> string))"

text \<open>
  The manager's resolver over a queue's decoded settings. The role map is read only once the
  step is known; a value that is no mapping raises there.
\<close>

fun scalar_of :: "(rat \<Rightarrow> string) \<Rightarrow> pyval \<Rightarrow> scalar" where
  "scalar_of ftext PNone = SNone"
| "scalar_of ftext (PBool b) = SBool b"
| "scalar_of ftext (PInt i) = SInt i"
| "scalar_of ftext v = SStr (py_str ftext v)"

definition queue_workflow_models :: "(rat \<Rightarrow> string) \<Rightarrow> pydict \<Rightarrow> py_error + meta" where
  "queue_workflow_models ftext config =
     (case dget config ''workflow_models'' of
        None \<Rightarrow> Inr []
      | Some (PDict d) \<Rightarrow> Inr (map (\<lambda>(k, v). (k, scalar_of ftext v)) d)
      | Some v \<Rightarrow> if truthy v then Inl AttributeError else Inr [])"

definition current_step :: "(string \<times> workflow_def) list \<Rightarrow> meta \<Rightarrow> workflow_step option" where
  "current_step defs m =
     (case dget defs (meta_text m ''workflow'') of
        None \<Rightarrow> None
      | Some w \<Rightarrow> find_step w (str_or (meta_text m ''workflow_step'')
          (case wf_steps w of [] \<Rightarrow> [] | s # _ \<Rightarrow> ws_id s)))"

definition manager_resolver ::
  "(rat \<Rightarrow> string) \<Rightarrow> (string \<times> workflow_def) list \<Rightarrow> string \<Rightarrow> string \<Rightarrow> resolver" where
  "manager_resolver ftext defs planner_model default_model m config =
     (case queue_workflow_models ftext config of
        Inr models \<Rightarrow> Inr (make_resolver defs planner_model default_model m models)
      | Inl e \<Rightarrow>
          if current_step defs m = None then Inr (make_resolver defs planner_model default_model m [])
          else Inl e)"

text \<open>Only the configuration error is caught.\<close>

definition candidate_repo :: "meta \<Rightarrow> pydict \<Rightarrow> py_error + (string option \<times> string option)" where
  "candidate_repo m config =
     (case resolve_repo (dget m ''repo'') (dget config ''repo'') of
        Inr r \<Rightarrow> Inr (Some r, None)
      | Inl (RepoConfigError e) \<Rightarrow> Inr (None, Some e)
      | Inl e \<Rightarrow> Inl e)"

definition build_candidate ::
  "string option \<Rightarrow> pydict \<Rightarrow> string \<Rightarrow> resolver option \<Rightarrow> string \<Rightarrow> meta \<Rightarrow> py_error + task_candidate" where
  "build_candidate queue config default_model resolver_opt stem m =
     bind_result (candidate_repo m config) (\<lambda>(repo, repo_error).
     bind_result
       (case resolver_opt of
          None \<Rightarrow> Inr (None, None, None, normalize_model m default_model)
        | Some resolve \<Rightarrow>
            if meta_text m ''workflow'' = [] then Inr (None, None, None, normalize_model m default_model)
            else bind_result (resolve m config) (\<lambda>answer. Inr (case answer of
                Inl err \<Rightarrow> (None, None, Some err, normalize_model m default_model)
              | Inr (name, step, model) \<Rightarrow> (Some name, Some step, None, model))))
       (\<lambda>(workflow, step, workflow_error, model).
         Inr \<lparr>tc_queue = queue, tc_task = stem, tc_priority = task_priority m, tc_model = model,
              tc_required_mcps = parse_required_mcps m, tc_after = after_deps m,
              tc_repo = repo, tc_repo_error = repo_error, tc_workflow = workflow,
              tc_workflow_step = step, tc_workflow_error = workflow_error\<rparr>))"

definition build_candidates ::
  "(rat \<Rightarrow> string) \<Rightarrow> queue_dir \<Rightarrow> string option \<Rightarrow> string \<Rightarrow> resolver option \<Rightarrow>
   py_error + task_candidate list" where
  "build_candidates ftext qd queue default_model resolver_opt =
     bind_result (live_ordered_queue ftext qd) (\<lambda>stems.
       map_result (\<lambda>stem. bind_result (read_brief qd stem) (\<lambda>m.
         build_candidate queue (load_queue_config (qd_config qd)) default_model resolver_opt stem m)) stems)"

section \<open>Heads and arbitration\<close>

definition eligible ::
  "worker_filter \<Rightarrow> task_key set \<Rightarrow> task_key set \<Rightarrow> string set \<Rightarrow> dedication \<Rightarrow> task_candidate \<Rightarrow> bool" where
  "eligible w leased blocked present ded c \<longleftrightarrow>
     cand_key c \<notin> leased \<and> cand_key c \<notin> blocked \<and>
     \<not> (tc_after c \<noteq> [] \<and> (\<exists>dep \<in> set (tc_after c). dep \<in> present)) \<and> accepts w c ded"

definition queue_head ::
  "task_candidate list \<Rightarrow> worker_filter \<Rightarrow> task_key set \<Rightarrow> task_key set \<Rightarrow> string set \<Rightarrow> dedication \<Rightarrow>
   task_candidate option" where
  "queue_head cands w leased blocked present ded = find (eligible w leased blocked present ded) cands"

text \<open>\<open>min(xs, key=f)\<close>: the first of the least elements.\<close>

fun min_by :: "('a \<Rightarrow> 'k::linorder) \<Rightarrow> 'a list \<Rightarrow> 'a option" where
  "min_by f [] = None"
| "min_by f (x # xs) = Some (foldl (\<lambda>best y. if f y < f best then y else best) x xs)"

definition arbitration_key :: "served \<Rightarrow> task_candidate \<Rightarrow> int \<times> int \<times> string" where
  "arbitration_key st c = (tc_priority c, dget_or st (cand_label c) 0, cand_label c)"

definition arbitrate :: "task_candidate list \<Rightarrow> served \<Rightarrow> task_candidate option" where
  "arbitrate heads st = min_by (arbitration_key st) heads"

type_synonym candidate_map = "(string option \<times> task_candidate list) list"

definition present_tasks :: "candidate_map \<Rightarrow> string set" where
  "present_tasks by_queue = set (map tc_task (concat (map snd by_queue)))"

definition queue_heads ::
  "candidate_map \<Rightarrow> worker_filter \<Rightarrow> task_key set \<Rightarrow> task_key set \<Rightarrow> dedication \<Rightarrow> task_candidate list" where
  "queue_heads by_queue w leased blocked ded =
     List.map_filter (\<lambda>(_, cands). queue_head cands w leased blocked (present_tasks by_queue) ded) by_queue"

definition pick_next ::
  "candidate_map \<Rightarrow> worker_filter \<Rightarrow> task_key set \<Rightarrow> task_key set \<Rightarrow> served \<Rightarrow> dedication \<Rightarrow>
   task_candidate option \<times> served" where
  "pick_next by_queue w leased blocked st ded =
     (case arbitrate (queue_heads by_queue w leased blocked ded) st of
        None \<Rightarrow> (None, st)
      | Some c \<Rightarrow> (Some c, record_served st (tc_queue c)))"

section \<open>Unroutable candidates\<close>

definition unroutable_reason ::
  "string set \<Rightarrow> string set \<Rightarrow> dedication \<Rightarrow> string set \<Rightarrow> task_candidate \<Rightarrow> string option" where
  "unroutable_reason avail_models avail_mcps ded online c =
     (if \<not> is_agnostic_model (tc_model c) \<and> py_lower (py_strip (tc_model c)) \<notin> avail_models
      then Some (no_capable_worker_reason ''model'' (tc_model c))
      else case filter (\<lambda>m. py_lower (py_strip m) \<notin> avail_mcps) (tc_required_mcps c) of
          m # _ \<Rightarrow> Some (no_capable_worker_reason ''connector'' m)
        | [] \<Rightarrow>
            (let owners = owners_of ded (cand_label c) in
             if owners \<noteq> [] \<and> \<not> (\<exists>o' \<in> set owners. o' \<in> online)
             then Some (dedicated_offline_reason (cand_label c) owners) else None))"

definition unroutable ::
  "candidate_map \<Rightarrow> string list \<Rightarrow> string list \<Rightarrow> dedication \<Rightarrow> string list \<Rightarrow> (task_candidate \<times> string) list" where
  "unroutable by_queue available_models available_mcps ded online =
     List.map_filter
       (\<lambda>c. map_option (\<lambda>r. (c, r))
          (unroutable_reason (set (map (\<lambda>m. py_lower (py_strip m)) available_models))
             (set (map (\<lambda>m. py_lower (py_strip m)) available_mcps)) ded (set online) c))
       (concat (map snd by_queue))"

end
