(* ===== verification/Queue_Facts.thy ===== *)
theory Queue_Facts
  imports Queues
begin

text \<open>
  What the queue operations promise: execution orders are sorted permutations, the scan finds
  exactly the runnable briefs, a drag is what runs afterwards, and names and repository
  references stay inside the slug alphabet.
\<close>

section \<open>Ranks\<close>

lemma map_of_rev_zip_Some:
  "map_of (rev (zip xs [k..<k + length xs])) s = Some i \<Longrightarrow> k \<le> i \<and> i < k + length xs \<and> xs ! (i - k) = s"
proof -
  assume "map_of (rev (zip xs [k..<k + length xs])) s = Some i"
  then have "(s, i) \<in> set (zip xs [k..<k + length xs])" using map_of_SomeD by fastforce
  then show ?thesis by (auto simp: set_zip)
qed

lemma rank_of_Some: "rank_of order s = Some i \<Longrightarrow> i < length order \<and> order ! i = s"
  using map_of_rev_zip_Some [of order 0 s i] by (simp add: rank_of_def)

lemma rank_of_None: "rank_of order s = None \<longleftrightarrow> s \<notin> set order"
proof -
  have "fst ` set (zip order [0..<length order]) = set order" by (simp flip: list.set_map)
  then show ?thesis by (simp add: rank_of_def map_of_eq_None_iff)
qed

lemma rank_of_distinct: "distinct order \<Longrightarrow> i < length order \<Longrightarrow> rank_of order (order ! i) = Some i"
proof -
  assume d: "distinct order" and i: "i < length order"
  then obtain j where j: "rank_of order (order ! i) = Some j"
    using rank_of_None [of order "order ! i"] by (cases "rank_of order (order ! i)") auto
  then show ?thesis using rank_of_Some [OF j] d i by (metis nth_eq_iff_index_eq)
qed

text \<open>The order of the settings file: listed names by place, then the others by name.\<close>

definition manual_before :: "string list \<Rightarrow> string \<Rightarrow> string \<Rightarrow> bool" where
  "manual_before order s t =
     (case (rank_of order s, rank_of order t) of
        (Some i, Some j) \<Rightarrow> i \<le> j
      | (Some _, None) \<Rightarrow> True
      | (None, Some _) \<Rightarrow> False
      | (None, None) \<Rightarrow> s \<le> t)"

lemma manual_before_refl [simp]: "manual_before order s s"
  by (auto simp: manual_before_def split: option.splits)

lemma sorted_wrt_sort_key: "sorted_wrt (\<lambda>x y. f x \<le> f y) (sort_key f xs)"
  using sorted_sort_key [of f xs] by (simp add: sorted_map)

lemma mset_manual_order [simp]: "mset (manual_order order stems) = mset stems"
proof -
  have "mset (filter (\<lambda>s. rank_of order s \<noteq> None) stems) + mset (filter (\<lambda>s. rank_of order s = None) stems)
      = mset stems"
    by (induction stems) auto
  then show ?thesis by (simp add: manual_order_def)
qed

lemma set_manual_order [simp]: "set (manual_order order stems) = set stems"
  by (rule mset_eq_setD) simp

lemma sorted_manual_order: "sorted_wrt (manual_before order) (manual_order order stems)"
proof -
  let ?listed = "sort_key (\<lambda>s. the (rank_of order s)) (filter (\<lambda>s. rank_of order s \<noteq> None) stems)"
  let ?unlisted = "sort (filter (\<lambda>s. rank_of order s = None) stems)"
  have "sorted_wrt (manual_before order) ?listed"
    by (rule sorted_wrt_mono_rel [OF _ sorted_wrt_sort_key]) (auto simp: manual_before_def)
  moreover have "sorted_wrt (manual_before order) ?unlisted"
    by (rule sorted_wrt_mono_rel [OF _ sorted_sort]) (auto simp: manual_before_def)
  ultimately show ?thesis
    by (auto simp: manual_order_def sorted_wrt_append manual_before_def)
qed

lemma mset_priority_order [simp]: "mset (priority_order p manual) = mset manual"
  by (simp add: priority_order_def)

lemma sorted_priority_order:
  assumes "sorted_wrt R manual" "\<And>s. R s s"
  shows "sorted_wrt (\<lambda>s t. dget_or p s DEFAULT_PRIORITY < dget_or p t DEFAULT_PRIORITY \<or>
      dget_or p s DEFAULT_PRIORITY = dget_or p t DEFAULT_PRIORITY \<and> R s t) (priority_order p manual)"
  unfolding priority_order_def
proof (rule sorted_wrt_mono_rel [OF _ sorted_wrt_sort_key], goal_cases)
  case (1 s t)
  then obtain i j where ij: "rank_of manual s = Some i" "rank_of manual t = Some j"
    using rank_of_None [of manual] by (metis not_None_eq set_sort)
  have "R s t" if "i \<le> j"
    using that rank_of_Some [OF ij(1)] rank_of_Some [OF ij(2)] assms sorted_wrt_nth_less [OF assms(1)]
    by (cases "i = j") auto
  then show ?case using 1(3) ij by (auto simp: less_eq_prod_def)
qed

lemma order_stems_perm:
  "order_stems ftext qd stems (Some priorities) sort_mode = Inr out \<Longrightarrow> mset out = mset stems"
  by (auto simp: order_stems_def Let_def split: if_splits)

text \<open>The execution order is a permutation of the stems, sorted by the settings file, and in
  priority mode by ascending priority with the settings file as the tie break.\<close>

theorem order_stems_sorted:
  assumes "order_stems ftext qd stems (Some priorities) sort_mode = Inr out"
  shows "mset out = mset stems \<and>
    sorted_wrt (\<lambda>s t.
      (if (case sort_mode of None \<Rightarrow> load_sort_mode (qd_config qd) | Some m \<Rightarrow> m) = ''priority''
       then dget_or priorities s DEFAULT_PRIORITY < dget_or priorities t DEFAULT_PRIORITY \<or>
         dget_or priorities s DEFAULT_PRIORITY = dget_or priorities t DEFAULT_PRIORITY \<and>
         manual_before (load_order ftext (qd_config qd)) s t
       else manual_before (load_order ftext (qd_config qd)) s t)) out"
  using assms sorted_manual_order
    sorted_priority_order [OF sorted_manual_order manual_before_refl, where p = priorities]
  by (auto simp: order_stems_def Let_def split: if_splits)

section \<open>The scan finds the runnable briefs\<close>

text \<open>A brief that may run, given its frontmatter.\<close>

definition runnable :: "meta \<Rightarrow> bool" where
  "runnable m \<longleftrightarrow> \<not> meta_flag m ''autosplit'' \<and> \<not> is_disabled m \<and> \<not> is_quarantined m \<and> \<not> is_completed m"

lemma autosplit_stems_set:
  "autosplit_stems bs = Inr out \<Longrightarrow>
   set out = {stem. \<exists>doc m. (stem, doc) \<in> set bs \<and> brief_meta doc = Inr m \<and> meta_flag m ''autosplit''}
   \<and> (\<forall>b \<in> set bs. \<exists>m. brief_meta (snd b) = Inr m)"
proof (induction bs arbitrary: out)
  case (Cons b bs)
  obtain stem doc where b: "b = (stem, doc)" by (cases b) auto
  obtain m rest where m: "brief_meta doc = Inr m" "autosplit_stems bs = Inr rest"
    "out = (if meta_flag m ''autosplit'' then stem # rest else rest)"
    using Cons.prems b by (auto simp: bind_result_eq_Inr_iff)
  from Cons.IH [OF m(2)] m b show ?case by (auto split: if_splits)
qed simp

lemma autosplit_stems_error:
  "(\<exists>e. autosplit_stems bs = Inl e) \<longleftrightarrow> (\<exists>b \<in> set bs. \<exists>e. brief_meta (snd b) = Inl e)"
proof (induction bs)
  case (Cons b bs)
  obtain stem doc where b: "b = (stem, doc)" by (cases b) auto
  show ?case
    using Cons b by (cases "brief_meta doc"; cases "autosplit_stems bs") auto
qed simp

lemma runnable_stems_total:
  "\<forall>b \<in> set bs. \<exists>m. brief_meta (snd b) = Inr m \<Longrightarrow> \<exists>found. runnable_stems autosplit bs = Inr found"
  by (induction autosplit bs rule: runnable_stems.induct) (fastforce split: if_splits)+

lemma runnable_stems_set:
  "runnable_stems autosplit bs = Inr found \<Longrightarrow>
   set found = {(stem, task_priority m) | stem doc m. (stem, doc) \<in> set bs \<and> stem \<notin> set autosplit \<and>
      brief_meta doc = Inr m \<and> \<not> is_disabled m \<and> \<not> is_quarantined m \<and> \<not> is_completed m}"
proof (induction autosplit bs arbitrary: found rule: runnable_stems.induct)
  case (2 autosplit stem doc bs)
  show ?case
  proof (cases "stem \<in> set autosplit")
    case True
    then show ?thesis using 2 by auto
  next
    case False
    then obtain m rest where m: "brief_meta doc = Inr m" "runnable_stems autosplit bs = Inr rest"
      "found = (if is_disabled m \<or> is_quarantined m \<or> is_completed m then rest
                else (stem, task_priority m) # rest)"
      using 2(3) by (auto simp: bind_result_eq_Inr_iff)
    from 2(2) [OF False m(2)] m False show ?thesis by (auto split: if_splits)
  qed
qed simp

lemma runnable_stems_distinct:
  "runnable_stems autosplit bs = Inr found \<Longrightarrow> distinct (map fst bs) \<Longrightarrow>
   distinct (map fst found) \<and> set (map fst found) \<subseteq> set (map fst bs)"
proof (induction autosplit bs arbitrary: found rule: runnable_stems.induct)
  case (2 autosplit stem doc bs)
  show ?case
  proof (cases "stem \<in> set autosplit")
    case True
    then show ?thesis using 2 by auto
  next
    case False
    then obtain m rest where m: "brief_meta doc = Inr m" "runnable_stems autosplit bs = Inr rest"
      "found = (if is_disabled m \<or> is_quarantined m \<or> is_completed m then rest
                else (stem, task_priority m) # rest)"
      using 2(3) by (auto simp: bind_result_eq_Inr_iff)
    from 2(2) [OF False m(2)] m 2(4) show ?thesis by auto
  qed
qed simp

text \<open>C32: the scan of a queue fails exactly when one of its briefs cannot be read, and otherwise
  lists each runnable brief that passes the play filter once, and nothing else.\<close>

theorem live_queue_exact:
  assumes "distinct (map fst (qd_briefs qd))"
  shows "case live_ordered_queue ftext qd of
      Inl e \<Rightarrow> \<exists>b \<in> set (qd_briefs qd). \<exists>e'. brief_meta (snd b) = Inl e'
    | Inr out \<Rightarrow> distinct out \<and> (\<forall>b \<in> set (qd_briefs qd). \<exists>m. brief_meta (snd b) = Inr m) \<and>
        set out = {stem. \<exists>doc m. (stem, doc) \<in> set (qd_briefs qd) \<and> brief_meta doc = Inr m \<and>
          runnable m \<and> (load_play_priorities (qd_config qd) = [] \<or>
            task_priority m \<in> set (load_play_priorities (qd_config qd)))}"
proof (cases "autosplit_stems (qd_briefs qd)")
  case (Inl e)
  then show ?thesis using autosplit_stems_error by (auto simp: live_ordered_queue_def)
next
  case (Inr autosplit)
  note auto = autosplit_stems_set [OF Inr]
  obtain found where found: "runnable_stems autosplit (qd_briefs qd) = Inr found"
    using runnable_stems_total auto by blast
  note set_found = runnable_stems_set [OF found]
  have d: "distinct (map fst found)" using runnable_stems_distinct [OF found assms] by blast
  have "\<exists>ordered. order_stems ftext qd (map fst found) (Some found) None = Inr ordered"
    by (simp add: order_stems_def Let_def)
  then obtain ordered where o: "order_stems ftext qd (map fst found) (Some found) None = Inr ordered" ..
  have m: "mset ordered = mset (map fst found)" by (rule order_stems_perm [OF o])
  have so: "set ordered = fst ` set found" "distinct ordered"
    using mset_eq_setD [OF m] mset_eq_imp_distinct_iff [OF m] d by simp_all
  let ?sel = "load_play_priorities (qd_config qd)"
  let ?out = "if ?sel = [] then ordered else filter (\<lambda>s. dget_or found s DEFAULT_PRIORITY \<in> set ?sel) ordered"
  have out: "live_ordered_queue ftext qd = Inr ?out"
    using Inr found o by (simp add: live_ordered_queue_def apply_play_filter_def)
  have prio: "dget_or found s DEFAULT_PRIORITY = p" if "(s, p) \<in> set found" for s p
    using that d by (simp add: dget_or_def)
  have unique: "doc = doc'" if "(s, doc) \<in> set (qd_briefs qd)" "(s, doc') \<in> set (qd_briefs qd)" for s doc doc'
    using that assms eq_key_imp_eq_value by metis
  have flagged: "s \<in> set autosplit \<longleftrightarrow> meta_flag m ''autosplit''"
    if s: "(s, doc) \<in> set (qd_briefs qd)" "brief_meta doc = Inr m" for s doc m
  proof
    assume "s \<in> set autosplit"
    then obtain doc' m' where "(s, doc') \<in> set (qd_briefs qd)" "brief_meta doc' = Inr m'"
      "meta_flag m' ''autosplit''"
      using auto by blast
    then show "meta_flag m ''autosplit''" using unique [OF s(1)] s(2) by fastforce
  qed (use auto s in blast)
  have runs: "(s, p) \<in> set found \<longleftrightarrow> (\<exists>doc m. (s, doc) \<in> set (qd_briefs qd) \<and> brief_meta doc = Inr m \<and>
      runnable m \<and> p = task_priority m)" for s p
    unfolding set_found runnable_def using flagged by blast
  have "set ?out = {s. \<exists>p. (s, p) \<in> set found \<and> (?sel = [] \<or> p \<in> set ?sel)}"
    using so(1) prio by (force simp: image_iff)
  also have "\<dots> = {stem. \<exists>doc m. (stem, doc) \<in> set (qd_briefs qd) \<and> brief_meta doc = Inr m \<and>
      runnable m \<and> (?sel = [] \<or> task_priority m \<in> set ?sel)}"
    unfolding runs by blast
  finally have members: "set ?out = \<dots>" .
  have "distinct ?out" using so(2) by simp
  with members auto show ?thesis unfolding out sum.case by blast
qed

section \<open>A drag is what runs\<close>

lemma load_order_save [simp]: "load_order ftext (save_order f names) = names"
  by (simp add: load_order_def save_order_def load_queue_config_def o_def)

lemma load_config_save_order:
  "dget (load_queue_config (save_order f names)) k =
     (if k = ''order'' then Some (PList (map PStr names)) else dget (load_queue_config f) k)"
  by (simp add: save_order_def load_queue_config_def)

lemma cleaned_order_perm:
  assumes "distinct existing"
  shows "mset (cleaned_order existing order) = mset existing"
proof -
  let ?kept = "rev (remdups (rev (filter (\<lambda>n. n \<in> set existing) order)))"
  have "distinct (cleaned_order existing order)"
    by (auto simp: cleaned_order_def Let_def)
  moreover have "set (cleaned_order existing order) = set existing"
    by (auto simp: cleaned_order_def Let_def)
  ultimately show ?thesis using assms by (metis set_eq_iff_mset_eq_distinct)
qed

text \<open>The place of the first occurrence of a name, the length of the list when it does not occur.\<close>

definition first_place :: "'a list \<Rightarrow> 'a \<Rightarrow> nat" where
  "first_place xs x = length (takeWhile (\<lambda>y. y \<noteq> x) xs)"

lemma first_place_append:
  "first_place (xs @ ys) x = (if x \<in> set xs then first_place xs x else length xs + first_place ys x)"
  by (auto simp: first_place_def takeWhile_append takeWhile_eq_all_conv)

lemma first_place_less: "x \<in> set xs \<Longrightarrow> first_place xs x < length xs"
  by (induction xs) (auto simp: first_place_def)

lemma first_occurrences_sorted:
  "sorted_wrt (\<lambda>a b. first_place xs a < first_place xs b) (rev (remdups (rev (filter P xs))))"
proof (induction xs rule: rev_induct)
  case (snoc x xs)
  let ?kept = "rev (remdups (rev (filter P xs)))"
  have old: "sorted_wrt (\<lambda>a b. first_place (xs @ [x]) a < first_place (xs @ [x]) b) ?kept"
    by (rule sorted_wrt_mono_rel [OF _ snoc.IH]) (auto simp: first_place_append)
  have "sorted_wrt (\<lambda>a b. first_place (xs @ [x]) a < first_place (xs @ [x]) b) (?kept @ [x])"
    if "x \<notin> set xs"
    using old that
    by (auto simp: sorted_wrt_append first_place_append intro: trans_less_add1 first_place_less)
  with old show ?case by auto
qed simp

lemma manual_order_self:
  assumes "distinct order" "mset order = mset stems"
  shows "manual_order order stems = order"
proof -
  have sets: "set order = set stems" using mset_eq_setD [OF assms(2)] .
  have "sort_key (\<lambda>s. the (rank_of order s)) stems = order"
  proof (rule sort_key_inj_key_eq)
    show "mset stems = mset order" by (simp add: assms(2))
    show "inj_on (\<lambda>s. the (rank_of order s)) (set stems)"
    proof (rule inj_onI)
      fix s t assume s: "s \<in> set stems" and t: "t \<in> set stems"
        and eq: "the (rank_of order s) = the (rank_of order t)"
      obtain i j where "rank_of order s = Some i" "rank_of order t = Some j"
        using s t sets rank_of_None by (metis not_None_eq)
      with eq rank_of_Some [of order s i] rank_of_Some [of order t j] show "s = t" by simp
    qed
    show "sorted (map (\<lambda>s. the (rank_of order s)) order)"
      by (simp add: sorted_iff_nth_mono rank_of_distinct [OF assms(1)])
  qed
  moreover have "filter (\<lambda>s. rank_of order s \<noteq> None) stems = stems"
    by (rule filter_True) (simp add: rank_of_None sets)
  moreover have "filter (\<lambda>s. rank_of order s = None) stems = []"
    by (rule filter_False) (simp add: rank_of_None sets)
  ultimately show ?thesis by (simp add: manual_order_def)
qed

text \<open>C39: after a drag the queue runs, in manual mode, the dragged order, whatever list of names the
  request holds (names may repeat in it or be unknown): first the queue's tasks that the list names,
  each once and by the place of its first mention, then the tasks it does not name, by name. No task is
  lost, repeated or made up, and the other settings of the queue stay. (The files of a directory
  have distinct names.)\<close>

theorem reorder_is_execution_order:
  assumes "distinct (map fst (qd_briefs qd))"
    and "out = load_order ftext (qd_config (reorder_queue qd order))"
  shows "mset out = mset (map fst (qd_briefs qd)) \<and>
    order_stems ftext (reorder_queue qd order) (map fst (qd_briefs qd)) None (Some ''manual'') = Inr out \<and>
    (\<exists>named rest. out = named @ rest \<and> set named = set order \<inter> set (map fst (qd_briefs qd)) \<and>
       sorted_wrt (\<lambda>a b. first_place order a < first_place order b) named \<and> sorted rest) \<and>
    (\<forall>k. k \<noteq> ''order'' \<longrightarrow> dget (load_queue_config (qd_config (reorder_queue qd order))) k =
       dget (load_queue_config (qd_config qd)) k)"
proof -
  let ?stems = "map fst (qd_briefs qd)"
  let ?kept = "rev (remdups (rev (filter (\<lambda>n. n \<in> set ?stems) order)))"
  have out: "out = cleaned_order ?stems order" using assms(2) by (simp add: reorder_queue_def)
  have m: "mset out = mset ?stems" unfolding out by (rule cleaned_order_perm [OF assms(1)])
  have "distinct out" using mset_eq_imp_distinct_iff [OF m] assms(1) by simp
  then have "manual_order out ?stems = out" by (rule manual_order_self [OF _ m])
  then have "order_stems ftext (reorder_queue qd order) ?stems None (Some ''manual'') = Inr out"
    by (simp add: order_stems_def Let_def flip: assms(2))
  moreover have "\<exists>named rest. out = named @ rest \<and> set named = set order \<inter> set ?stems \<and>
      sorted_wrt (\<lambda>a b. first_place order a < first_place order b) named \<and> sorted rest"
  proof (intro exI conjI)
    show "out = ?kept @ sort (remdups (filter (\<lambda>n. n \<notin> set ?kept) ?stems))"
      unfolding out cleaned_order_def Let_def ..
    show "set ?kept = set order \<inter> set ?stems" by auto
    show "sorted_wrt (\<lambda>a b. first_place order a < first_place order b) ?kept"
      by (rule first_occurrences_sorted)
  qed (rule sorted_sort)
  moreover have "\<forall>k. k \<noteq> ''order'' \<longrightarrow> dget (load_queue_config (qd_config (reorder_queue qd order))) k =
      dget (load_queue_config (qd_config qd)) k"
    by (simp add: reorder_queue_def load_config_save_order)
  ultimately show ?thesis using m by blast
qed

section \<open>Names stay inside the slug alphabet\<close>

lemma dash_runs_chars: "\<forall>c \<in> set (dash_runs r s). slug_char c \<or> c = CHR ''-''"
  by (induction r s rule: dash_runs.induct) auto

lemma set_py_strip_of: "set (py_strip_of p s) \<subseteq> set s"
proof
  fix c assume "c \<in> set (py_strip_of p s)"
  then have "c \<in> set (dropWhile p (rev (dropWhile p s)))" by (simp add: py_strip_of_def)
  then have "c \<in> set (dropWhile p s)" using set_dropWhileD by fastforce
  then show "c \<in> set s" by (rule set_dropWhileD)
qed

lemma slug_char_not_dash: "\<not> slug_char (CHR ''-'')"
  by (simp add: slug_char_def)

lemma slug_char_facts: "slug_char c \<Longrightarrow> c \<noteq> newline \<and> lower_char c = c \<and> \<not> is_space c"
  by (auto simp: slug_char_def lower_char_def is_space_def Let_def)

lemma slugify_chars: "\<forall>c \<in> set (slugify_name s). slug_char c \<or> c = CHR ''-''"
  using dash_runs_chars set_py_strip_of unfolding slugify_name_def by blast

lemma slugify_ends:
  "slugify_name s \<noteq> [] \<Longrightarrow> slug_char (hd (slugify_name s)) \<and> slug_char (last (slugify_name s))"
  using py_strip_of_ends [of "\<lambda>c. c = CHR ''-''" "dash_runs False (py_lower (py_strip s))"]
    slugify_chars [of s] hd_in_set last_in_set
  by (metis slugify_name_def)

lemma valid_name_core:
  assumes "name = [] \<or> last name \<noteq> newline"
  shows "is_valid_name name \<longleftrightarrow> name \<noteq> [] \<and> slug_char (hd name) \<and>
    (\<forall>c \<in> set name. slug_char c \<or> c = CHR ''-'') \<and> name \<noteq> ''runs''"
  using assms by (auto simp: is_valid_name_def)

lemma slugify_valid: "slugify_name s \<noteq> [] \<Longrightarrow> slugify_name s \<noteq> ''runs'' \<Longrightarrow> is_valid_name (slugify_name s)"
  using slugify_ends [of s] slugify_chars [of s] slug_char_facts valid_name_core [of "slugify_name s"] by blast

text \<open>A directory or repository name that cannot leave its parent.\<close>

definition slug_name :: "string \<Rightarrow> bool" where
  "slug_name s \<longleftrightarrow> s \<noteq> [] \<and> slug_char (hd s) \<and> (\<forall>c \<in> set s. slug_char c \<or> c = CHR ''-'')"

lemma slugify_slug_name: "slugify_name s \<noteq> [] \<Longrightarrow> slug_name (slugify_name s)"
  using slugify_ends slugify_chars by (simp add: slug_name_def)

lemma stripped_valid_slug:
  assumes "py_strip s = s" "is_valid_name s"
  shows "slug_name s"
proof -
  have "s \<noteq> []" using assms(2) by (auto simp: is_valid_name_def)
  then have "\<not> is_space (last s)" using py_strip_of_ends [of is_space s] assms(1) by metis
  then have "last s \<noteq> newline" by (auto simp: is_space_def)
  then show ?thesis using valid_name_core [of s] assms(2) by (simp add: slug_name_def)
qed

lemma py_strip_of_Nil [simp]: "py_strip_of p [] = []"
  by (simp add: py_strip_of_def)

lemma strip_scalar_stripped: "strip_scalar v = Inr s \<Longrightarrow> py_strip s = s"
  by (induction v rule: strip_scalar.induct) (auto split: if_splits)

lemma strip_value_stripped: "strip_value v = Inr s \<Longrightarrow> py_strip s = s"
  by (induction v rule: strip_value.induct) (auto split: if_splits)

text \<open>A resolved repository is a bare child name: no slash, dot or white space, whatever the
  brief and the settings say; and the brief's own repository wins over the queue's.\<close>

theorem resolve_repo_bare_child:
  assumes "resolve_repo task_repo queue_repo = Inr r"
  shows "slug_name r \<and>
    strip_scalar task_repo = (if strip_scalar task_repo = Inr [] then Inr [] else Inr r) \<and>
    (strip_scalar task_repo = Inr [] \<longrightarrow> strip_value queue_repo = Inr r)"
proof -
  obtain t ref where t: "strip_scalar task_repo = Inr t"
    and ref: "(if t \<noteq> [] then Inr t else strip_value queue_repo) = (Inr ref :: py_error + string)"
    and r: "r = ref" "ref \<noteq> []" "is_valid_name ref"
    using assms by (auto simp: resolve_repo_def bind_result_eq_Inr_iff is_valid_repo_ref_def split: if_splits)
  have "py_strip ref = ref"
    using t ref strip_scalar_stripped strip_value_stripped by (auto split: if_splits)
  then show ?thesis using t ref r stripped_valid_slug by (auto split: if_splits)
qed

text \<open>A repository given in the brief as a number is no reference: reading the candidates
  raises, although the digits make a valid name.\<close>

theorem numeric_repo_raises:
  "resolve_repo (Some (SInt 2024)) queue_repo = Inl AttributeError \<and> is_valid_repo_ref ''2024''"
  by (simp add: resolve_repo_def is_valid_repo_ref_def is_valid_name_def slug_char_def)

section \<open>Queue directories\<close>

definition store_names_ok :: "content_store \<Rightarrow> bool" where
  "store_names_ok st \<longleftrightarrow> distinct (map fst st) \<and> (\<forall>n \<in> fst ` set st. slug_name n \<and> n \<noteq> ''runs'')"

lemma store_names_dset: "store_names_ok st \<Longrightarrow> slug_name n \<Longrightarrow> n \<noteq> ''runs'' \<Longrightarrow> store_names_ok (dset st n qd)"
  using set_dkeys_dset [of st n qd] by (auto simp: store_names_ok_def)

lemma store_names_ddel: "store_names_ok st \<Longrightarrow> store_names_ok (ddel st n)"
  by (auto simp: store_names_ok_def ddel_def distinct_map_filter)

lemma create_names: "create_playlist st name = Inr st' \<Longrightarrow> store_names_ok st \<Longrightarrow> store_names_ok st'"
  using store_names_dset slugify_slug_name
  by (fastforce simp: create_playlist_def Let_def is_valid_name_def split: if_splits option.splits)

lemma rename_names:
  "rename_playlist st old new = Inr (slug, st') \<Longrightarrow> store_names_ok st \<Longrightarrow>
   store_names_ok st' \<and> dget st' slug = dget st old \<and> (slug \<noteq> old \<longrightarrow> dget st' old = None)"
  using store_names_dset store_names_ddel slugify_slug_name
  by (fastforce simp: rename_playlist_def Let_def is_valid_name_def split: if_splits option.splits)

lemma edit_config_names:
  "store_names_ok st \<Longrightarrow> slug_name rel \<Longrightarrow> rel \<noteq> ''runs'' \<Longrightarrow> store_names_ok (edit_config st rel f)"
  using store_names_dset by (simp add: edit_config_def split: option.split)

lemma rescan_names:
  "rescan_into_playlists skip st names = Inr (created, configured, st') \<Longrightarrow> store_names_ok st \<Longrightarrow>
   store_names_ok st' \<and> (\<forall>n \<in> set created \<union> set configured. slug_name n \<and> n \<notin> set skip)"
proof (induction skip st names arbitrary: created configured st' rule: rescan_into_playlists.induct)
  case (2 skip st name names)
  let ?slug = "slugify_name name"
  let ?skip = "?slug = [] \<or> \<not> is_valid_name ?slug \<or> ?slug \<in> set skip"
  show ?case
  proof (cases ?skip)
    case True
    then have "rescan_into_playlists skip st names = Inr (created, configured, st')"
      using 2(4) by (simp add: Let_def)
    then show ?thesis by (rule 2(1) [OF refl True]) (rule 2(5))
  next
    case False
    then have slug: "slug_name ?slug" "?slug \<noteq> ''runs''" "?slug \<notin> set skip"
      using slugify_slug_name by (auto simp: is_valid_name_def)
    have rel: "tasks_rel (Some ?slug) = ?slug" using False by (simp add: tasks_rel_def)
    have bind: "store_names_ok (set_playlist_repo s ?slug r)" if "store_names_ok s" for s r
      unfolding set_playlist_repo_def rel by (rule edit_config_names [OF that slug(1,2)])
    show ?thesis
    proof (cases "case dget st ?slug of None \<Rightarrow> False | Some qd \<Rightarrow> is_queue qd")
      case True
      then obtain configured' where
        "rescan_into_playlists skip (set_playlist_repo st ?slug (Some name)) names = Inr (created, configured', st')"
        "configured = ?slug # configured'"
        using 2(4) False True by (auto simp: Let_def bind_result_eq_Inr_iff)
      then show ?thesis using 2(2) [OF refl False True] bind [OF 2(5)] slug by auto
    next
      case new: False
      obtain st1 created' where st1: "create_playlist st ?slug = Inr st1"
        "rescan_into_playlists skip (set_playlist_repo st1 ?slug (Some name)) names = Inr (created', configured, st')"
        "created = ?slug # created'"
        using 2(4) False new by (auto simp: Let_def bind_result_eq_Inr_iff)
      then show ?thesis using 2(3) [OF refl False new] bind [OF create_names [OF st1(1) 2(5)]] slug by auto
    qed
  qed
qed simp

text \<open>Creating, renaming, deleting and rescanning keep every queue directory a distinct child
  name of the store, and a rename moves the whole directory.\<close>

theorem queue_directories_stay_children:
  assumes "store_names_ok st"
  shows "(\<forall>st'. create_playlist st name = Inr st' \<longrightarrow> store_names_ok st') \<and>
    (\<forall>slug st'. rename_playlist st name new = Inr (slug, st') \<longrightarrow>
       store_names_ok st' \<and> dget st' slug = dget st name \<and> (slug \<noteq> name \<longrightarrow> dget st' name = None)) \<and>
    store_names_ok (snd (delete_playlist st name)) \<and>
    (\<forall>created configured st'. rescan_into_playlists skip st names = Inr (created, configured, st') \<longrightarrow>
       store_names_ok st')"
proof (intro conjI allI impI)
  show "store_names_ok (snd (delete_playlist st name))"
    using assms store_names_ddel by (simp add: delete_playlist_def split: option.split)
qed (use create_names [OF _ assms] rename_names [OF _ assms] rescan_names [OF _ assms] in metis)+

section \<open>Sample queue\<close>

definition fenced :: "string list \<Rightarrow> string" where
  "fenced ls = lines_text (''---'' # ls @ [''---''])"

definition sample_queue :: queue_dir where
  "sample_queue = \<lparr>qd_config = Json (PDict [(''order'', PList [PStr ''b'']), (''sort'', PStr ''priority''),
       (''repo'', PStr ''web'')]),
     qd_briefs = [(''a'', fenced [''priority: 3'']), (''b'', ''Do it.''), (''c'', fenced [''disabled: true''])]\<rparr>"

theorem order_stems_sorted_witness:
  "\<exists>out. order_stems (\<lambda>q. []) sample_queue [''a'', ''b''] (Some [(''a'', 3), (''b'', 5)]) None = Inr out \<and>
     mset out = mset [''a'', ''b'']"
proof -
  have "\<exists>out. order_stems (\<lambda>q. []) sample_queue [''a'', ''b''] (Some [(''a'', 3), (''b'', 5)]) None = Inr out"
    by (simp add: order_stems_def Let_def)
  then show ?thesis using order_stems_sorted [of "\<lambda>q. []" sample_queue] by blast
qed

lemma sample_queue_stems: "map fst (qd_briefs sample_queue) = [''a'', ''b'', ''c'']"
  by (simp add: sample_queue_def)

lemma sample_live: "live_ordered_queue (\<lambda>q. []) sample_queue = Inr [''a'', ''b'']"
  by code_simp

theorem live_queue_exact_witness:
  "\<exists>doc m. (''a'', doc) \<in> set (qd_briefs sample_queue) \<and> brief_meta doc = Inr m \<and> runnable m"
proof -
  have d: "distinct (map fst (qd_briefs sample_queue))"
    unfolding sample_queue_stems by simp
  have "''a'' \<in> set [''a'', ''b'']" by simp
  then show ?thesis
    using live_queue_exact [OF d, of "\<lambda>q. []"] unfolding sample_live sum.case by blast
qed

theorem reorder_is_execution_order_witness:
  "order_stems (\<lambda>q. []) (reorder_queue sample_queue [''c'', ''a'', ''c'', ''x'']) [''a'', ''b'', ''c''] None
     (Some ''manual'') = Inr [''c'', ''a'', ''b'']"
proof -
  have out: "[''c'', ''a'', ''b''] =
      load_order (\<lambda>q. []) (qd_config (reorder_queue sample_queue [''c'', ''a'', ''c'', ''x'']))"
    by code_simp
  show ?thesis
    using reorder_is_execution_order [OF _ out] by (simp add: sample_queue_stems)
qed

theorem resolve_repo_bare_child_witness:
  "slug_name ''web'' \<and> resolve_repo None (Some (PStr '' web'')) = Inr ''web''"
proof -
  have web: "resolve_repo None (Some (PStr '' web'')) = Inr ''web''" by code_simp
  with resolve_repo_bare_child [OF web] show ?thesis by blast
qed

theorem queue_directories_stay_children_witness:
  "\<exists>st'. create_playlist [(''main'', sample_queue)] ''Web App!'' = Inr st' \<and> store_names_ok st' \<and>
     map fst st' = [''main'', ''web-app'']"
proof -
  have ok: "store_names_ok [(''main'', sample_queue)]"
    by (simp add: store_names_ok_def slug_name_def slug_char_def)
  let ?st = "[(''main'', sample_queue),
      (''web-app'', \<lparr>qd_config = Json (PDict [(''order'', PList [])]), qd_briefs = []\<rparr>)]"
  have new: "create_playlist [(''main'', sample_queue)] ''Web App!'' = Inr ?st"
    by code_simp
  have "store_names_ok ?st"
    by (rule conjunct1 [OF queue_directories_stay_children [OF ok], rule_format, OF new])
  with new show ?thesis by simp
qed

end
