(* ===== verification/Scheduler_Facts.thy ===== *)
theory Scheduler_Facts
  imports Scheduler Queue_Facts
begin

text \<open>
  What the scheduler promises: the pick is eligible and least among the heads, nothing eligible is
  passed over when it answers nothing, equal queues are served in turn, and a task reported
  unroutable is refused by every worker inside the advertised capabilities.
\<close>

section \<open>Selection\<close>

lemma foldl_min_by:
  fixes f :: "'a \<Rightarrow> 'k::linorder"
  shows "foldl (\<lambda>best y. if f y < f best then y else best) x xs \<in> set (x # xs) \<and>
    (\<forall>y \<in> set (x # xs). f (foldl (\<lambda>best y. if f y < f best then y else best) x xs) \<le> f y)"
proof (induction xs arbitrary: x)
  case (Cons y ys)
  let ?z = "if f y < f x then y else x"
  from Cons [of ?z] show ?case by (auto split: if_splits intro: order_trans)
qed simp

lemma min_by_Some: "min_by f xs = Some x \<Longrightarrow> x \<in> set xs \<and> (\<forall>y \<in> set xs. f x \<le> f y)"
proof (cases xs)
  case (Cons y ys)
  assume "min_by f xs = Some x"
  with Cons foldl_min_by [of f y ys] show ?thesis by auto
qed simp

lemma min_by_None [simp]: "min_by f xs = None \<longleftrightarrow> xs = []"
  by (cases xs) simp_all

lemma set_queue_heads:
  "c \<in> set (queue_heads by_queue w leased blocked ded) \<longleftrightarrow>
   (\<exists>cands \<in> snd ` set by_queue. queue_head cands w leased blocked (present_tasks by_queue) ded = Some c)"
  by (force simp: queue_heads_def List.map_filter_def)

lemma queue_head_Some:
  "queue_head cands w leased blocked present ded = Some c \<longleftrightarrow>
   (\<exists>before rest. cands = before @ c # rest \<and> eligible w leased blocked present ded c \<and>
      (\<forall>d \<in> set before. \<not> eligible w leased blocked present ded d))"
  unfolding queue_head_def by (rule find_split)

lemma queue_head_None:
  "queue_head cands w leased blocked present ded = None \<longleftrightarrow>
   (\<forall>c \<in> set cands. \<not> eligible w leased blocked present ded c)"
  unfolding queue_head_def by (rule find_None)

lemma pick_next_cases:
  "pick_next by_queue w leased blocked st ded = (res, st') \<Longrightarrow>
   (case res of
      None \<Rightarrow> queue_heads by_queue w leased blocked ded = [] \<and> st' = st
    | Some c \<Rightarrow> c \<in> set (queue_heads by_queue w leased blocked ded) \<and> st' = record_served st (tc_queue c) \<and>
        (\<forall>h \<in> set (queue_heads by_queue w leased blocked ded). arbitration_key st c \<le> arbitration_key st h))"
  using min_by_Some [of "arbitration_key st" "queue_heads by_queue w leased blocked ded"]
  by (auto simp: pick_next_def arbitrate_def split: option.splits)

text \<open>C31: the scheduler answers with the first eligible candidate of its queue, whose priority,
  times served and label are least among the queues' first eligible candidates, and answers
  nothing only when no candidate of any queue is eligible.\<close>

theorem pick_next_exact:
  "case pick_next by_queue w leased blocked st ded of
     (None, st') \<Rightarrow> st' = st \<and>
       (\<forall>cands \<in> snd ` set by_queue. \<forall>c \<in> set cands. \<not> eligible w leased blocked (present_tasks by_queue) ded c)
   | (Some c, st') \<Rightarrow> st' = record_served st (tc_queue c) \<and>
       (\<exists>cands \<in> snd ` set by_queue. \<exists>before rest. cands = before @ c # rest \<and>
          eligible w leased blocked (present_tasks by_queue) ded c \<and>
          (\<forall>d \<in> set before. \<not> eligible w leased blocked (present_tasks by_queue) ded d)) \<and>
       (\<forall>cands \<in> snd ` set by_queue. \<forall>d before rest. cands = before @ d # rest \<longrightarrow>
          eligible w leased blocked (present_tasks by_queue) ded d \<longrightarrow>
          (\<forall>e \<in> set before. \<not> eligible w leased blocked (present_tasks by_queue) ded e) \<longrightarrow>
          arbitration_key st c \<le> arbitration_key st d)"
proof -
  obtain res st' where p: "pick_next by_queue w leased blocked st ded = (res, st')" by fastforce
  show ?thesis
  proof (cases res)
    case None
    then have "queue_heads by_queue w leased blocked ded = []" "st' = st"
      using pick_next_cases [OF p] by simp_all
    then have "queue_head cands w leased blocked (present_tasks by_queue) ded = None"
      if "cands \<in> snd ` set by_queue" for cands
      using that set_queue_heads [of _ by_queue w leased blocked ded]
      by (cases "queue_head cands w leased blocked (present_tasks by_queue) ded") auto
    then show ?thesis using p None \<open>st' = st\<close> queue_head_None by fastforce
  next
    case (Some c)
    note facts = pick_next_cases [OF p, unfolded Some option.case]
    have "\<exists>cands \<in> snd ` set by_queue. queue_head cands w leased blocked (present_tasks by_queue) ded = Some c"
      using facts set_queue_heads by blast
    moreover have "arbitration_key st c \<le> arbitration_key st d"
      if "cands \<in> snd ` set by_queue"
        "queue_head cands w leased blocked (present_tasks by_queue) ded = Some d" for cands d
      using that facts set_queue_heads by blast
    ultimately show ?thesis unfolding p Some using facts by (simp add: queue_head_Some) blast
  qed
qed

section \<open>Turns\<close>

abbreviation served_count :: "served \<Rightarrow> string \<Rightarrow> int" where
  "served_count st label \<equiv> dget_or st label 0"

text \<open>
  A run of picks in which, each time, the same queues have an eligible candidate of one common
  priority. Everything else (candidates, worker, leases) may change between picks.
\<close>

inductive turns :: "string set \<Rightarrow> served \<Rightarrow> nat \<Rightarrow> served \<Rightarrow> bool" for labels start where
  turns_start: "turns labels start 0 start"
| turns_pick: "turns labels start n st \<Longrightarrow>
    pick_next by_queue w leased blocked st ded = (Some c, st') \<Longrightarrow>
    cand_label ` set (queue_heads by_queue w leased blocked ded) = labels \<Longrightarrow>
    \<forall>h \<in> set (queue_heads by_queue w leased blocked ded). tc_priority h = p \<Longrightarrow>
    turns labels start (Suc n) st'"

lemma served_count_record:
  "served_count (record_served st queue) label =
     served_count st label + (if label = queue_label queue then 1 else 0)"
  by (simp add: record_served_def)

lemma turn_serves_least:
  assumes "pick_next by_queue w leased blocked st ded = (Some c, st')"
    and "cand_label ` set (queue_heads by_queue w leased blocked ded) = labels"
    and "\<forall>h \<in> set (queue_heads by_queue w leased blocked ded). tc_priority h = p"
  shows "cand_label c \<in> labels \<and> (\<forall>b \<in> labels. served_count st (cand_label c) \<le> served_count st b) \<and>
    st' = record_served st (tc_queue c) \<and> finite labels"
proof -
  note facts = pick_next_cases [OF assms(1), unfolded option.case]
  have "served_count st (cand_label c) \<le> served_count st (cand_label h)"
    if "h \<in> set (queue_heads by_queue w leased blocked ded)" for h
    using facts that assms(3) by (auto simp: arbitration_key_def less_eq_prod_def)
  then show ?thesis using facts assms(2) by auto
qed

lemma turns_balanced:
  assumes "turns labels [] n st"
  shows "\<forall>a \<in> labels. \<forall>b \<in> labels. served_count st a \<le> served_count st b + 1"
    and "(\<Sum>a \<in> labels. served_count st a) = int n \<or> n = 0"
    and "n \<noteq> 0 \<longrightarrow> finite labels"
  using assms
proof (induction rule: turns.induct)
  case turns_start
  case 1 show ?case by (simp add: dget_or_def)
  case 2 show ?case by simp
  case 3 show ?case by simp
next
  case (turns_pick n st by_queue w leased blocked ded c st' p)
  note least = turn_serves_least [OF turns_pick.hyps(2-4)]
  have step: "served_count st' a = served_count st a + (if a = cand_label c then 1 else 0)" for a
    using least served_count_record by (simp add: cand_label_def)
  {
    case 1
    show ?case
    proof (intro ballI)
      fix a b assume "a \<in> labels" "b \<in> labels"
      then have "served_count st a \<le> served_count st b + 1" "served_count st (cand_label c) \<le> served_count st b"
        using turns_pick.IH(1) least by auto
      then show "served_count st' a \<le> served_count st' b + 1"
        by (cases "b = cand_label c") (auto simp: step)
    qed
  next
    case 2
    have empty: "served_count st a = 0" if "n = 0" for a
      using turns_pick.hyps(1) that by (auto elim: turns.cases simp: dget_or_def)
    have "(\<Sum>a \<in> labels. served_count st a) = int n"
      using turns_pick.IH(2) empty by (cases "n = 0") auto
    moreover have "finite labels" "cand_label c \<in> labels" using least by blast+
    ultimately have "(\<Sum>a \<in> labels. served_count st' a) = int (Suc n)"
      unfolding step by (simp add: sum.distrib)
    then show ?case by simp
  next
    case 3
    show ?case using least by simp
  }
qed

text \<open>C36: queues that compete at one priority are served in turn: their counts never differ by more
  than one, so after \<open>n\<close> picks each has been served \<open>n\<close> divided by their number times.\<close>

theorem equal_queues_take_turns:
  assumes "turns labels [] n st" "a \<in> labels" "b \<in> labels"
  shows "served_count st a \<le> served_count st b + 1 \<and>
    int n \<le> int (card labels) * (served_count st b + 1)"
proof -
  note balanced = turns_balanced [OF assms(1)]
  have ab: "served_count st a \<le> served_count st b + 1" using balanced(1) assms(2,3) by blast
  show ?thesis
  proof (cases "n = 0")
    case True
    then have "st = []" using assms(1) by (auto elim: turns.cases)
    then show ?thesis using ab True by (simp add: dget_or_def)
  next
    case False
    then have "(\<Sum>a \<in> labels. served_count st a) = int n" "finite labels" using balanced(2,3) by auto
    moreover have "(\<Sum>a \<in> labels. served_count st a) \<le> (\<Sum>a \<in> labels. served_count st b + 1)"
      by (rule sum_mono) (use balanced(1) assms(3) in blast)
    ultimately show ?thesis using ab by simp
  qed
qed

section \<open>Unroutable tasks\<close>

lemma norm_set_Some: "norm_set (Some vs) = (\<lambda>v. py_lower (py_strip v)) ` {v \<in> set vs. py_strip v \<noteq> []}"
  by (simp add: norm_set_def)

lemma startswith_append [simp]: "py_startswith (p @ s) p"
  by (simp add: py_startswith_def)

lemma unroutable_reason_refused:
  assumes "unroutable_reason avail_models avail_mcps ded online c = Some reason"
    and "\<forall>m \<in> set (tc_required_mcps c). py_strip m \<noteq> []"
    and "norm_set (fl_models w) \<subseteq> avail_models" "norm_set (fl_mcps w) \<subseteq> avail_mcps"
    and "fl_worker_id w \<in> online"
  shows "\<not> accepts w c ded \<and> (\<exists>p \<in> set UNROUTABLE_REASON_PREFIXES. py_startswith reason p)"
proof (cases "\<not> is_agnostic_model (tc_model c) \<and> py_lower (py_strip (tc_model c)) \<notin> avail_models")
  case True
  then show ?thesis using assms
    by (auto simp: unroutable_reason_def accepts_def model_ok_def no_capable_worker_reason_def
        UNROUTABLE_REASON_PREFIXES_def)
next
  case model: False
  show ?thesis
  proof (cases "filter (\<lambda>m. py_lower (py_strip m) \<notin> avail_mcps) (tc_required_mcps c)")
    case (Cons m ms)
    then have "m \<in> set (filter (\<lambda>m. py_lower (py_strip m) \<notin> avail_mcps) (tc_required_mcps c))"
      by (subst Cons) simp
    then have m: "m \<in> set (tc_required_mcps c)" "py_lower (py_strip m) \<notin> avail_mcps" by simp_all
    then have "py_lower (py_strip m) \<in> norm_set (Some (tc_required_mcps c))"
      using assms(2) by (auto simp: norm_set_Some)
    then have "\<not> mcps_ok w c" using m assms(4) by (auto simp: mcps_ok_def)
    then show ?thesis using model Cons assms(1)
      by (auto simp: unroutable_reason_def accepts_def no_capable_worker_reason_def
          UNROUTABLE_REASON_PREFIXES_def)
  next
    case Nil
    then show ?thesis using model assms(1,5)
      by (auto simp: unroutable_reason_def accepts_def dedicated_offline_reason_def
          UNROUTABLE_REASON_PREFIXES_def Let_def split: if_splits)
  qed
qed

text \<open>A task reported unroutable is refused by every online worker that advertises no more than
  the available models and connectors, and its reason carries one of the prefixes by which the
  reconciler recognises and clears its own holds.\<close>

theorem unroutable_is_refused:
  assumes "(c, reason) \<in> set (unroutable by_queue models mcps ded online)"
    and "\<forall>m \<in> set (tc_required_mcps c). py_strip m \<noteq> []"
    and "norm_set (fl_models w) \<subseteq> norm_set (Some models)" "norm_set (fl_mcps w) \<subseteq> norm_set (Some mcps)"
    and "fl_worker_id w \<in> set online"
  shows "\<not> accepts w c ded \<and> (\<exists>p \<in> set UNROUTABLE_REASON_PREFIXES. py_startswith reason p)"
proof -
  have sub: "norm_set (Some vs) \<subseteq> set (map (\<lambda>m. py_lower (py_strip m)) vs)" for vs
    by (auto simp: norm_set_Some)
  have "unroutable_reason (set (map (\<lambda>m. py_lower (py_strip m)) models))
      (set (map (\<lambda>m. py_lower (py_strip m)) mcps)) ded (set online) c = Some reason"
    using assms(1) by (auto simp: unroutable_def List.map_filter_def)
  then show ?thesis
    by (rule unroutable_reason_refused) (use assms sub in blast)+
qed

section \<open>Candidates\<close>

lemma bind_Inr: "bind_result m f = Inr y \<Longrightarrow> \<exists>x. m = Inr x \<and> f x = Inr y"
  by (simp add: bind_result_eq_Inr_iff)

lemma task_priority_range: "0 \<le> task_priority m \<and> task_priority m \<le> 5"
  by (auto simp: task_priority_def MIN_PRIORITY_def MAX_PRIORITY_def DEFAULT_PRIORITY_def split: option.split)

lemma parse_required_mcps_plain: "x \<in> set (parse_required_mcps m) \<Longrightarrow> py_strip x = x \<and> x \<noteq> []"
proof -
  assume x: "x \<in> set (parse_required_mcps m)"
  then obtain raw where "dget m ''mcp'' = Some raw" "raw \<noteq> SNone"
    by (cases "dget m ''mcp''"; cases "the (dget m ''mcp'')") (auto simp: parse_required_mcps_def)
  with x show ?thesis by (cases raw) (auto simp: parse_required_mcps_def)
qed

lemma candidate_repo_cases:
  assumes "candidate_repo m config = Inr (repo, err)"
  shows "(\<exists>r. repo = Some r \<and> err = None \<and> is_valid_name r) \<or> (\<exists>e. repo = None \<and> err = Some e)"
proof (cases "resolve_repo (dget m ''repo'') (dget config ''repo'')")
  case (Inl e)
  then show ?thesis using assms by (cases e) (auto simp: candidate_repo_def)
next
  case (Inr r)
  then have "is_valid_name r"
    by (auto simp: resolve_repo_def bind_result_eq_Inr_iff is_valid_repo_ref_def split: if_splits)
  then show ?thesis using assms Inr by (auto simp: candidate_repo_def)
qed

text \<open>What the scheduler relies on when it asks a resolver.\<close>

locale workflow_resolver =
  fixes resolve :: resolver
  assumes answers_its_workflow:
    "resolve m config = Inr (Inr (name, step, model)) \<Longrightarrow> name = meta_text m ''workflow''"
  and answers_a_model: "resolve m config = Inr (Inr (name, step, model)) \<Longrightarrow> model \<noteq> []"
begin

lemma candidate_shape:
  assumes "build_candidate queue config default_model (Some resolve) stem m = Inr c" "default_model \<noteq> []"
  shows "tc_queue c = queue \<and> tc_task c = stem \<and> tc_priority c = task_priority m \<and>
    tc_after c = after_deps m \<and> tc_required_mcps c = parse_required_mcps m \<and> tc_model c \<noteq> [] \<and>
    ((\<exists>r. tc_repo c = Some r \<and> tc_repo_error c = None \<and> is_valid_name r) \<or>
     (\<exists>e. tc_repo c = None \<and> tc_repo_error c = Some e)) \<and>
    (if meta_text m ''workflow'' = [] then tc_workflow c = None \<and> tc_workflow_error c = None
     else tc_workflow c = Some (meta_text m ''workflow'') \<and> tc_workflow_error c = None \<or>
       tc_workflow c = None \<and> tc_workflow_error c \<noteq> None)"
proof -
  obtain repo err where repo: "candidate_repo m config = Inr (repo, err)"
    using assms(1) by (cases "candidate_repo m config") (auto simp: build_candidate_def)
  have model: "normalize_model m default_model \<noteq> []"
    using assms(2) by (auto simp: normalize_model_def split: option.splits scalar.splits)
  show ?thesis
  proof (cases "meta_text m ''workflow'' = []")
    case True
    then show ?thesis using assms(1) repo model candidate_repo_cases [OF repo]
      by (auto simp: build_candidate_def)
  next
    case False
    then obtain answer where answer: "resolve m config = Inr answer"
      using assms(1) repo by (cases "resolve m config") (auto simp: build_candidate_def)
    then show ?thesis
      using assms(1) repo False model candidate_repo_cases [OF repo] answers_its_workflow answers_a_model
      by (cases answer) (auto simp: build_candidate_def)
  qed
qed

end

lemma make_resolver_answer:
  "make_resolver defs planner_model default_model m models = Inr (name, step, model) \<Longrightarrow>
   name = meta_text m ''workflow'' \<and> model \<noteq> []"
  by (auto simp: make_resolver_def Let_def resolve_role_model_def find_Some_iff split: option.splits)

interpretation manager: workflow_resolver "manager_resolver ftext defs planner_model default_model"
  by unfold_locales
    (auto simp: manager_resolver_def split: sum.splits if_splits dest: make_resolver_answer)

text \<open>The candidates of a queue are its live tasks in execution order, each with a priority from
  0 to 5, a model, unpadded connectors, and exactly one of a valid repository and a repository
  error; a workflow brief carries its workflow or an authoring error.\<close>

theorem candidates_well_formed:
  assumes "build_candidates ftext qd queue default_model (Some (manager_resolver ftext' defs planner default')) = Inr out"
    and "default_model \<noteq> []"
  shows "live_ordered_queue ftext qd = Inr (map tc_task out) \<and>
    (\<forall>c \<in> set out. tc_queue c = queue \<and> 0 \<le> tc_priority c \<and> tc_priority c \<le> 5 \<and> tc_model c \<noteq> [] \<and>
       (\<forall>x \<in> set (tc_required_mcps c). py_strip x = x \<and> x \<noteq> []) \<and>
       (case tc_repo c of Some r \<Rightarrow> is_valid_name r \<and> tc_repo_error c = None | None \<Rightarrow> tc_repo_error c \<noteq> None) \<and>
       (tc_workflow c = None \<or> tc_workflow_error c = None))"
proof -
  let ?res = "Some (manager_resolver ftext' defs planner default')"
  let ?build = "\<lambda>stem. bind_result (read_brief qd stem)
      (\<lambda>m. build_candidate queue (load_queue_config (qd_config qd)) default_model ?res stem m)"
  obtain stems where stems: "live_ordered_queue ftext qd = Inr stems" "map_result ?build stems = Inr out"
    using assms(1) by (auto simp: build_candidates_def bind_result_eq_Inr_iff)
  have len: "length out = length stems" using map_result_Inr_length [OF stems(2)] .
  have each: "\<exists>m. build_candidate queue (load_queue_config (qd_config qd)) default_model ?res (stems ! i) m
      = Inr (out ! i)" if "i < length stems" for i
    using bind_Inr [OF map_result_Inr_nth [OF stems(2) that]] by blast
  have "map tc_task out = stems"
  proof (rule nth_equalityI)
    fix i assume "i < length (map tc_task out)"
    then show "map tc_task out ! i = stems ! i"
      using each [of i] manager.candidate_shape [OF _ assms(2)] len by fastforce
  qed (simp add: len)
  moreover have "tc_queue c = queue \<and> 0 \<le> tc_priority c \<and> tc_priority c \<le> 5 \<and> tc_model c \<noteq> [] \<and>
       (\<forall>x \<in> set (tc_required_mcps c). py_strip x = x \<and> x \<noteq> []) \<and>
       (case tc_repo c of Some r \<Rightarrow> is_valid_name r \<and> tc_repo_error c = None | None \<Rightarrow> tc_repo_error c \<noteq> None) \<and>
       (tc_workflow c = None \<or> tc_workflow_error c = None)" if c: "c \<in> set out" for c
  proof -
    obtain stem m where
      "build_candidate queue (load_queue_config (qd_config qd)) default_model ?res stem m = Inr c"
      using c each len by (metis in_set_conv_nth)
    from manager.candidate_shape [OF this assms(2)] show ?thesis
      using task_priority_range [of m] parse_required_mcps_plain [of _ m] by (auto split: if_splits)
  qed
  ultimately show ?thesis using stems(1) by simp
qed

section \<open>Samples\<close>

definition sample_candidate :: "string \<Rightarrow> string \<Rightarrow> task_candidate" where
  "sample_candidate queue task =
     \<lparr>tc_queue = (if queue = ''main'' then None else Some queue), tc_task = task, tc_priority = 2,
      tc_model = ''opus'', tc_required_mcps = [''slack''], tc_after = [], tc_repo = Some ''web'',
      tc_repo_error = None, tc_workflow = None, tc_workflow_step = None, tc_workflow_error = None\<rparr>"

definition sample_filter :: "string \<Rightarrow> string list \<Rightarrow> string list \<Rightarrow> worker_filter" where
  "sample_filter name models mcps =
     \<lparr>fl_worker_id = name, fl_queues = None, fl_priorities = None, fl_models = Some models, fl_mcps = Some mcps\<rparr>"

abbreviation sample_map :: candidate_map where
  "sample_map \<equiv> [(None, [sample_candidate ''main'' ''a'']), (Some ''web'', [sample_candidate ''web'' ''b''])]"

abbreviation sample_worker :: worker_filter where
  "sample_worker \<equiv> sample_filter ''w1'' [''Opus''] [''slack'']"

lemma sample_lower [simp]:
  "py_lower (py_strip ''Opus'') = ''opus''" "py_lower (py_strip ''opus'') = ''opus''"
  "py_lower (py_strip ''slack'') = ''slack''" "py_strip ''opus'' = ''opus''" "py_strip ''slack'' = ''slack''"
  "py_strip ''Opus'' = ''Opus''" "py_lower ''opus'' = ''opus''" "py_lower ''slack'' = ''slack''"
  "py_lower ''Opus'' = ''opus''"
  by code_simp+

lemma sample_norm: "norm_set (Some [''Opus'']) = {''opus''} \<and> norm_set (Some [''slack'']) = {''slack''}"
  by (simp add: norm_set_def)

lemma sample_accepts: "accepts sample_worker (sample_candidate queue task) []"
  by (simp add: accepts_def model_ok_def mcps_ok_def sample_filter_def sample_candidate_def owners_of_def
      dget_or_def sample_norm)

lemma sample_heads:
  "queue_heads sample_map sample_worker {} {} [] = [sample_candidate ''main'' ''a'', sample_candidate ''web'' ''b'']"
  by (simp add: queue_heads_def List.map_filter_simps queue_head_def eligible_def sample_accepts)
    (simp add: sample_candidate_def)

lemma sample_labels:
  "cand_label (sample_candidate ''main'' t) = ''main'' \<and> cand_label (sample_candidate ''web'' t) = ''web''"
  by (simp add: cand_label_def queue_label_def sample_candidate_def)

lemma sample_pick:
  "pick_next sample_map sample_worker {} {} [] [] = (Some (sample_candidate ''main'' ''a''), [(''main'', 1)])"
  by code_simp

theorem pick_next_exact_witness:
  "arbitration_key [] (sample_candidate ''main'' ''a'') \<le> arbitration_key [] (sample_candidate ''web'' ''b'')"
proof -
  let ?b = "sample_candidate ''web'' ''b''"
  have e: "eligible sample_worker {} {} (present_tasks sample_map) [] ?b"
  proof -
    have "tc_after ?b = []" by (simp add: sample_candidate_def)
    then show ?thesis unfolding eligible_def using sample_accepts by simp
  qed
  have "[?b] \<in> snd ` set sample_map" by simp
  moreover have "[?b] = [] @ ?b # []" by simp
  ultimately show ?thesis
    using pick_next_exact [where by_queue = sample_map and w = sample_worker and leased = "{}"
      and blocked = "{}" and st = "[]" and ded = "[]"] e
    unfolding sample_pick prod.case option.case by (metis empty_iff empty_set)
qed

theorem equal_queues_take_turns_witness:
  "served_count [(''main'', 1)] ''main'' \<le> served_count [(''main'', 1)] ''web'' + 1"
proof -
  have "turns {''main'', ''web''} [] (Suc 0) [(''main'', 1)]"
    by (rule turns_pick [OF turns_start sample_pick, where p = 2])
      (simp_all add: sample_heads sample_labels, simp_all add: sample_candidate_def)
  then show ?thesis using equal_queues_take_turns by blast
qed

theorem unroutable_is_refused_witness:
  "\<not> accepts (sample_filter ''w1'' [''Opus''] []) (sample_candidate ''main'' ''a'') []"
proof -
  have "(sample_candidate ''main'' ''a'', no_capable_worker_reason ''connector'' ''slack'')
      \<in> set (unroutable sample_map [''Opus''] [] [] [''w1''])"
    by (simp add: unroutable_def List.map_filter_simps unroutable_reason_def sample_candidate_def)
  from unroutable_is_refused [OF this, of "sample_filter ''w1'' [''Opus''] []"] show ?thesis
    by (simp add: sample_candidate_def sample_filter_def norm_set_def)
qed

definition sample_built :: task_candidate where
  "sample_built = \<lparr>tc_queue = None, tc_task = ''a'', tc_priority = 3, tc_model = ''auto'',
     tc_required_mcps = [], tc_after = [], tc_repo = Some ''web'', tc_repo_error = None,
     tc_workflow = None, tc_workflow_step = None, tc_workflow_error = None\<rparr>"

abbreviation sample_resolver :: resolver where
  "sample_resolver \<equiv> manager_resolver (\<lambda>q. []) [] ''opus'' ''auto''"

lemma sample_build:
  "build_candidates (\<lambda>q. []) sample_queue None ''auto'' (Some sample_resolver) =
     Inr [sample_built, sample_built\<lparr>tc_task := ''b'', tc_priority := 5\<rparr>]"
  by code_simp

theorem candidates_well_formed_witness:
  "live_ordered_queue (\<lambda>q. []) sample_queue = Inr [''a'', ''b'']"
  using candidates_well_formed [OF sample_build] by (simp add: sample_built_def)

section \<open>Two promises the scheduler does not keep\<close>

text \<open>A task whose pinned model and connector are advertised by different workers is refused by
  every worker, and is never reported unroutable.\<close>

theorem split_capabilities_stall:
  "\<not> accepts (sample_filter ''w1'' [''opus''] []) (sample_candidate q t) [] \<and>
   \<not> accepts (sample_filter ''w2'' [] [''slack'']) (sample_candidate q t) [] \<and>
   unroutable [(None, [sample_candidate q t])] [''opus''] [''slack''] [] [''w1'', ''w2''] = []"
  by (simp add: accepts_def model_ok_def mcps_ok_def sample_filter_def sample_candidate_def norm_set_def
      unroutable_def unroutable_reason_def List.map_filter_simps is_agnostic_model_def AGNOSTIC_MODELS_def
      owners_of_def dget_or_def)

definition dependent_queue :: queue_dir where
  "dependent_queue = \<lparr>qd_config = Json (PDict [(''repo'', PStr ''web'')]),
     qd_briefs = [(''schema'', fenced [''quarantined: true'']), (''api'', fenced [''after: schema''])]\<rparr>"

text \<open>An \<open>after\<close> dependency counts as satisfied while its brief is still in the queue, when that
  brief is quarantined, disabled, completed or outside the play filter: only live candidates count as
  present.\<close>

theorem held_dependency_is_ignored:
  "\<exists>cands c. build_candidates (\<lambda>q. []) dependent_queue None ''auto'' None = Inr cands \<and>
     pick_next [(None, cands)] (sample_filter ''w1'' [] []) {} {} [] [] = (Some c, [(''main'', 1)]) \<and>
     tc_task c = ''api'' \<and> tc_after c = [''schema''] \<and> dget (qd_briefs dependent_queue) ''schema'' \<noteq> None"
proof -
  let ?c = "sample_built\<lparr>tc_task := ''api'', tc_priority := 5, tc_after := [''schema'']\<rparr>"
  have build: "build_candidates (\<lambda>q. []) dependent_queue None ''auto'' None = Inr [?c]"
    by code_simp
  have "accepts (sample_filter ''w1'' [] []) ?c []"
    by (simp add: accepts_def model_ok_def mcps_ok_def sample_filter_def sample_built_def owners_of_def
        dget_or_def is_agnostic_model_def AGNOSTIC_MODELS_def py_lower_def lower_char_def py_strip_of_def
        is_space_def)
  then have "pick_next [(None, [?c])] (sample_filter ''w1'' [] []) {} {} [] [] = (Some ?c, [(''main'', 1)])"
    by (simp add: pick_next_def queue_heads_def List.map_filter_simps queue_head_def eligible_def
        present_tasks_def arbitrate_def record_served_def dget_or_def)
      (simp add: sample_built_def queue_label_def)
  moreover have "dget (qd_briefs dependent_queue) ''schema'' \<noteq> None"
    by (simp add: dependent_queue_def)
  moreover have "tc_task ?c = ''api''" "tc_after ?c = [''schema'']" by simp_all
  ultimately show ?thesis using build by blast
qed

end
