(* ===== verification/Task_Files.thy ===== *)
theory Task_Files
  imports Queues
begin

text \<open>
  The brief files of a queue: sections of a brief's body, layered settings, creation, edits,
  import, deletion, artifacts and attachments
  (\<^verbatim>\<open>src/nightshift/task_files.py\<close>), and the decomposition of a brief into
  subtasks (\<^verbatim>\<open>src/nightshift/spawn_daily.py\<close>).

  A task is named by its stem, which holds no slash. Attachment bytes are a string. The
  commits of the content store's repository are not part of the state.
\<close>

section \<open>Sections of a body\<close>

definition NOTES_MARKER :: string where
  "NOTES_MARKER = ''<!-- nightshift:notes -->''"

definition ORIGINAL_BRIEF_MARKER :: string where
  "ORIGINAL_BRIEF_MARKER = ''<!-- nightshift:original-brief -->''"

definition split_section :: "string \<Rightarrow> string \<Rightarrow> string \<times> string" where
  "split_section marker body =
     (case partition_str marker body of
        None \<Rightarrow> (py_strip body, [])
      | Some (a, b) \<Rightarrow> (py_strip a, py_strip b))"

definition split_original :: "string \<Rightarrow> string \<times> string" where
  "split_original body = split_section ORIGINAL_BRIEF_MARKER body"

definition split_notes :: "string \<Rightarrow> string \<times> string" where
  "split_notes body = split_section NOTES_MARKER body"

definition join_section :: "string \<Rightarrow> string \<Rightarrow> string \<Rightarrow> string" where
  "join_section marker body tail =
     (if py_strip tail = [] then py_strip body
      else py_strip body @ [newline, newline] @ marker @ [newline] @ py_strip tail)"

definition join_notes :: "string \<Rightarrow> string \<Rightarrow> string" where
  "join_notes body notes = join_section NOTES_MARKER body notes"

definition join_original :: "string \<Rightarrow> string \<Rightarrow> string" where
  "join_original body original = join_section ORIGINAL_BRIEF_MARKER body original"

text \<open>\<open>s.replace(old, new, 1)\<close>.\<close>

definition replace_first :: "string \<Rightarrow> string \<Rightarrow> string \<Rightarrow> string" where
  "replace_first old new s = (case partition_str old s of None \<Rightarrow> s | Some (a, b) \<Rightarrow> a @ new @ b)"

section \<open>The content store\<close>

type_synonym doc_dir = "(string \<times> string) list"

record content =
  ct_queues :: content_store
  ct_artifacts :: "((string \<times> string) \<times> doc_dir) list"
  ct_attachments :: "((string \<times> string) \<times> doc_dir) list"
  ct_manager_config :: pydict
  ct_store_config :: config_file

definition queue_at :: "content \<Rightarrow> string \<Rightarrow> queue_dir" where
  "queue_at ct rel = (case dget (ct_queues ct) rel of
      None \<Rightarrow> \<lparr>qd_config = NoFile, qd_briefs = []\<rparr> | Some qd \<Rightarrow> qd)"

definition put_queue :: "content \<Rightarrow> string \<Rightarrow> queue_dir \<Rightarrow> content" where
  "put_queue ct rel qd = ct\<lparr>ct_queues := dset (ct_queues ct) rel qd\<rparr>"

definition brief_at :: "content \<Rightarrow> string \<Rightarrow> string \<Rightarrow> string option" where
  "brief_at ct rel task = dget (qd_briefs (queue_at ct rel)) task"

definition write_brief :: "content \<Rightarrow> string \<Rightarrow> string \<Rightarrow> string \<Rightarrow> content" where
  "write_brief ct rel task text =
     put_queue ct rel ((queue_at ct rel)\<lparr>qd_briefs := dset (qd_briefs (queue_at ct rel)) task text\<rparr>)"

definition set_order :: "content \<Rightarrow> string \<Rightarrow> string list \<Rightarrow> content" where
  "set_order ct rel order =
     put_queue ct rel ((queue_at ct rel)\<lparr>qd_config := save_order (qd_config (queue_at ct rel)) order\<rparr>)"

section \<open>Layered settings\<close>

fun deep_merge :: "pydict \<Rightarrow> pydict \<Rightarrow> pydict" where
  "deep_merge base [] = base"
| "deep_merge base ((k, v) # override) =
     deep_merge
       (dset base k
         (case v of
            PDict b \<Rightarrow> (case dget base k of Some (PDict a) \<Rightarrow> PDict (deep_merge a b) | _ \<Rightarrow> v)
          | _ \<Rightarrow> v))
       override"

definition resolve_config :: "content \<Rightarrow> string \<Rightarrow> pydict" where
  "resolve_config ct rel =
     deep_merge (deep_merge (ct_manager_config ct) (load_queue_config (ct_store_config ct)))
       (load_queue_config (qd_config (queue_at ct rel)))"

fun scalar_value :: "scalar \<Rightarrow> pyval" where
  "scalar_value SNone = PNone"
| "scalar_value (SBool b) = PBool b"
| "scalar_value (SInt i) = PInt i"
| "scalar_value (SStr s) = PStr s"

text \<open>\<open>int(v)\<close> with the exception it raises.\<close>

definition int_or_raise :: "pyval \<Rightarrow> py_error + int" where
  "int_or_raise v =
     (case value_int v of
        Some i \<Rightarrow> Inr i
      | None \<Rightarrow> (case v of PStr _ \<Rightarrow> Inl (ValueError ''invalid literal for int() with base 10'') | _ \<Rightarrow> Inl TypeError))"

record resolved_meta =
  rm_model :: pyval
  rm_max_turns :: "int option"
  rm_automerge :: bool
  rm_draft :: bool

definition meta_or_config :: "meta \<Rightarrow> pydict \<Rightarrow> string \<Rightarrow> string \<Rightarrow> pyval \<Rightarrow> pyval" where
  "meta_or_config m config mkey ckey fallback =
     (case dget m mkey of Some v \<Rightarrow> scalar_value v | None \<Rightarrow> dget_or config ckey fallback)"

definition resolve_frontmatter :: "meta \<Rightarrow> pydict \<Rightarrow> string \<Rightarrow> py_error + resolved_meta" where
  "resolve_frontmatter m config operator_default =
     bind_result
       (case meta_or_config m config ''turns'' ''max_turns'' PNone of
          PNone \<Rightarrow> Inr None
        | v \<Rightarrow> bind_result (int_or_raise v) (\<lambda>i. Inr (Some i)))
       (\<lambda>turns. Inr \<lparr>rm_model = meta_or_config m config ''model'' ''default_model'' (PStr operator_default),
          rm_max_turns = turns,
          rm_automerge = truthy (meta_or_config m config ''automerge'' ''automerge'' (PBool False)),
          rm_draft = truthy (meta_or_config m config ''draft'' ''draft'' (PBool False))\<rparr>)"

text \<open>\<open>task in set(config.get("evergreen_tasks", []))\<close>; a value that is no sequence raises.\<close>

definition listed_evergreen :: "string \<Rightarrow> pydict \<Rightarrow> py_error + bool" where
  "listed_evergreen task config =
     (case dget config ''evergreen_tasks'' of
        None \<Rightarrow> Inr False
      | Some (PList names) \<Rightarrow>
          if \<exists>v \<in> set names. (case v of PList _ \<Rightarrow> True | PDict _ \<Rightarrow> True | _ \<Rightarrow> False) then Inl TypeError
          else Inr (PStr task \<in> set names)
      | Some (PStr s) \<Rightarrow> Inr (task \<in> set (map (\<lambda>c. [c]) s))
      | Some (PDict d) \<Rightarrow> Inr (task \<in> set (map fst d))
      | Some _ \<Rightarrow> Inl TypeError)"

definition task_is_evergreen :: "meta \<Rightarrow> string \<Rightarrow> pydict \<Rightarrow> py_error + bool" where
  "task_is_evergreen m task config =
     (if meta_flag m ''evergreen'' then Inr True else listed_evergreen task config)"

section \<open>Reading a task\<close>

definition resolve_title :: "string \<Rightarrow> meta \<Rightarrow> scalar" where
  "resolve_title task m = dget_or m ''title'' (SStr task)"

record task_view =
  tv_task :: string
  tv_title :: scalar
  tv_body :: string
  tv_notes :: string
  tv_original :: string
  tv_meta :: meta
  tv_resolved :: resolved_meta
  tv_priority :: int
  tv_evergreen :: bool

definition read_task :: "string \<Rightarrow> content \<Rightarrow> string \<Rightarrow> string \<Rightarrow> py_error + task_view" where
  "read_task operator_default ct rel task =
     (case brief_at ct rel task of
        None \<Rightarrow> Inl (FileNotFoundError task)
      | Some text \<Rightarrow>
          bind_result (if py_startswith text ''---'' then split_frontmatter text else Inr ([], text))
            (\<lambda>(m, body0).
               case split_original body0 of (body1, original) \<Rightarrow>
               case split_notes body1 of (body, notes) \<Rightarrow>
               bind_result (resolve_frontmatter m (resolve_config ct rel) operator_default) (\<lambda>resolved.
               bind_result (task_is_evergreen m task (resolve_config ct rel)) (\<lambda>evergreen.
                 Inr \<lparr>tv_task = task, tv_title = resolve_title task m, tv_body = py_strip body,
                   tv_notes = notes, tv_original = original, tv_meta = m, tv_resolved = resolved,
                   tv_priority = task_priority m, tv_evergreen = evergreen\<rparr>))))"

section \<open>Creating and importing\<close>

text \<open>\<open>re.sub("[^a-zA-Z0-9]+", "-", s.lower())\<close>; a lower-cased text has no other letters.\<close>

definition slugify :: "string \<Rightarrow> string" where
  "slugify s =
     (let slug = py_strip_of (\<lambda>c. c = CHR ''-'') (dash_runs False (py_lower s));
          cut = rev (dropWhile (\<lambda>c. c = CHR ''-'') (rev (take 48 slug)))
      in if cut = [] then ''item'' else cut)"

definition TASK_TEMPLATE :: string where
  "TASK_TEMPLATE = lines_text [''---'', ''title: short descriptive title for the PR'', ''model: auto'',
     ''draft: false'', ''automerge: true'', ''split: false'', ''---'', [], ''Task description goes here.'']"

definition new_brief_text :: "string \<Rightarrow> string \<Rightarrow> string option \<Rightarrow> string" where
  "new_brief_text title text original =
     (let body = join_original (if py_strip text = [] then title else py_strip text)
                   (case original of None \<Rightarrow> [] | Some s \<Rightarrow> s);
          titled = replace_first ''title: short descriptive title for the PR'' (''title: '' @ title) TASK_TEMPLATE
      in replace_first ''Task description goes here.'' body titled)"

definition create_task ::
  "(rat \<Rightarrow> string) \<Rightarrow> content \<Rightarrow> string \<Rightarrow> string \<Rightarrow> string \<Rightarrow> string option \<Rightarrow> py_error + (string \<times> content)" where
  "create_task ftext ct rel title text original =
     (let title_clean = py_strip title; name = slugify title_clean in
      if title_clean = [] then Inl (ValueError ''title is required'')
      else if brief_at ct rel name \<noteq> None then Inl (FileExistsError name)
      else
        let written = write_brief ct rel name (new_brief_text title_clean text original)
        in Inr (name, set_order written rel (load_order ftext (qd_config (queue_at written rel)) @ [name])))"

text \<open>The first free name \<open>base-n\<close>, counting up.\<close>

definition numbered :: "string \<Rightarrow> nat \<Rightarrow> string" where
  "numbered base n = base @ ''-'' @ nat_text n"

lemma numbered_inject [simp]: "numbered base m = numbered base n \<longleftrightarrow> m = n"
  using digits_value_nat_text by (metis numbered_def option.inject same_append_eq)

lemma finite_numbered: "finite {k. n \<le> k \<and> numbered base k \<in> set taken}"
proof (rule finite_subset)
  show "{k. n \<le> k \<and> numbered base k \<in> set taken} \<subseteq> numbered base -` set taken" by auto
  show "finite (numbered base -` set taken)" by (rule finite_vimageI) (auto intro: injI)
qed

function free_name :: "string list \<Rightarrow> string \<Rightarrow> nat \<Rightarrow> string" where
  "free_name taken base n =
     (if numbered base n \<in> set taken then free_name taken base (Suc n) else numbered base n)"
  by pat_completeness auto

termination
proof (relation "measure (\<lambda>(taken, base, n). card {k. n \<le> k \<and> numbered base k \<in> set taken})")
  fix taken base n
  assume taken: "numbered base n \<in> set taken"
  have "{k. Suc n \<le> k \<and> numbered base k \<in> set taken} \<subset> {k. n \<le> k \<and> numbered base k \<in> set taken}"
    (is "?later \<subset> ?now")
  proof
    show "?later \<subseteq> ?now" by auto
    have "n \<in> ?now" "n \<notin> ?later" using taken by simp_all
    then show "?later \<noteq> ?now" by metis
  qed
  then show "((taken, base, Suc n), taken, base, n)
      \<in> measure (\<lambda>(taken, base, n). card {k. n \<le> k \<and> numbered base k \<in> set taken})"
    by (simp add: psubset_card_mono finite_numbered)
qed simp

declare free_name.simps [simp del]

definition unique_name :: "string list \<Rightarrow> string \<Rightarrow> string" where
  "unique_name taken base = (if base \<in> set taken then free_name taken base 2 else base)"

definition stems_at :: "content \<Rightarrow> string \<Rightarrow> string list" where
  "stems_at ct rel = map fst (qd_briefs (queue_at ct rel))"

definition import_task ::
  "(rat \<Rightarrow> string) \<Rightarrow> content \<Rightarrow> string \<Rightarrow> string \<Rightarrow> string \<Rightarrow> content \<times> (py_error + (string \<times> scalar))" where
  "import_task ftext ct src_rel task dest_rel =
     (case brief_at ct src_rel task of
        None \<Rightarrow> (ct, Inl (FileNotFoundError task))
      | Some text \<Rightarrow>
          let name = unique_name (stems_at ct dest_rel) task;
              written = write_brief ct dest_rel name text;
              ordered = set_order written dest_rel (load_order ftext (qd_config (queue_at written dest_rel)) @ [name])
          in (ordered, bind_result (brief_meta text) (\<lambda>m. Inr (name, resolve_title name m))))"

section \<open>Deleting\<close>

definition delete_task :: "(rat \<Rightarrow> string) \<Rightarrow> content \<Rightarrow> string \<Rightarrow> string \<Rightarrow> py_error + content" where
  "delete_task ftext ct rel task =
     (case brief_at ct rel task of
        None \<Rightarrow> Inl (FileNotFoundError task)
      | Some _ \<Rightarrow>
          let qd = queue_at ct rel;
              gone = (put_queue ct rel (qd\<lparr>qd_briefs := ddel (qd_briefs qd) task\<rparr>))
                \<lparr>ct_artifacts := ddel (ct_artifacts ct) (rel, task),
                 ct_attachments := ddel (ct_attachments ct) (rel, task)\<rparr>;
              order = load_order ftext (qd_config qd)
          in Inr (if task \<in> set order then set_order gone rel (filter (\<lambda>n. n \<noteq> task) order) else gone))"

text \<open>The brief of a landed regular task leaves the queue; a missing brief is no error.\<close>

definition drop_completed_task :: "(rat \<Rightarrow> string) \<Rightarrow> content \<Rightarrow> string \<Rightarrow> string \<Rightarrow> bool \<times> content" where
  "drop_completed_task ftext ct rel task =
     (case delete_task ftext ct rel task of Inl _ \<Rightarrow> (False, ct) | Inr ct' \<Rightarrow> (True, ct'))"

section \<open>Artifacts and attachments\<close>

definition ends_newline :: "string \<Rightarrow> bool" where
  "ends_newline s \<longleftrightarrow> s \<noteq> [] \<and> last s = newline"

definition write_artifact :: "content \<Rightarrow> string \<Rightarrow> string \<Rightarrow> string \<Rightarrow> string \<Rightarrow> content" where
  "write_artifact ct rel task name text =
     ct\<lparr>ct_artifacts := dset (ct_artifacts ct) (rel, task)
         (dset (dget_or (ct_artifacts ct) (rel, task) []) name
           (if ends_newline text then text else text @ [newline]))\<rparr>"

definition delete_artifacts :: "content \<Rightarrow> string \<Rightarrow> string \<Rightarrow> bool \<times> content" where
  "delete_artifacts ct rel task =
     (if dhas (ct_artifacts ct) (rel, task)
      then (True, ct\<lparr>ct_artifacts := ddel (ct_artifacts ct) (rel, task)\<rparr>) else (False, ct))"

text \<open>The artifact \<open>brief\<close> is the body of the task; a name without a file is left out.\<close>

fun read_artifacts :: "string \<Rightarrow> content \<Rightarrow> string \<Rightarrow> string \<Rightarrow> string list \<Rightarrow> py_error + doc_dir" where
  "read_artifacts operator_default ct rel task [] = Inr []"
| "read_artifacts operator_default ct rel task (name # names) =
     bind_result
       (if name = ''brief'' then
          (case read_task operator_default ct rel task of
             Inr view \<Rightarrow> Inr (Some (tv_body view))
           | Inl (FileNotFoundError _) \<Rightarrow> Inr None
           | Inl e \<Rightarrow> Inl e)
        else Inr (dget (dget_or (ct_artifacts ct) (rel, task) []) name))
       (\<lambda>found. bind_result (read_artifacts operator_default ct rel task names) (\<lambda>rest.
          Inr (case found of None \<Rightarrow> rest | Some t \<Rightarrow> (name, t) # filter (\<lambda>(k, _). k \<noteq> name) rest)))"

definition write_attachment :: "content \<Rightarrow> string \<Rightarrow> string \<Rightarrow> string \<Rightarrow> string \<Rightarrow> content" where
  "write_attachment ct rel task name bytes =
     ct\<lparr>ct_attachments := dset (ct_attachments ct) (rel, task)
         (dset (dget_or (ct_attachments ct) (rel, task) []) name bytes)\<rparr>"

definition read_attachment :: "content \<Rightarrow> string \<Rightarrow> string \<Rightarrow> string \<Rightarrow> py_error + string" where
  "read_attachment ct rel task name =
     (case dget (dget_or (ct_attachments ct) (rel, task) []) name of
        None \<Rightarrow> Inl (FileNotFoundError name) | Some bytes \<Rightarrow> Inr bytes)"

text \<open>The last attachment takes its directory with it.\<close>

definition delete_attachment :: "content \<Rightarrow> string \<Rightarrow> string \<Rightarrow> string \<Rightarrow> bool \<times> content" where
  "delete_attachment ct rel task name =
     (let dir = dget_or (ct_attachments ct) (rel, task) []; rest = ddel dir name in
      if \<not> dhas dir name then (False, ct)
      else (True, ct\<lparr>ct_attachments := (if rest = [] then ddel (ct_attachments ct) (rel, task)
                                      else dset (ct_attachments ct) (rel, task) rest)\<rparr>))"

definition list_attachments :: "content \<Rightarrow> string \<Rightarrow> string \<Rightarrow> string list" where
  "list_attachments ct rel task = sort (map fst (dget_or (ct_attachments ct) (rel, task) []))"

definition delete_attachments :: "content \<Rightarrow> string \<Rightarrow> string \<Rightarrow> bool \<times> content" where
  "delete_attachments ct rel task =
     (if dhas (ct_attachments ct) (rel, task)
      then (True, ct\<lparr>ct_attachments := ddel (ct_attachments ct) (rel, task)\<rparr>) else (False, ct))"

section \<open>Editing the frontmatter and the body\<close>

definition ENGINE_META_KEYS :: "string list" where
  "ENGINE_META_KEYS = [''workflow_step'', ''workflow_visits'', ''docs_pin'']"

definition EDITABLE_META_KEYS :: "string list" where
  "EDITABLE_META_KEYS = [''disabled'', ''quarantined'', ''quarantine_reason'', ''failed'', ''failed_reason'',
     ''completed'', ''evergreen'', ''automerge'', ''draft'', ''model'', ''priority'', ''repo'', ''loop'',
     ''loop_max_iterations'', ''split'', ''enhanced'', ''workflow'', ''planner_model'', ''docs'', ''attachments'']"

definition EDITABLE_CONTENT_KEYS :: "string list" where
  "EDITABLE_CONTENT_KEYS = [''title'', ''body'', ''notes'', ''original_brief'']"

definition bad_keys :: "string \<Rightarrow> string list \<Rightarrow> string list \<Rightarrow> py_error" where
  "bad_keys what allowed keys =
     ValueError (what @ '' keys: '' @ py_join '', '' (sort (remdups (filter (\<lambda>k. k \<notin> set allowed) keys))))"

text \<open>
  Both writers answer with the reread task, so a brief that cannot be read back raises after it
  was written: the new content comes first, the answer second.
\<close>

definition set_engine_meta ::
  "string \<Rightarrow> content \<Rightarrow> string \<Rightarrow> string \<Rightarrow> meta_changes \<Rightarrow> content \<times> (py_error + task_view)" where
  "set_engine_meta operator_default ct rel task changes =
     (if \<exists>k \<in> set (map fst changes). k \<notin> set ENGINE_META_KEYS
      then (ct, Inl (bad_keys ''non-engine'' ENGINE_META_KEYS (map fst changes)))
      else case brief_at ct rel task of
          None \<Rightarrow> (ct, Inl (FileNotFoundError task))
        | Some text \<Rightarrow>
            (let ct' = write_brief ct rel task (set_frontmatter_text text changes)
             in (ct', read_task operator_default ct' rel task)))"

text \<open>\<open>str(changes.get(k) or "").strip()\<close> when the key is given.\<close>

definition content_edit :: "meta_changes \<Rightarrow> string \<Rightarrow> string \<Rightarrow> string" where
  "content_edit changes k current =
     (case dget changes k of
        None \<Rightarrow> current
      | Some None \<Rightarrow> []
      | Some (Some v) \<Rightarrow> if scalar_truthy v then py_strip (scalar_str v) else [])"

definition title_text :: "scalar option \<Rightarrow> string" where
  "title_text v = py_strip (case v of None \<Rightarrow> ''None'' | Some s \<Rightarrow> scalar_str s)"

definition fence_changes :: "meta_changes \<Rightarrow> meta_changes" where
  "fence_changes changes =
     (let metas = filter (\<lambda>(k, _). k \<in> set EDITABLE_META_KEYS) changes in
      case dget changes ''title'' of
        None \<Rightarrow> metas
      | Some v \<Rightarrow> dset metas ''title'' (Some (SStr (title_text v))))"

definition edited_brief :: "string \<Rightarrow> meta_changes \<Rightarrow> string" where
  "edited_brief text changes =
     (case split_fence text of (fence, body_lines) \<Rightarrow>
      case split_original (py_join [newline] body_lines) of (brief_and_notes, original) \<Rightarrow>
      case split_notes brief_and_notes of (brief, notes) \<Rightarrow>
        join_fence (apply_fence_changes fence (fence_changes changes))
          (py_splitlines (join_original
            (join_notes (content_edit changes ''body'' brief) (content_edit changes ''notes'' notes))
            (content_edit changes ''original_brief'' original))))"

definition set_task_meta ::
  "string \<Rightarrow> content \<Rightarrow> string \<Rightarrow> string \<Rightarrow> meta_changes \<Rightarrow> content \<times> (py_error + task_view)" where
  "set_task_meta operator_default ct rel task changes =
     (let allowed = EDITABLE_META_KEYS @ EDITABLE_CONTENT_KEYS in
      if \<exists>k \<in> set (map fst changes). k \<notin> set allowed
      then (ct, Inl (bad_keys ''non-editable'' allowed (map fst changes)))
      else case brief_at ct rel task of
          None \<Rightarrow> (ct, Inl (FileNotFoundError task))
        | Some text \<Rightarrow>
            if (case dget changes ''title'' of Some (Some v) \<Rightarrow> title_text (Some v) = [] | _ \<Rightarrow> False)
            then (ct, Inl (ValueError ''title is required''))
            else (let ct' = write_brief ct rel task (edited_brief text changes)
                  in (ct', read_task operator_default ct' rel task)))"

section \<open>The queue listing\<close>

record queue_entry =
  qe_task :: string
  qe_title :: scalar
  qe_evergreen :: bool
  qe_meta :: meta
  qe_priority :: int

definition list_queue :: "(rat \<Rightarrow> string) \<Rightarrow> content \<Rightarrow> string \<Rightarrow> py_error + queue_entry list" where
  "list_queue ftext ct rel =
     (let qd = queue_at ct rel; config = resolve_config ct rel in
      bind_result
        (map_result (\<lambda>(stem, text). bind_result (brief_meta text) (\<lambda>m.
           bind_result (listed_evergreen stem config) (\<lambda>listed.
             Inr \<lparr>qe_task = stem, qe_title = resolve_title stem m,
                  qe_evergreen = (meta_flag m ''evergreen'' \<or> listed), qe_meta = m,
                  qe_priority = task_priority m\<rparr>))) (qd_briefs qd))
        (\<lambda>entries. bind_result
           (order_stems ftext qd (map qe_task entries) (Some (map (\<lambda>e. (qe_task e, qe_priority e)) entries)) None)
           (\<lambda>ordered. Inr (List.map_filter (\<lambda>s. find (\<lambda>e. qe_task e = s) entries) ordered))))"

section \<open>Decomposition\<close>

definition until_dot :: "string \<Rightarrow> string" where
  "until_dot s = fst (py_partition (CHR ''.'') s)"

text \<open>The numbers of a spawned name \<open>parent.sub.slug\<close>.\<close>

definition all_digits :: "string \<Rightarrow> bool" where
  "all_digits s \<longleftrightarrow> s \<noteq> [] \<and> (\<forall>c \<in> set s. is_digit c)"

definition spawn_numbers :: "string \<Rightarrow> (string \<times> nat) option" where
  "spawn_numbers stem =
     (case py_partition (CHR ''.'') stem of
        (parent, dot, rest) \<Rightarrow> (case py_partition (CHR ''.'') rest of
          (sub, dot', _) \<Rightarrow>
            if dot \<and> dot' \<and> all_digits parent \<and> all_digits sub
            then map_option (\<lambda>n. (parent, n)) (digits_value 0 False sub) else None))"

definition next_sub_id :: "string list \<Rightarrow> string \<Rightarrow> nat" where
  "next_sub_id stems parent =
     fold max (List.map_filter (\<lambda>s. case spawn_numbers s of
        Some (p, n) \<Rightarrow> if p = parent then Some n else None | None \<Rightarrow> None) stems) 0 + 1"

text \<open>The generated briefs, by name, are enqueued under free names; their stems are the answer.\<close>

definition subtask_name :: "string list \<Rightarrow> string \<Rightarrow> nat \<Rightarrow> string \<Rightarrow> string" where
  "subtask_name stems parent sub stem =
     unique_name stems
       (parent @ ''.'' @ nat_text sub @ ''.'' @ (if stem = [] then ''subtask-'' @ nat_text sub else slugify stem))"

fun harvest_briefs :: "content \<Rightarrow> string \<Rightarrow> string \<Rightarrow> nat \<Rightarrow> (string \<times> string) list \<Rightarrow> content \<times> string list" where
  "harvest_briefs ct rel parent sub_id [] = (ct, [])"
| "harvest_briefs ct rel parent sub_id ((stem, text) # briefs) =
     (case subtask_name (stems_at ct rel) parent (Suc sub_id) stem of
        name \<Rightarrow> (case harvest_briefs (write_brief ct rel name text) rel parent (Suc sub_id) briefs of
          (ct', created) \<Rightarrow> (ct', name # created)))"

definition child_changes :: "meta \<Rightarrow> meta_changes" where
  "child_changes m =
     List.map_filter (\<lambda>k. case dget m k of
        None \<Rightarrow> None | Some v \<Rightarrow> if v = SNone \<or> v = SStr [] then None else Some (k, Some v))
       [''docs'', ''attachments'']"

definition copy_attachments :: "content \<Rightarrow> string \<Rightarrow> string \<Rightarrow> string \<Rightarrow> content" where
  "copy_attachments ct rel task child =
     (let files = dget_or (ct_attachments ct) (rel, task) [] in
      if files = [] then ct
      else ct\<lparr>ct_attachments := dset (ct_attachments ct) (rel, child)
             (foldl (\<lambda>d (n, b). dset d n b) (dget_or (ct_attachments ct) (rel, child) []) files)\<rparr>)"

definition change_child :: "string \<Rightarrow> content \<Rightarrow> string \<Rightarrow> string \<Rightarrow> meta_changes \<Rightarrow> content \<times> py_error option" where
  "change_child operator_default ct rel child changes =
     (if changes = [] then (ct, None)
      else case set_task_meta operator_default ct rel child changes of
          (ct', Inl e) \<Rightarrow> (ct', Some e) | (ct', Inr _) \<Rightarrow> (ct', None))"

fun harvest_children ::
  "string \<Rightarrow> content \<Rightarrow> string \<Rightarrow> string \<Rightarrow> meta_changes \<Rightarrow> string list \<Rightarrow> content \<times> py_error option" where
  "harvest_children operator_default ct rel task changes [] = (ct, None)"
| "harvest_children operator_default ct rel task changes (child # children) =
     (case change_child operator_default (copy_attachments ct rel task child) rel child changes of
        (ct', Some e) \<Rightarrow> (ct', Some e)
      | (ct', None) \<Rightarrow> harvest_children operator_default ct' rel task changes children)"

text \<open>The generated files are an input; \<^const>\<open>None\<close> is a missing output directory.\<close>

definition harvest_split_output ::
  "(rat \<Rightarrow> string) \<Rightarrow> string \<Rightarrow> content \<Rightarrow> string \<Rightarrow> string \<Rightarrow> meta \<Rightarrow> doc_dir option \<Rightarrow> bool \<Rightarrow>
   content \<times> (py_error + string list)" where
  "harvest_split_output ftext operator_default ct rel task m files retain_parent =
     (case files of
        None \<Rightarrow> (ct, Inr [])
      | Some briefs \<Rightarrow>
          if briefs = [] then (ct, Inr [])
          else
            let parent = until_dot task;
                (ct1, created) = harvest_briefs ct rel parent (next_sub_id (stems_at ct rel) parent - 1)
                  (sort_key (\<lambda>b. fst b @ ''.md'') briefs);
                (ct2, failed) = harvest_children operator_default ct1 rel task (child_changes m) created
            in case failed of
                 Some e \<Rightarrow> (ct2, Inl e)
               | None \<Rightarrow> (if retain_parent then ct2 else snd (drop_completed_task ftext ct2 rel task), Inr created))"

section \<open>Autosplit sources\<close>

text \<open>What follows the white space after an item marker, when there is some and something follows.\<close>

definition after_spaces :: "string \<Rightarrow> string option" where
  "after_spaces s =
     (case s of
        [] \<Rightarrow> None
      | c # cs \<Rightarrow> if is_space c \<and> dropWhile is_space cs \<noteq> [] then Some (dropWhile is_space cs) else None)"

definition item_match :: "string \<Rightarrow> string option" where
  "item_match s =
     (case s of
        [] \<Rightarrow> None
      | c # cs \<Rightarrow>
          if is_digit c then
            (case dropWhile is_digit cs of
               d # ds \<Rightarrow> if d = CHR ''.'' \<or> d = CHR '')'' then after_spaces ds else None
             | [] \<Rightarrow> None)
          else if c \<in> set ''*-+'' then after_spaces cs
          else if c = CHR ''['' then
            (case cs of
               d # ds \<Rightarrow>
                 if d = CHR '']'' then after_spaces ds
                 else if d \<in> set '' xX'' then
                   (case ds of e # es \<Rightarrow> if e = CHR '']'' then after_spaces es else None | [] \<Rightarrow> None)
                 else None
             | [] \<Rightarrow> None)
          else None)"

text \<open>The lines of the open item, if there is one, oldest first.\<close>

definition close_item :: "string list option \<Rightarrow> string list" where
  "close_item current = (case current of None \<Rightarrow> [] | Some ls \<Rightarrow> [py_strip (py_join [newline] ls)])"

fun item_lines :: "string list \<Rightarrow> bool \<Rightarrow> string list option \<Rightarrow> string list \<times> string list" where
  "item_lines [] found current = ([], close_item current)"
| "item_lines (line # ls) found current =
     (let stripped = py_strip line in
      case item_match stripped of
        Some rest \<Rightarrow>
          (case item_lines ls True (Some [py_strip rest]) of (pre, items) \<Rightarrow> (pre, close_item current @ items))
      | None \<Rightarrow>
          if found then
            (case current of
               None \<Rightarrow> item_lines ls True None
             | Some cur \<Rightarrow>
                 if stripped \<noteq> [] \<and> (py_startswith line ''  '' \<or> py_startswith line [CHR 0x09])
                 then item_lines ls True (Some (cur @ [stripped]))
                 else (case item_lines ls True None of (pre, items) \<Rightarrow> (pre, close_item current @ items)))
          else (case item_lines ls False None of (pre, items) \<Rightarrow>
                  (if py_startswith stripped ''#'' then pre else line # pre, items)))"

definition extract_items :: "string \<Rightarrow> string \<times> string list" where
  "extract_items body =
     (case item_lines (py_splitlines body) False None of
        (pre, items) \<Rightarrow> (py_strip (py_join [newline] pre), items))"

record spawned_task =
  sp_name :: string
  sp_title :: string
  sp_body :: string
  sp_resolved :: resolved_meta

definition flag_text :: "string \<Rightarrow> bool \<Rightarrow> string" where
  "flag_text key b = key @ '': '' @ (if b then ''true'' else ''false'')"

definition render_spawned_task :: "(rat \<Rightarrow> string) \<Rightarrow> spawned_task \<Rightarrow> string" where
  "render_spawned_task ftext t =
     replace_first ''Task description goes here.'' (sp_body t)
       (replace_first ''draft: false'' (flag_text ''draft'' (rm_draft (sp_resolved t)))
         (replace_first ''automerge: true'' (flag_text ''automerge'' (rm_automerge (sp_resolved t)))
           (replace_first ''model: auto'' (''model: '' @ py_str ftext (rm_model (sp_resolved t)))
             (replace_first ''title: short descriptive title for the PR'' (''title: '' @ sp_title t)
               TASK_TEMPLATE))))"

definition item_title :: "string \<Rightarrow> string" where
  "item_title item = (if length item \<le> 80 then item else take 77 item @ ''...'')"

fun spawn_items ::
  "(rat \<Rightarrow> string) \<Rightarrow> bool \<Rightarrow> content \<Rightarrow> string \<Rightarrow> string \<Rightarrow> string \<Rightarrow> resolved_meta \<Rightarrow> nat \<Rightarrow> string list \<Rightarrow>
   content \<times> spawned_task list" where
  "spawn_items ftext write ct rel parent preamble resolved sub_id [] = (ct, [])"
| "spawn_items ftext write ct rel parent preamble resolved sub_id (item # items) =
     (let sub = sub_id + 1;
          name = unique_name (stems_at ct rel) (parent @ ''.'' @ nat_text sub @ ''.'' @ slugify item);
          t = \<lparr>sp_name = name, sp_title = item_title item,
               sp_body = (if preamble = [] then item else preamble @ [newline, newline] @ item),
               sp_resolved = resolved\<rparr>;
          (ct', ts) = spawn_items ftext write
            (if write then write_brief ct rel name (render_spawned_task ftext t) else ct)
            rel parent preamble resolved sub items
      in (ct', t # ts))"

text \<open>The reset text of a source is an asset of the same name.\<close>

definition spawn_source ::
  "(rat \<Rightarrow> string) \<Rightarrow> string \<Rightarrow> (string \<Rightarrow> string option) \<Rightarrow> bool \<Rightarrow> content \<Rightarrow> string \<Rightarrow> string \<Rightarrow>
   content \<times> (py_error + spawned_task list option)" where
  "spawn_source ftext operator_default template_of write ct rel source =
     (case brief_at ct rel source of
        None \<Rightarrow> (ct, Inr None)
      | Some text \<Rightarrow>
          (case split_frontmatter text of
             Inl e \<Rightarrow> (ct, Inl e)
           | Inr (m, body) \<Rightarrow>
               (case extract_items body of (preamble, items) \<Rightarrow>
                  if items = [] then (ct, Inr None)
                  else case resolve_frontmatter m (resolve_config ct rel) operator_default of
                      Inl e \<Rightarrow> (ct, Inl e)
                    | Inr resolved \<Rightarrow>
                        let parent = until_dot source;
                            (ct1, spawned) = spawn_items ftext write ct rel parent preamble resolved
                              (next_sub_id (stems_at ct rel) parent - 1) items
                        in if \<not> write then (ct1, Inr (Some spawned))
                           else case template_of source of
                               None \<Rightarrow> (ct1, Inl (FileNotFoundError source))
                             | Some reset \<Rightarrow> (write_brief ct1 rel source reset, Inr (Some spawned)))))"

definition find_autosplit_sources :: "queue_dir \<Rightarrow> py_error + string list" where
  "find_autosplit_sources qd =
     bind_result
       (map_result (\<lambda>(stem, text).
          if \<not> py_startswith text ''---'' then Inr []
          else bind_result (split_frontmatter text) (\<lambda>(m, _).
            Inr (if is_disabled m then [] else if meta_flag m ''autosplit'' then [stem] else [])))
         (sort_key (\<lambda>b. fst b @ ''.md'') (qd_briefs qd)))
       (\<lambda>rows. Inr (concat rows))"

fun spawn_each ::
  "(rat \<Rightarrow> string) \<Rightarrow> string \<Rightarrow> (string \<Rightarrow> string option) \<Rightarrow> bool \<Rightarrow> content \<Rightarrow> string \<Rightarrow> string list \<Rightarrow>
   content \<times> (py_error + spawned_task list)" where
  "spawn_each ftext operator_default template_of write ct rel [] = (ct, Inr [])"
| "spawn_each ftext operator_default template_of write ct rel (source # sources) =
     (case spawn_source ftext operator_default template_of write ct rel source of
        (ct1, Inl e) \<Rightarrow> (ct1, Inl e)
      | (ct1, Inr spawned) \<Rightarrow>
          (case spawn_each ftext operator_default template_of write ct1 rel sources of
             (ct2, Inl e) \<Rightarrow> (ct2, Inl e)
           | (ct2, Inr rest) \<Rightarrow> (ct2, Inr (case_option [] id spawned @ rest))))"

definition spawn_all ::
  "(rat \<Rightarrow> string) \<Rightarrow> string \<Rightarrow> (string \<Rightarrow> string option) \<Rightarrow> bool \<Rightarrow> content \<Rightarrow> string \<Rightarrow>
   content \<times> (py_error + spawned_task list)" where
  "spawn_all ftext operator_default template_of write ct rel =
     (case find_autosplit_sources (queue_at ct rel) of
        Inl e \<Rightarrow> (ct, Inl e)
      | Inr sources \<Rightarrow> spawn_each ftext operator_default template_of write ct rel sources)"

end
