(* ===== verification/Manager.thy ===== *)
theory Manager
  imports Transitions Store Scheduler Task_Files
begin

text \<open>
  The state the manager's handlers share and the effects a transition has on it
  (\<^verbatim>\<open>src/nightshift/manager/app.py\<close>, \<^verbatim>\<open>manager/api_worker.py\<close>,
  \<^verbatim>\<open>manager/work_orders.py\<close>, \<^verbatim>\<open>manager/registry.py\<close>,
  \<^verbatim>\<open>model_id.py\<close>).

  A handler is an action: it maps the state to the new state and a value or the exception it
  raises; the state is kept either way. The clock, fresh identifiers, the git jobs and the
  processes that are alive are inputs.
\<close>

section \<open>Actions\<close>

type_synonym ('s, 'a) action = "'s \<Rightarrow> 's \<times> (py_error + 'a)"

definition answer :: "'a \<Rightarrow> ('s, 'a) action" where
  "answer x s = (s, Inr x)"

definition act_bind :: "('s, 'a) action \<Rightarrow> ('a \<Rightarrow> ('s, 'b) action) \<Rightarrow> ('s, 'b) action" where
  "act_bind a f s = (case a s of (s', Inl e) \<Rightarrow> (s', Inl e) | (s', Inr x) \<Rightarrow> f x s')"

definition change :: "('s \<Rightarrow> 's) \<Rightarrow> ('s, unit) action" where
  "change f s = (f s, Inr ())"

definition compute :: "('s \<Rightarrow> py_error + 'a) \<Rightarrow> ('s, 'a) action" where
  "compute f s = (s, f s)"

text \<open>\<open>with contextlib.suppress(Exception)\<close>: what was written stays.\<close>

definition suppress :: "('s, 'a) action \<Rightarrow> ('s, unit) action" where
  "suppress a s = (fst (a s), Inr ())"

fun act_each :: "('x \<Rightarrow> ('s, 'a list) action) \<Rightarrow> 'x list \<Rightarrow> ('s, 'a list) action" where
  "act_each f [] = answer []"
| "act_each f (x # xs) = act_bind (f x) (\<lambda>ys. act_bind (act_each f xs) (\<lambda>zs. answer (ys @ zs)))"

text \<open>An action keeps a property of the state, on every path.\<close>

definition keeps :: "('s \<Rightarrow> bool) \<Rightarrow> ('s, 'a) action \<Rightarrow> bool" where
  "keeps P a \<longleftrightarrow> (\<forall>s. P s \<longrightarrow> P (fst (a s)))"

named_theorems keeps_rules \<open>actions that keep a property of the state\<close>

lemma keeps_answer [keeps_rules]: "keeps P (answer x)"
  by (simp add: keeps_def answer_def)

lemma keeps_compute [keeps_rules]: "keeps P (compute f)"
  by (simp add: keeps_def compute_def)

lemma keeps_change [keeps_rules]: "(\<And>s. P s \<Longrightarrow> P (f s)) \<Longrightarrow> keeps P (change f)"
  by (simp add: keeps_def change_def)

lemma keeps_suppress [keeps_rules]: "keeps P a \<Longrightarrow> keeps P (suppress a)"
  by (simp add: keeps_def suppress_def)

lemma keeps_bind [keeps_rules]: "keeps P a \<Longrightarrow> (\<And>x. keeps P (f x)) \<Longrightarrow> keeps P (act_bind a f)"
  by (fastforce simp: keeps_def act_bind_def split: prod.splits sum.splits)

lemma keeps_compute_bind:
  "(\<And>s x. f s = Inr x \<Longrightarrow> keeps P (g x)) \<Longrightarrow> keeps P (act_bind (compute f) g)"
  by (auto simp: act_bind_def compute_def keeps_def split: sum.splits)

lemma keeps_each [keeps_rules]: "(\<And>x. keeps P (f x)) \<Longrightarrow> keeps P (act_each f xs)"
  by (induction xs) (auto intro: keeps_rules)

lemma act_each_append:
  "act_each f (xs @ ys) =
     act_bind (act_each f xs) (\<lambda>a. act_bind (act_each f ys) (\<lambda>b. answer (a @ b)))"
proof (induction xs)
  case Nil
  show ?case by (rule ext) (simp add: act_bind_def answer_def split: prod.split sum.split)
next
  case (Cons x xs)
  then show ?case by (intro ext) (simp add: act_bind_def answer_def split: prod.split sum.split)
qed

section \<open>Configuration and state\<close>

record manager_config =
  cf_landing_mode :: landing_mode
  cf_planner_model :: string
  cf_default_model :: string
  cf_auto_resolve :: bool
  cf_quarantine_threshold :: int
  cf_retry_backoff_seconds :: rat
  cf_rendezvous_remote :: string
  cf_lease_ttl_seconds :: rat
  cf_max_concurrent_resolves :: int
  cf_resolve_backend :: pyval
  cf_resolve_model :: pyval
  cf_wip_ref_prefix :: string
  cf_stale_seconds :: rat

text \<open>The answer of the document resolution: what the order carries and the pin to persist.\<close>

record docs_result =
  dr_entries :: "pyval list"
  dr_pin :: "string option"
  dr_dirty :: bool

text \<open>The surroundings that do not change while a handler runs.\<close>

record env =
  en_cfg :: manager_config
  en_ftext :: "rat \<Rightarrow> string"
  en_operator_default :: string
  en_repo_available :: "string \<Rightarrow> bool"
  en_head :: "string \<Rightarrow> string option"
  en_operator_prompts :: file_dir
  en_shipped_prompts :: file_dir
  en_docs :: "content \<Rightarrow> string option \<Rightarrow> string \<Rightarrow> meta \<Rightarrow> string option \<Rightarrow> string + docs_result"

record manager =
  mg_db :: db
  mg_content :: content
  mg_workflows :: "(string \<times> workflow_def) list"
  mg_watch :: "(string \<times> bool) list"
  mg_cooldowns :: "((string \<times> string) \<times> time) list"
  mg_served :: served
  mg_resolves :: "(string \<times> string) list"

text \<open>What a request reads from outside: the clock, fresh identifiers, processes and git jobs.\<close>

record io =
  io_now :: time
  io_run_id :: string
  io_child_id :: string
  io_alive :: "string \<Rightarrow> bool"
  io_spawned :: bool
  io_files :: "doc_dir option"
  io_adopted :: land_outcome
  io_push :: "bool \<times> string"

datatype http = Reply pydict | Refused nat string

definition on_db :: "(db \<Rightarrow> db) \<Rightarrow> (manager, unit) action" where
  "on_db f = change (\<lambda>m. m\<lparr>mg_db := f (mg_db m)\<rparr>)"

text \<open>A verb of the store that may raise.\<close>

definition run_db :: "(db \<Rightarrow> py_error + (db \<times> 'a)) \<Rightarrow> (manager, 'a) action" where
  "run_db f m = (case f (mg_db m) of Inl e \<Rightarrow> (m, Inl e) | Inr (d, x) \<Rightarrow> (m\<lparr>mg_db := d\<rparr>, Inr x))"

text \<open>A content store operation that keeps what it has written when it raises.\<close>

definition run_content :: "(content \<Rightarrow> content \<times> (py_error + 'a)) \<Rightarrow> (manager, 'a) action" where
  "run_content f m = (case f (mg_content m) of (ct, r) \<Rightarrow> (m\<lparr>mg_content := ct\<rparr>, r))"

definition emit :: "time \<Rightarrow> transition_event \<Rightarrow> (manager, unit) action" where
  "emit now ev = on_db (\<lambda>d. fst (append_events now [ev] d))"

definition queue_from_label :: "string option \<Rightarrow> string option" where
  "queue_from_label label =
     (case label of None \<Rightarrow> None | Some l \<Rightarrow> if l = [] \<or> l = ''main'' then None else Some l)"

definition all_queues :: "content \<Rightarrow> string option list" where
  "all_queues ct =
     None # map (\<lambda>(name, _, _). Some name) (filter (\<lambda>(_, _, off). \<not> off) (list_playlists (ct_queues ct)))"

definition watch_armed :: "manager \<Rightarrow> string \<Rightarrow> bool" where
  "watch_armed m label = dget_or (mg_watch m) label False"

section \<open>Briefs as the handlers read them\<close>

definition task_meta :: "content \<Rightarrow> string \<Rightarrow> string option \<Rightarrow> py_error + meta" where
  "task_meta ct task queue =
     (case brief_at ct (tasks_rel queue) task of
        None \<Rightarrow> Inr []
      | Some text \<Rightarrow> bind_result (split_frontmatter text) (\<lambda>(m, _). Inr m))"

definition task_is_failed :: "content \<Rightarrow> string option \<Rightarrow> string \<Rightarrow> py_error + bool" where
  "task_is_failed ct queue task =
     (case brief_at ct (tasks_rel queue) task of
        None \<Rightarrow> Inr False
      | Some text \<Rightarrow>
          if \<not> py_startswith text ''---'' then Inr False
          else bind_result (split_frontmatter text) (\<lambda>(m, _). Inr (is_failed m)))"

text \<open>\<open>meta.get(k) == v\<close> for a string \<open>v\<close>.\<close>

definition meta_is :: "meta \<Rightarrow> string \<Rightarrow> string \<Rightarrow> bool" where
  "meta_is m k v \<longleftrightarrow> dget m k = Some (SStr v)"

definition is_ci_fix_task :: "content \<Rightarrow> repo_ci_row list \<Rightarrow> task_candidate \<Rightarrow> py_error + bool" where
  "is_ci_fix_task ct rows cand =
     (case tc_repo cand of
        None \<Rightarrow> Inr False
      | Some repo \<Rightarrow>
          (case find_row ci_repo repo rows of
             None \<Rightarrow> Inr False
           | Some row \<Rightarrow>
               if repo = [] \<or> ci_fix_task row = None \<or> ci_fix_task row = Some []
                  \<or> ci_fix_task row \<noteq> Some (tc_task cand)
               then Inr False
               else bind_result (task_meta ct (tc_task cand) (tc_queue cand))
                 (\<lambda>m. Inr (meta_is m ''kind'' ''ci_resolution'' \<and> meta_is m ''repo'' repo))))"

definition open_ci_fix_briefs :: "content \<Rightarrow> string \<Rightarrow> string option list \<Rightarrow> py_error + (string \<times> string option) list" where
  "open_ci_fix_briefs ct repo queues =
     bind_result
       (map_result (\<lambda>(queue, stem, text). bind_result (brief_meta text) (\<lambda>m.
          Inr (if meta_is m ''kind'' ''ci_resolution'' \<and> meta_is m ''repo'' repo \<and>
                  \<not> (is_completed m \<or> is_quarantined m \<or> is_failed m \<or> is_disabled m)
               then [(stem, queue)] else [])))
         (concat (map (\<lambda>q. map (\<lambda>(stem, text). (q, stem, text)) (qd_briefs (queue_at ct (tasks_rel q)))) queues)))
       (\<lambda>rows. Inr (sort_key (\<lambda>(task, queue). (queue_label queue, task)) (concat rows)))"

section \<open>Content store jobs\<close>

definition set_frontmatter_flag_job ::
  "env \<Rightarrow> string option \<Rightarrow> string \<Rightarrow> frontmatter_flag \<Rightarrow> (manager, unit) action" where
  "set_frontmatter_flag_job env queue task flag =
     act_bind
       (run_content (\<lambda>ct. set_task_meta (en_operator_default env) ct (tasks_rel queue) task
          ((flag_key flag, Some (SBool (flag_value flag))) #
            (case flag_reason_key flag of
               None \<Rightarrow> []
             | Some k \<Rightarrow> if k = [] then []
                 else [(k, if flag_value flag then map_option SStr (flag_reason flag) else None)]))))
       (\<lambda>_. answer ())"

definition set_engine_meta_job ::
  "env \<Rightarrow> string option \<Rightarrow> string \<Rightarrow> meta_changes \<Rightarrow> (manager, unit) action" where
  "set_engine_meta_job env queue task changes =
     act_bind
       (run_content (\<lambda>ct. set_engine_meta (en_operator_default env) ct (tasks_rel queue) task changes))
       (\<lambda>_. answer ())"

definition write_artifact_job :: "string option \<Rightarrow> string \<Rightarrow> string \<Rightarrow> string \<Rightarrow> (manager, unit) action" where
  "write_artifact_job queue task name text =
     run_content (\<lambda>ct. (write_artifact ct (tasks_rel queue) task name text, Inr ()))"

definition workflow_reset_job :: "env \<Rightarrow> string option \<Rightarrow> string \<Rightarrow> (manager, unit) action" where
  "workflow_reset_job env queue task =
     act_bind (set_engine_meta_job env queue task
        [(''workflow_step'', None), (''workflow_visits'', None), (''docs_pin'', None)])
       (\<lambda>_. run_content (\<lambda>ct. (snd (delete_artifacts ct (tasks_rel queue) task), Inr ())))"

text \<open>\<open>rmtree\<close> and \<open>unlink\<close> of an existing brief do not raise.\<close>

definition drop_brief_job :: "env \<Rightarrow> string option \<Rightarrow> string \<Rightarrow> (manager, unit) action" where
  "drop_brief_job env queue task =
     run_content (\<lambda>ct. (snd (drop_completed_task (en_ftext env) ct (tasks_rel queue) task), Inr ()))"

text \<open>The engine keys are written as the transition names them.\<close>

fun meta_change :: "pyval \<Rightarrow> scalar option" where
  "meta_change PNone = None"
| "meta_change (PBool b) = Some (SBool b)"
| "meta_change (PInt i) = Some (SInt i)"
| "meta_change (PStr s) = Some (SStr s)"
| "meta_change v = None"

section \<open>Resolves\<close>

definition active_resolves :: "io \<Rightarrow> (string \<times> string) list \<Rightarrow> string \<Rightarrow> nat" where
  "active_resolves io rs repo = length (filter (\<lambda>(child, r). r = repo \<and> io_alive io child) rs)"

definition reap_finished_resolves :: "io \<Rightarrow> (string \<times> string) list \<Rightarrow> (string \<times> string) list" where
  "reap_finished_resolves io rs = filter (\<lambda>(child, _). io_alive io child) rs"

definition resolve_cols :: "env \<Rightarrow> string \<Rightarrow> string \<Rightarrow> pydict" where
  "resolve_cols env repo title =
     [(''backend'', cf_resolve_backend (en_cfg env)), (''model'', cf_resolve_model (en_cfg env)),
      (''base_ref'', PNone), (''title'', PStr title), (''repo'', PStr repo)]"

text \<open>\<open>(started, child id)\<close>; a process that cannot be spawned fails its attempt.\<close>

definition start_resolve ::
  "env \<Rightarrow> io \<Rightarrow> string \<Rightarrow> string option \<Rightarrow> string \<Rightarrow> string \<Rightarrow> (manager, bool \<times> string option) action" where
  "start_resolve env io task queue repo title =
     act_bind (change (\<lambda>m. m\<lparr>mg_resolves := reap_finished_resolves io (mg_resolves m)\<rparr>)) (\<lambda>_.
     act_bind (compute (\<lambda>m. Inr (active_resolves io (mg_resolves m) repo))) (\<lambda>running.
       if max 1 (cf_max_concurrent_resolves (en_cfg env)) \<le> int running then answer (False, None)
       else
         act_bind (run_db (create_attempt (io_now io)
           \<lparr>aa_id = io_child_id io, aa_task = task, aa_queue = queue, aa_worker_id = Some RESOLVE_WORKER_ID,
            aa_ttl_seconds = 0, aa_state = AS_RESOLVING, aa_cols = resolve_cols env repo title\<rparr>)) (\<lambda>_.
         if io_spawned io then
           act_bind (change (\<lambda>m. m\<lparr>mg_resolves := dset (mg_resolves m) (io_child_id io) repo\<rparr>)) (\<lambda>_.
           act_bind (emit (io_now io) (event ''run_started'' (Some (io_child_id io)) queue (Some task)
             (Some [(''task'', PStr task), (''resolve'', PBool True)]))) (\<lambda>_.
             answer (True, Some (io_child_id io))))
         else
           act_bind (run_db (\<lambda>d. bind_result (update_attempt (io_now io) (io_child_id io) (Some AS_FAILED)
              [(''result_line'', PStr ''failed to launch resolver process''),
               (''failure_kind'', pkind (Some WORKER_LAUNCH))] d) (\<lambda>d'. Inr (d', ())))) (\<lambda>_.
             answer (False, Some (io_child_id io))))))"

section \<open>The effects of a transition, in their order\<close>

datatype effect_step =
    ES_FLAG frontmatter_flag
  | ES_ARTIFACT string string
  | ES_RESET
  | ES_META pydict
  | ES_WATCH bool
  | ES_PAUSE string
  | ES_COOLDOWN
  | ES_DROP
  | ES_IDLE
  | ES_RESOLVE

definition effect_plan :: "task_effects \<Rightarrow> bool \<Rightarrow> effect_step list" where
  "effect_plan e set_idle =
     map ES_FLAG (te_frontmatter e) @
     (case te_write_artifact e of None \<Rightarrow> [] | Some (name, text) \<Rightarrow> [ES_ARTIFACT name text]) @
     (if te_workflow_reset e then [ES_RESET]
      else case te_engine_meta e of None \<Rightarrow> [] | Some changes \<Rightarrow> [ES_META changes]) @
     (case te_watch_armed e of None \<Rightarrow> [] | Some b \<Rightarrow> [ES_WATCH b]) @
     (case te_pause_queue e of None \<Rightarrow> [] | Some reason \<Rightarrow> [ES_PAUSE reason]) @
     (if te_worker_cooldown e then [ES_COOLDOWN] else []) @
     (if te_drop_brief e then [ES_DROP] else []) @
     (if set_idle then [ES_IDLE] else []) @
     (if te_start_resolve e then [ES_RESOLVE] else [])"

definition WORKER_COOLDOWN_SECONDS :: rat where
  "WORKER_COOLDOWN_SECONDS = 300"

text \<open>The attempt a submit is about.\<close>

record submit_ctx =
  cx_queue :: "string option"
  cx_task :: string
  cx_worker :: string
  cx_repo :: string
  cx_title :: string

definition set_idle :: "time \<Rightarrow> string \<Rightarrow> (manager, unit) action" where
  "set_idle now wid = on_db (set_worker_status now wid ''idle'' None None None)"

definition set_busy :: "time \<Rightarrow> string \<Rightarrow> string \<Rightarrow> string option \<Rightarrow> string \<Rightarrow> (manager, unit) action" where
  "set_busy now wid task queue rid = on_db (set_worker_status now wid ''busy'' (Some task) queue (Some rid))"

text \<open>An effect and what it adds to the response.\<close>

fun run_effect :: "env \<Rightarrow> io \<Rightarrow> submit_ctx \<Rightarrow> effect_step \<Rightarrow> (manager, (string \<times> pyval) list) action" where
  "run_effect env io cx (ES_FLAG flag) =
     act_bind (set_frontmatter_flag_job env (cx_queue cx) (cx_task cx) flag) (\<lambda>_. answer [])"
| "run_effect env io cx (ES_ARTIFACT name text) =
     act_bind (write_artifact_job (cx_queue cx) (cx_task cx) name text) (\<lambda>_. answer [])"
| "run_effect env io cx ES_RESET =
     act_bind (workflow_reset_job env (cx_queue cx) (cx_task cx)) (\<lambda>_. answer [])"
| "run_effect env io cx (ES_META changes) =
     act_bind (set_engine_meta_job env (cx_queue cx) (cx_task cx) (map (\<lambda>(k, v). (k, meta_change v)) changes))
       (\<lambda>_. answer [])"
| "run_effect env io cx (ES_WATCH armed) =
     act_bind (change (\<lambda>m. m\<lparr>mg_watch := dset (mg_watch m) (queue_label (cx_queue cx)) armed\<rparr>)) (\<lambda>_. answer [])"
| "run_effect env io cx (ES_PAUSE reason) =
     act_bind (on_db (set_queue_pause (io_now io) (queue_label (cx_queue cx)) (Some reason))) (\<lambda>_. answer [])"
| "run_effect env io cx ES_COOLDOWN =
     act_bind (change (\<lambda>m. m\<lparr>mg_cooldowns := dset (mg_cooldowns m) (cx_worker cx, queue_label (cx_queue cx))
         (io_now io + WORKER_COOLDOWN_SECONDS)\<rparr>)) (\<lambda>_. answer [])"
| "run_effect env io cx ES_DROP =
     act_bind (suppress (drop_brief_job env (cx_queue cx) (cx_task cx))) (\<lambda>_. answer [])"
| "run_effect env io cx ES_IDLE = act_bind (set_idle (io_now io) (cx_worker cx)) (\<lambda>_. answer [])"
| "run_effect env io cx ES_RESOLVE =
     act_bind (start_resolve env io (cx_task cx) (cx_queue cx) (cx_repo cx) (cx_title cx))
       (\<lambda>(started, _). answer [(''resolving'', PBool started)])"

text \<open>\<open>_finish\<close>: the compare-and-swap, then the effects; no answer when the swap is refused.\<close>

definition finish ::
  "env \<Rightarrow> io \<Rightarrow> submit_ctx \<Rightarrow> transition \<Rightarrow> bool \<Rightarrow> attempt_state \<Rightarrow> (manager, pydict option) action" where
  "finish env io cx t idle expected =
     act_bind (run_db (apply_transition (io_now io) t expected (Some (cx_worker cx)))) (\<lambda>ids.
       case ids of
         None \<Rightarrow> answer None
       | Some _ \<Rightarrow>
           act_bind (act_each (run_effect env io cx) (effect_plan (t_effects t) idle)) (\<lambda>extra.
             answer (Some (set_columns extra (t_response t)))))"

end
