(* ===== verification/Models.thy ===== *)
theory Models
  imports Task_Files
begin

text \<open>
  Model identifiers (\<^verbatim>\<open>src/nightshift/model_id.py\<close>), the price table and the
  cost of a run (\<^verbatim>\<open>src/nightshift/price.py\<close>), and which credential a run
  spends (\<^verbatim>\<open>src/nightshift/billing.py\<close>). A rate is an exact rational. The
  answer of the authentication probe is an input.
\<close>

section \<open>Model identifiers\<close>

definition AGNOSTIC :: "string list" where
  "AGNOSTIC = [''auto'', ''max'', ''default'', []]"

definition split_model :: "string option \<Rightarrow> string option \<times> string" where
  "split_model model_id =
     (let text = py_strip (case model_id of None \<Rightarrow> [] | Some s \<Rightarrow> s) in
      if py_lower text \<in> set AGNOSTIC then (None, text)
      else case py_partition (CHR ''/'') text of
          (provider, sep, model) \<Rightarrow> if \<not> sep then (None, text) else (Some (py_strip provider), py_strip model))"

definition provider_of :: "string option \<Rightarrow> string option" where
  "provider_of model_id = fst (split_model model_id)"

definition is_qualified :: "string option \<Rightarrow> bool" where
  "is_qualified model_id \<longleftrightarrow> provider_of model_id \<noteq> None"

definition join_model :: "string \<Rightarrow> string \<Rightarrow> py_error + string" where
  "join_model provider model =
     (if provider = [] \<or> model = [] then Inl (ValueError ''provider and model must both be non-empty'')
      else Inr (provider @ ''/'' @ model))"

section \<open>Rates\<close>

definition RATES :: "(string \<times> rat \<times> rat) list" where
  "RATES =
    [(''claude-opus-4-8'', 5, 25), (''claude-opus-4-8-fast'', 10, 50),
     (''claude-opus-4-7'', 5, 25), (''claude-opus-4-7-fast'', 30, 150),
     (''claude-opus-4-6'', 5, 25), (''claude-opus-4-5'', 5, 25), (''claude-opus-4-1'', 15, 75),
     (''claude-opus-4'', 15, 75), (''claude-sonnet-5'', 2, 10), (''claude-sonnet-4-6'', 3, 15),
     (''claude-sonnet-4-5'', 3, 15), (''claude-sonnet-4'', 3, 15), (''claude-haiku-4-5'', 1, 5),
     (''claude-3-5-haiku'', 4 / 5, 4), (''claude-3-5-sonnet'', 3, 15),
     (''claude-fable-5'', 10, 50), (''composer-2.5'', 1 / 2, 5 / 2),
     (''composer-2.5-fast'', 3, 15), (''cursor-composer-2.5'', 1 / 2, 5 / 2),
     (''cursor-composer-2.5-fast'', 3, 15), (''composer-1'', 5 / 4, 10),
     (''cursor-grok-4.5'', 2, 6), (''cursor-grok-4.5-fast'', 4, 18), (''grok-4.5'', 2, 6),
     (''grok-4.5-fast'', 4, 18), (''auto-cost'', 5 / 4, 6), (''gpt-5.6-luna'', 1, 6),
     (''gpt-5.6-luna-fast'', 2, 12), (''gpt-5.6-terra'', 5 / 2, 15), (''gpt-5.6-sol'', 5, 30),
     (''gpt-5.5'', 5, 30), (''gpt-5.4'', 5 / 2, 15), (''gpt-5.4-mini'', 3 / 4, 9 / 2),
     (''gpt-5.4-nano'', 1 / 5, 5 / 4), (''gpt-5'', 5 / 4, 10), (''gpt-5-mini'', 1 / 4, 2),
     (''gpt-5-codex'', 5 / 4, 10), (''gpt-5.3-codex'', 7 / 4, 14),
     (''gemini-3.6-flash'', 3 / 2, 15 / 2), (''gemini-3.5-flash'', 3 / 2, 9),
     (''gemini-3.5-flash-lite'', 3 / 10, 5 / 2), (''gemini-3.1-pro'', 2, 12),
     (''gemini-3-flash'', 1 / 2, 3), (''gemini-3-pro'', 2, 12),
     (''gemini-2.5-flash'', 3 / 10, 5 / 2), (''kimi-k2.7-code'', 19 / 20, 4),
     (''kimi-k2.6'', 19 / 20, 4), (''kimi-k2.5'', 3 / 5, 3),
     (''deepseek-v4-pro'', 87 / 200, 87 / 100), (''deepseek-v4-flash'', 7 / 50, 7 / 25),
     (''gpt-oss:120b'', 1 / 25, 9 / 50), (''gpt-oss:20b'', 3 / 100, 7 / 50),
     (''gpt-oss'', 1 / 25, 9 / 50)]"

definition CACHE_WRITE_MULT :: rat where "CACHE_WRITE_MULT = 5 / 4"
definition CACHE_READ_MULT :: rat where "CACHE_READ_MULT = 1 / 10"
definition PER_MILLION :: rat where "PER_MILLION = 1000000"

definition EFFORT_SUFFIXES :: "string list" where
  "EFFORT_SUFFIXES = [''-high'', ''-medium'', ''-low'']"

definition py_endswith :: "string \<Rightarrow> string \<Rightarrow> bool" where
  "py_endswith s suf \<longleftrightarrow> length suf \<le> length s \<and> drop (length s - length suf) s = suf"

text \<open>The loop that peels vendor segments; every round drops at least the slash.\<close>

lemma length_py_strip: "length (py_strip s) \<le> length s"
  by (simp add: py_strip_of_def) (metis length_dropWhile_le length_rev le_trans)

lemma py_partition_length:
  "py_partition c s = (a, True, b) \<Longrightarrow> length s = length a + length b + 1"
  by (induction s arbitrary: a b) (auto split: if_splits prod.splits)

lemma slash_in_strip: "CHR ''/'' \<in> set s \<Longrightarrow> CHR ''/'' \<in> set (py_strip s)"
proof -
  assume slash: "CHR ''/'' \<in> set s"
  have keep: "CHR ''/'' \<in> set (dropWhile is_space t)" if "CHR ''/'' \<in> set t" for t
    using that by (induction t) (auto simp: is_space_def)
  show ?thesis using keep [OF slash] keep [of "rev (dropWhile is_space s)"] by (simp add: py_strip_of_def)
qed

lemma slash_not_agnostic: "CHR ''/'' \<in> set s \<Longrightarrow> py_lower s \<notin> set AGNOSTIC"
proof -
  assume slash: "CHR ''/'' \<in> set s"
  have "lower_char (CHR ''/'') = CHR ''/''" by code_simp
  then have "CHR ''/'' \<in> set (py_lower s)" unfolding py_lower_def set_map using slash by (metis imageI)
  moreover have "\<forall>w \<in> set AGNOSTIC. CHR ''/'' \<notin> set w" by code_simp
  ultimately show ?thesis by blast
qed

lemma partition_found: "py_partition c s = (a, sep, b) \<Longrightarrow> c \<in> set s \<Longrightarrow> sep"
  by (induction s arbitrary: a b) (auto split: if_splits prod.splits)

lemma split_model_shorter:
  assumes "CHR ''/'' \<in> set s"
  shows "length (snd (split_model (Some s))) < length s"
proof -
  obtain a sep b where parts: "py_partition (CHR ''/'') (py_strip s) = (a, sep, b)"
    by (cases "py_partition (CHR ''/'') (py_strip s)")
  have strip: "length (py_strip s) \<le> length s" by (rule length_py_strip)
  have in_strip: "CHR ''/'' \<in> set (py_strip s)" using assms slash_in_strip by blast
  then have not_agnostic: "py_lower (py_strip s) \<notin> set AGNOSTIC" using slash_not_agnostic by blast
  have sep: "sep" by (rule partition_found [OF parts in_strip])
  then have "length (py_strip s) = length a + length b + 1"
    using py_partition_length [of "CHR ''/''" "py_strip s" a b] parts by simp
  moreover have "length (py_strip b) \<le> length b" by (rule length_py_strip)
  ultimately show ?thesis
    using strip not_agnostic sep parts by (simp add: split_model_def Let_def)
qed

function peel_vendors :: "string \<Rightarrow> string" where
  "peel_vendors text =
     (if CHR ''/'' \<in> set text then peel_vendors (snd (split_model (Some text))) else text)"
  by pat_completeness auto
termination by (relation "measure length") (auto simp: split_model_shorter)

declare peel_vendors.simps [simp del]

definition drop_cloud :: "string \<Rightarrow> string" where
  "drop_cloud text =
     (if py_endswith text '':cloud'' then py_removesuffix text '':cloud''
      else if py_endswith text ''-cloud'' then py_removesuffix text ''-cloud'' else text)"

text \<open>\<open>text.rsplit("-", 1)\<close> when there is a dash.\<close>

definition rsplit_dash :: "string \<Rightarrow> (string \<times> string) option" where
  "rsplit_dash s =
     (if CHR ''-'' \<in> set s
      then Some (rev (tl (dropWhile (\<lambda>c. c \<noteq> CHR ''-'') (rev s))),
                 rev (takeWhile (\<lambda>c. c \<noteq> CHR ''-'') (rev s)))
      else None)"

definition drop_date :: "string \<Rightarrow> string" where
  "drop_date text =
     (case rsplit_dash text of
        None \<Rightarrow> text
      | Some (front, tail) \<Rightarrow> if py_isdigit tail \<and> length tail = 8 then front else text)"

fun drop_effort :: "string list \<Rightarrow> string \<Rightarrow> string" where
  "drop_effort [] text = text"
| "drop_effort (effort # rest) text =
     (if py_endswith text (effort @ ''-fast'') then py_removesuffix text (effort @ ''-fast'') @ ''-fast''
      else if py_endswith text effort then py_removesuffix text effort
      else drop_effort rest text)"

definition rate_key :: "string option \<Rightarrow> string" where
  "rate_key model =
     drop_effort EFFORT_SUFFIXES
       (drop_date (drop_cloud (py_lower (peel_vendors
         (py_strip (case model of None \<Rightarrow> [] | Some s \<Rightarrow> s))))))"

text \<open>\<open>int(usage.get(k, 0) or 0)\<close>.\<close>

definition token_count :: "pydict \<Rightarrow> string \<Rightarrow> py_error + int" where
  "token_count usage k =
     (case dget usage k of
        None \<Rightarrow> Inr 0
      | Some v \<Rightarrow> if truthy v then int_or_raise v else Inr 0)"

definition input_components :: "pydict \<Rightarrow> py_error + (int \<times> int \<times> int)" where
  "input_components usage =
     bind_result (token_count usage ''input_tokens'') (\<lambda>uncached.
     bind_result (token_count usage ''cache_read_input_tokens'') (\<lambda>cache_read.
     bind_result (token_count usage ''cache_creation_input_tokens'') (\<lambda>cache_creation.
       Inr (uncached, cache_read, cache_creation))))"

definition cost_of :: "string option \<Rightarrow> pydict option \<Rightarrow> py_error + rat option" where
  "cost_of model usage =
     (case usage of
        None \<Rightarrow> Inr None
      | Some u \<Rightarrow>
          (case dget RATES (rate_key model) of
             None \<Rightarrow> Inr None
           | Some (in_rate, out_rate) \<Rightarrow>
               bind_result (input_components u) (\<lambda>(uncached, cache_read, cache_creation).
               bind_result (token_count u ''output_tokens'') (\<lambda>output.
                 Inr (Some ((of_int uncached * in_rate + of_int cache_read * in_rate * CACHE_READ_MULT
                   + of_int cache_creation * in_rate * CACHE_WRITE_MULT + of_int output * out_rate)
                   / PER_MILLION))))))"

definition has_rate :: "string option \<Rightarrow> bool" where
  "has_rate model \<longleftrightarrow> dhas RATES (rate_key model)"

section \<open>Billing\<close>

definition CLAUDE_BILLING_MODES :: "string list" where
  "CLAUDE_BILLING_MODES = [''auto'', ''subscription'', ''api'']"

definition CLI_AUTH_ENV_KEYS :: "string list" where
  "CLI_AUTH_ENV_KEYS = [''ANTHROPIC_API_KEY'', ''ANTHROPIC_AUTH_TOKEN'', ''ANTHROPIC_BASE_URL'',
     ''CLAUDE_CODE_USE_BEDROCK'', ''CLAUDE_CODE_USE_VERTEX'']"

type_synonym environment = "(string \<times> string) list"

definition scrub_cli_auth :: "environment \<Rightarrow> environment" where
  "scrub_cli_auth env = filter (\<lambda>(k, _). k \<notin> set CLI_AUTH_ENV_KEYS) env"

definition normalize_mode :: "(rat \<Rightarrow> string) \<Rightarrow> pyval \<Rightarrow> py_error + string" where
  "normalize_mode ftext v =
     (if v = PNone then Inr ''auto''
      else let text = py_lower (py_strip (py_str ftext v)) in
        if text = [] then Inr ''auto''
        else if text \<notin> set CLAUDE_BILLING_MODES
          then Inl (ValueError (''claude_billing='' @ py_repr ftext v @ '' is not a valid mode (expected one of '' @
                 py_join '', '' CLAUDE_BILLING_MODES @ '')''))
        else Inr text)"

definition billing_setting :: "(rat \<Rightarrow> string) \<Rightarrow> pydict option \<Rightarrow> py_error + string" where
  "billing_setting ftext config =
     (case config of
        None \<Rightarrow> Inr ''auto'' | Some d \<Rightarrow> normalize_mode ftext (dget_or d ''claude_billing'' PNone))"

definition has_api_key :: "environment \<Rightarrow> bool" where
  "has_api_key env \<longleftrightarrow> py_strip (dget_or env ''ANTHROPIC_API_KEY'' []) \<noteq> []"

definition is_claude_login :: "pydict option \<Rightarrow> bool" where
  "is_claude_login status =
     (case status of
        None \<Rightarrow> False
      | Some d \<Rightarrow> d \<noteq> [] \<and> dget d ''loggedIn'' = Some (PBool True)
          \<and> dget d ''authMethod'' = Some (PStr ''claude.ai''))"

text \<open>The decision and the line it logs. The probe answers for the environment it is given.\<close>

record billing_decision =
  bd_mode :: string
  bd_reason :: string
  bd_env :: environment
  bd_probe_failed :: "bool option"

definition decide_claude_billing ::
  "(rat \<Rightarrow> string) \<Rightarrow> (environment \<Rightarrow> pydict option) \<Rightarrow> pyval \<Rightarrow> environment \<Rightarrow> py_error + billing_decision" where
  "decide_claude_billing ftext probe setting env =
     bind_result (normalize_mode ftext setting) (\<lambda>mode.
       if mode = ''subscription'' then
         Inr \<lparr>bd_mode = ''subscription'', bd_reason = ''claude_billing=subscription'',
              bd_env = scrub_cli_auth env, bd_probe_failed = None\<rparr>
       else if mode = ''api'' then
         (if \<not> has_api_key env then
            Inl (ValueError (''claude_billing=api but ANTHROPIC_API_KEY is not set '' @
              ''(add it to .env or set claude_billing to subscription/auto)''))
          else Inr \<lparr>bd_mode = ''api'', bd_reason = ''claude_billing=api'', bd_env = env, bd_probe_failed = None\<rparr>)
       else
         (let scrubbed = scrub_cli_auth env; status = probe scrubbed in
          if is_claude_login status then
            Inr \<lparr>bd_mode = ''subscription'',
                 bd_reason = (case dget (case status of Some d \<Rightarrow> d | None \<Rightarrow> []) ''subscriptionType'' of
                     Some plan \<Rightarrow> if truthy plan then ''claude.ai login ('' @ py_str ftext plan @ '')''
                       else ''claude.ai login''
                   | None \<Rightarrow> ''claude.ai login''),
                 bd_env = scrubbed, bd_probe_failed = None\<rparr>
          else if has_api_key env then
            Inr \<lparr>bd_mode = ''api'',
                 bd_reason = (if status = None then ''auto: auth probe unreadable, ANTHROPIC_API_KEY present''
                   else ''auto: not logged in, ANTHROPIC_API_KEY present''),
                 bd_env = env, bd_probe_failed = Some (status = None)\<rparr>
          else Inl (ValueError (''claude_billing=auto found neither a claude.ai login nor an '' @
            ''ANTHROPIC_API_KEY (run `claude login` for the subscription, or add '' @
            ''ANTHROPIC_API_KEY to .env and set claude_billing=api)''))))"

section \<open>What the identifiers and prices promise\<close>

lemma partition_absent: "c \<notin> set s \<Longrightarrow> py_partition c s = (s, False, [])"
  by (induction s) auto

lemma partition_at: "c \<notin> set a \<Longrightarrow> py_partition c (a @ c # b) = (a, True, b)"
  by (induction a) auto

lemma split_join_model:
  assumes "py_strip p = p" "py_strip m = m" "CHR ''/'' \<notin> set p" "join_model p m = Inr model_id"
  shows "split_model (Some model_id) = (Some p, m)"
proof -
  have id: "model_id = p @ CHR ''/'' # m" and nonempty: "p \<noteq> []" "m \<noteq> []"
    using assms(4) by (auto simp: join_model_def split: if_splits)
  have ends: "\<not> is_space (hd p)" "\<not> is_space (last m)"
    using py_strip_of_ends [of is_space p] py_strip_of_ends [of is_space m] assms(1,2) nonempty by auto
  have strip: "py_strip model_id = model_id"
    by (rule py_strip_of_id) (use id ends nonempty in simp)
  have "CHR ''/'' \<in> set (py_strip model_id)" using id strip by simp
  then have "py_lower (py_strip model_id) \<notin> set AGNOSTIC" by (rule slash_not_agnostic)
  then show ?thesis
    using strip partition_at [OF assms(3), of m] id assms(1,2) by (simp add: split_model_def Let_def)
qed

text \<open>A qualified model id that was joined from a provider and a model splits back into the two,
  whatever slashes and colons the model has.\<close>

theorem model_id_roundtrip:
  assumes "py_strip provider = provider" "py_strip model = model" "CHR ''/'' \<notin> set provider"
    and "join_model provider model = Inr model_id"
  shows "split_model (Some model_id) = (Some provider, model) \<and> provider_of (Some model_id) = Some provider \<and>
    is_qualified (Some model_id)"
  using split_join_model [OF assms] by (simp add: provider_of_def is_qualified_def)

lemma model_id_roundtrip_witness:
  "split_model (Some ''ollama/hf.co/user/repo'') = (Some ''ollama'', ''hf.co/user/repo'')"
proof -
  have "py_strip ''ollama'' = ''ollama''" "py_strip ''hf.co/user/repo'' = ''hf.co/user/repo''"
    "CHR ''/'' \<notin> set ''ollama''" "join_model ''ollama'' ''hf.co/user/repo'' = Inr ''ollama/hf.co/user/repo''"
    by code_simp+
  from model_id_roundtrip [OF this] show ?thesis by blast
qed

section \<open>Rate keys\<close>

lemma of_char_slash: "of_char (CHR ''/'') = (47 :: nat)" by code_simp

lemma rates_nonneg: "\<forall>(k, a, b) \<in> set RATES. 0 \<le> a \<and> 0 \<le> b" by (simp add: RATES_def)

lemma peel_vendors_bare: "CHR ''/'' \<notin> set (peel_vendors s)"
proof (induction s rule: peel_vendors.induct)
  case (1 s)
  then show ?case by (simp add: peel_vendors.simps [of s])
qed

lemma slash_py_lower: "CHR ''/'' \<notin> set s \<Longrightarrow> CHR ''/'' \<notin> set (py_lower s)"
proof -
  assume bare: "CHR ''/'' \<notin> set s"
  have "lower_char c \<noteq> CHR ''/''" if "c \<noteq> CHR ''/''" for c
  proof -
    have "of_char (lower_char c) \<noteq> (47 :: nat)"
    proof (cases "of_char c = (47 :: nat)")
      case True
      then have "c = CHR ''/''" by (metis char_of_char of_char_slash)
      then show ?thesis using that by simp
    next
      case False
      have "of_char c < (256 :: nat)" by simp
      then show ?thesis using False by (auto simp: lower_char_def Let_def of_char_of)
    qed
    then show ?thesis by (metis of_char_slash)
  qed
  then show ?thesis using bare by (force simp: py_lower_def)
qed

lemma set_py_removesuffix: "set (py_removesuffix s suf) \<subseteq> set s"
  by (auto simp: py_removesuffix_def dest: in_set_takeD)

lemma drop_effort_bare: "CHR ''/'' \<notin> set s \<Longrightarrow> CHR ''/'' \<notin> set (drop_effort es s)"
proof (induction es)
  case (Cons effort es)
  have "CHR ''/'' \<notin> set (py_removesuffix s suf)" for suf using Cons.prems set_py_removesuffix by blast
  then show ?case using Cons by simp
qed simp

text \<open>The key a model is priced under is found in finitely many steps, however many vendor segments
  the id has, and holds no segment any more.\<close>

theorem rate_key_bare: "CHR ''/'' \<notin> set (rate_key model)"
proof -
  have "CHR ''/'' \<notin> set (py_lower (peel_vendors t))" for t using slash_py_lower peel_vendors_bare by blast
  then have cloud: "CHR ''/'' \<notin> set (drop_cloud (py_lower (peel_vendors t)))" for t
    using set_py_removesuffix by (auto simp: drop_cloud_def)
  have shorter: "set (tl (dropWhile p (rev s))) \<subseteq> set s" for p and s :: string
  proof (cases "dropWhile p (rev s)")
    case (Cons c cs)
    then have "set (c # cs) \<subseteq> set (rev s)" by (metis set_dropWhileD subsetI)
    then show ?thesis using Cons by auto
  next
    case Nil
    show ?thesis unfolding Nil by simp
  qed
  then have date: "set (drop_date s) \<subseteq> set s" for s
    by (auto simp: drop_date_def rsplit_dash_def split: option.split)
  show ?thesis unfolding rate_key_def
    by (rule drop_effort_bare) (use cloud date in blast)
qed

section \<open>Costs\<close>

definition usage_sum :: "pydict \<Rightarrow> pydict \<Rightarrow> pydict \<Rightarrow> bool" where
  "usage_sum u v w \<longleftrightarrow>
     (\<forall>k \<in> {''input_tokens'', ''cache_read_input_tokens'', ''cache_creation_input_tokens'', ''output_tokens''}.
        case (token_count u k, token_count v k) of
          (Inr a, Inr b) \<Rightarrow> 0 \<le> a \<and> 0 \<le> b \<and> token_count w k = Inr (a + b)
        | _ \<Rightarrow> False)"

text \<open>The cost of a run is the sum of the costs of its parts and never negative, and a model without
  a rate has no cost instead of a cost of zero.\<close>

theorem cost_adds_up:
  assumes "usage_sum u v w"
  shows "(has_rate model \<longrightarrow> (\<exists>p q. 0 \<le> p \<and> 0 \<le> q \<and> cost_of model (Some u) = Inr (Some p) \<and>
      cost_of model (Some v) = Inr (Some q) \<and> cost_of model (Some w) = Inr (Some (p + q)))) \<and>
    (\<not> has_rate model \<longrightarrow> cost_of model (Some w) = Inr None)"
proof (cases "dget RATES (rate_key model)")
  case None
  then show ?thesis by (simp add: has_rate_def dhas_iff_dget cost_of_def)
next
  case (Some rates)
  obtain ri ro where r: "rates = (ri, ro)" by (cases rates)
  have "(rate_key model, ri, ro) \<in> set RATES" using Some r map_of_SomeD by fast
  then have nonneg: "0 \<le> ri" "0 \<le> ro" using rates_nonneg by fastforce+
  have count: "\<exists>a b. token_count u k = Inr a \<and> token_count v k = Inr b \<and> 0 \<le> a \<and> 0 \<le> b \<and>
      token_count w k = Inr (a + b)"
    if "k \<in> {''input_tokens'', ''cache_read_input_tokens'', ''cache_creation_input_tokens'', ''output_tokens''}" for k
    using assms that unfolding usage_sum_def by (fastforce split: sum.splits)
  obtain i i' where i: "token_count u ''input_tokens'' = Inr i" "token_count v ''input_tokens'' = Inr i'"
    "0 \<le> i" "0 \<le> i'" "token_count w ''input_tokens'' = Inr (i + i')" using count [of "''input_tokens''"] by auto
  obtain c c' where c: "token_count u ''cache_read_input_tokens'' = Inr c"
    "token_count v ''cache_read_input_tokens'' = Inr c'" "0 \<le> c" "0 \<le> c'"
    "token_count w ''cache_read_input_tokens'' = Inr (c + c')" using count [of "''cache_read_input_tokens''"] by auto
  obtain d d' where d: "token_count u ''cache_creation_input_tokens'' = Inr d"
    "token_count v ''cache_creation_input_tokens'' = Inr d'" "0 \<le> d" "0 \<le> d'"
    "token_count w ''cache_creation_input_tokens'' = Inr (d + d')"
    using count [of "''cache_creation_input_tokens''"] by auto
  obtain e e' where e: "token_count u ''output_tokens'' = Inr e" "token_count v ''output_tokens'' = Inr e'"
    "0 \<le> e" "0 \<le> e'" "token_count w ''output_tokens'' = Inr (e + e')" using count [of "''output_tokens''"] by auto
  let ?cost = "\<lambda>i c d e. (of_int i * ri + of_int c * ri * CACHE_READ_MULT + of_int d * ri * CACHE_WRITE_MULT
      + of_int e * ro) / PER_MILLION"
  have "cost_of model (Some u) = Inr (Some (?cost i c d e))" "cost_of model (Some v) = Inr (Some (?cost i' c' d' e'))"
    "cost_of model (Some w) = Inr (Some (?cost (i + i') (c + c') (d + d') (e + e')))"
    using Some r i c d e by (simp_all add: cost_of_def input_components_def)
  moreover have "?cost (i + i') (c + c') (d + d') (e + e') = ?cost i c d e + ?cost i' c' d' e'"
    by (simp add: algebra_simps add_divide_distrib)
  moreover have "0 \<le> ?cost i c d e" "0 \<le> ?cost i' c' d' e'"
    using i c d e nonneg by (simp_all add: CACHE_READ_MULT_def CACHE_WRITE_MULT_def PER_MILLION_def)
  ultimately show ?thesis using Some by (auto simp: has_rate_def dhas_iff_dget)
qed

lemma cost_adds_up_witness:
  "\<exists>p. cost_of (Some ''anthropic/claude-opus-4-8'') (Some [(''input_tokens'', PInt 3)]) = Inr (Some p) \<and> 0 \<le> p"
proof -
  have sum: "usage_sum [(''input_tokens'', PInt 1)] [(''input_tokens'', PInt 2)] [(''input_tokens'', PInt 3)]"
    by code_simp
  have rate: "has_rate (Some ''anthropic/claude-opus-4-8'')" by code_simp
  show ?thesis using cost_adds_up [OF sum, of "Some ''anthropic/claude-opus-4-8''"] rate by fastforce
qed

section \<open>The credential of a run\<close>

text \<open>The credential a run spends is the declared one: under a subscription no variable that could
  redirect the bill is left in the environment, under the API a key is there and the environment is
  unchanged, and a declared mode is never replaced by the other.\<close>

theorem billing_spends_what_was_declared:
  assumes "decide_claude_billing ftext probe setting env = Inr d" "normalize_mode ftext setting = Inr mode"
  shows "bd_mode d \<in> {''subscription'', ''api''} \<and> (mode \<noteq> ''auto'' \<longrightarrow> bd_mode d = mode) \<and>
    (bd_mode d = ''subscription'' \<longrightarrow>
       (\<forall>k \<in> set CLI_AUTH_ENV_KEYS. dget (bd_env d) k = None) \<and>
       (\<forall>k. k \<notin> set CLI_AUTH_ENV_KEYS \<longrightarrow> dget (bd_env d) k = dget env k)) \<and>
    (bd_mode d = ''api'' \<longrightarrow> has_api_key (bd_env d) \<and> bd_env d = env)"
proof -
  have scrub: "dget (scrub_cli_auth env) k = (if k \<in> set CLI_AUTH_ENV_KEYS then None else dget env k)" for k
    unfolding scrub_cli_auth_def by (induction env) auto
  have modes: "mode \<in> {''auto'', ''subscription'', ''api''}"
    using assms(2) by (auto simp: normalize_mode_def Let_def CLAUDE_BILLING_MODES_def split: if_splits)
  show ?thesis
    using assms modes scrub by (auto simp: decide_claude_billing_def Let_def split: if_splits)
qed

lemma billing_witness:
  "\<exists>d. decide_claude_billing (\<lambda>_. []) (\<lambda>_. None) (PStr ''Subscription'') [(''ANTHROPIC_API_KEY'', ''k''), (''HOME'', ''/'')] = Inr d \<and>
     dget (bd_env d) ''ANTHROPIC_API_KEY'' = None"
proof -
  let ?env = "[(''ANTHROPIC_API_KEY'', ''k''), (''HOME'', ''/'')]"
  have mode: "normalize_mode (\<lambda>_. []) (PStr ''Subscription'') = Inr ''subscription''" by code_simp
  obtain d where d: "decide_claude_billing (\<lambda>_. []) (\<lambda>_. None) (PStr ''Subscription'') ?env = Inr d"
    using mode by (simp add: decide_claude_billing_def)
  have key: "''ANTHROPIC_API_KEY'' \<in> set CLI_AUTH_ENV_KEYS" by (simp add: CLI_AUTH_ENV_KEYS_def)
  show ?thesis using billing_spends_what_was_declared [OF d mode] d key by auto
qed

end
