(* ===== verification/Shell_Words.thy ===== *)
theory Shell_Words
  imports Task_Files
begin

text \<open>
  The commands of a queue on their way to a worker: the validate and preflight commands of
  \<^verbatim>\<open>src/nightshift/queue_config.py\<close> and \<^verbatim>\<open>src/nightshift/preflight.py\<close>,
  split, joined and quoted as the standard library's \<^verbatim>\<open>shlex\<close> does for a POSIX shell.
\<close>

section \<open>Splitting and quoting\<close>

datatype shell_state = BETWEEN | WORD | QUOTE char | ESCAPE "char option"

definition shell_space :: "char \<Rightarrow> bool" where
  "shell_space c \<longleftrightarrow> c \<in> {CHR '' '', CHR 0x09, CHR 0x0D, newline}"

definition is_shell_quote :: "char \<Rightarrow> bool" where
  "is_shell_quote c \<longleftrightarrow> c = CHR 0x27 \<or> c = CHR 0x22"

abbreviation backslash :: char where "backslash \<equiv> CHR 0x5C"

text \<open>The token so far is reversed; the flag says that the token had a quoted part.\<close>

definition emit_word :: "string \<Rightarrow> bool \<Rightarrow> string list" where
  "emit_word tok quoted = (if tok = [] \<and> \<not> quoted then [] else [rev tok])"

fun shell_split :: "shell_state \<Rightarrow> string \<Rightarrow> bool \<Rightarrow> string \<Rightarrow> py_error + string list" where
  "shell_split (QUOTE d) tok q [] = Inl (ValueError ''No closing quotation'')"
| "shell_split (ESCAPE d) tok q [] = Inl (ValueError ''No escaped character'')"
| "shell_split BETWEEN tok q [] = Inr (emit_word tok q)"
| "shell_split WORD tok q [] = Inr (emit_word tok q)"
| "shell_split (QUOTE d) tok q (c # cs) =
     (if c = d then shell_split WORD tok True cs
      else if c = backslash \<and> d = CHR 0x22 then shell_split (ESCAPE (Some d)) tok True cs
      else shell_split (QUOTE d) (c # tok) True cs)"
| "shell_split (ESCAPE d) tok q (c # cs) =
     (case d of
        None \<Rightarrow> shell_split WORD (c # tok) q cs
      | Some d' \<Rightarrow> shell_split (QUOTE d')
          (if c \<noteq> backslash \<and> c \<noteq> d' then c # backslash # tok else c # tok) q cs)"
| "shell_split BETWEEN tok q (c # cs) =
     (if shell_space c then shell_split BETWEEN tok q cs
      else if c = backslash then shell_split (ESCAPE None) tok q cs
      else if is_shell_quote c then shell_split (QUOTE c) tok q cs
      else shell_split WORD (c # tok) q cs)"
| "shell_split WORD tok q (c # cs) =
     (if shell_space c then
        (if tok = [] \<and> \<not> q then shell_split BETWEEN [] False cs
         else bind_result (shell_split BETWEEN [] False cs) (\<lambda>ws. Inr (rev tok # ws)))
      else if is_shell_quote c then shell_split (QUOTE c) tok q cs
      else if c = backslash then shell_split (ESCAPE None) tok q cs
      else shell_split WORD (c # tok) q cs)"

definition shlex_split :: "string \<Rightarrow> py_error + string list" where
  "shlex_split s = shell_split BETWEEN [] False s"

definition shell_safe :: "char \<Rightarrow> bool" where
  "shell_safe c \<longleftrightarrow> (let n = of_char c :: nat in
     (48 \<le> n \<and> n \<le> 57) \<or> (65 \<le> n \<and> n \<le> 90) \<or> (97 \<le> n \<and> n \<le> 122)) \<or> c \<in> set ''_@%+=:,./-''"

definition quote_char :: "char \<Rightarrow> string" where
  "quote_char c = (if c = CHR 0x27 then [CHR 0x27, CHR 0x22, CHR 0x27, CHR 0x22, CHR 0x27] else [c])"

definition shlex_quote :: "string \<Rightarrow> string" where
  "shlex_quote s =
     (if s \<noteq> [] \<and> (\<forall>c \<in> set s. shell_safe c) then s
      else CHR 0x27 # concat (map quote_char s) @ [CHR 0x27])"

definition shlex_join :: "string list \<Rightarrow> string" where
  "shlex_join argv = py_join '' '' (map shlex_quote argv)"

section \<open>The commands of a queue\<close>

definition DEFAULT_VALIDATE_CMD :: string where "DEFAULT_VALIDATE_CMD = ''just validate''"
definition DEFAULT_PREFLIGHT_CMD :: string where "DEFAULT_PREFLIGHT_CMD = ''uv sync --frozen''"

definition normalize_validate_command :: "string \<Rightarrow> string" where
  "normalize_validate_command value =
     (let stripped = py_strip value in
      if stripped \<in> {[], [CHR 0x27, CHR 0x27], [CHR 0x22, CHR 0x22]} then [] else stripped)"

text \<open>The two commands differ in their key and their default.\<close>

definition command_text :: "(rat \<Rightarrow> string) \<Rightarrow> pydict \<Rightarrow> string \<Rightarrow> string" where
  "command_text ftext config key =
     (case dget config key of None \<Rightarrow> [] | Some v \<Rightarrow> if truthy v then py_strip (py_str ftext v) else [])"

definition resolve_cmd :: "(rat \<Rightarrow> string) \<Rightarrow> string \<Rightarrow> string \<Rightarrow> pydict \<Rightarrow> py_error + string list option" where
  "resolve_cmd ftext key default_cmd config =
     (if \<not> dhas config key then bind_result (shlex_split default_cmd) (\<lambda>argv. Inr (Some argv))
      else if command_text ftext config key = [] then Inr None
      else bind_result (shlex_split (command_text ftext config key)) (\<lambda>argv. Inr (Some argv)))"

definition resolve_validate_cmd :: "(rat \<Rightarrow> string) \<Rightarrow> pydict \<Rightarrow> py_error + string list option" where
  "resolve_validate_cmd ftext config = resolve_cmd ftext ''validate'' DEFAULT_VALIDATE_CMD config"

definition resolve_preflight_cmd :: "(rat \<Rightarrow> string) \<Rightarrow> pydict \<Rightarrow> py_error + string list option" where
  "resolve_preflight_cmd ftext config = resolve_cmd ftext ''preflight'' DEFAULT_PREFLIGHT_CMD config"

definition format_validate_cmd :: "string list option \<Rightarrow> string" where
  "format_validate_cmd argv = (case argv of None \<Rightarrow> [] | Some words \<Rightarrow> shlex_join words)"

definition cmd_from_blob ::
  "(rat \<Rightarrow> string) \<Rightarrow> string \<Rightarrow> (pydict \<Rightarrow> py_error + string list option) \<Rightarrow> pydict \<Rightarrow>
   py_error + (string list \<times> string) option" where
  "cmd_from_blob ftext key resolve config =
     (if dhas config key then
        (if command_text ftext config key = [] then Inr None
         else bind_result (shlex_split (command_text ftext config key))
           (\<lambda>argv. Inr (Some (argv, command_text ftext config key))))
      else bind_result (resolve config) (\<lambda>argv.
        Inr (case argv of None \<Rightarrow> None | Some words \<Rightarrow> Some (words, shlex_join words))))"

definition validate_cmd_from_blob :: "(rat \<Rightarrow> string) \<Rightarrow> pydict \<Rightarrow> py_error + (string list \<times> string) option" where
  "validate_cmd_from_blob ftext config = cmd_from_blob ftext ''validate_cmd'' (resolve_validate_cmd ftext) config"

definition preflight_cmd_from_blob :: "(rat \<Rightarrow> string) \<Rightarrow> pydict \<Rightarrow> py_error + (string list \<times> string) option" where
  "preflight_cmd_from_blob ftext config = cmd_from_blob ftext ''preflight_cmd'' (resolve_preflight_cmd ftext) config"

section \<open>A joined command splits into its words\<close>

lemma shell_safe_plain: "shell_safe c \<Longrightarrow> \<not> shell_space c \<and> \<not> is_shell_quote c \<and> c \<noteq> backslash \<and> \<not> is_space c"
  by (auto simp: shell_safe_def shell_space_def is_shell_quote_def is_space_def Let_def)

lemma split_safe:
  "\<forall>c \<in> set s. shell_safe c \<Longrightarrow> shell_split WORD tok q (s @ rest) = shell_split WORD (rev s @ tok) q rest"
proof (induction s arbitrary: tok)
  case (Cons c s)
  have c: "\<not> shell_space c" "\<not> is_shell_quote c" "c \<noteq> backslash"
    using Cons.prems shell_safe_plain by (simp_all add: ball_simps)
  then show ?case using Cons by simp
qed simp

lemma split_quoted:
  "shell_split (QUOTE (CHR 0x27)) tok q (concat (map quote_char s) @ CHR 0x27 # rest) =
   shell_split WORD (rev s @ tok) True rest"
proof (induction s arbitrary: tok q)
  case (Cons c s)
  show ?case
  proof (cases "c = CHR 0x27")
    case True
    then show ?thesis using Cons.IH [of "CHR 0x27 # tok" True]
      by (simp add: quote_char_def is_shell_quote_def shell_space_def)
  next
    case False
    then show ?thesis using Cons.IH [of "c # tok" True] by (simp add: quote_char_def)
  qed
qed simp

lemma split_shlex_quote:
  "\<exists>q. (w = [] \<longrightarrow> q) \<and> shell_split BETWEEN [] False (shlex_quote w @ rest) = shell_split WORD (rev w) q rest"
proof (cases "w \<noteq> [] \<and> (\<forall>c \<in> set w. shell_safe c)")
  case True
  then obtain c cs where w: "w = c # cs" by (cases w) auto
  have c: "\<not> shell_space c" "\<not> is_shell_quote c" "c \<noteq> backslash"
    using True w shell_safe_plain by (simp_all add: ball_simps)
  then show ?thesis
    using True w split_safe [of cs "[c]" False rest] by (intro exI [of _ False]) (simp add: shlex_quote_def)
next
  case False
  have "shell_split BETWEEN [] False (shlex_quote w @ rest) =
      shell_split (QUOTE (CHR 0x27)) [] False (concat (map quote_char w) @ CHR 0x27 # rest)"
    using False by (auto simp: shlex_quote_def shell_space_def is_shell_quote_def)
  then show ?thesis using split_quoted [of "[]" False w rest] by (intro exI [of _ True]) simp
qed

lemma shlex_split_join: "shlex_split (shlex_join argv) = Inr argv"
proof (induction argv)
  case Nil
  show ?case by (simp add: shlex_split_def shlex_join_def emit_word_def)
next
  case (Cons w argv)
  note IH = Cons.IH
  show ?case
  proof (cases argv)
    case Nil
    obtain q where "w = [] \<longrightarrow> q" "shell_split BETWEEN [] False (shlex_quote w @ []) = shell_split WORD (rev w) q []"
      using split_shlex_quote [of w "[]"] by blast
    then show ?thesis using Nil by (auto simp: shlex_split_def shlex_join_def emit_word_def)
  next
    case (Cons v vs)
    obtain q where q: "w = [] \<longrightarrow> q" "shell_split BETWEEN [] False (shlex_quote w @ CHR '' '' # shlex_join argv) =
        shell_split WORD (rev w) q (CHR '' '' # shlex_join argv)"
      using split_shlex_quote [of w "CHR '' '' # shlex_join argv"] by blast
    have whole: "shlex_join (w # argv) = shlex_quote w @ CHR '' '' # shlex_join argv"
      using Cons by (simp add: shlex_join_def)
    have "shell_split WORD (rev w) q (CHR '' '' # s) = bind_result (shell_split BETWEEN [] False s) (\<lambda>ws. Inr (w # ws))" for s
      using q(1) by (auto simp: shell_space_def)
    then show ?thesis unfolding shlex_split_def whole q(2) using IH by (simp add: shlex_split_def)
  qed
qed

lemma shlex_quote_ends: "shlex_quote w \<noteq> [] \<and> \<not> is_space (hd (shlex_quote w)) \<and> \<not> is_space (last (shlex_quote w))"
proof (cases "w \<noteq> [] \<and> (\<forall>c \<in> set w. shell_safe c)")
  case True
  then have "shell_safe (hd w)" "shell_safe (last w)" by simp_all
  then show ?thesis using True shell_safe_plain by (simp add: shlex_quote_def)
next
  case False
  then show ?thesis by (auto simp: shlex_quote_def is_space_def)
qed

lemma shlex_join_ends: "argv \<noteq> [] \<Longrightarrow> shlex_join argv \<noteq> [] \<and> \<not> is_space (hd (shlex_join argv)) \<and> \<not> is_space (last (shlex_join argv))"
proof (induction argv)
  case (Cons w argv)
  show ?case
  proof (cases argv)
    case Nil
    then show ?thesis using shlex_quote_ends [of w] by (simp add: shlex_join_def)
  next
    case (Cons v vs)
    then have "shlex_join (w # argv) = shlex_quote w @ CHR '' '' # shlex_join argv" by (simp add: shlex_join_def)
    then show ?thesis using shlex_quote_ends [of w] Cons Cons.IH by simp
  qed
qed simp

lemma split_nonempty:
  "shell_split st tok q s = Inr ws \<Longrightarrow> st \<noteq> BETWEEN \<Longrightarrow> st = WORD \<longrightarrow> tok \<noteq> [] \<or> q \<Longrightarrow> ws \<noteq> []"
  by (induction st tok q s arbitrary: ws rule: shell_split.induct)
    (auto simp: emit_word_def bind_result_eq_Inr_iff split: if_splits option.splits)

lemma shlex_split_nonempty:
  assumes "s \<noteq> []" "\<not> is_space (hd s)" "shlex_split s = Inr ws"
  shows "ws \<noteq> []"
proof -
  obtain c cs where s: "s = c # cs" using assms(1) by (cases s) auto
  have "\<not> shell_space c" using assms(2) s by (auto simp: shell_space_def is_space_def)
  then show ?thesis using assms(3) s split_nonempty by (fastforce simp: shlex_split_def split: if_splits)
qed

text \<open>C40: the command a worker runs is the one the manager resolved: the text on the order splits into
  exactly the words of the queue's validate command, quotes, spaces and empty words included, and a
  queue that opted out is skipped by the worker too.\<close>

theorem validate_cmd_reaches_worker:
  assumes "resolve_validate_cmd ftext config = Inr argv"
  shows "validate_cmd_from_blob ftext' (dset blob ''validate_cmd'' (PStr (format_validate_cmd argv))) =
    Inr (map_option (\<lambda>words. (words, shlex_join words)) argv)"
proof (cases argv)
  case None
  then show ?thesis
    by (simp add: validate_cmd_from_blob_def cmd_from_blob_def dhas_iff_dget command_text_def format_validate_cmd_def)
next
  case (Some words)
  have "words \<noteq> []"
  proof (cases "dhas config ''validate''")
    case False
    moreover have "shlex_split DEFAULT_VALIDATE_CMD = Inr [''just'', ''validate'']" by code_simp
    ultimately show ?thesis using assms Some by (auto simp: resolve_validate_cmd_def resolve_cmd_def)
  next
    case True
    let ?raw = "command_text ftext config ''validate''"
    have "?raw \<noteq> []" "shlex_split ?raw = Inr words"
      using assms Some True by (auto simp: resolve_validate_cmd_def resolve_cmd_def bind_result_eq_Inr_iff split: if_splits)
    moreover have "\<not> is_space (hd ?raw)"
      using py_strip_of_ends \<open>?raw \<noteq> []\<close> by (auto simp: command_text_def split: option.splits if_splits)
    ultimately show ?thesis using shlex_split_nonempty by blast
  qed
  then have ends: "shlex_join words \<noteq> []" "py_strip (shlex_join words) = shlex_join words"
    using shlex_join_ends py_strip_of_id by blast+
  then have "command_text ftext' (dset blob ''validate_cmd'' (PStr (shlex_join words))) ''validate_cmd'' = shlex_join words"
    by (simp add: command_text_def)
  then show ?thesis
    using Some ends shlex_split_join
    by (simp add: validate_cmd_from_blob_def cmd_from_blob_def dhas_iff_dget format_validate_cmd_def)
qed

lemma validate_cmd_reaches_worker_witness:
  "validate_cmd_from_blob (\<lambda>_. []) [(''validate_cmd'', PStr (format_validate_cmd (Some [''make'', ''a b'', []])))] =
     Inr (Some ([''make'', ''a b'', []], shlex_join [''make'', ''a b'', []]))"
proof -
  have "resolve_validate_cmd (\<lambda>_. [])
      [(''validate'', PStr (''make '' @ [CHR 0x22] @ ''a b'' @ [CHR 0x22] @ '' '' @ [CHR 0x27, CHR 0x27]))] =
      Inr (Some [''make'', ''a b'', []])" by code_simp
  from validate_cmd_reaches_worker [OF this, of "\<lambda>_. []" "[]"] show ?thesis by simp
qed

end
