(* ===== verification/Worker_Orders.thy ===== *)
theory Worker_Orders
  imports Manager Models Shell_Words
begin

text \<open>
  The work order and the lease that goes with it
  (\<^verbatim>\<open>src/nightshift/manager/work_orders.py\<close> and the dispatch half of
  \<^verbatim>\<open>src/nightshift/manager/api_worker.py\<close>): what a worker is told, the attempt row that
  is created for it, and the poll that chooses the task.
\<close>

section \<open>Work orders\<close>

record workflow_block =
  wb_name :: string
  wb_step :: string
  wb_kind :: step_kind
  wb_role :: string
  wb_artifacts :: doc_dir
  wb_signals :: "string list"
  wb_prompt :: "string option"
  wb_output :: "string option"
  wb_prompt_text :: "string option"

record work_order =
  wo_run_id :: string
  wo_task :: string
  wo_queue :: string
  wo_priority :: int
  wo_title :: scalar
  wo_body :: string
  wo_notes :: "string option"
  wo_enhanced :: bool
  wo_kind :: "string option"
  wo_repo :: "string option"
  wo_base_ref :: "string option"
  wo_model :: string
  wo_validate :: pyval
  wo_validate_cmd :: string
  wo_preflight :: pyval
  wo_preflight_cmd :: string
  wo_diff_cap_lines :: pyval
  wo_forbidden_paths :: pyval
  wo_max_turns :: "int option"
  wo_required_mcps :: "string list"
  wo_wip_ref_prefix :: string
  wo_loop :: bool
  wo_loop_max_iterations :: int
  wo_split :: bool
  wo_workflow :: "workflow_block option"
  wo_docs :: "pyval list"

definition first_step :: "workflow_def \<Rightarrow> string" where
  "first_step w = (case wf_steps w of [] \<Rightarrow> [] | s # _ \<Rightarrow> ws_id s)"

definition step_cursor :: "workflow_def \<Rightarrow> meta \<Rightarrow> string" where
  "step_cursor w m = str_or (meta_text m ''workflow_step'') (first_step w)"

definition order_step :: "(string \<times> workflow_def) list \<Rightarrow> meta \<Rightarrow> workflow_step option" where
  "order_step defs m =
     (if meta_text m ''workflow'' = [] then None
      else case dget defs (meta_text m ''workflow'') of
          None \<Rightarrow> None | Some w \<Rightarrow> find_step w (step_cursor w m))"

text \<open>\<open>int(v)\<close> of a frontmatter value.\<close>

definition meta_int :: "meta \<Rightarrow> string \<Rightarrow> int \<Rightarrow> py_error + int" where
  "meta_int m k fallback = (case dget m k of None \<Rightarrow> Inr fallback | Some v \<Rightarrow> int_or_raise (scalar_value v))"

definition order_priority :: "meta \<Rightarrow> py_error + int" where
  "order_priority m =
     (if py_strip (case dget m ''priority'' of None \<Rightarrow> [] | Some v \<Rightarrow> scalar_str v) = [] then Inr 5
      else meta_int m ''priority'' 5)"

definition order_model :: "meta \<Rightarrow> string \<Rightarrow> string" where
  "order_model m default_model =
     str_or (py_strip (case dget m ''model'' of
         None \<Rightarrow> default_model | Some v \<Rightarrow> if scalar_truthy v then scalar_str v else default_model))
       default_model"

definition order_block :: "env \<Rightarrow> content \<Rightarrow> string option \<Rightarrow> string \<Rightarrow> string \<Rightarrow> workflow_step \<Rightarrow> py_error + workflow_block" where
  "order_block env ct queue task name step =
     bind_result (read_artifacts (en_operator_default env) ct (tasks_rel queue) task (ws_inputs step)) (\<lambda>artifacts.
       Inr \<lparr>wb_name = name, wb_step = ws_id step, wb_kind = ws_kind step, wb_role = ws_role step,
            wb_artifacts = artifacts, wb_signals = map fst (ws_signals step),
            wb_prompt = (if ws_kind step = DOC then ws_prompt step else None),
            wb_output = (if ws_kind step = DOC then ws_output step else None),
            wb_prompt_text = (if ws_kind step = DOC
              then resolve_prompt_text (en_operator_prompts env) (en_shipped_prompts env)
                (case ws_prompt step of None \<Rightarrow> [] | Some p \<Rightarrow> p) else None)\<rparr>)"

definition optional_result :: "('a \<Rightarrow> 'e + 'b) \<Rightarrow> 'a option \<Rightarrow> 'e + 'b option" where
  "optional_result f x = (case x of None \<Rightarrow> Inr None | Some v \<Rightarrow> bind_result (f v) (\<lambda>y. Inr (Some y)))"

text \<open>The inner left value is the reason the documents block the task.\<close>

definition build_work_order ::
  "env \<Rightarrow> manager \<Rightarrow> string \<Rightarrow> string option \<Rightarrow> string option \<Rightarrow> string \<Rightarrow> string option \<Rightarrow>
   py_error + (string + (work_order \<times> docs_result \<times> meta))" where
  "build_work_order env mg task queue repo run_id base_ref =
     (let ct = mg_content mg; rel = tasks_rel queue; ftext = en_ftext env;
          text = (case brief_at ct rel task of None \<Rightarrow> [] | Some t \<Rightarrow> t) in
      bind_result (split_frontmatter text) (\<lambda>(m, body0).
      case split_original body0 of (body1, _) \<Rightarrow>
      case split_notes body1 of (body, notes) \<Rightarrow>
      (let merged = resolve_config ct rel; step = order_step (mg_workflows mg) m in
      bind_result (resolve_validate_cmd ftext merged) (\<lambda>validate.
      bind_result (resolve_preflight_cmd ftext merged) (\<lambda>preflight.
      bind_result (case meta_or_config m merged ''turns'' ''max_turns'' PNone of
          PNone \<Rightarrow> Inr None | v \<Rightarrow> bind_result (int_or_raise v) (\<lambda>i. Inr (Some i))) (\<lambda>turns.
      bind_result (meta_int m ''loop_max_iterations'' 0) (\<lambda>iterations.
      bind_result (optional_result (order_block env ct queue task (meta_text m ''workflow'')) step) (\<lambda>block.
      case en_docs env ct queue task m (map_option ws_id step) of
        Inl reason \<Rightarrow> Inr (Inl reason)
      | Inr docs \<Rightarrow>
          bind_result (order_priority m) (\<lambda>priority.
            Inr (Inr (\<lparr>wo_run_id = run_id, wo_task = task, wo_queue = queue_label queue, wo_priority = priority,
              wo_title = resolve_title task m, wo_body = py_strip body,
              wo_notes = (if py_strip notes = [] then None else Some (py_strip notes)),
              wo_enhanced = meta_flag m ''enhanced'',
              wo_kind = (if meta_text m ''kind'' = [] then None else Some (meta_text m ''kind'')),
              wo_repo = repo, wo_base_ref = base_ref,
              wo_model = order_model m (cf_default_model (en_cfg env)),
              wo_validate = dget_or merged ''validate'' PNone, wo_validate_cmd = format_validate_cmd validate,
              wo_preflight = dget_or merged ''preflight'' PNone, wo_preflight_cmd = format_validate_cmd preflight,
              wo_diff_cap_lines = dget_or merged ''diff_cap_lines'' PNone,
              wo_forbidden_paths = dget_or merged ''forbidden_paths'' PNone,
              wo_max_turns = (case step of None \<Rightarrow> turns | Some s \<Rightarrow> step_max_turns s turns),
              wo_required_mcps = parse_required_mcps m,
              wo_wip_ref_prefix = cf_wip_ref_prefix (en_cfg env),
              wo_loop = meta_flag m ''loop'', wo_loop_max_iterations = iterations,
              wo_split = (meta_flag m ''split'' \<or> map_option ws_kind step = Some SPLIT),
              wo_workflow = block, wo_docs = dr_entries docs\<rparr>, docs, m)))))))))))"

text \<open>The routing half of the workflow block, as the attempt row stores it.\<close>

definition persisted_block :: "workflow_block \<Rightarrow> pyval" where
  "persisted_block b =
     PDict ([(''name'', PStr (wb_name b)), (''step'', PStr (wb_step b)),
        (''kind'', PStr (step_kind_value (wb_kind b))), (''role'', PStr (wb_role b)),
        (''signals'', PList (map PStr (wb_signals b)))] @
       (if wb_kind b = DOC then [(''prompt'', pstr (wb_prompt b)), (''output'', pstr (wb_output b))] @
          (case wb_prompt_text b of None \<Rightarrow> [] | Some t \<Rightarrow> [(''prompt_text'', PStr t)]) else []))"

definition order_cols :: "work_order \<Rightarrow> string option \<Rightarrow> string list \<Rightarrow> meta \<Rightarrow> pydict" where
  "order_cols ord backend mcps m =
     [(''backend'', pstr (case provider_of (Some (wo_model ord)) of
         Some p \<Rightarrow> if p = [] then backend else Some p | None \<Rightarrow> backend)),
      (''model'', PStr (wo_model ord)), (''base_ref'', pstr (wo_base_ref ord)),
      (''title'', scalar_value (wo_title ord)), (''body'', PStr (wo_body ord)), (''notes'', pstr (wo_notes ord)),
      (''required_mcps'', PList (map PStr mcps)), (''repo'', pstr (wo_repo ord)),
      (''validate_cmd'', if wo_validate_cmd ord = [] then PNone else PStr (wo_validate_cmd ord)),
      (''enhanced'', PBool (wo_enhanced ord)),
      (''workflow'', case wo_workflow ord of None \<Rightarrow> PNone | Some b \<Rightarrow> persisted_block b),
      (''kind'', case dget m ''kind'' of None \<Rightarrow> PNone | Some v \<Rightarrow> if scalar_truthy v then scalar_value v else PNone)]"

section \<open>Leasing\<close>

text \<open>A workflow brief without a cursor gets its first step; a failing write is suppressed.\<close>

definition stamp_first_step :: "env \<Rightarrow> string option \<Rightarrow> string \<Rightarrow> meta \<Rightarrow> (manager, unit) action" where
  "stamp_first_step env queue task m mg =
     (if meta_text m ''workflow'' = [] then (mg, Inr ())
      else case dget (mg_workflows mg) (meta_text m ''workflow'') of
          None \<Rightarrow> (mg, Inr ())
        | Some w \<Rightarrow>
            if meta_text m ''workflow_step'' \<noteq> [] then (mg, Inr ())
            else suppress (set_engine_meta_job env queue task
                [(''workflow_step'', Some (SStr (first_step w))),
                 (''workflow_visits'', Some (SStr (format_visits [(first_step w, 1)])))]) mg)"

definition blocked_hold :: "string option \<Rightarrow> hold_args" where
  "blocked_hold reason = \<lparr>ha_state = TH_BLOCKED, ha_reason = reason, ha_repo = None, ha_retry_eligible = False\<rparr>"

definition clear_stale_hold :: "time \<Rightarrow> string option \<Rightarrow> string \<Rightarrow> db \<Rightarrow> db" where
  "clear_stale_hold now queue task d =
     (case get_task_state queue task d of
        Some row \<Rightarrow> if tk_state row = Some TH_REPO_UNAVAILABLE \<or> tk_state row = Some TH_BLOCKED
                   then clear_task_state now queue task False d else d
      | None \<Rightarrow> d)"

definition lease_and_build ::
  "env \<Rightarrow> io \<Rightarrow> string option \<Rightarrow> string \<Rightarrow> string option \<Rightarrow> string list \<Rightarrow> string \<Rightarrow> string option \<Rightarrow>
   (manager, work_order option) action" where
  "lease_and_build env io queue task repo mcps worker backend =
     act_bind (on_db (clear_stale_hold (io_now io) queue task)) (\<lambda>_.
     act_bind (compute (\<lambda>mg. task_meta (mg_content mg) task queue)) (\<lambda>m.
     act_bind (stamp_first_step env queue task m) (\<lambda>_.
     act_bind (compute (\<lambda>mg. build_work_order env mg task queue repo (io_run_id io)
         (case repo of None \<Rightarrow> None | Some r \<Rightarrow> en_head env r))) (\<lambda>built.
       case built of
         Inl reason \<Rightarrow>
           act_bind (on_db (set_task_state (io_now io) queue task (blocked_hold (Some reason)))) (\<lambda>_. answer None)
       | Inr (ord, docs, om) \<Rightarrow>
           act_bind (if dr_dirty docs \<or> (dr_pin docs \<noteq> None \<and> \<not> dhas om ''docs_pin'')
               then suppress (set_engine_meta_job env queue task [(''docs_pin'', map_option SStr (dr_pin docs))])
               else answer ()) (\<lambda>_.
           act_bind (run_db (create_attempt (io_now io)
               \<lparr>aa_id = io_run_id io, aa_task = task, aa_queue = queue, aa_worker_id = Some worker,
                aa_ttl_seconds = cf_lease_ttl_seconds (en_cfg env), aa_state = AS_RUNNING,
                aa_cols = order_cols ord backend mcps m\<rparr>)) (\<lambda>row.
             if row = None then answer None
             else
               act_bind (set_busy (io_now io) worker task queue (io_run_id io)) (\<lambda>_.
               act_bind (emit (io_now io) (event ''lease_acquired'' (Some (io_run_id io)) queue (Some task)
                   (Some [(''worker_id'', PStr worker), (''lease_id'', PStr (io_run_id io))]))) (\<lambda>_.
               act_bind (emit (io_now io) (event ''run_started'' (Some (io_run_id io)) queue (Some task)
                   (Some [(''title'', scalar_value (wo_title ord)), (''worker_id'', PStr worker)]))) (\<lambda>_.
                 answer (Some ord))))))))))"

section \<open>Retrying\<close>

text \<open>\<open>config.get("order") or []\<close> as it is iterated; an unhashable entry cannot be a key.\<close>

definition order_values :: "pydict \<Rightarrow> py_error + pyval list" where
  "order_values config =
     (case dget config ''order'' of
        None \<Rightarrow> Inr []
      | Some v \<Rightarrow>
          if \<not> truthy v then Inr []
          else case v of
              PList xs \<Rightarrow> if \<exists>x \<in> set xs. (case x of PList _ \<Rightarrow> True | PDict _ \<Rightarrow> True | _ \<Rightarrow> False)
                then Inl TypeError else Inr xs
            | PStr s \<Rightarrow> Inr (map (\<lambda>c. PStr [c]) s)
            | PDict d \<Rightarrow> Inr (map (\<lambda>(k, _). PStr k) d)
            | _ \<Rightarrow> Inl TypeError)"

definition retry_rank :: "pyval list \<Rightarrow> string \<Rightarrow> nat" where
  "retry_rank order task =
     (case map_of (rev (zip order [0..<length order])) (PStr task) of
        Some i \<Rightarrow> i | None \<Rightarrow> length (remdups order))"

definition pick_retry :: "string list \<Rightarrow> pyval list \<Rightarrow> string option" where
  "pick_retry retryable order = min_by (retry_rank order) retryable"

section \<open>Polling\<close>

record poll_body =
  pb_worker_id :: string
  pb_backend :: "string option"
  pb_queues :: "string list option"
  pb_priorities :: "int list option"
  pb_models :: "string list option"
  pb_mcps :: "string list option"
  pb_exclude :: "string list"

definition cooldown_reap :: "time \<Rightarrow> ((string \<times> string) \<times> time) list \<Rightarrow> ((string \<times> string) \<times> time) list" where
  "cooldown_reap now cs = filter (\<lambda>(_, expiry). \<not> expiry \<le> now) cs"

definition cooldown_exclusions :: "time \<Rightarrow> ((string \<times> string) \<times> time) list \<Rightarrow> string \<Rightarrow> string list" where
  "cooldown_exclusions now cs worker =
     List.map_filter (\<lambda>((wid, label), _). if wid = worker then Some label else None) (cooldown_reap now cs)"

definition resolver_of :: "env \<Rightarrow> manager \<Rightarrow> resolver" where
  "resolver_of env mg = manager_resolver (en_ftext env) (mg_workflows mg)
     (cf_planner_model (en_cfg env)) (cf_default_model (en_cfg env))"

definition candidates_of :: "env \<Rightarrow> manager \<Rightarrow> string option \<Rightarrow> py_error + task_candidate list" where
  "candidates_of env mg q =
     build_candidates (en_ftext env) (queue_at (mg_content mg) (tasks_rel q)) q
       (cf_default_model (en_cfg env)) (Some (resolver_of env mg))"

definition open_queues :: "manager \<Rightarrow> string list \<Rightarrow> string option list" where
  "open_queues mg exclude =
     filter (\<lambda>q. \<not> dhas (queue_pauses (mg_db mg)) (queue_label q) \<and> queue_label q \<notin> set exclude)
       (all_queues (mg_content mg))"

definition poll_candidates :: "env \<Rightarrow> manager \<Rightarrow> string list \<Rightarrow> py_error + candidate_map" where
  "poll_candidates env mg exclude =
     map_result (\<lambda>q. bind_result (candidates_of env mg q) (\<lambda>cs. Inr (q, cs))) (open_queues mg exclude)"

text \<open>The tasks that a frontmatter flag holds, over every queue.\<close>

definition held_tasks :: "content \<Rightarrow> string \<Rightarrow> py_error + task_key list" where
  "held_tasks ct state =
     bind_result
       (map_result (\<lambda>q. bind_result (frontmatter_held_tasks (queue_at ct (tasks_rel q))) (\<lambda>rows.
          Inr (map (\<lambda>(task, _). (q, task)) (filter (\<lambda>(_, st, _). st = state) rows)))) (all_queues ct))
       (\<lambda>keys. Inr (concat keys))"

definition repo_refused :: "env \<Rightarrow> task_candidate \<Rightarrow> bool" where
  "repo_refused env c \<longleftrightarrow> tc_repo_error c \<noteq> None \<or>
     (case tc_repo c of None \<Rightarrow> False | Some r \<Rightarrow> r \<noteq> [] \<and> \<not> en_repo_available env r)"

definition all_candidates :: "candidate_map \<Rightarrow> task_candidate list" where
  "all_candidates by_queue = concat (map snd by_queue)"

text \<open>A workflow authoring error blocks the task in the store, here in the poll.\<close>

definition block_workflow_errors :: "env \<Rightarrow> time \<Rightarrow> task_candidate list \<Rightarrow> db \<Rightarrow> db" where
  "block_workflow_errors env now cands d =
     fold (\<lambda>c. if \<not> repo_refused env c \<and> tc_workflow_error c \<noteq> None
               then set_task_state now (tc_queue c) (tc_task c) (blocked_hold (tc_workflow_error c)) else id) cands d"

definition repo_excluded :: "env \<Rightarrow> task_candidate list \<Rightarrow> task_key list" where
  "repo_excluded env cands =
     map cand_key (filter (\<lambda>c. repo_refused env c \<or> tc_workflow_error c \<noteq> None) cands)"

text \<open>The repositories of the queues that watch CI, as the set the code builds: an unhashable setting raises.\<close>

definition monitored_entry :: "content \<Rightarrow> string option \<Rightarrow> py_error + pyval list" where
  "monitored_entry ct q =
     (let config = load_queue_config (qd_config (queue_at ct (tasks_rel q)));
          repo = dget_or config ''repo'' PNone
      in if \<not> ci_monitoring_enabled config \<or> \<not> truthy repo then Inr []
         else case repo of PList _ \<Rightarrow> Inl TypeError | PDict _ \<Rightarrow> Inl TypeError | _ \<Rightarrow> Inr [repo])"

definition monitored_repos :: "content \<Rightarrow> py_error + pyval list" where
  "monitored_repos ct = bind_result (map_result (monitored_entry ct) (all_queues ct)) (\<lambda>rs. Inr (concat rs))"

definition red_repos :: "repo_ci_row list \<Rightarrow> pyval list \<Rightarrow> string list" where
  "red_repos rows monitored =
     map ci_repo (filter (\<lambda>r. ci_state r = ''red'' \<and> PStr (ci_repo r) \<in> set monitored) rows)"

definition ci_excluded :: "content \<Rightarrow> repo_ci_row list \<Rightarrow> task_candidate list \<Rightarrow> py_error + task_key list" where
  "ci_excluded ct rows cands =
     bind_result (monitored_repos ct) (\<lambda>monitored.
     bind_result
       (map_result (\<lambda>c.
          if (case tc_repo c of None \<Rightarrow> False | Some r \<Rightarrow> r \<in> set (red_repos rows monitored))
          then bind_result (is_ci_fix_task ct rows c) (\<lambda>fix. Inr (if fix then [] else [cand_key c]))
          else Inr []) cands)
       (\<lambda>keys. Inr (concat keys)))"

definition row_key :: "string \<Rightarrow> string \<Rightarrow> task_key" where
  "row_key queue task = (queue_from_label (Some queue), task)"

definition leased_keys :: "db \<Rightarrow> task_key list" where
  "leased_keys d = map (\<lambda>r. row_key (at_queue r) (at_task r)) (live_attempts d)"

definition backing_off_keys :: "time \<Rightarrow> db \<Rightarrow> task_key list" where
  "backing_off_keys now d = map (\<lambda>r. row_key (tk_queue r) (tk_task r)) (tasks_backing_off now d)"

definition blocked_keys :: "db \<Rightarrow> task_key list" where
  "blocked_keys d = map (\<lambda>r. row_key (tk_queue r) (tk_task r)) (list_blocked d)"

text \<open>A queue with no live attempt and no ready candidate lets its earliest retryable task back in.\<close>

definition retry_of_queue ::
  "manager \<Rightarrow> time \<Rightarrow> task_key list \<Rightarrow> string option \<Rightarrow> task_candidate list \<Rightarrow> py_error + string option" where
  "retry_of_queue mg now blocked q cands =
     (if (\<exists>r \<in> set (live_attempts (mg_db mg)). queue_label (Some (at_queue r)) = queue_label q) then Inr None
      else if (\<exists>c \<in> set cands. cand_key c \<notin> set blocked) then Inr None
      else let qd = queue_at (mg_content mg) (tasks_rel q) in
        bind_result (failed_tasks qd) (\<lambda>failed.
          let retryable = filter (\<lambda>t. (q, t) \<notin> set (backing_off_keys now (mg_db mg)))
                (failed @ map tk_task (retryable_tasks q (mg_db mg)))
          in if retryable = [] then Inr None
             else bind_result (order_values (load_queue_config (qd_config qd))) (\<lambda>order.
               Inr (pick_retry retryable order))))"

fun admit_retries ::
  "manager \<Rightarrow> time \<Rightarrow> task_key list \<Rightarrow> candidate_map \<Rightarrow> py_error + task_key list" where
  "admit_retries mg now blocked [] = Inr blocked"
| "admit_retries mg now blocked ((q, cands) # rest) =
     bind_result (retry_of_queue mg now blocked q cands) (\<lambda>pick.
       admit_retries mg now
         (case pick of None \<Rightarrow> blocked | Some t \<Rightarrow> filter (\<lambda>k. k \<noteq> (q, t)) blocked) rest)"

definition poll_filter :: "poll_body \<Rightarrow> worker_filter" where
  "poll_filter b = \<lparr>fl_worker_id = pb_worker_id b, fl_queues = pb_queues b, fl_priorities = pb_priorities b,
     fl_models = pb_models b, fl_mcps = pb_mcps b\<rparr>"

text \<open>Everything that holds a task out of dispatch before the retry phase.\<close>

definition poll_blocked :: "env \<Rightarrow> io \<Rightarrow> manager \<Rightarrow> candidate_map \<Rightarrow> py_error + task_key list" where
  "poll_blocked env io mg by_queue =
     bind_result (held_tasks (mg_content mg) ''quarantined'') (\<lambda>quarantined.
     bind_result (held_tasks (mg_content mg) ''failed'') (\<lambda>failed.
     bind_result (ci_excluded (mg_content mg) (db_repo_ci (mg_db mg)) (all_candidates by_queue)) (\<lambda>red.
       Inr (blocked_keys (mg_db mg) @ repo_excluded env (all_candidates by_queue) @ red @ quarantined @ failed @
            backing_off_keys (io_now io) (mg_db mg)))))"

definition worker_poll :: "env \<Rightarrow> io \<Rightarrow> poll_body \<Rightarrow> (manager, work_order option) action" where
  "worker_poll env io b =
     act_bind (change (\<lambda>mg. mg\<lparr>mg_cooldowns := cooldown_reap (io_now io) (mg_cooldowns mg)\<rparr>)) (\<lambda>_.
     act_bind (compute (\<lambda>mg. poll_candidates env mg
        (pb_exclude b @ cooldown_exclusions (io_now io) (mg_cooldowns mg) (pb_worker_id b)))) (\<lambda>by_queue.
     act_bind (compute (\<lambda>mg. held_tasks (mg_content mg) ''quarantined'')) (\<lambda>_.
     act_bind (on_db (block_workflow_errors env (io_now io) (all_candidates by_queue))) (\<lambda>_.
     act_bind (compute (\<lambda>mg. poll_blocked env io mg by_queue)) (\<lambda>blocked.
     act_bind (compute (\<lambda>mg. admit_retries mg (io_now io) blocked by_queue)) (\<lambda>admitted.
     act_bind (compute (\<lambda>mg. Inr (pick_next by_queue (poll_filter b) (set (leased_keys (mg_db mg))) (set admitted)
        (mg_served mg) (queue_dedication (mg_db mg))))) (\<lambda>(chosen, served).
     act_bind (change (\<lambda>mg. mg\<lparr>mg_served := served\<rparr>)) (\<lambda>_.
       case chosen of
         None \<Rightarrow> answer None
       | Some c \<Rightarrow> lease_and_build env io (tc_queue c) (tc_task c) (tc_repo c) (tc_required_mcps c)
           (pb_worker_id b) (pb_backend b)))))))))"

section \<open>Check-in and heartbeat\<close>

definition worker_checkin :: "io \<Rightarrow> string \<Rightarrow> worker_args \<Rightarrow> (manager, worker_row option) action" where
  "worker_checkin io wid args =
     act_bind (run_db (\<lambda>d. Inr (register_worker (io_now io) wid args d))) (\<lambda>row.
     act_bind (emit (io_now io) (event ''worker_registered'' None None None (Some [(''worker_id'', PStr wid)]))) (\<lambda>_.
       answer row))"

definition worker_heartbeat :: "env \<Rightarrow> io \<Rightarrow> string \<Rightarrow> string \<Rightarrow> (manager, unit) action" where
  "worker_heartbeat env io wid lease =
     act_bind (on_db (heartbeat_worker (io_now io) wid)) (\<lambda>_.
       if lease = [] then answer ()
       else on_db (heartbeat_attempt (io_now io) lease (cf_lease_ttl_seconds (en_cfg env))))"

text \<open>The events a worker reports on its run; a status event may move the phase.\<close>

definition report_event :: "env \<Rightarrow> io \<Rightarrow> string \<Rightarrow> attempt_row \<Rightarrow> pydict \<Rightarrow> (manager, unit list) action" where
  "report_event env io rid run ev =
     (let kind = (case dget ev ''type'' of None \<Rightarrow> ''task_log'' | Some v \<Rightarrow> py_str (en_ftext env) v);
          task = (case dget ev ''task'' of
            Some v \<Rightarrow> if truthy v then py_str (en_ftext env) v else at_task run | None \<Rightarrow> at_task run) in
      act_bind (emit (io_now io) (event kind (Some rid) (queue_from_label (Some (at_queue run))) (Some task) (Some ev))) (\<lambda>_.
        if kind = ''task_status'' \<and> truthy (dget_or ev ''phase'' PNone) then
          act_bind (run_db (\<lambda>d. bind_result (update_attempt (io_now io) rid None [(''phase'', dget_or ev ''phase'' PNone)] d)
            (\<lambda>d'. Inr (d', ())))) (\<lambda>_. answer [])
        else answer []))"

definition worker_run_events :: "env \<Rightarrow> io \<Rightarrow> string \<Rightarrow> pydict list \<Rightarrow> (manager, http) action" where
  "worker_run_events env io rid evs mg =
     (case get_attempt (mg_db mg) rid of
        None \<Rightarrow> (mg, Inr (Refused 404 ''unknown run''))
      | Some run \<Rightarrow> act_bind (act_each (report_event env io rid run) evs) (\<lambda>_. answer (Reply [(''ok'', PBool True)])) mg)"

end
