(* ===== verification/Worker_Submit.thy ===== *)
theory Worker_Submit
  imports Worker_Orders
begin

text \<open>
  The submit half of \<^verbatim>\<open>src/nightshift/manager/api_worker.py\<close>: the step policy and the
  submit policy, the branches of a submit, the completion of a land, chaining, and the report of
  a resolve. The results of the git jobs are inputs.
\<close>

section \<open>Policies\<close>

definition exhausted_reason :: "string \<Rightarrow> string \<Rightarrow> int \<Rightarrow> string" where
  "exhausted_reason name step n =
     ''workflow '' @ quoted name @ '' budget exhausted at step '' @ quoted step @ '' (max_visits='' @ int_text n @ '')''"

text \<open>\<open>str(d.get(k) or "").strip()\<close>.\<close>

definition dict_text :: "(rat \<Rightarrow> string) \<Rightarrow> pydict \<Rightarrow> string \<Rightarrow> string" where
  "dict_text ftext d k =
     (case dget d k of None \<Rightarrow> [] | Some v \<Rightarrow> if truthy v then py_strip (py_str ftext v) else [])"

definition frontmatter_visits :: "meta \<Rightarrow> visits" where
  "frontmatter_visits m =
     parse_visits (Some (case dget m ''workflow_visits'' of
        None \<Rightarrow> [] | Some v \<Rightarrow> if scalar_truthy v then scalar_str v else []))"

definition build_workflow_step_policy ::
  "(rat \<Rightarrow> string) \<Rightarrow> (string \<times> workflow_def) list \<Rightarrow> pydict option \<Rightarrow> meta \<Rightarrow> string option \<Rightarrow> bool \<Rightarrow>
   py_error + workflow_step_policy option" where
  "build_workflow_step_policy ftext defs attempt_workflow m sig evergreen =
     (case attempt_workflow of
        None \<Rightarrow> Inr None
      | Some d \<Rightarrow>
          let name = dict_text ftext d ''name''; step_id = dict_text ftext d ''step'' in
          if d = [] then Inr None
          else case dget defs name of
              None \<Rightarrow> Inr None
            | Some w \<Rightarrow>
                if step_id = [] then Inr None
                else case find_step w step_id of
                    None \<Rightarrow> Inr None
                  | Some step \<Rightarrow>
                      let dest = route step sig; visits = frontmatter_visits m in
                      bind_result
                        (if dest = END then Inr (None, False, [])
                         else case find_step w dest of
                             None \<Rightarrow> Inl (ValueError dest)
                           | Some ds \<Rightarrow>
                               Inr (Some (ws_kind ds),
                                 if ws_max_visits ds < dget_or visits dest 0 + 1
                                 then (True, exhausted_reason name dest (ws_max_visits ds)) else (False, [])))
                        (\<lambda>(kind, exhausted, reason).
                          Inr (Some \<lparr>wsp_workflow = name, wsp_step_id = step_id, wsp_kind = ws_kind step,
                            wsp_output = ws_output step, wsp_route_to = dest, wsp_dest_kind = kind,
                            wsp_dest_visits_exhausted = exhausted, wsp_evergreen = evergreen,
                            wsp_visits = visits, wsp_exhausted_reason = reason\<rparr>)))"

record submit_body = outcome +
  sb_worker_id :: string
  sb_lease_id :: string
  sb_task :: string
  sb_queue :: "string option"
  sb_title :: string
  sb_quarantine :: bool

definition DOCUMENT_MAX_BYTES :: nat where
  "DOCUMENT_MAX_BYTES = 256 * 1024"

text \<open>The length of the UTF-8 encoding.\<close>

definition utf8_length :: "string \<Rightarrow> nat" where
  "utf8_length s = sum_list (map (\<lambda>c. if (of_char c :: nat) < 128 then 1 else 2) s)"

definition cap_document :: "submit_body \<Rightarrow> submit_body" where
  "cap_document body =
     (case o_document body of
        None \<Rightarrow> body
      | Some document \<Rightarrow>
          if utf8_length document \<le> DOCUMENT_MAX_BYTES then body
          else let over = ''doc step document exceeds '' @ nat_text DOCUMENT_MAX_BYTES @ '' bytes ('' @
                     nat_text (utf8_length document) @ '' bytes)''
            in body\<lparr>o_status := RS_ERROR, o_failure_kind := Some WORKER_ERROR, o_failure_reason := Some over,
                    o_result_line := over, o_document := None\<rparr>)"

definition attempt_text :: "attempt_row \<Rightarrow> string \<Rightarrow> string option" where
  "attempt_text r k = (case dget (at_cols r) k of Some (PStr s) \<Rightarrow> Some s | _ \<Rightarrow> None)"

definition attempt_dict :: "attempt_row \<Rightarrow> string \<Rightarrow> pydict option" where
  "attempt_dict r k = (case dget (at_cols r) k of Some (PDict d) \<Rightarrow> Some d | _ \<Rightarrow> None)"

definition effective_mode :: "env \<Rightarrow> meta \<Rightarrow> landing_mode" where
  "effective_mode env m = (if meta_flag m ''make_pr'' then LM_PR else cf_landing_mode (en_cfg env))"

text \<open>The policy a submit is judged by, and the frontmatter it was read from.\<close>

definition submit_policy_of :: "env \<Rightarrow> manager \<Rightarrow> attempt_row \<Rightarrow> submit_body \<Rightarrow> py_error + (submit_policy \<times> meta)" where
  "submit_policy_of env mg run body =
     (let queue = queue_from_label (sb_queue body); ct = mg_content mg; label = queue_label queue in
      bind_result (task_meta ct (sb_task body) queue) (\<lambda>m.
      bind_result (task_is_evergreen m (sb_task body) (resolve_config ct (tasks_rel queue))) (\<lambda>evergreen.
      bind_result (build_workflow_step_policy (en_ftext env) (mg_workflows mg) (attempt_dict run ''workflow'') m
          (o_signal body) evergreen) (\<lambda>step.
      bind_result (task_is_failed ct queue (sb_task body)) (\<lambda>was_retry.
        Inr (\<lparr>sp_retry = \<lparr>quarantine_after = cf_quarantine_threshold (en_cfg env),
                immediate_quarantine = sb_quarantine body,
                rp_backoff = default_backoff\<lparr>base_seconds := cf_retry_backoff_seconds (en_cfg env)\<rparr>\<rparr>,
              sp_attempts_without_progress =
                (case get_task_state queue (sb_task body) (mg_db mg) of None \<Rightarrow> 0 | Some r \<Rightarrow> tk_attempts r),
              sp_was_retry = was_retry, sp_watch_armed = watch_armed mg label,
              sp_queue_paused = dhas (queue_pauses (mg_db mg)) label,
              sp_split = meta_flag m ''split'', sp_evergreen = evergreen,
              sp_auto_resolve = cf_auto_resolve (en_cfg env),
              sp_pr_mode = (effective_mode env m = LM_PR), sp_workflow_step = step\<rparr>, m))))))"

section \<open>Chaining\<close>

definition dispatch_guards_ok ::
  "env \<Rightarrow> time \<Rightarrow> manager \<Rightarrow> string option \<Rightarrow> string \<Rightarrow> string option \<Rightarrow> string \<Rightarrow> bool" where
  "dispatch_guards_ok env now mg queue task repo worker \<longleftrightarrow>
     \<not> dhas (queue_pauses (mg_db mg)) (queue_label queue) \<and>
     (let owners = owners_of (queue_dedication (mg_db mg)) (queue_label queue) in owners = [] \<or> worker \<in> set owners) \<and>
     (case repo of None \<Rightarrow> True | Some r \<Rightarrow> r = [] \<or> en_repo_available env r) \<and>
     (queue, task) \<notin> set (backing_off_keys now (mg_db mg))"

definition registered_filter :: "worker_row \<Rightarrow> worker_filter" where
  "registered_filter w = \<lparr>fl_worker_id = wk_id w, fl_queues = wk_queues w, fl_priorities = wk_priorities w,
     fl_models = Some (wk_models w), fl_mcps = Some (wk_mcps w)\<rparr>"

text \<open>The candidate the worker may go on with, when every guard the poll applies holds.\<close>

definition chain_candidate ::
  "env \<Rightarrow> time \<Rightarrow> manager \<Rightarrow> pydict \<Rightarrow> string option \<Rightarrow> string \<Rightarrow> string \<Rightarrow> py_error + task_candidate option" where
  "chain_candidate env now mg response queue task worker =
     (case dget response ''workflow_step'' of
        Some v \<Rightarrow>
          if \<not> truthy v \<or> v = PStr END then Inr None
          else bind_result (candidates_of env mg queue) (\<lambda>cands.
            case find (\<lambda>c. tc_task c = task) cands of
              None \<Rightarrow> Inr None
            | Some c \<Rightarrow>
                if tc_workflow_error c \<noteq> None then Inr None
                else case get_worker worker (mg_db mg) of
                    None \<Rightarrow> Inr None
                  | Some w \<Rightarrow>
                      Inr (if wk_status w \<noteq> ''offline'' \<and>
                              accepts (registered_filter w) c (queue_dedication (mg_db mg)) \<and>
                              dispatch_guards_ok env now mg queue task (tc_repo c) worker
                           then Some c else None))
      | None \<Rightarrow> Inr None)"

definition maybe_chain ::
  "env \<Rightarrow> io \<Rightarrow> transition \<Rightarrow> submit_body \<Rightarrow> string option \<Rightarrow> (manager, work_order option) action" where
  "maybe_chain env io t body queue =
     act_bind (compute (\<lambda>mg. chain_candidate env (io_now io) mg (t_response t) queue (sb_task body) (sb_worker_id body))) (\<lambda>cand.
       case cand of
         None \<Rightarrow> answer None
       | Some c \<Rightarrow> lease_and_build env io queue (sb_task body) (tc_repo c) (tc_required_mcps c)
           (sb_worker_id body) (o_backend body))"

section \<open>The submit\<close>

definition STALE_SUBMIT :: string where
  "STALE_SUBMIT = ''stale submit: lease is not live for this worker''"

definition stale_submit :: http where
  "stale_submit = Refused 409 STALE_SUBMIT"

definition ctx_of :: "submit_body \<Rightarrow> attempt_row \<Rightarrow> submit_ctx" where
  "ctx_of body run = \<lparr>cx_queue = queue_from_label (sb_queue body), cx_task = sb_task body,
     cx_worker = sb_worker_id body, cx_repo = opt_or (attempt_text run ''repo'') [], cx_title = sb_title body\<rparr>"

definition ref_of :: "string \<Rightarrow> submit_body \<Rightarrow> attempt_ref" where
  "ref_of rid body = \<lparr>ref_id = rid, ref_queue = queue_from_label (sb_queue body), ref_task = sb_task body\<rparr>"

text \<open>The last step of every synchronous branch.\<close>

definition finish_reply :: "env \<Rightarrow> io \<Rightarrow> submit_ctx \<Rightarrow> transition \<Rightarrow> (manager, http) action" where
  "finish_reply env io cx t =
     act_bind (finish env io cx t True AS_RUNNING) (\<lambda>response.
       answer (case response of None \<Rightarrow> stale_submit | Some r \<Rightarrow> Reply r))"

definition land_transition ::
  "attempt_ref \<Rightarrow> submit_body \<Rightarrow> submit_policy \<Rightarrow> land_outcome \<Rightarrow> py_error + transition" where
  "land_transition ref body policy result =
     (if sp_workflow_step policy \<noteq> None then on_workflow_land ref body result policy
      else on_land_result ref body result policy)"

definition split_transition ::
  "attempt_ref \<Rightarrow> submit_body \<Rightarrow> submit_policy \<Rightarrow> string list \<Rightarrow> py_error + transition" where
  "split_transition ref body policy created =
     (if sp_workflow_step policy \<noteq> None then on_workflow_split ref body created policy
      else Inr (on_split_result ref body created))"

definition retains_parent :: "submit_policy \<Rightarrow> bool" where
  "retains_parent policy = (case sp_workflow_step policy of None \<Rightarrow> False | Some step \<Rightarrow> wsp_evergreen step)"

definition git_branch ::
  "env \<Rightarrow> io \<Rightarrow> string \<Rightarrow> submit_body \<Rightarrow> attempt_row \<Rightarrow> submit_policy \<Rightarrow> meta \<Rightarrow> git_phase \<Rightarrow> (manager, http) action" where
  "git_branch env io rid body run policy m phase =
     (let ref = ref_of rid body; cx = ctx_of body run; queue = queue_from_label (sb_queue body) in
      case phase of
        GP_HARVEST_SPLIT \<Rightarrow>
          act_bind (run_content (\<lambda>ct. harvest_split_output (en_ftext env) (en_operator_default env) ct
              (tasks_rel queue) (sb_task body) m (io_files io) (retains_parent policy))) (\<lambda>created.
          act_bind (compute (\<lambda>_. split_transition ref body policy created)) (\<lambda>t. finish_reply env io cx t))
      | GP_ADOPT_CHECK \<Rightarrow>
          act_bind (compute (\<lambda>_. land_transition ref body policy (io_adopted io))) (\<lambda>t. finish_reply env io cx t)
      | GP_LAND \<Rightarrow>
          act_bind (run_db (apply_transition (io_now io)
              (on_land_enqueued ref (o_branch_ref body) (o_head_sha body)) AS_RUNNING (Some (sb_worker_id body)))) (\<lambda>enqueued.
            if enqueued = None then answer stale_submit
            else act_bind (set_idle (io_now io) (sb_worker_id body)) (\<lambda>_.
              answer (Reply [(''landed'', PNone), (''status'', PStr ''landing''), (''queued'', PBool True)]))))"

definition live_for :: "db \<Rightarrow> string \<Rightarrow> string \<Rightarrow> bool" where
  "live_for d lease worker =
     (case get_attempt d lease of
        None \<Rightarrow> False | Some r \<Rightarrow> at_state r = AS_RUNNING \<and> at_worker_id r = Some worker)"

text \<open>The answer and the order the worker goes on with.\<close>

definition worker_submit ::
  "env \<Rightarrow> io \<Rightarrow> string \<Rightarrow> submit_body \<Rightarrow> (manager, http \<times> work_order option) action" where
  "worker_submit env io rid body0 mg =
     (case get_attempt (mg_db mg) rid of
        None \<Rightarrow> (mg, Inr (Refused 404 ''unknown run'', None))
      | Some run \<Rightarrow>
          if \<not> live_for (mg_db mg) (sb_lease_id body0) (sb_worker_id body0) then (mg, Inr (stale_submit, None))
          else
            act_bind (compute (\<lambda>mg. submit_policy_of env mg run body0)) (\<lambda>(policy, m).
            let body = cap_document body0; ref = ref_of rid body; queue = queue_from_label (sb_queue body) in
            act_bind (compute (\<lambda>_. on_submit ref body policy)) (\<lambda>computed.
              case computed of
                Apply t \<Rightarrow>
                  act_bind (finish env io (ctx_of body run) t True AS_RUNNING) (\<lambda>response.
                    case response of
                      None \<Rightarrow> answer (stale_submit, None)
                    | Some r \<Rightarrow> act_bind (maybe_chain env io t body queue) (\<lambda>next_order.
                        answer (Reply r, next_order)))
              | Git phase \<Rightarrow>
                  act_bind (git_branch env io rid body run policy m phase) (\<lambda>reply. answer (reply, None)))) mg)"

text \<open>The completion of an enqueued land. A crashed job is a failed transport.\<close>

definition crashed_land :: "string \<Rightarrow> land_outcome" where
  "crashed_land exc = (new_land_outcome LK_TRANSPORT_FAILED)\<lparr>lo_detail := ''land job crashed: '' @ exc\<rparr>"

definition discarded_event :: "attempt_ref \<Rightarrow> land_outcome \<Rightarrow> transition_event" where
  "discarded_event ref result =
     event ''task_log'' (Some (ref_id ref)) (ref_queue ref) (Some (ref_task ref))
       (Some [(''line'', PStr (''land result discarded: lease no longer live (kind='' @ land_kind_value (lo_kind result) @
            '', sha='' @ (case lo_sha result of None \<Rightarrow> ''-'' | Some s \<Rightarrow> if s = [] then ''-'' else s) @ '')'')),
          (''land_kind'', PStr (land_kind_value (lo_kind result))), (''sha'', pstr (lo_sha result))])"

definition complete_land ::
  "env \<Rightarrow> io \<Rightarrow> string \<Rightarrow> submit_body \<Rightarrow> attempt_row \<Rightarrow> submit_policy \<Rightarrow> string + land_outcome \<Rightarrow> (manager, unit) action" where
  "complete_land env io rid body run policy job =
     (let result = (case job of Inl exc \<Rightarrow> crashed_land exc | Inr r \<Rightarrow> r); ref = ref_of rid body in
      act_bind (compute (\<lambda>_. land_transition ref body policy result)) (\<lambda>t.
      act_bind (finish env io (ctx_of body run) t False AS_LANDING) (\<lambda>applied.
        if applied = None then suppress (emit (io_now io) (discarded_event ref result)) else answer ())))"

section \<open>The report of a resolve\<close>

record resolve_body =
  rb_task :: string
  rb_queue :: "string option"
  rb_origin :: "string option"
  rb_status :: string
  rb_landed :: bool
  rb_sha :: "string option"
  rb_result_line :: "string option"
  rb_failure_kind :: "string option"
  rb_failure_reason :: "string option"
  rb_loc :: "int option"
  rb_remote :: "string option"
  rb_pushed :: "bool option"
  rb_telemetry :: telemetry

definition resolve_telemetry :: "telemetry \<Rightarrow> pydict" where
  "resolve_telemetry t =
     [(''turns'', pint (tel_turns t)), (''input_tokens'', pint (tel_input_tokens t)),
      (''output_tokens'', pint (tel_output_tokens t)),
      (''cache_read_input_tokens'', pint (tel_cache_read_input_tokens t)),
      (''cache_creation_input_tokens'', pint (tel_cache_creation_input_tokens t)),
      (''usage'', pdict (tel_usage t)), (''cost_usd'', pfloat (tel_cost_usd t)), (''billing'', pstr (tel_billing t))]"

text \<open>\<open>a or b\<close> of two optional texts.\<close>

definition either :: "string option \<Rightarrow> string option \<Rightarrow> string option" where
  "either a b = (if nonempty a then a else b)"

text \<open>What the push of a resolved commit makes of the report; the job's answer is an input.\<close>

definition pushed_report :: "env \<Rightarrow> io \<Rightarrow> db \<Rightarrow> string \<Rightarrow> resolve_body \<Rightarrow> resolve_body" where
  "pushed_report env io d rid b =
     (if rb_landed b \<and> nonempty (rb_sha b) \<and> rb_pushed b = None \<and> cf_landing_mode (en_cfg env) = LM_PUSH
         \<and> cf_rendezvous_remote (en_cfg env) \<noteq> []
         \<and> (case get_attempt d rid of None \<Rightarrow> False | Some run \<Rightarrow> nonempty (attempt_text run ''repo''))
      then (case io_push io of
          (True, sha) \<Rightarrow> b\<lparr>rb_sha := Some sha, rb_remote := Some ''push'', rb_pushed := Some True\<rparr>
        | (False, info) \<Rightarrow> b\<lparr>rb_landed := False,
            rb_result_line := either (rb_result_line b) (Some ''resolve failed''),
            rb_failure_kind := either (rb_failure_kind b) (Some (failure_kind_value MERGE_CONFLICT)),
            rb_failure_reason := either (rb_failure_reason b) (Some info)\<rparr>)
      else b)"

definition update_run :: "io \<Rightarrow> string \<Rightarrow> attempt_state \<Rightarrow> pydict \<Rightarrow> (manager, unit) action" where
  "update_run io rid st flds =
     run_db (\<lambda>d. bind_result (update_attempt (io_now io) rid (Some st) flds d) (\<lambda>d'. Inr (d', ())))"

definition drop_unless_evergreen :: "env \<Rightarrow> string option \<Rightarrow> string \<Rightarrow> (manager, unit) action" where
  "drop_unless_evergreen env queue task =
     act_bind (compute (\<lambda>mg. task_meta (mg_content mg) task queue)) (\<lambda>m.
     act_bind (compute (\<lambda>mg. task_is_evergreen m task (resolve_config (mg_content mg) (tasks_rel queue)))) (\<lambda>evergreen.
       if evergreen then answer () else suppress (drop_brief_job env queue task)))"

definition resolve_landed :: "env \<Rightarrow> io \<Rightarrow> string \<Rightarrow> resolve_body \<Rightarrow> (manager, unit) action" where
  "resolve_landed env io rid b =
     (let queue = queue_from_label (rb_queue b); line = either (rb_result_line b) (Some ''resolved: landed'') in
      act_bind (update_run io rid AS_LANDED
        ([(''result_line'', pstr line), (''commit_sha'', pstr (rb_sha b)), (''loc'', pint (rb_loc b)),
          (''remote'', pstr (rb_remote b)), (''pushed'', case rb_pushed b of None \<Rightarrow> PNone | Some p \<Rightarrow> PBool p)]
         @ resolve_telemetry (rb_telemetry b))) (\<lambda>_.
      act_bind (if nonempty (rb_origin b)
        then suppress (update_run io (opt_or (rb_origin b) []) AS_LANDED
          [(''result_line'', pstr (either (rb_result_line b) (Some ''resolved''))), (''commit_sha'', pstr (rb_sha b))])
        else answer ()) (\<lambda>_.
      act_bind (on_db (clear_task_state (io_now io) queue (rb_task b) True)) (\<lambda>_.
      act_bind (drop_unless_evergreen env queue (rb_task b)) (\<lambda>_.
      act_bind (emit (io_now io) (event ''task_result'' (Some rid) queue (Some (rb_task b))
        (Some [(''status'', PStr ''completed''), (''commit_sha'', pstr (rb_sha b)), (''remote'', pstr (rb_remote b)),
          (''pushed'', case rb_pushed b of None \<Rightarrow> PNone | Some p \<Rightarrow> PBool p)]))) (\<lambda>_.
        emit (io_now io) (event ''queue_changed'' None queue None None)))))))"

definition resolve_failed :: "io \<Rightarrow> string \<Rightarrow> resolve_body \<Rightarrow> (manager, unit) action" where
  "resolve_failed io rid b =
     (let queue = queue_from_label (rb_queue b);
          kind = (if nonempty (rb_failure_kind b) then opt_or (rb_failure_kind b) []
                  else failure_kind_value MERGE_CONFLICT);
          line = either (rb_result_line b) (Some ''resolve failed'');
          reason = ''needs resolve: '' @ opt_or (either (rb_result_line b)
            (either (rb_failure_reason b) (Some ''resolve failed''))) [] in
      act_bind (update_run io rid
        (if kind \<in> failure_kind_value ` MERGE_FAILURE_KINDS then AS_CONFLICT else AS_FAILED)
        ([(''result_line'', pstr line), (''failure_kind'', PStr kind), (''failure_reason'', pstr (rb_failure_reason b))]
         @ resolve_telemetry (rb_telemetry b))) (\<lambda>_.
      act_bind (on_db (set_task_state (io_now io) queue (rb_task b) (blocked_hold (Some reason)))) (\<lambda>_.
      act_bind (emit (io_now io) (event ''task_blocked'' None queue (Some (rb_task b))
        (Some [(''reason'', pstr (either (rb_failure_kind b) (Some ''merge_conflict'')))]))) (\<lambda>_.
        emit (io_now io) (event ''task_result'' (Some rid) queue (Some (rb_task b))
          (Some [(''status'', PStr ''error''), (''failure_kind'', pstr (rb_failure_kind b))])))))) "

definition origin_resolvable :: "db \<Rightarrow> string option \<Rightarrow> bool" where
  "origin_resolvable d origin \<longleftrightarrow> \<not> nonempty origin \<or>
     (case get_attempt d (opt_or origin []) of None \<Rightarrow> False | Some r \<Rightarrow> at_state r \<in> ATTEMPT_RESOLVABLE_STATES)"

definition worker_resolve_result :: "env \<Rightarrow> io \<Rightarrow> string \<Rightarrow> resolve_body \<Rightarrow> (manager, http) action" where
  "worker_resolve_result env io rid body mg =
     (if \<not> origin_resolvable (mg_db mg) (rb_origin body)
      then (mg, Inr (Refused 409 ''stale resolve result: origin run is not resolvable''))
      else
        let claimed = body\<lparr>rb_landed := rb_landed body \<and> rb_status body = run_status_value RS_COMPLETED\<rparr>;
            b = pushed_report env io (mg_db mg) rid claimed in
        act_bind (if rb_landed b then resolve_landed env io rid b else resolve_failed io rid b) (\<lambda>_.
        act_bind (change (\<lambda>mg. mg\<lparr>mg_resolves := ddel (mg_resolves mg) rid\<rparr>)) (\<lambda>_.
          answer (Reply [(''ok'', PBool True)]))) mg)"

end
