(* ===== verification/Worker_Facts.thy ===== *)
theory Worker_Facts
  imports Worker_Submit Attempt_Life
begin

text \<open>
  What the worker handlers keep and promise: an invariant of the database that the verbs of the
  store keep is kept by every handler; a submit is answered once; the effects of a transition are
  written in an order that survives a crash.
\<close>

section \<open>Invariants of the database\<close>

text \<open>
  The contract between the store and the handlers. \<open>store_effects\<close> is about the verbs that the
  effects of a transition use; \<open>store_verbs\<close> adds the compare-and-swap.
\<close>

locale store_effects =
  fixes inv :: "db \<Rightarrow> bool"
  assumes inv_create: "inv d \<Longrightarrow> create_attempt now a d = Inr (d', row) \<Longrightarrow>
      aa_state a \<in> {AS_RUNNING, AS_RESOLVING} \<Longrightarrow> inv d'"
    and inv_update: "inv d \<Longrightarrow> update_attempt now rid s flds d = Inr d' \<Longrightarrow> s \<noteq> Some AS_RUNNING \<Longrightarrow> inv d'"
    and inv_beat: "inv d \<Longrightarrow> inv (heartbeat_attempt now rid ttl d)"
    and inv_hold: "inv d \<Longrightarrow> inv (set_task_state now q task h d)"
    and inv_clear: "inv d \<Longrightarrow> inv (clear_task_state now q task reset d)"
    and inv_pause: "inv d \<Longrightarrow> inv (set_queue_pause now label reason d)"
    and inv_event: "inv d \<Longrightarrow> inv (fst (append_event now ev d))"
    and inv_register: "inv d \<Longrightarrow> inv (fst (register_worker now wid wa d))"
    and inv_status: "inv d \<Longrightarrow> inv (set_worker_status now wid status ct cq cr d)"
    and inv_worker_beat: "inv d \<Longrightarrow> inv (heartbeat_worker now wid d)"
begin

abbreviation holds :: "manager \<Rightarrow> bool" where
  "holds m \<equiv> inv (mg_db m)"

lemma keeps_on_db [keeps_rules]: "(\<And>d. inv d \<Longrightarrow> inv (f d)) \<Longrightarrow> keeps holds (on_db f)"
  by (simp add: on_db_def keeps_def change_def)

lemma keeps_run_db:
  "(\<And>d d' x. inv d \<Longrightarrow> f d = Inr (d', x) \<Longrightarrow> inv d') \<Longrightarrow> keeps holds (run_db f)"
  by (auto simp: keeps_def run_db_def split: sum.split prod.split)

lemma keeps_run_content [keeps_rules]: "keeps holds (run_content f)"
  by (auto simp: keeps_def run_content_def split: prod.split)

lemma keeps_other [keeps_rules]: "(\<And>m. mg_db (f m) = mg_db m) \<Longrightarrow> keeps holds (change f)"
  by (simp add: keeps_def change_def)

lemma keeps_emit [keeps_rules]: "keeps holds (emit now ev)"
  unfolding emit_def by (rule keeps_on_db) (use inv_event in \<open>simp add: append_event_def\<close>)

lemma keeps_create [keeps_rules]:
  "aa_state a \<in> {AS_RUNNING, AS_RESOLVING} \<Longrightarrow> keeps holds (run_db (create_attempt now a))"
  by (rule keeps_run_db) (blast intro: inv_create)

lemma keeps_update [keeps_rules]:
  "s \<noteq> Some AS_RUNNING \<Longrightarrow>
   keeps holds (run_db (\<lambda>d. bind_result (update_attempt now rid s flds d) (\<lambda>d'. Inr (d', ()))))"
  by (rule keeps_run_db) (auto simp: bind_result_eq_Inr_iff dest: inv_update)

lemmas verbs = inv_beat inv_hold inv_clear inv_pause inv_register inv_status inv_worker_beat

lemma keeps_jobs [keeps_rules]:
  "keeps holds (set_frontmatter_flag_job env q task flag)"
  "keeps holds (set_engine_meta_job env q task changes)"
  "keeps holds (write_artifact_job q task name t)"
  "keeps holds (drop_brief_job env q task)"
  by (auto simp: set_frontmatter_flag_job_def set_engine_meta_job_def write_artifact_job_def
      drop_brief_job_def intro!: keeps_rules)

lemma keeps_reset [keeps_rules]: "keeps holds (workflow_reset_job env q task)"
  by (auto simp: workflow_reset_job_def intro!: keeps_rules verbs)

lemma keeps_start_resolve [keeps_rules]: "keeps holds (start_resolve env io task q repo title)"
  unfolding start_resolve_def by (auto intro!: keeps_rules verbs)

lemma keeps_effect [keeps_rules]: "keeps holds (run_effect env io cx e)"
  by (cases e) (auto simp: set_idle_def intro!: keeps_rules verbs split: prod.split)

lemma keeps_plan [keeps_rules]: "keeps holds (act_each (run_effect env io cx) plan)"
  by (intro keeps_rules)

lemma keeps_lease [keeps_rules]: "keeps holds (lease_and_build env io q task repo mcps worker backend)"
proof -
  have stamp: "keeps holds (stamp_first_step env q task m)" for m
    using keeps_suppress [OF keeps_jobs(2)]
    by (auto simp: keeps_def stamp_first_step_def split: option.split)
  have clear: "keeps holds (on_db (clear_stale_hold now q task))" for now
    by (rule keeps_on_db) (auto simp: clear_stale_hold_def inv_clear split: option.split)
  show ?thesis
    unfolding lease_and_build_def set_busy_def
    by (intro keeps_bind keeps_compute stamp clear)
      (auto intro!: keeps_rules verbs split: sum.split)
qed

lemma keeps_chain [keeps_rules]: "keeps holds (maybe_chain env io t body q)"
  unfolding maybe_chain_def by (auto intro!: keeps_rules split: option.split)

lemma keeps_poll: "keeps holds (worker_poll env io b)"
proof -
  have errors: "inv d \<Longrightarrow> inv (block_workflow_errors env now cands d)" for d now cands
    by (induction cands arbitrary: d) (auto simp: block_workflow_errors_def inv_hold)
  show ?thesis
    unfolding worker_poll_def
    by (intro keeps_bind keeps_compute) (auto intro!: keeps_rules errors split: option.split)
qed

lemma keeps_checkin: "keeps holds (worker_checkin io wid args)"
  unfolding worker_checkin_def
  by (intro keeps_bind keeps_rules keeps_run_db) (metis inv_register fst_conv Inr_inject)

lemma keeps_heartbeat: "keeps holds (worker_heartbeat env io wid lease)"
  unfolding worker_heartbeat_def by (auto intro!: keeps_rules verbs)

lemma keeps_run_events: "keeps holds (worker_run_events env io rid evs)"
proof -
  have "keeps holds (report_event env io rid run ev)" for run ev
    unfolding report_event_def by (auto simp: Let_def intro!: keeps_rules)
  then have "keeps holds (act_bind (act_each (report_event env io rid run) evs) (\<lambda>_. answer (r :: http)))" for run r
    by (intro keeps_rules)
  then show ?thesis by (auto simp: keeps_def worker_run_events_def split: option.split)
qed

lemma keeps_resolve_result: "keeps holds (worker_resolve_result env io rid body)"
proof -
  have drop: "keeps holds (drop_unless_evergreen env q task)" for q task
    unfolding drop_unless_evergreen_def by (auto intro!: keeps_rules)
  have landed: "keeps holds (resolve_landed env io rid b)" for b
    unfolding resolve_landed_def update_run_def Let_def
    by (auto intro!: keeps_rules drop verbs)
  have failed: "keeps holds (resolve_failed io rid b)" for b
    unfolding resolve_failed_def update_run_def Let_def by (auto intro!: keeps_rules verbs)
  have "keeps holds (act_bind (if l then resolve_landed env io rid b else resolve_failed io rid b)
      (\<lambda>_. act_bind (change (\<lambda>mg. mg\<lparr>mg_resolves := ddel (mg_resolves mg) rid\<rparr>)) (\<lambda>_. answer (r :: http))))" for l b r
    by (auto intro!: keeps_rules landed failed)
  then show ?thesis unfolding keeps_def worker_resolve_result_def Let_def by simp
qed

end

locale store_verbs = store_effects +
  assumes inv_apply: "inv d \<Longrightarrow> apply_transition now t expected worker d = Inr (d', ids) \<Longrightarrow> inv d'"
begin

lemma keeps_apply [keeps_rules]: "keeps holds (run_db (apply_transition now t expected worker))"
  by (rule keeps_run_db) (rule inv_apply)

lemma keeps_finish [keeps_rules]: "keeps holds (finish env io cx t idle expected)"
  unfolding finish_def by (auto intro!: keeps_rules split: option.split)

lemma keeps_complete_land: "keeps holds (complete_land env io rid body run policy job)"
  unfolding complete_land_def Let_def by (auto intro!: keeps_rules)

lemma keeps_git_branch [keeps_rules]: "keeps holds (git_branch env io rid body run policy m phase)"
  unfolding git_branch_def Let_def set_idle_def finish_reply_def
  by (cases phase) (auto intro!: keeps_rules verbs)

lemma keeps_submit: "keeps holds (worker_submit env io rid body)"
proof -
  have "keeps holds (act_bind (compute (\<lambda>mg. submit_policy_of env mg run body)) (\<lambda>(policy, m).
      act_bind (compute (\<lambda>_. on_submit (r policy m) (b policy m) policy)) (\<lambda>computed.
        case computed of
          Apply t \<Rightarrow> act_bind (finish env io (cx policy m) t True AS_RUNNING) (\<lambda>response.
              case response of None \<Rightarrow> answer (stale_submit, None)
              | Some rr \<Rightarrow> act_bind (maybe_chain env io t (b policy m) (q policy m)) (\<lambda>next_order.
                  answer (Reply rr, next_order)))
        | Git phase \<Rightarrow> act_bind (git_branch env io rid (b policy m) run policy m phase)
              (\<lambda>reply. answer (reply, None)))))" for run r b cx q
    by (auto intro!: keeps_rules split: submit_answer.split option.split)
  then show ?thesis
    by (auto simp: keeps_def worker_submit_def Let_def split: option.split)
qed

end

section \<open>The store provides the contract\<close>

lemma reach_after: "store_step d d' \<Longrightarrow> reachable_db d \<Longrightarrow> reachable_db d'"
  by (rule reach_step)

lemma reach_create:
  "reachable_db d \<Longrightarrow> create_attempt now a d = Inr (d', row) \<Longrightarrow> aa_state a \<in> {AS_RUNNING, AS_RESOLVING} \<Longrightarrow>
   reachable_db d'"
  by (rule reach_after [OF step_create]) (auto simp: lifecycle_sets)

interpretation reached: store_verbs reachable_db
  by unfold_locales
    (fact reach_create | erule reach_after [OF step_update], assumption
     | erule reach_after [OF step_heartbeat] reach_after [OF step_set_task] reach_after [OF step_clear_task]
        reach_after [OF step_pause] reach_after [OF step_event] reach_after [OF step_register]
        reach_after [OF step_worker_status] reach_after [OF step_worker_beat]
     | erule (1) reach_after [OF step_apply])+

section \<open>A run that has left the running state\<close>

text \<open>The attempt exists and no verb but a transition out of \<open>running\<close> could bring it back.\<close>

definition run_left :: "string \<Rightarrow> db \<Rightarrow> bool" where
  "run_left rid d \<longleftrightarrow> rid \<in> at_id ` set (db_attempts d) \<and>
     (\<forall>r \<in> set (db_attempts d). at_id r = rid \<longrightarrow> at_state r \<noteq> AS_RUNNING)"

lemma run_left_same: "db_attempts d' = db_attempts d \<Longrightarrow> run_left rid d' = run_left rid d"
  by (simp add: run_left_def)

lemma run_left_sql_update:
  assumes "run_left rid d" "db_attempts d' = sql_update p f (db_attempts d)"
    and "\<And>r. at_id (f r) = at_id r" "\<And>r. at_state (f r) = AS_RUNNING \<Longrightarrow> at_state r = AS_RUNNING"
  shows "run_left rid d'"
  using assms(1) unfolding run_left_def assms(2) set_sql_update image_image
  by (auto simp: assms(3) image_iff dest!: assms(4))

lemma attempt_set_state: "at_state (attempt_set now flds s r) = (case s of None \<Rightarrow> at_state r | Some q \<Rightarrow> q)"
  by (auto simp: attempt_set_def Let_def split: option.split)

interpretation left: store_effects "run_left rid" for rid
proof
  fix d d' now a row
  assume "run_left rid d" "create_attempt now a d = Inr (d', row)"
  then show "run_left rid d'"
    by (auto simp: run_left_def create_attempt_def Let_def bind_result_eq_Inr_iff write_attempts_Inr
        split: if_splits)
next
  fix d d' now rid' s flds
  assume a: "run_left rid d" "update_attempt now rid' s flds d = Inr d'" "s \<noteq> Some AS_RUNNING"
  show "run_left rid d'"
  proof (cases "s = None \<and> flds = []")
    case True
    with a show ?thesis by (simp add: update_attempt_def)
  next
    case False
    then have "db_attempts d' = sql_update (\<lambda>r. at_id r = rid') (attempt_set now flds s) (db_attempts d)"
      using a(2) by (auto simp: update_attempt_def bind_result_eq_Inr_iff write_attempts_Inr)
    then show ?thesis
      by (rule run_left_sql_update [OF a(1)]) (use a(3) in \<open>auto simp: attempt_set_state split: option.splits\<close>)
  qed
next
  fix d now rid' ttl
  assume a: "run_left rid d"
  have "db_attempts (heartbeat_attempt now rid' ttl d) =
      sql_update (\<lambda>r. at_id r = rid' \<and> at_state r \<in> ATTEMPT_LIVE_STATES)
        (\<lambda>r. r\<lparr>at_heartbeat_at := now, at_deadline_at := Some (ttl_deadline now ttl)\<rparr>) (db_attempts d)"
    by (simp add: heartbeat_attempt_def)
  from run_left_sql_update [OF a this] show "run_left rid (heartbeat_attempt now rid' ttl d)" by simp
qed (auto simp: run_left_def set_task_state_def clear_task_state_def Let_def set_queue_pause_def append_event_def
    register_worker_def set_worker_status_def heartbeat_worker_def)

lemma live_for_left: "run_left rid d \<Longrightarrow> \<not> live_for d rid worker"
  by (auto simp: run_left_def live_for_def get_attempt_def split: option.split dest: find_row_Some)

text \<open>After a submit's run has left, every further submit of it is refused.\<close>

lemma left_refuses:
  assumes "run_left rid (mg_db m)" "sb_lease_id body = rid"
  shows "worker_submit env io rid body m = (m, Inr (stale_submit, None))"
proof -
  obtain r where "get_attempt (mg_db m) rid = Some r"
    using assms(1) by (cases "get_attempt (mg_db m) rid")
      (auto simp: run_left_def get_attempt_def find_row_None)
  then show ?thesis using live_for_left [OF assms(1)] assms(2) by (simp add: worker_submit_def)
qed

lemma apply_leaves_run:
  assumes "distinct (map at_id (db_attempts d))" "t_state t \<noteq> AS_RUNNING" "ref_id (t_ref t) = rid"
    and "apply_transition now t AS_RUNNING worker d = Inr (d', Some ids)"
  shows "run_left rid d'"
proof -
  let ?f = "attempt_set now (t_fields t) (Some (t_state t))"
  obtain r where r: "r \<in> set (db_attempts d)" "cas_matches t AS_RUNNING worker r"
    using apply_transition_SomeD(1) [OF assms(4)] by blast
  have rows: "db_attempts d' = sql_update (cas_matches t AS_RUNNING worker) ?f (db_attempts d)"
    by (rule apply_transition_SomeD(2) [OF assms(4)])
  have "r' = r" if "r' \<in> set (db_attempts d)" "at_id r' = rid" for r'
    using that r assms(1,3) by (metis cas_matches_def distinct_map inj_onD)
  then have "at_state (?f r') \<noteq> AS_RUNNING \<and> cas_matches t AS_RUNNING worker r'"
    if "r' \<in> set (db_attempts d)" "at_id r' = rid" for r'
    using that r(2) assms(2) by simp
  moreover have "map at_id (db_attempts d') = map at_id (db_attempts d)"
    unfolding rows by (rule keys_sql_update) simp
  then have "at_id ` set (db_attempts d') = at_id ` set (db_attempts d)"
    by (metis list.set_map)
  moreover have "at_id r = rid" using r(2) assms(3) by (simp add: cas_matches_def)
  ultimately show ?thesis
    using r(1) unfolding run_left_def rows set_sql_update by auto
qed

section \<open>A submit is answered once\<close>

text \<open>
  What a step of a submit may come to: it raised before it wrote anything to the database, or the
  run has left the running state.
\<close>

definition settled :: "string \<Rightarrow> manager \<Rightarrow> manager \<times> (py_error + 'a) \<Rightarrow> bool" where
  "settled rid m out \<longleftrightarrow>
     (mg_db (fst out) = mg_db m \<and> (\<exists>e. snd out = Inl e)) \<or> run_left rid (mg_db (fst out))"

text \<open>An answer, when there is one, is of a kind.\<close>

definition answers :: "('a \<Rightarrow> bool) \<Rightarrow> manager \<times> (py_error + 'a) \<Rightarrow> bool" where
  "answers good out \<longleftrightarrow> (\<forall>x. snd out = Inr x \<longrightarrow> good x)"

definition settles :: "('a \<Rightarrow> bool) \<Rightarrow> string \<Rightarrow> manager \<Rightarrow> manager \<times> (py_error + 'a) \<Rightarrow> bool" where
  "settles good rid m out \<longleftrightarrow> settled rid m out \<and> answers good out"

lemma settled_then:
  assumes "settled rid m (a m)" "\<And>x. keeps (\<lambda>m. run_left rid (mg_db m)) (f x)"
  shows "settled rid m (act_bind a f m)"
  using assms unfolding settled_def act_bind_def keeps_def
  by (auto split: prod.splits sum.splits)

lemma settled_after:
  assumes "\<And>m. mg_db (fst (a m)) = mg_db m"
    and "\<And>x m'. a m = (m', Inr x) \<Longrightarrow> mg_db m' = mg_db m \<Longrightarrow> settled rid m' (f x m')"
  shows "settled rid m (act_bind a f m)"
proof (cases "a m")
  case (Pair m' res)
  have db: "mg_db m' = mg_db m" using assms(1) [of m] Pair by simp
  show ?thesis
  proof (cases res)
    case (Inl e)
    with Pair db show ?thesis by (simp add: settled_def act_bind_def)
  next
    case (Inr x)
    have "settled rid m' (f x m')" by (rule assms(2)) (use Pair Inr db in simp_all)
    then show ?thesis using Pair Inr db by (simp add: settled_def act_bind_def)
  qed
qed

lemma run_content_db [simp]: "mg_db (fst (run_content f m)) = mg_db m"
  by (simp add: run_content_def split: prod.split)

lemma compute_db [simp]: "mg_db (fst (compute f m)) = mg_db m"
  by (simp add: compute_def)

lemma live_for_matches:
  "live_for d rid worker \<Longrightarrow> ref_id (t_ref t) = rid \<Longrightarrow>
   \<exists>r \<in> set (db_attempts d). cas_matches t AS_RUNNING (Some worker) r"
  by (auto simp: live_for_def get_attempt_def cas_matches_def dest!: find_row_Some split: option.splits)

lemma swap_live:
  assumes "distinct (map at_id (db_attempts (mg_db m)))" "live_for (mg_db m) rid worker"
    and "t_state t \<noteq> AS_RUNNING" "ref_id (t_ref t) = rid"
  shows "settles (\<lambda>ids. ids \<noteq> None) rid m (run_db (apply_transition now t AS_RUNNING (Some worker)) m)"
proof (cases "apply_transition now t AS_RUNNING (Some worker) (mg_db m)")
  case (Inl e)
  then show ?thesis by (simp add: run_db_def settles_def settled_def answers_def)
next
  case (Inr out)
  obtain d' ids where out: "out = (d', ids)" by (cases out)
  have "ids \<noteq> None"
    using live_for_matches [OF assms(2,4)] apply_transition_NoneD(2) Inr out by (metis (no_types, lifting))
  then obtain i where i: "ids = Some i" by blast
  have "run_left rid d'"
    by (rule apply_leaves_run [OF assms(1,3,4)]) (use Inr out i in simp)
  then show ?thesis using Inr out i by (simp add: run_db_def settles_def settled_def answers_def)
qed

lemma answers_simps [simp]:
  "answers good (m, Inl e)" "answers good (m, Inr x) \<longleftrightarrow> good x" "answers good (answer x m) \<longleftrightarrow> good x"
  by (simp_all add: answers_def answer_def)

lemma bind_answers:
  "answers good (a m) \<Longrightarrow> (\<And>x m'. good x \<Longrightarrow> answers fine (f x m')) \<Longrightarrow> answers fine (act_bind a f m)"
  by (auto simp: act_bind_def answers_def split: prod.split sum.split)

lemma bind_any: "(\<And>x m'. answers fine (f x m')) \<Longrightarrow> answers fine (act_bind a f m)"
  by (auto simp: act_bind_def answers_def split: prod.split sum.split)

lemma settles_bind:
  assumes "settles good rid m (a m)" "\<And>x. keeps (\<lambda>m. run_left rid (mg_db m)) (f x)"
    and "\<And>x m'. good x \<Longrightarrow> answers fine (f x m')"
  shows "settles fine rid m (act_bind a f m)"
  using assms settled_then [of rid m a f] bind_answers [of good a m fine f] by (simp add: settles_def)

lemma settles_after:
  assumes "\<And>m. mg_db (fst (a m)) = mg_db m"
    and "\<And>x m'. a m = (m', Inr x) \<Longrightarrow> mg_db m' = mg_db m \<Longrightarrow> settles good rid m' (f x m')"
  shows "settles good rid m (act_bind a f m)"
proof -
  have "answers good (act_bind a f m)"
  proof (cases "a m")
    case (Pair m' res)
    have "mg_db m' = mg_db m" using assms(1) [of m] Pair by simp
    then show ?thesis
      using assms(2) [of m'] Pair by (cases res) (simp_all add: act_bind_def settles_def)
  qed
  moreover have "settled rid m (act_bind a f m)"
    by (rule settled_after [OF assms(1)]) (use assms(2) in \<open>simp add: settles_def\<close>)
  ultimately show ?thesis by (simp add: settles_def)
qed

lemma settles_compute:
  assumes "\<And>x. g m = Inr x \<Longrightarrow> settles good rid m (f x m)"
  shows "settles good rid m (act_bind (compute g) f m)"
  by (rule settles_after) (use assms in \<open>auto simp: compute_def\<close>)

lemma finish_live:
  assumes "distinct (map at_id (db_attempts (mg_db m)))" "live_for (mg_db m) rid (cx_worker cx)"
    and "t_state t \<noteq> AS_RUNNING" "ref_id (t_ref t) = rid"
  shows "settles (\<lambda>r. r \<noteq> None) rid m (finish env io cx t idle AS_RUNNING m)"
  unfolding finish_def
  by (rule settles_bind, rule swap_live [OF assms])
    (auto intro!: keeps_rules left.keeps_plan bind_any split: option.split)

lemma sound_submit_leaves: "sound_submit ref t \<Longrightarrow> t_state t \<noteq> AS_RUNNING \<and> t_ref t = ref"
  by (auto simp: sound_submit_def lifecycle_sets)

text \<open>Answers that are no refusals.\<close>

definition replied :: "http \<Rightarrow> bool" where
  "replied a \<longleftrightarrow> (\<exists>r. a = Reply r)"

lemma finish_reply_live:
  assumes "distinct (map at_id (db_attempts (mg_db m)))" "live_for (mg_db m) rid (cx_worker cx)"
    and "t_state t \<noteq> AS_RUNNING" "ref_id (t_ref t) = rid"
  shows "settles replied rid m (finish_reply env io cx t m)"
  unfolding finish_reply_def
  by (rule settles_bind, rule finish_live [OF assms]) (auto intro!: keeps_rules simp: replied_def)

lemma land_transition_ends:
  assumes "on_submit ref out policy = Inr (Git g)" "g = GP_LAND \<or> g = GP_ADOPT_CHECK"
    and "land_transition ref out policy result = Inr t"
  shows "submit_ends ref out policy t"
  using assms
  by (auto simp: land_transition_def split: if_splits intro: submit_ends.landed submit_ends.workflow_landed)

lemma split_transition_ends:
  assumes "on_submit ref out policy = Inr (Git GP_HARVEST_SPLIT)" "split_transition ref out policy created = Inr t"
  shows "submit_ends ref out policy t"
  using assms
  by (auto simp: split_transition_def split: if_splits intro: submit_ends.split submit_ends.workflow_split)

lemma ctx_of_worker [simp]: "cx_worker (ctx_of body run) = sb_worker_id body"
  by (simp add: ctx_of_def)

lemma ref_of_id [simp]: "ref_id (ref_of rid body) = rid"
  by (simp add: ref_of_def)

lemma cap_document_ids [simp]:
  "sb_worker_id (cap_document body) = sb_worker_id body" "sb_lease_id (cap_document body) = sb_lease_id body"
  by (simp_all add: cap_document_def Let_def split: option.split)

lemma finish_reply_ends:
  assumes "distinct (map at_id (db_attempts (mg_db m)))" "live_for (mg_db m) rid (sb_worker_id body)"
    and "submit_ends (ref_of rid body) body policy t"
  shows "settles replied rid m (finish_reply env io (ctx_of body run) t m)"
proof -
  have "t_state t \<noteq> AS_RUNNING \<and> t_ref t = ref_of rid body"
    using sound_submit_leaves submit_ends_sound [OF assms(3)] by blast
  then show ?thesis
    using finish_reply_live [of m rid "ctx_of body run" t env io] assms(1,2) by (simp add: settles_def)
qed

lemma git_branch_live:
  assumes "distinct (map at_id (db_attempts (mg_db m)))" "live_for (mg_db m) rid (sb_worker_id body)"
    and g: "on_submit (ref_of rid body) body policy = Inr (Git phase)"
  shows "settles replied rid m (git_branch env io rid body run policy fm phase m)"
proof (cases phase)
  case GP_HARVEST_SPLIT
  note fin = finish_reply_ends [OF _ _ split_transition_ends [OF g [unfolded GP_HARVEST_SPLIT]]]
  show ?thesis
    unfolding GP_HARVEST_SPLIT git_branch_def Let_def git_phase.case
    by (rule settles_after, simp, rule settles_compute, rule fin) (use assms(1,2) in auto)
next
  case GP_ADOPT_CHECK
  note fin = finish_reply_ends [OF _ _ land_transition_ends [OF g [unfolded GP_ADOPT_CHECK]]]
  show ?thesis
    unfolding GP_ADOPT_CHECK git_branch_def Let_def git_phase.case
    by (rule settles_compute, rule fin) (use assms(1,2) in auto)
next
  case GP_LAND
  show ?thesis
    unfolding GP_LAND git_branch_def Let_def git_phase.case set_idle_def
    by (rule settles_bind, rule swap_live [OF assms(1,2)])
      (auto intro!: keeps_rules left.keeps_on_db left.inv_status bind_any
        simp: on_land_enqueued_def replied_def)
qed

lemma submit_settles:
  assumes "distinct (map at_id (db_attempts (mg_db m)))" "sb_lease_id body0 = rid"
    and "live_for (mg_db m) rid (sb_worker_id body0)"
  shows "settles (\<lambda>(a, _). replied a) rid m (worker_submit env io rid body0 m)"
proof -
  obtain run where run: "get_attempt (mg_db m) rid = Some run"
    using assms(3) by (auto simp: live_for_def split: option.splits)
  define body where "body = cap_document body0"
  have live: "live_for (mg_db m) rid (sb_worker_id body)" using assms(3) by (simp add: body_def)
  let ?go = "\<lambda>policy fm computed. case computed of
          Apply t \<Rightarrow> act_bind (finish env io (ctx_of body run) t True AS_RUNNING) (\<lambda>response.
              case response of None \<Rightarrow> answer (stale_submit, None)
              | Some r \<Rightarrow> act_bind (maybe_chain env io t body (queue_from_label (sb_queue body))) (\<lambda>nxt.
                  answer (Reply r, nxt)))
        | Git phase \<Rightarrow> act_bind (git_branch env io rid body run policy fm phase)
              (\<lambda>reply. answer (reply, None))"
  have go: "settles (\<lambda>(a, _). replied a) rid m (?go policy fm computed m)"
    if c: "on_submit (ref_of rid body) body policy = Inr computed" for policy fm computed
  proof (cases computed)
    case (Apply t)
    have "t_state t \<noteq> AS_RUNNING \<and> t_ref t = ref_of rid body"
      using c Apply by (intro sound_submit_leaves submit_ends_sound submit_ends.answered) simp
    then have "settles (\<lambda>r. r \<noteq> None) rid m (finish env io (ctx_of body run) t True AS_RUNNING m)"
      using finish_live [of m rid "ctx_of body run" t env io True] assms(1) live by simp
    then show ?thesis
      unfolding Apply submit_answer.case
      by (rule settles_bind) (auto intro!: keeps_rules left.keeps_chain bind_any simp: replied_def split: option.split)
  next
    case (Git phase)
    from git_branch_live [OF assms(1) live c [unfolded Git]] show ?thesis
      unfolding Git submit_answer.case by (rule settles_bind) (auto intro: keeps_rules)
  qed
  have "settles (\<lambda>(a, _). replied a) rid m
    (act_bind (compute (\<lambda>mg. submit_policy_of env mg run body0)) (\<lambda>(policy, fm).
      act_bind (compute (\<lambda>_. on_submit (ref_of rid body) body policy)) (?go policy fm)) m)"
    by (rule settles_compute, clarsimp, rule settles_compute, rule go)
  then show ?thesis
    using run assms(2,3) unfolding body_def worker_submit_def Let_def by simp
qed

lemma reachable_ids: "reachable_db d \<Longrightarrow> distinct (map at_id (db_attempts d))"
  using reachable_store_ok by (auto simp: store_ok_def attempts_ok_def)

section \<open>Every handler keeps the store\<close>

text \<open>
  One request of a worker, or another change of the state: a verb of the store that the operator or
  the reconciler runs, and any change of the task files or of what is not stored.
\<close>

inductive manager_step :: "env \<Rightarrow> manager \<Rightarrow> manager \<Rightarrow> bool" for env where
  polled: "manager_step env m (fst (worker_poll env io b m))"
| submitted: "manager_step env m (fst (worker_submit env io rid body m))"
| land_completed: "manager_step env m (fst (complete_land env io rid body run policy job m))"
| resolve_reported: "manager_step env m (fst (worker_resolve_result env io rid rb m))"
| checked_in: "manager_step env m (fst (worker_checkin io wid args m))"
| beat: "manager_step env m (fst (worker_heartbeat env io wid lease m))"
| events_reported: "manager_step env m (fst (worker_run_events env io rid evs m))"
| verb: "store_step (mg_db m) d \<Longrightarrow> manager_step env m (m\<lparr>mg_db := d\<rparr>)"
| other: "mg_db m' = mg_db m \<Longrightarrow> manager_step env m m'"

inductive reachable_manager :: "env \<Rightarrow> manager \<Rightarrow> bool" for env where
  started: "mg_db m = empty_db \<Longrightarrow> reachable_manager env m"
| stepped: "reachable_manager env m \<Longrightarrow> manager_step env m m' \<Longrightarrow> reachable_manager env m'"

lemma keepsD: "keeps P a \<Longrightarrow> P m \<Longrightarrow> P (fst (a m))"
  by (simp add: keeps_def)

lemma manager_step_reached: "manager_step env m m' \<Longrightarrow> reachable_db (mg_db m) \<Longrightarrow> reachable_db (mg_db m')"
proof (induction rule: manager_step.induct)
  case (verb m d)
  then show ?case by (auto intro: reach_after)
qed (auto intro: keepsD reached.keeps_poll reached.keeps_submit reached.keeps_complete_land
    reached.keeps_resolve_result reached.keeps_checkin reached.keeps_heartbeat reached.keeps_run_events)

lemma reachable_manager_db: "reachable_manager env m \<Longrightarrow> reachable_db (mg_db m)"
  by (induction rule: reachable_manager.induct) (auto intro: reach_empty manager_step_reached)

section \<open>A small manager\<close>

definition sample_cfg :: manager_config where
  "sample_cfg = \<lparr>cf_landing_mode = LM_NONE, cf_planner_model = [], cf_default_model = ''claude'',
     cf_auto_resolve = False, cf_quarantine_threshold = 3, cf_retry_backoff_seconds = 60,
     cf_rendezvous_remote = [], cf_lease_ttl_seconds = 120, cf_max_concurrent_resolves = 1,
     cf_resolve_backend = PNone, cf_resolve_model = PNone, cf_wip_ref_prefix = ''wip'',
     cf_stale_seconds = 60\<rparr>"

definition sample_env :: env where
  "sample_env = \<lparr>en_cfg = sample_cfg, en_ftext = (\<lambda>_. []), en_operator_default = ''claude'',
     en_repo_available = (\<lambda>_. True), en_head = (\<lambda>_. None), en_operator_prompts = [],
     en_shipped_prompts = [],
     en_docs = (\<lambda>_ _ _ _ _. Inr \<lparr>dr_entries = [], dr_pin = None, dr_dirty = False\<rparr>)\<rparr>"

definition sample_io :: io where
  "sample_io = \<lparr>io_now = 200, io_run_id = ''run-2'', io_child_id = ''child-1'', io_alive = (\<lambda>_. False),
     io_spawned = True, io_files = None, io_adopted = new_land_outcome LK_NO_CHANGES,
     io_push = (True, ''sha'')\<rparr>"

definition small_content :: content where
  "small_content = \<lparr>ct_queues = [(''main'', \<lparr>qd_config = NoFile, qd_briefs = [(''fix'', ''body'')]\<rparr>)],
     ct_artifacts = [], ct_attachments = [], ct_manager_config = [], ct_store_config = NoFile\<rparr>"

definition sample_manager :: manager where
  "sample_manager = \<lparr>mg_db = sample_db, mg_content = small_content, mg_workflows = [], mg_watch = [],
     mg_cooldowns = [], mg_served = [], mg_resolves = []\<rparr>"

definition sample_body :: submit_body where
  "sample_body = outcome.extend (new_outcome RS_ABORTED) \<lparr>sb_worker_id = ''w1'', sb_lease_id = ''run-1'',
     sb_task = ''fix'', sb_queue = None, sb_title = ''fix'', sb_quarantine = False\<rparr>"

definition sample_poll :: poll_body where
  "sample_poll = \<lparr>pb_worker_id = ''w1'', pb_backend = None, pb_queues = None, pb_priorities = None,
     pb_models = Some [''claude''], pb_mcps = None, pb_exclude = []\<rparr>"

lemma sample_body_lease: "sb_lease_id (sample_body\<lparr>sb_worker_id := w\<rparr>) = ''run-1''"
  by (simp add: sample_body_def outcome.defs submit_body.defs)

lemma sample_manager_db: "reachable_db (mg_db sample_manager)"
  using sample_reachable by (simp add: sample_manager_def)

section \<open>Properties\<close>

text \<open>
  C3: a submit of a run is answered at most once. Whatever the answer was, an exception included:
  either the database is as it was and the caller was refused or saw an exception, or every later
  submit of the run is refused as stale and changes nothing.
\<close>

theorem submit_answered_once:
  assumes "reachable_db (mg_db m)" "sb_lease_id body = rid"
    and "worker_submit env io rid body m = (m', res)" "sb_lease_id body' = rid"
  shows "(mg_db m' = mg_db m \<and> (case res of Inl e \<Rightarrow> True | Inr (a, nxt) \<Rightarrow> a \<in> {stale_submit, Refused 404 ''unknown run''})) \<or>
    worker_submit env io' rid body' m' = (m', Inr (stale_submit, None))"
proof (cases "live_for (mg_db m) rid (sb_worker_id body)")
  case True
  have "settles (\<lambda>(a, _). replied a) rid m (m', res)"
    using submit_settles [OF reachable_ids [OF assms(1)] assms(2) True, of env io] assms(3) by simp
  then show ?thesis
    using left_refuses [of rid m' body' env io'] assms(4) by (auto simp: settles_def settled_def)
next
  case False
  then have "m' = m" "res = Inr (stale_submit, None) \<or> res = Inr (Refused 404 ''unknown run'', None)"
    using assms(2,3) by (auto simp: worker_submit_def split: option.splits)
  then show ?thesis by auto
qed

lemma submit_answered_once_witness:
  "worker_submit sample_env sample_io ''run-1'' sample_body
     (fst (worker_submit sample_env sample_io ''run-1'' sample_body sample_manager)) =
   (fst (worker_submit sample_env sample_io ''run-1'' sample_body sample_manager), Inr (stale_submit, None))"
proof -
  have "db_attempts (mg_db (fst (worker_submit sample_env sample_io ''run-1'' sample_body sample_manager))) \<noteq>
      db_attempts (mg_db sample_manager)"
    by code_simp
  then show ?thesis
    using submit_answered_once [OF sample_manager_db, of sample_body "''run-1''" sample_env sample_io _ _ sample_body
        sample_io, OF _ prod.collapse [symmetric]]
    by (fastforce simp: sample_body_def outcome.defs submit_body.defs)
qed

text \<open>
  A refused submit writes nothing: when the lease is the run's, a stale or unknown submit
  leaves the whole state, the task files included, as it was, and hands out no order.
\<close>

theorem refused_submit_writes_nothing:
  assumes "reachable_db (mg_db m)" "sb_lease_id body = rid"
    and "worker_submit env io rid body m = (m', Inr (Refused code reason, nxt))"
  shows "m' = m \<and> nxt = None"
proof (cases "live_for (mg_db m) rid (sb_worker_id body)")
  case True
  from submit_settles [OF reachable_ids [OF assms(1)] assms(2) this, of env io] assms(3)
  show ?thesis by (simp add: settles_def replied_def)
next
  case False
  then show ?thesis using assms(2,3) by (auto simp: worker_submit_def split: option.splits)
qed

lemma refused_submit_writes_nothing_witness:
  "fst (worker_submit sample_env sample_io ''run-1'' (sample_body\<lparr>sb_worker_id := ''w2''\<rparr>) sample_manager) = sample_manager"
proof -
  have "snd (worker_submit sample_env sample_io ''run-1'' (sample_body\<lparr>sb_worker_id := ''w2''\<rparr>) sample_manager) =
      Inr (Refused 409 STALE_SUBMIT, None)"
    by code_simp
  then show ?thesis
    using refused_submit_writes_nothing [OF sample_manager_db, of "sample_body\<lparr>sb_worker_id := ''w2''\<rparr>" "''run-1''"
        sample_env sample_io _ "409" STALE_SUBMIT None]
    by (metis (no_types) prod.collapse sample_body_lease)
qed

text \<open>
  Whatever the workers, the operator and the reconciler do, in any order, the database stays
  reachable by the verbs of the store: it keeps the store invariant and no task ever has two
  live attempts.
\<close>

theorem handlers_keep_store:
  assumes "reachable_manager env m"
  shows "store_ok (mg_db m) \<and> distinct (map (\<lambda>r. (at_queue r, at_task r)) (live_attempts (mg_db m)))"
  using reachable_store_ok [OF reachable_manager_db [OF assms]]
  by (simp add: store_ok_def attempts_ok_def live_keys_def live_attempts_def)

lemma handlers_keep_store_witness:
  "store_ok (mg_db (fst (worker_poll sample_env sample_io sample_poll
     (sample_manager\<lparr>mg_db := empty_db\<rparr>)))) \<and>
   distinct (map (\<lambda>r. (at_queue r, at_task r)) (live_attempts (mg_db (fst (worker_poll sample_env sample_io sample_poll
     (sample_manager\<lparr>mg_db := empty_db\<rparr>))))))"
  by (rule handlers_keep_store [of sample_env], rule stepped [OF started polled]) simp

end
