(* ===== verification/Poll_Facts.thy ===== *)
theory Poll_Facts
  imports Worker_Facts Scheduler_Facts
begin

text \<open>
  What a poll hands out (\<^verbatim>\<open>worker_poll\<close> and \<^verbatim>\<open>_lease_and_build\<close> of
  \<^verbatim>\<open>src/nightshift/manager/api_worker.py\<close>): the order of an admissible candidate, with its
  attempt created; a held task comes back only as the single retry of an idle queue.
\<close>

section \<open>Actions that answered\<close>

lemma act_bind_Inr:
  "act_bind a f m = (m', Inr y) \<longleftrightarrow> (\<exists>x m1. a m = (m1, Inr x) \<and> f x m1 = (m', Inr y))"
  by (auto simp: act_bind_def split: prod.splits sum.splits)

lemma answer_Inr: "answer x m = (m', Inr y) \<longleftrightarrow> m' = m \<and> y = x"
  by (auto simp: answer_def)

lemma compute_Inr: "compute f m = (m', Inr y) \<longleftrightarrow> m' = m \<and> f m = Inr y"
  by (auto simp: compute_def)

lemma change_Inr: "change f m = (m', Inr u) \<longleftrightarrow> m' = f m"
  by (auto simp: change_def)

lemma on_db_Inr: "on_db f m = (m', Inr u) \<longleftrightarrow> m' = m\<lparr>mg_db := f (mg_db m)\<rparr>"
  by (simp add: on_db_def change_Inr)

lemma run_db_Inr: "run_db f m = (m', Inr x) \<longleftrightarrow> (\<exists>d. f (mg_db m) = Inr (d, x) \<and> m' = m\<lparr>mg_db := d\<rparr>)"
  by (auto simp: run_db_def split: sum.splits prod.splits)

lemma case_sum_Inr:
  "(case r of Inl e \<Rightarrow> f e | Inr x \<Rightarrow> g x) m = out \<longleftrightarrow> (\<exists>e. r = Inl e \<and> f e m = out) \<or> (\<exists>x. r = Inr x \<and> g x m = out)"
  by (auto split: sum.split)

lemma case_prod_out: "(case p of (x, y) \<Rightarrow> f x y) m = out \<longleftrightarrow> (\<exists>x y. p = (x, y) \<and> f x y m = out)"
  by (cases p) simp

lemmas act_Inr = act_bind_Inr answer_Inr compute_Inr change_Inr on_db_Inr run_db_Inr

section \<open>Leasing\<close>

lemma created_row:
  assumes "create_attempt now a d = Inr (d', Some row)"
  shows "get_attempt d' (aa_id a) = Some row" "at_id row = aa_id a" "at_task row = aa_task a"
    "at_queue row = qkey (aa_queue a)" "at_state row = aa_state a" "at_worker_id row = aa_worker_id a"
proof -
  show r: "at_id row = aa_id a" "at_task row = aa_task a" "at_queue row = qkey (aa_queue a)"
      "at_state row = aa_state a" "at_worker_id row = aa_worker_id a"
    using assms by (auto simp: create_attempt_def Let_def bind_result_eq_Inr_iff split: if_splits)
  have "db_attempts d' = db_attempts d @ [row]" "distinct (map at_id (db_attempts d'))"
    using assms by (auto simp: create_attempt_def Let_def bind_result_eq_Inr_iff write_attempts_Inr split: if_splits)
  then show "get_attempt d' (aa_id a) = Some row"
    unfolding get_attempt_def by (intro find_row_unique) (simp_all add: r)
qed

lemma set_busy_attempts [simp]: "db_attempts (set_worker_status now w s t q r d) = db_attempts d"
  by (simp add: set_worker_status_def)

text \<open>A computation whose value, when there is one, has a property.\<close>

definition yields :: "('a \<Rightarrow> bool) \<Rightarrow> 'e + 'a \<Rightarrow> bool" where
  "yields P r \<longleftrightarrow> (\<forall>x. r = Inr x \<longrightarrow> P x)"

lemma yields_bind: "(\<And>x. yields P (f x)) \<Longrightarrow> yields P (bind_result r f)"
  by (auto simp: yields_def bind_result_eq_Inr_iff)

lemma yields_simps [simp]: "yields P (Inl e)" "yields P (Inr x) \<longleftrightarrow> P x"
  by (simp_all add: yields_def)

lemma built_order:
  "build_work_order env mg task queue repo rid base = Inr (Inr (ord, docs, om)) \<Longrightarrow>
   wo_run_id ord = rid \<and> wo_task ord = task \<and> wo_queue ord = queue_label queue \<and> wo_repo ord = repo"
proof -
  have "yields (\<lambda>r. \<forall>ord docs om. r = Inr (ord, docs, om) \<longrightarrow>
      wo_run_id ord = rid \<and> wo_task ord = task \<and> wo_queue ord = queue_label queue \<and> wo_repo ord = repo)
    (build_work_order env mg task queue repo rid base)"
    unfolding build_work_order_def Let_def
    by (intro yields_bind, simp only: split_beta, intro yields_bind, auto split: sum.split intro!: yields_bind)
  then show "build_work_order env mg task queue repo rid base = Inr (Inr (ord, docs, om)) \<Longrightarrow> ?thesis"
    by (simp add: yields_def)
qed

lemma lease_creates_attempt:
  assumes "lease_and_build env io q task repo mcps worker backend m = (m', Inr (Some ord))"
  shows "wo_run_id ord = io_run_id io \<and> wo_task ord = task \<and> wo_queue ord = queue_label q \<and> wo_repo ord = repo \<and>
    (\<exists>r. get_attempt (mg_db m') (io_run_id io) = Some r \<and> at_state r = AS_RUNNING \<and> at_task r = task \<and>
       at_queue r = qkey q \<and> at_worker_id r = Some worker)"
proof -
  from assms obtain m1 fm m2 ord' docs om m3 d row where
    b: "build_work_order env m2 task q repo (io_run_id io) (case repo of None \<Rightarrow> None | Some r \<Rightarrow> en_head env r)
          = Inr (Inr (ord', docs, om))"
    and c: "create_attempt (io_now io) \<lparr>aa_id = io_run_id io, aa_task = task, aa_queue = q, aa_worker_id = Some worker,
        aa_ttl_seconds = cf_lease_ttl_seconds (en_cfg env), aa_state = AS_RUNNING,
        aa_cols = order_cols ord' backend mcps fm\<rparr> (mg_db m3) = Inr (d, row)"
    and rest: "(if row = None then answer None
             else act_bind (set_busy (io_now io) worker task q (io_run_id io)) (\<lambda>_.
               act_bind (emit (io_now io) (event ''lease_acquired'' (Some (io_run_id io)) q (Some task)
                   (Some [(''worker_id'', PStr worker), (''lease_id'', PStr (io_run_id io))]))) (\<lambda>_.
               act_bind (emit (io_now io) (event ''run_started'' (Some (io_run_id io)) q (Some task)
                   (Some [(''title'', scalar_value (wo_title ord')), (''worker_id'', PStr worker)]))) (\<lambda>_.
                 answer (Some ord'))))) (m3\<lparr>mg_db := d\<rparr>) = (m', Inr (Some ord))"
    unfolding lease_and_build_def
    by (simp only: act_bind_Inr compute_Inr case_sum_Inr case_prod_out answer_Inr run_db_Inr) auto
  from rest obtain r where r: "row = Some r" "ord = ord'" "db_attempts (mg_db m') = db_attempts d"
    by (cases row) (auto simp: act_Inr set_busy_def emit_def)
  have "get_attempt (mg_db m') (io_run_id io) = get_attempt d (io_run_id io)"
    using r(3) by (simp add: get_attempt_def)
  then show ?thesis
    using built_order [OF b] created_row [OF c [unfolded r(1)]] r(2) by auto
qed

section \<open>Candidates and holds\<close>

lemma map_result_pairs:
  "map_result (\<lambda>q. bind_result (f q) (\<lambda>cs. Inr (q, cs))) qs = Inr out \<Longrightarrow> (q, cs) \<in> set out \<Longrightarrow>
   q \<in> set qs \<and> f q = Inr cs"
  by (induction qs arbitrary: out) (auto simp: bind_result_eq_Inr_iff)

lemma poll_candidates_open:
  "poll_candidates env m exclude = Inr by_queue \<Longrightarrow> (q, cands) \<in> set by_queue \<Longrightarrow>
   q \<in> set (open_queues m exclude) \<and> candidates_of env m q = Inr cands"
  unfolding poll_candidates_def by (rule map_result_pairs)

lemma candidates_queue: "candidates_of env m q = Inr cands \<Longrightarrow> c \<in> set cands \<Longrightarrow> tc_queue c = q"
proof -
  assume a: "candidates_of env m q = Inr cands" "c \<in> set cands"
  have "map_result g stems = Inr out \<Longrightarrow> x \<in> set out \<Longrightarrow> \<exists>stem. g stem = Inr x"
    for g :: "string \<Rightarrow> py_error + task_candidate" and stems out x
    by (induction stems arbitrary: out) (auto simp: bind_result_eq_Inr_iff)
  with a obtain stem fm config dm res where "build_candidate q config dm (Some res) stem fm = Inr c"
    unfolding candidates_of_def build_candidates_def by (fastforce simp: bind_result_eq_Inr_iff)
  then show "tc_queue c = q"
    by (auto simp: build_candidate_def bind_result_eq_Inr_iff split: prod.splits)
qed

lemma pick_next_eligible:
  assumes "pick_next by_queue w leased blocked st ded = (Some c, st')"
  shows "\<exists>q cands. (q, cands) \<in> set by_queue \<and> c \<in> set cands \<and>
    eligible w leased blocked (present_tasks by_queue) ded c"
  using pick_next_cases [OF assms] by (auto simp: set_queue_heads queue_head_Some) force

text \<open>Blocking the tasks with a workflow error changes neither the back-offs nor the other tables.\<close>

lemma filter_map_same: "(\<And>r. p (g r) = p r) \<Longrightarrow> filter p (map g rows) = map g (filter p rows)"
  by (induction rows) auto

lemma hold_keeps_backing_off [simp]:
  "backing_off_keys now (set_task_state now' q task h d) = backing_off_keys now d"
proof -
  let ?p = "\<lambda>r. case tk_next_eligible_at r of None \<Rightarrow> False | Some w \<Rightarrow> now < w"
  let ?g = "\<lambda>r. if task_key r = (qkey q, task) then merge_hold now' h r else r"
  have g: "?p (?g r) = ?p r" "row_key (tk_queue (?g r)) (tk_task (?g r)) = row_key (tk_queue r) (tk_task r)" for r
    by (simp_all add: merge_hold_def)
  note filter_map_same [where p = ?p and g = ?g, OF g(1)]
  then show ?thesis
    using g(2)
    by (simp add: backing_off_keys_def tasks_backing_off_def set_task_state_def task_upsert_def sql_upsert_def
        sql_update_def fresh_hold_def)
qed

lemma hold_tables [simp]:
  "db_attempts (set_task_state t q task h d) = db_attempts d" "db_routing (set_task_state t q task h d) = db_routing d"
  by (simp_all add: set_task_state_def)

lemma errors_keep [simp]:
  "backing_off_keys now (block_workflow_errors env t cands d) = backing_off_keys now d"
  "db_attempts (block_workflow_errors env t cands d) = db_attempts d"
  "db_routing (block_workflow_errors env t cands d) = db_routing d"
  unfolding block_workflow_errors_def
  by (induction cands arbitrary: d) simp_all

text \<open>The retry phase takes back at most one task of a queue, which was held, and no task that is backing off.\<close>

lemma retry_of_queue_Some:
  assumes "retry_of_queue m now blocked q cands = Inr (Some t)"
  shows "\<forall>r \<in> set (live_attempts (mg_db m)). queue_label (Some (at_queue r)) \<noteq> queue_label q"
    and "\<forall>c \<in> set cands. cand_key c \<in> set blocked"
    and "(q, t) \<notin> set (backing_off_keys now (mg_db m))"
    and "(\<exists>failed. failed_tasks (queue_at (mg_content m) (tasks_rel q)) = Inr failed \<and> t \<in> set failed) \<or>
      t \<in> tk_task ` set (retryable_tasks q (mg_db m))"
  using assms
  by (auto simp: retry_of_queue_def Let_def bind_result_eq_Inr_iff pick_retry_def split: if_splits
      dest!: min_by_Some)

lemma admit_retries_admits:
  assumes "admit_retries m now blocked by_queue = Inr admitted"
  shows "set admitted \<subseteq> set blocked \<and> (\<forall>k \<in> set blocked - set admitted.
      \<exists>q cands before. (q, cands) \<in> set by_queue \<and> set before \<subseteq> set blocked \<and>
        k = (q, snd k) \<and> retry_of_queue m now before q cands = Inr (Some (snd k)))"
  using assms
proof (induction by_queue arbitrary: blocked)
  case (Cons x rest)
  obtain q cands where x: "x = (q, cands)" by (cases x)
  from Cons.prems obtain pick where
    pick: "retry_of_queue m now blocked q cands = Inr pick" and
    rest: "admit_retries m now (case pick of None \<Rightarrow> blocked | Some t \<Rightarrow> filter (\<lambda>k. k \<noteq> (q, t)) blocked) rest
      = Inr admitted"
    by (auto simp: x bind_result_eq_Inr_iff)
  define blocked' where "blocked' = (case pick of None \<Rightarrow> blocked | Some t \<Rightarrow> filter (\<lambda>k. k \<noteq> (q, t)) blocked)"
  have sub: "set blocked' \<subseteq> set blocked" by (auto simp: blocked'_def split: option.splits)
  note IH = Cons.IH [OF rest [folded blocked'_def]]
  have "\<exists>q' cands' before. (q', cands') \<in> set (x # rest) \<and> set before \<subseteq> set blocked \<and>
        k = (q', snd k) \<and> retry_of_queue m now before q' cands' = Inr (Some (snd k))"
    if k: "k \<in> set blocked - set admitted" for k
  proof (cases "k \<in> set blocked'")
    case True
    then obtain q' cands' before where "(q', cands') \<in> set rest" "set before \<subseteq> set blocked'"
      "k = (q', snd k)" "retry_of_queue m now before q' cands' = Inr (Some (snd k))"
      using IH k by blast
    then show ?thesis using sub by (intro exI [of _ q'] exI [of _ cands'] exI [of _ before]) auto
  next
    case False
    then obtain t where "pick = Some t" "k = (q, t)"
      using k by (auto simp: blocked'_def split: option.splits)
    then show ?thesis using pick x by (intro exI [of _ q] exI [of _ cands] exI [of _ blocked]) auto
  qed
  then show ?case using IH sub by blast
qed simp

lemma admitted_retry:
  assumes "admit_retries m now blocked by_queue = Inr admitted" "(q, t) \<in> set blocked" "(q, t) \<notin> set admitted"
  obtains cands before where "(q, cands) \<in> set by_queue" "set before \<subseteq> set blocked"
    "retry_of_queue m now before q cands = Inr (Some t)"
  using bspec [OF conjunct2 [OF admit_retries_admits [OF assms(1)]], of "(q, t)"] assms(2,3) by auto

section \<open>Properties\<close>

text \<open>The exclusions of a poll, and the state in which it chooses.\<close>

abbreviation poll_exclude :: "io \<Rightarrow> poll_body \<Rightarrow> manager \<Rightarrow> string list" where
  "poll_exclude io b m \<equiv> pb_exclude b @ cooldown_exclusions (io_now io) (mg_cooldowns m) (pb_worker_id b)"

abbreviation after_errors :: "env \<Rightarrow> io \<Rightarrow> candidate_map \<Rightarrow> manager \<Rightarrow> manager" where
  "after_errors env io by_queue m \<equiv>
     m\<lparr>mg_db := block_workflow_errors env (io_now io) (all_candidates by_queue) (mg_db m)\<rparr>"

lemma cooldown_reaped [simp]: "cooldown_exclusions now (cooldown_reap now cs) w = cooldown_exclusions now cs w"
  by (simp add: cooldown_exclusions_def cooldown_reap_def)

lemma reads_no_cooldowns:
  "poll_candidates env (m\<lparr>mg_cooldowns := cs\<rparr>) ex = poll_candidates env m ex"
  "poll_blocked env io (m\<lparr>mg_cooldowns := cs\<rparr>) bq = poll_blocked env io m bq"
  "admit_retries (m\<lparr>mg_cooldowns := cs\<rparr>) now bl bq = admit_retries m now bl bq"
proof -
  show "poll_candidates env (m\<lparr>mg_cooldowns := cs\<rparr>) ex = poll_candidates env m ex"
    by (simp add: poll_candidates_def open_queues_def candidates_of_def [abs_def] resolver_of_def)
  show "poll_blocked env io (m\<lparr>mg_cooldowns := cs\<rparr>) bq = poll_blocked env io m bq"
    by (simp add: poll_blocked_def)
  have "retry_of_queue (m\<lparr>mg_cooldowns := cs\<rparr>) now bl q cands = retry_of_queue m now bl q cands" for bl q cands
    by (simp add: retry_of_queue_def)
  then show "admit_retries (m\<lparr>mg_cooldowns := cs\<rparr>) now bl bq = admit_retries m now bl bq"
    by (induction m now bl bq rule: admit_retries.induct) simp_all
qed

lemma poll_order:
  assumes "worker_poll env io b m = (m', Inr (Some ord))"
  obtains by_queue blocked admitted c served m1 where
    "poll_candidates env m (poll_exclude io b m) = Inr by_queue"
    "poll_blocked env io (after_errors env io by_queue m) by_queue = Inr blocked"
    "admit_retries (after_errors env io by_queue m) (io_now io) blocked by_queue = Inr admitted"
    "pick_next by_queue (poll_filter b) (set (leased_keys (mg_db m))) (set admitted) (mg_served m)
       (queue_dedication (mg_db m)) = (Some c, served)"
    "lease_and_build env io (tc_queue c) (tc_task c) (tc_repo c) (tc_required_mcps c) (pb_worker_id b)
       (pb_backend b) m1 = (m', Inr (Some ord))"
proof -
  let ?m0 = "m\<lparr>mg_cooldowns := cooldown_reap (io_now io) (mg_cooldowns m)\<rparr>"
  from assms obtain by_queue held blocked admitted c served where
    q: "poll_candidates env ?m0 (poll_exclude io b m) = Inr by_queue"
    and bl: "poll_blocked env io (after_errors env io by_queue ?m0) by_queue = Inr blocked"
    and ad: "admit_retries (after_errors env io by_queue ?m0) (io_now io) blocked by_queue = Inr admitted"
    and pick: "pick_next by_queue (poll_filter b)
        (set (leased_keys (block_workflow_errors env (io_now io) (all_candidates by_queue) (mg_db m)))) (set admitted)
        (mg_served m) (queue_dedication (block_workflow_errors env (io_now io) (all_candidates by_queue) (mg_db m)))
        = (Some c, served)"
    and lease: "lease_and_build env io (tc_queue c) (tc_task c) (tc_repo c) (tc_required_mcps c) (pb_worker_id b)
       (pb_backend b) ((after_errors env io by_queue ?m0)\<lparr>mg_served := served\<rparr>) = (m', Inr (Some ord))"
    unfolding worker_poll_def
    by (auto simp: act_bind_Inr compute_Inr on_db_Inr change_Inr answer_Inr case_prod_out split: option.split_asm)
  have same: "after_errors env io by_queue ?m0 =
      (after_errors env io by_queue m)\<lparr>mg_cooldowns := cooldown_reap (io_now io) (mg_cooldowns m)\<rparr>"
    by simp
  show thesis
    by (rule that [of by_queue blocked admitted c served])
      (use q bl ad pick lease in \<open>simp_all only: same reads_no_cooldowns leased_keys_def live_attempts_def
        queue_dedication_def errors_keep\<close>)
qed

text \<open>
  C9: an order handed out by a poll is for a candidate of a queue that is neither paused nor excluded
  nor cooling down for this worker, that the worker accepts and that has no live attempt and no
  back-off; and the attempt of the order exists, running, for this worker and this task.
\<close>

theorem poll_hands_out_admissible:
  assumes "worker_poll env io b m = (m', Inr (Some ord))"
  shows "\<exists>q cands c. q \<in> set (open_queues m (poll_exclude io b m)) \<and> candidates_of env m q = Inr cands \<and>
    c \<in> set cands \<and> wo_task ord = tc_task c \<and> wo_queue ord = queue_label q \<and>
    accepts (poll_filter b) c (queue_dedication (mg_db m)) \<and>
    (q, wo_task ord) \<notin> set (leased_keys (mg_db m)) \<and>
    (q, wo_task ord) \<notin> set (backing_off_keys (io_now io) (mg_db m)) \<and>
    (\<exists>r. get_attempt (mg_db m') (wo_run_id ord) = Some r \<and> at_state r = AS_RUNNING \<and>
       at_task r = wo_task ord \<and> at_queue r = qkey q \<and> at_worker_id r = Some (pb_worker_id b))"
  using assms
proof (cases rule: poll_order)
  case (1 by_queue blocked admitted c served m1)
  obtain q cands where q: "(q, cands) \<in> set by_queue" "c \<in> set cands"
    and e: "eligible (poll_filter b) (set (leased_keys (mg_db m))) (set admitted) (present_tasks by_queue)
      (queue_dedication (mg_db m)) c"
    using pick_next_eligible [OF 1(4)] by blast
  have o: "q \<in> set (open_queues m (poll_exclude io b m))" "candidates_of env m q = Inr cands"
    using poll_candidates_open [OF 1(1) q(1)] by simp_all
  have k: "tc_queue c = q" "cand_key c = (q, tc_task c)"
    using candidates_queue [OF o(2) q(2)] by (simp_all add: cand_key_def)
  have "set (backing_off_keys (io_now io) (mg_db m)) \<subseteq> set blocked"
    using 1(2) by (auto simp: poll_blocked_def bind_result_eq_Inr_iff)
  moreover have "(q', t) \<notin> set (backing_off_keys (io_now io) (mg_db m))"
    if "(q', t) \<in> set blocked - set admitted" for q' t
    using that by (auto elim!: admitted_retry [OF 1(3)] dest: retry_of_queue_Some(3))
  ultimately have "cand_key c \<notin> set (backing_off_keys (io_now io) (mg_db m))"
    using e k by (auto simp: eligible_def)
  then show ?thesis
    using lease_creates_attempt [OF 1(5)] o q(2) e k by (auto simp: eligible_def intro!: exI [of _ q] exI [of _ c])
qed

text \<open>
  A task that is held (blocked in the store, quarantined or failed in its frontmatter, backing
  off, without a usable repository or under a red main) is handed out only as the retry of its
  queue: no attempt of the queue is live, every candidate of the queue is held, and the task is one
  that may be retried.
\<close>

theorem held_task_only_as_retry:
  assumes "worker_poll env io b m = (m', Inr (Some ord))"
  shows "\<exists>by_queue blocked q cands. poll_candidates env m (poll_exclude io b m) = Inr by_queue \<and>
    poll_blocked env io (after_errors env io by_queue m) by_queue = Inr blocked \<and>
    (q, cands) \<in> set by_queue \<and> wo_queue ord = queue_label q \<and>
    ((q, wo_task ord) \<in> set blocked \<longrightarrow>
       (\<forall>r \<in> set (live_attempts (mg_db m)). queue_label (Some (at_queue r)) \<noteq> queue_label q) \<and>
       (\<forall>c \<in> set cands. cand_key c \<in> set blocked) \<and>
       ((\<exists>failed. failed_tasks (queue_at (mg_content m) (tasks_rel q)) = Inr failed \<and> wo_task ord \<in> set failed) \<or>
        wo_task ord \<in> tk_task ` set (retryable_tasks q (mg_db (after_errors env io by_queue m)))))"
  using assms
proof (cases rule: poll_order)
  case (1 by_queue blocked admitted c served m1)
  obtain q cands where q: "(q, cands) \<in> set by_queue" "c \<in> set cands"
    and e: "cand_key c \<notin> set admitted"
    using pick_next_eligible [OF 1(4)] by (auto simp: eligible_def)
  have ord: "wo_task ord = tc_task c" "wo_queue ord = queue_label (tc_queue c)"
    using lease_creates_attempt [OF 1(5)] by simp_all
  have k: "tc_queue c = q" "cand_key c = (q, tc_task c)"
    using candidates_queue poll_candidates_open [OF 1(1) q(1)] q(2) by (auto simp: cand_key_def)
  show ?thesis
  proof (intro exI conjI impI)
    show "(q, cands) \<in> set by_queue" "wo_queue ord = queue_label q" using q ord k by simp_all
    assume held: "(q, wo_task ord) \<in> set blocked"
    from e have "(q, wo_task ord) \<notin> set admitted" using k ord by simp
    then obtain cands' before where
      r: "(q, cands') \<in> set by_queue" "set before \<subseteq> set blocked"
        "retry_of_queue (after_errors env io by_queue m) (io_now io) before q cands' = Inr (Some (wo_task ord))"
      using admitted_retry [OF 1(3) held] by blast
    have same: "cands' = cands"
      using poll_candidates_open [OF 1(1) r(1)] poll_candidates_open [OF 1(1) q(1)] by simp
    note facts = retry_of_queue_Some [OF r(3)]
    show "\<forall>r \<in> set (live_attempts (mg_db m)). queue_label (Some (at_queue r)) \<noteq> queue_label q"
      using facts(1) by (simp add: live_attempts_def)
    show "\<forall>c \<in> set cands. cand_key c \<in> set blocked" using facts(2) same r(2) by blast
    show "(\<exists>failed. failed_tasks (queue_at (mg_content m) (tasks_rel q)) = Inr failed \<and> wo_task ord \<in> set failed) \<or>
        wo_task ord \<in> tk_task ` set (retryable_tasks q (mg_db (after_errors env io by_queue m)))"
      using facts(4) by simp
  qed (use 1 in simp_all)
qed

section \<open>Witnesses, and where the poll departs from its comments\<close>

text \<open>A manager whose main queue holds one brief with the given frontmatter.\<close>

definition sample_holding :: "string list \<Rightarrow> manager" where
  "sample_holding ls = sample_manager\<lparr>mg_db := empty_db, mg_content := small_content\<lparr>ct_queues :=
     [(''main'', \<lparr>qd_config = NoFile, qd_briefs = [(''fix'', fenced ls)]\<rparr>)]\<rparr>\<rparr>"

definition polled_task :: "manager \<times> (py_error + work_order option) \<Rightarrow> string option" where
  "polled_task out = (case out of (_, Inr (Some ord)) \<Rightarrow> Some (wo_task ord) | _ \<Rightarrow> None)"

lemma polled_taskD: "polled_task out = Some t \<Longrightarrow> \<exists>m' ord. out = (m', Inr (Some ord)) \<and> wo_task ord = t"
  by (auto simp: polled_task_def split: prod.splits sum.splits option.splits)

lemma sample_polled:
  "polled_task (worker_poll sample_env sample_io sample_poll (sample_holding [''repo: web'', ''failed: true''])) = Some ''fix''"
  by code_simp

lemma poll_hands_out_admissible_witness:
  "\<exists>q cands c. candidates_of sample_env (sample_holding [''repo: web'', ''failed: true'']) q = Inr cands \<and>
     c \<in> set cands \<and> tc_task c = ''fix'' \<and> accepts (poll_filter sample_poll) c
       (queue_dedication (mg_db (sample_holding [''repo: web'', ''failed: true''])))"
proof -
  obtain m' ord where "worker_poll sample_env sample_io sample_poll (sample_holding [''repo: web'', ''failed: true''])
      = (m', Inr (Some ord))" "wo_task ord = ''fix''"
    using polled_taskD [OF sample_polled] by blast
  then show ?thesis using poll_hands_out_admissible by metis
qed

lemma held_task_only_as_retry_witness:
  "\<exists>by_queue. poll_candidates sample_env (sample_holding [''repo: web'', ''failed: true''])
      (poll_exclude sample_io sample_poll (sample_holding [''repo: web'', ''failed: true''])) = Inr by_queue"
  using polled_taskD [OF sample_polled] by (auto dest!: held_task_only_as_retry)

text \<open>
  The retry phase forgets why a task was held. A failed task is handed out although its
  repository is not available; without the failure flag the same task is held back.
\<close>

theorem retry_ignores_missing_repo:
  "polled_task (worker_poll (sample_env\<lparr>en_repo_available := \<lambda>_. False\<rparr>) sample_io sample_poll
      (sample_holding [''repo: web'', ''failed: true''])) = Some ''fix'' \<and>
   polled_task (worker_poll (sample_env\<lparr>en_repo_available := \<lambda>_. False\<rparr>) sample_io sample_poll
      (sample_holding [''repo: web''])) = None"
  by code_simp

text \<open>
  One brief whose priority is no number makes every poll of a worker that may take it raise. The
  scheduler reads such a priority as the default and chooses the task; the work order does not.
\<close>

theorem priority_word_breaks_poll:
  "snd (worker_poll sample_env sample_io sample_poll (sample_holding [''repo: web'', ''priority: high''])) =
     Inl (ValueError ''invalid literal for int() with base 10'') \<and>
   db_attempts (mg_db (fst (worker_poll sample_env sample_io sample_poll
     (sample_holding [''repo: web'', ''priority: high''])))) = []"
  by code_simp

text \<open>
  A poll that hands out nothing still writes: a workflow that does not exist blocks its task.
\<close>

lemma idle_poll_writes:
  "polled_task (worker_poll sample_env sample_io sample_poll (sample_holding [''repo: web'', ''workflow: nope''])) = None \<and>
   map tk_state (db_tasks (mg_db (fst (worker_poll sample_env sample_io sample_poll
     (sample_holding [''repo: web'', ''workflow: nope'']))))) = [Some TH_BLOCKED]"
  by code_simp

end
