(* ===== verification/Task_File_Facts.thy ===== *)
theory Task_File_Facts
  imports Task_Files Queue_Facts
begin

text \<open>
  What the task file operations promise: sections and edits read back, names never collide,
  every operation leaves the other tasks alone, and a decomposition loses no brief.
\<close>

section \<open>Cutting at a marker\<close>

lemma partition_str_past_line:
  assumes "newline \<notin> set m" "m \<noteq> []" "partition_str m l = None"
  shows "partition_str m (l @ newline # rest) =
    map_option (\<lambda>(a, b). (l @ newline # a, b)) (partition_str m rest)"
  using assms(3)
proof (induction l)
  case Nil
  have "take (length m) (newline # rest) \<noteq> m"
    using assms(1,2) by (cases m) auto
  then show ?case by simp
next
  case (Cons c l)
  have here: "take (length m) (c # l) \<noteq> m" "partition_str m l = None"
    using Cons.prems by (auto split: if_splits)
  have "take (length m) ((c # l) @ newline # rest) \<noteq> m"
  proof (cases "length m \<le> length (c # l)")
    case True
    then have "take (length m) ((c # l) @ newline # rest) = take (length m) (c # l)"
      by (subst take_append) simp
    then show ?thesis using here(1) by metis
  next
    case False
    then have "newline \<in> set (take (length m) ((c # l) @ newline # rest))"
      using assms(2) by (simp add: take_Cons' not_le)
    then show ?thesis using assms(1) by metis
  qed
  then show ?case
    using Cons.IH [OF here(2)] by (cases "partition_str m rest") auto
qed

lemma partition_str_prefix: "m \<noteq> [] \<Longrightarrow> partition_str m (m @ rest) = Some ([], rest)"
  by (cases m) simp_all

lemma partition_str_marker:
  assumes "newline \<notin> set m" "m \<noteq> []" "partition_str m a = None"
  shows "partition_str m (a @ newline # m @ rest) = Some (a @ [newline], rest)"
  using partition_str_past_line [OF assms, of "m @ rest"] partition_str_prefix [OF assms(2)] by simp

lemma partition_str_snoc_newline:
  assumes "newline \<notin> set m" "m \<noteq> []" "partition_str m a = None"
  shows "partition_str m (a @ [newline]) = None"
  using partition_str_past_line [OF assms, of "[]"] assms(2) by simp

lemma py_strip_Nil_iff: "py_strip s = [] \<longleftrightarrow> (\<forall>c \<in> set s. is_space c)"
proof
  assume "py_strip s = []"
  then have "\<forall>c \<in> set (dropWhile is_space s). is_space c"
    by (simp add: py_strip_of_def dropWhile_eq_Nil_conv)
  then have "dropWhile is_space s = []" using hd_dropWhile_neg hd_in_set by metis
  then show "\<forall>c \<in> set s. is_space c" by (simp add: dropWhile_eq_Nil_conv)
next
  assume "\<forall>c \<in> set s. is_space c"
  then show "py_strip s = []" by (auto simp: py_strip_of_def dest: set_dropWhileD)
qed

lemma newline_space [simp]: "is_space newline"
  by (simp add: is_space_def)

lemma dropWhile_append_left: "\<forall>c \<in> set a. p c \<Longrightarrow> dropWhile p (a @ b) = dropWhile p b"
  by (induction a) auto

lemma py_strip_left: "\<forall>c \<in> set a. is_space c \<Longrightarrow> py_strip (a @ s) = py_strip s"
  by (simp add: py_strip_of_def dropWhile_append_left)

lemma py_strip_right:
  assumes "\<forall>c \<in> set b. is_space c"
  shows "py_strip (s @ b) = py_strip s"
proof (cases "\<forall>c \<in> set s. is_space c")
  case True
  then have "py_strip (s @ b) = []" "py_strip s = []" using assms by (auto simp: py_strip_Nil_iff)
  then show ?thesis by simp
next
  case False
  then have "dropWhile is_space (s @ b) = dropWhile is_space s @ b"
    by (auto simp: dropWhile_append)
  then show ?thesis using assms by (simp add: py_strip_of_def dropWhile_append_left)
qed

section \<open>Sections\<close>

definition unmarked :: "string \<Rightarrow> bool" where
  "unmarked s \<longleftrightarrow> partition_str NOTES_MARKER s = None \<and> partition_str ORIGINAL_BRIEF_MARKER s = None"

definition is_marker :: "string \<Rightarrow> bool" where
  "is_marker m \<longleftrightarrow> m \<noteq> [] \<and> newline \<notin> set m"

lemma markers [simp]: "is_marker NOTES_MARKER" "is_marker ORIGINAL_BRIEF_MARKER"
  by (simp_all add: is_marker_def NOTES_MARKER_def ORIGINAL_BRIEF_MARKER_def)

lemma split_section_join:
  assumes "is_marker m" "partition_str m (py_strip body) = None" "\<forall>c \<in> set post. is_space c"
  shows "split_section m (join_section m body tail @ post) =
    (if py_strip tail = [] then (case partition_str m (py_strip body @ post) of
        None \<Rightarrow> (py_strip body, []) | Some (a, b) \<Rightarrow> (py_strip a, py_strip b))
     else (py_strip body, py_strip tail))"
proof (cases "py_strip tail = []")
  case True
  have "py_strip (py_strip body @ post) = py_strip body"
    using py_strip_right [OF assms(3)] py_strip_of_strip by metis
  then show ?thesis using True
    by (simp add: join_section_def split_section_def split: option.split)
next
  case False
  have m: "m \<noteq> []" "newline \<notin> set m" using assms(1) by (auto simp: is_marker_def)
  have "partition_str m ((py_strip body @ [newline]) @ newline # m @ newline # py_strip tail @ post) =
      Some ((py_strip body @ [newline]) @ [newline], newline # py_strip tail @ post)"
    by (rule partition_str_marker [OF m(2,1) partition_str_snoc_newline [OF m(2,1) assms(2)]])
  moreover have "py_strip (py_strip body @ [newline, newline]) = py_strip body"
    using py_strip_right [of "[newline, newline]" "py_strip body"] by simp
  moreover have "py_strip (newline # py_strip tail @ post) = py_strip tail"
    using py_strip_left [of "[newline]" "py_strip tail @ post"] py_strip_right [OF assms(3), of "py_strip tail"]
    by simp
  ultimately show ?thesis using False by (simp add: join_section_def split_section_def)
qed

text \<open>A stripped text whose only line breaks are newlines.\<close>

definition plain_text :: "string \<Rightarrow> bool" where
  "plain_text s \<longleftrightarrow> py_strip s = s \<and> (\<forall>c \<in> set s. c \<noteq> newline \<longrightarrow> \<not> is_linebreak c) \<and> unmarked s"

lemma plain_textD: "plain_text s \<Longrightarrow> py_strip s = s \<and> partition_str NOTES_MARKER s = None \<and>
    partition_str ORIGINAL_BRIEF_MARKER s = None"
  by (simp add: plain_text_def unmarked_def)

lemma spaces_no_marker:
  assumes "is_marker m" "partition_str m s = None" "set post \<subseteq> {newline}"
  shows "partition_str m (s @ post) = None"
  using assms(3)
proof (induction post rule: rev_induct)
  case Nil
  then show ?case using assms(2) by simp
next
  case (snoc c post)
  then have "partition_str m (s @ post) = None" "c = newline" by simp_all
  then show ?case
    using partition_str_snoc_newline [of m "s @ post"] assms(1) by (simp add: is_marker_def)
qed

text \<open>The original marker is not hidden by the notes marker, nor by the texts around it.\<close>

lemma marker_line_free: "partition_str ORIGINAL_BRIEF_MARKER (NOTES_MARKER) = None"
  by code_simp

lemma plain_ends: "plain_text s \<Longrightarrow> s \<noteq> [] \<Longrightarrow> \<not> is_space (hd s) \<and> \<not> is_space (last s)"
  using py_strip_of_ends [of is_space s] by (auto simp: plain_text_def)

lemma marker_ends: "\<not> is_space (hd NOTES_MARKER)" "NOTES_MARKER \<noteq> []"
    "\<not> is_space (hd ORIGINAL_BRIEF_MARKER)" "ORIGINAL_BRIEF_MARKER \<noteq> []"
  by (simp_all add: NOTES_MARKER_def ORIGINAL_BRIEF_MARKER_def is_space_def)

lemma marker_chars: "c \<in> set NOTES_MARKER \<Longrightarrow> \<not> is_linebreak c" "c \<in> set ORIGINAL_BRIEF_MARKER \<Longrightarrow> \<not> is_linebreak c"
  by (auto simp: NOTES_MARKER_def ORIGINAL_BRIEF_MARKER_def is_linebreak_def Let_def)

definition notes_part :: "string \<Rightarrow> string \<Rightarrow> string" where
  "notes_part b n = (if n = [] then b else if b = [] then NOTES_MARKER @ newline # n
     else b @ newline # newline # NOTES_MARKER @ newline # n)"

lemma strip_join_notes:
  assumes "plain_text b" "plain_text n"
  shows "py_strip (join_notes b n) = notes_part b n"
proof (cases "n = []")
  case True
  then show ?thesis using assms plain_textD by (simp add: join_notes_def join_section_def notes_part_def)
next
  case False
  note b = plain_textD [OF assms(1)] and n = plain_textD [OF assms(2)]
  have last_n: "\<not> is_space (last n)" using plain_ends [OF assms(2) False] by blast
  show ?thesis
  proof (cases "b = []")
    case True
    have "py_strip (NOTES_MARKER @ newline # n) = NOTES_MARKER @ newline # n"
      by (rule py_strip_of_id) (use last_n False marker_ends in simp)
    then show ?thesis using True False n py_strip_left [of "[newline, newline]" "NOTES_MARKER @ newline # n"]
      by (simp add: join_notes_def join_section_def notes_part_def)
  next
    case b_text: False
    have "py_strip (b @ newline # newline # NOTES_MARKER @ newline # n) =
        b @ newline # newline # NOTES_MARKER @ newline # n"
      by (rule py_strip_of_id) (use last_n False plain_ends [OF assms(1) b_text] b_text in simp)
    then show ?thesis using b_text False b n by (simp add: join_notes_def join_section_def notes_part_def)
  qed
qed

lemma notes_part_unmarked:
  assumes "plain_text b" "plain_text n"
  shows "partition_str ORIGINAL_BRIEF_MARKER (notes_part b n) = None"
proof -
  let ?m = ORIGINAL_BRIEF_MARKER
  have m: "newline \<notin> set ?m" "?m \<noteq> []" using markers(2) by (auto simp: is_marker_def)
  note b = plain_textD [OF assms(1)] and n = plain_textD [OF assms(2)]
  have tail: "partition_str ?m (NOTES_MARKER @ newline # n) = None"
    using partition_str_past_line [OF m marker_line_free, of n] n by simp
  have "partition_str ?m ((b @ [newline]) @ newline # NOTES_MARKER @ newline # n) = None"
    using partition_str_past_line [OF m partition_str_snoc_newline [OF m], of b "NOTES_MARKER @ newline # n"]
      b tail by simp
  then show ?thesis using b tail by (simp add: notes_part_def)
qed

lemma split_notes_part:
  assumes "plain_text b" "plain_text n"
  shows "split_notes (notes_part b n) = (b, n)"
proof -
  let ?m = NOTES_MARKER
  have m: "newline \<notin> set ?m" "?m \<noteq> []" using markers(1) by (auto simp: is_marker_def)
  note b = plain_textD [OF assms(1)] and n = plain_textD [OF assms(2)]
  have n': "py_strip (newline # n) = n" using py_strip_left [of "[newline]" n] n by simp
  have b': "py_strip (b @ [newline, newline]) = b" using py_strip_right [of "[newline, newline]" b] b by simp
  have "partition_str ?m ((b @ [newline]) @ newline # ?m @ newline # n) = Some ((b @ [newline]) @ [newline], newline # n)"
    by (rule partition_str_marker [OF m partition_str_snoc_newline [OF m]]) (use b in blast)
  then show ?thesis
    using b n' b' partition_str_prefix [OF m(2), of "newline # n"]
    by (simp add: notes_part_def split_notes_def split_section_def)
qed

text \<open>The whole body, and the part of it that \<open>join_fence\<close> keeps.\<close>

definition body_part :: "string \<Rightarrow> string \<Rightarrow> string" where
  "body_part p original = (if original = [] then p else if p = [] then ORIGINAL_BRIEF_MARKER @ newline # original
     else p @ newline # newline # ORIGINAL_BRIEF_MARKER @ newline # original)"

lemma split_body_part:
  assumes "partition_str ORIGINAL_BRIEF_MARKER p = None" "py_strip p = p" "plain_text original"
    and "set post \<subseteq> {newline}"
  shows "split_original (body_part p original @ post) = (p, original)"
proof -
  let ?m = ORIGINAL_BRIEF_MARKER
  have m: "newline \<notin> set ?m" "?m \<noteq> []" using markers(2) by (auto simp: is_marker_def)
  note o' = plain_textD [OF assms(3)]
  have post: "\<forall>c \<in> set post. is_space c" using assms(4) newline_space by (metis singletonD subsetD)
  have o_post: "py_strip (newline # original @ post) = original"
    using py_strip_left [of "[newline]" "original @ post"] py_strip_right [OF post, of original] o' by simp
  have p': "py_strip (p @ [newline, newline]) = p" using py_strip_right [of "[newline, newline]" p] assms(2) by simp
  have "partition_str ?m ((p @ [newline]) @ newline # ?m @ newline # original @ post) =
      Some ((p @ [newline]) @ [newline], newline # original @ post)"
    by (rule partition_str_marker [OF m partition_str_snoc_newline [OF m assms(1)]])
  then show ?thesis
    using o_post p' partition_str_prefix [OF m(2), of "newline # original @ post"]
      spaces_no_marker [OF markers(2) assms(1,4)] py_strip_right [OF post, of p] assms(2)
    by (simp add: body_part_def split_original_def split_section_def)
qed

section \<open>Lines and their text\<close>

lemma splitlines_acc_open: "\<exists>l ls. splitlines_acc acc True s = (rev acc @ l) # ls"
proof (induction s arbitrary: acc)
  case (Cons c s)
  then obtain l ls where "splitlines_acc (c # acc) True s = (rev (c # acc) @ l) # ls" by blast
  then show ?case by auto
qed simp

lemma join_splitlines_acc:
  "\<forall>c \<in> set s. c \<noteq> newline \<longrightarrow> \<not> is_linebreak c \<Longrightarrow> s \<noteq> [] \<longrightarrow> last s \<noteq> newline \<Longrightarrow> b \<or> acc = [] \<Longrightarrow>
   py_join [newline] (splitlines_acc acc b s) = rev acc @ s"
proof (induction acc b s rule: splitlines_acc.induct)
  case (2 acc b c cs)
  show ?case
  proof (cases "is_linebreak c")
    case True
    then have c: "c = newline" using 2(4) by force
    then obtain d ds where cs: "cs = d # ds" using 2(5) by (cases cs) auto
    have "splitlines_acc [] False (d # ds) \<noteq> []" by (rule splitlines_acc_nonempty) simp
    moreover have "py_join [newline] (splitlines_acc [] False (d # ds)) = d # ds"
      using 2(2) [OF True cs] 2(4,5) c cs by simp
    moreover have "splitlines_acc acc b (c # cs) = rev acc # splitlines_acc [] False (d # ds)"
      using c cs by simp
    moreover have "py_join [newline] (rev acc # splitlines_acc [] False (d # ds)) =
        rev acc @ [newline] @ py_join [newline] (splitlines_acc [] False (d # ds))"
      by (rule py_join_Cons) (rule splitlines_acc_nonempty, simp)
    ultimately show ?thesis using c cs by (simp del: splitlines_acc.simps)
  next
    case False
    have "py_join [newline] (splitlines_acc (c # acc) True cs) = rev (c # acc) @ cs"
    proof (rule 2(3) [OF False])
      show "\<forall>c \<in> set cs. c \<noteq> newline \<longrightarrow> \<not> is_linebreak c" using 2(4) by (meson list.set_intros(2))
      show "cs \<noteq> [] \<longrightarrow> last cs \<noteq> newline" using 2(5) by (metis last_ConsR list.discI)
      show "True \<or> c # acc = []" by simp
    qed
    then show ?thesis using False by simp
  qed
qed auto

text \<open>A body that starts and ends with a visible character survives the rewrite of its lines.\<close>

definition clean_text :: "string \<Rightarrow> bool" where
  "clean_text s \<longleftrightarrow> (\<forall>c \<in> set s. c \<noteq> newline \<longrightarrow> \<not> is_linebreak c) \<and>
     (s = [] \<or> (\<not> is_space (hd s) \<and> last s \<noteq> newline))"

lemma first_line_visible:
  assumes "clean_text s" "s \<noteq> []"
  shows "dropWhile (\<lambda>l. py_strip l = []) (py_splitlines s) = py_splitlines s"
proof -
  obtain c cs where s: "s = c # cs" using assms(2) by (cases s) auto
  have c: "\<not> is_space c" using assms s by (simp add: clean_text_def)
  then have "\<not> is_linebreak c" by (auto simp: is_space_def is_linebreak_def Let_def)
  then obtain l ls where "py_splitlines s = (c # l) # ls"
    using splitlines_acc_open [of "[c]" cs] s by (auto simp: py_splitlines_def)
  then show ?thesis using c by (simp add: py_strip_Nil_iff)
qed

lemma splitlines_newline: "py_splitlines (newline # s) = [] # py_splitlines s"
  by (cases s) (simp_all add: py_splitlines_def)

lemma rstrip_newlines_id: "s = [] \<or> last s \<noteq> newline \<Longrightarrow> rstrip_newlines s = s"
  by (cases s rule: rev_cases) (auto simp: rstrip_newlines_def)

lemma rstrip_newlines_end: "rstrip_newlines (s @ [newline]) = rstrip_newlines s"
  by (simp add: rstrip_newlines_def)

text \<open>Reading the joined fence and body.\<close>

lemma split_join_fence:
  assumes "fence \<noteq> []" "\<forall>l \<in> set fence. plain_line l" "clean_text s"
    and "dropWhile (\<lambda>l. py_strip l = []) body = py_splitlines s"
  shows "\<exists>post. set post \<subseteq> {newline} \<and> split_frontmatter (join_fence fence body) =
    bind_result (meta_lines [] fence) (\<lambda>m. Inr (m, s @ post))"
proof -
  let ?front = "''---'' @ [newline] @ lines_text fence @ ''---''"
  have joined: "py_join [newline] (''---'' # fence @ [''---'', []] @ py_splitlines s) =
      ?front @ [newline] @ py_join [newline] ([] # py_splitlines s)"
    using py_join_lines [of "''---'' # fence" "''---''" "[] # py_splitlines s"]
    by (simp add: lines_text_def)
  show ?thesis
  proof (cases "s = []")
    case True
    have "rstrip_newlines (?front @ [newline]) = ?front"
      unfolding rstrip_newlines_end by (rule rstrip_newlines_id) simp
    moreover have "py_join [newline] (''---'' # fence @ [''---'', []] @ []) = ?front @ [newline]"
      using joined True by (simp add: py_splitlines_def)
    ultimately have "join_fence fence body = ''---'' @ [newline] @ lines_text fence @ ''---'' @ [newline]"
      unfolding join_fence_def assms(4) using assms(1) True by (simp add: py_splitlines_def)
    then show ?thesis
      using split_frontmatter_fenced [OF assms(2), of "[newline]"] True by (intro exI [of _ "[]"]) simp
  next
    case False
    obtain c cs where c: "s = c # cs" "c \<noteq> newline" "last s \<noteq> newline"
      using False assms(3) newline_space by (metis clean_text_def list.sel(1) neq_Nil_conv)
    have whole: "py_join [newline] (py_splitlines s) = s"
      using join_splitlines_acc [of s False "[]"] assms(3)
      by (cases "s = []") (auto simp add: clean_text_def py_splitlines_def)
    have "py_splitlines s \<noteq> []" using py_splitlines_nonempty [OF False] .
    then have "py_join [newline] ([] # py_splitlines s) = [newline] @ s"
      using py_join_Cons [of "py_splitlines s" "[newline]" "[]"] whole by simp
    moreover have "rstrip_newlines (?front @ [newline] @ [newline] @ s) = ?front @ [newline] @ [newline] @ s"
      by (rule rstrip_newlines_id) (use False c(3) in simp)
    ultimately have "join_fence fence body =
        ''---'' @ [newline] @ lines_text fence @ ''---'' @ ([newline, newline] @ s @ [newline])"
      using assms(1,4) joined by (simp add: join_fence_def)
    moreover have "dropWhile (\<lambda>c. c = newline) ([newline, newline] @ s @ [newline]) = s @ [newline]"
      using c(1,2) by simp
    ultimately show ?thesis
      using split_frontmatter_fenced [OF assms(2), of "[newline, newline] @ s @ [newline]"]
      by (intro exI [of _ "[newline]"]) simp
  qed
qed

lemma notes_part_clean:
  assumes "plain_text b" "plain_text n"
  shows "clean_text (notes_part b n)"
proof -
  have ends: "s = [] \<or> \<not> is_space (hd s) \<and> last s \<noteq> newline" if "plain_text s" for s
    using plain_ends [OF that] newline_space by metis
  show ?thesis using ends [OF assms(1)] ends [OF assms(2)] assms marker_ends marker_chars
    by (auto simp: clean_text_def notes_part_def plain_text_def hd_append)
qed

lemma body_part_clean:
  assumes "clean_text p" "plain_text original"
  shows "clean_text (body_part p original)"
proof -
  have ends: "original = [] \<or> \<not> is_space (hd original) \<and> last original \<noteq> newline"
    using plain_ends [OF assms(2)] newline_space by metis
  show ?thesis using ends assms marker_ends marker_chars
    by (auto simp: clean_text_def body_part_def plain_text_def hd_append)
qed

lemma joined_lines:
  assumes "plain_text b" "plain_text n" "plain_text original"
  shows "dropWhile (\<lambda>l. py_strip l = []) (py_splitlines (join_original (join_notes b n) original)) =
    py_splitlines (body_part (notes_part b n) original)"
proof -
  let ?s = "body_part (notes_part b n) original"
  have clean: "clean_text ?s" using body_part_clean notes_part_clean assms by blast
  have visible: "dropWhile (\<lambda>l. py_strip l = []) (py_splitlines ?s) = py_splitlines ?s"
    using first_line_visible [OF clean] by (cases "?s = []") (auto simp: py_splitlines_def)
  have "join_original (join_notes b n) original = ?s \<or>
      join_original (join_notes b n) original = newline # newline # ?s"
    using strip_join_notes [OF assms(1,2)] plain_textD [OF assms(3)]
    by (simp add: join_original_def join_section_def body_part_def)
  then show ?thesis using visible by (auto simp: splitlines_newline)
qed

lemma edited_reads_back:
  assumes "split_fence doc = (fence, body)"
    and "split_original (py_join [newline] body) = (rest, original)" "split_notes rest = (brief, notes)"
    and "plain_text (content_edit changes ''body'' brief)" "plain_text (content_edit changes ''notes'' notes)"
      "plain_text (content_edit changes ''original_brief'' original)"
    and "meta_lines [] (apply_fence_changes fence (fence_changes changes)) = Inr m'" "(apply_fence_changes fence (fence_changes changes)) \<noteq> []" "\<forall>l \<in> set (apply_fence_changes fence (fence_changes changes)). plain_line l"
  shows "\<exists>text front. split_frontmatter (edited_brief doc changes) = Inr (m', text) \<and>
    split_original text = (front, content_edit changes ''original_brief'' original) \<and>
    split_notes front = (content_edit changes ''body'' brief, content_edit changes ''notes'' notes) \<and>
    py_startswith (edited_brief doc changes) ''---''"
proof -
  let ?b = "content_edit changes ''body'' brief" and ?n = "content_edit changes ''notes'' notes"
    and ?o = "content_edit changes ''original_brief'' original"
    and ?fence = "apply_fence_changes fence (fence_changes changes)"
  let ?body = "py_splitlines (join_original (join_notes ?b ?n) ?o)"
  have edited: "edited_brief doc changes = join_fence ?fence ?body"
    using assms(1-3) by (simp add: edited_brief_def)
  have clean: "clean_text (body_part (notes_part ?b ?n) ?o)"
    using body_part_clean notes_part_clean assms(4-6) by blast
  obtain post where post: "set post \<subseteq> {newline}" "split_frontmatter (join_fence ?fence ?body) =
      bind_result (meta_lines [] ?fence) (\<lambda>m. Inr (m, body_part (notes_part ?b ?n) ?o @ post))"
    using split_join_fence [OF assms(8,9) clean joined_lines [OF assms(4-6)]] by blast
  have "py_strip (notes_part ?b ?n) = notes_part ?b ?n"
    using strip_join_notes [OF assms(4,5)] py_strip_of_strip by metis
  then have "split_original (body_part (notes_part ?b ?n) ?o @ post) = (notes_part ?b ?n, ?o)"
    using split_body_part [OF notes_part_unmarked [OF assms(4,5)] _ assms(6) post(1)] by blast
  moreover have "py_startswith (join_fence ?fence ?body) ''---''"
    using join_fence_text [OF assms(8), of ?body] by (auto simp: py_startswith_def)
  ultimately show ?thesis
    using edited post(2) assms(7) split_notes_part [OF assms(4,5)] by (metis bind_result.simps(2))
qed

section \<open>Which briefs an operation touches\<close>

lemma queue_at_put [simp]: "queue_at (put_queue ct rel qd) rel' = (if rel' = rel then qd else queue_at ct rel')"
  by (simp add: queue_at_def put_queue_def)

lemma put_queue_rest [simp]:
  "ct_artifacts (put_queue ct rel qd) = ct_artifacts ct" "ct_attachments (put_queue ct rel qd) = ct_attachments ct"
  "ct_manager_config (put_queue ct rel qd) = ct_manager_config ct" "ct_store_config (put_queue ct rel qd) = ct_store_config ct"
  by (simp_all add: put_queue_def)

lemma queue_at_updates [simp]:
  "queue_at (ct\<lparr>ct_artifacts := a\<rparr>) rel = queue_at ct rel"
  "queue_at (ct\<lparr>ct_attachments := b\<rparr>) rel = queue_at ct rel"
  by (simp_all add: queue_at_def)

lemma brief_at_write [simp]:
  "brief_at (write_brief ct rel task t) rel' task' =
    (if (rel', task') = (rel, task) then Some t else brief_at ct rel' task')"
  by (simp add: brief_at_def write_brief_def)

lemma brief_at_set_order [simp]: "brief_at (set_order ct rel order) rel' task = brief_at ct rel' task"
  by (simp add: brief_at_def set_order_def)

lemma brief_at_attachments [simp]:
  "brief_at (ct\<lparr>ct_attachments := b\<rparr>) rel task = brief_at ct rel task"
  "brief_at (ct\<lparr>ct_artifacts := a\<rparr>) rel task = brief_at ct rel task"
  by (simp_all add: brief_at_def)

lemma brief_at_put_queue [simp]:
  "brief_at (put_queue ct rel qd) rel' task = (if rel' = rel then dget (qd_briefs qd) task else brief_at ct rel' task)"
  by (simp add: brief_at_def)

lemma stems_at_brief: "task \<in> set (stems_at ct rel) \<longleftrightarrow> brief_at ct rel task \<noteq> None"
  by (simp add: stems_at_def brief_at_def map_of_eq_None_iff)

lemma set_task_meta_frame:
  assumes "set_task_meta operator_default ct rel task changes = (ct', r)" "(rel', task') \<noteq> (rel, task)"
  shows "brief_at ct' rel' task' = brief_at ct rel' task'"
  using assms by (auto simp: set_task_meta_def Let_def split: if_splits option.splits)

lemma set_task_meta_present:
  assumes "set_task_meta operator_default ct rel task changes = (ct', r)"
  shows "brief_at ct' rel task = None \<longleftrightarrow> brief_at ct rel task = None"
  using assms by (auto simp: set_task_meta_def Let_def split: if_splits option.splits)

section \<open>An edit reads back\<close>

text \<open>The sections of a brief as the editor sees them.\<close>

definition brief_sections :: "string \<Rightarrow> string list \<times> string \<times> string \<times> string" where
  "brief_sections doc =
     (case split_fence doc of (fence, body) \<Rightarrow>
      case split_original (py_join [newline] body) of (rest, original) \<Rightarrow>
      case split_notes rest of (brief, notes) \<Rightarrow> (fence, brief, notes, original))"

text \<open>
  What an edit asks for: a section is the stripped text given for it, empty where it is cleared, and
  as it was where the edit does not name it; a key of the frontmatter has the value given, is gone
  where it is cleared, and keeps its value where the edit does not name it. The title is a stripped
  text; the three sections are no keys.
\<close>

definition section_after :: "meta_changes \<Rightarrow> string \<Rightarrow> string \<Rightarrow> string" where
  "section_after changes name old =
     (case dget changes name of
        Some (Some (SStr t)) \<Rightarrow> py_strip t
      | Some _ \<Rightarrow> []
      | None \<Rightarrow> old)"

definition key_after :: "meta_changes \<Rightarrow> string \<Rightarrow> scalar option \<Rightarrow> scalar option" where
  "key_after changes k old =
     (if k \<in> set [''body'', ''notes'', ''original_brief''] then old
      else case dget changes k of
        None \<Rightarrow> old
      | Some v \<Rightarrow> (case v of Some (SStr t) \<Rightarrow> Some (SStr (if k = ''title'' then py_strip t else t)) | _ \<Rightarrow> v))"

text \<open>
  An edit as the editor sends it, of texts that survive the file format: the names are distinct, a
  section is a text or cleared, a title is a text; no section holds a marker line or an exotic line
  break afterwards; the keys are of the frontmatter syntax and their new values render to one line and
  back.
\<close>

definition section_names :: "string list" where
  "section_names = [''body'', ''notes'', ''original_brief'']"

fun text_change :: "scalar option \<Rightarrow> bool" where
  "text_change (Some (SStr t)) = True"
| "text_change _ = False"

definition clean_key :: "meta_changes \<Rightarrow> string \<Rightarrow> bool" where
  "clean_key changes k \<longleftrightarrow> meta_key k \<and>
     (case key_after changes k None of None \<Rightarrow> True | Some v \<Rightarrow> meta_plain v \<and> plain_line (meta_line k v))"

definition clean_edit :: "meta_changes \<Rightarrow> string \<times> string \<times> string \<Rightarrow> bool" where
  "clean_edit changes = (\<lambda>(brief, notes, original).
     plain_text (section_after changes ''body'' brief) \<and> plain_text (section_after changes ''notes'' notes) \<and>
     plain_text (section_after changes ''original_brief'' original) \<and>
     distinct (map fst changes) \<and>
     (\<forall>(k, c) \<in> set changes.
        if k \<in> set section_names then c = None \<or> text_change c
        else clean_key changes k \<and> (k = ''title'' \<longrightarrow> text_change c)))"

lemma clean_editD:
  assumes "clean_edit changes sections" "(k, c) \<in> set changes"
  shows "k \<in> set section_names \<Longrightarrow> c = None \<or> text_change c"
    and "k \<notin> set section_names \<Longrightarrow> clean_key changes k"
    and "k = ''title'' \<Longrightarrow> text_change c"
proof -
  have "if k \<in> set section_names then c = None \<or> text_change c
      else clean_key changes k \<and> (k = ''title'' \<longrightarrow> text_change c)"
    using assms by (cases sections) (auto simp: clean_edit_def simp del: if_split_asm split del: if_split)
  moreover have "''title'' \<notin> set section_names" by code_simp
  ultimately show "k \<in> set section_names \<Longrightarrow> c = None \<or> text_change c"
    and "k \<notin> set section_names \<Longrightarrow> clean_key changes k" and "k = ''title'' \<Longrightarrow> text_change c"
    by (simp_all split: if_splits)
qed

lemma text_changeE: "text_change c \<Longrightarrow> (\<And>t. c = Some (SStr t) \<Longrightarrow> thesis) \<Longrightarrow> thesis"
  by (cases c rule: text_change.cases) auto

text \<open>The code's changes of the frontmatter and of the sections are the ones asked for.\<close>

lemma content_edit_section:
  assumes "clean_edit changes sections" "name \<in> set section_names"
  shows "content_edit changes name old = section_after changes name old"
proof (cases "dget changes name")
  case (Some c)
  have "c = None \<or> text_change c"
    using clean_editD(1) [OF assms(1) map_of_SomeD [OF Some] assms(2)] .
  moreover have "py_strip [] = []" by (simp add: py_strip_of_def)
  ultimately show ?thesis
    using Some by (auto simp: content_edit_def section_after_def elim: text_changeE)
qed (simp add: content_edit_def section_after_def)

lemma dget_filter_keys: "dget (filter (\<lambda>(k, _). P k) d) k = (if P k then dget d k else None)"
  by (induction d) auto

lemma dkeys_filter_keys: "set (dkeys (filter (\<lambda>(k, _). P k) d)) = {k \<in> set (dkeys d). P k}"
  by (induction d) auto

lemma fence_changes_key:
  assumes "clean_edit changes sections"
    and "set (map fst changes) \<subseteq> set (EDITABLE_META_KEYS @ EDITABLE_CONTENT_KEYS)"
  shows "(case dget (fence_changes changes) k of None \<Rightarrow> old | Some c \<Rightarrow> c) = key_after changes k old"
proof -
  have sections: "''title'' \<notin> set EDITABLE_META_KEYS" "''body'' \<notin> set EDITABLE_META_KEYS"
      "''notes'' \<notin> set EDITABLE_META_KEYS" "''original_brief'' \<notin> set EDITABLE_META_KEYS"
    by code_simp+
  have title: "\<exists>t. c = Some (SStr t)" if "dget changes ''title'' = Some c" for c
    using clean_editD(3) [OF assms(1) map_of_SomeD [OF that]] by (auto elim: text_changeE)
  have known: "k \<in> set EDITABLE_META_KEYS \<or> k \<in> set EDITABLE_CONTENT_KEYS" if "dget changes k = Some c" for c
    using assms(2) map_of_SomeD [OF that] by force
  show ?thesis
  proof (cases "k = ''title''")
    case True
    then show ?thesis
      using title sections(1)
      by (cases "dget changes k")
        (auto simp: fence_changes_def key_after_def dget_filter_keys title_text_def split: option.split)
  next
    case False
    have "dget (fence_changes changes) k = (if k \<in> set EDITABLE_META_KEYS then dget changes k else None)"
      using False by (simp add: fence_changes_def dget_filter_keys Let_def split: option.split)
    then show ?thesis
      using False known sections
      by (cases "dget changes k") (auto simp: key_after_def EDITABLE_CONTENT_KEYS_def split: option.split scalar.split)
  qed
qed

lemma fence_changes_distinct: "distinct (map fst changes) \<Longrightarrow> distinct (map fst (fence_changes changes))"
  using distinct_dkeys_dset [of "filter (\<lambda>(k, _). k \<in> set EDITABLE_META_KEYS) changes"]
  by (simp add: fence_changes_def Let_def distinct_map_filter split: option.split)

lemma fence_changes_names:
  assumes "(name, c) \<in> set (fence_changes changes)"
  obtains c' where "(name, c') \<in> set changes" "name \<notin> set section_names"
proof -
  have apart: "\<forall>k \<in> set section_names. k \<notin> set EDITABLE_META_KEYS \<and> k \<noteq> ''title''" by code_simp
  have "name \<in> set (dkeys (fence_changes changes))" using assms by force
  then have "name \<in> set EDITABLE_META_KEYS \<and> name \<in> set (dkeys changes) \<or> name = ''title'' \<and> dget changes ''title'' \<noteq> None"
    by (cases "dget changes ''title''") (auto simp: fence_changes_def Let_def set_dkeys_dset dkeys_filter_keys simp del: set_map)
  then show thesis using apart that map_of_SomeD by fastforce
qed

lemma fence_changes_plain:
  assumes "clean_edit changes sections"
    and "set (map fst changes) \<subseteq> set (EDITABLE_META_KEYS @ EDITABLE_CONTENT_KEYS)"
  shows "plain_changes (fence_changes changes)"
proof -
  have names: "distinct (map fst (fence_changes changes))"
    using assms(1) by (intro fence_changes_distinct) (auto simp: clean_edit_def)
  have "meta_key k \<and> (case c of None \<Rightarrow> True | Some v \<Rightarrow> meta_plain v \<and> plain_line (meta_line k v))"
    if kc: "(k, c) \<in> set (fence_changes changes)" for k c
  proof -
    obtain c' where "(k, c') \<in> set changes" "k \<notin> set section_names"
      by (rule fence_changes_names [OF kc])
    then have "clean_key changes k" by (rule clean_editD(2) [OF assms(1)])
    moreover have "key_after changes k None = c"
      using fence_changes_key [OF assms, of None k] names kc by simp
    ultimately show ?thesis by (simp add: clean_key_def)
  qed
  then show ?thesis using names by (auto simp: plain_changes_def changes_ok_def)
qed

text \<open>
  C34: an operator's edit of a task reads back. The answer shows the new body, notes and original brief
  where the edit gives them (empty where it clears them) and the old ones elsewhere; every frontmatter
  key the edit names has its new value or is gone, the title is the stripped title, the other keys keep
  their values; and no other brief of any queue has changed. The conditions are those of the file
  format: the edit is a clean edit (texts for the sections and the title, which may not be cleared;
  no marker line inside a section; scalars that read back as rendered), the keys of the brief's
  frontmatter are distinct and its lines hold no \<^verbatim>\<open>---\<close>, and some key is left afterwards.
\<close>

theorem task_edit_reads_back:
  assumes "brief_at ct rel task = Some doc" "brief_sections doc = (fence, brief, notes, original)"
    and "meta_lines [] fence = Inr m" "plain_fence fence" "clean_edit changes (brief, notes, original)"
    and "key_after changes kept (dget m kept) \<noteq> None"
    and "set_task_meta operator_default ct rel task changes = (ct', Inr view)"
  shows "tv_body view = section_after changes ''body'' brief \<and>
    tv_notes view = section_after changes ''notes'' notes \<and>
    tv_original view = section_after changes ''original_brief'' original \<and>
    (\<forall>k. dget (tv_meta view) k = key_after changes k (dget m k)) \<and>
    (\<forall>rel' task'. (rel', task') \<noteq> (rel, task) \<longrightarrow> brief_at ct' rel' task' = brief_at ct rel' task')"
proof -
  let ?fence = "apply_fence_changes fence (fence_changes changes)"
  obtain body rest where parts: "split_fence doc = (fence, body)"
    "split_original (py_join [newline] body) = (rest, original)" "split_notes rest = (brief, notes)"
    using assms(2) by (auto simp: brief_sections_def split: prod.splits)
  have names: "set (map fst changes) \<subseteq> set (EDITABLE_META_KEYS @ EDITABLE_CONTENT_KEYS)"
    using assms(7) by (auto simp: set_task_meta_def Let_def split: if_splits)
  note sections = content_edit_section [OF assms(5)] and keys = fence_changes_key [OF assms(5) names]
  have texts: "plain_text (content_edit changes ''body'' brief)" "plain_text (content_edit changes ''notes'' notes)"
    "plain_text (content_edit changes ''original_brief'' original)"
    using assms(5) by (simp_all add: sections section_names_def) (simp_all add: clean_edit_def)
  obtain m' where m': "meta_lines [] ?fence = Inr m'" "\<forall>k. dget m' k = key_after changes k (dget m k)" "?fence \<noteq> []"
    using applied_reads_back [OF assms(4) fence_changes_plain [OF assms(5) names] assms(3), of kept] assms(6)
    unfolding keys by blast
  have lines: "\<forall>l \<in> set ?fence. plain_line l"
    by (rule applied_plain [OF assms(4) fence_changes_plain [OF assms(5) names]])
  obtain body' front where reread: "split_frontmatter (edited_brief doc changes) = Inr (m', body')"
    "split_original body' = (front, content_edit changes ''original_brief'' original)"
    "split_notes front = (content_edit changes ''body'' brief, content_edit changes ''notes'' notes)"
    "py_startswith (edited_brief doc changes) ''---''"
    using edited_reads_back [OF parts texts m'(1,3) lines] by blast
  have ct': "ct' = write_brief ct rel task (edited_brief doc changes)"
    and answer: "read_task operator_default ct' rel task = Inr view"
    using assms(1,7) by (auto simp: set_task_meta_def Let_def split: if_splits)
  have "py_strip (content_edit changes ''body'' brief) = content_edit changes ''body'' brief"
    using plain_textD [OF texts(1)] by blast
  then have "tv_body view = content_edit changes ''body'' brief \<and> tv_notes view = content_edit changes ''notes'' notes \<and>
      tv_original view = content_edit changes ''original_brief'' original \<and> tv_meta view = m'"
    using answer reread unfolding ct' by (auto simp: read_task_def bind_result_eq_Inr_iff)
  then show ?thesis using m'(2) set_task_meta_frame [OF assms(7)] by (simp add: sections section_names_def)
qed

definition sample_brief :: string where
  "sample_brief = lines_text [''---'', ''title: Fix it'', ''priority: 3'', ''---'', [], ''Do the thing.'', [],
     ''<!-- nightshift:notes -->'', ''Old note.'']"

definition sample_content :: content where
  "sample_content = \<lparr>ct_queues = [(''q'', \<lparr>qd_config = NoFile, qd_briefs = [(''fix'', sample_brief), (''other'', [])]\<rparr>)],
     ct_artifacts = [], ct_attachments = [], ct_manager_config = [], ct_store_config = NoFile\<rparr>"

definition sample_edit :: meta_changes where
  "sample_edit = [(''title'', Some (SStr ''Fix it now'')), (''notes'', Some (SStr ''New note.'')), (''priority'', None),
     (''failed'', Some (SBool True))]"

lemma task_edit_reads_back_witness:
  "\<exists>view. snd (set_task_meta ''m'' sample_content ''q'' ''fix'' sample_edit) = Inr view \<and>
     tv_body view = ''Do the thing.'' \<and> tv_notes view = ''New note.'' \<and> tv_original view = [] \<and>
     dget (tv_meta view) ''priority'' = None \<and> dget (tv_meta view) ''title'' = Some (SStr ''Fix it now'') \<and>
     dget (tv_meta view) ''failed'' = Some (SBool True)"
proof -
  let ?run = "set_task_meta ''m'' sample_content ''q'' ''fix'' sample_edit"
  have ok: "case snd ?run of Inr _ \<Rightarrow> True | Inl _ \<Rightarrow> False" by code_simp
  then obtain ct' view where run: "?run = (ct', Inr view)" by (cases ?run) (auto split: sum.splits)
  have sections: "brief_sections sample_brief =
      ([''title: Fix it'', ''priority: 3''], ''Do the thing.'', ''Old note.'', [])" by code_simp
  have m: "meta_lines [] [''title: Fix it'', ''priority: 3''] =
      Inr [(''title'', SStr ''Fix it''), (''priority'', SInt 3)]" by code_simp
  have brief: "brief_at sample_content ''q'' ''fix'' = Some sample_brief"
    by (simp add: brief_at_def queue_at_def sample_content_def)
  have clean: "clean_edit sample_edit (''Do the thing.'', ''Old note.'', [])" by code_simp
  have fence: "plain_fence [''title: Fix it'', ''priority: 3'']" by code_simp
  have fields: "section_after sample_edit ''body'' ''Do the thing.'' = ''Do the thing.''"
    "section_after sample_edit ''notes'' ''Old note.'' = ''New note.''"
    "section_after sample_edit ''original_brief'' [] = []"
    "key_after sample_edit ''priority'' (Some (SInt 3)) = None"
    "key_after sample_edit ''title'' (Some (SStr ''Fix it'')) = Some (SStr ''Fix it now'')"
    "key_after sample_edit ''failed'' None = Some (SBool True)" by code_simp+
  show ?thesis
    using task_edit_reads_back [OF brief sections m fence clean, of "''title''"] run fields by simp
qed

section \<open>Free names\<close>

lemma free_name_search:
  "\<exists>k \<ge> n. free_name taken base n = numbered base k \<and> numbered base k \<notin> set taken \<and>
    (\<forall>j. n \<le> j \<and> j < k \<longrightarrow> numbered base j \<in> set taken)"
proof (induction taken base n rule: free_name.induct)
  case (1 taken base n)
  show ?case
  proof (cases "numbered base n \<in> set taken")
    case True
    then obtain k where k: "Suc n \<le> k" "free_name taken base (Suc n) = numbered base k"
      "numbered base k \<notin> set taken" "\<forall>j. Suc n \<le> j \<and> j < k \<longrightarrow> numbered base j \<in> set taken"
      using 1 by blast
    have "numbered base j \<in> set taken" if "n \<le> j" "j < k" for j
      using that k(4) True by (cases "j = n") auto
    then show ?thesis using k True by (intro exI [of _ k]) (simp add: free_name.simps [of taken base n])
  next
    case False
    then show ?thesis by (intro exI [of _ n]) (auto simp: free_name.simps [of taken base n])
  qed
qed

lemma unique_name_fresh: "unique_name taken base \<notin> set taken"
  using free_name_search [of 2 taken base] by (auto simp: unique_name_def)

lemma unique_name_free: "base \<notin> set taken \<Longrightarrow> unique_name taken base = base"
  by (simp add: unique_name_def)

text \<open>The search for a free name returns, with the least free number from two on, whatever
  names are taken.\<close>

theorem unique_name_least:
  "unique_name taken base \<notin> set taken \<and>
   (unique_name taken base = base \<or>
    (base \<in> set taken \<and> (\<exists>k \<ge> 2. unique_name taken base = base @ ''-'' @ nat_text k \<and>
      (\<forall>j \<in> {2..<k}. base @ ''-'' @ nat_text j \<in> set taken))))"
proof (cases "base \<in> set taken")
  case True
  obtain k where k: "2 \<le> k" "free_name taken base 2 = numbered base k" "numbered base k \<notin> set taken"
    "\<forall>j. 2 \<le> j \<and> j < k \<longrightarrow> numbered base j \<in> set taken"
    using free_name_search [of 2 taken base] by auto
  have earlier: "\<forall>j \<in> {2..<k}. base @ ''-'' @ nat_text j \<in> set taken"
    using k(4) by (simp add: numbered_def)
  have "unique_name taken base = base @ ''-'' @ nat_text k"
    using True k(2) by (simp add: unique_name_def numbered_def)
  then show ?thesis using unique_name_fresh True k(1) earlier by blast
qed (simp add: unique_name_def)

lemma unique_name_least_witness:
  "unique_name [''fix'', ''fix-2'', ''fix-4''] ''fix'' = ''fix-3'' \<and> (\<exists>k. ''fix-3'' = ''fix-'' @ nat_text k)"
proof -
  have three: "unique_name [''fix'', ''fix-2'', ''fix-4''] ''fix'' = ''fix-3''" by code_simp
  then obtain k where "''fix-3'' = ''fix'' @ ''-'' @ nat_text k"
    using unique_name_least [of "[''fix'', ''fix-2'', ''fix-4'']" "''fix''"] by auto
  then show ?thesis using three by auto
qed

section \<open>Imports\<close>

text \<open>An import copies: every brief of every queue is still there with the same text, the copy
  has a name its queue did not have, the text of its source and the last place of the order.\<close>

theorem import_copies:
  assumes "import_task ftext ct src_rel task dest_rel = (ct', answer)" "brief_at ct src_rel task = Some doc"
  shows "(\<forall>rel t d. brief_at ct rel t = Some d \<longrightarrow> brief_at ct' rel t = Some d) \<and>
    (\<exists>name. brief_at ct dest_rel name = None \<and> brief_at ct' dest_rel name = Some doc \<and>
      load_order ftext (qd_config (queue_at ct' dest_rel)) =
        load_order ftext (qd_config (queue_at ct dest_rel)) @ [name] \<and>
      (\<forall>n title. answer = Inr (n, title) \<longrightarrow> n = name))"
proof -
  define name where "name = unique_name (stems_at ct dest_rel) task"
  have new: "brief_at ct dest_rel name = None"
    using unique_name_fresh [of "stems_at ct dest_rel" task] stems_at_brief by (auto simp: name_def)
  have ct': "ct' = set_order (write_brief ct dest_rel name doc) dest_rel
      (load_order ftext (qd_config (queue_at ct dest_rel)) @ [name])"
    and answer: "answer = bind_result (brief_meta doc) (\<lambda>m. Inr (name, resolve_title name m))"
    using assms by (auto simp: import_task_def Let_def name_def [symmetric] write_brief_def)
  have "load_order ftext (qd_config (queue_at ct' dest_rel)) =
      load_order ftext (qd_config (queue_at ct dest_rel)) @ [name]"
    by (simp add: ct' set_order_def)
  moreover have "\<forall>rel t d. brief_at ct rel t = Some d \<longrightarrow> brief_at ct' rel t = Some d"
    using new by (auto simp: ct')
  moreover have "brief_at ct' dest_rel name = Some doc" by (simp add: ct')
  moreover have "\<forall>n title. answer = Inr (n, title) \<longrightarrow> n = name"
    by (auto simp: answer bind_result_eq_Inr_iff)
  ultimately show ?thesis using new by blast
qed

lemma import_copies_witness:
  "brief_at (fst (import_task (\<lambda>_. []) sample_content ''q'' ''fix'' ''q'')) ''q'' ''fix'' = Some sample_brief"
proof -
  have "brief_at sample_content ''q'' ''fix'' = Some sample_brief"
    by (simp add: brief_at_def queue_at_def sample_content_def)
  then show ?thesis
    using import_copies [of "\<lambda>_. []" sample_content "''q''" "''fix''" "''q''" _ _ sample_brief] prod.collapse by metis
qed

section \<open>Deleting\<close>

lemma delete_task_frame:
  assumes "delete_task ftext ct rel task = Inr ct'"
  shows "brief_at ct' rel' task' = (if (rel', task') = (rel, task) then None else brief_at ct rel' task')"
  using assms by (auto simp: delete_task_def Let_def brief_at_def [of ct rel] split: option.splits if_splits)

lemma drop_completed_frame:
  assumes "drop_completed_task ftext ct rel task = (gone, ct')"
  shows "brief_at ct' rel' task' = (if (rel', task') = (rel, task) then None else brief_at ct rel' task')"
proof (cases "delete_task ftext ct rel task")
  case (Inl e)
  then have "brief_at ct rel task = None" by (auto simp: delete_task_def Let_def split: option.splits)
  then show ?thesis using Inl assms by (auto simp: drop_completed_task_def)
next
  case (Inr ct2)
  then show ?thesis using delete_task_frame [OF Inr] assms by (simp add: drop_completed_task_def)
qed

section \<open>A decomposition\<close>

lemma harvest_briefs_spec:
  assumes "harvest_briefs ct rel parent n briefs = (ct', created)"
  shows "length created = length briefs \<and> distinct created \<and> set created \<inter> set (stems_at ct rel) = {} \<and>
    (\<forall>i < length briefs. brief_at ct' rel (created ! i) = Some (snd (briefs ! i))) \<and>
    (\<forall>rel' t. (rel' \<noteq> rel \<or> t \<notin> set created) \<longrightarrow> brief_at ct' rel' t = brief_at ct rel' t)"
  using assms
proof (induction briefs arbitrary: ct n created)
  case (Cons b briefs)
  obtain stem doc where b: "b = (stem, doc)" by (cases b)
  define name where "name = subtask_name (stems_at ct rel) parent (Suc n) stem"
  obtain rest where rest: "harvest_briefs (write_brief ct rel name doc) rel parent (Suc n) briefs = (ct', rest)"
    and created: "created = name # rest"
    using Cons.prems b by (auto simp: name_def split: prod.splits)
  have fresh: "name \<notin> set (stems_at ct rel)" using unique_name_fresh name_def by (auto simp: subtask_name_def)
  note IH = Cons.IH [OF rest]
  have stems: "set (stems_at (write_brief ct rel name doc) rel) = insert name (set (stems_at ct rel))"
    using stems_at_brief [of _ "write_brief ct rel name doc" rel] stems_at_brief [of _ ct rel]
    by (intro set_eqI) (auto simp del: not_None_eq)
  then have apart: "name \<notin> set rest" using IH by blast
  have "brief_at ct' rel (created ! i) = Some (snd ((b # briefs) ! i))"
    if "i < length (b # briefs)" for i
    using that IH apart created b by (cases i) simp_all
  moreover have "brief_at ct' rel' t = brief_at ct rel' t" if "rel' \<noteq> rel \<or> t \<notin> set created" for rel' t
    using that IH created by auto
  moreover have "length created = length (b # briefs)" "distinct created" "set created \<inter> set (stems_at ct rel) = {}"
    using IH fresh apart stems created by auto
  ultimately show ?case by blast
qed simp

lemma change_child_frame:
  assumes "change_child operator_default ct rel child changes = (ct', failed)"
  shows "((rel', t) \<noteq> (rel, child) \<longrightarrow> brief_at ct' rel' t = brief_at ct rel' t) \<and>
    (brief_at ct' rel' t = None \<longleftrightarrow> brief_at ct rel' t = None)"
proof (cases "changes = []")
  case True
  then show ?thesis using assms by (simp add: change_child_def)
next
  case False
  then obtain r where run: "set_task_meta operator_default ct rel child changes = (ct', r)"
    using assms by (auto simp: change_child_def split: prod.splits sum.splits)
  show ?thesis
    using set_task_meta_frame [OF run] set_task_meta_present [OF run] by (metis prod.inject)
qed

lemma brief_at_copy [simp]: "brief_at (copy_attachments ct rel task child) rel' t = brief_at ct rel' t"
  by (simp add: copy_attachments_def Let_def)

lemma harvest_children_frame:
  assumes "harvest_children operator_default ct rel task changes children = (ct', failed)"
  shows "((rel' \<noteq> rel \<or> t \<notin> set children) \<longrightarrow> brief_at ct' rel' t = brief_at ct rel' t) \<and>
    (brief_at ct' rel' t = None \<longleftrightarrow> brief_at ct rel' t = None)"
  using assms
proof (induction children arbitrary: ct)
  case (Cons child children)
  obtain ct2 failed2 where step:
    "change_child operator_default (copy_attachments ct rel task child) rel child changes = (ct2, failed2)"
    by (cases "change_child operator_default (copy_attachments ct rel task child) rel child changes")
  note here = change_child_frame [OF step, of rel' t, unfolded brief_at_copy]
  show ?case
  proof (cases failed2)
    case None
    then have "harvest_children operator_default ct2 rel task changes children = (ct', failed)"
      using Cons.prems step by simp
    from Cons.IH [OF this] show ?thesis using here by auto
  next
    case (Some e)
    then show ?thesis using Cons.prems step here by auto
  qed
qed simp

text \<open>The parts of a decomposition, in the order of their files.\<close>

definition ordered_parts :: "doc_dir \<Rightarrow> (string \<times> string) list" where
  "ordered_parts files = sort_key (\<lambda>b. fst b @ ''.md'') files"

lemma harvest_children_plain:
  "harvest_children operator_default ct rel task [] children = (ct', failed) \<Longrightarrow> brief_at ct' rel' t = brief_at ct rel' t"
  by (induction children arbitrary: ct) (auto simp: change_child_def)

text \<open>C35: a decomposition loses no brief: every generated file becomes a task of the parent's queue
  under a name of its own that was free, with the generated text when nothing is inherited from
  the parent; the parent leaves the queue exactly when it is not retained, and every other brief
  of every queue is unchanged.\<close>

theorem split_loses_no_brief:
  assumes "harvest_split_output ftext operator_default ct rel task m (Some files) retain = (ct', Inr created)"
    and "files \<noteq> []" "brief_at ct rel task = Some doc"
  shows "length created = length files \<and> distinct created \<and>
    (\<forall>name \<in> set created. brief_at ct rel name = None \<and> brief_at ct' rel name \<noteq> None) \<and>
    (child_changes m = [] \<longrightarrow> (\<forall>i < length files.
      brief_at ct' rel (created ! i) = Some (snd (ordered_parts files ! i)))) \<and>
    brief_at ct' rel task = (if retain then Some doc else None) \<and>
    (\<forall>rel' t. (rel', t) \<noteq> (rel, task) \<and> (rel' \<noteq> rel \<or> t \<notin> set created) \<longrightarrow> brief_at ct' rel' t = brief_at ct rel' t)"
proof -
  let ?parent = "until_dot task"
  obtain ct1 names where briefs: "harvest_briefs ct rel ?parent (next_sub_id (stems_at ct rel) ?parent - 1)
      (ordered_parts files) = (ct1, names)" by fastforce
  obtain ct2 failed where children: "harvest_children operator_default ct1 rel task (child_changes m) names = (ct2, failed)"
    by fastforce
  have run: "created = names" "ct' = (if retain then ct2 else snd (drop_completed_task ftext ct2 rel task))"
    using assms(1,2) briefs children
    by (auto simp: harvest_split_output_def Let_def ordered_parts_def split: option.splits)
  have final: "brief_at ct' rel' t = (if (rel', t) = (rel, task) \<and> \<not> retain then None else brief_at ct2 rel' t)" for rel' t
    by (cases "drop_completed_task ftext ct2 rel task")
      (use run(2) drop_completed_frame [of ftext ct2 rel task] in auto)
  note spec = harvest_briefs_spec [OF briefs]
  have fresh: "brief_at ct rel n = None" if "n \<in> set names" for n
    using spec that stems_at_brief by blast
  have task: "task \<notin> set names" using fresh assms(3) by force
  have there: "brief_at ct2 rel n \<noteq> None" if n: "n \<in> set names" for n
  proof -
    obtain i where "i < length (ordered_parts files)" "n = names ! i" using spec n in_set_conv_nth by metis
    then have "brief_at ct1 rel n \<noteq> None" using spec by simp
    then show ?thesis using harvest_children_frame [OF children, of rel n] by (simp del: not_None_eq)
  qed
  have other: "brief_at ct2 rel' t = brief_at ct rel' t" if "rel' \<noteq> rel \<or> t \<notin> set names" for rel' t
    using harvest_children_frame [OF children, of rel' t] spec that by simp
  have kept: "brief_at ct' rel (created ! i) = Some (snd (ordered_parts files ! i))"
    if "child_changes m = []" "i < length files" for i
  proof -
    have i: "i < length (ordered_parts files)" using that(2) by (simp add: ordered_parts_def)
    then have "brief_at ct2 rel (names ! i) = Some (snd (ordered_parts files ! i))"
      using spec harvest_children_plain children that(1) by metis
    moreover have "names ! i \<noteq> task" using task spec i nth_mem by metis
    ultimately show ?thesis using final run(1) by simp
  qed
  have len: "length created = length files" using spec run(1) by (simp add: ordered_parts_def)
  show ?thesis
  proof (intro conjI ballI allI impI)
    fix name assume name: "name \<in> set created"
    show "brief_at ct rel name = None" using fresh name run(1) by blast
    show "brief_at ct' rel name \<noteq> None" using there final task name run(1) by auto
  next
    show "brief_at ct' rel task = (if retain then Some doc else None)"
      using final other task assms(3) by simp
  next
    fix rel' t assume "(rel', t) \<noteq> (rel, task) \<and> (rel' \<noteq> rel \<or> t \<notin> set created)"
    then show "brief_at ct' rel' t = brief_at ct rel' t" using final other run(1) by auto
  qed (use len spec run(1) kept in auto)
qed

definition sample_parts :: doc_dir where
  "sample_parts = [(''two'', ''second''), (''one'', ''first'')]"

lemma split_loses_no_brief_witness:
  "\<exists>created. snd (harvest_split_output (\<lambda>_. []) ''m'' sample_content ''q'' ''fix'' [] (Some sample_parts) False) = Inr created \<and>
     length created = 2 \<and> distinct created"
proof -
  let ?run = "harvest_split_output (\<lambda>_. []) ''m'' sample_content ''q'' ''fix'' [] (Some sample_parts) False"
  have "snd ?run = Inr [''fix.1.one'', ''fix.2.two'']" by code_simp
  then obtain ct' where run: "?run = (ct', Inr [''fix.1.one'', ''fix.2.two''])" by (metis prod.collapse)
  have brief: "brief_at sample_content ''q'' ''fix'' = Some sample_brief"
    by (simp add: brief_at_def queue_at_def sample_content_def)
  have files: "sample_parts \<noteq> []" by (simp add: sample_parts_def)
  show ?thesis using split_loses_no_brief [OF run files brief] run by (auto simp: sample_parts_def)
qed

section \<open>Layered settings\<close>

text \<open>A key of the overriding layer wins, and dictionaries merge key by key.\<close>

lemma deep_merge_lookup:
  "distinct (map fst over) \<Longrightarrow> dget (deep_merge base over) k =
    (case dget over k of
       None \<Rightarrow> dget base k
     | Some (PDict b) \<Rightarrow> Some (case dget base k of Some (PDict a) \<Rightarrow> PDict (deep_merge a b) | _ \<Rightarrow> PDict b)
     | Some v \<Rightarrow> Some v)"
proof (induction base over rule: deep_merge.induct)
  case (2 base k' v over)
  let ?v = "case v of PDict b \<Rightarrow> (case dget base k' of Some (PDict a) \<Rightarrow> PDict (deep_merge a b) | _ \<Rightarrow> v) | _ \<Rightarrow> v"
  have IH: "dget (deep_merge (dset base k' ?v) over) k =
    (case dget over k of
       None \<Rightarrow> dget (dset base k' ?v) k
     | Some (PDict b) \<Rightarrow> Some (case dget (dset base k' ?v) k of Some (PDict a) \<Rightarrow> PDict (deep_merge a b) | _ \<Rightarrow> PDict b)
     | Some v \<Rightarrow> Some v)"
    using 2 by simp
  show ?case
  proof (cases "k = k'")
    case True
    then have "dget over k = None" using 2(3) by (simp add: map_of_eq_None_iff)
    then show ?thesis using IH True by (cases v) (auto split: option.split pyval.split)
  next
    case False
    then have base: "dget (dset base k' ?v) k = dget base k" by simp
    have over: "dget ((k', v) # over) k = dget over k" using False by simp
    show ?thesis unfolding over deep_merge.simps using IH unfolding base .
  qed
qed simp

section \<open>A continued item writes frontmatter\<close>

text \<open>The lines of an item become the title of its task, and the title is written on a line of
  the frontmatter as it is.\<close>

definition continued_source :: string where
  "continued_source = lines_text [''---'', ''title: Ideas'', ''autosplit: true'', ''---'', [],
     ''1. Tidy the parser'', ''   disabled: true'', ''2. Add a test'']"

definition continued_content :: content where
  "continued_content = \<lparr>ct_queues = [(''q'', \<lparr>qd_config = NoFile, qd_briefs = [(''7'', continued_source)]\<rparr>)],
     ct_artifacts = [], ct_attachments = [], ct_manager_config = [], ct_store_config = NoFile\<rparr>"

text \<open>A continuation line of an item that reads like a setting becomes a setting of the task
  that is split off: of the two items below the first is never offered, because its second line
  disables it.\<close>

theorem continuation_becomes_setting:
  "case spawn_all (\<lambda>_. []) ''auto'' (\<lambda>_. Some continued_source) True continued_content ''q'' of
     (ct', Inr spawned) \<Rightarrow>
       map sp_title spawned = [''Tidy the parser'' @ [newline] @ ''disabled: true'', ''Add a test''] \<and>
       map (\<lambda>t. map_option (\<lambda>d. map_sum id is_disabled (brief_meta d)) (brief_at ct' ''q'' (sp_name t))) spawned =
         [Some (Inr True), Some (Inr False)]
   | (_, Inl _) \<Rightarrow> False"
  by code_simp

end
