(* ===== verification/Effect_Facts.thy ===== *)
theory Effect_Facts
  imports Poll_Facts Task_File_Facts
begin

text \<open>
  The effects of a transition after its commit (\<^verbatim>\<open>_finish\<close> of
  \<^verbatim>\<open>src/nightshift/manager/api_worker.py\<close>): what a manager that stops between two of
  them has written.
\<close>

section \<open>The document of a step is stored before its cursor moves\<close>

text \<open>The content store after a prefix of the effects.\<close>

lemma artifact_effect:
  "fst (run_effect env io cx (ES_ARTIFACT name txt) m) =
     m\<lparr>mg_content := write_artifact (mg_content m) (tasks_rel (cx_queue cx)) (cx_task cx) name txt\<rparr>"
  by (simp add: write_artifact_job_def run_content_def act_bind_def answer_def)

lemma write_artifact_briefs [simp]: "brief_at (write_artifact ct rel task name txt) rel' task' = brief_at ct rel' task'"
  by (simp add: write_artifact_def brief_at_def)

lemma write_brief_artifacts [simp]: "ct_artifacts (write_brief ct rel task txt) = ct_artifacts ct"
  by (simp add: write_brief_def)

definition artifact_stored :: "manager \<Rightarrow> string option \<Rightarrow> string \<Rightarrow> string \<Rightarrow> string \<Rightarrow> bool" where
  "artifact_stored m queue task name txt \<longleftrightarrow>
     dget (dget_or (ct_artifacts (mg_content m)) (tasks_rel queue, task) []) name =
       Some (if ends_newline txt then txt else txt @ [newline])"

lemma artifact_effect_stores:
  "artifact_stored (fst (run_effect env io cx (ES_ARTIFACT name txt) m)) (cx_queue cx) (cx_task cx) name txt"
  unfolding artifact_effect artifact_stored_def by (simp add: write_artifact_def)

lemma keeps_artifact:
  "keeps (\<lambda>m. artifact_stored m q t n txt) (set_engine_meta_job env queue task changes)"
  "keeps (\<lambda>m. artifact_stored m q t n txt) (set_idle now w)"
  by (auto simp: keeps_def set_engine_meta_job_def act_bind_def run_content_def set_engine_meta_def answer_def
      artifact_stored_def set_idle_def on_db_def change_def Let_def split: prod.splits option.splits sum.splits if_splits)

lemma keeps_artifact_plan:
  "(\<And>e. e \<in> set plan \<Longrightarrow> e = ES_IDLE \<or> (\<exists>changes. e = ES_META changes)) \<Longrightarrow>
   keeps (\<lambda>m. artifact_stored m q t n txt) (act_each (run_effect env io cx) plan)"
proof (induction plan)
  case (Cons e plan)
  from Cons.prems [of e] have "keeps (\<lambda>m. artifact_stored m q t n txt) (run_effect env io cx e)"
    by (auto intro!: keeps_bind keeps_answer keeps_artifact)
  moreover have "keeps (\<lambda>m. artifact_stored m q t n txt) (act_each (run_effect env io cx) plan)"
    using Cons by simp
  ultimately show ?case by (auto intro!: keeps_bind keeps_answer)
qed (simp add: keeps_answer)

lemma doc_plan:
  "effect_plan (t_effects (workflow_doc_advance ref out step (Some (name, txt)))) idle =
     [ES_ARTIFACT name txt, ES_META (advance_visits step)] @ (if idle then [ES_IDLE] else [])"
  by (simp add: effect_plan_def workflow_doc_advance_def no_effects_def Let_def)

lemma submit_artifact_cursor:
  assumes "submit_ends ref out policy t" "te_engine_meta (t_effects t) = Some changes"
    and "te_write_artifact (t_effects t) = Some (name, txt)"
  shows "\<exists>step. t = workflow_doc_advance ref out step (Some (name, txt))"
  using assms
  by (cases rule: submit_ends_leaves)
    (auto simp: workflow_landed_transition_def workflow_doc_advance_def land_effects_def
      no_effects_def Let_def no_cursor_land_failed no_cursor_workflow_split)

section \<open>Properties\<close>

text \<open>
  C29: a document step is never skipped by a crash. When a submit's transition both stores a document
  and moves the cursor, then however many of its effects were carried out before the manager
  stopped: if any brief has changed, the document is stored under the step's output name.
\<close>

theorem document_before_cursor:
  assumes "submit_ends ref out policy t" "te_engine_meta (t_effects t) = Some changes"
    and "te_write_artifact (t_effects t) = Some (name, txt)"
    and "m' = fst (act_each (run_effect env io cx) (take k (effect_plan (t_effects t) idle)) m)"
    and "brief_at (mg_content m') rel task \<noteq> brief_at (mg_content m) rel task"
  shows "dget (dget_or (ct_artifacts (mg_content m')) (tasks_rel (cx_queue cx), cx_task cx) []) name =
    Some (if ends_newline txt then txt else txt @ [newline])"
proof -
  obtain step where t: "t = workflow_doc_advance ref out step (Some (name, txt))"
    using submit_artifact_cursor [OF assms(1-3)] by blast
  define rest where "rest = take (k - 1) (ES_META (advance_visits step) # (if idle then [ES_IDLE] else []))"
  have "k \<noteq> 0" using assms(5) unfolding assms(4) by (cases "k = 0") (simp_all add: answer_def)
  then have plan: "take k (effect_plan (t_effects t) idle) = ES_ARTIFACT name txt # rest"
    unfolding t doc_plan rest_def by (cases k) simp_all
  let ?m1 = "fst (run_effect env io cx (ES_ARTIFACT name txt) m)"
  have "keeps (\<lambda>m. artifact_stored m (cx_queue cx) (cx_task cx) name txt) (act_each (run_effect env io cx) rest)"
    by (rule keeps_artifact_plan) (auto simp: rest_def dest!: in_set_takeD split: if_splits)
  then have "artifact_stored (fst (act_each (run_effect env io cx) rest ?m1)) (cx_queue cx) (cx_task cx) name txt"
    using artifact_effect_stores by (rule keepsD)
  moreover have "m' = fst (act_each (run_effect env io cx) rest ?m1)"
    unfolding assms(4) plan
    by (simp add: act_bind_def answer_def write_artifact_job_def run_content_def split: prod.split sum.split)
  ultimately show ?thesis by (simp add: artifact_stored_def)
qed

definition sample_cx :: submit_ctx where
  "sample_cx = \<lparr>cx_queue = None, cx_task = ''fix'', cx_worker = ''w1'', cx_repo = [], cx_title = ''fix''\<rparr>"

lemma document_before_cursor_witness:
  "dget (dget_or (ct_artifacts (mg_content (fst (act_each (run_effect sample_env sample_io sample_cx)
      (take 2 (effect_plan (t_effects (workflow_doc_advance sample_ref sample_document sample_step
        (Some (''plan'', ''text'')))) True)) sample_manager)))) (''main'', ''fix'') []) ''plan'' =
   Some (''text'' @ [newline])"
proof -
  let ?m = "fst (act_each (run_effect sample_env sample_io sample_cx)
      (take 2 (effect_plan (t_effects (workflow_doc_advance sample_ref sample_document sample_step
        (Some (''plan'', ''text'')))) True)) sample_manager)"
  have "brief_at (mg_content ?m) ''main'' ''fix'' \<noteq> brief_at (mg_content sample_manager) ''main'' ''fix''"
    by code_simp
  from document_before_cursor [OF submit_ends.answered [OF sample_document_answer] _ _ refl this]
  show ?thesis
    by (simp add: workflow_doc_advance_def Let_def no_effects_def sample_cx_def tasks_rel_def ends_newline_def)
qed

text \<open>
  A submit whose brief was removed in the meantime raises between the commit and the rest of its
  effects: the attempt has failed, and the worker stays busy with it.
\<close>

definition brief_removed :: manager where
  "brief_removed = sample_manager\<lparr>mg_content := small_content\<lparr>ct_queues := [(''main'', \<lparr>qd_config = NoFile, qd_briefs = []\<rparr>)]\<rparr>,
     mg_db := set_worker_status 0 ''w1'' ''busy'' (Some ''fix'') None (Some ''run-1'')
       (fst (register_worker 0 ''w1'' \<lparr>wa_backend = ''claude'', wa_queues = None, wa_priorities = None,
         wa_models = None, wa_mcps = None, wa_meta = None\<rparr> sample_db))\<rparr>"

theorem removed_brief_keeps_worker_busy:
  "case worker_submit sample_env sample_io ''run-1'' (sample_body\<lparr>o_status := RS_ERROR, o_failure_kind := Some WORKER_ERROR\<rparr>)
      brief_removed of (m, ans) \<Rightarrow>
     ans = Inl (FileNotFoundError ''fix'') \<and> map at_state (db_attempts (mg_db m)) = [AS_FAILED] \<and>
     map wk_status (db_workers (mg_db m)) = [''busy'']"
  by code_simp

end
