(* ===== verification/Workflow_Run.thy ===== *)
theory Workflow_Run
  imports Worker_Submit
begin

text \<open>
  The run of a workflow over the submits of its steps: the visit counters of
  \<^verbatim>\<open>src/nightshift/workflows.py\<close>, the step policy of
  \<^verbatim>\<open>manager/api_worker.py\<close> and the cursor that
  \<^verbatim>\<open>transitions.py\<close> writes, composed. The state is the text of \<open>workflow_visits\<close>.
\<close>

section \<open>The run of a workflow\<close>

text \<open>One advance: the policy of a step of \<open>w\<close> is built from the frontmatter, the submit ends, and the
  transition writes the cursor.\<close>

inductive workflow_run :: "workflow_def \<Rightarrow> nat \<Rightarrow> string \<Rightarrow> bool" for w where
  begins: "workflow_run w 0 (format_visits [(first_step w, 1)])"
| advances: "workflow_run w n s \<Longrightarrow> dget defs (dict_text ftext d ''name'') = Some w \<Longrightarrow>
    frontmatter_visits m = parse_visits (Some s) \<Longrightarrow>
    build_workflow_step_policy ftext defs (Some d) m sig evergreen = Inr (Some step) \<Longrightarrow>
    sp_workflow_step policy = Some step \<Longrightarrow> submit_ends ref (out :: submit_body) policy t \<Longrightarrow>
    te_engine_meta (t_effects t) = Some changes \<Longrightarrow> dget changes ''workflow_visits'' = Some (PStr s') \<Longrightarrow>
    workflow_run w (Suc n) s'"

lemma find_step_in: "find_step w i = Some s \<Longrightarrow> s \<in> set (wf_steps w) \<and> ws_id s = i"
  by (auto simp: find_step_def find_Some_iff)

lemma step_policy_destination:
  assumes "build_workflow_step_policy ftext defs (Some d) m sig evergreen = Inr (Some step)"
    and "dget defs (dict_text ftext d ''name'') = Some w" "wsp_route_to step \<noteq> END"
  shows "wsp_visits step = frontmatter_visits m \<and> (\<exists>ds. find_step w (wsp_route_to step) = Some ds \<and>
    (wsp_dest_visits_exhausted step \<longleftrightarrow> ws_max_visits ds < dget_or (frontmatter_visits m) (wsp_route_to step) 0 + 1))"
  using assms
  by (auto simp: build_workflow_step_policy_def Let_def bind_result_eq_Inr_iff split: if_splits option.splits)

text \<open>What an advance does to the counters.\<close>

lemma advance_counts:
  assumes "dget defs (dict_text ftext d ''name'') = Some w"
    and "build_workflow_step_policy ftext defs (Some d) m sig evergreen = Inr (Some step)"
    and "sp_workflow_step policy = Some step" "submit_ends ref (out :: submit_body) policy t"
    and "te_engine_meta (t_effects t) = Some changes" "dget changes ''workflow_visits'' = Some (PStr s')"
  shows "\<exists>ds. find_step w (ws_id ds) = Some ds \<and>
    s' = format_visits (dset (frontmatter_visits m) (ws_id ds) (dget_or (frontmatter_visits m) (ws_id ds) 0 + 1)) \<and>
    dget_or (frontmatter_visits m) (ws_id ds) 0 + 1 \<le> ws_max_visits ds"
proof -
  have c: "wsp_route_to step \<noteq> END" "\<not> wsp_dest_visits_exhausted step" "changes = advance_visits step"
    using submit_cursor [OF assms(4,5)] assms(3) by auto
  obtain ds where ds: "wsp_visits step = frontmatter_visits m" "find_step w (wsp_route_to step) = Some ds"
      "\<not> ws_max_visits ds < dget_or (frontmatter_visits m) (wsp_route_to step) 0 + 1"
    using step_policy_destination [OF assms(2,1) c(1)] c(2) by blast
  have "ws_id ds = wsp_route_to step" using find_step_in [OF ds(2)] by simp
  then show ?thesis
    using ds c(3) assms(6) by (intro exI [of _ ds]) (auto simp: advance_visits_def Let_def)
qed

section \<open>The counters bound the run\<close>

definition visit_total :: "workflow_def \<Rightarrow> visits \<Rightarrow> int" where
  "visit_total w vs = (\<Sum>i \<in> set (step_ids w). dget_or vs i 0)"

text \<open>Readable counters, each within the budget of its step.\<close>

definition within_budget :: "workflow_def \<Rightarrow> visits \<Rightarrow> bool" where
  "within_budget w vs \<longleftrightarrow> (\<forall>kv \<in> set vs. visit_key (fst kv)) \<and> distinct (dkeys vs) \<and>
     (\<forall>s \<in> set (wf_steps w). dget_or vs (ws_id s) 0 \<le> max 1 (ws_max_visits s))"

lemma visit_total_dset:
  "i \<in> set (step_ids w) \<Longrightarrow> visit_total w (dset vs i n) = visit_total w vs - dget_or vs i 0 + n"
proof -
  assume i: "i \<in> set (step_ids w)"
  have "visit_total w (dset vs i n) = n + (\<Sum>j \<in> set (step_ids w) - {i}. dget_or (dset vs i n) j 0)"
    unfolding visit_total_def using i by (subst sum.remove [of _ i]) simp_all
  also have "(\<Sum>j \<in> set (step_ids w) - {i}. dget_or (dset vs i n) j 0) =
      (\<Sum>j \<in> set (step_ids w) - {i}. dget_or vs j 0)"
    by (rule sum.cong) auto
  finally show ?thesis
    unfolding visit_total_def using i by (subst (2) sum.remove [of _ i]) simp_all
qed

lemma workflow_run_counts:
  assumes "well_formed_workflow w" "\<forall>i \<in> set (step_ids w). visit_key i"
  shows "workflow_run w n s \<Longrightarrow> within_budget w (parse_visits (Some s)) \<and> visit_total w (parse_visits (Some s)) = int n + 1"
proof (induction rule: workflow_run.induct)
  case begins
  have ne: "wf_steps w \<noteq> []" using assms(1) by (simp add: well_formed_workflow_def)
  then have i: "first_step w \<in> set (step_ids w)" by (cases "wf_steps w") (auto simp: first_step_def step_ids_def)
  then have "parse_visits (Some (format_visits [(first_step w, 1)])) = [(first_step w, 1)]"
    using assms(2) by (intro parse_format_visits) auto
  moreover have "visit_total w [(first_step w, 1)] = 1"
    using visit_total_dset [OF i, of "[]" 1] by (simp add: visit_total_def dget_or_def)
  moreover have "within_budget w [(first_step w, 1)]"
    using assms(2) i by (auto simp: within_budget_def dget_or_def)
  ultimately show ?case by simp
next
  case (advances n s defs ftext d m sig evergreen step policy ref out t changes s')
  let ?vs = "parse_visits (Some s)"
  obtain ds where ds: "find_step w (ws_id ds) = Some ds"
      "s' = format_visits (dset ?vs (ws_id ds) (dget_or ?vs (ws_id ds) 0 + 1))"
      "dget_or ?vs (ws_id ds) 0 + 1 \<le> ws_max_visits ds"
    using advance_counts [OF advances(2,4-8)] advances(3) by auto
  let ?vs' = "dset ?vs (ws_id ds) (dget_or ?vs (ws_id ds) 0 + 1)"
  have i: "ds \<in> set (wf_steps w)" "ws_id ds \<in> set (step_ids w)"
    using find_step_in [OF ds(1)] by (auto simp: step_ids_def)
  have budget: "within_budget w ?vs" and sum: "visit_total w ?vs = int n + 1" using advances.IH by simp_all
  have "\<forall>k \<in> set (dkeys ?vs'). visit_key k"
    unfolding set_dkeys_dset using budget i(2) assms(2) by (auto simp: within_budget_def)
  then have ok: "(\<forall>kv \<in> set ?vs'. visit_key (fst kv)) \<and> distinct (dkeys ?vs')"
    using budget by (auto simp: within_budget_def)
  then have "parse_visits (Some s') = ?vs'" using ds(2) parse_format_visits by simp
  moreover have "dget_or ?vs' (ws_id st) 0 \<le> max 1 (ws_max_visits st)" if st: "st \<in> set (wf_steps w)" for st
  proof (cases "ws_id st = ws_id ds")
    case True
    then have "st = ds"
      using assms(1) i(1) st by (auto simp: well_formed_workflow_def step_ids_def distinct_map dest: inj_onD)
    then show ?thesis using ds(3) by simp
  next
    case False
    then show ?thesis using budget st by (simp add: within_budget_def)
  qed
  then have "within_budget w ?vs'" using ok by (simp add: within_budget_def)
  ultimately show ?case using sum visit_total_dset [OF i(2)] by simp
qed

section \<open>Properties\<close>

text \<open>
  C10: a workflow ends. From the first step on, however the steps signal, the cursor of an accepted
  definition advances fewer times than its steps' visit budgets sum to, when no step id holds a
  separator of the visit text or padding.
\<close>

theorem workflow_run_ends:
  assumes "well_formed_workflow w" "\<forall>i \<in> set (step_ids w). visit_key i" "workflow_run w n s"
  shows "int n < (\<Sum>step \<leftarrow> wf_steps w. max 1 (ws_max_visits step))"
proof -
  let ?vs = "parse_visits (Some s)"
  have counts: "within_budget w ?vs" "visit_total w ?vs = int n + 1"
    using workflow_run_counts [OF assms(1,2,3)] by simp_all
  have d: "distinct (step_ids w)" using assms(1) by (simp add: well_formed_workflow_def)
  then have "visit_total w ?vs = (\<Sum>i \<leftarrow> step_ids w. dget_or ?vs i 0)"
    unfolding visit_total_def by (rule sum.distinct_set_conv_list)
  also have "\<dots> = (\<Sum>step \<leftarrow> wf_steps w. dget_or ?vs (ws_id step) 0)"
    by (simp add: step_ids_def o_def)
  also have "\<dots> \<le> (\<Sum>step \<leftarrow> wf_steps w. max 1 (ws_max_visits step))"
    using counts(1) by (intro sum_list_mono) (simp add: within_budget_def)
  finally show ?thesis using counts(2) by simp
qed

text \<open>A completed submit that makes a document or lands.\<close>

definition completed_body :: submit_body where
  "completed_body = outcome.extend ((new_outcome RS_COMPLETED)\<lparr>o_landable := True, o_document := Some ''text''\<rparr>)
     \<lparr>sb_worker_id = ''w1'', sb_lease_id = ''run-1'', sb_task = ''fix'', sb_queue = None, sb_title = ''fix'',
      sb_quarantine = False\<rparr>"

lemma completed_body_simps:
  "o_status completed_body = RS_COMPLETED" "o_landable completed_body" "o_document completed_body = Some ''text''"
  by (simp_all add: completed_body_def new_outcome_def outcome.defs submit_body.defs telemetry.defs empty_telemetry_def)

lemma run_advances:
  assumes "workflow_run w n s" "dget defs (dict_text ftext d ''name'') = Some w"
    and "frontmatter_visits m = parse_visits (Some s)"
    and "build_workflow_step_policy ftext defs (Some d) m sig evergreen = Inr (Some step)"
    and "wsp_route_to step \<noteq> END" "\<not> wsp_dest_visits_exhausted step" "wsp_kind step \<noteq> SPLIT"
  shows "workflow_run w (Suc n) (format_visits
    (dset (wsp_visits step) (wsp_route_to step) (dget_or (wsp_visits step) (wsp_route_to step) 0 + 1)))"
proof -
  let ?pol = "default_submit_policy\<lparr>sp_workflow_step := Some step\<rparr>"
  have "\<exists>t. submit_ends sample_ref completed_body ?pol t \<and> te_engine_meta (t_effects t) = Some (advance_visits step)"
  proof (cases "wsp_kind step")
    case DOC
    then obtain a where "on_submit sample_ref completed_body ?pol =
        Inr (Apply (workflow_doc_advance sample_ref completed_body step a))"
      using assms(5,6) by (auto simp: on_submit_def on_workflow_step_def completed_body_simps Let_def)
    then show ?thesis
      by (intro exI conjI, rule submit_ends.answered) (simp_all add: workflow_doc_advance_def Let_def)
  next
    case CODE
    let ?l = "new_land_outcome LK_LANDED"
    let ?t = "workflow_landed_transition sample_ref completed_body ?l
        (land_effects\<lparr>te_engine_meta := Some (advance_visits step)\<rparr>) []"
    have "on_submit sample_ref completed_body ?pol = Inr (Git GP_LAND)"
      using CODE by (simp add: on_submit_def on_workflow_step_def completed_body_simps Let_def)
    moreover have "on_workflow_land sample_ref completed_body ?l ?pol = Inr ?t"
      using assms(5,6) by (simp add: on_workflow_land_def new_land_outcome_def Let_def)
    ultimately have "submit_ends sample_ref completed_body ?pol ?t"
      by (rule submit_ends.workflow_landed [where g = GP_LAND, OF _ disjI1 [OF refl]])
    then show ?thesis by (auto simp: workflow_landed_transition_def)
  qed (use assms(7) in simp)
  then obtain t where "submit_ends sample_ref completed_body ?pol t"
    "te_engine_meta (t_effects t) = Some (advance_visits step)" by blast
  then show ?thesis
    by (intro workflow_run.advances [OF assms(1-4), where policy = ?pol]) (auto simp: advance_visits_def Let_def)
qed

lemma workflow_run_ends_witness:
  "workflow_run sample_workflow 1 (format_visits [(''plan'', 1), (''build'', 1)]) \<and>
   int 1 < (\<Sum>step \<leftarrow> wf_steps sample_workflow. max 1 (ws_max_visits step))"
proof -
  let ?d = "[(''name'', PStr ''feature''), (''step'', PStr ''plan'')]"
  let ?m = "[(''workflow_visits'', SStr ''plan:1'')]"
  have policy: "build_workflow_step_policy (\<lambda>_. []) [(''feature'', sample_workflow)] (Some ?d) ?m None False =
    Inr (Some \<lparr>wsp_workflow = ''feature'', wsp_step_id = ''plan'', wsp_kind = DOC, wsp_output = Some ''plan'',
      wsp_route_to = ''build'', wsp_dest_kind = Some CODE, wsp_dest_visits_exhausted = False,
      wsp_evergreen = False, wsp_visits = [(''plan'', 1)], wsp_exhausted_reason = []\<rparr>)"
    by code_simp
  have "format_visits [(first_step sample_workflow, 1)] = ''plan:1''" by code_simp
  then have start: "workflow_run sample_workflow 0 ''plan:1''" using workflow_run.begins by metis
  have "frontmatter_visits ?m = parse_visits (Some ''plan:1'')" by code_simp
  from run_advances [OF start _ this policy] have "workflow_run sample_workflow (Suc 0)
      (format_visits (dset [(''plan'', 1)] ''build'' (dget_or [(''plan'', 1)] ''build'' 0 + 1)))"
    by (simp add: END_def dict_text_def py_strip_of_def is_space_def)
  then have run: "workflow_run sample_workflow 1 (format_visits [(''plan'', 1), (''build'', 1)])"
    by (simp add: dget_or_def)
  moreover have "int 1 < (\<Sum>step \<leftarrow> wf_steps sample_workflow. max 1 (ws_max_visits step))"
  proof (rule workflow_run_ends [OF _ _ run])
    show "well_formed_workflow sample_workflow" using sample_validated validate_iff by blast
    show "\<forall>i \<in> set (step_ids sample_workflow). visit_key i" by code_simp
  qed
  ultimately show ?thesis ..
qed

definition loop_json :: pyval where
  "loop_json = PDict [(''name'', PStr ''loop''), (''steps'', PList [sample_json_step ''fix:a'' ''code''
     [(''signals'', PDict [(''again'', PStr ''fix:a'')]), (''next'', PStr END), (''max_visits'', PInt 2)]])]"

definition loop_workflow :: workflow_def where
  "loop_workflow = \<lparr>wf_name = ''loop'', wf_steps = [\<lparr>ws_id = ''fix:a'', ws_kind = CODE, ws_role = ''planner'',
     ws_inputs = [], ws_prompt = None, ws_output = None, ws_max_turns = INHERIT,
     ws_signals = [(''again'', ''fix:a'')], ws_next = END, ws_max_visits = 2, ws_max_visits_declared = True\<rparr>]\<rparr>"

text \<open>
  A step id with a colon defeats the visit budget. The validator accepts such a definition, but
  the counter it writes is not read back, so a step that may run twice runs any number of times.
\<close>

theorem colon_defeats_budget:
  "parse_workflow loop_json = Inr loop_workflow \<and> (\<forall>n. \<exists>s. workflow_run loop_workflow n s)"
proof
  show "parse_workflow loop_json = Inr loop_workflow" by code_simp
  have shown: "format_visits [(first_step loop_workflow, 1)] = ''fix:a:1''" by code_simp
  have "workflow_run loop_workflow n ''fix:a:1''" for n
  proof (induction n)
    case 0
    show ?case using workflow_run.begins [of loop_workflow] shown by simp
  next
    case (Suc n)
    let ?m = "[(''workflow_visits'', SStr ''fix:a:1'')]"
    have policy: "build_workflow_step_policy (\<lambda>_. []) [(''loop'', loop_workflow)]
        (Some [(''name'', PStr ''loop''), (''step'', PStr ''fix:a'')]) ?m (Some ''again'') False =
      Inr (Some \<lparr>wsp_workflow = ''loop'', wsp_step_id = ''fix:a'', wsp_kind = CODE, wsp_output = None,
        wsp_route_to = ''fix:a'', wsp_dest_kind = Some CODE, wsp_dest_visits_exhausted = False,
        wsp_evergreen = False, wsp_visits = [], wsp_exhausted_reason = []\<rparr>)"
      by code_simp
    have "frontmatter_visits ?m = parse_visits (Some ''fix:a:1'')" by code_simp
    from run_advances [OF Suc _ this policy] have "workflow_run loop_workflow (Suc n)
        (format_visits (dset [] ''fix:a'' (dget_or [] ''fix:a'' 0 + 1)))"
      by (simp add: END_def dict_text_def py_strip_of_def is_space_def)
    moreover have "format_visits (dset [] ''fix:a'' (dget_or [] ''fix:a'' 0 + 1)) = ''fix:a:1''" by code_simp
    ultimately show ?case by simp
  qed
  then show "\<forall>n. \<exists>s. workflow_run loop_workflow n s" by blast
qed

end
