(* ===== verification/Ci_Status.thy ===== *)
theory Ci_Status
  imports Lifecycle
begin

text \<open>
  The verdict on a repository's workflow runs (\<^verbatim>\<open>src/nightshift/ci.py\<close>) and the
  two migration tables between the old pair of statuses and the attempt state
  (\<^verbatim>\<open>src/nightshift/lifecycle_compat.py\<close>). The decoded JSON of the run list is an
  input; no input is a payload that does not parse.
\<close>

section \<open>Workflow runs\<close>

datatype ci_state = CI_GREEN | CI_RED | CI_PENDING | CI_UNKNOWN

fun ci_state_value :: "ci_state \<Rightarrow> string" where
  "ci_state_value CI_GREEN = ''green''"
| "ci_state_value CI_RED = ''red''"
| "ci_state_value CI_PENDING = ''pending''"
| "ci_state_value CI_UNKNOWN = ''unknown''"

definition RED_CONCLUSIONS :: "string list" where
  "RED_CONCLUSIONS = [''failure'', ''timed_out'', ''action_required'']"

definition GREEN_CONCLUSIONS :: "string list" where
  "GREEN_CONCLUSIONS = [''success'', ''skipped'', ''neutral'']"

definition DETAIL_LIMIT :: nat where "DETAIL_LIMIT = 400"

record ci_status =
  cs_state :: ci_state
  cs_head_sha :: pyval
  cs_url :: pyval
  cs_detail :: "string option"
  cs_transient :: bool
  cs_no_runs_at_tip :: bool

definition unknown_status :: "string \<Rightarrow> ci_status" where
  "unknown_status detail = \<lparr>cs_state = CI_UNKNOWN, cs_head_sha = PNone, cs_url = PNone,
     cs_detail = Some detail, cs_transient = False, cs_no_runs_at_tip = False\<rparr>"

text \<open>\<open>run.get(k) or None\<close>.\<close>

definition get_or_none :: "pydict \<Rightarrow> string \<Rightarrow> pyval" where
  "get_or_none run k = (case dget run k of None \<Rightarrow> PNone | Some v \<Rightarrow> if truthy v then v else PNone)"

text \<open>\<open>(run.get("conclusion") or "").strip().lower()\<close>.\<close>

definition conclusion_of :: "pydict \<Rightarrow> py_error + string" where
  "conclusion_of run =
     (case get_or_none run ''conclusion'' of
        PNone \<Rightarrow> Inr [] | PStr s \<Rightarrow> Inr (py_lower (py_strip s)) | _ \<Rightarrow> Inl AttributeError)"

definition name_of_run :: "(rat \<Rightarrow> string) \<Rightarrow> pydict \<Rightarrow> string" where
  "name_of_run ftext run = (case get_or_none run ''workflowName'' of PNone \<Rightarrow> ''workflow'' | v \<Rightarrow> py_str ftext v)"

definition run_completed :: "pydict \<Rightarrow> bool" where
  "run_completed run \<longleftrightarrow> dget run ''status'' = Some (PStr ''completed'')"

definition run_status_at :: "ci_state \<Rightarrow> pyval \<Rightarrow> pydict \<Rightarrow> string \<Rightarrow> ci_status" where
  "run_status_at st head run detail = \<lparr>cs_state = st, cs_head_sha = head, cs_url = get_or_none run ''url'',
     cs_detail = Some (take DETAIL_LIMIT detail), cs_transient = False, cs_no_runs_at_tip = False\<rparr>"

definition first_or :: "'a option \<Rightarrow> 'a \<Rightarrow> 'a option" where
  "first_or seen x = (case seen of None \<Rightarrow> Some x | Some _ \<Rightarrow> seen)"

text \<open>The walk over the runs at the tip: a red one ends it.\<close>

fun judge_runs ::
  "(rat \<Rightarrow> string) \<Rightarrow> pyval \<Rightarrow> pydict \<Rightarrow> pydict option \<Rightarrow> pydict option \<Rightarrow> pydict option \<Rightarrow> pydict list \<Rightarrow>
   py_error + ci_status" where
  "judge_runs ftext head first pending green other [] =
     (case pending of
        Some run \<Rightarrow> Inr (run_status_at CI_PENDING head run (name_of_run ftext run @ '' '' @
          (case get_or_none run ''status'' of PNone \<Rightarrow> ''running'' | v \<Rightarrow> py_str ftext v)))
      | None \<Rightarrow>
          (case green of
             Some run \<Rightarrow> bind_result (conclusion_of run) (\<lambda>c.
               Inr (run_status_at CI_GREEN head run (name_of_run ftext run @ '': '' @ c)))
           | None \<Rightarrow>
               let run = (case other of Some r \<Rightarrow> r | None \<Rightarrow> first) in
               bind_result (conclusion_of run) (\<lambda>c.
                 Inr (run_status_at CI_UNKNOWN head run (name_of_run ftext run @ '': '' @ str_or c ''no conclusion'')))))"
| "judge_runs ftext head first pending green other (run # runs) =
     (if \<not> run_completed run then judge_runs ftext head first (first_or pending run) green other runs
      else bind_result (conclusion_of run) (\<lambda>c.
        if c \<in> set RED_CONCLUSIONS
          then Inr (run_status_at CI_RED head run (name_of_run ftext run @ '': '' @ c))
        else if c \<in> set GREEN_CONCLUSIONS
          then judge_runs ftext head first pending (first_or green run) other runs
        else judge_runs ftext head first pending green (first_or other run) runs))"

text \<open>\<open>tip_sha or (first.get("headSha") or None)\<close>.\<close>

definition head_of :: "string option \<Rightarrow> pydict \<Rightarrow> pyval" where
  "head_of tip first =
     (case tip of
        Some t \<Rightarrow> if t = [] then get_or_none first ''headSha'' else PStr t
      | None \<Rightarrow> get_or_none first ''headSha'')"

definition runs_at :: "pyval \<Rightarrow> pyval list \<Rightarrow> pydict list" where
  "runs_at head runs =
     List.map_filter (\<lambda>r. case r of
       PDict d \<Rightarrow> if get_or_none d ''headSha'' = head then Some d else None | _ \<Rightarrow> None) runs"

definition status_from_runs ::
  "(rat \<Rightarrow> string) \<Rightarrow> pyval option \<Rightarrow> string option \<Rightarrow> py_error + ci_status" where
  "status_from_runs ftext payload tip =
     (case payload of
        None \<Rightarrow> Inr (unknown_status ''unparseable gh payload'')
      | Some (PList (PDict first # runs)) \<Rightarrow>
          (let head = head_of tip first; at_head = runs_at head (PDict first # runs) in
           if at_head = [] then
             Inr \<lparr>cs_state = CI_PENDING, cs_head_sha = head, cs_url = PNone,
                  cs_detail = Some (''no run yet for '' @ take 8 (py_str ftext head)),
                  cs_transient = False, cs_no_runs_at_tip = True\<rparr>
           else judge_runs ftext head first None None None at_head)
      | Some (PList (_ # _)) \<Rightarrow> Inr (unknown_status ''unexpected gh payload shape'')
      | Some _ \<Rightarrow> Inr (unknown_status ''no workflow runs on branch''))"

text \<open>The answer of \<open>gh\<close> is its return code, its text and the decoded text.\<close>

record gh_answer =
  gh_code :: int
  gh_out :: string
  gh_err :: string
  gh_json :: "pyval option"

definition tip_sha :: "gh_answer \<Rightarrow> string option" where
  "tip_sha ans = (if gh_code ans \<noteq> 0 \<or> py_strip (gh_out ans) = [] then None else Some (py_strip (gh_out ans)))"

definition check_repo_ci :: "(rat \<Rightarrow> string) \<Rightarrow> gh_answer \<Rightarrow> gh_answer \<Rightarrow> py_error + ci_status" where
  "check_repo_ci ftext commit runs =
     (if gh_code runs \<noteq> 0
      then Inr ((unknown_status (take DETAIL_LIMIT (py_strip (str_or (gh_err runs) (gh_out runs)))))
        \<lparr>cs_transient := True\<rparr>)
      else status_from_runs ftext (gh_json runs) (tip_sha commit))"

section \<open>The verdict\<close>

definition run_red :: "pydict \<Rightarrow> bool" where
  "run_red run \<longleftrightarrow> run_completed run \<and> (\<exists>c \<in> set RED_CONCLUSIONS. conclusion_of run = Inr c)"

definition run_green :: "pydict \<Rightarrow> bool" where
  "run_green run \<longleftrightarrow> run_completed run \<and> (\<exists>c \<in> set GREEN_CONCLUSIONS. conclusion_of run = Inr c)"

text \<open>Runs whose conclusion is text, as \<open>gh\<close> reports them.\<close>

definition readable_run :: "pydict \<Rightarrow> bool" where
  "readable_run run \<longleftrightarrow> (case conclusion_of run of Inr _ \<Rightarrow> True | Inl _ \<Rightarrow> False)"

definition judge_state :: "bool \<Rightarrow> bool \<Rightarrow> bool \<Rightarrow> ci_state" where
  "judge_state red waiting good =
     (if red then CI_RED else if waiting then CI_PENDING else if good then CI_GREEN else CI_UNKNOWN)"

definition verdict :: "pydict set \<Rightarrow> ci_state" where
  "verdict runs =
     judge_state (\<exists>r \<in> runs. run_red r) (\<exists>r \<in> runs. \<not> run_completed r) (\<exists>r \<in> runs. run_green r)"

lemma red_not_green: "c \<in> set RED_CONCLUSIONS \<Longrightarrow> c \<notin> set GREEN_CONCLUSIONS"
  by (auto simp: RED_CONCLUSIONS_def GREEN_CONCLUSIONS_def)

lemma first_or_None [simp]: "first_or seen x \<noteq> None" "first_or seen x = None \<longleftrightarrow> False"
  by (auto simp: first_or_def split: option.split)

lemma readable_runD: "readable_run r \<Longrightarrow> \<exists>c. conclusion_of r = Inr c"
  by (auto simp: readable_run_def split: sum.splits)

definition seen_ok :: "pydict option \<Rightarrow> bool" where
  "seen_ok seen \<longleftrightarrow> (case seen of None \<Rightarrow> True | Some r \<Rightarrow> readable_run r)"

lemma seen_ok_first_or: "seen_ok seen \<Longrightarrow> readable_run r \<Longrightarrow> seen_ok (first_or seen r)"
  by (auto simp: seen_ok_def first_or_def split: option.splits)

lemma judge_runs_verdict:
  "\<forall>r \<in> set runs. readable_run r \<Longrightarrow> readable_run first \<Longrightarrow> seen_ok green \<Longrightarrow> seen_ok other \<Longrightarrow>
   \<exists>st. judge_runs ftext head first pending green other runs = Inr st \<and> cs_head_sha st = head \<and>
     cs_state st = judge_state (\<exists>r \<in> set runs. run_red r)
       (pending \<noteq> None \<or> (\<exists>r \<in> set runs. \<not> run_completed r))
       (green \<noteq> None \<or> (\<exists>r \<in> set runs. run_green r))"
proof (induction runs arbitrary: pending green other)
  case Nil
  obtain g where g: "green = Some r \<longrightarrow> conclusion_of r = Inr (g r)" for r
    using Nil(3) readable_runD unfolding seen_ok_def by (metis option.simps(5))
  obtain h where h: "other = Some r \<longrightarrow> conclusion_of r = Inr (h r)" for r
    using Nil(4) readable_runD unfolding seen_ok_def by (metis option.simps(5))
  obtain f where f: "conclusion_of first = Inr f" using Nil(2) readable_runD by blast
  show ?case using g h f
    by (cases pending; cases green; cases other) (auto simp: run_status_at_def judge_state_def Let_def)
next
  case (Cons run runs)
  obtain c where c: "conclusion_of run = Inr c" using Cons.prems(1) readable_runD by force
  have rest: "\<forall>r \<in> set runs. readable_run r" and here: "readable_run run" using Cons.prems(1) by simp_all
  note IH = Cons.IH [OF rest Cons.prems(2)]
  show ?case
  proof (cases "run_completed run")
    case False
    then have "\<not> run_red run" "\<not> run_green run" by (simp_all add: run_red_def run_green_def)
    then show ?thesis using IH [OF Cons.prems(3,4), of "first_or pending run"] False
      by (simp add: judge_state_def del: not_None_eq)
  next
    case completed: True
    show ?thesis
    proof (cases "c \<in> set RED_CONCLUSIONS")
      case True
      then have "run_red run" using completed c by (auto simp: run_red_def)
      then show ?thesis using True completed c by (simp add: run_status_at_def judge_state_def)
    next
      case not_red: False
      then have no: "\<not> run_red run" using c by (auto simp: run_red_def)
      show ?thesis
      proof (cases "c \<in> set GREEN_CONCLUSIONS")
        case True
        then have "run_green run" using completed c by (auto simp: run_green_def)
        then show ?thesis
          using IH [OF seen_ok_first_or [OF Cons.prems(3) here] Cons.prems(4), of pending] True not_red no completed c
          by simp
      next
        case False
        then have "\<not> run_green run" using c by (auto simp: run_green_def)
        then show ?thesis
          using IH [OF Cons.prems(3) seen_ok_first_or [OF Cons.prems(4) here], of pending] False not_red no completed c
          by simp
      qed
    qed
  qed
qed

text \<open>The verdict on a commit is the one of its set of runs: red exactly when a completed run at the
  tip failed, pending when one has not completed or none has started, green when one succeeded. The
  order in which the runs are listed and the runs of other commits do not matter.\<close>

theorem ci_verdict_of_tip:
  assumes "tip \<noteq> []" "runs = PDict first # rest" "\<forall>r \<in> set (runs_at (PStr tip) runs). readable_run r"
    and "readable_run first"
  shows "\<exists>st. status_from_runs ftext (Some (PList runs)) (Some tip) = Inr st \<and> cs_head_sha st = PStr tip \<and>
    cs_state st = (if runs_at (PStr tip) runs = [] then CI_PENDING else verdict (set (runs_at (PStr tip) runs)))"
proof (cases "runs_at (PStr tip) runs = []")
  case True
  then show ?thesis using assms(1,2) by (simp add: status_from_runs_def head_of_def Let_def)
next
  case False
  then have "status_from_runs ftext (Some (PList runs)) (Some tip) =
      judge_runs ftext (PStr tip) first None None None (runs_at (PStr tip) runs)"
    using assms(1,2) by (simp add: status_from_runs_def head_of_def Let_def)
  then show ?thesis
    using judge_runs_verdict [OF assms(3,4), of None None ftext "PStr tip" None] False
    by (simp add: seen_ok_def verdict_def)
qed

definition sample_run :: "string \<Rightarrow> string \<Rightarrow> string \<Rightarrow> pyval" where
  "sample_run sha status conclusion =
     PDict [(''headSha'', PStr sha), (''status'', PStr status), (''conclusion'', PStr conclusion)]"

lemma ci_verdict_of_tip_witness:
  "\<exists>st. status_from_runs (\<lambda>_. []) (Some (PList [sample_run ''b'' ''completed'' ''success'',
      sample_run ''a'' ''completed'' ''failure'', sample_run ''b'' ''in_progress'' []])) (Some ''b'') = Inr st \<and>
     cs_state st = CI_PENDING"
proof -
  let ?runs = "[sample_run ''b'' ''completed'' ''success'', sample_run ''a'' ''completed'' ''failure'',
    sample_run ''b'' ''in_progress'' []]"
  have "\<forall>r \<in> set (runs_at (PStr ''b'') ?runs). readable_run r" by code_simp
  moreover have "readable_run [(''headSha'', PStr ''b''), (''status'', PStr ''completed''), (''conclusion'', PStr ''success'')]"
    by code_simp
  moreover have "?runs = PDict [(''headSha'', PStr ''b''), (''status'', PStr ''completed''), (''conclusion'', PStr ''success'')]
      # tl ?runs" by (simp add: sample_run_def)
  moreover have "(if runs_at (PStr ''b'') ?runs = [] then CI_PENDING else verdict (set (runs_at (PStr ''b'') ?runs))) =
      CI_PENDING" by code_simp
  ultimately show ?thesis
    using ci_verdict_of_tip [of "''b''" ?runs _ _ "\<lambda>_. []"] by (metis list.distinct(1))
qed

section \<open>The migration tables\<close>

definition run_status_from :: "string \<Rightarrow> run_status option" where
  "run_status_from s = find (\<lambda>r. run_status_value r = s)
     [RS_RUNNING, RS_COMPLETED, RS_BLOCKED, RS_ERROR, RS_SKIPPED, RS_ABORTED]"

definition merge_kind_text :: "string option \<Rightarrow> bool" where
  "merge_kind_text kind \<longleftrightarrow>
     (case kind of None \<Rightarrow> False
      | Some k \<Rightarrow> k \<in> {failure_kind_value MERGE_CONFLICT, failure_kind_value MERGE_REJECTED})"

definition fold_legacy ::
  "string option \<Rightarrow> string \<Rightarrow> string option \<Rightarrow> string option \<Rightarrow> string option \<Rightarrow> py_error + attempt_state" where
  "fold_legacy lease run phase kind worker =
     (if lease = Some ''cancelled'' then Inr AS_ABORTED
      else if lease = Some ''expired'' then Inr AS_EXPIRED
      else if lease = Some ''landed'' then Inr AS_LANDED
      else if lease = Some ''leased'' \<and> run = ''running''
        then Inr (if phase = Some ''landing'' then AS_LANDING else AS_RUNNING)
      else case run_status_from run of
          None \<Rightarrow> Inl (ValueError run)
        | Some RS_COMPLETED \<Rightarrow> Inr AS_NO_CHANGE
        | Some RS_BLOCKED \<Rightarrow> Inr AS_BLOCKED
        | Some RS_ERROR \<Rightarrow> Inr (if merge_kind_text kind then AS_CONFLICT else AS_FAILED)
        | Some RS_ABORTED \<Rightarrow> Inr AS_ABORTED
        | Some RS_SKIPPED \<Rightarrow> Inr AS_SKIPPED
        | Some RS_RUNNING \<Rightarrow>
            Inr (if lease = None \<and> worker = Some RESOLVE_WORKER_ID then AS_RESOLVING else AS_ABORTED))"

fun split_state :: "attempt_state \<Rightarrow> py_error + (string option \<times> string)" where
  "split_state AS_RUNNING = Inr (Some ''leased'', ''running'')"
| "split_state AS_LANDING = Inr (Some ''leased'', ''running'')"
| "split_state AS_LANDED = Inr (Some ''landed'', ''completed'')"
| "split_state AS_NO_CHANGE = Inr (Some ''released'', ''completed'')"
| "split_state AS_BLOCKED = Inr (Some ''released'', ''blocked'')"
| "split_state AS_FAILED = Inr (Some ''released'', ''error'')"
| "split_state AS_CONFLICT = Inr (Some ''released'', ''error'')"
| "split_state AS_SKIPPED = Inr (Some ''released'', ''skipped'')"
| "split_state AS_ABORTED = Inr (Some ''cancelled'', ''aborted'')"
| "split_state AS_EXPIRED = Inr (Some ''expired'', ''running'')"
| "split_state AS_RESOLVING = Inr (None, ''running'')"
| "split_state AS_CLAIMED = Inl (ValueError ''claimed is never stored; nothing to split'')"
| "split_state AS_SUBMITTED = Inl (ValueError ''submitted is never stored; nothing to split'')"

text \<open>The columns both migrations copy, as a stored row of that state has them.\<close>

definition columns_fit :: "attempt_state \<Rightarrow> string option \<Rightarrow> string option \<Rightarrow> string option \<Rightarrow> bool" where
  "columns_fit s phase kind worker \<longleftrightarrow>
     (s = AS_LANDING \<longleftrightarrow> phase = Some ''landing'') \<and> (s = AS_CONFLICT \<longleftrightarrow> merge_kind_text kind) \<and>
     (s = AS_RESOLVING \<longleftrightarrow> worker = Some RESOLVE_WORKER_ID)"

text \<open>Migrating an attempt down and up again gives the state it had, and migrating up and down gives
  the pair of statuses back for every pair the old schema wrote on purpose.\<close>

theorem legacy_tables_inverse:
  "(split_state s = Inr (lease, run) \<and> columns_fit s phase kind worker \<longrightarrow>
      fold_legacy lease run phase kind worker = Inr s) \<and>
   (fold_legacy lease run phase kind worker = Inr s \<and>
      (lease, run) \<in> {(Some ''leased'', ''running''), (Some ''landed'', ''completed''), (Some ''released'', ''completed''),
        (Some ''released'', ''blocked''), (Some ''released'', ''error''), (Some ''released'', ''skipped''),
        (Some ''cancelled'', ''aborted''), (Some ''expired'', ''running'')} \<longrightarrow>
      split_state s = Inr (lease, run))"
  by (cases s) (auto simp: fold_legacy_def columns_fit_def run_status_from_def split: if_splits)

lemma legacy_tables_inverse_witness:
  "fold_legacy (Some ''released'') ''error'' None (Some ''merge_conflict'') None = Inr AS_CONFLICT"
proof -
  have "split_state AS_CONFLICT = Inr (Some ''released'', ''error'')" by simp
  moreover have "columns_fit AS_CONFLICT None (Some ''merge_conflict'') None" by code_simp
  ultimately show ?thesis
    using legacy_tables_inverse [of AS_CONFLICT "Some ''released''" "''error''" None "Some ''merge_conflict''" None] by blast
qed

end
