(* ===== verification/Repo_Inbox.thy ===== *)
theory Repo_Inbox
  imports Manager Models
begin

text \<open>
  Importing the briefs a target repository publishes:
  \<^verbatim>\<open>src/nightshift/repo_tasks.py\<close> and
  \<^verbatim>\<open>src/nightshift/auto_import.py\<close>.

  The tree of the repository's main is the list of its files with their text. The JSON reader and
  writer of the standard library and the digest are inputs. The commit that removes the drained
  briefs is modelled by the tree it has.
\<close>

section \<open>Trees\<close>

type_synonym git_tree = "(string \<times> string) list"

record json =
  js_load :: "string \<Rightarrow> pyval option"
  js_dump :: "nat + string \<Rightarrow> pyval \<Rightarrow> string"

datatype tree_entry = Blob string | Subtree string

definition under :: "string \<Rightarrow> string \<Rightarrow> bool" where
  "under dir path \<longleftrightarrow> py_startswith path (dir @ ''/'')"

text \<open>\<open>git ls-tree <commit>:<dir>\<close>: a tree that does not exist has no entries.\<close>

definition tree_entries :: "git_tree \<Rightarrow> string \<Rightarrow> tree_entry list" where
  "tree_entries t dir =
     remdups (map (\<lambda>(path, _). case py_partition (CHR ''/'') (drop (length dir + 1) path) of
         (name, sub, _) \<Rightarrow> if sub then Subtree name else Blob name)
       (filter (\<lambda>(path, _). under dir path) t))"

definition REPO_TASKS_DIR :: string where "REPO_TASKS_DIR = ''.tasks''"
definition DOCS_TASKS_DIR :: string where "DOCS_TASKS_DIR = ''docs/tasks''"

definition is_md :: "string \<Rightarrow> bool" where
  "is_md name \<longleftrightarrow> py_endswith name ''.md''"

definition md_stem :: "string \<Rightarrow> string" where
  "md_stem name = take (length name - 3) name"

section \<open>Scanning\<close>

text \<open>The trees a queue drains, and whether a settings file may order them.\<close>

definition inboxes :: "string \<Rightarrow> (string \<times> bool) list" where
  "inboxes queue_name =
     concat (map (\<lambda>root. map (\<lambda>path. (path, root = REPO_TASKS_DIR)) [root, root @ ''/'' @ queue_name])
       [REPO_TASKS_DIR, DOCS_TASKS_DIR])"

definition host_inbox :: "string \<Rightarrow> string" where
  "host_inbox host = REPO_TASKS_DIR @ ''/'' @ host"

definition local_order :: "(rat \<Rightarrow> string) \<Rightarrow> json \<Rightarrow> git_tree \<Rightarrow> string \<Rightarrow> string list" where
  "local_order ftext js t inbox =
     (case dget t (inbox @ ''/config.json'') of
        None \<Rightarrow> []
      | Some raw \<Rightarrow> (case js_load js raw of
            Some (PDict d) \<Rightarrow> (case dget d ''order'' of Some (PList names) \<Rightarrow> map (py_str ftext) names | _ \<Rightarrow> [])
          | _ \<Rightarrow> []))"

definition md_blobs :: "git_tree \<Rightarrow> string \<Rightarrow> (string \<times> string) list" where
  "md_blobs t inbox =
     List.map_filter (\<lambda>e. case e of
        Blob name \<Rightarrow> if is_md name then Some (md_stem name, name) else None | Subtree _ \<Rightarrow> None)
       (tree_entries t inbox)"

definition scan_tree :: "(rat \<Rightarrow> string) \<Rightarrow> json \<Rightarrow> git_tree \<Rightarrow> string \<Rightarrow> bool \<Rightarrow> string list" where
  "scan_tree ftext js t inbox ordered =
     (let by_stem = md_blobs t inbox;
          local = (if ordered then local_order ftext js t inbox else [])
      in map (\<lambda>s. the (dget by_stem s)) (manual_order local (dkeys by_stem)))"

text \<open>No answer is a file that stays in the repository.\<close>

definition parse_brief :: "git_tree \<Rightarrow> string \<Rightarrow> string \<Rightarrow> py_error + (meta \<times> string) option" where
  "parse_brief t inbox name =
     (if py_startswith name ''_'' \<or> py_startswith name ''.'' then Inr None
      else case dget t (inbox @ ''/'' @ name) of
          None \<Rightarrow> Inr None
        | Some text \<Rightarrow> bind_result (brief_meta text) (\<lambda>m.
            Inr (if meta_flag m ''autosplit'' then None else Some (m, text))))"

definition list_repo_task_queues :: "git_tree option \<Rightarrow> string list" where
  "list_repo_task_queues base =
     (case base of
        None \<Rightarrow> []
      | Some t \<Rightarrow> sort (List.map_filter (\<lambda>e. case e of
            Subtree name \<Rightarrow> if is_valid_name name then Some name else None | Blob _ \<Rightarrow> None)
          (tree_entries t REPO_TASKS_DIR)))"

record repo_task =
  rt_name :: string
  rt_title :: scalar
  rt_source :: string
  rt_priority :: int
  rt_disabled :: bool
  rt_quarantined :: bool
  rt_duplicate :: bool
  rt_text :: string
  rt_replaces :: bool
  rt_started :: bool

definition inbox_entry ::
  "(string \<times> string) list \<Rightarrow> string set \<Rightarrow> string \<Rightarrow> string \<Rightarrow> meta \<Rightarrow> string \<Rightarrow> repo_task" where
  "inbox_entry briefs begun inbox name m text =
     (let stem = md_stem name;
          duplicate = (text \<in> set (map snd briefs));
          collides = (\<not> duplicate \<and> stem \<in> set (map fst briefs))
      in \<lparr>rt_name = stem, rt_title = resolve_title stem m, rt_source = inbox @ ''/'' @ name,
          rt_priority = task_priority m, rt_disabled = is_disabled m, rt_quarantined = is_quarantined m,
          rt_duplicate = duplicate, rt_text = text,
          rt_replaces = (collides \<and> stem \<notin> begun), rt_started = (collides \<and> stem \<in> begun)\<rparr>)"

definition scan_inbox ::
  "(rat \<Rightarrow> string) \<Rightarrow> json \<Rightarrow> git_tree \<Rightarrow> (string \<times> string) list \<Rightarrow> string set \<Rightarrow> string \<times> bool \<Rightarrow>
   py_error + repo_task list" where
  "scan_inbox ftext js t briefs begun inbox =
     bind_result
       (map_result (\<lambda>name. bind_result (parse_brief t (fst inbox) name) (\<lambda>parsed.
           Inr (case parsed of None \<Rightarrow> []
                | Some (m, text) \<Rightarrow> [inbox_entry briefs begun (fst inbox) name m text])))
         (scan_tree ftext js t (fst inbox) (snd inbox)))
       (\<lambda>entries. Inr (concat entries))"

definition scan_inboxes ::
  "(rat \<Rightarrow> string) \<Rightarrow> json \<Rightarrow> git_tree option \<Rightarrow> (string \<times> bool) list \<Rightarrow> content \<Rightarrow> string \<Rightarrow> string set \<Rightarrow>
   py_error + repo_task list" where
  "scan_inboxes ftext js base boxes ct dest_rel begun =
     (case base of
        None \<Rightarrow> Inr []
      | Some t \<Rightarrow> bind_result
          (map_result (scan_inbox ftext js t (qd_briefs (queue_at ct dest_rel)) begun) boxes)
          (\<lambda>entries. Inr (concat entries)))"

definition scan_repo_tasks ::
  "(rat \<Rightarrow> string) \<Rightarrow> json \<Rightarrow> git_tree option \<Rightarrow> string \<Rightarrow> content \<Rightarrow> string \<Rightarrow> string set \<Rightarrow>
   py_error + repo_task list" where
  "scan_repo_tasks ftext js base queue_name ct dest_rel begun =
     scan_inboxes ftext js base (inboxes queue_name) ct dest_rel begun"

definition scan_repo_inbox ::
  "(rat \<Rightarrow> string) \<Rightarrow> json \<Rightarrow> git_tree option \<Rightarrow> string \<Rightarrow> content \<Rightarrow> string \<Rightarrow> string set \<Rightarrow>
   py_error + repo_task list" where
  "scan_repo_inbox ftext js base inbox ct dest_rel begun =
     scan_inboxes ftext js base [(inbox, True)] ct dest_rel begun"

text \<open>The picked entries and the sources that are no longer offered.\<close>

definition select_repo_tasks :: "repo_task list \<Rightarrow> string list option \<Rightarrow> repo_task list \<times> string list" where
  "select_repo_tasks offered sources =
     (case sources of
        None \<Rightarrow> (offered, [])
      | Some wanted \<Rightarrow>
          let picked = filter (\<lambda>e. rt_source e \<in> set wanted) offered
          in (picked, sort (filter (\<lambda>s. s \<notin> rt_source ` set picked) (remdups wanted))))"

section \<open>Copying\<close>

record import_row =
  ir_task :: string
  ir_title :: scalar
  ir_replaced :: bool

text \<open>The content, the rows of the import, the names written and the names appended to the order.\<close>

type_synonym copy_state = "content \<times> import_row list \<times> string list \<times> string list"

definition copy_entry :: "string \<Rightarrow> repo_task \<Rightarrow> copy_state \<Rightarrow> copy_state" where
  "copy_entry rel e st =
     (case st of (ct, rows, written, appended) \<Rightarrow>
        if rt_duplicate e \<or> rt_started e then st
        else
          let replaced = (rt_replaces e \<and> rt_name e \<notin> set written \<and> brief_at ct rel (rt_name e) \<noteq> None);
              name = (if replaced then rt_name e
                      else unique_name (written @ stems_at ct rel) (rt_name e))
          in (write_brief ct rel name (rt_text e),
              rows @ [\<lparr>ir_task = name, ir_title = rt_title e, ir_replaced = replaced\<rparr>],
              name # written, if replaced then appended else appended @ [name]))"

definition copy_repo_tasks ::
  "(rat \<Rightarrow> string) \<Rightarrow> content \<Rightarrow> string \<Rightarrow> repo_task list \<Rightarrow> content \<times> import_row list" where
  "copy_repo_tasks ftext ct rel offered =
     (case fold (copy_entry rel) offered (ct, [], [], []) of (ct', rows, _, appended) \<Rightarrow>
        (if appended = [] then ct'
         else set_order ct' rel (load_order ftext (qd_config (queue_at ct' rel)) @ appended), rows))"

section \<open>Removing\<close>

type_synonym edits = "(string \<times> string) list"

text \<open>The text before the last slash, as \<open>rpartition\<close> cuts it.\<close>

definition parent_of :: "string \<Rightarrow> string" where
  "parent_of path =
     (if CHR ''/'' \<in> set path then rev (drop 1 (dropWhile (\<lambda>c. c \<noteq> CHR ''/'') (rev path))) else [])"

definition json_indent :: "string \<Rightarrow> nat + string" where
  "json_indent text =
     (case find (\<lambda>line. takeWhile is_space line \<noteq> [] \<and> py_strip line \<noteq> []) (py_splitlines text) of
        None \<Rightarrow> Inl 2
      | Some line \<Rightarrow> Inr (takeWhile is_space line))"

text \<open>The order file of an inbox without the stems that have no brief any more; no answer leaves the file alone.\<close>

definition pruned_order ::
  "(rat \<Rightarrow> string) \<Rightarrow> json \<Rightarrow> git_tree \<Rightarrow> string set \<Rightarrow> string \<Rightarrow> string option" where
  "pruned_order ftext js t gone inbox =
     (case dget t (inbox @ ''/config.json'') of
        None \<Rightarrow> None
      | Some raw \<Rightarrow> (case js_load js raw of
            Some (PDict d) \<Rightarrow> (case dget d ''order'' of
                Some (PList order) \<Rightarrow>
                  let surviving = map fst (filter (\<lambda>(_, name). inbox @ ''/'' @ name \<notin> gone) (md_blobs t inbox));
                      kept = filter (\<lambda>stem. py_str ftext stem \<in> set surviving) order;
                      body = js_dump js (json_indent raw) (PDict (dset d ''order'' (PList kept)))
                  in if kept = order then None
                     else Some (if raw \<noteq> [] \<and> last raw = newline then body @ [newline] else body)
              | _ \<Rightarrow> None)
          | _ \<Rightarrow> None))"

definition prune_inbox_orders ::
  "(rat \<Rightarrow> string) \<Rightarrow> json \<Rightarrow> git_tree \<Rightarrow> string list \<Rightarrow> string list \<Rightarrow> edits" where
  "prune_inbox_orders ftext js t sources deleted =
     List.map_filter (\<lambda>inbox.
         if inbox \<noteq> REPO_TASKS_DIR \<and> \<not> under REPO_TASKS_DIR inbox then None
         else map_option (Pair (inbox @ ''/config.json'')) (pruned_order ftext js t (set deleted) inbox))
       (sort (remdups (map parent_of sources)))"

definition disable_inbox_sources :: "git_tree \<Rightarrow> string list \<Rightarrow> string list \<Rightarrow> edits" where
  "disable_inbox_sources t sources deleted =
     List.map_filter (\<lambda>path. case dget t path of
         None \<Rightarrow> None
       | Some raw \<Rightarrow>
           let held = set_frontmatter_text raw [(''disabled'', Some (SBool True))]
           in if held = raw then None else Some (path, held))
       (sort (filter (\<lambda>s. s \<notin> set deleted) (remdups sources)))"

definition compose_rewrites :: "(string list \<Rightarrow> edits) list \<Rightarrow> string list \<Rightarrow> edits" where
  "compose_rewrites rewrites deleted = foldl (\<lambda>es rw. foldl (\<lambda>d (k, v). dset d k v) es (rw deleted)) [] rewrites"

text \<open>The files a path selects: itself, or what is below it.\<close>

definition selected :: "git_tree \<Rightarrow> string list \<Rightarrow> string list" where
  "selected t paths = filter (\<lambda>p. \<exists>s \<in> set paths. p = s \<or> under s p) (map fst t)"

text \<open>The tree of the commit that deletes and edits; no answer is the base itself.\<close>

definition delete_tree :: "git_tree \<Rightarrow> string list \<Rightarrow> (string list \<Rightarrow> edits) \<Rightarrow> git_tree option" where
  "delete_tree t paths rewrite =
     (let existing = selected t paths; es = rewrite existing in
      if existing = [] \<and> es = [] then None
      else Some (foldl (\<lambda>d (k, v). dset d k v) (filter (\<lambda>(p, _). p \<notin> set existing) t) es))"

definition removal_tree ::
  "(rat \<Rightarrow> string) \<Rightarrow> json \<Rightarrow> git_tree \<Rightarrow> string list \<Rightarrow> string list \<Rightarrow> git_tree option" where
  "removal_tree ftext js t sources disable =
     delete_tree t sources
       (compose_rewrites [prune_inbox_orders ftext js t sources, disable_inbox_sources t disable])"

text \<open>What the removal job answers, from the outcome of the land and of the push.\<close>

record removal =
  rm_removed :: bool
  rm_warning :: "string option"

definition removal_answer ::
  "string \<Rightarrow> string \<Rightarrow> bool \<Rightarrow> land_outcome \<Rightarrow> bool \<Rightarrow> bool \<Rightarrow> string \<Rightarrow> removal" where
  "removal_answer repo remote has_remote out main_known push_ok push_detail =
     (let removed = (lo_kind out \<in> LAND_SUCCESS_KINDS) in
      \<lparr>rm_removed = removed,
       rm_warning =
         (if \<not> removed
            then Some (''could not remove imported briefs from '' @ repo @ '': '' @ lo_detail out)
          else if has_remote \<and> main_known \<and> \<not> push_ok
            then Some (''imported-brief removal committed locally but the push to '' @ remote @
              '' failed: '' @ push_detail)
          else None)\<rparr>)"

section \<open>Auto-import settings\<close>

definition auto_import_repos :: "(rat \<Rightarrow> string) \<Rightarrow> content \<Rightarrow> string list" where
  "auto_import_repos ftext ct =
     (case dget (load_queue_config (ct_store_config ct)) ''auto_import_repos'' of
        Some (PList names) \<Rightarrow> sort (remdups (filter is_valid_repo_ref (map (py_str ftext) names)))
      | _ \<Rightarrow> [])"

definition set_auto_import :: "(rat \<Rightarrow> string) \<Rightarrow> content \<Rightarrow> string \<Rightarrow> bool \<Rightarrow> content \<times> string list" where
  "set_auto_import ftext ct repo enabled =
     (let current = auto_import_repos ftext ct;
          out = (if enabled then sort (remdups (repo # current)) else filter (\<lambda>r. r \<noteq> repo) current)
      in (ct\<lparr>ct_store_config := save_queue_config_value (ct_store_config ct) ''auto_import_repos''
              (Some (PList (map PStr out)))\<rparr>, out))"

definition host_queue_value :: "pydict \<Rightarrow> pyval option" where
  "host_queue_value config = (case dget config ''host_queue'' of Some PNone \<Rightarrow> None | v \<Rightarrow> v)"

definition configured_host_queue :: "(rat \<Rightarrow> string) \<Rightarrow> pydict \<Rightarrow> string \<Rightarrow> string option" where
  "configured_host_queue ftext config label =
     (case host_queue_value config of
        None \<Rightarrow> Some label
      | Some raw \<Rightarrow>
          let name = py_strip (py_str ftext raw)
          in if name = [] \<or> \<not> is_valid_name name then None else Some name)"

definition resolve_host_queue ::
  "(rat \<Rightarrow> string) \<Rightarrow> pydict \<Rightarrow> string \<Rightarrow> string list \<Rightarrow> string option" where
  "resolve_host_queue ftext config label available =
     (case configured_host_queue ftext config label of
        None \<Rightarrow> None
      | Some name \<Rightarrow>
          if host_queue_value config = None then (if name \<in> set available then Some name else None)
          else Some name)"

section \<open>Rewriting a published brief\<close>

definition normalized_priority :: "scalar option \<Rightarrow> int" where
  "normalized_priority raw =
     (case py_int (py_strip (scalar_str (case raw of None \<Rightarrow> SNone | Some v \<Rightarrow> v))) of
        None \<Rightarrow> DEFAULT_PRIORITY
      | Some v \<Rightarrow> if MIN_PRIORITY \<le> v \<and> v \<le> MAX_PRIORITY then v else DEFAULT_PRIORITY)"

definition normalized_model :: "meta \<Rightarrow> string \<Rightarrow> string" where
  "normalized_model m default_model =
     (let model = meta_text m ''model'' in
      if model = [] then default_model
      else if py_lower model \<in> {''auto'', ''max'', ''default''} \<or> is_qualified (Some model) then model
      else default_model)"

definition normalize_frontmatter :: "meta \<Rightarrow> string \<Rightarrow> string \<Rightarrow> string \<Rightarrow> meta" where
  "normalize_frontmatter m stem repo default_model =
     (let published = meta_text m ''repo'' in
      dset (dset (dset (dset m
        ''title'' (SStr (str_or (meta_text m ''title'') stem)))
        ''model'' (SStr (normalized_model m default_model)))
        ''priority'' (SInt (normalized_priority (dget m ''priority''))))
        ''repo'' (SStr (if is_valid_repo_ref published then published else repo)))"

definition imported_brief_text ::
  "(string \<Rightarrow> string) \<Rightarrow> string \<Rightarrow> string \<Rightarrow> string \<Rightarrow> string \<Rightarrow> string \<Rightarrow> py_error + string" where
  "imported_brief_text digest text stem repo source default_model =
     bind_result (if py_startswith text ''---'' then split_frontmatter text else Inr ([], text)) (\<lambda>(m, body).
       Inr (join_frontmatter
         (dset (dset (normalize_frontmatter m stem repo default_model)
            ''imported_from'' (SStr (repo @ ''/'' @ source)))
            ''imported_digest'' (SStr (digest text))) body))"

section \<open>The replay guard\<close>

definition pending_entry :: "meta \<Rightarrow> (string \<times> string) list \<Rightarrow> (string \<times> string) list" where
  "pending_entry m out =
     (case dget m ''imported_from'' of
        None \<Rightarrow> out
      | Some v \<Rightarrow>
          if \<not> scalar_truthy v then out
          else dset out (scalar_str v)
            (case dget m ''imported_digest'' of
               None \<Rightarrow> [] | Some d \<Rightarrow> if scalar_truthy d then scalar_str d else []))"

fun pending_from :: "(string \<times> string) list \<Rightarrow> string list \<Rightarrow> py_error + (string \<times> string) list" where
  "pending_from out [] = Inr out"
| "pending_from out (text # texts) =
     (if \<not> py_startswith text ''---'' then pending_from out texts
      else bind_result (split_frontmatter text) (\<lambda>(m, _). pending_from (pending_entry m out) texts))"

definition pending_imports :: "content \<Rightarrow> string \<Rightarrow> py_error + (string \<times> string) list" where
  "pending_imports ct rel =
     pending_from [] (map snd (sort_key (\<lambda>(stem, _). stem @ ''.md'') (qd_briefs (queue_at ct rel))))"

definition is_replay :: "(string \<Rightarrow> string) \<Rightarrow> (string \<times> string) list \<Rightarrow> string \<Rightarrow> string \<Rightarrow> bool" where
  "is_replay digest pending provenance text =
     (case dget pending provenance of None \<Rightarrow> False | Some d \<Rightarrow> d = [] \<or> d = digest text)"

end
