(* ===== verification/Git_Shell.thy ===== *)
theory Git_Shell
  imports Manager
begin

text \<open>
  Git as the program sees it (\<^verbatim>\<open>src/nightshift/git/\<close>: runner.py, refs.py, worktrees.py,
  transport.py, store.py): every operation is a sequence of commands whose arguments the code
  builds and whose answers it reads.

  The host (git, gh, the file system and the monotonic clock) is a parameter: a function from a
  command and a world to the next world and the answer, or the exception of a command that could
  not be run at all (no such program, no such directory). The state of an operation is that world
  and the trace of the commands that ran with their answers.
\<close>

section \<open>Commands\<close>

definition tab :: char where "tab = CHR 0x09"

definition quoted :: "string \<Rightarrow> string" where
  "quoted s = CHR 0x27 # s @ [CHR 0x27]"

text \<open>A git command runs in the target repository, with a scratch index, or in another directory.\<close>

datatype cmd =
    Run_Git "string list"
  | Git_Index "string list"
  | Git_In string "string list"
  | Gh "string list"
  | Exists string
  | Write_Scratch string string
  | Make_Dirs string
  | Link string string
  | Drop_Lock_Marker

record git_result =
  gr_code :: int
  gr_out :: string
  gr_err :: string

record 'g host =
  ho_run :: "cmd \<Rightarrow> 'g \<Rightarrow> 'g \<times> (py_error + git_result)"
  ho_clock :: "'g \<Rightarrow> rat"
  ho_workspace :: string
  ho_repo :: string
  ho_scratch :: string

record 'g shell =
  sh_world :: 'g
  sh_trace :: "(cmd \<times> git_result) list"
  sh_last_sync :: "rat option"

definition gr_ok :: "git_result \<Rightarrow> bool" where
  "gr_ok r \<longleftrightarrow> gr_code r = 0"

definition gr_detail :: "git_result \<Rightarrow> string" where
  "gr_detail r = take 300 (py_strip (str_or (gr_err r) (gr_out r)))"

definition command :: "'g host \<Rightarrow> cmd \<Rightarrow> ('g shell, git_result) action" where
  "command h c s =
     (case ho_run h c (sh_world s) of
        (w, Inl e) \<Rightarrow> (s\<lparr>sh_world := w\<rparr>, Inl e)
      | (w, Inr r) \<Rightarrow> (s\<lparr>sh_world := w, sh_trace := sh_trace s @ [(c, r)]\<rparr>, Inr r))"

text \<open>\<open>with suppress(OSError)\<close>.\<close>

fun is_os_error :: "py_error \<Rightarrow> bool" where
  "is_os_error (OSError m) = True"
| "is_os_error (FileNotFoundError m) = True"
| "is_os_error (FileExistsError m) = True"
| "is_os_error _ = False"

definition suppress_os :: "('s, 'a) action \<Rightarrow> ('s, unit) action" where
  "suppress_os a s =
     (case a s of
        (s', Inl e) \<Rightarrow> (s', if is_os_error e then Inr () else Inl e)
      | (s', Inr x) \<Rightarrow> (s', Inr ()))"

abbreviation git_run :: "'g host \<Rightarrow> string list \<Rightarrow> ('g shell, git_result) action" where
  "git_run h args \<equiv> command h (Run_Git args)"

definition stripped_out :: "git_result \<Rightarrow> string option" where
  "stripped_out r = (if gr_ok r then Some (py_strip (gr_out r)) else None)"

definition git_out :: "'g host \<Rightarrow> string list \<Rightarrow> ('g shell, string option) action" where
  "git_out h args = act_bind (git_run h args) (\<lambda>r. answer (stripped_out r))"

definition git_ok :: "'g host \<Rightarrow> string list \<Rightarrow> ('g shell, bool) action" where
  "git_ok h args = act_bind (git_run h args) (\<lambda>r. answer (gr_ok r))"

definition git_must :: "'g host \<Rightarrow> string list \<Rightarrow> ('g shell, git_result) action" where
  "git_must h args = act_bind (git_run h args) (\<lambda>r.
     if gr_ok r then answer r
     else compute (\<lambda>_. Inl (GitError (''git '' @ py_join '' '' args @ '' failed (exit '' @ int_text (gr_code r) @
       ''): '' @ gr_detail r))))"

definition path_exists :: "'g host \<Rightarrow> string \<Rightarrow> ('g shell, bool) action" where
  "path_exists h path = act_bind (command h (Exists path)) (\<lambda>r. answer (gr_ok r))"

definition clock :: "'g host \<Rightarrow> ('g shell, rat) action" where
  "clock h = compute (\<lambda>s. Inr (ho_clock h (sh_world s)))"

section \<open>Names\<close>

definition safe_component :: "string \<Rightarrow> string \<Rightarrow> py_error + string" where
  "safe_component kind value =
     (if value = [] \<or> value \<in> {''.'', ''..''} \<or>
         (\<exists>c \<in> set value. c = CHR ''/'' \<or> c = CHR 0x5C \<or> c = CHR 0x00)
      then Inl (ValueError (''unsafe '' @ kind @ '' name '' @ str_repr value)) else Inr value)"

definition queue_slug :: "string option \<Rightarrow> py_error + string" where
  "queue_slug queue = safe_component ''queue'' (opt_or queue ''main'')"

definition worktree_branch :: "string \<Rightarrow> string option \<Rightarrow> py_error + string" where
  "worktree_branch task queue =
     bind_result (queue_slug queue) (\<lambda>q. bind_result (safe_component ''task'' task) (\<lambda>t.
       Inr (''task-local/'' @ q @ ''/'' @ t)))"

text \<open>The workspace is an absolute, normalised path, so that a path of safe components is too.\<close>

definition worktree_dir :: "string \<Rightarrow> string \<Rightarrow> string \<Rightarrow> string option \<Rightarrow> py_error + string" where
  "worktree_dir workspace repo task queue =
     (let root = workspace @ ''/.worktrees'' in
      bind_result (safe_component ''repo'' repo) (\<lambda>r.
      bind_result (queue_slug queue) (\<lambda>q.
      bind_result (safe_component ''task'' task) (\<lambda>t.
        let path = root @ ''/'' @ r @ ''/task-local-'' @ q @ ''-'' @ t in
        if py_startswith path (root @ ''/'') then Inr path
        else Inl (ValueError (''worktree path escapes '' @ str_repr root @ '': '' @ str_repr path))))))"

abbreviation task_dir :: "'g host \<Rightarrow> string \<Rightarrow> string option \<Rightarrow> py_error + string" where
  "task_dir h task queue \<equiv> worktree_dir (ho_workspace h) (ho_repo h) task queue"

definition WIP_REF_PREFIX :: string where "WIP_REF_PREFIX = ''nightshift-wip''"

fun substring_of :: "string \<Rightarrow> string \<Rightarrow> bool" where
  "substring_of p [] \<longleftrightarrow> p = []"
| "substring_of p (c # s) \<longleftrightarrow> py_startswith (c # s) p \<or> substring_of p s"

definition ref_char :: "char \<Rightarrow> bool" where
  "ref_char c \<longleftrightarrow> (let n = of_char c :: nat in
     is_digit c \<or> c \<in> {CHR ''.'', CHR ''_'', CHR ''/'', CHR ''-''} \<or> n \<in> {65..90} \<or> n \<in> {97..122})"

definition ref_head :: "char \<Rightarrow> bool" where
  "ref_head c \<longleftrightarrow> ref_char c \<and> c \<notin> {CHR ''.'', CHR ''_'', CHR ''/'', CHR ''-''}"

text \<open>The namespace of the work-in-progress refs; a value that is not a text is written as one first.\<close>

definition normalize_wip_prefix :: "(rat \<Rightarrow> string) \<Rightarrow> pyval \<Rightarrow> py_error + string" where
  "normalize_wip_prefix ftext value =
     (let text = py_strip_of (\<lambda>c. c = CHR ''/'') (py_strip (if truthy value then py_str ftext value else []))
      in if text = [] then Inl (ValueError ''branch prefix must not be empty'')
         else if py_startswith text ''-'' \<or> substring_of ''..'' text \<or> substring_of ''//'' text
           then Inl (ValueError (''invalid branch prefix '' @ str_repr text))
         else if ref_head (hd text) \<and> list_all ref_char (tl text) then Inr text
         else Inl (ValueError (''invalid branch prefix '' @ str_repr text @
           '': use letters, digits, '' @ quoted ''.'' @ '', '' @ quoted ''_'' @ '', '' @ quoted ''-'' @ '', or '' @ quoted ''/'' @
           '' (no spaces, leading '' @ quoted ''-'' @ '', '' @ quoted ''..'' @ '', or '' @ quoted ''//'' @ '')'')))"

definition wip_ref :: "string \<Rightarrow> string option \<Rightarrow> string \<Rightarrow> py_error + string" where
  "wip_ref task queue prefix =
     bind_result (queue_slug queue) (\<lambda>q.
       Inr (''refs/heads/'' @ str_or prefix WIP_REF_PREFIX @ ''/'' @ q @ ''/'' @ task))"

section \<open>Refs\<close>

definition MAIN_REF :: string where "MAIN_REF = ''refs/heads/main''"

abbreviation rev_parse :: "'g host \<Rightarrow> string \<Rightarrow> ('g shell, string option) action" where
  "rev_parse h ref \<equiv> git_out h [''rev-parse'', ref]"

definition is_ancestor :: "'g host \<Rightarrow> string \<Rightarrow> string \<Rightarrow> ('g shell, bool) action" where
  "is_ancestor h a d = git_ok h [''merge-base'', ''--is-ancestor'', a, d]"

definition branch_exists :: "'g host \<Rightarrow> string \<Rightarrow> ('g shell, bool) action" where
  "branch_exists h branch = git_ok h [''rev-parse'', ''--verify'', ''--quiet'', ''refs/heads/'' @ branch]"

text \<open>\<open>a or b\<close> on two queries.\<close>

definition either_out :: "('g shell, string option) action \<Rightarrow> ('g shell, string option) action \<Rightarrow>
    ('g shell, string option) action" where
  "either_out a b = act_bind a (\<lambda>x. if nonempty x then answer x else b)"

definition main_sha :: "'g host \<Rightarrow> ('g shell, string option) action" where
  "main_sha h = either_out (rev_parse h MAIN_REF) (rev_parse h ''HEAD'')"

definition update_main_cas :: "'g host \<Rightarrow> string \<Rightarrow> string \<Rightarrow> ('g shell, git_result) action" where
  "update_main_cas h new old = git_run h [''update-ref'', MAIN_REF, new, old]"

record replay_result =
  rr_sha :: "string option"
  rr_conflict :: bool
  rr_detail :: string

definition unreplayed :: "bool \<Rightarrow> string \<Rightarrow> replay_result" where
  "unreplayed conflict detail = \<lparr>rr_sha = None, rr_conflict = conflict, rr_detail = detail\<rparr>"

definition replayed_at :: "string \<Rightarrow> replay_result" where
  "replayed_at sha = \<lparr>rr_sha = Some sha, rr_conflict = False, rr_detail = []\<rparr>"

definition visible_lines :: "string \<Rightarrow> string list" where
  "visible_lines s = filter (\<lambda>l. py_strip l \<noteq> []) (py_splitlines s)"

definition py_rstrip :: "string \<Rightarrow> string" where
  "py_rstrip s = rev (dropWhile is_space (rev s))"

definition with_trailer :: "string \<Rightarrow> string option \<Rightarrow> string" where
  "with_trailer message extra =
     (case extra of None \<Rightarrow> message
      | Some t \<Rightarrow> if t \<noteq> [] \<and> \<not> substring_of t message then py_rstrip message @ [newline, newline] @ t else message)"

definition replay_commit ::
  "'g host \<Rightarrow> string \<Rightarrow> string \<Rightarrow> string option \<Rightarrow> ('g shell, replay_result) action" where
  "replay_commit h base sha extra =
     act_bind (git_out h [''rev-parse'', sha @ ''^'']) (\<lambda>parent_opt.
     case parent_opt of
       None \<Rightarrow> answer (unreplayed False (''commit '' @ take 12 sha @ '' has no parent to replay from''))
     | Some parent \<Rightarrow>
         act_bind (git_run h [''merge-tree'', ''--write-tree'', ''--merge-base='' @ parent, base, sha]) (\<lambda>merged.
         if \<not> gr_ok merged then answer (unreplayed True (str_or (gr_detail merged) ''merge conflict''))
         else case visible_lines (gr_out merged) of
           [] \<Rightarrow> answer (unreplayed False ''merge-tree produced no tree'')
         | line # _ \<Rightarrow>
             act_bind (git_out h [''rev-parse'', base @ ''^{tree}'']) (\<lambda>base_tree.
             if Some (py_strip line) = base_tree then answer (replayed_at base)
             else
               act_bind (git_out h [''log'', ''-1'', ''--format=%B'', sha]) (\<lambda>message.
               act_bind (git_run h [''commit-tree'', py_strip line, ''-p'', base, ''-m'',
                  with_trailer (opt_or message (''replay of '' @ take 12 sha)) extra]) (\<lambda>commit.
               if \<not> gr_ok commit then answer (unreplayed False (''commit failed:'' @ [newline] @ gr_detail commit))
               else answer (replayed_at (py_strip (gr_out commit)))))))) "

record checkout_state =
  co_sha :: "string option"
  co_ref :: "string option"

definition on_main :: "checkout_state \<Rightarrow> bool" where
  "on_main c \<longleftrightarrow> co_ref c = Some MAIN_REF"

definition read_checkout :: "'g host \<Rightarrow> ('g shell, checkout_state) action" where
  "read_checkout h =
     act_bind (git_out h [''rev-parse'', ''HEAD'']) (\<lambda>sha.
     act_bind (git_out h [''symbolic-ref'', ''-q'', ''HEAD'']) (\<lambda>ref.
       answer \<lparr>co_sha = sha, co_ref = ref\<rparr>))"

definition advance_checkout :: "'g host \<Rightarrow> checkout_state \<Rightarrow> string \<Rightarrow> ('g shell, bool) action" where
  "advance_checkout h checkout new =
     (case co_sha checkout of
        None \<Rightarrow> answer True
      | Some old \<Rightarrow>
          if old = new then answer True
          else if co_ref checkout \<noteq> None \<and> \<not> on_main checkout then answer True
          else if co_ref checkout = None then answer False
          else
            act_bind (git_run h [''read-tree'', ''-m'', ''-u'', old, new]) (\<lambda>advance.
            if gr_ok advance then answer True
            else act_bind (git_run h [''update-ref'', ''--no-deref'', ''HEAD'', old]) (\<lambda>_. answer False)))"

end
