(* ===== verification/Reconciler.thy ===== *)
theory Reconciler
  imports Worker_Submit Ci_Status Repo_Inbox Git_Shell
begin

text \<open>
  The periodic loop that notices and repairs (\<^verbatim>\<open>src/nightshift/manager/reconciler.py\<close>):
  recovery of interrupted lands, deadline expiry, the CI state of the repositories and the fix
  tasks it spawns, auto-import, holds, worker liveness and the collection of abandoned branches.

  What a pass reads from outside (the clock, the answers of git and of the gh process, the land job)
  is the record \<open>tick\<close>; a duty is an action on the record \<open>reconciler\<close>.
\<close>

section \<open>State and inputs\<close>

record reconciler =
  rc_mgr :: manager
  rc_ci_checked :: "(string \<times> rat) list"
  rc_misses :: "(string \<times> nat) list"
  rc_import_checked :: "(string \<times> rat) list"
  rc_announced :: "(string \<times> string list) list"
  rc_warned :: "string option list"
  rc_jobs :: "(string \<times> string option \<times> string) list"

text \<open>The arguments of a recovered land job.\<close>

record land_args =
  la_repo :: string
  la_task :: string
  la_title :: string
  la_queue :: "string option"
  la_base_ref :: "string option"
  la_mode :: landing_mode
  la_automerge :: bool
  la_draft :: bool
  la_branch_ref :: "string option"
  la_head_sha :: "string option"
  la_attempt_id :: string

record tick =
  ti_io :: io
  ti_wall :: rat
  ti_ci_interval :: rat
  ti_import_interval :: rat
  ti_trailer :: "string \<Rightarrow> string \<Rightarrow> string option"
  ti_branch_exists :: "string \<Rightarrow> string \<Rightarrow> bool"
  ti_land :: "land_args \<Rightarrow> string + land_outcome"
  ti_trailer_after :: "string \<Rightarrow> string \<Rightarrow> string option"
  ti_gh :: "string \<Rightarrow> gh_answer \<times> gh_answer"
  ti_json :: json
  ti_digest :: "string \<Rightarrow> string"
  ti_main_tree :: "string \<Rightarrow> git_tree option"
  ti_removal :: "string \<Rightarrow> string list \<Rightarrow> string list \<Rightarrow> removal"
  ti_worktree_repos :: "string list option"
  ti_task_refs :: "string \<Rightarrow> string option"

definition on_mgr :: "(manager, 'a) action \<Rightarrow> (reconciler, 'a) action" where
  "on_mgr a rc = (case a (rc_mgr rc) of (m, x) \<Rightarrow> (rc\<lparr>rc_mgr := m\<rparr>, x))"

text \<open>A loop over a list taken when it starts.\<close>

definition each_do :: "('x \<Rightarrow> ('s, unit) action) \<Rightarrow> 'x list \<Rightarrow> ('s, unit) action" where
  "each_do f xs = act_bind (act_each (\<lambda>x. act_bind (f x) (\<lambda>_. answer [()])) xs) (\<lambda>_. answer ())"

section \<open>Applying a transition\<close>

text \<open>Frontmatter effects are dropped; the answer is false when the swap is refused.\<close>

definition apply_and_broadcast :: "tick \<Rightarrow> transition \<Rightarrow> attempt_state \<Rightarrow> (manager, bool) action" where
  "apply_and_broadcast ti t expected =
     act_bind (run_db (apply_transition (io_now (ti_io ti)) t expected None)) (\<lambda>ids. answer (ids \<noteq> None))"

definition ref_of_row :: "attempt_row \<Rightarrow> attempt_ref" where
  "ref_of_row r = \<lparr>ref_id = at_id r, ref_queue = queue_from_label (Some (at_queue r)), ref_task = at_task r\<rparr>"

section \<open>Deadlines\<close>

definition expired :: "time \<Rightarrow> attempt_row \<Rightarrow> bool" where
  "expired now r \<longleftrightarrow> at_state r = AS_RUNNING \<and>
     (case at_deadline_at r of None \<Rightarrow> False | Some dl \<Rightarrow> dl < now)"

definition expire_deadlines :: "tick \<Rightarrow> (manager, unit) action" where
  "expire_deadlines ti mg =
     each_do (\<lambda>r. if expired (io_now (ti_io ti)) r
         then act_bind (apply_and_broadcast ti (on_deadline (ref_of_row r)) AS_RUNNING) (\<lambda>_. answer ())
         else answer ())
       (live_attempts (mg_db mg)) mg"

section \<open>Interrupted lands\<close>

definition PR_UNVERIFIED_NOTE :: string where
  "PR_UNVERIFIED_NOTE = ''; PR not verified - check the remote''"

text \<open>The landing mode the land of a task runs under.\<close>

definition task_mode :: "env \<Rightarrow> manager \<Rightarrow> string \<Rightarrow> string option \<Rightarrow> py_error + landing_mode" where
  "task_mode env mg task queue =
     bind_result (task_meta (mg_content mg) task queue) (\<lambda>m. Inr (effective_mode env m))"

definition task_evergreen :: "manager \<Rightarrow> string \<Rightarrow> string option \<Rightarrow> py_error + bool" where
  "task_evergreen mg task queue =
     bind_result (task_meta (mg_content mg) task queue) (\<lambda>m.
       task_is_evergreen m task (resolve_config (mg_content mg) (tasks_rel queue)))"

definition recover_landed :: "env \<Rightarrow> tick \<Rightarrow> attempt_ref \<Rightarrow> string \<Rightarrow> (manager, unit) action" where
  "recover_landed env ti ref sha =
     act_bind (compute (\<lambda>mg. task_mode env mg (ref_task ref) (ref_queue ref))) (\<lambda>mode.
     act_bind (apply_and_broadcast ti
        (on_land_recovered ref sha (if mode = LM_PR then Some PR_UNVERIFIED_NOTE else None)) AS_LANDING) (\<lambda>applied.
       if \<not> applied then answer ()
       else act_bind (compute (\<lambda>mg. task_evergreen mg (ref_task ref) (ref_queue ref))) (\<lambda>evergreen.
         if evergreen then answer () else suppress (drop_brief_job env (ref_queue ref) (ref_task ref)))))"

definition land_args_of :: "attempt_row \<Rightarrow> attempt_ref \<Rightarrow> string \<Rightarrow> landing_mode \<Rightarrow> meta \<Rightarrow> land_args" where
  "land_args_of r ref repo mode m =
     \<lparr>la_repo = repo, la_task = ref_task ref,
      la_title = opt_or (attempt_text r ''title'') (ref_task ref), la_queue = ref_queue ref,
      la_base_ref = attempt_text r ''base_ref'', la_mode = mode,
      la_automerge = (case dget m ''automerge'' of None \<Rightarrow> True | Some v \<Rightarrow> scalar_truthy v),
      la_draft = meta_flag m ''draft'', la_branch_ref = attempt_text r ''branch_ref'',
      la_head_sha = attempt_text r ''head_sha'', la_attempt_id = ref_id ref\<rparr>"

text \<open>Recovery never escalates: no watch, no pause, no resolve, no split.\<close>

definition recovery_policy :: "env \<Rightarrow> manager \<Rightarrow> attempt_ref \<Rightarrow> bool \<Rightarrow> landing_mode \<Rightarrow> submit_policy" where
  "recovery_policy env mg ref evergreen mode =
     default_submit_policy
       \<lparr>sp_retry := \<lparr>quarantine_after = cf_quarantine_threshold (en_cfg env), immediate_quarantine = False,
          rp_backoff = default_backoff\<lparr>base_seconds := cf_retry_backoff_seconds (en_cfg env)\<rparr>\<rparr>,
        sp_attempts_without_progress :=
          (case get_task_state (ref_queue ref) (ref_task ref) (mg_db mg) of None \<Rightarrow> 0 | Some r \<Rightarrow> tk_attempts r),
        sp_evergreen := evergreen, sp_pr_mode := (mode = LM_PR)\<rparr>"

definition recovered_outcome :: "attempt_row \<Rightarrow> outcome" where
  "recovered_outcome r = (new_outcome RS_COMPLETED)
     \<lparr>o_landable := True, o_result_line := ''recovered: landed (manager restarted mid-land)'',
      o_model := attempt_text r ''model'', tel_validate_cmd := attempt_text r ''validate_cmd'',
      tel_worktree := attempt_text r ''worktree''\<rparr>"

definition finish_recovered_land ::
  "env \<Rightarrow> tick \<Rightarrow> attempt_row \<Rightarrow> attempt_ref \<Rightarrow> landing_mode \<Rightarrow> land_outcome \<Rightarrow> (manager, unit) action" where
  "finish_recovered_land env ti r ref mode result =
     act_bind (compute (\<lambda>mg. task_evergreen mg (ref_task ref) (ref_queue ref))) (\<lambda>evergreen.
     act_bind (compute (\<lambda>mg. on_land_result ref (recovered_outcome r) result
        (recovery_policy env mg ref evergreen mode))) (\<lambda>t.
     act_bind (apply_and_broadcast ti t AS_LANDING) (\<lambda>applied.
       if applied \<and> te_drop_brief (t_effects t)
       then suppress (drop_brief_job env (ref_queue ref) (ref_task ref)) else answer ())))"

definition reenqueue_land ::
  "env \<Rightarrow> tick \<Rightarrow> attempt_row \<Rightarrow> attempt_ref \<Rightarrow> string \<Rightarrow> (manager, unit) action" where
  "reenqueue_land env ti r ref repo =
     act_bind (compute (\<lambda>mg. task_meta (mg_content mg) (ref_task ref) (ref_queue ref))) (\<lambda>m.
       let mode = effective_mode env m;
           result = (case ti_land ti (land_args_of r ref repo mode m) of
               Inl exc \<Rightarrow> (new_land_outcome LK_TRANSPORT_FAILED)\<lparr>lo_detail := ''recovery land job crashed: '' @ exc\<rparr>
             | Inr out \<Rightarrow> out)
       in case (if lo_kind result = LK_CONFLICT then ti_trailer_after ti repo (ref_id ref) else None) of
            Some sha \<Rightarrow> if sha = [] then finish_recovered_land env ti r ref mode result
                       else recover_landed env ti ref sha
          | None \<Rightarrow> finish_recovered_land env ti r ref mode result)"

datatype rung = Provably_Landed string | Rerun | Park

text \<open>The rung of the ladder an interrupted land is recovered on.\<close>

definition recovery_rung :: "env \<Rightarrow> tick \<Rightarrow> attempt_row \<Rightarrow> py_error + rung" where
  "recovery_rung env ti r =
     (let repo = opt_or (attempt_text r ''repo'') []; ref = ref_of_row r;
          repo_ok = (repo \<noteq> [] \<and> en_repo_available env repo);
          sha = (if repo_ok then opt_or (ti_trailer ti repo (ref_id ref)) [] else [])
      in if sha \<noteq> [] then Inr (Provably_Landed sha)
         else if \<not> repo_ok then Inr Park
         else bind_result (worktree_branch (ref_task ref) (ref_queue ref)) (\<lambda>branch.
           Inr (if ti_branch_exists ti repo branch \<or>
                   nonempty (attempt_text r ''branch_ref'') \<and> cf_rendezvous_remote (en_cfg env) \<noteq> []
                then Rerun else Park)))"

definition recover_attempt :: "env \<Rightarrow> tick \<Rightarrow> attempt_row \<Rightarrow> (manager, unit) action" where
  "recover_attempt env ti r =
     act_bind (compute (\<lambda>_. recovery_rung env ti r)) (\<lambda>rung.
       case rung of
         Provably_Landed sha \<Rightarrow> recover_landed env ti (ref_of_row r) sha
       | Rerun \<Rightarrow> reenqueue_land env ti r (ref_of_row r) (opt_or (attempt_text r ''repo'') [])
       | Park \<Rightarrow> act_bind (apply_and_broadcast ti (on_land_interrupted (ref_of_row r)) AS_LANDING)
           (\<lambda>_. answer ()))"

definition recover_interrupted_lands :: "env \<Rightarrow> tick \<Rightarrow> (manager, unit) action" where
  "recover_interrupted_lands env ti mg =
     each_do (recover_attempt env ti) (filter (\<lambda>r. at_state r = AS_LANDING) (live_attempts (mg_db mg))) mg"

section \<open>The CI state of the repositories\<close>

text \<open>The repositories watched by a queue, in the order they are met; a setting that is no text
  makes the path operator raise.\<close>

definition watch_entry ::
  "env \<Rightarrow> content \<Rightarrow> string option \<Rightarrow> (string \<times> string option list) list \<Rightarrow>
   py_error + (string \<times> string option list) list" where
  "watch_entry env ct q out =
     (let config = load_queue_config (qd_config (queue_at ct (tasks_rel q))) in
      if \<not> ci_monitoring_enabled config then Inr out
      else case dget config ''repo'' of
          None \<Rightarrow> Inr out
        | Some v \<Rightarrow> if \<not> truthy v then Inr out else (case v of
              PStr repo \<Rightarrow> Inr (if en_repo_available env repo
                then dset out repo (List.insert q (dget_or out repo [])) else out)
            | _ \<Rightarrow> Inl TypeError))"

fun watched_from ::
  "env \<Rightarrow> content \<Rightarrow> (string \<times> string option list) list \<Rightarrow> string option list \<Rightarrow>
   py_error + (string \<times> string option list) list" where
  "watched_from env ct out [] = Inr out"
| "watched_from env ct out (q # qs) =
     bind_result (watch_entry env ct q out) (\<lambda>out'. watched_from env ct out' qs)"

definition watched_repos :: "env \<Rightarrow> content \<Rightarrow> py_error + (string \<times> string option list) list" where
  "watched_repos env ct = watched_from env ct [] (all_queues ct)"

definition CI_TRANSIENT_TOLERANCE :: nat where "CI_TRANSIENT_TOLERANCE = 3"

text \<open>A value of the payload as the text column stores it.\<close>

fun text_column :: "pyval \<Rightarrow> py_error + string option" where
  "text_column PNone = Inr None"
| "text_column (PStr s) = Inr (Some s)"
| "text_column (PInt i) = Inr (Some (int_text i))"
| "text_column v = Inl TypeError"

text \<open>An answer that says nothing about the branch.\<close>

definition suspect_status :: "ci_status \<Rightarrow> repo_ci_row option \<Rightarrow> bool" where
  "suspect_status st recorded \<longleftrightarrow> cs_transient st \<or>
     cs_no_runs_at_tip st \<and>
       (case recorded of None \<Rightarrow> False
        | Some r \<Rightarrow> pstr (ci_head_sha r) = cs_head_sha st \<and> ci_state r \<in> {''red'', ''green''})"

definition ci_fix_brief_missing :: "content \<Rightarrow> string option \<Rightarrow> string option list \<Rightarrow> bool" where
  "ci_fix_brief_missing ct fix_task queues \<longleftrightarrow>
     nonempty fix_task \<and> \<not> (\<exists>q \<in> set queues. brief_at ct (tasks_rel q) (opt_or fix_task []) \<noteq> None)"

text \<open>\<open>(sha or "unknown")\<close>, which is then sliced and written into the title.\<close>

definition sha_text :: "pyval \<Rightarrow> py_error + string" where
  "sha_text v = (case v of PStr s \<Rightarrow> Inr (str_or s ''unknown'')
     | _ \<Rightarrow> if truthy v then Inl TypeError else Inr ''unknown'')"

definition fix_title :: "string \<Rightarrow> string \<Rightarrow> string" where
  "fix_title repo sha = ''fix ci: '' @ repo @ '' main is red at '' @ take 8 sha"

definition fix_body :: "string \<Rightarrow> string \<Rightarrow> string \<Rightarrow> string \<Rightarrow> string" where
  "fix_body repo sha detail url =
     (let tick = CHR 0x60; nl = [newline] in
      ''/fix CI is failing on '' @ [tick] @ repo @ [tick] @ '' '' @ [tick] @ ''main'' @ [tick] @ ''.'' @ nl @ nl @
      ''- **Failing commit:** '' @ [tick] @ sha @ [tick] @ nl @
      ''- **Detail:** '' @ detail @ nl @ ''- **Run:** '' @ url @ nl @ nl @
      ''Reproduce the failure locally, find the root cause, fix it, and '' @
      ''verify against the same check that failed. Nightshift is holding '' @
      ''this queue'' @ [CHR 0x27] @ ''s other tasks until '' @ [tick] @ ''main'' @ [tick] @ '' is green again.'' @ nl)"

text \<open>The queue the fix goes to: the first that is not paused, else the first.\<close>

definition fix_queue :: "db \<Rightarrow> string option list \<Rightarrow> string option" where
  "fix_queue d queues =
     (let ordered = sort_key (\<lambda>q. (q \<noteq> None, opt_or q [])) queues;
          unpaused = filter (\<lambda>q. \<not> dhas (queue_pauses d) (queue_label q)) ordered
      in case unpaused @ ordered of [] \<Rightarrow> None | q # _ \<Rightarrow> q)"

definition tag_ci_resolution :: "content \<Rightarrow> string \<Rightarrow> string \<Rightarrow> string \<Rightarrow> content \<times> (py_error + unit)" where
  "tag_ci_resolution ct rel task repo =
     (case brief_at ct rel task of
        None \<Rightarrow> (ct, Inl (FileNotFoundError task))
      | Some text \<Rightarrow> (case split_frontmatter text of
            Inl e \<Rightarrow> (ct, Inl e)
          | Inr (m, body) \<Rightarrow> (write_brief ct rel task (join_frontmatter
                (dset (dset m ''kind'' (SStr ''ci_resolution'')) ''repo'' (SStr repo)) body), Inr ())))"

definition create_fix_brief ::
  "env \<Rightarrow> string \<Rightarrow> string \<Rightarrow> string \<Rightarrow> (manager, string) action" where
  "create_fix_brief env title body rel =
     run_content (\<lambda>ct. case create_task (en_ftext env) ct rel title body None of
         Inl e \<Rightarrow> (ct, Inl e) | Inr (name, ct') \<Rightarrow> (ct', Inr name))"

text \<open>An exception the code catches becomes a value.\<close>

definition caught :: "('s, 'a) action \<Rightarrow> ('s, py_error + 'a) action" where
  "caught a s = (case a s of (s', r) \<Rightarrow> (s', Inr r))"

definition spawn_ci_fix ::
  "env \<Rightarrow> tick \<Rightarrow> string \<Rightarrow> ci_status \<Rightarrow> string option list \<Rightarrow> (manager, unit) action" where
  "spawn_ci_fix env ti repo st queues =
     act_bind (compute (\<lambda>mg. open_ci_fix_briefs (mg_content mg) repo queues)) (\<lambda>open_fixes.
     act_bind (compute (\<lambda>_. sha_text (cs_head_sha st))) (\<lambda>sha.
     let fix_sha = (if truthy (cs_head_sha st) then sha else []) in
     case open_fixes of
       (existing, _) # _ \<Rightarrow> on_db (set_repo_ci_fix repo existing fix_sha)
     | [] \<Rightarrow>
         act_bind (compute (\<lambda>mg. Inr (fix_queue (mg_db mg) queues))) (\<lambda>target.
         act_bind (caught (create_fix_brief env (fix_title repo sha)
            (fix_body repo sha (str_or (opt_or (cs_detail st) []) ''no detail reported'')
              (case cs_url st of PStr u \<Rightarrow> str_or u ''no run URL reported''
               | v \<Rightarrow> if truthy v then py_str (en_ftext env) v else ''no run URL reported''))
            (tasks_rel target))) (\<lambda>created.
           case created of
             Inl (FileExistsError existing) \<Rightarrow> on_db (set_repo_ci_fix repo existing fix_sha)
           | Inl (ValueError _) \<Rightarrow> answer ()
           | Inl e \<Rightarrow> compute (\<lambda>_. Inl e)
           | Inr name \<Rightarrow>
               act_bind (run_content (\<lambda>ct. tag_ci_resolution ct (tasks_rel target) name repo)) (\<lambda>_.
               act_bind (on_db (set_repo_ci_fix repo name fix_sha)) (\<lambda>_.
                 emit (io_now (ti_io ti)) (event ''repo_ci_fix_spawned'' None target (Some name)
                   (Some [(''repo'', PStr repo), (''head_sha'', cs_head_sha st)]))))))))"

text \<open>A green main retires the fix briefs; one with a live attempt is announced once.\<close>

definition retired_event :: "string \<Rightarrow> string option \<Rightarrow> string \<Rightarrow> bool \<Rightarrow> transition_event" where
  "retired_event repo queue task dropped =
     event ''repo_ci_fix_retired'' None queue (Some task)
       (Some ([(''repo'', PStr repo), (''dropped'', PBool dropped)] @
          (if dropped then [] else [(''reason'', PStr ''attempt in flight'')])))"

definition set_announced :: "string \<Rightarrow> (string list \<Rightarrow> string list) \<Rightarrow> (reconciler, unit) action" where
  "set_announced repo f =
     change (\<lambda>rc. rc\<lparr>rc_announced := dset (rc_announced rc) repo (f (dget_or (rc_announced rc) repo []))\<rparr>)"

definition retire_one ::
  "env \<Rightarrow> tick \<Rightarrow> string \<Rightarrow> string list \<Rightarrow> string \<times> string option \<Rightarrow> (reconciler, unit) action" where
  "retire_one env ti repo live tq =
     (case tq of (task, queue) \<Rightarrow>
        if task \<in> set live then
          act_bind (compute (\<lambda>rc. Inr (task \<in> set (dget_or (rc_announced rc) repo [])))) (\<lambda>known.
            if known then answer ()
            else act_bind (set_announced repo (List.insert task)) (\<lambda>_.
              on_mgr (emit (io_now (ti_io ti)) (retired_event repo queue task False))))
        else
          act_bind (on_mgr (suppress (drop_brief_job env queue task))) (\<lambda>_.
          act_bind (set_announced repo (removeAll task)) (\<lambda>_.
            on_mgr (emit (io_now (ti_io ti)) (retired_event repo queue task True)))))"

definition retire_ci_fixes ::
  "env \<Rightarrow> tick \<Rightarrow> string \<Rightarrow> string option list \<Rightarrow> (reconciler, unit) action" where
  "retire_ci_fixes env ti repo queues =
     act_bind (compute (\<lambda>rc. open_ci_fix_briefs (mg_content (rc_mgr rc)) repo queues)) (\<lambda>outstanding.
     act_bind (set_announced repo (filter (\<lambda>t. t \<in> fst ` set outstanding))) (\<lambda>_.
     act_bind (compute (\<lambda>rc. Inr (map at_task (live_attempts (mg_db (rc_mgr rc)))))) (\<lambda>live.
       each_do (retire_one env ti repo live) outstanding)))"

definition state_changed ::
  "env \<Rightarrow> tick \<Rightarrow> string \<Rightarrow> ci_status \<Rightarrow> string option list \<Rightarrow> repo_ci_row option \<Rightarrow> string option \<Rightarrow>
   (manager, unit) action" where
  "state_changed env ti repo st queues recorded previous =
     (if previous = Some (ci_state_value (cs_state st)) then
        act_bind (compute (\<lambda>mg. Inr (cs_state st = CI_RED \<and>
            ci_fix_brief_missing (mg_content mg) (Option.bind recorded ci_fix_task) queues))) (\<lambda>refile.
          if refile then
            act_bind (on_db (set_repo_ci_fix repo [] [])) (\<lambda>_. spawn_ci_fix env ti repo st queues)
          else answer ())
      else
        act_bind (emit (io_now (ti_io ti)) (event ''repo_ci'' None None None
          (Some [(''repo'', PStr repo), (''state'', PStr (ci_state_value (cs_state st))),
            (''previous'', pstr previous), (''head_sha'', cs_head_sha st), (''url'', cs_url st),
            (''detail'', pstr (cs_detail st))]))) (\<lambda>_.
          if cs_state st = CI_RED then spawn_ci_fix env ti repo st queues else answer ()))"

text \<open>The verdict is held back while it is suspect and has not been missed often enough.\<close>

definition count_miss :: "string \<Rightarrow> bool \<Rightarrow> (reconciler, bool) action" where
  "count_miss repo suspect =
     (if suspect then
        act_bind (compute (\<lambda>rc. Inr (dget_or (rc_misses rc) repo 0 + 1))) (\<lambda>misses.
        act_bind (change (\<lambda>rc. rc\<lparr>rc_misses := dset (rc_misses rc) repo misses\<rparr>)) (\<lambda>_.
          answer (misses < CI_TRANSIENT_TOLERANCE)))
      else act_bind (change (\<lambda>rc. rc\<lparr>rc_misses := ddel (rc_misses rc) repo\<rparr>)) (\<lambda>_. answer False))"

definition ci_args_of :: "ci_status \<Rightarrow> py_error + ci_args" where
  "ci_args_of st =
     bind_result (text_column (cs_head_sha st)) (\<lambda>head.
     bind_result (text_column (cs_url st)) (\<lambda>url.
       Inr \<lparr>ca_state = ci_state_value (cs_state st), ca_head_sha = head, ca_url = url,
         ca_detail = cs_detail st\<rparr>))"

definition throttled :: "rat \<Rightarrow> rat \<Rightarrow> rat option \<Rightarrow> bool" where
  "throttled interval now last_check \<longleftrightarrow>
     (case last_check of None \<Rightarrow> False | Some t \<Rightarrow> interval > 0 \<and> now - t < interval)"

definition refresh_repo ::
  "env \<Rightarrow> tick \<Rightarrow> string \<times> string option list \<Rightarrow> (reconciler, unit) action" where
  "refresh_repo env ti entry =
     (case entry of (repo, queues) \<Rightarrow>
      act_bind (compute (\<lambda>rc. Inr (throttled (ti_ci_interval ti) (ti_wall ti) (dget (rc_ci_checked rc) repo)))) (\<lambda>skip.
      if skip then answer ()
      else
        act_bind (change (\<lambda>rc. rc\<lparr>rc_ci_checked := dset (rc_ci_checked rc) repo (ti_wall ti)\<rparr>)) (\<lambda>_.
        act_bind (compute (\<lambda>_. check_repo_ci (en_ftext env) (fst (ti_gh ti repo)) (snd (ti_gh ti repo)))) (\<lambda>st.
        act_bind (compute (\<lambda>rc. Inr (find_ci repo (mg_db (rc_mgr rc))))) (\<lambda>recorded.
        act_bind (count_miss repo (suspect_status st recorded)) (\<lambda>held.
        if held then answer ()
        else
          act_bind (compute (\<lambda>_. ci_args_of st)) (\<lambda>args.
          act_bind (on_mgr (run_db (\<lambda>d. Inr (set_repo_ci (io_now (ti_io ti)) repo args d)))) (\<lambda>previous.
          act_bind (if cs_state st = CI_GREEN then retire_ci_fixes env ti repo queues else answer ()) (\<lambda>_.
            on_mgr (state_changed env ti repo st queues recorded previous)))))))))) "

definition refresh_repo_ci :: "env \<Rightarrow> tick \<Rightarrow> (reconciler, unit) action" where
  "refresh_repo_ci env ti =
     act_bind (compute (\<lambda>rc. watched_repos env (mg_content (rc_mgr rc)))) (\<lambda>watched.
       each_do (refresh_repo env ti) (sort_key fst watched))"

section \<open>Auto-import\<close>

definition fresh_imports ::
  "(string \<Rightarrow> string) \<Rightarrow> string \<Rightarrow> (string \<times> string) list \<Rightarrow> repo_task list \<Rightarrow> repo_task list" where
  "fresh_imports digest repo pending offered =
     filter (\<lambda>e. \<not> rt_quarantined e \<and> \<not> (rt_started e \<and> rt_disabled e) \<and>
        \<not> is_replay digest pending (repo @ ''/'' @ rt_source e) (rt_text e)) offered"

definition rewrite_imports ::
  "env \<Rightarrow> (string \<Rightarrow> string) \<Rightarrow> string \<Rightarrow> repo_task list \<Rightarrow> py_error + repo_task list" where
  "rewrite_imports env digest repo offered =
     map_result (\<lambda>e. bind_result
         (imported_brief_text digest (rt_text e) (rt_name e) repo (rt_source e) (cf_default_model (en_cfg env)))
         (\<lambda>text. Inr (e\<lparr>rt_text := text\<rparr>))) offered"

text \<open>The task each source became; none for a duplicate or a refusal.\<close>

definition import_stems :: "repo_task list \<Rightarrow> import_row list \<Rightarrow> (string \<times> string option) list" where
  "import_stems offered rows =
     foldl (\<lambda>d (k, v). dset d k (Some v)) (foldl (\<lambda>d e. dset d (rt_source e) None) [] offered)
       (zip (map rt_source (filter (\<lambda>e. \<not> (rt_duplicate e \<or> rt_started e)) offered)) (map ir_task rows))"

definition imported_event ::
  "string option \<Rightarrow> string \<Rightarrow> string \<Rightarrow> removal \<Rightarrow> (string \<times> string option) list \<Rightarrow> repo_task \<Rightarrow> transition_event" where
  "imported_event queue repo host rm stems e =
     (let task = dget_or stems (rt_source e) None in
      event ''queue_changed'' None queue task
        (Some [(''auto_imported'', pstr task), (''repo'', PStr repo), (''host_queue'', PStr host),
          (''source'', PStr (rt_source e)), (''removed'', PBool (rm_removed rm)),
          (''warning'', pstr (rm_warning rm)), (''refused'', PBool (rt_started e)),
          (''replaced'', PBool (rt_replaces e))]))"

definition auto_import_batch ::
  "env \<Rightarrow> tick \<Rightarrow> string option \<Rightarrow> string \<Rightarrow> string \<Rightarrow> repo_task list \<Rightarrow> (manager, unit) action" where
  "auto_import_batch env ti queue repo host offered =
     act_bind (compute (\<lambda>_. rewrite_imports env (ti_digest ti) repo offered)) (\<lambda>rewritten.
     act_bind (run_content (\<lambda>ct. case copy_repo_tasks (en_ftext env) ct (tasks_rel queue) rewritten of
        (ct', rows) \<Rightarrow> (ct', Inr rows))) (\<lambda>rows.
     let rm = ti_removal ti repo (map rt_source (filter (\<lambda>e. \<not> rt_started e) offered))
                (map rt_source (filter rt_started offered))
     in each_do (\<lambda>e. emit (io_now (ti_io ti)) (imported_event queue repo host rm (import_stems offered rows) e)) offered))"

text \<open>The repository a queue imports from, when its switch is on.\<close>

definition import_repo :: "content \<Rightarrow> string list \<Rightarrow> string option \<Rightarrow> py_error + string option" where
  "import_repo ct enabled queue =
     (case dget (load_queue_config (qd_config (queue_at ct (tasks_rel queue)))) ''repo'' of
        Some (PStr repo) \<Rightarrow> Inr (if repo \<noteq> [] \<and> repo \<in> set enabled then Some repo else None)
      | Some (PList (x # xs)) \<Rightarrow> Inl TypeError
      | Some (PDict (x # xs)) \<Rightarrow> Inl TypeError
      | _ \<Rightarrow> Inr None)"

definition scan_host ::
  "env \<Rightarrow> tick \<Rightarrow> manager \<Rightarrow> string option \<Rightarrow> string \<Rightarrow> string \<Rightarrow> py_error + repo_task list" where
  "scan_host env ti mg queue repo host =
     bind_result (scan_repo_inbox (en_ftext env) (ti_json ti) (ti_main_tree ti repo) (host_inbox host)
        (mg_content mg) (tasks_rel queue) (started_tasks queue (mg_db mg))) (\<lambda>offered.
       if offered = [] then Inr []
       else bind_result (pending_imports (mg_content mg) (tasks_rel queue)) (\<lambda>pending.
         Inr (fresh_imports (ti_digest ti) repo pending offered)))"

definition auto_import_queue :: "env \<Rightarrow> tick \<Rightarrow> string list \<Rightarrow> string option \<Rightarrow> (reconciler, unit) action" where
  "auto_import_queue env ti enabled queue =
     act_bind (compute (\<lambda>rc. import_repo (mg_content (rc_mgr rc)) enabled queue)) (\<lambda>repo_opt.
     case repo_opt of
       None \<Rightarrow> answer ()
     | Some repo \<Rightarrow>
         act_bind (compute (\<lambda>rc. Inr (throttled (ti_import_interval ti) (ti_wall ti)
            (dget (rc_import_checked rc) (queue_label queue)) \<or> \<not> en_repo_available env repo))) (\<lambda>skip.
         if skip then answer ()
         else
           act_bind (change (\<lambda>rc. rc\<lparr>rc_import_checked :=
              dset (rc_import_checked rc) (queue_label queue) (ti_wall ti)\<rparr>)) (\<lambda>_.
           act_bind (compute (\<lambda>rc. Inr (resolve_host_queue (en_ftext env)
              (load_queue_config (qd_config (queue_at (mg_content (rc_mgr rc)) (tasks_rel queue))))
              (queue_label queue) (list_repo_task_queues (ti_main_tree ti repo))))) (\<lambda>host_opt.
           case host_opt of
             None \<Rightarrow> answer ()
           | Some host \<Rightarrow>
               act_bind (compute (\<lambda>rc. scan_host env ti (rc_mgr rc) queue repo host)) (\<lambda>fresh.
                 if fresh = [] then answer ()
                 else on_mgr (auto_import_batch env ti queue repo host fresh))))))"

definition auto_import_host_queues :: "env \<Rightarrow> tick \<Rightarrow> (reconciler, unit) action" where
  "auto_import_host_queues env ti =
     act_bind (compute (\<lambda>rc. Inr (auto_import_repos (en_ftext env) (mg_content (rc_mgr rc))))) (\<lambda>enabled.
       if enabled = [] then answer ()
       else act_bind (compute (\<lambda>rc. Inr (all_queues (mg_content (rc_mgr rc))))) (\<lambda>queues.
         each_do (auto_import_queue env ti enabled) queues))"

section \<open>Holds\<close>

definition live_workers :: "db \<Rightarrow> worker_row list" where
  "live_workers d = filter (\<lambda>w. wk_status w \<noteq> ''offline'') (db_workers d)"

definition available_models :: "db \<Rightarrow> string list" where
  "available_models d = concat (map wk_models (live_workers d))"

definition available_mcps :: "db \<Rightarrow> string list" where
  "available_mcps d = concat (map wk_mcps (live_workers d))"

definition online_worker_ids :: "db \<Rightarrow> string list" where
  "online_worker_ids d = map wk_id (live_workers d)"

definition models_for_queue :: "db \<Rightarrow> string \<Rightarrow> string list" where
  "models_for_queue d label = ''auto'' # ''max'' #
     sort (remdups (concat (map wk_models (filter (\<lambda>w. case wk_queues w of
        None \<Rightarrow> True | Some qs \<Rightarrow> label \<in> set qs) (live_workers d)))))"

text \<open>The candidates of the queues that are not paused, with the model of the frontmatter.\<close>

definition hold_candidates :: "env \<Rightarrow> manager \<Rightarrow> py_error + candidate_map" where
  "hold_candidates env mg =
     map_result (\<lambda>q. bind_result (build_candidates (en_ftext env) (queue_at (mg_content mg) (tasks_rel q)) q
         (cf_default_model (en_cfg env)) None) (\<lambda>cs. Inr (q, cs))) (open_queues mg [])"

definition repo_hold :: "task_hold_kind \<Rightarrow> string \<Rightarrow> hold_args" where
  "repo_hold k repo = \<lparr>ha_state = k, ha_reason = None, ha_repo = Some repo, ha_retry_eligible = False\<rparr>"

definition hold_state :: "task_key \<Rightarrow> db \<Rightarrow> task_hold_kind option" where
  "hold_state k d = Option.bind (get_task_state (fst k) (snd k) d) tk_state"

definition block_task :: "tick \<Rightarrow> task_key \<Rightarrow> string \<Rightarrow> (manager, unit) action" where
  "block_task ti k reason mg =
     (if hold_state k (mg_db mg) = Some TH_BLOCKED then (mg, Inr ())
      else act_bind (on_db (set_task_state (io_now (ti_io ti)) (fst k) (snd k) (blocked_hold (Some reason)))) (\<lambda>_.
        emit (io_now (ti_io ti)) (event ''task_blocked'' None (fst k) (Some (snd k))
          (Some [(''reason'', PStr reason)]))) mg)"

definition warn_repo :: "tick \<Rightarrow> task_candidate \<Rightarrow> string \<Rightarrow> (reconciler, unit) action" where
  "warn_repo ti c repo rc =
     (if tc_queue c \<in> set (rc_warned rc) then (rc, Inr ())
      else act_bind (change (\<lambda>rc. rc\<lparr>rc_warned := tc_queue c # rc_warned rc\<rparr>)) (\<lambda>_.
        on_mgr (emit (io_now (ti_io ti)) (event ''repo_unavailable'' None (tc_queue c) (Some (tc_task c))
          (Some [(''repo'', PStr repo)])))) rc)"

definition hold_for_repo :: "env \<Rightarrow> tick \<Rightarrow> string list \<Rightarrow> repo_ci_row list \<Rightarrow> task_candidate \<Rightarrow> (reconciler, unit) action" where
  "hold_for_repo env ti red rows c =
     (let k = cand_key c; now = io_now (ti_io ti); repo = opt_or (tc_repo c) [] in
      case tc_repo_error c of
        Some err \<Rightarrow> on_mgr (block_task ti k err)
      | None \<Rightarrow>
          if repo = [] then answer ()
          else if \<not> en_repo_available env repo then
            act_bind (on_mgr (on_db (\<lambda>d. if hold_state k d = Some TH_REPO_UNAVAILABLE then d
              else set_task_state now (fst k) (snd k) (repo_hold TH_REPO_UNAVAILABLE repo) d))) (\<lambda>_.
              warn_repo ti c repo)
          else if repo \<in> set red then
            act_bind (compute (\<lambda>rc. is_ci_fix_task (mg_content (rc_mgr rc)) rows c)) (\<lambda>fix.
              if fix then answer ()
              else on_mgr (on_db (\<lambda>d. if hold_state k d = None
                then set_task_state now (fst k) (snd k) (repo_hold TH_CI_RED repo) d else d)))
          else answer ())"

definition hold_unroutable :: "tick \<Rightarrow> task_key set \<Rightarrow> task_candidate \<times> string \<Rightarrow> (reconciler, unit) action" where
  "hold_unroutable ti quarantined p =
     (if cand_key (fst p) \<in> quarantined then answer () else on_mgr (block_task ti (cand_key (fst p)) (snd p)))"

definition clear_row :: "tick \<Rightarrow> task_row \<Rightarrow> (reconciler, unit) action" where
  "clear_row ti r = on_mgr (on_db (clear_task_state (io_now (ti_io ti))
     (queue_from_label (Some (tk_queue r))) (tk_task r) False))"

text \<open>The holds this loop owns that no longer apply.\<close>

definition repo_is_back :: "env \<Rightarrow> task_row \<Rightarrow> bool" where
  "repo_is_back env r \<longleftrightarrow> nonempty (tk_repo r) \<and> en_repo_available env (opt_or (tk_repo r) [])"

definition repo_not_red :: "string list \<Rightarrow> task_row \<Rightarrow> bool" where
  "repo_not_red red r \<longleftrightarrow> \<not> nonempty (tk_repo r) \<or> opt_or (tk_repo r) [] \<notin> set red"

definition routable_again :: "task_key set \<Rightarrow> task_key set \<Rightarrow> task_row \<Rightarrow> bool" where
  "routable_again candidates stuck r \<longleftrightarrow>
     (\<exists>p \<in> set UNROUTABLE_REASON_PREFIXES. py_startswith (opt_or (tk_blocked_reason r) []) p) \<and>
     row_key (tk_queue r) (tk_task r) \<in> candidates \<and> row_key (tk_queue r) (tk_task r) \<notin> stuck"

definition clear_rows :: "tick \<Rightarrow> task_hold_kind \<Rightarrow> (task_row \<Rightarrow> bool) \<Rightarrow> (reconciler, unit) action" where
  "clear_rows ti k p rc =
     each_do (clear_row ti) (filter p (tasks_in_state k (mg_db (rc_mgr rc)))) rc"

definition stuck_candidates :: "manager \<Rightarrow> candidate_map \<Rightarrow> (task_candidate \<times> string) list" where
  "stuck_candidates mg by_queue =
     unroutable by_queue (available_models (mg_db mg)) (available_mcps (mg_db mg))
       (queue_dedication (mg_db mg)) (online_worker_ids (mg_db mg))"

definition red_watched :: "db \<Rightarrow> (string \<times> string option list) list \<Rightarrow> string list" where
  "red_watched d watched = map ci_repo (filter (\<lambda>r. ci_state r = ''red'' \<and> dhas watched (ci_repo r)) (db_repo_ci d))"

definition reconcile_holds :: "env \<Rightarrow> tick \<Rightarrow> (reconciler, unit) action" where
  "reconcile_holds env ti =
     act_bind (compute (\<lambda>rc. hold_candidates env (rc_mgr rc))) (\<lambda>by_queue.
     act_bind (compute (\<lambda>rc. held_tasks (mg_content (rc_mgr rc)) ''quarantined'')) (\<lambda>quarantined.
     act_bind (compute (\<lambda>rc. watched_repos env (mg_content (rc_mgr rc)))) (\<lambda>watched.
     act_bind (compute (\<lambda>rc. Inr (db_repo_ci (mg_db (rc_mgr rc))))) (\<lambda>rows.
     act_bind (compute (\<lambda>rc. Inr (red_watched (mg_db (rc_mgr rc)) watched))) (\<lambda>red.
     act_bind (compute (\<lambda>rc. Inr (stuck_candidates (rc_mgr rc) by_queue))) (\<lambda>stuck.
     act_bind (each_do (hold_unroutable ti (set quarantined)) stuck) (\<lambda>_.
     act_bind (each_do (hold_for_repo env ti red rows)
        (filter (\<lambda>c. cand_key c \<notin> set quarantined) (all_candidates by_queue))) (\<lambda>_.
     act_bind (clear_rows ti TH_REPO_UNAVAILABLE (repo_is_back env)) (\<lambda>_.
     act_bind (clear_rows ti TH_CI_RED (repo_not_red red)) (\<lambda>_.
       clear_rows ti TH_BLOCKED (routable_again (set (map cand_key (all_candidates by_queue)))
         (set (map (cand_key \<circ> fst) stuck)))))))))))))"

section \<open>Workers, resolves and abandoned branches\<close>

definition mark_workers_offline :: "env \<Rightarrow> tick \<Rightarrow> (manager, unit) action" where
  "mark_workers_offline env ti =
     on_db (\<lambda>d. fst (expire_stale_workers (io_now (ti_io ti)) (cf_stale_seconds (en_cfg env)) d))"

definition reap_resolves :: "tick \<Rightarrow> (manager, unit) action" where
  "reap_resolves ti = change (\<lambda>mg. mg\<lparr>mg_resolves := reap_finished_resolves (ti_io ti) (mg_resolves mg)\<rparr>)"

text \<open>The branches \<open>task-local/<queue>/<task>\<close> of a listing.\<close>

definition task_local_branch :: "string \<Rightarrow> (string option \<times> string) option" where
  "task_local_branch line =
     (case py_partition (CHR ''/'') (py_strip line) of (p0, s0, rest0) \<Rightarrow>
        case py_partition (CHR ''/'') rest0 of (slug, s1, task) \<Rightarrow>
          if s0 \<and> s1 \<and> p0 = ''task-local''
          then Some (if slug = ''main'' then None else Some slug, task) else None)"

definition task_local_branches :: "string option \<Rightarrow> (string option \<times> string) list" where
  "task_local_branches listing =
     (case listing of None \<Rightarrow> [] | Some text \<Rightarrow> List.map_filter task_local_branch (py_splitlines text))"

definition abandoned :: "manager \<Rightarrow> task_key list \<Rightarrow> task_key \<Rightarrow> bool" where
  "abandoned mg leased k \<longleftrightarrow> k \<notin> set leased \<and> brief_at (mg_content mg) (tasks_rel (fst k)) (snd k) = None \<and>
     hold_state k (mg_db mg) = None"

definition gc_repo :: "tick \<Rightarrow> task_key list \<Rightarrow> string \<Rightarrow> (reconciler, unit) action" where
  "gc_repo ti leased repo =
     each_do (\<lambda>k rc. if abandoned (rc_mgr rc) leased k
         then change (\<lambda>rc. rc\<lparr>rc_jobs := rc_jobs rc @ [(repo, fst k, snd k)]\<rparr>) rc else answer () rc)
       (task_local_branches (ti_task_refs ti repo))"

definition gc_terminal_artifacts :: "env \<Rightarrow> tick \<Rightarrow> (reconciler, unit) action" where
  "gc_terminal_artifacts env ti =
     act_bind (compute (\<lambda>rc. Inr (leased_keys (mg_db (rc_mgr rc))))) (\<lambda>leased.
       case ti_worktree_repos ti of
         None \<Rightarrow> answer ()
       | Some dirs \<Rightarrow> each_do (gc_repo ti leased) (filter (en_repo_available env) (sort dirs)))"

section \<open>The loop\<close>

text \<open>A duty that raises is logged and the next one runs.\<close>

definition run_duty :: "(reconciler, unit) action \<Rightarrow> (reconciler, unit) action" where
  "run_duty a = suppress a"

definition duties :: "env \<Rightarrow> tick \<Rightarrow> (reconciler, unit) action list" where
  "duties env ti =
     [on_mgr (expire_deadlines ti), refresh_repo_ci env ti, auto_import_host_queues env ti,
      reconcile_holds env ti, on_mgr (mark_workers_offline env ti), on_mgr (reap_resolves ti),
      gc_terminal_artifacts env ti]"

definition reconcile_once :: "env \<Rightarrow> tick \<Rightarrow> (reconciler, unit) action" where
  "reconcile_once env ti = each_do run_duty (duties env ti)"

definition startup :: "env \<Rightarrow> tick \<Rightarrow> (reconciler, unit) action" where
  "startup env ti =
     act_bind (run_duty (on_mgr (recover_interrupted_lands env ti))) (\<lambda>_. reconcile_once env ti)"

end
