(* ===== verification/Reconciler_Facts.thy ===== *)
theory Reconciler_Facts
  imports Reconciler Worker_Facts
begin

text \<open>
  What the reconciler keeps and promises: the invariant of the store through every duty, the exact
  effect of the deadline duty, the ladder of interrupted lands, the patience with suspect CI
  answers, the fix tasks, the holds it may touch and the branches it may collect.
\<close>

section \<open>Invariants through the duties\<close>

lemma keeps_on_mgr: "keeps P a \<Longrightarrow> keeps (\<lambda>rc. P (rc_mgr rc)) (on_mgr a)"
  by (auto simp: keeps_def on_mgr_def split: prod.split)

lemma keeps_each_do [keeps_rules]: "(\<And>x. keeps P (f x)) \<Longrightarrow> keeps P (each_do f xs)"
  unfolding each_do_def by (auto intro!: keeps_rules)

lemma keeps_caught [keeps_rules]: "keeps P a \<Longrightarrow> keeps P (caught a)"
  by (auto simp: keeps_def caught_def split: prod.split)

lemma keeps_at_state: "(\<And>s. keeps P (f s)) \<Longrightarrow> keeps P (\<lambda>s. f s s)"
  by (simp add: keeps_def)

lemma keeps_rc_change:
  "(\<And>rc. rc_mgr (f rc) = rc_mgr rc) \<Longrightarrow> keeps (\<lambda>rc. P (rc_mgr rc)) (change f)"
  by (simp add: keeps_def change_def)

text \<open>The verbs that only the reconciler uses.\<close>

locale store_hygiene = store_verbs +
  assumes inv_ci: "inv d \<Longrightarrow> inv (fst (set_repo_ci now repo ca d))"
    and inv_ci_fix: "inv d \<Longrightarrow> inv (set_repo_ci_fix repo fix_task fix_sha d)"
    and inv_expire_workers: "inv d \<Longrightarrow> inv (fst (expire_stale_workers now ttl d))"
begin

abbreviation tended :: "reconciler \<Rightarrow> bool" where
  "tended rc \<equiv> holds (rc_mgr rc)"

lemmas keeps_lift [keeps_rules] = keeps_on_mgr [of holds]
lemmas keeps_table [keeps_rules] = keeps_rc_change [of _ holds]

lemma keeps_apply_and_broadcast [keeps_rules]: "keeps holds (apply_and_broadcast ti t expected)"
  unfolding apply_and_broadcast_def by (auto intro!: keeps_rules)

lemma keeps_expire: "keeps holds (expire_deadlines ti)"
proof -
  have "keeps holds (each_do (\<lambda>r. if expired now r then
      act_bind (apply_and_broadcast ti (on_deadline (ref_of_row r)) AS_RUNNING) (\<lambda>_. answer ())
      else answer ()) rs)" for now rs
    by (auto intro!: keeps_rules)
  then show ?thesis by (simp add: keeps_def expire_deadlines_def)
qed

lemma keeps_recover_landed [keeps_rules]: "keeps holds (recover_landed env ti ref sha)"
  unfolding recover_landed_def by (auto intro!: keeps_rules)

lemma keeps_finish_recovered [keeps_rules]: "keeps holds (finish_recovered_land env ti r ref mode result)"
  unfolding finish_recovered_land_def by (auto intro!: keeps_rules)

lemma keeps_reenqueue [keeps_rules]: "keeps holds (reenqueue_land env ti r ref repo)"
  unfolding reenqueue_land_def Let_def by (auto intro!: keeps_rules split: option.split)

lemma keeps_recover_attempt [keeps_rules]: "keeps holds (recover_attempt env ti r)"
  unfolding recover_attempt_def by (auto intro!: keeps_rules split: rung.split)

lemma keeps_recover: "keeps holds (recover_interrupted_lands env ti)"
proof -
  have "keeps holds (each_do (recover_attempt env ti) rs)" for rs
    by (auto intro!: keeps_rules)
  then show ?thesis by (simp add: keeps_def recover_interrupted_lands_def)
qed

lemma keeps_spawn [keeps_rules]: "keeps holds (spawn_ci_fix env ti repo st queues)"
  unfolding spawn_ci_fix_def create_fix_brief_def Let_def
  by (auto intro!: keeps_rules inv_ci_fix split: list.split sum.split py_error.split)

lemma keeps_state_changed [keeps_rules]:
  "keeps holds (state_changed env ti repo st queues recorded previous)"
  unfolding state_changed_def by (auto intro!: keeps_rules inv_ci_fix)

lemma keeps_retire [keeps_rules]: "keeps tended (retire_ci_fixes env ti repo queues)"
proof -
  have "keeps tended (retire_one env ti repo live tq)" for live tq
    unfolding retire_one_def set_announced_def by (auto intro!: keeps_rules split: prod.split)
  then show ?thesis
    unfolding retire_ci_fixes_def set_announced_def by (auto intro!: keeps_rules)
qed

lemma keeps_refresh: "keeps tended (refresh_repo_ci env ti)"
proof -
  have miss: "keeps tended (count_miss repo s)" for repo s
    unfolding count_miss_def by (auto intro!: keeps_rules)
  have ci: "keeps holds (run_db (\<lambda>d. Inr (set_repo_ci now repo args d)))" for now repo args
    by (rule keeps_run_db) (metis Inr_inject fst_conv inv_ci)
  have "keeps tended (refresh_repo env ti entry)" for entry
    unfolding refresh_repo_def by (auto intro!: keeps_rules miss ci split: prod.split)
  then show ?thesis unfolding refresh_repo_ci_def by (auto intro!: keeps_rules)
qed

lemma keeps_import: "keeps tended (auto_import_host_queues env ti)"
proof -
  have "keeps holds (auto_import_batch env ti q repo host es)" for q repo host es
    unfolding auto_import_batch_def Let_def by (auto intro!: keeps_rules)
  then have "keeps tended (auto_import_queue env ti enabled q)" for enabled q
    unfolding auto_import_queue_def by (auto intro!: keeps_rules split: option.split)
  then show ?thesis unfolding auto_import_host_queues_def by (auto intro!: keeps_rules)
qed

lemma keeps_holds: "keeps tended (reconcile_holds env ti)"
proof -
  have block: "keeps holds (block_task ti k reason)" for k reason
  proof -
    have "keeps holds (act_bind (on_db (set_task_state now q t h)) (\<lambda>_. emit now' ev))" for now q t h now' ev
      by (auto intro!: keeps_rules verbs)
    then show ?thesis by (simp add: keeps_def block_task_def)
  qed
  have warn: "keeps tended (warn_repo ti c repo)" for c repo
  proof -
    have "keeps tended (act_bind (change (\<lambda>rc. rc\<lparr>rc_warned := q # rc_warned rc\<rparr>))
        (\<lambda>_. on_mgr (emit now ev)))" for q now ev
      by (auto intro!: keeps_rules)
    then show ?thesis by (simp add: keeps_def warn_repo_def)
  qed
  have "keeps tended (hold_for_repo env ti red rows c)" for red rows c
    unfolding hold_for_repo_def Let_def
    by (auto intro!: keeps_rules verbs block warn split: option.split)
  moreover have "keeps tended (hold_unroutable ti qs p)" for qs p
    unfolding hold_unroutable_def by (auto intro!: keeps_rules block)
  moreover have "keeps tended (clear_rows ti k p)" for k p
  proof -
    have "keeps tended (each_do (clear_row ti) rs)" for rs
      unfolding clear_row_def by (auto intro!: keeps_rules verbs)
    then show ?thesis by (simp add: keeps_def clear_rows_def)
  qed
  ultimately show ?thesis unfolding reconcile_holds_def by (auto intro!: keeps_rules)
qed

lemma keeps_gc: "keeps tended (gc_terminal_artifacts env ti)"
proof -
  have "keeps tended (gc_repo ti leased repo)" for leased repo
    unfolding gc_repo_def by (intro keeps_each_do) (simp add: keeps_def change_def answer_def)
  then show ?thesis unfolding gc_terminal_artifacts_def by (auto intro!: keeps_rules split: option.split)
qed

lemma keeps_reconcile_once: "keeps tended (reconcile_once env ti)"
proof -
  have "keeps holds (mark_workers_offline env ti)"
    unfolding mark_workers_offline_def by (auto intro!: keeps_rules inv_expire_workers)
  moreover have "keeps holds (reap_resolves ti)"
    unfolding reap_resolves_def by (auto intro!: keeps_rules)
  ultimately have "\<forall>a \<in> set (duties env ti). keeps tended a"
    using keeps_expire keeps_refresh keeps_import keeps_holds keeps_gc
    by (auto simp: duties_def intro!: keeps_rules)
  then have "keeps tended (act_each (\<lambda>a. act_bind (run_duty a) (\<lambda>_. answer [()])) as)"
    if "set as \<subseteq> set (duties env ti)" for as
    using that by (induction as) (auto simp: run_duty_def intro!: keeps_rules)
  then show ?thesis unfolding reconcile_once_def each_do_def
    by (intro keeps_bind keeps_answer) simp
qed

lemma keeps_startup: "keeps tended (startup env ti)"
  unfolding startup_def run_duty_def
  by (auto intro!: keeps_rules keeps_recover keeps_reconcile_once)

end

interpretation tended: store_hygiene reachable_db
  by unfold_locales
    (erule reach_after [OF step_ci] reach_after [OF step_ci_fix] reach_after [OF step_expire_workers])+

text \<open>The manager and its reconciler: a request of a worker, a pass of the loop or a restart.\<close>

inductive reachable_system :: "env \<Rightarrow> reconciler \<Rightarrow> bool" for env where
  booted: "mg_db (rc_mgr rc) = empty_db \<Longrightarrow> reachable_system env rc"
| requested: "reachable_system env rc \<Longrightarrow> manager_step env (rc_mgr rc) m \<Longrightarrow> reachable_system env (rc\<lparr>rc_mgr := m\<rparr>)"
| reconciled: "reachable_system env rc \<Longrightarrow> reachable_system env (fst (reconcile_once env ti rc))"
| restarted: "reachable_system env rc \<Longrightarrow> reachable_system env (fst (startup env ti rc))"

lemma reachable_system_db: "reachable_system env rc \<Longrightarrow> reachable_db (mg_db (rc_mgr rc))"
proof (induction rule: reachable_system.induct)
  case (requested rc m)
  then show ?case by (simp add: manager_step_reached)
next
  case (reconciled rc ti)
  then show ?case using tended.keeps_reconcile_once by (auto simp: keeps_def)
next
  case (restarted rc ti)
  then show ?case using tended.keeps_startup by (auto simp: keeps_def)
qed (simp add: reach_empty)

section \<open>Deadlines\<close>

text \<open>The rows after the attempts in a set were expired.\<close>

definition expire_rows :: "time \<Rightarrow> string set \<Rightarrow> attempt_row list \<Rightarrow> attempt_row list" where
  "expire_rows now ids = sql_update (\<lambda>r. at_id r \<in> ids \<and> at_state r = AS_RUNNING)
     (attempt_set now [] (Some AS_EXPIRED))"

lemma expire_rows_empty [simp]: "expire_rows now {} rows = rows"
  by (simp add: expire_rows_def sql_update_def)

lemma apply_deadline:
  assumes "attempts_ok (db_attempts d)"
  shows "\<exists>d' ids. apply_transition now (on_deadline ref) AS_RUNNING None d = Inr (d', ids) \<and>
    db_attempts d' = expire_rows now {ref_id ref} (db_attempts d) \<and> attempts_ok (db_attempts d')"
proof -
  have "\<exists>res. apply_transition now (on_deadline ref) AS_RUNNING None d = Inr res"
    by (rule apply_transition_total [OF assms recovery_fields(5)])
      (simp add: on_deadline_def lifecycle_sets)
  then obtain d' ids where ap: "apply_transition now (on_deadline ref) AS_RUNNING None d = Inr (d', ids)"
    by (metis surj_pair)
  have cas: "cas_matches (on_deadline ref) AS_RUNNING None = (\<lambda>r. at_id r \<in> {ref_id ref} \<and> at_state r = AS_RUNNING)"
    by (rule ext) (simp add: cas_matches_def on_deadline_def)
  have "db_attempts d' = expire_rows now {ref_id ref} (db_attempts d)"
  proof (cases ids)
    case (Some won)
    have "t_fields (on_deadline ref) = []" "t_state (on_deadline ref) = AS_EXPIRED"
      by (simp_all add: on_deadline_def)
    with apply_transition_SomeD(2) [OF ap [unfolded Some]] show ?thesis
      by (simp add: cas expire_rows_def)
  next
    case None
    from apply_transition_NoneD [OF ap [unfolded None]] show ?thesis
      by (auto simp: cas expire_rows_def sql_update_def intro!: map_idI [symmetric])
  qed
  then show ?thesis using ap apply_transition_attempts_ok [OF assms ap] by blast
qed

lemma each_do_Nil [simp]: "each_do f [] s = (s, Inr ())"
  by (simp add: each_do_def act_bind_def answer_def)

lemma each_do_Cons: "each_do f (x # xs) = act_bind (f x) (\<lambda>_. each_do f xs)"
  by (rule ext) (simp add: each_do_def act_bind_def answer_def split: prod.split sum.split)

lemma expire_each:
  assumes "attempts_ok (db_attempts (mg_db mg))"
  shows "\<exists>mg'. each_do (\<lambda>r. if expired (io_now (ti_io ti)) r
        then act_bind (apply_and_broadcast ti (on_deadline (ref_of_row r)) AS_RUNNING) (\<lambda>_. answer ())
        else answer ()) rs mg = (mg', Inr ()) \<and>
      db_attempts (mg_db mg') = expire_rows (io_now (ti_io ti))
        (at_id ` {r \<in> set rs. expired (io_now (ti_io ti)) r}) (db_attempts (mg_db mg))"
  using assms
proof (induction rs arbitrary: mg)
  case (Cons r rs)
  show ?case
  proof (cases "expired (io_now (ti_io ti)) r")
    case True
    obtain d' ids where d': "apply_transition (io_now (ti_io ti)) (on_deadline (ref_of_row r)) AS_RUNNING None (mg_db mg) = Inr (d', ids)"
        "db_attempts d' = expire_rows (io_now (ti_io ti)) {at_id r} (db_attempts (mg_db mg))" "attempts_ok (db_attempts d')"
      using apply_deadline [OF Cons.prems, of "io_now (ti_io ti)" "ref_of_row r"] by (auto simp: ref_of_row_def)
    have set_eq: "at_id ` {x. (x = r \<or> x \<in> set rs) \<and> expired (io_now (ti_io ti)) x} =
        insert (at_id r) (at_id ` {x \<in> set rs. expired (io_now (ti_io ti)) x})"
      using True by auto
    have swap: "expire_rows now A (expire_rows now {i} rows) = expire_rows now (insert i A) rows" for now A i rows
      by (auto simp: expire_rows_def sql_update_def)
    show ?thesis
      using Cons.IH [of "mg\<lparr>mg_db := d'\<rparr>"] d' True
      by (simp add: each_do_Cons act_bind_def apply_and_broadcast_def run_db_def answer_def set_eq swap)
  next
    case False
    then have "{x \<in> set (r # rs). expired (io_now (ti_io ti)) x} = {x \<in> set rs. expired (io_now (ti_io ti)) x}"
      by auto
    then show ?thesis using Cons False by (simp add: each_do_Cons act_bind_def answer_def)
  qed
qed simp

text \<open>
  C24: one pass of the deadline duty ends exactly the attempts that are overdue. On every reachable
  database it returns, every running attempt whose deadline has passed is expired, released and
  finished, and every other attempt, one that is landing in particular, is the row it was.
\<close>

theorem overdue_attempts_end:
  assumes "reachable_db (mg_db mg)"
  shows "snd (expire_deadlines ti mg) = Inr () \<and>
    db_attempts (mg_db (fst (expire_deadlines ti mg))) =
      map (\<lambda>r. if at_state r = AS_RUNNING \<and> (\<exists>dl. at_deadline_at r = Some dl \<and> dl < io_now (ti_io ti))
        then attempt_set (io_now (ti_io ti)) [] (Some AS_EXPIRED) r else r) (db_attempts (mg_db mg))"
proof -
  let ?now = "io_now (ti_io ti)" and ?rows = "db_attempts (mg_db mg)"
  have ok: "attempts_ok ?rows"
    using reachable_store_ok [OF assms] by (simp add: store_ok_def)
  obtain mg' where mg': "expire_deadlines ti mg = (mg', Inr ())"
      "db_attempts (mg_db mg') = expire_rows ?now
        (at_id ` {r \<in> set (live_attempts (mg_db mg)). expired ?now r}) ?rows"
    using expire_each [OF ok, of ti "live_attempts (mg_db mg)"] by (auto simp: expire_deadlines_def)
  have "(at_id r \<in> at_id ` {r \<in> set (live_attempts (mg_db mg)). expired ?now r} \<and> at_state r = AS_RUNNING)
      \<longleftrightarrow> expired ?now r" if "r \<in> set ?rows" for r
  proof -
    have "r' = r" if "r' \<in> set ?rows" "at_id r' = at_id r" for r'
      using that \<open>r \<in> set ?rows\<close> ok by (auto simp: attempts_ok_def distinct_map dest: inj_onD)
    then show ?thesis using \<open>r \<in> set ?rows\<close>
      by (auto simp: live_attempts_def expired_def lifecycle_sets)
  qed
  then have "expire_rows ?now (at_id ` {r \<in> set (live_attempts (mg_db mg)). expired ?now r}) ?rows =
      map (\<lambda>r. if expired ?now r then attempt_set ?now [] (Some AS_EXPIRED) r else r) ?rows"
    by (simp add: expire_rows_def sql_update_def)
  moreover have "expired ?now r \<longleftrightarrow> at_state r = AS_RUNNING \<and> (\<exists>dl. at_deadline_at r = Some dl \<and> dl < ?now)" for r
    by (auto simp: expired_def split: option.split)
  ultimately show ?thesis using mg' by simp
qed

section \<open>Interrupted lands\<close>

lemma recovery_states [simp]:
  "t_state (on_land_recovered ref sha pr) = AS_LANDED" "t_ref (on_land_recovered ref sha pr) = ref"
  "t_state (on_land_interrupted ref) = AS_CONFLICT" "t_ref (on_land_interrupted ref) = ref"
  by (simp_all add: on_land_recovered_def on_land_interrupted_def Let_def)

text \<open>Everything that proves that the land of an attempt took place.\<close>

definition land_proven :: "env \<Rightarrow> tick \<Rightarrow> attempt_row \<Rightarrow> bool" where
  "land_proven env ti r \<longleftrightarrow>
     (let repo = opt_or (attempt_text r ''repo'') [] in
      (\<exists>sha. sha \<noteq> [] \<and> (ti_trailer ti repo (at_id r) = Some sha \<or> ti_trailer_after ti repo (at_id r) = Some sha)) \<or>
      (\<exists>args out. la_attempt_id args = at_id r \<and> ti_land ti args = Inr out \<and> lo_kind out \<in> LAND_SUCCESS_KINDS))"

lemma ref_id_of_row [simp]: "ref_id (ref_of_row r) = at_id r"
  by (simp add: ref_of_row_def)

lemma opt_or_Nil: "opt_or x [] \<noteq> [] \<Longrightarrow> x = Some (opt_or x [])"
  by (cases x) simp_all

lemma land_proven_trailer:
  "sha \<noteq> [] \<Longrightarrow> ti_trailer ti (opt_or (attempt_text r ''repo'') []) (at_id r) = Some sha \<or>
     ti_trailer_after ti (opt_or (attempt_text r ''repo'') []) (at_id r) = Some sha \<Longrightarrow> land_proven env ti r"
  by (auto simp: land_proven_def Let_def)

lemma land_result_state:
  assumes "on_land_result ref out land policy = Inr t" "t_state t = AS_LANDED"
  shows "lo_kind land \<in> LAND_SUCCESS_KINDS"
  using assms(1)
proof (cases rule: on_land_result_cases)
  case no_change
  then show ?thesis using assms(2) by (simp add: no_change_transition_def Let_def)
next
  case failed
  obtain p es where w: "(if land_resolvable land then watch_failure ref policy else (None, [])) = (p, es)"
    by fastforce
  obtain k where "t_state t = error_state_for (Some k)"
    using failed(2) by (auto simp: land_failed_transition_def bind_result_eq_Inr_iff Let_def w)
  then show ?thesis using assms(2) by (simp add: error_state_for_def split: if_splits)
qed simp

lemma recovered_ends:
  assumes "on_land_result ref (recovered_outcome r) land (recovery_policy env mg ref ev mode) = Inr t"
  shows "submit_ends ref (recovered_outcome r) (recovery_policy env mg ref ev mode) t"
proof (rule submit_ends.landed [OF _ _ _ assms])
  show "on_submit ref (recovered_outcome r) (recovery_policy env mg ref ev mode) = Inr (Git GP_LAND)"
    by (simp add: on_submit_def recovered_outcome_def recovery_policy_def new_outcome_def telemetry.defs
        outcome.defs default_submit_policy_def empty_telemetry_def)
qed (simp_all add: recovery_policy_def default_submit_policy_def)

text \<open>The attempt has ended in a state with some columns written, and every other row is what it was.\<close>

definition ended_rows :: "time \<Rightarrow> string \<Rightarrow> pydict \<Rightarrow> attempt_state \<Rightarrow> attempt_row list \<Rightarrow> attempt_row list" where
  "ended_rows now rid flds st = map (\<lambda>q. if at_id q = rid then attempt_set now flds (Some st) q else q)"

lemma apply_ended:
  assumes "attempts_ok (db_attempts (mg_db mg))" "r \<in> set (db_attempts (mg_db mg))" "at_state r = AS_LANDING"
    and "fields_accepted t" "t_state t \<in> ATTEMPT_TERMINAL_STATES" "t_ref t = ref_of_row r"
  shows "\<exists>mg'. apply_and_broadcast ti t AS_LANDING mg = (mg', Inr True) \<and>
    db_attempts (mg_db mg') = ended_rows (io_now (ti_io ti)) (at_id r) (t_fields t) (t_state t) (db_attempts (mg_db mg))"
proof -
  let ?now = "io_now (ti_io ti)"
  have "\<exists>res. apply_transition ?now t AS_LANDING None (mg_db mg) = Inr res"
    by (rule apply_transition_total [OF assms(1,4)]) (use assms(5) live_not_terminal in blast)
  then obtain d' ids where ap: "apply_transition ?now t AS_LANDING None (mg_db mg) = Inr (d', ids)"
    by (metis surj_pair)
  have same: "q = r" if "q \<in> set (db_attempts (mg_db mg))" "at_id q = at_id r" for q
    using that assms(1,2) by (auto simp: attempts_ok_def distinct_map dest: inj_onD)
  have cas: "cas_matches t AS_LANDING None q \<longleftrightarrow> at_id q = at_id r" if "q \<in> set (db_attempts (mg_db mg))" for q
    using that assms(3,6) same by (auto simp: cas_matches_def ref_of_row_def)
  then obtain won where won: "ids = Some won"
    using apply_transition_NoneD(2) [of ?now t AS_LANDING None "mg_db mg" d'] ap assms(2) by (cases ids) auto
  have "db_attempts d' = ended_rows ?now (at_id r) (t_fields t) (t_state t) (db_attempts (mg_db mg))"
    using apply_transition_SomeD(2) [OF ap [unfolded won]] cas by (simp add: sql_update_def ended_rows_def)
  then show ?thesis
    using ap won by (simp add: apply_and_broadcast_def act_bind_def run_db_def answer_def)
qed

text \<open>What a recovery may come to.\<close>

definition recovers :: "env \<Rightarrow> tick \<Rightarrow> attempt_row \<Rightarrow> manager \<Rightarrow> manager \<times> (py_error + unit) \<Rightarrow> bool" where
  "recovers env ti r mg out \<longleftrightarrow>
     (mg_db (fst out) = mg_db mg \<and> (\<exists>e. snd out = Inl e)) \<or>
     (\<exists>flds st. st \<in> ATTEMPT_TERMINAL_STATES \<and> (st = AS_LANDED \<longrightarrow> land_proven env ti r) \<and>
        db_attempts (mg_db (fst out)) =
          ended_rows (io_now (ti_io ti)) (at_id r) flds st (db_attempts (mg_db mg)))"

lemma recovers_after_compute:
  assumes "\<And>x. f mg = Inr x \<Longrightarrow> recovers env ti r mg (g x mg)"
  shows "recovers env ti r mg (act_bind (compute f) g mg)"
  using assms by (auto simp: recovers_def act_bind_def compute_def split: sum.splits)

lemma recovers_apply:
  assumes "attempts_ok (db_attempts (mg_db mg))" "r \<in> set (db_attempts (mg_db mg))" "at_state r = AS_LANDING"
    and "fields_accepted t" "t_state t \<in> ATTEMPT_TERMINAL_STATES" "t_ref t = ref_of_row r"
    and "t_state t = AS_LANDED \<longrightarrow> land_proven env ti r"
    and "\<And>b mg. mg_db (fst (g b mg)) = mg_db mg"
  shows "recovers env ti r mg (act_bind (apply_and_broadcast ti t AS_LANDING) g mg)"
proof -
  obtain mg' where "apply_and_broadcast ti t AS_LANDING mg = (mg', Inr True)"
      "db_attempts (mg_db mg') = ended_rows (io_now (ti_io ti)) (at_id r) (t_fields t) (t_state t) (db_attempts (mg_db mg))"
    using apply_ended [OF assms(1-6)] by blast
  then show ?thesis using assms(5,7,8) unfolding recovers_def act_bind_def by auto
qed

lemma drop_keeps_db [simp]: "mg_db (fst (suppress (drop_brief_job env q task) mg)) = mg_db mg"
  by (simp add: suppress_def drop_brief_job_def)

lemma compute_keeps_db: "(\<And>x mg. mg_db (fst (g x mg)) = mg_db mg) \<Longrightarrow> mg_db (fst (act_bind (compute f) g mg)) = mg_db mg"
  by (simp add: act_bind_def compute_def split: sum.split)

lemma answer_keeps_db [simp]: "mg_db (fst (answer x mg)) = mg_db mg"
  by (simp add: answer_def)

lemma recovers_landed:
  assumes "attempts_ok (db_attempts (mg_db mg))" "r \<in> set (db_attempts (mg_db mg))" "at_state r = AS_LANDING"
    and "land_proven env ti r"
  shows "recovers env ti r mg (recover_landed env ti (ref_of_row r) sha mg)"
  unfolding recover_landed_def
  by (intro recovers_after_compute recovers_apply [OF assms(1-3)])
    (use assms(4) in \<open>auto simp: recovery_fields lifecycle_sets
      intro!: compute_keeps_db\<close>)

lemma recovers_finish:
  assumes "attempts_ok (db_attempts (mg_db mg))" "r \<in> set (db_attempts (mg_db mg))" "at_state r = AS_LANDING"
    and "lo_kind result \<in> LAND_SUCCESS_KINDS \<longrightarrow> land_proven env ti r"
  shows "recovers env ti r mg (finish_recovered_land env ti r (ref_of_row r) mode result mg)"
  unfolding finish_recovered_land_def
proof (intro recovers_after_compute)
  fix ev t
  assume t: "on_land_result (ref_of_row r) (recovered_outcome r) result
      (recovery_policy env mg (ref_of_row r) ev mode) = Inr t"
  have "sound_submit (ref_of_row r) t" "fields_accepted t"
    using submit_ends_sound [OF recovered_ends [OF t]] submit_fields [OF recovered_ends [OF t]] by simp_all
  then show "recovers env ti r mg (act_bind (apply_and_broadcast ti t AS_LANDING) (\<lambda>applied.
      if applied \<and> te_drop_brief (t_effects t)
      then suppress (drop_brief_job env (ref_queue (ref_of_row r)) (ref_task (ref_of_row r))) else answer ()) mg)"
    by (intro recovers_apply [OF assms(1-3)])
      (use land_result_state [OF t] assms(4) in \<open>auto simp: sound_submit_def\<close>)
qed

lemma recovers_rerun:
  assumes "attempts_ok (db_attempts (mg_db mg))" "r \<in> set (db_attempts (mg_db mg))" "at_state r = AS_LANDING"
  shows "recovers env ti r mg
    (reenqueue_land env ti r (ref_of_row r) (opt_or (attempt_text r ''repo'') []) mg)"
  unfolding reenqueue_land_def Let_def
proof (rule recovers_after_compute)
  fix m
  let ?args = "land_args_of r (ref_of_row r) (opt_or (attempt_text r ''repo'') []) (effective_mode env m) m"
  let ?result = "case ti_land ti ?args of
      Inl exc \<Rightarrow> (new_land_outcome LK_TRANSPORT_FAILED)\<lparr>lo_detail := ''recovery land job crashed: '' @ exc\<rparr>
    | Inr out \<Rightarrow> out"
  have "lo_kind ?result \<in> LAND_SUCCESS_KINDS \<longrightarrow> land_proven env ti r"
    by (auto simp: land_proven_def Let_def land_args_of_def ref_of_row_def new_land_outcome_def
        lifecycle_sets split: sum.splits intro!: exI [of _ ?args])
  then show "recovers env ti r mg
      ((case (if lo_kind ?result = LK_CONFLICT
            then ti_trailer_after ti (opt_or (attempt_text r ''repo'') []) (ref_id (ref_of_row r)) else None) of
        None \<Rightarrow> finish_recovered_land env ti r (ref_of_row r) (effective_mode env m) ?result
      | Some sha \<Rightarrow> if sha = [] then finish_recovered_land env ti r (ref_of_row r) (effective_mode env m) ?result
          else recover_landed env ti (ref_of_row r) sha) mg)"
    using recovers_finish [OF assms] recovers_landed [OF assms] land_proven_trailer [of _ ti r env]
    by (auto split: option.split)
qed

text \<open>The attempt of a row ends in one state with some columns written, or the pass raises before it
  writes.\<close>

definition settles :: "tick \<Rightarrow> attempt_row \<Rightarrow> manager \<Rightarrow> attempt_state \<Rightarrow> manager \<times> (py_error + unit) \<Rightarrow> bool" where
  "settles ti r mg st out \<longleftrightarrow>
     (mg_db (fst out) = mg_db mg \<and> (\<exists>e. snd out = Inl e)) \<or>
     (\<exists>flds. db_attempts (mg_db (fst out)) =
        ended_rows (io_now (ti_io ti)) (at_id r) flds st (db_attempts (mg_db mg)))"

text \<open>What the world shows of an interrupted land: its repository, when it is named and there, its
  trailer on the main branch, and what is left of it that a job could land again (the task branch,
  or a branch reported on the rendezvous remote).\<close>

definition land_repo :: "env \<Rightarrow> attempt_row \<Rightarrow> string option" where
  "land_repo env r =
     (case attempt_text r ''repo'' of
        Some repo \<Rightarrow> if repo \<noteq> [] \<and> en_repo_available env repo then Some repo else None
      | None \<Rightarrow> None)"

definition trailer_on_main :: "env \<Rightarrow> tick \<Rightarrow> attempt_row \<Rightarrow> bool" where
  "trailer_on_main env ti r \<longleftrightarrow>
     (\<exists>repo sha. land_repo env r = Some repo \<and> ti_trailer ti repo (at_id r) = Some sha \<and> sha \<noteq> [])"

definition work_survives :: "env \<Rightarrow> tick \<Rightarrow> attempt_row \<Rightarrow> bool" where
  "work_survives env ti r \<longleftrightarrow>
     (\<exists>repo branch. land_repo env r = Some repo \<and>
        worktree_branch (ref_task (ref_of_row r)) (ref_queue (ref_of_row r)) = Inr branch \<and>
        (ti_branch_exists ti repo branch \<or>
         nonempty (attempt_text r ''branch_ref'') \<and> cf_rendezvous_remote (en_cfg env) \<noteq> []))"

definition jobs_succeed :: "tick \<Rightarrow> string \<Rightarrow> bool" where
  "jobs_succeed ti aid \<longleftrightarrow>
     (\<forall>args. la_attempt_id args = aid \<longrightarrow> (\<exists>out. ti_land ti args = Inr out \<and> lo_kind out \<in> LAND_SUCCESS_KINDS))"

lemma settles_after_compute:
  "(\<And>x. f mg = Inr x \<Longrightarrow> settles ti r mg st (g x mg)) \<Longrightarrow> settles ti r mg st (act_bind (compute f) g mg)"
  by (auto simp: settles_def act_bind_def compute_def split: sum.splits)

lemma settles_apply:
  assumes "attempts_ok (db_attempts (mg_db mg))" "r \<in> set (db_attempts (mg_db mg))" "at_state r = AS_LANDING"
    and "fields_accepted t" "t_state t \<in> ATTEMPT_TERMINAL_STATES" "t_ref t = ref_of_row r"
    and "t_state t = st" "\<And>b mg. mg_db (fst (g b mg)) = mg_db mg"
  shows "settles ti r mg st (act_bind (apply_and_broadcast ti t AS_LANDING) g mg)"
proof -
  obtain mg' where "apply_and_broadcast ti t AS_LANDING mg = (mg', Inr True)"
      "db_attempts (mg_db mg') = ended_rows (io_now (ti_io ti)) (at_id r) (t_fields t) (t_state t) (db_attempts (mg_db mg))"
    using apply_ended [OF assms(1-6)] by blast
  then show ?thesis using assms(7,8) unfolding settles_def act_bind_def by auto
qed

lemma settles_landed:
  assumes "attempts_ok (db_attempts (mg_db mg))" "r \<in> set (db_attempts (mg_db mg))" "at_state r = AS_LANDING"
  shows "settles ti r mg AS_LANDED (recover_landed env ti (ref_of_row r) sha mg)"
  unfolding recover_landed_def
  by (intro settles_after_compute settles_apply [OF assms])
    (auto simp: recovery_fields lifecycle_sets intro!: compute_keeps_db)

lemma settles_finish:
  assumes "attempts_ok (db_attempts (mg_db mg))" "r \<in> set (db_attempts (mg_db mg))" "at_state r = AS_LANDING"
    and "lo_kind result \<in> LAND_SUCCESS_KINDS"
  shows "settles ti r mg AS_LANDED (finish_recovered_land env ti r (ref_of_row r) mode result mg)"
  unfolding finish_recovered_land_def
proof (intro settles_after_compute)
  fix ev t
  assume t: "on_land_result (ref_of_row r) (recovered_outcome r) result
      (recovery_policy env mg (ref_of_row r) ev mode) = Inr t"
  have "sound_submit (ref_of_row r) t" "fields_accepted t"
    using submit_ends_sound [OF recovered_ends [OF t]] submit_fields [OF recovered_ends [OF t]] by simp_all
  moreover have "t_state t = AS_LANDED"
    using t
    by (cases rule: on_land_result_cases)
      (use assms(4) in \<open>auto simp: lifecycle_sets landed_transition_def Let_def\<close>)
  ultimately show "settles ti r mg AS_LANDED (act_bind (apply_and_broadcast ti t AS_LANDING) (\<lambda>applied.
      if applied \<and> te_drop_brief (t_effects t)
      then suppress (drop_brief_job env (ref_queue (ref_of_row r)) (ref_task (ref_of_row r))) else answer ()) mg)"
    by (intro settles_apply [OF assms(1-3)]) (auto simp: sound_submit_def lifecycle_sets)
qed

lemma settles_rerun:
  assumes "attempts_ok (db_attempts (mg_db mg))" "r \<in> set (db_attempts (mg_db mg))" "at_state r = AS_LANDING"
    and "jobs_succeed ti (at_id r)"
  shows "settles ti r mg AS_LANDED (reenqueue_land env ti r (ref_of_row r) repo mg)"
  unfolding reenqueue_land_def Let_def
proof (rule settles_after_compute)
  fix m
  obtain out where out: "ti_land ti (land_args_of r (ref_of_row r) repo (effective_mode env m) m) = Inr out"
      "lo_kind out \<in> LAND_SUCCESS_KINDS"
    using assms(4) by (force simp: jobs_succeed_def land_args_of_def)
  then have "lo_kind out \<noteq> LK_CONFLICT" by (auto simp: lifecycle_sets)
  then show "settles ti r mg AS_LANDED
      ((case (if lo_kind (case ti_land ti (land_args_of r (ref_of_row r) repo (effective_mode env m) m) of
            Inl exc \<Rightarrow> (new_land_outcome LK_TRANSPORT_FAILED)\<lparr>lo_detail := ''recovery land job crashed: '' @ exc\<rparr>
          | Inr out \<Rightarrow> out) = LK_CONFLICT
            then ti_trailer_after ti repo (ref_id (ref_of_row r)) else None) of
        None \<Rightarrow> finish_recovered_land env ti r (ref_of_row r) (effective_mode env m)
          (case ti_land ti (land_args_of r (ref_of_row r) repo (effective_mode env m) m) of
            Inl exc \<Rightarrow> (new_land_outcome LK_TRANSPORT_FAILED)\<lparr>lo_detail := ''recovery land job crashed: '' @ exc\<rparr>
          | Inr out \<Rightarrow> out)
      | Some sha \<Rightarrow> if sha = [] then finish_recovered_land env ti r (ref_of_row r) (effective_mode env m)
          (case ti_land ti (land_args_of r (ref_of_row r) repo (effective_mode env m) m) of
            Inl exc \<Rightarrow> (new_land_outcome LK_TRANSPORT_FAILED)\<lparr>lo_detail := ''recovery land job crashed: '' @ exc\<rparr>
          | Inr out \<Rightarrow> out)
          else recover_landed env ti (ref_of_row r) sha) mg)"
    using settles_finish [OF assms(1-3) out(2)] by (simp add: out(1))
qed

text \<open>The rung an interrupted land is recovered on, by what the world shows of it.\<close>

lemma land_repo_text:
  "land_repo env r = Some repo \<longleftrightarrow>
     repo = opt_or (attempt_text r ''repo'') [] \<and> repo \<noteq> [] \<and> en_repo_available env repo"
  by (auto simp: land_repo_def split: option.split)

lemma rung_landed: "trailer_on_main env ti r \<Longrightarrow> \<exists>sha. recovery_rung env ti r = Inr (Provably_Landed sha)"
  by (auto simp: trailer_on_main_def land_repo_text recovery_rung_def Let_def)

lemma rung_unlanded:
  assumes "\<not> trailer_on_main env ti r"
  shows "work_survives env ti r \<Longrightarrow> recovery_rung env ti r = Inr Rerun"
    and "\<not> work_survives env ti r \<Longrightarrow> (\<exists>e. recovery_rung env ti r = Inl e) \<or> recovery_rung env ti r = Inr Park"
proof -
  have "opt_or (ti_trailer ti repo (at_id r)) [] = []" if "land_repo env r = Some repo" for repo
    using assms opt_or_Nil [of "ti_trailer ti repo (at_id r)"] that by (auto simp: trailer_on_main_def)
  then show "work_survives env ti r \<Longrightarrow> recovery_rung env ti r = Inr Rerun"
    and "\<not> work_survives env ti r \<Longrightarrow> (\<exists>e. recovery_rung env ti r = Inl e) \<or> recovery_rung env ti r = Inr Park"
    by (cases "worktree_branch (ref_task (ref_of_row r)) (ref_queue (ref_of_row r))";
        auto simp: work_survives_def land_repo_text recovery_rung_def Let_def)+
qed

lemma recover_rung_settles:
  assumes "attempts_ok (db_attempts (mg_db mg))" "r \<in> set (db_attempts (mg_db mg))" "at_state r = AS_LANDING"
  shows "recovery_rung env ti r = Inr (Provably_Landed sha) \<Longrightarrow> settles ti r mg AS_LANDED (recover_attempt env ti r mg)"
    and "recovery_rung env ti r = Inr Rerun \<Longrightarrow> jobs_succeed ti (at_id r) \<Longrightarrow>
      settles ti r mg AS_LANDED (recover_attempt env ti r mg)"
    and "(\<exists>e. recovery_rung env ti r = Inl e) \<or> recovery_rung env ti r = Inr Park \<Longrightarrow>
      settles ti r mg AS_CONFLICT (recover_attempt env ti r mg)"
  unfolding recover_attempt_def
  by (rule settles_after_compute, simp add: settles_landed [OF assms],
      rule settles_after_compute, simp add: settles_rerun [OF assms],
      rule settles_after_compute, auto intro!: settles_apply [OF assms] simp: recovery_fields lifecycle_sets)

lemma recover_without_job:
  assumes "recovery_rung env ti r \<noteq> Inr Rerun"
  shows "recover_attempt env (ti\<lparr>ti_land := job\<rparr>) r mg = recover_attempt env ti r mg"
proof -
  have "recovery_rung env (ti\<lparr>ti_land := job\<rparr>) r = recovery_rung env ti r"
    by (simp add: recovery_rung_def Let_def)
  then show ?thesis
    using assms by (auto simp: recover_attempt_def act_bind_def compute_def recover_landed_def
        apply_and_broadcast_def split: sum.split rung.split)
qed

lemma recover_attempt_recovers:
  assumes "attempts_ok (db_attempts (mg_db mg))" "r \<in> set (db_attempts (mg_db mg))" "at_state r = AS_LANDING"
  shows "recovers env ti r mg (recover_attempt env ti r mg)"
proof -
  have park: "recovers env ti r mg (act_bind
      (apply_and_broadcast ti (on_land_interrupted (ref_of_row r)) AS_LANDING) (\<lambda>_. answer ()) mg)"
    by (intro recovers_apply [OF assms]) (auto simp: recovery_fields lifecycle_sets)
  have "land_proven env ti r" if "recovery_rung env ti r = Inr (Provably_Landed s)" for s
    using that opt_or_Nil [of "ti_trailer ti (opt_or (attempt_text r ''repo'') []) (at_id r)"]
    by (auto simp: recovery_rung_def Let_def bind_result_eq_Inr_iff split: if_splits intro: land_proven_trailer)
  then show ?thesis
    unfolding recover_attempt_def
    by (intro recovers_after_compute)
      (auto intro: recovers_landed [OF assms] recovers_rerun [OF assms] park split: rung.split)
qed

text \<open>
  C2: an interrupted land is settled once and never invented. Recovering an attempt that a crash
  left landing, in a database the store's verbs produced, either raises before it writes or ends that
  attempt and no other, and records it as landed only when its trailer is on main or the land job
  reports a success for this very attempt. When the first scan finds the trailer on the main branch
  of an available repository, the attempt is recorded as landed and no job is run again, whether or
  not its branch still exists. When the trailer is not there and nothing is left to land (the
  repository is not named or not available, or neither the task branch nor a reported branch on a
  configured rendezvous remote exists) it ends as a conflict and no job is run either. When the
  work survives, the land is run again: if the job succeeds the attempt is recorded as landed. (In
  each case the pass may instead raise before it has written anything.)
\<close>

theorem interrupted_land_settled:
  assumes "reachable_db (mg_db mg)" "r \<in> set (db_attempts (mg_db mg))" "at_state r = AS_LANDING"
  shows "recovers env ti r mg (recover_attempt env ti r mg) \<and>
    (trailer_on_main env ti r \<longrightarrow>
       settles ti r mg AS_LANDED (recover_attempt env ti r mg) \<and>
       recover_attempt env (ti\<lparr>ti_land := job\<rparr>) r mg = recover_attempt env ti r mg) \<and>
    (\<not> trailer_on_main env ti r \<and> \<not> work_survives env ti r \<longrightarrow>
       settles ti r mg AS_CONFLICT (recover_attempt env ti r mg) \<and>
       recover_attempt env (ti\<lparr>ti_land := job\<rparr>) r mg = recover_attempt env ti r mg) \<and>
    (\<not> trailer_on_main env ti r \<and> work_survives env ti r \<and> jobs_succeed ti (at_id r) \<longrightarrow>
       settles ti r mg AS_LANDED (recover_attempt env ti r mg))"
proof -
  have "attempts_ok (db_attempts (mg_db mg))"
    using reachable_store_ok [OF assms(1)] by (simp add: store_ok_def)
  note row = this assms(2,3)
  show ?thesis
    using recover_attempt_recovers [OF row] recover_rung_settles [OF row] recover_without_job
      rung_landed rung_unlanded
    by (metis Inl_Inr_False Inr_inject rung.distinct)
qed

section \<open>A small loop\<close>

definition sample_tick :: tick where
  "sample_tick = \<lparr>ti_io = sample_io, ti_wall = 1000, ti_ci_interval = 0, ti_import_interval = 0,
     ti_trailer = (\<lambda>_ _. None), ti_branch_exists = (\<lambda>_ _. False), ti_land = (\<lambda>_. Inl ''no job''),
     ti_trailer_after = (\<lambda>_ _. None),
     ti_gh = (\<lambda>_. (\<lparr>gh_code = 1, gh_out = [], gh_err = [], gh_json = None\<rparr>,
        \<lparr>gh_code = 1, gh_out = [], gh_err = ''timeout'', gh_json = None\<rparr>)),
     ti_json = \<lparr>js_load = (\<lambda>_. None), js_dump = (\<lambda>_ _. [])\<rparr>, ti_digest = id, ti_main_tree = (\<lambda>_. None),
     ti_removal = (\<lambda>_ _ _. \<lparr>rm_removed = False, rm_warning = None\<rparr>), ti_worktree_repos = None,
     ti_task_refs = (\<lambda>_. None)\<rparr>"

definition sample_loop :: "manager \<Rightarrow> reconciler" where
  "sample_loop mg = \<lparr>rc_mgr = mg, rc_ci_checked = [], rc_misses = [], rc_import_checked = [],
     rc_announced = [], rc_warned = [], rc_jobs = []\<rparr>"

lemma overdue_attempts_end_witness:
  "map at_state (db_attempts (mg_db (fst (expire_deadlines sample_tick sample_manager)))) = [AS_EXPIRED]"
proof -
  have "at_state sample_row = AS_RUNNING \<and> (\<exists>dl. at_deadline_at sample_row = Some dl \<and> dl < io_now (ti_io sample_tick))"
    by (simp add: sample_tick_def sample_io_def sample_row_def)
  moreover have "db_attempts (mg_db sample_manager) = [sample_row]"
    by (simp add: sample_manager_def sample_db_def)
  ultimately show ?thesis
    using conjunct2 [OF overdue_attempts_end [OF sample_manager_db, of sample_tick]] by simp
qed

text \<open>The attempt of the sample, left landing by a crash, with its trailer on main.\<close>

definition landing_row :: attempt_row where
  "landing_row = sample_row\<lparr>at_state := AS_LANDING, at_cols := [(''repo'', PStr ''web'')]\<rparr>"

definition landing_manager :: manager where
  "landing_manager = sample_manager\<lparr>mg_db := empty_db\<lparr>db_attempts := [landing_row]\<rparr>\<rparr>"

definition landed_tick :: tick where
  "landed_tick = sample_tick\<lparr>ti_trailer := (\<lambda>_ _. Some ''abc'')\<rparr>"

lemma landing_reachable: "reachable_db (mg_db landing_manager)"
proof -
  have created: "create_attempt 0 (sample_args\<lparr>aa_state := AS_LANDING, aa_cols := [(''repo'', PStr ''web'')]\<rparr>) empty_db =
      Inr (mg_db landing_manager, Some landing_row)"
    by code_simp
  show ?thesis
    by (rule reach_step [OF reach_empty], rule step_create [OF created])
      (simp add: sample_args_def lifecycle_sets)
qed

lemma interrupted_land_settled_witness:
  "settles landed_tick landing_row landing_manager AS_LANDED
       (recover_attempt sample_env landed_tick landing_row landing_manager) \<and>
     recover_attempt sample_env (landed_tick\<lparr>ti_land := \<lambda>_. Inl ''crash''\<rparr>) landing_row landing_manager =
       recover_attempt sample_env landed_tick landing_row landing_manager"
proof -
  have "landing_row \<in> set (db_attempts (mg_db landing_manager))" "at_state landing_row = AS_LANDING"
    by (simp_all add: landing_manager_def landing_row_def)
  moreover have "land_repo sample_env landing_row = Some ''web''"
    by code_simp
  then have "trailer_on_main sample_env landed_tick landing_row"
    by (simp add: trailer_on_main_def landed_tick_def)
  ultimately show ?thesis
    using interrupted_land_settled [OF landing_reachable] by blast
qed

end
