(* ===== verification/Tending_Facts.thy ===== *)
theory Tending_Facts
  imports Reconciler_Facts Task_File_Facts Poll_Facts
begin

text \<open>
  What the hygiene duties may touch: the branches that are collected, the holds that are set and
  cleared, the patience with suspect CI answers and the fix tasks of a repository.
\<close>

section \<open>Abandoned branches\<close>

lemma gc_repo_spec:
  "\<exists>jobs. gc_repo ti leased repo rc = (rc\<lparr>rc_jobs := rc_jobs rc @ jobs\<rparr>, Inr ()) \<and>
     (\<forall>(rp, q, t) \<in> set jobs. rp = repo \<and> abandoned (rc_mgr rc) leased (q, t) \<and>
        (q, t) \<in> set (task_local_branches (ti_task_refs ti repo)))"
proof -
  have "\<exists>jobs. each_do (\<lambda>k rc. if abandoned (rc_mgr rc) leased k
        then change (\<lambda>rc. rc\<lparr>rc_jobs := rc_jobs rc @ [(repo, fst k, snd k)]\<rparr>) rc else answer () rc) ks rc =
      (rc\<lparr>rc_jobs := rc_jobs rc @ jobs\<rparr>, Inr ()) \<and>
     (\<forall>(rp, q, t) \<in> set jobs. rp = repo \<and> abandoned (rc_mgr rc) leased (q, t) \<and> (q, t) \<in> set ks)" for ks
  proof (induction ks arbitrary: rc)
    case Nil
    show ?case by (intro exI [of _ "[]"]) simp
  next
    case (Cons k ks)
    show ?case
    proof (cases "abandoned (rc_mgr rc) leased k")
      case True
      obtain jobs where "each_do (\<lambda>k rc. if abandoned (rc_mgr rc) leased k
            then change (\<lambda>rc. rc\<lparr>rc_jobs := rc_jobs rc @ [(repo, fst k, snd k)]\<rparr>) rc else answer () rc) ks
            (rc\<lparr>rc_jobs := rc_jobs rc @ [(repo, fst k, snd k)]\<rparr>) =
          (rc\<lparr>rc_jobs := rc_jobs rc @ (repo, fst k, snd k) # jobs\<rparr>, Inr ())"
          "\<forall>(rp, q, t) \<in> set jobs. rp = repo \<and> abandoned (rc_mgr rc) leased (q, t) \<and> (q, t) \<in> set ks"
        using Cons [of "rc\<lparr>rc_jobs := rc_jobs rc @ [(repo, fst k, snd k)]\<rparr>"] by auto
      then show ?thesis using True
        by (intro exI [of _ "(repo, fst k, snd k) # jobs"])
          (auto simp: each_do_Cons act_bind_def change_def)
    next
      case False
      then show ?thesis using Cons [of rc] by (auto simp: each_do_Cons act_bind_def answer_def)
    qed
  qed
  then show ?thesis by (simp add: gc_repo_def)
qed

lemma gc_repos_spec:
  "\<exists>jobs. each_do (gc_repo ti leased) repos rc = (rc\<lparr>rc_jobs := rc_jobs rc @ jobs\<rparr>, Inr ()) \<and>
     (\<forall>(rp, q, t) \<in> set jobs. rp \<in> set repos \<and> abandoned (rc_mgr rc) leased (q, t) \<and>
        (q, t) \<in> set (task_local_branches (ti_task_refs ti rp)))"
proof (induction repos arbitrary: rc)
  case Nil
  show ?case by (intro exI [of _ "[]"]) simp
next
  case (Cons repo repos)
  obtain here where here: "gc_repo ti leased repo rc = (rc\<lparr>rc_jobs := rc_jobs rc @ here\<rparr>, Inr ())"
      "\<forall>(rp, q, t) \<in> set here. rp = repo \<and> abandoned (rc_mgr rc) leased (q, t) \<and>
        (q, t) \<in> set (task_local_branches (ti_task_refs ti repo))"
    using gc_repo_spec by blast
  obtain rest where "each_do (gc_repo ti leased) repos (rc\<lparr>rc_jobs := rc_jobs rc @ here\<rparr>) =
        (rc\<lparr>rc_jobs := rc_jobs rc @ here @ rest\<rparr>, Inr ())"
      "\<forall>(rp, q, t) \<in> set rest. rp \<in> set repos \<and> abandoned (rc_mgr rc) leased (q, t) \<and>
        (q, t) \<in> set (task_local_branches (ti_task_refs ti rp))"
    using Cons [of "rc\<lparr>rc_jobs := rc_jobs rc @ here\<rparr>"] by auto
  then show ?case using here
    by (intro exI [of _ "here @ rest"]) (auto simp: each_do_Cons act_bind_def)
qed

text \<open>
  The collection tears down abandoned work only. A pass changes nothing of the manager, and
  every job it hands to the executor is for a listed branch of a repository that is there, whose
  task has no live attempt, no brief and no hold.
\<close>

theorem gc_only_abandoned:
  "\<exists>jobs. gc_terminal_artifacts env ti rc = (rc\<lparr>rc_jobs := rc_jobs rc @ jobs\<rparr>, Inr ()) \<and>
    list_all (\<lambda>(repo, q, t). en_repo_available env repo \<and>
      (q, t) \<in> set (task_local_branches (ti_task_refs ti repo)) \<and>
      (q, t) \<notin> set (leased_keys (mg_db (rc_mgr rc))) \<and>
      brief_at (mg_content (rc_mgr rc)) (tasks_rel q) t = None \<and>
      hold_state (q, t) (mg_db (rc_mgr rc)) = None) jobs"
proof (cases "ti_worktree_repos ti")
  case None
  then show ?thesis
    by (intro exI [of _ "[]"]) (simp add: gc_terminal_artifacts_def act_bind_def compute_def answer_def)
next
  case (Some dirs)
  obtain jobs where "each_do (gc_repo ti (leased_keys (mg_db (rc_mgr rc)))) (filter (en_repo_available env) (sort dirs)) rc =
        (rc\<lparr>rc_jobs := rc_jobs rc @ jobs\<rparr>, Inr ())"
      "\<forall>(rp, q, t) \<in> set jobs. rp \<in> set (filter (en_repo_available env) (sort dirs)) \<and>
        abandoned (rc_mgr rc) (leased_keys (mg_db (rc_mgr rc))) (q, t) \<and>
        (q, t) \<in> set (task_local_branches (ti_task_refs ti rp))"
    using gc_repos_spec by blast
  then show ?thesis using Some
    by (intro exI [of _ jobs])
      (auto simp: gc_terminal_artifacts_def act_bind_def compute_def abandoned_def list_all_iff)
qed

section \<open>Suspect answers\<close>

text \<open>
  One bad answer does not move the recorded CI state. While an answer says nothing about the
  branch (the gh call failed, or it lists no runs at a commit whose verdict is known) and fewer than
  three such answers came in a row, a refresh writes nothing to the manager and counts the miss; an
  answer that does say something forgets the misses.
\<close>

theorem suspect_answers_wait:
  assumes "check_repo_ci (en_ftext env) (fst (ti_gh ti repo)) (snd (ti_gh ti repo)) = Inr st"
    and "\<not> throttled (ti_ci_interval ti) (ti_wall ti) (dget (rc_ci_checked rc) repo)"
    and "suspect_status st (find_ci repo (mg_db (rc_mgr rc)))"
    and "dget_or (rc_misses rc) repo 0 + 1 < CI_TRANSIENT_TOLERANCE"
  shows "refresh_repo env ti (repo, queues) rc =
    (rc\<lparr>rc_ci_checked := dset (rc_ci_checked rc) repo (ti_wall ti),
        rc_misses := dset (rc_misses rc) repo (dget_or (rc_misses rc) repo 0 + 1)\<rparr>, Inr ())"
  using assms by (simp add: refresh_repo_def count_miss_def act_bind_def compute_def change_def answer_def)

section \<open>Holds of others\<close>

text \<open>A hold the loop does not own: an operator block whose reason is not one of the routing texts.\<close>

definition operator_block :: "task_row \<Rightarrow> bool" where
  "operator_block r \<longleftrightarrow> tk_state r = Some TH_BLOCKED \<and>
     \<not> (\<exists>p \<in> set UNROUTABLE_REASON_PREFIXES. py_startswith (opt_or (tk_blocked_reason r) []) p)"

text \<open>The row of a task, in a table whose keys are distinct and whose main queue has its own key.\<close>

definition row_kept :: "string \<times> string \<Rightarrow> task_row \<Rightarrow> db \<Rightarrow> bool" where
  "row_kept k r d \<longleftrightarrow> distinct (map task_key (db_tasks d)) \<and> find_row task_key k (db_tasks d) = Some r \<and>
     (\<forall>q \<in> set (db_tasks d). tk_queue q \<noteq> ''main'')"

lemma qkey_from_label: "q \<noteq> ''main'' \<Longrightarrow> qkey (queue_from_label (Some q)) = q"
  by (simp add: queue_from_label_def qkey_def)

lemma kept_hold:
  assumes "row_kept k r d" "(qkey q, t) \<noteq> k" "q \<noteq> Some ''main''"
  shows "row_kept k r (set_task_state now q t h d)"
proof -
  have "task_key x = (qkey q, t) \<or> x \<in> set (db_tasks d)"
    if "x \<in> set (task_upsert now (qkey q, t) h (db_tasks d))" for x
    using that by (auto simp: task_upsert_def sql_upsert_def set_sql_update hold_upsert.key_fresh
        hold_upsert.key_merge split: if_splits)
  moreover have "qkey q \<noteq> ''main''" using assms(3) by (cases q) (auto simp: qkey_def)
  ultimately have "\<forall>x \<in> set (task_upsert now (qkey q, t) h (db_tasks d)). tk_queue x \<noteq> ''main''"
    using assms(1) by (fastforce simp: row_kept_def task_key_def)
  then show ?thesis
    using assms hold_upsert.upsert_lookup [of k "(qkey q, t)" now h "db_tasks d"]
      hold_upsert.upsert_distinct [of "db_tasks d" "(qkey q, t)" now h]
    by (auto simp: row_kept_def set_task_state_def task_upsert_def)
qed

lemma kept_clear:
  assumes "row_kept k r d" "(qkey q, t) \<noteq> k"
  shows "row_kept k r (clear_task_state now q t False d)"
proof -
  let ?rows = "db_tasks d"
  let ?del = "task_release_delete (qkey q, t) ?rows"
  have "find_row task_key k ?del = find_row task_key k ?rows"
    using assms(2) unfolding task_release_delete_def by (intro find_row_sql_delete_other) auto
  moreover have "find_row task_key k (task_release_demote now (qkey q, t) ?del) =
      map_option (\<lambda>x. if task_key x = (qkey q, t) then x\<lparr>tk_state := None, tk_blocked_reason := None, tk_repo := None,
        tk_retry_eligible := False, tk_next_eligible_at := None, tk_updated_at := now\<rparr> else x) (find_row task_key k ?del)"
    unfolding task_release_demote_def by (rule find_row_sql_update) simp
  moreover have "task_key r = k" using assms(1) find_row_Some [of task_key k] by (auto simp: row_kept_def)
  moreover have "distinct (map task_key (task_release_demote now (qkey q, t) ?del))"
    using assms(1) unfolding task_release_demote_def task_release_delete_def
    by (intro distinct_sql_update distinct_sql_delete) (simp_all add: row_kept_def)
  moreover have "\<forall>x \<in> set (task_release_demote now (qkey q, t) ?del). tk_queue x \<noteq> ''main''"
    using assms(1) by (auto simp: row_kept_def task_release_demote_def task_release_delete_def set_sql_update)
  ultimately show ?thesis
    using assms by (simp add: row_kept_def clear_task_state_def Let_def)
qed

lemma kept_hold_state:
  "row_kept (qkey q, t) r d \<Longrightarrow> operator_block r \<Longrightarrow> hold_state (q, t) d = Some TH_BLOCKED"
  by (simp add: row_kept_def hold_state_def get_task_state_def operator_block_def)

lemma kept_event: "row_kept k r (fst (append_events now evs d)) = row_kept k r d"
  by (simp add: row_kept_def append_events_def Let_def)

text \<open>What is needed of the candidates: they are of the queues the manager knows, and the repository
  of the held task is there.\<close>

definition harmless :: "env \<Rightarrow> string \<times> string \<Rightarrow> task_candidate \<Rightarrow> bool" where
  "harmless env k c \<longleftrightarrow> tc_queue c \<noteq> Some ''main'' \<and>
     ((qkey (tc_queue c), tc_task c) = k \<longrightarrow> tc_repo_error c = None \<longrightarrow>
        opt_or (tc_repo c) [] = [] \<or> en_repo_available env (opt_or (tc_repo c) []))"

abbreviation kept :: "string \<times> string \<Rightarrow> task_row \<Rightarrow> reconciler \<Rightarrow> bool" where
  "kept k r rc \<equiv> row_kept k r (mg_db (rc_mgr rc))"

lemma keeps_kept_emit: "keeps (kept k r) (on_mgr (emit now ev))"
  by (simp add: keeps_def on_mgr_def emit_def on_db_def change_def kept_event)

lemma kept_block:
  assumes "operator_block r" "q \<noteq> Some ''main''"
  shows "keeps (kept k r) (on_mgr (block_task ti (q, t) reason))"
proof -
  have "kept k r (fst (on_mgr (block_task ti (q, t) reason) rc))" if "kept k r rc" for rc
  proof (cases "hold_state (q, t) (mg_db (rc_mgr rc)) = Some TH_BLOCKED")
    case False
    then have "(qkey q, t) \<noteq> k"
      using that assms(1) kept_hold_state by blast
    then show ?thesis using False that assms(2)
      by (simp add: on_mgr_def block_task_def act_bind_def on_db_def change_def emit_def kept_event kept_hold)
  qed (use that in \<open>simp add: on_mgr_def block_task_def\<close>)
  then show ?thesis by (simp add: keeps_def)
qed

lemma kept_candidate:
  assumes "operator_block r" "harmless env k c"
  shows "keeps (kept k r) (hold_for_repo env ti red rows c)"
proof -
  have q: "tc_queue c \<noteq> Some ''main''" using assms(2) by (simp add: harmless_def)
  have block: "keeps (kept k r) (on_mgr (block_task ti (cand_key c) reason))" for reason
    using kept_block [OF assms(1) q] by (simp add: cand_key_def)
  have warn: "keeps (kept k r) (warn_repo ti c repo)" for repo
    using keeps_kept_emit by (simp add: keeps_def warn_repo_def act_bind_def change_def split: prod.split)
  have red: "keeps (kept k r) (on_mgr (on_db (\<lambda>d. if hold_state (cand_key c) d = None
      then set_task_state now (fst (cand_key c)) (snd (cand_key c)) h d else d)))" for now h
    using assms(1) q kept_hold kept_hold_state
    by (fastforce simp: keeps_def on_mgr_def on_db_def change_def cand_key_def)
  have gone: "keeps (kept k r) (on_mgr (on_db (\<lambda>d. if hold_state (cand_key c) d = Some TH_REPO_UNAVAILABLE then d
      else set_task_state now (fst (cand_key c)) (snd (cand_key c)) h d)))"
    if "tc_repo_error c = None" "opt_or (tc_repo c) [] \<noteq> []" "\<not> en_repo_available env (opt_or (tc_repo c) [])" for now h
    using that assms(2) q kept_hold by (auto simp: keeps_def on_mgr_def on_db_def change_def cand_key_def harmless_def)
  show ?thesis
    unfolding hold_for_repo_def Let_def
    by (auto intro!: keeps_rules warn red gone block split: option.split)
qed

lemma keeps_each_in: "(\<And>x. x \<in> set xs \<Longrightarrow> keeps P (f x)) \<Longrightarrow> keeps P (each_do f xs)"
proof (induction xs)
  case Nil
  show ?case by (simp add: keeps_def)
next
  case (Cons x xs)
  then show ?case by (auto simp: each_do_Cons intro!: keeps_bind)
qed

lemma kept_clear_rows:
  assumes "task_key r = k" "tk_state r \<noteq> Some kind \<or> \<not> p r"
  shows "keeps (kept k r) (clear_rows ti kind p)"
proof -
  have "kept k r (fst (clear_rows ti kind p rc))" if row: "kept k r rc" for rc
  proof -
    let ?rows = "filter p (tasks_in_state kind (mg_db (rc_mgr rc)))"
    have "keeps (kept k r) (each_do (clear_row ti) ?rows)"
    proof (rule keeps_each_in)
      fix x assume x: "x \<in> set ?rows"
      have "x \<noteq> r" using x assms(2) by (auto simp: tasks_in_state_def)
      moreover have "r \<in> set (db_tasks (mg_db (rc_mgr rc)))"
        using row find_row_Some [of task_key k] by (auto simp: row_kept_def)
      ultimately have "task_key x \<noteq> k"
        using x row assms(1) by (auto simp: row_kept_def tasks_in_state_def distinct_map dest: inj_onD)
      then have "(qkey (queue_from_label (Some (tk_queue x))), tk_task x) \<noteq> k"
        using x row by (auto simp: row_kept_def tasks_in_state_def qkey_from_label task_key_def)
      then show "keeps (kept k r) (clear_row ti x)"
        using kept_clear by (simp add: keeps_def clear_row_def on_mgr_def on_db_def change_def)
    qed
    then show ?thesis using row by (simp add: keeps_def clear_rows_def)
  qed
  then show ?thesis by (simp add: keeps_def)
qed

lemma act_bind_keeps_at:
  "P rc \<Longrightarrow> (\<And>x. f rc = Inr x \<Longrightarrow> keeps P (g x)) \<Longrightarrow> P (fst (act_bind (compute f) g rc))"
  by (auto simp: act_bind_def compute_def keeps_def split: sum.splits)

text \<open>
  C25: the loop leaves alone the holds it does not own. A task that an operator, a validation or a
  failed land has blocked keeps its row, reason and state through the hold duty, whatever the
  candidates, the workers and the CI states are, as long as the repository of that task is there.
\<close>

theorem operator_block_survives:
  assumes "operator_block r" "row_kept k r (mg_db (rc_mgr rc))"
    and "\<And>by_queue c. hold_candidates env (rc_mgr rc) = Inr by_queue \<Longrightarrow>
      c \<in> set (all_candidates by_queue) \<Longrightarrow> harmless env k c"
  shows "row_kept k r (mg_db (rc_mgr (fst (reconcile_holds env ti rc))))"
proof -
  have key: "task_key r = k"
    using assms(2) find_row_Some [of task_key k] by (auto simp: row_kept_def)
  have tail: "keeps (kept k r) (act_bind (clear_rows ti TH_REPO_UNAVAILABLE (repo_is_back env)) (\<lambda>_.
      act_bind (clear_rows ti TH_CI_RED (repo_not_red red)) (\<lambda>_. clear_rows ti TH_BLOCKED (routable_again cs stuck))))"
    for red cs stuck
    using assms(1) key
    by (intro keeps_bind kept_clear_rows) (auto simp: operator_block_def routable_again_def)
  show ?thesis
    unfolding reconcile_holds_def
  proof (rule act_bind_keeps_at [where P = "kept k r"])
    fix by_queue
    assume "hold_candidates env (rc_mgr rc) = Inr by_queue"
    then have cands: "\<forall>c \<in> set (all_candidates by_queue). harmless env k c"
      using assms(3) by blast
    have stuck: "keeps (kept k r) (each_do (hold_unroutable ti qs) (stuck_candidates mg by_queue))" for qs mg
    proof (rule keeps_each_in)
      fix p assume "p \<in> set (stuck_candidates mg by_queue)"
      then have "fst p \<in> set (all_candidates by_queue)"
        by (force simp: stuck_candidates_def unroutable_def all_candidates_def List.map_filter_def split: if_splits)
      then have "tc_queue (fst p) \<noteq> Some ''main''" using cands by (auto simp: harmless_def)
      then show "keeps (kept k r) (hold_unroutable ti qs p)"
        using kept_block [OF assms(1)] by (auto simp: hold_unroutable_def cand_key_def intro!: keeps_rules)
    qed
    have held: "keeps (kept k r) (each_do (hold_for_repo env ti red rows)
        (filter (\<lambda>c. cand_key c \<notin> qs) (all_candidates by_queue)))" for red rows qs
      by (rule keeps_each_in) (use cands kept_candidate [OF assms(1)] in auto)
    show "keeps (kept k r) (act_bind (compute (\<lambda>rc. held_tasks (mg_content (rc_mgr rc)) ''quarantined'')) (\<lambda>quarantined.
       act_bind (compute (\<lambda>rc. watched_repos env (mg_content (rc_mgr rc)))) (\<lambda>watched.
       act_bind (compute (\<lambda>rc. Inr (db_repo_ci (mg_db (rc_mgr rc))))) (\<lambda>rows.
       act_bind (compute (\<lambda>rc. Inr (red_watched (mg_db (rc_mgr rc)) watched))) (\<lambda>red.
       act_bind (compute (\<lambda>rc. Inr (stuck_candidates (rc_mgr rc) by_queue))) (\<lambda>stuck.
       act_bind (each_do (hold_unroutable ti (set quarantined)) stuck) (\<lambda>_.
       act_bind (each_do (hold_for_repo env ti red rows)
          (filter (\<lambda>c. cand_key c \<notin> set quarantined) (all_candidates by_queue))) (\<lambda>_.
       act_bind (clear_rows ti TH_REPO_UNAVAILABLE (repo_is_back env)) (\<lambda>_.
       act_bind (clear_rows ti TH_CI_RED (repo_not_red red)) (\<lambda>_.
         clear_rows ti TH_BLOCKED (routable_again (set (map cand_key (all_candidates by_queue)))
           (set (map (cand_key \<circ> fst) stuck)))))))))))))"
      by (rule keeps_compute_bind)+ (auto intro!: keeps_bind [OF stuck keeps_bind [OF held tail]])
  qed (rule assms(2))
qed

section \<open>Concrete passes\<close>

text \<open>A manager with one worker that offers a model, one brief, and the overlay rows.\<close>

definition staffed :: "string list \<Rightarrow> task_row list \<Rightarrow> manager" where
  "staffed ls rows = (sample_holding ls)\<lparr>mg_db := (fst (register_worker 190 ''w1''
     \<lparr>wa_backend = ''cli'', wa_queues = None, wa_priorities = None, wa_models = Some [''claude''],
      wa_mcps = None, wa_meta = None\<rparr> empty_db))\<lparr>db_tasks := rows\<rparr>\<rparr>"

definition needs_resolve :: task_row where
  "needs_resolve = \<lparr>tk_queue = [], tk_task = ''fix'', tk_state = Some TH_BLOCKED,
     tk_blocked_reason = Some ''needs resolve: conflict'', tk_repo = None, tk_retry_eligible = False,
     tk_attempts = 0, tk_next_eligible_at = None, tk_updated_at = 100\<rparr>"

lemma suspect_answers_wait_witness:
  "rc_misses (fst (refresh_repo sample_env sample_tick (''web'', [None]) (sample_loop sample_manager))) = [(''web'', 1)]"
proof -
  have "case check_repo_ci (en_ftext sample_env) (fst (ti_gh sample_tick ''web'')) (snd (ti_gh sample_tick ''web''))
      of Inl e \<Rightarrow> False | Inr st \<Rightarrow> suspect_status st (find_ci ''web'' (mg_db (rc_mgr (sample_loop sample_manager))))"
    by code_simp
  then obtain st where "check_repo_ci (en_ftext sample_env) (fst (ti_gh sample_tick ''web'')) (snd (ti_gh sample_tick ''web'')) = Inr st"
      "suspect_status st (find_ci ''web'' (mg_db (rc_mgr (sample_loop sample_manager))))"
    by (auto split: sum.splits)
  moreover have "\<not> throttled (ti_ci_interval sample_tick) (ti_wall sample_tick)
      (dget (rc_ci_checked (sample_loop sample_manager)) ''web'')"
    by code_simp
  moreover have "dget_or (rc_misses (sample_loop sample_manager)) ''web'' 0 + 1 < CI_TRANSIENT_TOLERANCE"
    by code_simp
  ultimately show ?thesis
    using suspect_answers_wait [of sample_env sample_tick "''web''"] by (simp add: sample_loop_def dget_or_def)
qed

lemma operator_block_survives_witness:
  "row_kept ([], ''fix'') needs_resolve (mg_db (rc_mgr (fst (reconcile_holds sample_env sample_tick
     (sample_loop (staffed [''repo: web''] [needs_resolve]))))))"
proof (rule operator_block_survives)
  show "operator_block needs_resolve" by code_simp
  show "row_kept ([], ''fix'') needs_resolve (mg_db (rc_mgr (sample_loop (staffed [''repo: web''] [needs_resolve]))))"
    by code_simp
  have "case hold_candidates sample_env (rc_mgr (sample_loop (staffed [''repo: web''] [needs_resolve]))) of
      Inl e \<Rightarrow> False | Inr by_queue \<Rightarrow> list_all (harmless sample_env ([], ''fix'')) (all_candidates by_queue)"
    by code_simp
  then show "hold_candidates sample_env (rc_mgr (sample_loop (staffed [''repo: web''] [needs_resolve]))) = Inr by_queue \<Longrightarrow>
      c \<in> set (all_candidates by_queue) \<Longrightarrow> harmless sample_env ([], ''fix'') c" for by_queue c
    by (simp add: list_all_iff)
qed

text \<open>
  The exception: a hold for an absent repository is written over any other hold, and cleared when
  the repository is back. A task that is blocked because its land needs a resolve is dispatched
  again after one pass without the repository and one with it.
\<close>

definition repo_away :: env where
  "repo_away = sample_env\<lparr>en_repo_available := \<lambda>_. False\<rparr>"

theorem vanished_repo_releases_block:
  "polled_task (worker_poll sample_env sample_io sample_poll (staffed [''repo: web''] [needs_resolve])) = None \<and>
   polled_task (worker_poll sample_env sample_io sample_poll
     (rc_mgr (fst (reconcile_once sample_env sample_tick (fst (reconcile_once repo_away sample_tick
       (sample_loop (staffed [''repo: web''] [needs_resolve])))))))) = Some ''fix''"
  by code_simp

text \<open>
  The loop judges a workflow task by the model its frontmatter pins for the implementor, not by the
  model of its current step: a planning step that the registered worker serves is blocked.
\<close>

definition planning_env :: env where
  "planning_env = sample_env\<lparr>en_cfg := sample_cfg\<lparr>cf_planner_model := ''claude''\<rparr>\<rparr>"

definition planning :: manager where
  "planning = (staffed [''repo: web'', ''workflow: feature'', ''model: ollama/big''] [])
     \<lparr>mg_workflows := [(''feature'', sample_workflow)]\<rparr>"

theorem served_step_is_blocked:
  "polled_task (worker_poll planning_env sample_io sample_poll planning) = Some ''fix'' \<and>
   polled_task (worker_poll planning_env sample_io sample_poll
     (rc_mgr (fst (reconcile_once planning_env sample_tick (sample_loop planning))))) = None"
  by code_simp

end
