(* ===== verification/Inbox_Facts.thy ===== *)
theory Inbox_Facts
  imports Repo_Inbox Task_File_Facts
begin

text \<open>
  What an import of published briefs does: which briefs it writes and which it may replace, which
  files the removal commit touches, and when a brief that was already imported is recognised.
\<close>

section \<open>Copying a batch\<close>

definition imported :: "repo_task \<Rightarrow> bool" where
  "imported e \<longleftrightarrow> \<not> rt_duplicate e \<and> \<not> rt_started e"

text \<open>An offered brief and its row: the text arrived, under its own name when it replaces an
  unstarted brief and under a free name otherwise.\<close>

definition copied :: "content \<Rightarrow> content \<Rightarrow> string \<Rightarrow> repo_task \<Rightarrow> import_row \<Rightarrow> bool" where
  "copied ct ct' rel e r \<longleftrightarrow>
     brief_at ct' rel (ir_task r) = Some (rt_text e) \<and> ir_title r = rt_title e \<and>
     (if ir_replaced r then rt_replaces e \<and> ir_task r = rt_name e \<and> brief_at ct rel (rt_name e) \<noteq> None
      else brief_at ct rel (ir_task r) = None)"

lemma qd_config_write [simp]: "qd_config (queue_at (write_brief ct rel t d) rel') = qd_config (queue_at ct rel')"
  by (simp add: write_brief_def)

lemma copy_fold_spec:
  assumes "fold (copy_entry rel) es (ct, rows, written, appended) = (ct', rows', written', appended')"
  shows "\<exists>new. rows' = rows @ new \<and>
    appended' = appended @ map ir_task (filter (\<lambda>r. \<not> ir_replaced r) new) \<and>
    distinct (map ir_task new) \<and> set (map ir_task new) \<inter> set written = {} \<and>
    list_all2 (copied ct ct' rel) (filter imported es) new \<and>
    (\<forall>rel' t. rel' \<noteq> rel \<or> t \<notin> set (map ir_task new) \<longrightarrow> brief_at ct' rel' t = brief_at ct rel' t) \<and>
    (\<forall>rel'. qd_config (queue_at ct' rel') = qd_config (queue_at ct rel'))"
  using assms
proof (induction es arbitrary: ct rows written appended)
  case Nil
  then show ?case by (intro exI [of _ "[]"]) simp
next
  case (Cons e es)
  show ?case
  proof (cases "imported e")
    case False
    then have "copy_entry rel e (ct, rows, written, appended) = (ct, rows, written, appended)"
      by (auto simp: copy_entry_def imported_def)
    then show ?thesis using Cons False by simp
  next
    case True
    define rep where "rep = (rt_replaces e \<and> rt_name e \<notin> set written \<and> brief_at ct rel (rt_name e) \<noteq> None)"
    define name where "name = (if rep then rt_name e else unique_name (written @ stems_at ct rel) (rt_name e))"
    define row where "row = \<lparr>ir_task = name, ir_title = rt_title e, ir_replaced = rep\<rparr>"
    let ?ct = "write_brief ct rel name (rt_text e)"
    have step: "copy_entry rel e (ct, rows, written, appended) =
        (?ct, rows @ [row], name # written, if rep then appended else appended @ [name])"
      using True by (simp add: copy_entry_def imported_def Let_def rep_def name_def row_def)
    have name: "name \<notin> set written" "\<not> rep \<longrightarrow> brief_at ct rel name = None"
      using unique_name_fresh [of "written @ stems_at ct rel" "rt_name e"] stems_at_brief [of _ ct rel]
      by (auto simp: name_def rep_def)
    obtain new where new: "rows' = (rows @ [row]) @ new"
        "appended' = (if rep then appended else appended @ [name]) @ map ir_task (filter (\<lambda>r. \<not> ir_replaced r) new)"
        "distinct (map ir_task new)" "set (map ir_task new) \<inter> set (name # written) = {}"
        "list_all2 (copied ?ct ct' rel) (filter imported es) new"
        "\<forall>rel' t. rel' \<noteq> rel \<or> t \<notin> set (map ir_task new) \<longrightarrow> brief_at ct' rel' t = brief_at ?ct rel' t"
        "\<forall>rel'. qd_config (queue_at ct' rel') = qd_config (queue_at ?ct rel')"
      using Cons.IH [of ?ct "rows @ [row]" "name # written" "if rep then appended else appended @ [name]"]
        Cons.prems step by auto
    have "list_all2 (copied ct ct' rel) (filter imported es) new"
      using new(5)
    proof (rule list.rel_mono_strong)
      fix x r assume "r \<in> set new" "copied ?ct ct' rel x r"
      moreover from this have "ir_task r \<noteq> name" using new(4) by auto
      ultimately show "copied ct ct' rel x r" by (auto simp: copied_def split: if_splits)
    qed
    moreover have "copied ct ct' rel e row"
      using new(4,6) name(2) by (auto simp: copied_def row_def rep_def name_def)
    ultimately show ?thesis
      using True new name by (intro exI [of _ "row # new"]) (auto simp: row_def)
  qed
qed

text \<open>
  C26: an import of a batch loses nothing. Every offered brief that is neither a copy of one the
  queue has nor already begun arrives with its text in a row of its own; the rows have different
  names; a brief of the queue is overwritten only by an offered brief of that very name that may
  replace it, and every other brief of every queue keeps its text; the new names, and only they,
  are appended to the order.
\<close>

theorem batch_import_loses_nothing:
  assumes "copy_repo_tasks ftext ct rel offered = (ct', rows)"
  shows "list_all2 (copied ct ct' rel) (filter imported offered) rows \<and> distinct (map ir_task rows) \<and>
    (\<forall>rel' t d. brief_at ct rel' t = Some d \<longrightarrow> brief_at ct' rel' t = Some d \<or>
       rel' = rel \<and> (\<exists>e \<in> set offered. rt_replaces e \<and> rt_name e = t)) \<and>
    load_order ftext (qd_config (queue_at ct' rel)) = load_order ftext (qd_config (queue_at ct rel)) @
      map ir_task (filter (\<lambda>r. \<not> ir_replaced r) rows)"
proof -
  obtain ct1 written appended where run: "fold (copy_entry rel) offered (ct, [], [], []) = (ct1, rows, written, appended)"
    and ct': "ct' = (if appended = [] then ct1
         else set_order ct1 rel (load_order ftext (qd_config (queue_at ct1 rel)) @ appended))"
    using assms by (auto simp: copy_repo_tasks_def split: prod.splits)
  from copy_fold_spec [OF run] have spec:
      "appended = map ir_task (filter (\<lambda>r. \<not> ir_replaced r) rows)" "distinct (map ir_task rows)"
      "list_all2 (copied ct ct1 rel) (filter imported offered) rows"
      "\<forall>rel' t. rel' \<noteq> rel \<or> t \<notin> set (map ir_task rows) \<longrightarrow> brief_at ct1 rel' t = brief_at ct rel' t"
      "\<forall>rel'. qd_config (queue_at ct1 rel') = qd_config (queue_at ct rel')"
    by auto
  have briefs: "brief_at ct' = brief_at ct1" by (rule ext)+ (simp add: ct')
  have "brief_at ct' rel' t = Some d \<or> rel' = rel \<and> (\<exists>e \<in> set offered. rt_replaces e \<and> rt_name e = t)"
    if d: "brief_at ct rel' t = Some d" for rel' t d
  proof (cases "rel' \<noteq> rel \<or> t \<notin> set (map ir_task rows)")
    case True
    then show ?thesis using spec(4) d briefs by auto
  next
    case False
    then obtain r where r: "r \<in> set rows" "ir_task r = t" by auto
    then obtain e where "e \<in> set (filter imported offered)" "copied ct ct1 rel e r"
      using spec(3) by (metis in_set_conv_nth list_all2_conv_all_nth nth_mem)
    then show ?thesis using False d r by (auto simp: copied_def split: if_splits)
  qed
  moreover have "list_all2 (copied ct ct' rel) (filter imported offered) rows"
    using spec(3) by (simp add: copied_def [abs_def] briefs)
  moreover have "load_order ftext (qd_config (queue_at ct' rel)) =
      load_order ftext (qd_config (queue_at ct rel)) @ appended"
    using spec(5) by (simp add: ct' set_order_def)
  ultimately show ?thesis using spec by blast
qed


section \<open>The removal commit\<close>

lemma dget_fold_edits:
  "dget (foldl (\<lambda>d (k, v). dset d k v) d es) p = (case dget (rev es) p of None \<Rightarrow> dget d p | Some v \<Rightarrow> Some v)"
proof (induction es arbitrary: d)
  case (Cons e es)
  then show ?case by (cases e) (auto simp: map_add_def split: option.split)
qed simp

lemma dget_rev_None: "dget (rev es) p = None \<longleftrightarrow> p \<notin> fst ` set es"
  by (simp add: map_of_eq_None_iff)

lemma dget_rev_const:
  assumes "(p, v) \<in> set es" "\<And>w. (p, w) \<in> set es \<Longrightarrow> w = v"
  shows "dget (rev es) p = Some v"
proof -
  have "dget (rev es) p \<noteq> None" using assms(1) dget_rev_None [of es p] by force
  then obtain w where "dget (rev es) p = Some w" by blast
  moreover from this have "(p, w) \<in> set es" using map_of_SomeD by force
  ultimately show ?thesis using assms(2) by simp
qed

text \<open>The order file of an inbox.\<close>

definition order_file :: "string \<Rightarrow> bool" where
  "order_file p \<longleftrightarrow> py_endswith p ''/config.json''"

lemma order_file_of: "order_file (inbox @ ''/config.json'')"
  by (simp add: order_file_def py_endswith_def)

lemma pruned_order_file: "pruned_order ftext js t gone inbox = Some v \<Longrightarrow> dget t (inbox @ ''/config.json'') \<noteq> None"
  by (auto simp: pruned_order_def split: option.splits)

lemma in_map_filter: "y \<in> set (List.map_filter f xs) \<longleftrightarrow> (\<exists>x \<in> set xs. f x = Some y)"
  by (force simp: List.map_filter_def)

lemma prune_edits:
  assumes "(p, v) \<in> set (prune_inbox_orders ftext js t sources deleted)"
  shows "order_file p \<and> dget t p \<noteq> None \<and>
    (\<exists>inbox. p = inbox @ ''/config.json'' \<and> (inbox = REPO_TASKS_DIR \<or> under REPO_TASKS_DIR inbox))"
  using assms pruned_order_file
  by (auto simp: prune_inbox_orders_def in_map_filter order_file_of split: if_splits)

lemma disable_edits:
  "(p, v) \<in> set (disable_inbox_sources t sources deleted) \<longleftrightarrow>
     p \<in> set sources \<and> p \<notin> set deleted \<and>
     (\<exists>raw. dget t p = Some raw \<and> v = set_frontmatter_text raw [(''disabled'', Some (SBool True))] \<and> v \<noteq> raw)"
  by (auto simp: disable_inbox_sources_def in_map_filter Let_def split: option.splits if_splits)

lemma compose_two:
  "dget (compose_rewrites [f, g] deleted) p =
     (case dget (rev (g deleted)) p of None \<Rightarrow> dget (rev (f deleted)) p | Some v \<Rightarrow> Some v)"
  by (simp add: compose_rewrites_def dget_fold_edits split: option.split)

lemma compose_distinct: "distinct (dkeys (compose_rewrites rws deleted))"
proof -
  have edits: "distinct (dkeys d) \<Longrightarrow> distinct (dkeys (foldl (\<lambda>d (k, v). dset d k v) d es))" for d es
    by (induction es arbitrary: d) auto
  have "distinct (dkeys d) \<Longrightarrow>
      distinct (dkeys (foldl (\<lambda>es rw. foldl (\<lambda>d (k, v). dset d k v) es (rw deleted)) d rws))" for d
    by (induction rws arbitrary: d) (simp_all add: edits)
  then show ?thesis by (simp add: compose_rewrites_def)
qed

lemma dget_rev_distinct: "distinct (dkeys es) \<Longrightarrow> dget (rev es) = dget es"
proof
  fix p assume keys: "distinct (dkeys es)"
  show "dget (rev es) p = dget es p"
  proof (cases "dget es p")
    case None
    then have "p \<notin> fst ` set es" by (simp add: map_of_eq_None_iff)
    then show ?thesis using None dget_rev_None by metis
  next
    case (Some v)
    then have v: "(p, v) \<in> set es" by (rule map_of_SomeD)
    have "dget (rev es) p = Some v"
      by (rule dget_rev_const [OF v]) (rule eq_key_imp_eq_value [OF keys _ v])
    then show ?thesis using Some by simp
  qed
qed

lemma dget_filter_out: "dget (filter (\<lambda>(q, _). q \<notin> S) t) p = (if p \<in> S then None else dget t p)"
  by (induction t) auto

lemma delete_tree_lookup:
  assumes "delete_tree t paths rewrite = Some t'" "distinct (dkeys (rewrite (selected t paths)))"
  shows "dget t' p = (case dget (rewrite (selected t paths)) p of Some v \<Rightarrow> Some v
    | None \<Rightarrow> if p \<in> set (selected t paths) then None else dget t p)"
proof -
  have "t' = foldl (\<lambda>d (k, v). dset d k v) (filter (\<lambda>(q, _). q \<notin> set (selected t paths)) t) (rewrite (selected t paths))"
    using assms(1) by (auto simp: delete_tree_def Let_def split: if_splits)
  then show ?thesis
    by (simp add: dget_fold_edits dget_filter_out dget_rev_distinct [OF assms(2)] split: option.split)
qed

text \<open>A brief that stays held.\<close>

definition held_text :: "string \<Rightarrow> string" where
  "held_text raw = set_frontmatter_text raw [(''disabled'', Some (SBool True))]"

lemma held_lookup:
  "dget (rev (disable_inbox_sources t sources deleted)) p =
     (if p \<in> set sources \<and> p \<notin> set deleted then
        Option.bind (dget t p) (\<lambda>raw. if held_text raw = raw then None else Some (held_text raw))
      else None)"
proof (cases "dget (rev (disable_inbox_sources t sources deleted)) p")
  case None
  then have "(p, v) \<notin> set (disable_inbox_sources t sources deleted)" for v
    using dget_rev_None [of "disable_inbox_sources t sources deleted" p] by force
  then show ?thesis using None by (auto simp: disable_edits held_text_def split: bind_split)
next
  case (Some v)
  then have "(p, v) \<in> set (disable_inbox_sources t sources deleted)" using map_of_SomeD by force
  then show ?thesis using Some by (auto simp: disable_edits held_text_def)
qed

lemma under_iff: "under dir p \<longleftrightarrow> (\<exists>rest. p = dir @ ''/'' @ rest)"
proof
  assume "under dir p"
  then have "p = (dir @ ''/'') @ drop (length (dir @ ''/'')) p"
    using append_take_drop_id [of "length (dir @ ''/'')" p] by (simp add: under_def py_startswith_def)
  then show "\<exists>rest. p = dir @ ''/'' @ rest" by auto
qed (auto simp: under_def py_startswith_def)

lemma prune_lookup:
  assumes "dget (rev (prune_inbox_orders ftext js t sources deleted)) p = Some v"
  shows "order_file p \<and> dget t p \<noteq> None \<and> under REPO_TASKS_DIR p"
proof -
  have "(p, v) \<in> set (prune_inbox_orders ftext js t sources deleted)" using assms map_of_SomeD by force
  then have "order_file p" "dget t p \<noteq> None"
      "\<exists>inbox. p = inbox @ ''/config.json'' \<and> (inbox = REPO_TASKS_DIR \<or> under REPO_TASKS_DIR inbox)"
    using prune_edits by blast+
  then show ?thesis by (auto simp: under_iff)
qed

lemma selected_keys: "p \<in> set (selected t paths) \<Longrightarrow> dget t p \<noteq> None"
  by (auto simp: selected_def map_of_eq_None_iff)

text \<open>
  C27: the commit that drains an inbox touches what was imported and nothing else. In the tree it
  leaves, a drained brief is gone, a refused brief that is still there is the same file with
  \<^verbatim>\<open>disabled: true\<close>, an order file can only change where it was and below the
  repository's task directory, and every other file has the text it had.
\<close>

theorem removal_is_exact:
  assumes "removal_tree ftext js t sources disable = Some t'"
  shows "(\<not> order_file p \<longrightarrow> dget t' p =
      (if p \<in> set (selected t sources) then None
       else if p \<in> set disable then map_option held_text (dget t p) else dget t p)) \<and>
    (dget t p = None \<longrightarrow> dget t' p = None) \<and>
    (dget t' p \<noteq> dget t p \<longrightarrow> p \<in> set (selected t sources) \<or> p \<in> set disable \<or> under REPO_TASKS_DIR p)"
proof -
  let ?del = "selected t sources"
  let ?prune = "dget (rev (prune_inbox_orders ftext js t sources ?del)) p"
  let ?hold = "dget (rev (disable_inbox_sources t disable ?del)) p"
  have look: "dget t' p = (case ?hold of Some v \<Rightarrow> Some v
      | None \<Rightarrow> (case ?prune of Some v \<Rightarrow> Some v | None \<Rightarrow> if p \<in> set ?del then None else dget t p))"
    using delete_tree_lookup [OF assms [unfolded removal_tree_def] compose_distinct, of p]
    by (simp add: compose_two split: option.splits)
  show ?thesis
  proof (cases ?prune)
    case None
    then show ?thesis using look selected_keys [of p t sources]
      by (auto simp: held_lookup split: bind_splits option.splits)
  next
    case (Some v)
    then show ?thesis using look prune_lookup [OF Some]
      by (auto simp: held_lookup split: bind_splits option.splits)
  qed
qed


section \<open>Recognising a replay\<close>

text \<open>The frontmatter of a copy of a published brief.\<close>

definition copy_meta :: "(string \<Rightarrow> string) \<Rightarrow> meta \<Rightarrow> string \<Rightarrow> string \<Rightarrow> string \<Rightarrow> string \<Rightarrow> string \<Rightarrow> meta" where
  "copy_meta digest m text stem repo source model =
     dset (dset (normalize_frontmatter m stem repo model)
       ''imported_from'' (SStr (repo @ ''/'' @ source))) ''imported_digest'' (SStr (digest text))"

text \<open>No brief of the list claims to come from a path.\<close>

definition silent_about :: "string \<Rightarrow> string \<Rightarrow> bool" where
  "silent_about key text \<longleftrightarrow> (case split_frontmatter text of Inl e \<Rightarrow> False | Inr (m, body) \<Rightarrow>
     (case dget m ''imported_from'' of None \<Rightarrow> True | Some v \<Rightarrow> scalar_str v \<noteq> key))"

lemma pending_silent:
  "\<forall>text \<in> set texts. silent_about key text \<Longrightarrow>
     \<exists>out'. pending_from out texts = Inr out' \<and> dget out' key = dget out key"
proof (induction texts arbitrary: out)
  case (Cons t ts)
  show ?case
  proof (cases "py_startswith t ''---''")
    case False
    then show ?thesis using Cons by simp
  next
    case True
    obtain m body where m: "split_frontmatter t = Inr (m, body)"
        "\<forall>v. dget m ''imported_from'' = Some v \<longrightarrow> scalar_str v \<noteq> key"
      using Cons.prems by (auto simp: silent_about_def split: sum.splits option.splits)
    obtain out' where "pending_from (pending_entry m out) ts = Inr out'" "dget out' key = dget (pending_entry m out) key"
      using Cons by fastforce
    moreover have "dget (pending_entry m out) key = dget out key"
      using m(2) by (auto simp: pending_entry_def split: option.split)
    ultimately show ?thesis using True m(1) by auto
  qed
qed simp

lemma pending_append:
  "pending_from out (xs @ ys) = bind_result (pending_from out xs) (\<lambda>out'. pending_from out' ys)"
proof (induction out xs rule: pending_from.induct)
  case (2 out t ts)
  then show ?case by (cases "split_frontmatter t") (auto split: prod.split)
qed simp


lemma distinct_meta_lines: "distinct (dkeys acc) \<Longrightarrow> meta_lines acc ls = Inr m \<Longrightarrow> distinct (dkeys m)"
proof (induction acc ls rule: meta_lines.induct)
  case (2 acc l ls)
  then show ?case by (auto simp: bind_result_eq_Inr_iff split: option.splits prod.splits)
qed simp

lemma copy_reads_back:
  assumes "imported_brief_text digest published stem repo source model = Inr copy"
    and "(if py_startswith published ''---'' then split_frontmatter published else Inr ([], published)) = Inr (m, body)"
    and "\<forall>(k, v) \<in> set (copy_meta digest m published stem repo source model).
      meta_key k \<and> meta_plain v \<and> plain_line (meta_line k v)"
  shows "py_startswith copy ''---'' \<and> (\<exists>body'. split_frontmatter copy =
    Inr (copy_meta digest m published stem repo source model, body'))"
proof -
  let ?m = "copy_meta digest m published stem repo source model"
  have copy: "copy = join_frontmatter ?m body"
    using assms(1,2) by (simp add: imported_brief_text_def copy_meta_def)
  have "distinct (dkeys m)"
    using assms(2) distinct_meta_lines [of "[]"]
    by (auto simp: split_frontmatter_def bind_result_eq_Inr_iff split: if_splits option.splits)
  then have "distinct (map fst ?m)"
    by (simp add: copy_meta_def normalize_frontmatter_def Let_def)
  moreover have "set (dkeys ?m) \<noteq> {}"
    unfolding copy_meta_def set_dkeys_dset by simp
  then have "?m \<noteq> []" by auto
  ultimately show ?thesis
    using split_joined [OF _ _ assms(3)] by (simp add: copy join_frontmatter_def py_startswith_def)
qed


text \<open>
  A brief that was imported is not imported twice. When the copy sits in the queue and no other
  brief there claims its path, the next scan recognises the published text as a replay, and any
  text with another digest as a new publication.
\<close>

theorem replay_recognised:
  assumes "imported_brief_text digest published stem repo source model = Inr copy"
    and "(if py_startswith published ''---'' then split_frontmatter published else Inr ([], published)) = Inr (m, body)"
    and "\<forall>(k, v) \<in> set (copy_meta digest m published stem repo source model).
      meta_key k \<and> meta_plain v \<and> plain_line (meta_line k v)"
    and "digest published \<noteq> []" "repo \<noteq> []"
    and "mset (qd_briefs (queue_at ct rel)) = add_mset (name, copy) others"
    and "\<forall>b. b \<in># others \<longrightarrow> silent_about (repo @ ''/'' @ source) (snd b)"
  shows "\<exists>pending. pending_imports ct rel = Inr pending \<and>
    (\<forall>t. is_replay digest pending (repo @ ''/'' @ source) t \<longleftrightarrow> digest t = digest published)"
proof -
  let ?key = "repo @ ''/'' @ source"
  define sorted where "sorted = sort_key (\<lambda>(stem, _). stem @ ''.md'') (qd_briefs (queue_at ct rel))"
  have "(name, copy) \<in> set sorted"
    using arg_cong [OF assms(6), of set_mset] by (simp add: sorted_def)
  then obtain pre post where split: "sorted = pre @ (name, copy) # post" by (meson split_list)
  have "mset sorted = add_mset (name, copy) others" using assms(6) by (simp add: sorted_def)
  then have "mset pre + mset post = others" by (simp add: split)
  then have silent: "\<forall>t \<in> set (map snd pre). silent_about ?key t" "\<forall>t \<in> set (map snd post). silent_about ?key t"
    using assms(7) by force+
  obtain body' where read: "py_startswith copy ''---''"
      "split_frontmatter copy = Inr (copy_meta digest m published stem repo source model, body')"
    using copy_reads_back [OF assms(1-3)] by blast
  obtain before where before: "pending_from [] (map snd pre) = Inr before"
    using pending_silent [OF silent(1), of "[]"] by blast
  obtain pending where pending: "pending_from (pending_entry (copy_meta digest m published stem repo source model) before)
        (map snd post) = Inr pending"
      "dget pending ?key = dget (pending_entry (copy_meta digest m published stem repo source model) before) ?key"
    using pending_silent [OF silent(2)] by blast
  have "dget pending ?key = Some (digest published)"
    unfolding pending(2) using assms(4,5)
    by (simp add: pending_entry_def copy_meta_def)
  moreover have "pending_imports ct rel = Inr pending"
    using before read pending(1) by (simp add: pending_imports_def split pending_append flip: sorted_def)
  ultimately show ?thesis using assms(4) by (auto simp: is_replay_def)
qed

text \<open>
  The digest is written like any other value, so a digest of digits alone that begins with a zero
  comes back as another number, and the same text is imported again.
\<close>

theorem zero_digest_imports_again:
  "meta_value (py_strip (render_meta_value (SStr ''0000000000000012''))) = Inr (SInt 12) \<and>
   \<not> is_replay (\<lambda>_. ''0000000000000012'')
     (pending_entry [(''imported_from'', SStr ''web/.tasks/fix.md''), (''imported_digest'', SInt 12)] [])
     ''web/.tasks/fix.md'' ''Do it.''"
  by code_simp


section \<open>Small instances\<close>

definition sample_offer :: repo_task where
  "sample_offer = \<lparr>rt_name = ''fix'', rt_title = SStr ''Fix'', rt_source = ''.tasks/fix.md'', rt_priority = 2,
     rt_disabled = False, rt_quarantined = False, rt_duplicate = False, rt_text = ''Do it better.'',
     rt_replaces = True, rt_started = False\<rparr>"

lemma batch_import_loses_nothing_witness:
  "list_all2 (copied sample_content (fst (copy_repo_tasks (\<lambda>_. []) sample_content ''q'' [sample_offer])) ''q'')
     [sample_offer] (snd (copy_repo_tasks (\<lambda>_. []) sample_content ''q'' [sample_offer]))"
  using batch_import_loses_nothing [where ftext = "\<lambda>_. []" and ct = sample_content and rel = "''q''"
      and offered = "[sample_offer]", OF prod.collapse [symmetric]]
  by (simp add: imported_def sample_offer_def)

definition sample_tree :: git_tree where
  "sample_tree = [(''.tasks/fix.md'', ''Do it.''), (''docs/plan.md'', ''plan'')]"

lemma removal_is_exact_witness:
  "\<exists>t'. removal_tree (\<lambda>_. []) \<lparr>js_load = \<lambda>_. None, js_dump = \<lambda>_ _. []\<rparr> sample_tree [''.tasks/fix.md''] [] = Some t' \<and>
     dget t' ''.tasks/fix.md'' = None"
proof -
  obtain t' where "removal_tree (\<lambda>_. []) \<lparr>js_load = \<lambda>_. None, js_dump = \<lambda>_ _. []\<rparr> sample_tree [''.tasks/fix.md''] [] = Some t'"
    by (simp add: removal_tree_def delete_tree_def sample_tree_def selected_def)
  moreover have "''.tasks/fix.md'' \<in> set (selected sample_tree [''.tasks/fix.md''])" "\<not> order_file ''.tasks/fix.md''"
    by code_simp+
  ultimately show ?thesis
    using removal_is_exact [of _ _ sample_tree "[''.tasks/fix.md'']" "[]" _ "''.tasks/fix.md''"] by fastforce
qed

definition sample_copy :: string where
  "sample_copy = join_frontmatter (copy_meta (\<lambda>_. ''d1'') [] ''Do it.'' ''fix'' ''web'' ''.tasks/fix.md'' ''claude'') ''Do it.''"

lemma replay_recognised_witness:
  "\<exists>pending. pending_imports (sample_content\<lparr>ct_queues := [(''q'', \<lparr>qd_config = NoFile, qd_briefs = [(''fix'', sample_copy)]\<rparr>)]\<rparr>) ''q''
       = Inr pending \<and>
     is_replay (\<lambda>_. ''d1'') pending (''web'' @ ''/'' @ ''.tasks/fix.md'') ''Do it.''"
proof -
  have copy: "imported_brief_text (\<lambda>_. ''d1'') ''Do it.'' ''fix'' ''web'' ''.tasks/fix.md'' ''claude'' = Inr sample_copy"
    by (simp add: imported_brief_text_def sample_copy_def copy_meta_def py_startswith_def)
  have plain: "(if py_startswith ''Do it.'' ''---'' then split_frontmatter ''Do it.'' else Inr ([], ''Do it.'')) =
      (Inr ([], ''Do it.'') :: py_error + meta \<times> string)"
    by (simp add: py_startswith_def)
  have lines: "\<forall>(k, v) \<in> set (copy_meta (\<lambda>_. ''d1'') [] ''Do it.'' ''fix'' ''web'' ''.tasks/fix.md'' ''claude'').
      meta_key k \<and> meta_plain v \<and> plain_line (meta_line k v)"
    by code_simp
  show ?thesis
    using replay_recognised [OF copy plain lines, of
        "sample_content\<lparr>ct_queues := [(''q'', \<lparr>qd_config = NoFile, qd_briefs = [(''fix'', sample_copy)]\<rparr>)]\<rparr>"
        "''q''" "''fix''" "{#}"]
    by (auto simp: queue_at_def)
qed

end
