(* ===== verification/Git_Landing.thy ===== *)
theory Git_Landing
  imports Git_Shell
begin

text \<open>
  Landing as operations on refs (\<^verbatim>\<open>git/sync.py\<close>, \<^verbatim>\<open>git/landing.py\<close>,
  \<^verbatim>\<open>git/transport.py\<close>, \<^verbatim>\<open>git/worktrees.py\<close> and
  \<^verbatim>\<open>manager/landing.py\<close>).

  An operation is an action of the shell; the caller holds the lock of the repository. A producer
  is an action that is handed the tip it must build on.
\<close>

section \<open>Following the remote\<close>

definition sync_due :: "rat \<Rightarrow> rat \<Rightarrow> rat option \<Rightarrow> bool" where
  "sync_due now interval last_check \<longleftrightarrow>
     interval \<le> 0 \<or> (case last_check of None \<Rightarrow> True | Some t \<Rightarrow> now - t \<ge> interval)"

definition unpushed_commits :: "'g host \<Rightarrow> string \<Rightarrow> string \<Rightarrow> ('g shell, string list) action" where
  "unpushed_commits h target head =
     act_bind (git_run h [''rev-list'', ''--reverse'', target @ ''..'' @ head]) (\<lambda>res.
       answer (if gr_ok res then map py_strip (visible_lines (gr_out res)) else []))"

text \<open>The tip after replaying commits, and the commits that had to be dropped.\<close>

fun replay_all ::
  "'g host \<Rightarrow> string \<Rightarrow> string list \<Rightarrow> string list \<Rightarrow> ('g shell, string \<times> string list) action" where
  "replay_all h tip dropped [] = answer (tip, dropped)"
| "replay_all h tip dropped (sha # shas) =
     act_bind (replay_commit h tip sha None) (\<lambda>r.
       case rr_sha r of
         None \<Rightarrow> replay_all h tip (dropped @ [sha]) shas
       | Some tip' \<Rightarrow> replay_all h tip' dropped shas)"

definition lock_changed_between :: "'g host \<Rightarrow> string \<Rightarrow> string \<Rightarrow> ('g shell, bool) action" where
  "lock_changed_between h old new =
     act_bind (git_run h [''diff'', ''--name-only'', old, new, ''--'', ''uv.lock'', ''requirements.lock'']) (\<lambda>res.
       answer (gr_ok res \<and> py_strip (gr_out res) \<noteq> []))"

text \<open>Moving main to a tip, after the remote was read.\<close>

definition move_main ::
  "'g host \<Rightarrow> string \<Rightarrow> string \<Rightarrow> string list \<Rightarrow> ('g shell, string option \<times> string list) action" where
  "move_main h head new_tip dropped =
     act_bind (read_checkout h) (\<lambda>checkout.
     act_bind (update_main_cas h new_tip head) (\<lambda>cas.
       if \<not> gr_ok cas then act_bind (main_sha h) (\<lambda>sha. answer (sha, []))
       else
         act_bind (advance_checkout h checkout new_tip) (\<lambda>_.
         act_bind (lock_changed_between h head new_tip) (\<lambda>changed.
         act_bind (if changed then suppress_os (command h Drop_Lock_Marker) else answer ()) (\<lambda>_.
           answer (Some new_tip, dropped))))))"

definition sync_main_impl ::
  "'g host \<Rightarrow> string \<Rightarrow> bool \<Rightarrow> ('g shell, string option \<times> string list) action" where
  "sync_main_impl h remote reset_divergence =
     act_bind (git_run h [''fetch'', remote, ''main'']) (\<lambda>fetch.
     if \<not> gr_ok fetch then answer (None, [])
     else act_bind (rev_parse h ''FETCH_HEAD'') (\<lambda>target_opt. case target_opt of None \<Rightarrow> answer (None, [])
     | Some target \<Rightarrow> act_bind (main_sha h) (\<lambda>head_opt. case head_opt of None \<Rightarrow> answer (None, [])
     | Some head \<Rightarrow>
         if head = target then answer (Some head, [])
         else
           act_bind (is_ancestor h head target) (\<lambda>behind.
           if \<not> behind \<and> \<not> reset_divergence then answer (Some head, [])
           else if behind then move_main h head target []
           else act_bind (unpushed_commits h target head) (\<lambda>shas.
                act_bind (replay_all h target [] shas) (\<lambda>p. move_main h head (fst p) (snd p)))))))"

definition mark_synced :: "'g host \<Rightarrow> bool \<Rightarrow> ('g shell, unit) action" where
  "mark_synced h throttled =
     (if throttled then act_bind (clock h) (\<lambda>now. change (\<lambda>s. s\<lparr>sh_last_sync := Some now\<rparr>)) else answer ())"

text \<open>The answer is the tip and the commits the rescue dropped.\<close>

definition sync_main_locked ::
  "'g host \<Rightarrow> string \<Rightarrow> rat \<Rightarrow> bool \<Rightarrow> bool \<Rightarrow> bool \<Rightarrow> ('g shell, string option \<times> string list) action" where
  "sync_main_locked h remote interval force reset_divergence throttled =
     act_bind (clock h) (\<lambda>now.
     act_bind (compute (\<lambda>s. Inr (\<not> force \<and> throttled \<and> \<not> sync_due now interval (sh_last_sync s)))) (\<lambda>skip.
       if skip then act_bind (main_sha h) (\<lambda>sha. answer (sha, []))
       else
         act_bind (sync_main_impl h remote reset_divergence) (\<lambda>result.
         act_bind (mark_synced h throttled) (\<lambda>_. answer result))))"

section \<open>The trailer of an attempt\<close>

definition ATTEMPT_TRAILER :: string where "ATTEMPT_TRAILER = ''Nightshift-Attempt''"

definition attempt_trailer_line :: "string \<Rightarrow> string" where
  "attempt_trailer_line aid = ATTEMPT_TRAILER @ '': '' @ aid"

text \<open>One line of the log carries the attempt when its id is one of the trailer's values.\<close>

definition carries_attempt :: "string \<Rightarrow> string \<Rightarrow> bool" where
  "carries_attempt aid line =
     (case py_partition tab line of (_, _, rest) \<Rightarrow> aid \<in> set (map py_strip (py_split (CHR '','') rest)))"

definition carrier_in :: "string \<Rightarrow> string \<Rightarrow> string option" where
  "carrier_in aid listing =
     map_option (\<lambda>line. fst (py_partition tab line)) (find (carries_attempt aid) (py_splitlines listing))"

definition find_landed_attempt :: "'g host \<Rightarrow> string \<Rightarrow> nat \<Rightarrow> ('g shell, string option) action" where
  "find_landed_attempt h aid limit =
     act_bind (main_sha h) (\<lambda>tip_opt. case tip_opt of None \<Rightarrow> answer None
     | Some tip \<Rightarrow>
         act_bind (git_run h [''log'', ''-n'', nat_text limit,
            ''--format=%H%x09%(trailers:key='' @ ATTEMPT_TRAILER @ '',valueonly,separator=%x2C)'', tip]) (\<lambda>res.
           answer (if gr_ok res then carrier_in aid (gr_out res) else None)))"

section \<open>Producers\<close>

record pr_spec =
  ps_task :: string
  ps_title :: string
  ps_queue :: "string option"
  ps_automerge :: bool
  ps_draft :: bool

record repo_context =
  cx_remote :: "string option"
  cx_sync :: bool
  cx_refresh_seconds :: rat
  cx_rescue_first :: bool
  cx_pr :: "pr_spec option"
  cx_throttled :: bool

record produce_result =
  pd_sha :: "string option"
  pd_display :: "string option"
  pd_failure :: "land_outcome option"

definition produced :: "string \<Rightarrow> string option \<Rightarrow> produce_result" where
  "produced sha display = \<lparr>pd_sha = Some sha, pd_display = display, pd_failure = None\<rparr>"

definition conflict_outcome :: "string list \<Rightarrow> string \<Rightarrow> land_outcome" where
  "conflict_outcome paths detail = (new_land_outcome LK_CONFLICT)\<lparr>lo_conflicts := paths, lo_detail := detail\<rparr>"

definition not_produced :: "string list \<Rightarrow> string \<Rightarrow> produce_result" where
  "not_produced paths detail = \<lparr>pd_sha = None, pd_display = None, pd_failure = Some (conflict_outcome paths detail)\<rparr>"

text \<open>The merged tree, the conflicted paths and the whole listing of a conflict.\<close>

definition before_blank_line :: "string \<Rightarrow> string" where
  "before_blank_line s = (case partition_str [newline, newline] s of None \<Rightarrow> s | Some (a, _) \<Rightarrow> a)"

definition read_merge_tree :: "git_result \<Rightarrow> string option \<times> string list \<times> string list" where
  "read_merge_tree res =
     (if gr_ok res then
        (let first = (if py_strip (gr_out res) = [] then [] else py_strip (hd (py_splitlines (gr_out res))))
         in (if first = [] then None else Some first, [], []))
      else
        let lines = visible_lines (gr_out res)
        in (None, drop 1 (visible_lines (before_blank_line (gr_out res))),
            if length lines > 1 then drop 1 lines else lines))"

definition merge_tree :: "'g host \<Rightarrow> string \<Rightarrow> string \<Rightarrow> ('g shell, string option \<times> string list \<times> string list) action" where
  "merge_tree h base branch =
     act_bind (git_run h [''merge-tree'', ''--write-tree'', ''--name-only'', base, branch]) (\<lambda>res.
       answer (read_merge_tree res))"

definition merge_tree_conflicts :: "'g host \<Rightarrow> string \<Rightarrow> string \<Rightarrow> ('g shell, string list) action" where
  "merge_tree_conflicts h branch base =
     act_bind (merge_tree h base branch) (\<lambda>m. answer (snd (snd m)))"

definition indented :: "string list \<Rightarrow> string" where
  "indented names = py_join [newline] (map (\<lambda>p. ''    '' @ p) names)"

text \<open>The short name of a commit, or the commit itself.\<close>

definition short_sha :: "'g host \<Rightarrow> string \<Rightarrow> ('g shell, string) action" where
  "short_sha h sha = act_bind (git_out h [''rev-parse'', ''--short'', sha]) (\<lambda>s. answer (opt_or s sha))"

definition squash_message :: "string \<Rightarrow> string option \<Rightarrow> string" where
  "squash_message title aid =
     ''task: '' @ title @ (if nonempty aid then [newline, newline] @ attempt_trailer_line (opt_or aid []) else [])"

definition squash_produce ::
  "'g host \<Rightarrow> string \<Rightarrow> string \<Rightarrow> string option \<Rightarrow> string \<Rightarrow> ('g shell, produce_result) action" where
  "squash_produce h branch title aid base =
     act_bind (branch_exists h branch) (\<lambda>there.
     if \<not> there then answer (not_produced [] (''no task branch '' @ quoted branch @ '' to merge (nothing to recover)''))
     else
       act_bind (merge_tree h base branch) (\<lambda>m. case m of (tree_opt, paths, listing) \<Rightarrow>
       if listing \<noteq> [] then answer (not_produced paths
         (''squash of '' @ quoted branch @ '' conflicts with current main on '' @ nat_text (length listing) @
          '' file(s):'' @ [newline] @ indented (take 20 listing)))
       else case tree_opt of
         None \<Rightarrow> answer (not_produced [] (''squash of '' @ quoted branch @ '' onto main failed (merge-tree)''))
       | Some tree \<Rightarrow>
           act_bind (git_out h [''rev-parse'', base @ ''^{tree}'']) (\<lambda>base_tree.
           if Some tree = base_tree then answer (not_produced []
             (''commit failed:'' @ [newline] @ ''squash of '' @ quoted branch @ '' is empty - nothing to commit''))
           else
             act_bind (git_run h [''commit-tree'', tree, ''-p'', base, ''-m'', squash_message title aid]) (\<lambda>commit.
             if \<not> gr_ok commit then answer (not_produced [] (''commit failed:'' @ [newline] @ gr_detail commit))
             else let sha = py_strip (gr_out commit) in
               act_bind (short_sha h sha) (\<lambda>display. answer (produced sha (Some display))))))) "

definition cherry_produce ::
  "'g host \<Rightarrow> string \<Rightarrow> string option \<Rightarrow> string \<Rightarrow> ('g shell, produce_result) action" where
  "cherry_produce h resolved aid base =
     act_bind (git_out h [''rev-parse'', resolved @ ''^{commit}'']) (\<lambda>full_opt. case full_opt of
       None \<Rightarrow> answer (not_produced [] (''cannot replay resolved commit: unknown commit '' @ quoted resolved))
     | Some full \<Rightarrow>
         if full = base then answer (produced full None)
         else
           act_bind (replay_commit h base full (if nonempty aid then Some (attempt_trailer_line (opt_or aid [])) else None)) (\<lambda>r.
             case rr_sha r of
               Some sha \<Rightarrow> answer (produced sha None)
             | None \<Rightarrow> answer (not_produced []
                 (if rr_conflict r
                  then ''resolved commit '' @ take 8 resolved @ '' conflicts with current origin/main:'' @ [newline] @ rr_detail r
                  else ''cannot replay resolved commit '' @ take 8 resolved @ '': '' @ rr_detail r))))"

text \<open>Edits of a tree: the scratch file of each, its blob and its entry in the scratch index. The
  results are collected up to the first blob that fails.\<close>

fun index_edits ::
  "'g host \<Rightarrow> nat \<Rightarrow> (string \<times> string) list \<Rightarrow> ('g shell, git_result list) action" where
  "index_edits h n [] = answer []"
| "index_edits h n ((path, text) # es) =
     (let scratch = ho_scratch h @ ''/edit-'' @ nat_text n in
      act_bind (command h (Write_Scratch scratch text)) (\<lambda>_.
      act_bind (git_run h [''hash-object'', ''-w'', ''--no-filters'', scratch]) (\<lambda>blob.
      if \<not> gr_ok blob then answer [blob]
      else
        act_bind (command h (Git_Index [''update-index'', ''--add'', ''--cacheinfo'',
           ''100644,'' @ py_strip (gr_out blob) @ '','' @ path])) (\<lambda>entry.
        act_bind (index_edits h (Suc n) es) (\<lambda>steps. answer (blob # entry # steps))))))"

definition removal_failed :: "string \<Rightarrow> produce_result" where
  "removal_failed detail = not_produced [] (''inbox removal failed:'' @ [newline] @ detail)"

definition build_index ::
  "'g host \<Rightarrow> string \<Rightarrow> string list \<Rightarrow> (string \<times> string) list \<Rightarrow> ('g shell, git_result list) action" where
  "build_index h base existing edits =
     act_bind (command h (Git_Index [''read-tree'', base])) (\<lambda>start.
     act_bind (if existing = [] then answer []
         else act_bind (command h (Git_Index ([''update-index'', ''--force-remove'', ''--''] @ existing)))
                (\<lambda>r. answer [r])) (\<lambda>gone.
     act_bind (index_edits h 0 (sort_key fst edits)) (\<lambda>steps. answer (start # gone @ steps))))"

definition commit_index :: "'g host \<Rightarrow> string \<Rightarrow> string \<Rightarrow> ('g shell, produce_result) action" where
  "commit_index h base message =
     act_bind (command h (Git_Index [''write-tree''])) (\<lambda>tree.
     if \<not> gr_ok tree then answer (removal_failed (gr_detail tree))
     else
       act_bind (git_run h [''commit-tree'', py_strip (gr_out tree), ''-p'', base, ''-m'', message]) (\<lambda>commit.
       if \<not> gr_ok commit then answer (removal_failed (gr_detail commit))
       else let sha = py_strip (gr_out commit) in
         act_bind (short_sha h sha) (\<lambda>display. answer (produced sha (Some display)))))"

definition delete_listed ::
  "'g host \<Rightarrow> string \<Rightarrow> (string \<Rightarrow> string list \<Rightarrow> ('g shell, (string \<times> string) list) action) \<Rightarrow>
   string \<Rightarrow> string list \<Rightarrow> ('g shell, produce_result) action" where
  "delete_listed h message rewrite base existing =
     act_bind (rewrite base existing) (\<lambda>edits.
     if existing = [] \<and> edits = [] then
       act_bind (short_sha h base) (\<lambda>display. answer (produced base (Some display)))
     else
       act_bind (build_index h base existing edits) (\<lambda>steps.
       case find (\<lambda>r. \<not> gr_ok r) steps of
         Some r \<Rightarrow> answer (removal_failed (gr_detail r))
       | None \<Rightarrow> commit_index h base message))"

definition delete_produce ::
  "'g host \<Rightarrow> string list \<Rightarrow> string \<Rightarrow> (string \<Rightarrow> string list \<Rightarrow> ('g shell, (string \<times> string) list) action) \<Rightarrow>
   string \<Rightarrow> ('g shell, produce_result) action" where
  "delete_produce h paths message rewrite base =
     act_bind (if paths = [] then answer None
         else act_bind (git_run h ([''ls-tree'', ''-r'', ''--name-only'', base, ''--''] @ paths)) (\<lambda>r. answer (Some r))) (\<lambda>present.
     case present of
       Some r \<Rightarrow> if \<not> gr_ok r then answer (removal_failed (gr_detail r))
                else delete_listed h message rewrite base (visible_lines (gr_out r))
     | None \<Rightarrow> delete_listed h message rewrite base [])"

section \<open>Moving main\<close>

definition push_main :: "'g host \<Rightarrow> string \<Rightarrow> string \<Rightarrow> ('g shell, git_result) action" where
  "push_main h remote sha = git_run h [''push'', remote, sha @ '':refs/heads/main'']"

definition checkout_behind_detail :: "string \<Rightarrow> string" where
  "checkout_behind_detail display =
     ''landed ('' @ display @ ''); your uncommitted changes kept the checkout from advancing - it was left behind '' @
     ''main (commit or stash them, then `git checkout main`)''"

text \<open>No answer when the swap lost a race.\<close>

definition cas_and_advance ::
  "'g host \<Rightarrow> checkout_state \<Rightarrow> string \<Rightarrow> string \<Rightarrow> string \<Rightarrow> ('g shell, land_outcome option) action" where
  "cas_and_advance h checkout base new display =
     act_bind (if new = base then answer True
         else act_bind (update_main_cas h new base) (\<lambda>r. answer (gr_ok r))) (\<lambda>won.
     if \<not> won then answer None
     else
       act_bind (advance_checkout h checkout new) (\<lambda>current.
         answer (Some (if current then (new_land_outcome LK_LANDED)\<lparr>lo_sha := Some display\<rparr>
           else (new_land_outcome LK_CHECKOUT_BEHIND)\<lparr>lo_sha := Some display, lo_detail := checkout_behind_detail display\<rparr>))))"

definition noting_drops :: "string list \<Rightarrow> land_outcome \<Rightarrow> land_outcome" where
  "noting_drops dropped out =
     (if dropped = [] then out
      else out\<lparr>lo_dropped_commits := dropped,
        lo_detail := py_strip (lo_detail out @ [newline] @ ''origin re-sync dropped conflicting local commit(s): '' @
          py_join '', '' (map (take 12) dropped) @ '' (preserved unreachable in the reflog for manual recovery)'')\<rparr>)"

section \<open>Pull requests\<close>

definition appended :: "land_outcome \<Rightarrow> string \<Rightarrow> string" where
  "appended out text = py_strip (lo_detail out @ [newline] @ ''local land ok ('' @
     (case lo_sha out of None \<Rightarrow> ''None'' | Some s \<Rightarrow> s) @ ''); '' @ text)"

definition pr_create_args :: "pr_spec \<Rightarrow> string \<Rightarrow> string list" where
  "pr_create_args pr branch =
     [''pr'', ''create'', ''--head'', branch, ''--base'', ''main'', ''--title'', ''task: '' @ ps_title pr,
      ''--body'', ''Automated nightshift land for `'' @ ps_task pr @ ''`.''] @
     (if ps_draft pr then [''--draft''] else [])"

definition open_pr :: "'g host \<Rightarrow> pr_spec \<Rightarrow> string \<Rightarrow> land_outcome \<Rightarrow> ('g shell, land_outcome) action" where
  "open_pr h pr sha out =
     act_bind (compute (\<lambda>_. queue_slug (ps_queue pr))) (\<lambda>q.
     let branch = ''task/'' @ q @ ''-'' @ ps_task pr in
     act_bind (git_run h [''push'', ''-f'', ''origin'', sha @ '':refs/heads/'' @ branch]) (\<lambda>push.
     if \<not> gr_ok push then
       answer (out\<lparr>lo_pushed := Some False, lo_detail := appended out (''PR branch push failed: '' @ gr_detail push)\<rparr>)
     else
       let out = out\<lparr>lo_pushed := Some True\<rparr> in
       act_bind (command h (Gh (pr_create_args pr branch))) (\<lambda>create.
       if \<not> gr_ok create then
         answer (out\<lparr>lo_detail := appended out (''gh pr create failed: '' @ gr_detail create)\<rparr>)
       else
         let url = (if py_strip (gr_out create) = [] then None else Some (last (py_splitlines (py_strip (gr_out create))))) in
         act_bind (if ps_automerge pr \<and> \<not> ps_draft pr \<and> nonempty url
             then act_bind (command h (Gh [''pr'', ''merge'', ''--auto'', ''--squash'', opt_or url []])) (\<lambda>_. answer ())
             else answer ()) (\<lambda>_.
           answer (out\<lparr>lo_pr_url := url\<rparr>)))))"

section \<open>The integrate loop\<close>

text \<open>One pass answers the outcome of the land, or nothing when it has to be tried again.\<close>

definition push_rejected :: "nat \<Rightarrow> git_result \<Rightarrow> land_outcome" where
  "push_rejected attempt push =
     (new_land_outcome LK_PUSH_REJECTED)\<lparr>lo_remote := Some ''push'', lo_pushed := Some False,
        lo_detail := ''push to origin main rejected after '' @ nat_text (attempt + 1) @ '' attempt(s)'' @
          (if attempt > 0 then '' (origin keeps advancing)'' else []) @ '':'' @ [newline] @ gr_detail push\<rparr>"

definition push_pass ::
  "'g host \<Rightarrow> repo_context \<Rightarrow> nat \<Rightarrow> nat \<Rightarrow> checkout_state \<Rightarrow> string \<Rightarrow> string \<Rightarrow> string \<Rightarrow>
   ('g shell, land_outcome option) action" where
  "push_pass h ctx max_retries attempt checkout base new display =
     act_bind (push_main h (opt_or (cx_remote ctx) ''origin'') new) (\<lambda>push.
     if \<not> gr_ok push then
       answer (if cx_sync ctx \<and> nonempty (cx_remote ctx) \<and> attempt < max_retries then None
         else Some (push_rejected attempt push))
     else
       act_bind (cas_and_advance h checkout base new display) (\<lambda>moved.
         let out = (case moved of Some out \<Rightarrow> out
           | None \<Rightarrow> (new_land_outcome LK_LANDED)\<lparr>lo_sha := Some display,
               lo_detail := ''landed on origin ('' @ display @ ''); local main moved during the land and will '' @
                 ''reconcile on the next land or forced sync''\<rparr>)
         in answer (Some (out\<lparr>lo_remote := Some ''push'', lo_pushed := Some True\<rparr>))))"

definition local_pass ::
  "'g host \<Rightarrow> repo_context \<Rightarrow> landing_mode \<Rightarrow> nat \<Rightarrow> nat \<Rightarrow> checkout_state \<Rightarrow> string \<Rightarrow> string \<Rightarrow> string \<Rightarrow>
   ('g shell, land_outcome option) action" where
  "local_pass h ctx mode max_retries attempt checkout base new display =
     act_bind (cas_and_advance h checkout base new display) (\<lambda>moved.
     case moved of
       None \<Rightarrow> answer (if attempt < max_retries then None
         else Some ((new_land_outcome LK_PUSH_REJECTED)\<lparr>lo_detail :=
           ''local main kept advancing during the land - update-ref rejected after '' @
           nat_text (max_retries + 1) @ '' attempt(s)''\<rparr>))
     | Some out \<Rightarrow>
         if mode = LM_PR then
           (case cx_pr ctx of
              None \<Rightarrow> compute (\<lambda>_. Inl AssertionError)
            | Some pr \<Rightarrow> act_bind (open_pr h pr new (out\<lparr>lo_remote := Some ''pr''\<rparr>)) (\<lambda>out. answer (Some out)))
         else answer (Some out))"

definition integrate_pass ::
  "'g host \<Rightarrow> repo_context \<Rightarrow> (string \<Rightarrow> ('g shell, produce_result) action) \<Rightarrow> landing_mode \<Rightarrow> nat \<Rightarrow> nat \<Rightarrow>
   ('g shell, land_outcome option) action" where
  "integrate_pass h ctx produce mode max_retries attempt =
     act_bind (main_sha h) (\<lambda>base_opt. case base_opt of
       None \<Rightarrow> answer (Some (conflict_outcome [] ''target repo has no main commit to land onto''))
     | Some base \<Rightarrow>
         act_bind (produce base) (\<lambda>p. case pd_failure p of
           Some out \<Rightarrow> answer (Some out)
         | None \<Rightarrow> (case pd_sha p of
             None \<Rightarrow> compute (\<lambda>_. Inl AssertionError)
           | Some new \<Rightarrow>
               let display = opt_or (pd_display p) new in
               act_bind (read_checkout h) (\<lambda>checkout.
                 if mode = LM_PUSH then push_pass h ctx max_retries attempt checkout base new display
                 else local_pass h ctx mode max_retries attempt checkout base new display))))"

definition sync_pass :: "'g host \<Rightarrow> repo_context \<Rightarrow> nat \<Rightarrow> ('g shell, string list) action" where
  "sync_pass h ctx attempt =
     (if cx_sync ctx \<and> nonempty (cx_remote ctx) then
        act_bind (sync_main_locked h (opt_or (cx_remote ctx) [])
           (if attempt = 0 then cx_refresh_seconds ctx else 0) (attempt > 0)
           (attempt > 0 \<or> cx_rescue_first ctx) (cx_throttled ctx)) (\<lambda>p. answer (snd p))
      else answer [])"

text \<open>The passes that are left, the number of the next one, and what the rescues have dropped.\<close>

fun integrate_from ::
  "'g host \<Rightarrow> repo_context \<Rightarrow> (string \<Rightarrow> ('g shell, produce_result) action) \<Rightarrow> landing_mode \<Rightarrow> nat \<Rightarrow>
   nat \<Rightarrow> nat \<Rightarrow> string list \<Rightarrow> ('g shell, land_outcome) action" where
  "integrate_from h ctx produce mode max_retries 0 attempt dropped = compute (\<lambda>_. Inl AssertionError)"
| "integrate_from h ctx produce mode max_retries (Suc n) attempt dropped =
     act_bind (sync_pass h ctx attempt) (\<lambda>more.
     act_bind (integrate_pass h ctx produce mode max_retries attempt) (\<lambda>result.
       case result of
         Some out \<Rightarrow> answer (noting_drops (dropped @ more) out)
       | None \<Rightarrow> integrate_from h ctx produce mode max_retries n (Suc attempt) (dropped @ more)))"

definition integrate_and_push ::
  "'g host \<Rightarrow> repo_context \<Rightarrow> (string \<Rightarrow> ('g shell, produce_result) action) \<Rightarrow> landing_mode \<Rightarrow> nat \<Rightarrow>
   ('g shell, land_outcome) action" where
  "integrate_and_push h ctx produce mode max_retries =
     integrate_from h ctx produce mode max_retries (Suc max_retries) 0 []"

section \<open>Worktrees and the rendezvous\<close>

definition teardown_worktree :: "'g host \<Rightarrow> string \<Rightarrow> string option \<Rightarrow> ('g shell, unit) action" where
  "teardown_worktree h task queue =
     act_bind (compute (\<lambda>_. task_dir h task queue)) (\<lambda>dir.
     act_bind (compute (\<lambda>_. worktree_branch task queue)) (\<lambda>branch.
     act_bind (git_run h [''worktree'', ''remove'', ''--force'', dir]) (\<lambda>_.
     act_bind (git_run h [''branch'', ''-D'', branch]) (\<lambda>_. answer ()))))"

definition cleanup_task_worktree :: "'g host \<Rightarrow> string \<Rightarrow> string option \<Rightarrow> ('g shell, bool) action" where
  "cleanup_task_worktree h task queue =
     act_bind (compute (\<lambda>_. task_dir h task queue)) (\<lambda>dir.
     act_bind (path_exists h dir) (\<lambda>there.
     act_bind (if there then answer True
         else act_bind (compute (\<lambda>_. worktree_branch task queue)) (\<lambda>branch. branch_exists h branch)) (\<lambda>found.
       if \<not> found then answer False
       else act_bind (teardown_worktree h task queue) (\<lambda>_. answer True))))"

text \<open>The count, when the answer is a number; otherwise yes.\<close>

definition counts_commits :: "git_result \<Rightarrow> bool" where
  "counts_commits r = (case py_int (str_or (py_strip (gr_out r)) ''0'') of None \<Rightarrow> True | Some n \<Rightarrow> n > 0)"

definition has_commits :: "'g host \<Rightarrow> string \<Rightarrow> string option \<Rightarrow> ('g shell, bool) action" where
  "has_commits h task queue =
     act_bind (compute (\<lambda>_. worktree_branch task queue)) (\<lambda>branch.
     act_bind (main_sha h) (\<lambda>sha.
     act_bind (git_run h [''rev-list'', ''--count'', opt_or sha ''HEAD'' @ ''..'' @ branch]) (\<lambda>r.
       answer (counts_commits r))))"

definition fetch_rendezvous_branch ::
  "'g host \<Rightarrow> string \<Rightarrow> string \<Rightarrow> string \<Rightarrow> string option \<Rightarrow> ('g shell, string option) action" where
  "fetch_rendezvous_branch h remote ref task queue =
     act_bind (compute (\<lambda>_. worktree_branch task queue)) (\<lambda>branch.
     act_bind (git_run h [''fetch'', ''-f'', remote, ref @ '':refs/heads/'' @ branch]) (\<lambda>fetch.
       if gr_ok fetch then rev_parse h branch else answer None))"

definition prune_rendezvous_branch :: "'g host \<Rightarrow> string \<Rightarrow> string \<Rightarrow> ('g shell, unit) action" where
  "prune_rendezvous_branch h remote ref =
     act_bind (git_run h [''push'', remote, ''--delete'', ref]) (\<lambda>_. answer ())"

definition publish_task_branch ::
  "'g host \<Rightarrow> string \<Rightarrow> string \<Rightarrow> string option \<Rightarrow> string option \<Rightarrow> ('g shell, string \<times> string) action" where
  "publish_task_branch h task remote queue prefix =
     act_bind (compute (\<lambda>_. worktree_branch task queue)) (\<lambda>branch.
     act_bind (compute (\<lambda>_. wip_ref task queue (opt_or prefix WIP_REF_PREFIX))) (\<lambda>ref.
     act_bind (rev_parse h branch) (\<lambda>head_opt. case head_opt of
       None \<Rightarrow> compute (\<lambda>_. Inl (RuntimeError (''no task branch '' @ quoted branch @ '' to publish'')))
     | Some head \<Rightarrow>
         act_bind (git_run h [''push'', ''-f'', remote, branch @ '':'' @ ref]) (\<lambda>push.
           if gr_ok push then answer (ref, head)
           else compute (\<lambda>_. Inl (RuntimeError (''publish of '' @ quoted branch @ '' to '' @ remote @ '' '' @ ref @
             '' failed: '' @ gr_detail push)))))))"

definition prepare_worktree_base :: "'g host \<Rightarrow> string \<Rightarrow> string option \<Rightarrow> ('g shell, string) action" where
  "prepare_worktree_base h remote base_ref =
     (if \<not> nonempty base_ref then answer ''HEAD''
      else
        act_bind (git_run h [''fetch'', remote, ''main'']) (\<lambda>_.
        act_bind (rev_parse h (opt_or base_ref [])) (\<lambda>sha.
          answer (if sha \<noteq> None then opt_or base_ref [] else ''HEAD''))))"

end
