(* ===== verification/Landing.thy ===== *)
theory Landing
  imports Git_Landing
begin

text \<open>
  The landing of a task (\<^verbatim>\<open>manager/landing.py\<close>), the worktrees a run works in
  (\<^verbatim>\<open>git/worktrees.py\<close>) and the commits of the task files (\<^verbatim>\<open>git/store.py\<close>).
\<close>

section \<open>A commit that is on main already\<close>

definition base_ref_drifted :: "'g host \<Rightarrow> string option \<Rightarrow> ('g shell, bool) action" where
  "base_ref_drifted h base_ref =
     (if \<not> nonempty base_ref then answer False
      else
        act_bind (main_sha h) (\<lambda>head.
        if head = None \<or> head = base_ref then answer False
        else act_bind (rev_parse h (opt_or base_ref [])) (\<lambda>sha. answer (sha \<noteq> None))))"

definition main_advanced_sha :: "'g host \<Rightarrow> string option \<Rightarrow> ('g shell, string option) action" where
  "main_advanced_sha h base_ref =
     (if \<not> nonempty base_ref then answer None
      else
        act_bind (main_sha h) (\<lambda>head.
        if \<not> nonempty head \<or> head = base_ref then answer None
        else act_bind (rev_parse h (opt_or base_ref [])) (\<lambda>sha.
          answer (if sha = None then None else head))))"

definition apply_remote_policy ::
  "'g host \<Rightarrow> string \<Rightarrow> landing_mode \<Rightarrow> pr_spec \<Rightarrow> land_outcome \<Rightarrow> string option \<Rightarrow> ('g shell, land_outcome) action" where
  "apply_remote_policy h sha mode pr out remote =
     (case mode of
        LM_PUSH \<Rightarrow>
          act_bind (push_main h (opt_or remote ''origin'') sha) (\<lambda>push.
            answer (if gr_ok push then out\<lparr>lo_remote := Some ''push'', lo_pushed := Some True\<rparr>
              else out\<lparr>lo_remote := Some ''push'', lo_pushed := Some False,
                lo_detail := appended out (''push to GitHub main failed: '' @ gr_detail push)\<rparr>))
      | LM_PR \<Rightarrow> open_pr h pr sha (out\<lparr>lo_remote := Some ''pr''\<rparr>)
      | LM_NONE \<Rightarrow> answer out)"

definition adopt_agent_land ::
  "'g host \<Rightarrow> string \<Rightarrow> string option \<Rightarrow> string option \<Rightarrow> landing_mode \<Rightarrow> pr_spec \<Rightarrow> string option \<Rightarrow>
   ('g shell, land_outcome option) action" where
  "adopt_agent_land h task queue base_ref mode pr remote =
     act_bind (main_advanced_sha h base_ref) (\<lambda>sha_opt. case sha_opt of
       None \<Rightarrow> answer None
     | Some sha \<Rightarrow>
         act_bind (has_commits h task queue) (\<lambda>commits.
         if commits then answer None
         else
           act_bind (teardown_worktree h task queue) (\<lambda>_.
           act_bind (apply_remote_policy h sha mode pr
              ((new_land_outcome LK_ADOPTED)\<lparr>lo_sha := Some sha, lo_detail := ''adopted agent land on main''\<rparr>)
              remote) (\<lambda>out. answer (Some out)))))"

definition adopt_or_nothing ::
  "'g host \<Rightarrow> string \<Rightarrow> string option \<Rightarrow> string option \<Rightarrow> landing_mode \<Rightarrow> pr_spec \<Rightarrow> ('g shell, land_outcome) action" where
  "adopt_or_nothing h task queue base_ref mode pr =
     act_bind (adopt_agent_land h task queue base_ref mode pr None) (\<lambda>adopted.
       answer (case adopted of Some out \<Rightarrow> out | None \<Rightarrow> new_land_outcome LK_NO_CHANGES))"

section \<open>The land\<close>

record land_job =
  lj_task :: string
  lj_title :: string
  lj_queue :: "string option"
  lj_base_ref :: "string option"
  lj_mode :: landing_mode
  lj_automerge :: bool
  lj_draft :: bool
  lj_branch_ref :: "string option"
  lj_head_sha :: "string option"
  lj_remote :: "string option"
  lj_max_retries :: nat
  lj_refresh_seconds :: rat
  lj_throttled :: bool
  lj_attempt :: "string option"

definition job_pr :: "land_job \<Rightarrow> pr_spec" where
  "job_pr j = \<lparr>ps_task = lj_task j, ps_title = lj_title j, ps_queue = lj_queue j,
     ps_automerge = lj_automerge j, ps_draft = lj_draft j\<rparr>"

definition job_context :: "land_job \<Rightarrow> repo_context" where
  "job_context j = \<lparr>cx_remote = lj_remote j, cx_sync = (nonempty (lj_remote j) \<and> is_remote (lj_mode j)),
     cx_refresh_seconds = lj_refresh_seconds j, cx_rescue_first = False, cx_pr = Some (job_pr j),
     cx_throttled = lj_throttled j\<rparr>"

definition transport_failed :: "bool \<Rightarrow> string \<Rightarrow> land_outcome" where
  "transport_failed retryable detail =
     (new_land_outcome LK_TRANSPORT_FAILED)\<lparr>lo_retryable := retryable, lo_detail := detail\<rparr>"

text \<open>The branch of a run on another machine; the answer is a refusal, if there is one.\<close>

definition obtain_branch :: "'g host \<Rightarrow> land_job \<Rightarrow> string \<Rightarrow> ('g shell, land_outcome option) action" where
  "obtain_branch h j branch_ref =
     (if \<not> nonempty (lj_remote j) \<or> \<not> nonempty (lj_head_sha j)
      then answer (Some (transport_failed False ''cross-machine land requires a rendezvous remote and head_sha''))
      else
        let remote = opt_or (lj_remote j) []; head = opt_or (lj_head_sha j) [] in
        act_bind (fetch_rendezvous_branch h remote branch_ref (lj_task j) (lj_queue j)) (\<lambda>fetched. case fetched of
          None \<Rightarrow> answer (Some (transport_failed True
            (''failed to fetch '' @ quoted branch_ref @ '' from '' @ quoted remote)))
        | Some sha \<Rightarrow>
            answer (if sha = head then None
              else Some (transport_failed False (''head_sha mismatch: worker published '' @ take 8 head @
                '', fetched '' @ take 8 sha @ '' - refusing to land unverified content'')))))"

text \<open>A run on another machine: a submitted ref and no worktree here.\<close>

definition is_cross_machine :: "'g host \<Rightarrow> land_job \<Rightarrow> ('g shell, bool) action" where
  "is_cross_machine h j =
     (if lj_branch_ref j = None then answer False
      else act_bind (compute (\<lambda>_. task_dir h (lj_task j) (lj_queue j))) (\<lambda>dir.
        act_bind (path_exists h dir) (\<lambda>there. answer (\<not> there))))"

text \<open>The squash of the task branch, or the refusal that leaves the branch where it is.\<close>

definition squash_and_reclaim :: "'g host \<Rightarrow> land_job \<Rightarrow> string \<Rightarrow> ('g shell, land_outcome + land_outcome) action" where
  "squash_and_reclaim h j branch =
     act_bind (integrate_and_push h (job_context j) (squash_produce h branch (lj_title j) (lj_attempt j))
        (lj_mode j) (lj_max_retries j)) (\<lambda>out.
     if lo_kind out \<notin> LAND_SUCCESS_KINDS then answer (Inl out)
     else act_bind (teardown_worktree h (lj_task j) (lj_queue j)) (\<lambda>_. answer (Inr out)))"

definition land_locked :: "'g host \<Rightarrow> land_job \<Rightarrow> ('g shell, land_outcome) action" where
  "land_locked h j =
     act_bind (compute (\<lambda>_. worktree_branch (lj_task j) (lj_queue j))) (\<lambda>branch.
     act_bind (is_cross_machine h j) (\<lambda>cross.
     act_bind (if cross then obtain_branch h j (opt_or (lj_branch_ref j) []) else answer None) (\<lambda>refusal.
     case refusal of
       Some out \<Rightarrow> answer out
     | None \<Rightarrow>
         act_bind (adopt_agent_land h (lj_task j) (lj_queue j) (lj_base_ref j) (lj_mode j) (job_pr j) (lj_remote j)) (\<lambda>adopted.
         act_bind (case adopted of Some out \<Rightarrow> answer (Inr out) | None \<Rightarrow> squash_and_reclaim h j branch) (\<lambda>landed.
         case landed of
           Inl out \<Rightarrow> answer out
         | Inr out \<Rightarrow>
             act_bind (if cross \<and> nonempty (lj_remote j) \<and> nonempty (lj_branch_ref j)
                 then prune_rendezvous_branch h (opt_or (lj_remote j) []) (opt_or (lj_branch_ref j) [])
                 else answer ()) (\<lambda>_. answer out))))))"

text \<open>The land of a resolved commit; the answer is its name or why it was refused.\<close>

definition push_resolved_main ::
  "'g host \<Rightarrow> string option \<Rightarrow> string \<Rightarrow> nat \<Rightarrow> bool \<Rightarrow> string option \<Rightarrow> ('g shell, bool \<times> string) action" where
  "push_resolved_main h remote sha max_retries throttled aid =
     act_bind (integrate_and_push h
        \<lparr>cx_remote = remote, cx_sync = nonempty remote, cx_refresh_seconds = 0, cx_rescue_first = True,
         cx_pr = None, cx_throttled = throttled\<rparr>
        (cherry_produce h sha aid) LM_PUSH max_retries) (\<lambda>out.
       answer (if lo_kind out \<in> LAND_SUCCESS_KINDS then (True, opt_or (lo_sha out) sha)
         else (False, lo_detail out)))"

section \<open>Worktrees\<close>

definition SYMLINK_TARGETS :: "string list" where
  "SYMLINK_TARGETS = [''.venv'', ''services/dashboard_ui/node_modules'', ''node_modules'', ''.env'']"

definition repo_root :: "'g host \<Rightarrow> string" where
  "repo_root h = ho_workspace h @ ''/'' @ ho_repo h"

fun link_artifacts :: "'g host \<Rightarrow> string \<Rightarrow> string list \<Rightarrow> ('g shell, unit) action" where
  "link_artifacts h dir [] = answer ()"
| "link_artifacts h dir (rel # rels) =
     (let src = repo_root h @ ''/'' @ rel; dst = dir @ ''/'' @ rel in
      act_bind (path_exists h src) (\<lambda>there.
      act_bind (if there then path_exists h dst else answer True) (\<lambda>taken.
      act_bind (if taken then answer ()
          else act_bind (command h (Make_Dirs dst)) (\<lambda>_. act_bind (command h (Link dst src)) (\<lambda>_. answer ()))) (\<lambda>_.
        link_artifacts h dir rels))))"

definition setup_worktree :: "'g host \<Rightarrow> string \<Rightarrow> string option \<Rightarrow> string option \<Rightarrow> ('g shell, string) action" where
  "setup_worktree h task queue base_opt =
     act_bind (case base_opt of Some b \<Rightarrow> answer b
         | None \<Rightarrow> act_bind (main_sha h) (\<lambda>sha. answer (opt_or sha ''HEAD''))) (\<lambda>base.
     act_bind (compute (\<lambda>_. task_dir h task queue)) (\<lambda>dir.
     act_bind (compute (\<lambda>_. worktree_branch task queue)) (\<lambda>branch.
     act_bind (path_exists h dir) (\<lambda>there.
     act_bind (if there then act_bind (git_run h [''worktree'', ''remove'', ''--force'', dir]) (\<lambda>_. answer ())
         else answer ()) (\<lambda>_.
     act_bind (git_run h [''branch'', ''-D'', branch]) (\<lambda>_.
     act_bind (command h (Make_Dirs dir)) (\<lambda>_.
     act_bind (git_must h [''worktree'', ''add'', dir, ''-b'', branch, base]) (\<lambda>_.
     act_bind (link_artifacts h dir SYMLINK_TARGETS) (\<lambda>_. answer dir)))))))))"

definition ensure_worktree_for_branch :: "'g host \<Rightarrow> string \<Rightarrow> string option \<Rightarrow> ('g shell, string option) action" where
  "ensure_worktree_for_branch h task queue =
     act_bind (compute (\<lambda>_. worktree_branch task queue)) (\<lambda>branch.
     act_bind (branch_exists h branch) (\<lambda>exists.
     if \<not> exists then answer None
     else
       act_bind (compute (\<lambda>_. task_dir h task queue)) (\<lambda>dir.
       act_bind (path_exists h dir) (\<lambda>there.
       act_bind (if there then answer True
           else act_bind (command h (Make_Dirs dir)) (\<lambda>_.
             act_bind (git_run h [''worktree'', ''add'', dir, branch]) (\<lambda>_. path_exists h dir))) (\<lambda>attached.
       if \<not> attached then answer None
       else act_bind (link_artifacts h dir SYMLINK_TARGETS) (\<lambda>_. answer (Some dir)))))))"

datatype rebase_result = Rebase_Clean | Rebase_Conflict string | Rebase_Error string

definition rebase_in_progress :: "'g host \<Rightarrow> string \<Rightarrow> ('g shell, bool) action" where
  "rebase_in_progress h dir =
     act_bind (command h (Git_In dir [''rebase'', ''--show-current-patch''])) (\<lambda>r. answer (gr_ok r))"

definition abort_rebase :: "'g host \<Rightarrow> string \<Rightarrow> ('g shell, unit) action" where
  "abort_rebase h dir = act_bind (command h (Git_In dir [''rebase'', ''--abort''])) (\<lambda>_. answer ())"

definition rebase_onto_main :: "'g host \<Rightarrow> string \<Rightarrow> ('g shell, rebase_result) action" where
  "rebase_onto_main h dir =
     act_bind (rebase_in_progress h dir) (\<lambda>paused.
     act_bind (if paused then abort_rebase h dir else answer ()) (\<lambda>_.
     act_bind (command h (Git_In dir [''rebase'', ''main''])) (\<lambda>r.
     if gr_ok r then answer Rebase_Clean
     else
       let detail = py_strip (gr_out r @ [newline] @ gr_err r) in
       act_bind (rebase_in_progress h dir) (\<lambda>conflict.
         answer (if conflict then Rebase_Conflict detail else Rebase_Error detail)))))"

section \<open>Commits of the task files\<close>

definition commit_tasks :: "'g host \<Rightarrow> string \<Rightarrow> string \<Rightarrow> string list \<Rightarrow> ('g shell, string option) action" where
  "commit_tasks h tasks_root message pathspecs =
     (let git = (\<lambda>args. command h (Git_In tasks_root args)) in
      act_bind (path_exists h (tasks_root @ ''/.git'')) (\<lambda>there.
      if \<not> there then answer None
      else
        act_bind (git ([''-c'', ''advice.addIgnoredFile=false'', ''add'', ''--''] @ pathspecs)) (\<lambda>add.
        if \<not> gr_ok add \<and> (gr_code add \<noteq> 1 \<or> \<not> substring_of ''ignored by one of your .gitignore'' (gr_err add))
        then answer None
        else
          act_bind (git ([''diff'', ''--cached'', ''--name-only'', ''--''] @ pathspecs)) (\<lambda>staged.
          if py_strip (gr_out staged) = [] then answer None
          else
            act_bind (git ([''commit'', ''-m'', message, ''--''] @ pathspecs)) (\<lambda>commit.
            if \<not> gr_ok commit then answer None
            else
              act_bind (git [''rev-parse'', ''--short'', ''HEAD'']) (\<lambda>r.
                let sha = py_strip (gr_out r) in answer (if sha = [] then None else Some sha)))))))"

definition commit_dispatch :: "'g host \<Rightarrow> string \<Rightarrow> string \<Rightarrow> ('g shell, unit) action" where
  "commit_dispatch h tasks_root rel =
     act_bind (commit_tasks h tasks_root ''nightshift-local: dispatch daily queues'' [rel]) (\<lambda>_. answer ())"

definition commit_queue_state :: "'g host \<Rightarrow> string \<Rightarrow> string \<Rightarrow> ('g shell, string option) action" where
  "commit_queue_state h tasks_root rel =
     commit_tasks h tasks_root ''nightshift: commit queue state'' [rel]"

end
