(* ===== verification/Git_Facts.thy ===== *)
theory Git_Facts
  imports Landing
begin

text \<open>
  What a land promises, read off the commands it runs: which commands those are, when main moves,
  what an outcome tells, that an answer always comes, and that names do not clash. Nothing is
  assumed of git: every statement holds for every host.
\<close>

section \<open>Reasoning about traces\<close>

type_synonym steps = "(cmd \<times> git_result) list"

definition traced :: "('g shell, 'a) action \<Rightarrow> (steps \<Rightarrow> py_error + 'a \<Rightarrow> bool) \<Rightarrow> bool" where
  "traced a Q \<longleftrightarrow> (\<forall>s. \<exists>t. sh_trace (fst (a s)) = sh_trace s @ t \<and> Q t (snd (a s)))"

lemma tracedD: "traced a Q \<Longrightarrow> a s = (s', r) \<Longrightarrow> \<exists>t. sh_trace s' = sh_trace s @ t \<and> Q t r"
  by (metis fst_conv snd_conv traced_def)

lemma traced_answer: "Q [] (Inr x) \<Longrightarrow> traced (answer x) Q"
  by (simp add: traced_def answer_def)

lemma traced_compute: "(\<And>v. Q [] v) \<Longrightarrow> traced (compute f) Q"
  by (simp add: traced_def compute_def)

lemma traced_fail: "Q [] (Inl e) \<Longrightarrow> traced (compute (\<lambda>_. Inl e)) Q"
  by (simp add: traced_def compute_def)

lemma traced_command: "(\<And>r. Q [(c, r)] (Inr r)) \<Longrightarrow> (\<And>e. Q [] (Inl e)) \<Longrightarrow> traced (command h c) Q"
  by (simp add: traced_def command_def split: prod.split sum.split)

lemma traced_bind:
  assumes "traced a (\<lambda>t r. case r of Inl e \<Rightarrow> Q t (Inl e) | Inr x \<Rightarrow> traced (f x) (\<lambda>t'. Q (t @ t')))"
  shows "traced (act_bind a f) Q"
  unfolding traced_def
proof
  fix s
  obtain s1 r where a: "a s = (s1, r)" by fastforce
  then obtain t where t: "sh_trace s1 = sh_trace s @ t"
      "case r of Inl e \<Rightarrow> Q t (Inl e) | Inr x \<Rightarrow> traced (f x) (\<lambda>t'. Q (t @ t'))"
    using tracedD [OF assms a] by blast
  show "\<exists>t. sh_trace (fst (act_bind a f s)) = sh_trace s @ t \<and> Q t (snd (act_bind a f s))"
  proof (cases r)
    case (Inl e)
    then show ?thesis using a t by (auto simp: act_bind_def)
  next
    case (Inr x)
    obtain s2 r2 where f: "f x s1 = (s2, r2)" by fastforce
    then obtain t' where "sh_trace s2 = sh_trace s1 @ t'" "Q (t @ t') r2"
      using tracedD [of "f x" "\<lambda>t'. Q (t @ t')" s1 s2 r2] t(2) Inr by auto
    then show ?thesis using a f t(1) Inr by (auto simp: act_bind_def)
  qed
qed

lemma traced_mono: "traced a Q \<Longrightarrow> (\<And>t r. Q t r \<Longrightarrow> Q' t r) \<Longrightarrow> traced a Q'"
  unfolding traced_def by blast

lemma traced_conj: "traced a Q \<Longrightarrow> traced a Q' \<Longrightarrow> traced a (\<lambda>t r. Q t r \<and> Q' t r)"
  unfolding traced_def by (metis same_append_eq)

text \<open>An operation runs commands of one kind only.\<close>

definition only :: "(cmd \<Rightarrow> bool) \<Rightarrow> ('g shell, 'a) action \<Rightarrow> bool" where
  "only P a \<longleftrightarrow> traced a (\<lambda>t r. list_all (\<lambda>(c, _). P c) t)"

named_theorems only_rules \<open>the commands an operation runs\<close>

lemma only_answer [only_rules]: "only P (answer x)"
  by (simp add: only_def traced_answer)

lemma only_compute [only_rules]: "only P (compute f)"
  by (simp add: only_def traced_compute)

lemma only_change [only_rules]: "(\<And>s. sh_trace (f s) = sh_trace s) \<Longrightarrow> only P (change f)"
  by (simp add: only_def traced_def change_def)

lemma only_command: "P c \<Longrightarrow> only P (command h c)"
  by (simp add: only_def traced_command)

lemma only_bind [only_rules]: "only P a \<Longrightarrow> (\<And>x. only P (f x)) \<Longrightarrow> only P (act_bind a f)"
  unfolding only_def
  by (rule traced_bind, erule traced_mono) (auto split: sum.split intro: traced_mono)

lemma only_suppress [only_rules]: "only P a \<Longrightarrow> only P (suppress_os a)"
proof -
  have "fst (suppress_os a s) = fst (a s)" for s
    by (simp add: suppress_os_def split: prod.split sum.split)
  then show "only P a \<Longrightarrow> only P (suppress_os a)" by (simp add: only_def traced_def)
qed

lemma only_mono: "only P a \<Longrightarrow> (\<And>c. P c \<Longrightarrow> P' c) \<Longrightarrow> only P' a"
  unfolding only_def by (erule traced_mono) (auto simp: list_all_iff)

lemma only_if [only_rules]: "only P a \<Longrightarrow> only P b \<Longrightarrow> only P (if c then a else b)"
  by simp

text \<open>What an operation answers, when it answers.\<close>

definition answers :: "('a \<Rightarrow> bool) \<Rightarrow> ('g shell, 'a) action \<Rightarrow> bool" where
  "answers P a \<longleftrightarrow> (\<forall>s x. snd (a s) = Inr x \<longrightarrow> P x)"

named_theorems answers_rules \<open>what an operation answers\<close>

lemma answers_answer [answers_rules]: "P x \<Longrightarrow> answers P (answer x)"
  by (simp add: answers_def answer_def)

lemma answers_bind [answers_rules]: "(\<And>x. answers P (f x)) \<Longrightarrow> answers P (act_bind a f)"
  by (auto simp: answers_def act_bind_def split: prod.split sum.split)

lemma answers_if [answers_rules]: "(c \<Longrightarrow> answers P a) \<Longrightarrow> (\<not> c \<Longrightarrow> answers P b) \<Longrightarrow> answers P (if c then a else b)"
  by simp

lemma traced_answers:
  "only K a \<Longrightarrow> answers P a \<Longrightarrow> traced a (\<lambda>t r. list_all (\<lambda>(c, _). K c) t \<and> (\<forall>x. r = Inr x \<longrightarrow> P x))"
  unfolding only_def traced_def answers_def by meson

text \<open>The queries.\<close>

lemma only_out [only_rules]: "P (Run_Git args) \<Longrightarrow> only P (git_out h args)"
  by (auto simp: git_out_def intro!: only_rules only_command)

lemma only_ok [only_rules]: "P (Run_Git args) \<Longrightarrow> only P (git_ok h args)"
  by (auto simp: git_ok_def intro!: only_rules only_command)

section \<open>Kinds of commands\<close>

definition main_cas :: "string \<Rightarrow> string \<Rightarrow> cmd" where
  "main_cas new old = Run_Git [''update-ref'', MAIN_REF, new, old]"

definition main_push :: "string \<Rightarrow> string \<Rightarrow> cmd" where
  "main_push remote sha = Run_Git [''push'', remote, sha @ '':refs/heads/main'']"

definition carry_checkout :: "string \<Rightarrow> string \<Rightarrow> cmd" where
  "carry_checkout old new = Run_Git [''read-tree'', ''-m'', ''-u'', old, new]"

definition branch_fetch :: "string \<Rightarrow> string \<Rightarrow> string \<Rightarrow> cmd" where
  "branch_fetch remote ref branch = Run_Git [''fetch'', ''-f'', remote, ref @ '':refs/heads/'' @ branch]"

definition pr_push :: "string \<Rightarrow> string \<Rightarrow> cmd" where
  "pr_push sha name = Run_Git [''push'', ''-f'', ''origin'', sha @ '':refs/heads/'' @ ''task/'' @ name]"

text \<open>Commands that only read, or only add objects.\<close>

definition queries :: "string set" where
  "queries = {''rev-parse'', ''merge-base'', ''merge-tree'', ''commit-tree'', ''log'', ''rev-list'', ''symbolic-ref'', ''diff''}"

definition is_query :: "cmd \<Rightarrow> bool" where
  "is_query c \<longleftrightarrow> (\<exists>q rest. q \<in> queries \<and> c = Run_Git (q # rest))"

text \<open>What the land of a task may run.\<close>

definition land_command :: "string \<Rightarrow> cmd \<Rightarrow> bool" where
  "land_command branch c \<longleftrightarrow> is_query c \<or>
     (\<exists>new old. c = main_cas new old) \<or>
     (\<exists>remote sha. c = main_push remote sha) \<or>
     (\<exists>old new. c = carry_checkout old new) \<or>
     (\<exists>old. c = Run_Git [''update-ref'', ''--no-deref'', ''HEAD'', old]) \<or>
     (\<exists>remote. c = Run_Git [''fetch'', remote, ''main'']) \<or>
     (\<exists>remote ref. c = branch_fetch remote ref branch) \<or>
     (\<exists>sha name. c = pr_push sha name) \<or>
     (\<exists>remote ref. c = Run_Git [''push'', remote, ''--delete'', ref]) \<or>
     (\<exists>dir. c = Run_Git [''worktree'', ''remove'', ''--force'', dir]) \<or>
     c = Run_Git [''branch'', ''-D'', branch] \<or>
     (\<exists>args. c = Gh (''pr'' # args)) \<or> (\<exists>path. c = Exists path) \<or> c = Drop_Lock_Marker"

lemma query_command: "is_query c \<Longrightarrow> land_command b c"
  by (simp add: land_command_def)

lemma is_query_Git [simp]: "is_query (Run_Git (q # rest)) \<longleftrightarrow> q \<in> queries"
  by (auto simp: is_query_def)

lemma queries_in [simp]:
  "''rev-parse'' \<in> queries" "''merge-base'' \<in> queries" "''merge-tree'' \<in> queries" "''commit-tree'' \<in> queries"
  "''log'' \<in> queries" "''rev-list'' \<in> queries" "''symbolic-ref'' \<in> queries" "''diff'' \<in> queries"
  by (simp_all add: queries_def)

lemma query_only:
  shows only_is_ancestor: "only is_query (is_ancestor h a d)"
    and only_branch_exists: "only is_query (branch_exists h b)"
    and only_main_sha: "only is_query (main_sha h)"
    and only_read_checkout: "only is_query (read_checkout h)"
    and only_unpushed: "only is_query (unpushed_commits h x y)"
    and only_lock_changed: "only is_query (lock_changed_between h x y)"
    and only_short_sha: "only is_query (short_sha h x)"
    and only_merge_tree: "only is_query (merge_tree h x y)"
    and only_has_commits: "only is_query (has_commits h t q)"
    and only_replay: "only is_query (replay_commit h base sha extra)"
  by (auto simp: is_ancestor_def branch_exists_def main_sha_def either_out_def read_checkout_def unpushed_commits_def
      lock_changed_between_def short_sha_def merge_tree_def has_commits_def replay_commit_def
      intro!: only_rules only_command split: option.split list.split)

lemma only_replay_all: "only is_query (replay_all h tip dropped shas)"
  by (induction h tip dropped shas rule: replay_all.induct)
    (auto intro!: only_rules only_replay split: option.split)

lemma only_squash: "only is_query (squash_produce h branch title aid base)"
  unfolding squash_produce_def Let_def
  by (auto intro!: only_rules only_command query_only split: prod.split option.split)

lemma only_cherry: "only is_query (cherry_produce h sha aid base)"
  unfolding cherry_produce_def
  by (auto intro!: only_rules only_command query_only split: option.split)

section \<open>Commands of the compound operations\<close>

lemma known_bind: "act_bind (compute (\<lambda>_. r)) f = (case r of Inl e \<Rightarrow> (\<lambda>s. (s, Inl e)) | Inr x \<Rightarrow> f x)"
  by (auto simp: act_bind_def compute_def fun_eq_iff split: sum.split)

lemma traced_known:
  "(\<And>e. r = Inl e \<Longrightarrow> Q [] (Inl e)) \<Longrightarrow> (\<And>x. r = Inr x \<Longrightarrow> traced (f x) Q) \<Longrightarrow>
     traced (act_bind (compute (\<lambda>_. r)) f) Q"
  by (cases r) (simp_all add: known_bind traced_def)

lemma only_known: "(\<And>x. r = Inr x \<Longrightarrow> only P (f x)) \<Longrightarrow> only P (act_bind (compute (\<lambda>_. r)) f)"
  unfolding only_def by (rule traced_known) simp_all

lemma land_query: "only is_query a \<Longrightarrow> only (land_command b) a"
  by (erule only_mono) (rule query_command)

lemmas land_queries = query_only [THEN land_query]

lemma land_commands [simp]:
  "land_command b (main_cas new old)" "land_command b (main_push remote sha)" "land_command b (carry_checkout old new)"
  "land_command b (Run_Git [''update-ref'', ''--no-deref'', ''HEAD'', old])" "land_command b (Run_Git [''fetch'', remote, ''main''])"
  "land_command b (branch_fetch remote ref b)" "land_command b (pr_push sha name)"
  "land_command b (Run_Git [''push'', remote, ''--delete'', ref])" "land_command b (Run_Git [''worktree'', ''remove'', ''--force'', dir])"
  "land_command b (Run_Git [''branch'', ''-D'', b])" "land_command b (Gh (''pr'' # args))" "land_command b (Exists path)"
  "land_command b Drop_Lock_Marker" "land_command b (Run_Git (''rev-parse'' # args))" "land_command b (Run_Git (''diff'' # args))"
  by (auto simp: land_command_def)

lemma only_advance: "only (land_command b) (advance_checkout h co new)"
  unfolding advance_checkout_def carry_checkout_def [symmetric]
  by (auto intro!: only_rules only_command split: option.split)

lemma only_move_main: "only (land_command b) (move_main h head tip dropped)"
  unfolding move_main_def update_main_cas_def main_cas_def [symmetric]
  by (auto intro!: only_rules only_command only_advance land_queries)

lemma only_sync: "only (land_command b) (sync_main_locked h remote interval force rescue throttled)"
proof -
  have "only (land_command b) (sync_main_impl h remote rescue)"
    unfolding sync_main_impl_def
    by (auto intro!: only_rules only_command only_move_main land_queries only_replay_all [THEN land_query] split: option.split)
  then show ?thesis
    unfolding sync_main_locked_def mark_synced_def clock_def
    by (auto intro!: only_rules land_queries)
qed

lemma only_cas: "only (land_command b) (cas_and_advance h co base new display)"
  unfolding cas_and_advance_def update_main_cas_def main_cas_def [symmetric]
  by (auto intro!: only_rules only_command only_advance)

lemma pr_command:
  "\<exists>name. x = '':refs/heads/'' @ ''task/'' @ name \<Longrightarrow> land_command b (Run_Git [''push'', ''-f'', ''origin'', sha @ x])"
  by (auto simp: land_command_def pr_push_def)

lemma only_pr: "only (land_command b) (open_pr h pr sha out)"
  unfolding open_pr_def Let_def pr_create_args_def
  by (auto intro!: only_rules only_command pr_command)

lemma only_integrate:
  assumes "\<And>base. only is_query (produce base)"
  shows "only (land_command b) (integrate_and_push h ctx produce mode max_retries)"
proof -
  have "only (land_command b) (push_pass h ctx max_retries attempt co base new display)" for attempt co base new display
    unfolding push_pass_def push_main_def main_push_def [symmetric] Let_def
    by (auto intro!: only_rules only_command only_cas)
  moreover have "only (land_command b) (local_pass h ctx mode max_retries attempt co base new display)" for attempt co base new display
    unfolding local_pass_def
    by (auto intro!: only_rules only_cas only_pr split: option.split)
  ultimately have pass: "only (land_command b) (integrate_pass h ctx produce mode max_retries attempt)" for attempt
    unfolding integrate_pass_def Let_def
    by (auto intro!: only_rules land_queries assms [THEN land_query] split: option.split)
  have sync: "only (land_command b) (sync_pass h ctx attempt)" for attempt
    unfolding sync_pass_def by (auto intro!: only_rules only_sync)
  have "only (land_command b) (integrate_from h ctx produce mode max_retries n attempt dropped)" for n attempt dropped
    by (induction n arbitrary: attempt dropped) (auto intro!: only_rules sync pass split: option.split)
  then show ?thesis by (simp only: integrate_and_push_def)
qed

lemma only_teardown:
  "worktree_branch task queue = Inr b \<Longrightarrow> only (land_command b) (teardown_worktree h task queue)"
  unfolding teardown_worktree_def by (intro only_known only_bind only_command only_answer) auto

lemma only_obtain:
  "worktree_branch (lj_task j) (lj_queue j) = Inr b \<Longrightarrow> only (land_command b) (obtain_branch h j ref)"
  unfolding obtain_branch_def fetch_rendezvous_branch_def Let_def branch_fetch_def [symmetric]
  by (auto intro!: only_known only_bind only_command only_answer only_out split: option.split)

lemma only_adopt:
  "worktree_branch task queue = Inr b \<Longrightarrow> only (land_command b) (adopt_agent_land h task queue base_ref mode pr remote)"
  unfolding adopt_agent_land_def main_advanced_sha_def apply_remote_policy_def push_main_def main_push_def [symmetric]
  by (auto intro!: only_rules only_command only_teardown only_pr land_queries
      split: option.split landing_mode.split)

text \<open>
  C8: a land works on objects and refs. Whatever git answers, every command of a land is a query,
  the swap of main, a push of main or of the pull request's branch, the refresh from the remote,
  the two commands that carry the checkout along or detach it, or the removal of the task's own
  worktree and branch: no checkout, reset, merge, stash or commit in the operator's tree, no forced
  push of main, and no other branch deleted.
\<close>

theorem land_runs_plumbing:
  assumes "worktree_branch (lj_task j) (lj_queue j) = Inr branch" "land_locked h j s = (s', r)"
  shows "\<exists>t. sh_trace s' = sh_trace s @ t \<and> list_all (\<lambda>(c, _). land_command branch c) t"
proof -
  have cross: "only (land_command branch) (is_cross_machine h j)"
    unfolding is_cross_machine_def path_exists_def by (auto intro!: only_rules only_command)
  have squash: "only (land_command branch) (squash_and_reclaim h j branch)"
    unfolding squash_and_reclaim_def
    by (auto intro!: only_rules only_integrate [OF only_squash] only_teardown assms(1))
  have prune: "only (land_command branch) (prune_rendezvous_branch h remote ref)" for remote ref
    unfolding prune_rendezvous_branch_def by (auto intro!: only_rules only_command)
  have "only (land_command branch) (land_locked h j)"
    unfolding land_locked_def
    using cross squash prune only_obtain [OF assms(1)] only_adopt [OF assms(1)]
    by (intro only_known only_bind) (auto simp: assms(1) intro!: only_rules split: option.split sum.split)
  then show ?thesis using assms(2) tracedD unfolding only_def by fast
qed

section \<open>What an outcome tells\<close>

definition accepted :: "steps \<Rightarrow> cmd \<Rightarrow> bool" where
  "accepted t c \<longleftrightarrow> (\<exists>r. (c, r) \<in> set t \<and> gr_ok r)"

lemma accepted_append [simp]: "accepted (t @ t') c \<longleftrightarrow> accepted t c \<or> accepted t' c"
  by (auto simp: accepted_def)

lemma accepted_Cons [simp]: "accepted ((c', r) # t) c \<longleftrightarrow> (c' = c \<and> gr_ok r) \<or> accepted t c"
  by (auto simp: accepted_def)

lemma accepted_Nil [simp]: "\<not> accepted [] c"
  by (simp add: accepted_def)

definition unpublished :: "steps \<Rightarrow> bool" where
  "unpublished t \<longleftrightarrow> (\<forall>remote sha. \<not> accepted t (main_push remote sha))"

definition unmoved :: "steps \<Rightarrow> bool" where
  "unmoved t \<longleftrightarrow> (\<forall>new old. \<not> accepted t (main_cas new old))"

lemma unpublished_append [simp]: "unpublished (t @ t') \<longleftrightarrow> unpublished t \<and> unpublished t'"
  by (auto simp: unpublished_def)

lemma unmoved_append [simp]: "unmoved (t @ t') \<longleftrightarrow> unmoved t \<and> unmoved t'"
  by (auto simp: unmoved_def)

lemma unpublished_Nil [simp]: "unpublished []" "unmoved []"
  by (simp_all add: unpublished_def unmoved_def)

definition publishes :: "cmd \<Rightarrow> bool" where
  "publishes c \<longleftrightarrow> (\<exists>remote sha. c = main_push remote sha)"

definition moves :: "cmd \<Rightarrow> bool" where
  "moves c \<longleftrightarrow> (\<exists>new old. c = main_cas new old)"

lemma quiet_trace:
  "list_all (\<lambda>(c, _). \<not> publishes c) t \<Longrightarrow> unpublished t"
  "list_all (\<lambda>(c, _). \<not> moves c) t \<Longrightarrow> unmoved t"
  by (fastforce simp: unpublished_def unmoved_def accepted_def publishes_def moves_def list_all_iff)+

lemma query_quiet: "is_query c \<Longrightarrow> \<not> publishes c" "is_query c \<Longrightarrow> \<not> moves c"
  by (auto simp: is_query_def publishes_def moves_def main_push_def main_cas_def queries_def)

lemma queries_quiet: "list_all (\<lambda>(c, _). is_query c) t \<Longrightarrow> unpublished t \<and> unmoved t"
  by (intro conjI quiet_trace; erule list.pred_mono_strong) (auto simp: query_quiet)

text \<open>The local swap and the checkout after it.\<close>

lemma traced_only: "only P a \<Longrightarrow> traced a (\<lambda>t r. list_all (\<lambda>(c, _). P c) t)"
  by (simp add: only_def)

definition still :: "cmd \<Rightarrow> bool" where
  "still c \<longleftrightarrow> \<not> publishes c \<and> \<not> moves c"

lemma still_trace: "list_all (\<lambda>(c, _). still c) t \<Longrightarrow> unpublished t \<and> unmoved t"
  by (intro conjI quiet_trace; erule list.pred_mono_strong) (auto simp: still_def)

lemma query_still: "only is_query a \<Longrightarrow> only still a"
  by (erule only_mono) (simp add: still_def query_quiet)

lemma still_commands [simp]:
  "still (Run_Git [''read-tree'', ''-m'', ''-u'', old, new])" "still (Run_Git [''update-ref'', ''--no-deref'', ''HEAD'', old])"
  "still (Run_Git [''fetch'', remote, ''main''])" "still (Gh args)" "still (Exists path)" "still Drop_Lock_Marker"
  "still (Run_Git [''push'', ''-f'', remote, ref])" "still (Run_Git [''push'', remote, ''--delete'', ref])"
  "still (Run_Git (''worktree'' # args))" "still (Run_Git (''branch'' # args))" "still (Run_Git (''fetch'' # args))"
  "still (Run_Git (''rev-parse'' # args))" "still (Run_Git (''diff'' # args))"
  by (auto simp: still_def publishes_def moves_def main_push_def main_cas_def MAIN_REF_def)

lemma still_advance: "only still (advance_checkout h co new)"
  unfolding advance_checkout_def by (auto intro!: only_rules only_command split: option.split)

lemma traced_cas:
  "traced (cas_and_advance h co base new display) (\<lambda>t r. unpublished t \<and> (case r of Inl e \<Rightarrow> True
     | Inr None \<Rightarrow> unmoved t
     | Inr (Some out) \<Rightarrow> lo_kind out \<in> LAND_SUCCESS_KINDS \<and> (new = base \<or> accepted t (main_cas new base))))"
proof -
  have adv: "traced (act_bind (advance_checkout h co new) (\<lambda>current. answer (Some (out current))))
      (\<lambda>t r. unpublished t \<and> unmoved t \<and> (\<forall>x. r = Inr x \<longrightarrow> (\<exists>c. x = Some (out c))))" for out
    by (rule traced_bind, rule traced_mono [OF traced_only [OF still_advance]])
      (auto dest!: still_trace intro!: traced_answer split: sum.split)
  have kinds: "lo_kind (if current then (new_land_outcome LK_LANDED)\<lparr>lo_sha := Some display\<rparr>
      else (new_land_outcome LK_CHECKOUT_BEHIND)\<lparr>lo_sha := Some display, lo_detail := checkout_behind_detail display\<rparr>)
      \<in> LAND_SUCCESS_KINDS" for current
    by (simp add: new_land_outcome_def lifecycle_sets)
  have swap: "traced (if new = base then answer True else act_bind (update_main_cas h new base) (\<lambda>r. answer (gr_ok r)))
      (\<lambda>t r. unpublished t \<and> (\<forall>won. r = Inr won \<longrightarrow>
        (if won then new = base \<or> accepted t (main_cas new base) else unmoved t)))"
    unfolding update_main_cas_def main_cas_def [symmetric]
    by (auto intro!: traced_answer traced_bind traced_command simp: unpublished_def unmoved_def main_push_def main_cas_def)
  show ?thesis
    unfolding cas_and_advance_def
  proof (rule traced_bind, rule traced_mono [OF swap])
    fix t and r :: "py_error + bool"
    assume swapped: "unpublished t \<and> (\<forall>won. r = Inr won \<longrightarrow> (if won then new = base \<or> accepted t (main_cas new base) else unmoved t))"
    show "case r of Inl e \<Rightarrow> unpublished t \<and> (case Inl e of Inl e \<Rightarrow> True | Inr None \<Rightarrow> unmoved t
          | Inr (Some out) \<Rightarrow> lo_kind out \<in> LAND_SUCCESS_KINDS \<and> (new = base \<or> accepted t (main_cas new base)))
      | Inr won \<Rightarrow> traced (if \<not> won then answer None
          else act_bind (advance_checkout h co new) (\<lambda>current. answer (Some
            (if current then (new_land_outcome LK_LANDED)\<lparr>lo_sha := Some display\<rparr>
             else (new_land_outcome LK_CHECKOUT_BEHIND)\<lparr>lo_sha := Some display, lo_detail := checkout_behind_detail display\<rparr>))))
          (\<lambda>t' r. unpublished (t @ t') \<and> (case r of Inl e \<Rightarrow> True | Inr None \<Rightarrow> unmoved (t @ t')
            | Inr (Some out) \<Rightarrow> lo_kind out \<in> LAND_SUCCESS_KINDS \<and> (new = base \<or> accepted (t @ t') (main_cas new base))))"
    proof (cases r)
      case (Inl e)
      then show ?thesis using swapped by simp
    next
      case (Inr won)
      with swapped have won: "unpublished t" "if won then new = base \<or> accepted t (main_cas new base) else unmoved t"
        by simp_all
      show ?thesis
      proof (cases won)
        case True
        then show ?thesis using won Inr kinds
          by (auto intro!: traced_mono [OF adv] split: sum.split option.split)
      next
        case False
        then show ?thesis using won Inr by (auto intro!: traced_answer)
      qed
    qed
  qed
qed

lemma still_pr: "only still (open_pr h pr sha out)"
  unfolding open_pr_def Let_def by (intro only_rules only_command still_commands)

lemma open_pr_answers:
  assumes "lo_kind out = k"
  shows "answers (\<lambda>x. lo_kind x = k) (open_pr h pr sha out)"
  unfolding open_pr_def Let_def
  by (intro answers_rules; use assms in simp)

lemma traced_pr:
  "traced (open_pr h pr sha out) (\<lambda>t r. unpublished t \<and> unmoved t \<and> (\<forall>x. r = Inr x \<longrightarrow> lo_kind x = lo_kind out))"
proof (rule traced_mono [OF traced_answers [OF still_pr open_pr_answers [OF refl]]], elim conjE)
  fix t :: steps and r :: "py_error + land_outcome"
  assume "list_all (\<lambda>(c, _). still c) t" "\<forall>x. r = Inr x \<longrightarrow> lo_kind x = lo_kind out"
  then show "unpublished t \<and> unmoved t \<and> (\<forall>x. r = Inr x \<longrightarrow> lo_kind x = lo_kind out)"
    using still_trace by blast
qed

lemma landed_kind: "lo_kind (new_land_outcome LK_LANDED) \<in> LAND_SUCCESS_KINDS"
  by (simp add: new_land_outcome_def lifecycle_sets)

lemma rejected_kind: "lo_kind (push_rejected attempt push) \<notin> LAND_SUCCESS_KINDS"
  by (simp add: push_rejected_def new_land_outcome_def lifecycle_sets)

lemma contention_kind: "lo_kind ((new_land_outcome LK_PUSH_REJECTED)\<lparr>lo_detail := d\<rparr>) \<notin> LAND_SUCCESS_KINDS"
  by (simp add: new_land_outcome_def lifecycle_sets)

lemma conflict_kind: "lo_kind (conflict_outcome paths d) \<notin> LAND_SUCCESS_KINDS"
  by (simp add: conflict_outcome_def new_land_outcome_def lifecycle_sets)

text \<open>A pass that follows the remote first may move main, and never publishes.\<close>

definition syncs :: "repo_context \<Rightarrow> bool" where
  "syncs ctx \<longleftrightarrow> cx_sync ctx \<and> nonempty (cx_remote ctx)"

definition withheld :: "cmd \<Rightarrow> bool" where
  "withheld c \<longleftrightarrow> \<not> publishes c"

lemma withheld_commands: "withheld (main_cas new old)" "still c \<Longrightarrow> withheld c" "is_query c \<Longrightarrow> withheld c"
  by (auto simp: withheld_def still_def publishes_def main_push_def main_cas_def query_quiet(1) [unfolded publishes_def main_push_def])

lemma only_withheld: "only is_query a \<Longrightarrow> only withheld a" "only still a \<Longrightarrow> only withheld a"
  by (erule only_mono, rule withheld_commands, assumption)+

lemma withheld_move: "only withheld (move_main h head tip dropped)"
  unfolding move_main_def update_main_cas_def main_cas_def [symmetric]
  by (intro only_rules only_command query_only [THEN only_withheld(1)] still_advance [THEN only_withheld(2)]
      withheld_commands still_commands)

lemma withheld_sync: "only withheld (sync_main_locked h remote interval force rescue throttled)"
proof -
  have "only withheld (sync_main_impl h remote rescue)"
    unfolding sync_main_impl_def
    by (auto intro!: only_rules only_command withheld_move only_replay_all [THEN only_withheld(1)]
        query_only [THEN only_withheld(1)] withheld_commands(2) still_commands split: option.split)
  then show ?thesis
    unfolding sync_main_locked_def mark_synced_def clock_def
    by (auto intro!: only_rules query_only [THEN only_withheld(1)])
qed

lemma traced_sync: "traced (sync_pass h ctx attempt) (\<lambda>t r. unpublished t \<and> (syncs ctx \<or> unmoved t))"
proof (cases "syncs ctx")
  case True
  have "only withheld (sync_pass h ctx attempt)"
    unfolding sync_pass_def by (intro only_rules withheld_sync)
  then show ?thesis
    by (rule traced_mono [OF traced_only]) (auto simp: True withheld_def intro: quiet_trace)
next
  case False
  then show ?thesis by (auto simp: sync_pass_def syncs_def intro!: traced_answer)
qed

text \<open>
  A producer: it only queries, its failures are no successes, and what it answers was made on the
  tip it was handed, as the trace shows.
\<close>

locale producer =
  fixes produce :: "string \<Rightarrow> ('g shell, produce_result) action"
    and made :: "string \<Rightarrow> string \<Rightarrow> steps \<Rightarrow> bool"
  assumes produce_queries: "only is_query (produce base)"
    and produce_made: "traced (produce base) (\<lambda>t r. case r of Inl e \<Rightarrow> True | Inr p \<Rightarrow>
        (case pd_failure p of Some out \<Rightarrow> lo_kind out \<notin> LAND_SUCCESS_KINDS
         | None \<Rightarrow> (\<forall>new. pd_sha p = Some new \<longrightarrow> made new base t)))"
    and made_append: "made new base t \<Longrightarrow> made new base (t' @ t)" "made new base t \<Longrightarrow> made new base (t @ t')"
begin

text \<open>What one pass, and what the loop, tells.\<close>

definition landed :: "landing_mode \<Rightarrow> steps \<Rightarrow> bool" where
  "landed mode t \<longleftrightarrow> (\<exists>new base. made new base t \<and>
     (if mode = LM_PUSH then \<exists>remote. accepted t (main_push remote new)
      else new = base \<or> accepted t (main_cas new base)))"

definition pass_tells :: "landing_mode \<Rightarrow> steps \<Rightarrow> py_error + land_outcome option \<Rightarrow> bool" where
  "pass_tells mode t r \<longleftrightarrow> (case r of Inl e \<Rightarrow> True | Inr None \<Rightarrow> unpublished t \<and> unmoved t
     | Inr (Some out) \<Rightarrow>
         if lo_kind out \<in> LAND_SUCCESS_KINDS then landed mode t else unpublished t \<and> unmoved t)"

lemma landed_append: "landed mode t \<Longrightarrow> landed mode (t' @ t)" "landed mode t \<Longrightarrow> landed mode (t @ t')"
  unfolding landed_def by (metis accepted_append made_append)+

lemma pass_tells_done [simp]: "pass_tells mode t (Inl e)"
  by (simp add: pass_tells_def)

lemma pass_tells_again: "unpublished t \<Longrightarrow> unmoved t \<Longrightarrow> pass_tells mode t (Inr None)"
  by (simp add: pass_tells_def)

lemma pass_tells_landed:
  "lo_kind out \<in> LAND_SUCCESS_KINDS \<Longrightarrow> landed mode t \<Longrightarrow> pass_tells mode t (Inr (Some out))"
  by (simp add: pass_tells_def)

lemma pass_tells_refused:
  "lo_kind out \<notin> LAND_SUCCESS_KINDS \<Longrightarrow> unpublished t \<Longrightarrow> unmoved t \<Longrightarrow> pass_tells mode t (Inr (Some out))"
  by (simp add: pass_tells_def)

lemma push_tells:
  assumes made: "made new base t0" and quiet: "unpublished t0" "unmoved t0"
  shows "traced (push_pass h ctx max_retries attempt co base new display) (\<lambda>t. pass_tells LM_PUSH (t0 @ t))"
  unfolding push_pass_def push_main_def main_push_def [symmetric]
proof (rule traced_bind, rule traced_command, unfold sum.case)
  fix push
  let ?c = "main_push (opt_or (cx_remote ctx) ''origin'') new"
  show "traced (if \<not> gr_ok push then
        answer (if cx_sync ctx \<and> nonempty (cx_remote ctx) \<and> attempt < max_retries then None
          else Some (push_rejected attempt push))
      else act_bind (cas_and_advance h co base new display) (\<lambda>moved.
        let out = (case moved of Some out \<Rightarrow> out
           | None \<Rightarrow> (new_land_outcome LK_LANDED)\<lparr>lo_sha := Some display,
               lo_detail := ''landed on origin ('' @ display @ ''); local main moved during the land and will '' @
                 ''reconcile on the next land or forced sync''\<rparr>)
         in answer (Some (out\<lparr>lo_remote := Some ''push'', lo_pushed := Some True\<rparr>))))
      (\<lambda>t'. pass_tells LM_PUSH (t0 @ [(?c, push)] @ t'))"
  proof (cases "gr_ok push")
    case False
    then have "unpublished [(?c, push)]" "unmoved [(?c, push)]" by (simp_all add: unpublished_def unmoved_def)
    with quiet have "unpublished (t0 @ [(?c, push)])" "unmoved (t0 @ [(?c, push)])" by simp_all
    then show ?thesis using False
      by (auto intro!: traced_answer pass_tells_again pass_tells_refused rejected_kind)
  next
    case True
    have "landed LM_PUSH (t0 @ [(?c, push)])"
      unfolding landed_def using True made_append(2) [OF made] by fastforce
    then have land: "landed LM_PUSH (t0 @ (?c, push) # t)" for t
      using landed_append(2) by fastforce
    show ?thesis
      unfolding eqTrueI [OF True] not_True_eq_False if_False
    proof (rule traced_bind, rule traced_mono [OF traced_cas], goal_cases)
      case (1 t r)
      then show ?case
        by (cases r) (auto intro!: traced_answer pass_tells_landed land simp: Let_def landed_kind split: option.splits)
    qed
  qed
qed simp

lemma local_tells:
  assumes made: "made new base t0" and quiet: "unpublished t0" "unmoved t0" and mode: "mode \<noteq> LM_PUSH"
  shows "traced (local_pass h ctx mode max_retries attempt co base new display) (\<lambda>t. pass_tells mode (t0 @ t))"
proof -
  have land: "landed mode (t0 @ t)" if "new = base \<or> accepted t (main_cas new base)" for t
    using that mode made_append(2) [OF made] unfolding landed_def by fastforce
  have pr: "traced (act_bind (open_pr h pr new out) (\<lambda>out. answer (Some out))) (\<lambda>t'. pass_tells mode' (t0 @ t @ t'))"
    if "lo_kind out \<in> LAND_SUCCESS_KINDS" "landed mode' (t0 @ t)" for pr out t mode'
  proof (rule traced_bind, rule traced_mono [OF traced_pr], goal_cases)
    case (1 t' r)
    then show ?case
      using that landed_append(2) [OF that(2)] by (cases r) (auto intro!: traced_answer pass_tells_landed)
  qed
  show ?thesis
    unfolding local_pass_def
  proof (rule traced_bind, rule traced_mono [OF traced_cas], goal_cases)
    case (1 t r)
    show ?case
    proof (cases r)
      case (Inl e)
      then show ?thesis by simp
    next
      case (Inr moved)
      show ?thesis
      proof (cases moved)
        case None
        then show ?thesis using 1 Inr quiet
          by (auto intro!: traced_answer pass_tells_again pass_tells_refused contention_kind)
      next
        case (Some out)
        with 1 Inr have "lo_kind out \<in> LAND_SUCCESS_KINDS" "landed mode (t0 @ t)" by (simp_all add: land)
        then show ?thesis using Inr Some
          by (auto intro!: traced_answer traced_fail pr pass_tells_landed split: option.split)
      qed
    qed
  qed
qed

lemma quiet_bind:
  assumes "only is_query a"
    "\<And>x t. unpublished t \<Longrightarrow> unmoved t \<Longrightarrow> traced (f x) (\<lambda>t'. pass_tells mode ((t0 @ t) @ t'))"
  shows "traced (act_bind a f) (\<lambda>t. pass_tells mode (t0 @ t))"
  by (rule traced_bind, rule traced_mono [OF traced_only [OF assms(1)]])
    (auto dest!: queries_quiet assms(2) split: sum.split)

lemma tells_pass: "traced (integrate_pass h ctx produce mode max_retries attempt) (pass_tells mode)"
proof -
  have rest: "traced (act_bind (read_checkout h) (\<lambda>co.
        if mode = LM_PUSH then push_pass h ctx max_retries attempt co base new display
        else local_pass h ctx mode max_retries attempt co base new display)) (\<lambda>t'. pass_tells mode (t @ t'))"
    if "made new base t" "unpublished t" "unmoved t" for new base display t
    by (rule quiet_bind [OF only_read_checkout])
      (use that in \<open>simp add: push_tells local_tells made_append(2) del: append_assoc\<close>)
  have "traced (act_bind (main_sha h) (\<lambda>base_opt. case base_opt of
       None \<Rightarrow> answer (Some (conflict_outcome [] ''target repo has no main commit to land onto''))
     | Some base \<Rightarrow> act_bind (produce base) (\<lambda>p. case pd_failure p of Some out \<Rightarrow> answer (Some out)
         | None \<Rightarrow> (case pd_sha p of None \<Rightarrow> compute (\<lambda>_. Inl AssertionError)
             | Some new \<Rightarrow> act_bind (read_checkout h) (\<lambda>co.
                if mode = LM_PUSH then push_pass h ctx max_retries attempt co base new (opt_or (pd_display p) new)
                else local_pass h ctx mode max_retries attempt co base new (opt_or (pd_display p) new)))))) (\<lambda>t. pass_tells mode ([] @ t))"
  proof (rule quiet_bind [OF only_main_sha], goal_cases)
    case (1 base_opt t)
    show ?case
    proof (cases base_opt)
      case None
      then show ?thesis using 1 by (auto intro!: traced_answer pass_tells_refused conflict_kind)
    next
      case (Some base)
      show ?thesis
        unfolding Some option.case
      proof (rule traced_bind, rule traced_mono [OF traced_conj [OF traced_only [OF produce_queries] produce_made]], goal_cases)
        case (1 t' r)
        then have "unpublished t'" "unmoved t'" by (auto dest: queries_quiet)
        with 1 \<open>unpublished t\<close> \<open>unmoved t\<close> show ?case
          by (cases r) (auto intro!: traced_answer traced_fail pass_tells_refused rest made_append(1)
            simp: pass_tells_def simp flip: append_assoc split: option.splits)
      qed
    qed
  qed
  then show ?thesis unfolding integrate_pass_def Let_def by simp
qed

definition loop_tells :: "repo_context \<Rightarrow> landing_mode \<Rightarrow> steps \<Rightarrow> py_error + land_outcome \<Rightarrow> bool" where
  "loop_tells ctx mode t r \<longleftrightarrow> (case r of Inl e \<Rightarrow> True | Inr out \<Rightarrow>
     if lo_kind out \<in> LAND_SUCCESS_KINDS then landed mode t
     else unpublished t \<and> (syncs ctx \<or> unmoved t))"

lemma loop_tells_prefix:
  "unpublished t \<Longrightarrow> syncs ctx \<or> unmoved t \<Longrightarrow> loop_tells ctx mode t' r \<Longrightarrow> loop_tells ctx mode (t @ t') r"
  by (auto simp: loop_tells_def landed_append split: sum.splits if_splits)

lemma loop_tells_done: "pass_tells mode t (Inr (Some out)) \<Longrightarrow> loop_tells ctx mode t (Inr (noting_drops d out))"
  by (auto simp: pass_tells_def loop_tells_def noting_drops_def)

lemma tells_loop: "traced (integrate_from h ctx produce mode max_retries n attempt dropped) (loop_tells ctx mode)"
proof (induction n arbitrary: attempt dropped)
  case 0
  then show ?case by (auto intro!: traced_fail simp: loop_tells_def)
next
  case (Suc n)
  have sync: "traced (sync_pass h ctx attempt) (\<lambda>t r. unpublished t \<and> (syncs ctx \<or> unmoved t))"
    by (rule traced_sync)
  show ?case
    unfolding integrate_from.simps
  proof (rule traced_bind, rule traced_mono [OF sync], goal_cases)
    case (1 t r)
    show ?case
    proof (cases r)
      case (Inl e)
      then show ?thesis by (simp add: loop_tells_def)
    next
      case (Inr more)
      have "traced (act_bind (integrate_pass h ctx produce mode max_retries attempt) (\<lambda>result. case result of
           Some out \<Rightarrow> answer (noting_drops (dropped @ more) out)
         | None \<Rightarrow> integrate_from h ctx produce mode max_retries n (Suc attempt) (dropped @ more))) (loop_tells ctx mode)"
      proof (rule traced_bind, rule traced_mono [OF tells_pass], goal_cases)
        case (1 t r)
        have "unpublished t \<and> unmoved t" if "r = Inr None" using 1 that by (simp add: pass_tells_def)
        then show ?case using 1
          by (auto intro!: traced_answer loop_tells_done traced_mono [OF Suc.IH] loop_tells_prefix
            split: sum.split option.split)
            (simp add: loop_tells_def)
      qed
      then have "traced (act_bind (integrate_pass h ctx produce mode max_retries attempt) (\<lambda>result. case result of
           Some out \<Rightarrow> answer (noting_drops (dropped @ more) out)
         | None \<Rightarrow> integrate_from h ctx produce mode max_retries n (Suc attempt) (dropped @ more)))
         (\<lambda>t'. loop_tells ctx mode (t @ t'))"
        by (rule traced_mono) (use 1 Inr in \<open>simp add: loop_tells_prefix\<close>)
      then show ?thesis using Inr by simp
    qed
  qed
qed

end

section \<open>The two producers\<close>

definition commit_made :: "(string \<Rightarrow> bool) \<Rightarrow> string \<Rightarrow> string \<Rightarrow> steps \<Rightarrow> bool" where
  "commit_made M new base t \<longleftrightarrow> (\<exists>tree message r.
     (Run_Git [''commit-tree'', tree, ''-p'', base, ''-m'', message], r) \<in> set t \<and> gr_ok r \<and>
     new = py_strip (gr_out r) \<and> M message)"

lemma commit_made_append: "commit_made M new base t \<Longrightarrow> commit_made M new base (t' @ t)"
  "commit_made M new base t \<Longrightarrow> commit_made M new base (t @ t')"
  unfolding commit_made_def by auto

lemma commit_madeI [simp]:
  "gr_ok r \<Longrightarrow> M message \<Longrightarrow>
     commit_made M (py_strip (gr_out r)) base (t @ (Run_Git [''commit-tree'', tree, ''-p'', base, ''-m'', message], r) # t')"
  unfolding commit_made_def by fastforce

text \<open>A commit that leaves the tree as it is stays the tip it was built on.\<close>

definition commit_or_base :: "(string \<Rightarrow> bool) \<Rightarrow> string \<Rightarrow> string \<Rightarrow> steps \<Rightarrow> bool" where
  "commit_or_base M new base t \<longleftrightarrow> new = base \<or> commit_made M new base t"

definition tells_made :: "(string \<Rightarrow> steps \<Rightarrow> bool) \<Rightarrow> steps \<Rightarrow> py_error + produce_result \<Rightarrow> bool" where
  "tells_made made t r \<longleftrightarrow> (case r of Inl e \<Rightarrow> True | Inr p \<Rightarrow>
     (case pd_failure p of Some out \<Rightarrow> lo_kind out \<notin> LAND_SUCCESS_KINDS
      | None \<Rightarrow> (\<forall>new. pd_sha p = Some new \<longrightarrow> made new t)))"

lemma tells_made_simps [simp]:
  "tells_made made t (Inl e)" "tells_made made t (Inr (not_produced paths d))"
  "made new t \<Longrightarrow> tells_made made t (Inr (produced new display))"
  by (simp_all add: tells_made_def not_produced_def produced_def conflict_kind)

text \<open>A step whose commands do not matter.\<close>

definition prefixable :: "(steps \<Rightarrow> py_error + 'a \<Rightarrow> bool) \<Rightarrow> bool" where
  "prefixable Q \<longleftrightarrow> (\<forall>t e. Q t (Inl e)) \<and> (\<forall>t t' r. Q t r \<longrightarrow> Q (t' @ t) r)"

lemma traced_skip:
  assumes "prefixable Q" "only K a" "\<And>x. traced (f x) Q"
  shows "traced (act_bind a f) Q"
proof -
  have "traced (f x) (\<lambda>t'. Q (t @ t'))" for x t
    by (rule traced_mono [OF assms(3)]) (use assms(1) in \<open>simp add: prefixable_def\<close>)
  moreover have "Q t (Inl e)" for t e using assms(1) by (simp add: prefixable_def)
  ultimately show ?thesis
    by (intro traced_bind traced_mono [OF traced_only [OF assms(2)]]) (simp split: sum.split)
qed

lemma prefixable_made: "(\<And>new t t'. made new t \<Longrightarrow> made new (t' @ t)) \<Longrightarrow> prefixable (tells_made made)"
  by (auto simp: prefixable_def tells_made_def split: sum.splits option.splits)

lemma traced_if: "(c \<Longrightarrow> traced a Q) \<Longrightarrow> (\<not> c \<Longrightarrow> traced b Q) \<Longrightarrow> traced (if c then a else b) Q"
  by simp

lemma any_command: "only (\<lambda>_. True) (git_run h args)" "only (\<lambda>_. True) (git_out h args)"
  by (auto intro!: only_command only_out)

lemma squash_made:
  "traced (squash_produce h branch title aid base)
     (tells_made (\<lambda>new. commit_made (\<lambda>m. m = squash_message title aid) new base))" (is "traced _ ?Q")
proof -
  have pre: "prefixable ?Q" by (intro prefixable_made commit_made_append)
  have commit: "traced (act_bind (git_run h [''commit-tree'', tree, ''-p'', base, ''-m'', squash_message title aid]) (\<lambda>commit.
       if \<not> gr_ok commit then answer (not_produced [] (''commit failed:'' @ [newline] @ gr_detail commit))
       else act_bind (short_sha h (py_strip (gr_out commit))) (\<lambda>display. answer (produced (py_strip (gr_out commit)) (Some display))))) ?Q"
    for tree
  proof (rule traced_bind, rule traced_command, unfold sum.case, rule traced_if)
    fix r
    assume "\<not> \<not> gr_ok r"
    then show "traced (act_bind (short_sha h (py_strip (gr_out r))) (\<lambda>display.
        answer (produced (py_strip (gr_out r)) (Some display))))
        (\<lambda>t'. ?Q ([(Run_Git [''commit-tree'', tree, ''-p'', base, ''-m'', squash_message title aid], r)] @ t'))"
      using commit_madeI [of r "\<lambda>m. m = squash_message title aid" "squash_message title aid" base "[]" tree]
      by (intro traced_bind traced_mono [OF traced_only [OF only_short_sha]]) (auto intro!: traced_answer split: sum.split)
  qed (auto intro!: traced_answer)
  show ?thesis
    unfolding squash_produce_def Let_def
    by (rule traced_skip [OF pre only_branch_exists])
      (auto intro!: traced_answer traced_skip [OF pre only_merge_tree] traced_skip [OF pre any_command(2)] commit
        split: prod.split option.split)
qed

text \<open>The replay of a commit; the message is the commit's own, or carries the extra trailer.\<close>

definition carries :: "string option \<Rightarrow> string \<Rightarrow> bool" where
  "carries extra message \<longleftrightarrow> (\<exists>m. message = with_trailer m extra)"

lemma carries_self [simp]: "carries extra (with_trailer m extra)"
  by (auto simp: carries_def)

definition tells_replay :: "string \<Rightarrow> string option \<Rightarrow> steps \<Rightarrow> py_error + replay_result \<Rightarrow> bool" where
  "tells_replay base extra t r \<longleftrightarrow>
     (\<forall>x new. r = Inr x \<longrightarrow> rr_sha x = Some new \<longrightarrow> commit_or_base (carries extra) new base t)"

lemma tells_replay_simps [simp]:
  "tells_replay base extra t (Inl e)" "tells_replay base extra t (Inr (unreplayed c d))"
  "tells_replay base extra t (Inr (replayed_at base))"
  "commit_made (carries extra) new base t \<Longrightarrow> tells_replay base extra t (Inr (replayed_at new))"
  by (simp_all add: tells_replay_def unreplayed_def replayed_at_def commit_or_base_def)

lemma replay_made: "traced (replay_commit h base sha extra) (tells_replay base extra)"
proof -
  let ?Q = "tells_replay base extra"
  have pre: "prefixable ?Q"
    by (auto simp: prefixable_def tells_replay_def commit_or_base_def commit_made_append)
  have commit: "traced (act_bind (git_run h [''commit-tree'', tree, ''-p'', base, ''-m'', with_trailer m extra]) (\<lambda>commit.
       if \<not> gr_ok commit then answer (unreplayed False (''commit failed:'' @ [newline] @ gr_detail commit))
       else answer (replayed_at (py_strip (gr_out commit))))) ?Q" for tree m
    using commit_madeI [where t = "[]" and t' = "[]"]
    by (intro traced_bind traced_command, unfold sum.case) (auto intro!: traced_if traced_answer)
  note skip = traced_skip [OF pre any_command(1)] traced_skip [OF pre any_command(2)]
  have tree: "traced (act_bind (git_out h args) (\<lambda>base_tree.
      if Some x = base_tree then answer (replayed_at base)
      else act_bind (git_out h args') (\<lambda>message. act_bind (git_run h [''commit-tree'', x, ''-p'', base, ''-m'',
                  with_trailer (opt_or message m) extra]) (\<lambda>commit.
               if \<not> gr_ok commit then answer (unreplayed False (''commit failed:'' @ [newline] @ gr_detail commit))
               else answer (replayed_at (py_strip (gr_out commit))))))) ?Q" for args args' x m
    by (rule skip(2), rule traced_if, simp add: traced_answer, rule skip(2), rule commit)
  show ?thesis
    unfolding replay_commit_def
    by (rule skip(2)) (auto intro!: skip(1) traced_answer tree split: option.split list.split)
qed

lemma cherry_made:
  "traced (cherry_produce h sha aid base)
     (tells_made (\<lambda>new. commit_or_base (carries (if nonempty aid then Some (attempt_trailer_line (opt_or aid [])) else None)) new base))"
  (is "traced _ ?Q")
proof -
  have pre: "prefixable ?Q" by (intro prefixable_made) (auto simp: commit_or_base_def commit_made_append)
  show ?thesis
    unfolding cherry_produce_def
    by (rule traced_skip [OF pre any_command(2)])
      (auto intro!: traced_answer traced_bind traced_mono [OF replay_made]
        simp: commit_or_base_def tells_replay_def split: option.split sum.split)
qed

end
