(* ===== verification/Land_Facts.thy ===== *)
theory Land_Facts
  imports Git_Facts
begin

text \<open>
  The theorems about the land of a task: the producers are interpreted in the locale of Git_Facts,
  and its facts are lifted to \<^const>\<open>land_locked\<close>. At the end, the names of the worktrees.
\<close>

section \<open>The producers keep the contract\<close>

lemma tells_made_contract:
  "traced a (tells_made made) \<Longrightarrow> traced a (\<lambda>t r. case r of Inl e \<Rightarrow> True | Inr p \<Rightarrow>
     (case pd_failure p of Some out \<Rightarrow> lo_kind out \<notin> LAND_SUCCESS_KINDS
      | None \<Rightarrow> (\<forall>new. pd_sha p = Some new \<longrightarrow> made new t)))"
  by (erule traced_mono) (simp add: tells_made_def)

abbreviation squashed :: "string \<Rightarrow> string option \<Rightarrow> string \<Rightarrow> string \<Rightarrow> steps \<Rightarrow> bool" where
  "squashed title aid \<equiv> commit_made (\<lambda>m. m = squash_message title aid)"

definition trailer_of :: "string option \<Rightarrow> string option" where
  "trailer_of aid = (if nonempty aid then Some (attempt_trailer_line (opt_or aid [])) else None)"

abbreviation picked :: "string option \<Rightarrow> string \<Rightarrow> string \<Rightarrow> steps \<Rightarrow> bool" where
  "picked aid \<equiv> commit_or_base (carries (trailer_of aid))"

interpretation squash: producer "squash_produce h branch title aid" "squashed title aid" for h branch title aid
  by unfold_locales (simp_all add: only_squash squash_made [THEN tells_made_contract] commit_made_append)

interpretation cherry: producer "cherry_produce h sha aid" "picked aid" for h sha aid
  by unfold_locales
    (auto simp: only_cherry cherry_made [folded trailer_of_def, THEN tells_made_contract] commit_or_base_def
      commit_made_append)

lemma squash_loop:
  "traced (integrate_and_push h ctx (squash_produce h branch title aid) mode n) (squash.loop_tells title aid ctx mode)"
  unfolding integrate_and_push_def by (rule squash.tells_loop)

lemma cherry_loop:
  "traced (integrate_and_push h ctx (cherry_produce h sha aid) mode n) (cherry.loop_tells aid ctx mode)"
  unfolding integrate_and_push_def by (rule cherry.tells_loop)

section \<open>From the loop to the land\<close>

definition land_tells :: "land_job \<Rightarrow> steps \<Rightarrow> py_error + land_outcome \<Rightarrow> bool" where
  "land_tells j t r \<longleftrightarrow> (case r of Inl e \<Rightarrow> True | Inr out \<Rightarrow>
     if lo_kind out \<in> LAND_SUCCESS_KINDS then
       lo_kind out = LK_ADOPTED \<and> unmoved t \<or> squash.landed (lj_title j) (lj_attempt j) (lj_mode j) t
     else unpublished t \<and> (syncs (job_context j) \<or> unmoved t))"

text \<open>Steps that neither publish nor move main, before or after.\<close>

lemma still_bind:
  assumes "only still a" "\<And>x. traced (f x) (land_tells j)"
  shows "traced (act_bind a f) (land_tells j)"
proof -
  have "traced (f x) (\<lambda>t'. land_tells j (t @ t'))" if "unpublished t" "unmoved t" for x t
    by (rule traced_mono [OF assms(2)])
      (use that in \<open>auto simp: land_tells_def squash.landed_append split: sum.splits if_splits\<close>)
  then show ?thesis
    by (intro traced_bind traced_mono [OF traced_only [OF assms(1)]])
      (auto dest!: still_trace simp: land_tells_def [of j _ "Inl _"] split: sum.split)
qed

lemma land_tells_after: "land_tells j t (Inr out) \<Longrightarrow> unpublished t' \<Longrightarrow> unmoved t' \<Longrightarrow> land_tells j (t @ t') (Inr out)"
  by (auto simp: land_tells_def squash.landed_append split: if_splits)

lemma still_teardown: "only still (teardown_worktree h task queue)"
  unfolding teardown_worktree_def by (intro only_rules only_command still_commands)

lemma still_prune: "only still (prune_rendezvous_branch h remote ref)"
  unfolding prune_rendezvous_branch_def by (intro only_rules only_command still_commands)

lemma still_obtain: "only still (obtain_branch h j ref)"
  unfolding obtain_branch_def fetch_rendezvous_branch_def Let_def
  by (auto intro!: only_rules only_command still_commands split: option.split)

lemma still_cross: "only still (is_cross_machine h j)"
  unfolding is_cross_machine_def path_exists_def by (intro only_rules only_command still_commands)

text \<open>What is done once the answer is known.\<close>

lemma traced_after:
  assumes "only still b" "\<And>t. unpublished t \<Longrightarrow> unmoved t \<Longrightarrow> Q t (Inr x)" "\<And>t e. Q t (Inl e)"
  shows "traced (act_bind b (\<lambda>_. answer x)) Q"
  by (rule traced_bind, rule traced_mono [OF traced_only [OF assms(1)]])
    (auto dest!: still_trace intro!: traced_answer assms(2,3) split: sum.split)

definition unmoving :: "cmd \<Rightarrow> bool" where
  "unmoving c \<longleftrightarrow> \<not> moves c"

lemma unmoving_commands: "unmoving (main_push remote sha)" "still c \<Longrightarrow> unmoving c"
  by (auto simp: unmoving_def moves_def still_def main_push_def main_cas_def)

lemma only_unmoving: "only still a \<Longrightarrow> only unmoving a"
  by (erule only_mono) (rule unmoving_commands)

lemma policy_answers: "answers (\<lambda>x. lo_kind x = lo_kind out) (apply_remote_policy h sha mode pr out remote)"
  unfolding apply_remote_policy_def
  by (cases mode; simp only: landing_mode.case; intro answers_rules open_pr_answers; simp)

lemma policy_unmoving: "only unmoving (apply_remote_policy h sha mode pr out remote)"
  unfolding apply_remote_policy_def push_main_def main_push_def [symmetric]
  by (cases mode; simp only: landing_mode.case;
      intro only_rules only_command unmoving_commands(1) still_pr [THEN only_unmoving])

lemma policy_tells:
  "traced (apply_remote_policy h sha mode pr out remote) (\<lambda>t r. unmoved t \<and> (\<forall>x. r = Inr x \<longrightarrow> lo_kind x = lo_kind out))"
proof (rule traced_mono [OF traced_answers [OF policy_unmoving policy_answers]], elim conjE)
  fix t :: steps and r :: "py_error + land_outcome"
  assume "list_all (\<lambda>(c, _). unmoving c) t" "\<forall>x. r = Inr x \<longrightarrow> lo_kind x = lo_kind out"
  then show "unmoved t \<and> (\<forall>x. r = Inr x \<longrightarrow> lo_kind x = lo_kind out)"
    using quiet_trace(2) unfolding unmoving_def by blast
qed

definition adopt_tells :: "steps \<Rightarrow> py_error + land_outcome option \<Rightarrow> bool" where
  "adopt_tells t r \<longleftrightarrow> unmoved t \<and> (case r of Inl e \<Rightarrow> True
     | Inr None \<Rightarrow> unpublished t | Inr (Some out) \<Rightarrow> lo_kind out = LK_ADOPTED)"

lemma adopts: "traced (adopt_agent_land h task queue base_ref mode pr remote) adopt_tells"
proof -
  have skip: "traced (act_bind a f) adopt_tells" if "only still a" "\<And>x. traced (f x) adopt_tells" for a :: "('a shell, 'c) action" and f
  proof -
    have "traced (f x) (\<lambda>t'. adopt_tells (t @ t'))" if "unpublished t" "unmoved t" for x t
      by (rule traced_mono [OF \<open>traced (f x) adopt_tells\<close>])
        (use that in \<open>auto simp: adopt_tells_def split: sum.splits option.splits\<close>)
    then show ?thesis
      by (intro traced_bind traced_mono [OF traced_only [OF that(1)]])
        (auto dest!: still_trace simp: adopt_tells_def [of _ "Inl _"] split: sum.split)
  qed
  have last: "traced (act_bind (apply_remote_policy h sha mode pr
      ((new_land_outcome LK_ADOPTED)\<lparr>lo_sha := Some sha, lo_detail := d\<rparr>) remote) (\<lambda>out. answer (Some out))) adopt_tells" for sha d
    by (rule traced_bind, rule traced_mono [OF policy_tells])
      (auto intro!: traced_answer simp: adopt_tells_def new_land_outcome_def split: sum.split)
  have advanced: "only still (main_advanced_sha h base_ref)"
    unfolding main_advanced_sha_def by (auto intro!: only_rules query_only [THEN query_still])
  show ?thesis
    unfolding adopt_agent_land_def
    by (rule skip [OF advanced])
      (auto intro!: traced_answer skip last still_teardown query_only [THEN query_still] simp: adopt_tells_def split: option.split)
qed

definition either :: "'a + 'a \<Rightarrow> 'a" where
  "either v = (case v of Inl x \<Rightarrow> x | Inr x \<Rightarrow> x)"

lemma reclaim_tells: "traced (squash_and_reclaim h j branch) (\<lambda>t r. land_tells j t (map_sum id either r))"
  unfolding squash_and_reclaim_def
proof (rule traced_bind, rule traced_mono [OF squash_loop], goal_cases)
  case (1 t r)
  show ?case
  proof (cases r)
    case (Inl e)
    then show ?thesis by (simp add: land_tells_def)
  next
    case (Inr out)
    with 1 have tells: "land_tells j t (Inr out)"
      by (auto simp: land_tells_def squash.loop_tells_def split: if_splits)
    show ?thesis
      unfolding Inr sum.case
      by (rule traced_if) (auto intro!: traced_answer traced_after [OF still_teardown] land_tells_after tells
        simp: either_def tells land_tells_def [of j _ "Inl _"])
  qed
qed

lemma obtain_refuses:
  "answers (\<lambda>x. \<forall>out. x = Some out \<longrightarrow> lo_kind out \<notin> LAND_SUCCESS_KINDS) (obtain_branch h j ref)"
proof -
  have "lo_kind (transport_failed b d) \<notin> LAND_SUCCESS_KINDS" for b d
    by (simp add: transport_failed_def new_land_outcome_def lifecycle_sets)
  then show ?thesis
    unfolding obtain_branch_def Let_def
    by (auto intro!: answers_rules split: option.split)
qed

text \<open>The land once the branch is here.\<close>

definition land_branch :: "'g host \<Rightarrow> land_job \<Rightarrow> string \<Rightarrow> bool \<Rightarrow> ('g shell, land_outcome) action" where
  "land_branch h j branch cross =
     act_bind (adopt_agent_land h (lj_task j) (lj_queue j) (lj_base_ref j) (lj_mode j) (job_pr j) (lj_remote j)) (\<lambda>adopted.
     act_bind (case adopted of Some out \<Rightarrow> answer (Inr out) | None \<Rightarrow> squash_and_reclaim h j branch) (\<lambda>landed.
     case landed of
       Inl out \<Rightarrow> answer out
     | Inr out \<Rightarrow>
         act_bind (if cross \<and> nonempty (lj_remote j) \<and> nonempty (lj_branch_ref j)
             then prune_rendezvous_branch h (opt_or (lj_remote j) []) (opt_or (lj_branch_ref j) [])
             else answer ()) (\<lambda>_. answer out)))"

lemma land_locked_eq:
  "land_locked h j =
     act_bind (compute (\<lambda>_. worktree_branch (lj_task j) (lj_queue j))) (\<lambda>branch.
     act_bind (is_cross_machine h j) (\<lambda>cross.
     act_bind (if cross then obtain_branch h j (opt_or (lj_branch_ref j) []) else answer None) (\<lambda>refusal.
       case refusal of Some out \<Rightarrow> answer out | None \<Rightarrow> land_branch h j branch cross)))"
  unfolding land_locked_def land_branch_def ..

lemma branch_tells: "traced (land_branch h j branch cross) (land_tells j)"
proof -
  have after: "traced (act_bind b (\<lambda>_. answer out)) (\<lambda>t'. land_tells j (t @ ta @ t'))"
    if "only still b" "land_tells j (t @ ta) (Inr out)" for b :: "('c shell, 'd) action" and out t ta
    by (rule traced_after [OF that(1)])
      (use land_tells_after [OF that(2)] in \<open>simp_all add: land_tells_def [of j _ "Inl _"]\<close>)
  have rest: "traced (act_bind (case adopted of Some out \<Rightarrow> answer (Inr out) | None \<Rightarrow> squash_and_reclaim h j branch) (\<lambda>landed.
     case landed of Inl out \<Rightarrow> answer out
     | Inr out \<Rightarrow> act_bind b (\<lambda>_. answer out)))
     (\<lambda>t'. land_tells j (t @ t'))" if "adopt_tells t (Inr adopted)" "only still b" for adopted t b
  proof -
    have "traced (case adopted of Some out \<Rightarrow> answer (Inr out) | None \<Rightarrow> squash_and_reclaim h j branch)
        (\<lambda>t' r. land_tells j (t @ t') (map_sum id either r))"
    proof (cases adopted)
      case None
      with that show ?thesis
        by (auto intro!: traced_mono [OF reclaim_tells]
          simp: adopt_tells_def land_tells_def squash.landed_append split: sum.splits if_splits)
    next
      case (Some out)
      with that show ?thesis
        by (auto intro!: traced_answer simp: adopt_tells_def land_tells_def either_def lifecycle_sets)
    qed
    then show ?thesis
      by (rule traced_bind [OF traced_mono])
        (auto intro!: traced_answer after [OF that(2)]
          simp: either_def land_tells_def [of j _ "Inl _"] split: sum.split)
  qed
  show ?thesis
    unfolding land_branch_def
    by (rule traced_bind, rule traced_mono [OF adopts])
      (auto simp: rest still_prune only_answer land_tells_def [of j _ "Inl _"] split: sum.split)
qed

lemma land_tells_land: "traced (land_locked h j) (land_tells j)"
proof -
  have obt: "traced (act_bind (if cross then obtain_branch h j ref else answer None) (\<lambda>refusal.
       case refusal of Some out \<Rightarrow> answer out | None \<Rightarrow> land_branch h j branch cross)) (land_tells j)" for cross ref branch
  proof (rule traced_bind, rule traced_mono)
    show "traced (if cross then obtain_branch h j ref else answer None) (\<lambda>t r. list_all (\<lambda>(c, _). still c) t \<and>
        (\<forall>x. r = Inr x \<longrightarrow> (\<forall>out. x = Some out \<longrightarrow> lo_kind out \<notin> LAND_SUCCESS_KINDS)))"
      by (intro traced_if traced_answers [OF still_obtain obtain_refuses]) (simp add: traced_answer)
  next
    fix t :: steps and r :: "py_error + land_outcome option"
    assume "list_all (\<lambda>(c, _). still c) t \<and>
      (\<forall>x. r = Inr x \<longrightarrow> (\<forall>out. x = Some out \<longrightarrow> lo_kind out \<notin> LAND_SUCCESS_KINDS))"
    moreover from this have "unpublished t" "unmoved t" using still_trace by blast+
    ultimately show "case r of Inl e \<Rightarrow> land_tells j t (Inl e) | Inr refusal \<Rightarrow>
        traced (case refusal of Some out \<Rightarrow> answer out | None \<Rightarrow> land_branch h j branch cross) (\<lambda>t'. land_tells j (t @ t'))"
      by (auto intro!: traced_answer traced_mono [OF branch_tells]
        simp: land_tells_def squash.landed_append split: sum.splits option.splits if_splits)
  qed
  show ?thesis
    unfolding land_locked_eq
    by (intro traced_known still_bind [OF still_cross] obt) (simp add: land_tells_def)
qed

text \<open>
  C4: the outcome of a land tells what happened, whatever git answers. A success was either adopted,
  and then the land did not move main, or a commit with the task's title and the attempt's trailer
  was made on a base and, in push mode, the push of that commit to main was accepted; in the other
  modes main was swapped from the base to it (or it is the base). A refusal published nothing, and
  moved main only where the land follows the remote first.
\<close>

theorem land_outcome_truthful:
  assumes "land_locked h j s = (s', Inr out)"
  shows "\<exists>t. sh_trace s' = sh_trace s @ t \<and>
    (if lo_kind out \<in> LAND_SUCCESS_KINDS then
       lo_kind out = LK_ADOPTED \<and> unmoved t \<or>
       (\<exists>base tree r. (Run_Git [''commit-tree'', tree, ''-p'', base, ''-m'', squash_message (lj_title j) (lj_attempt j)], r) \<in> set t \<and>
          gr_ok r \<and>
          (if lj_mode j = LM_PUSH then \<exists>remote. accepted t (main_push remote (py_strip (gr_out r)))
           else py_strip (gr_out r) = base \<or> accepted t (main_cas (py_strip (gr_out r)) base)))
     else unpublished t \<and> (nonempty (lj_remote j) \<and> is_remote (lj_mode j) \<or> unmoved t))"
proof -
  obtain t where t: "sh_trace s' = sh_trace s @ t" "land_tells j t (Inr out)"
    using tracedD [OF land_tells_land assms] by blast
  have "syncs (job_context j) \<longleftrightarrow> nonempty (lj_remote j) \<and> is_remote (lj_mode j)"
    by (auto simp: syncs_def job_context_def)
  with t(2) show ?thesis
    unfolding land_tells_def squash.landed_def commit_made_def sum.case
    by (intro exI [of _ t] conjI t(1)) (fastforce split: if_splits)
qed

section \<open>A land always answers\<close>

text \<open>An exception of a command that could not be run: the host gives it for some command.\<close>

definition unstarted :: "'g host \<Rightarrow> py_error \<Rightarrow> bool" where
  "unstarted h e \<longleftrightarrow> (\<exists>c w. snd (ho_run h c w) = Inl e)"

text \<open>An operation that answers, or raises only since a command could not be run.\<close>

definition replies :: "'g host \<Rightarrow> ('a \<Rightarrow> bool) \<Rightarrow> ('g shell, 'a) action \<Rightarrow> bool" where
  "replies h P a \<longleftrightarrow> (\<forall>s. case snd (a s) of Inr x \<Rightarrow> P x | Inl e \<Rightarrow> unstarted h e)"

named_theorems replies_rules \<open>operations that raise only with a command that could not be run\<close>

lemma replies_answer [replies_rules]: "P x \<Longrightarrow> replies h P (answer x)"
  by (simp add: replies_def answer_def)

lemma replies_compute: "(\<And>s. \<exists>x. f s = Inr x \<and> P x) \<Longrightarrow> replies h P (compute f)"
  by (auto simp: replies_def compute_def split: sum.split) (metis Inl_Inr_False Inr_inject)+

lemma replies_change [replies_rules]: "P () \<Longrightarrow> replies h P (change f)"
  by (simp add: replies_def change_def)

lemma replies_command [replies_rules]: "(\<And>r. P r) \<Longrightarrow> replies h P (command h c)"
  by (auto simp: replies_def command_def unstarted_def split: prod.split sum.split) (metis snd_conv)

lemma replies_bind:
  assumes "replies h P a" "\<And>x. P x \<Longrightarrow> replies h Q (f x)"
  shows "replies h Q (act_bind a f)"
  unfolding replies_def
proof
  fix s
  obtain s1 r where a: "a s = (s1, r)" by fastforce
  then have "case r of Inr x \<Rightarrow> P x | Inl e \<Rightarrow> unstarted h e"
    using assms(1) unfolding replies_def by (metis snd_conv)
  then show "case snd (act_bind a f s) of Inr x \<Rightarrow> Q x | Inl e \<Rightarrow> unstarted h e"
    using assms(2) a by (cases r) (simp_all add: act_bind_def replies_def)
qed

lemma replies_then [replies_rules]: "replies h (\<lambda>_. True) a \<Longrightarrow> (\<And>x. replies h Q (f x)) \<Longrightarrow> replies h Q (act_bind a f)"
  by (erule replies_bind) simp

lemma replies_suppress [replies_rules]: "replies h (\<lambda>_. True) a \<Longrightarrow> P () \<Longrightarrow> replies h P (suppress_os a)"
  unfolding replies_def
proof
  fix s
  assume all: "\<forall>s. case snd (a s) of Inr x \<Rightarrow> True | Inl e \<Rightarrow> unstarted h e" and P: "P ()"
  from P spec [OF all, of s] show "case snd (suppress_os a s) of Inr x \<Rightarrow> P x | Inl e \<Rightarrow> unstarted h e"
    by (cases "a s"; cases "snd (a s)") (auto simp: suppress_os_def)
qed

lemma replies_if [replies_rules]: "(c \<Longrightarrow> replies h P a) \<Longrightarrow> (\<not> c \<Longrightarrow> replies h P b) \<Longrightarrow> replies h P (if c then a else b)"
  by simp

lemma replies_option [replies_rules]:
  "(x = None \<Longrightarrow> replies h P a) \<Longrightarrow> (\<And>y. x = Some y \<Longrightarrow> replies h P (b y)) \<Longrightarrow>
     replies h P (case x of None \<Rightarrow> a | Some y \<Rightarrow> b y)"
  by (simp split: option.split)

lemma replies_list [replies_rules]:
  "(xs = [] \<Longrightarrow> replies h P a) \<Longrightarrow> (\<And>y ys. xs = y # ys \<Longrightarrow> replies h P (b y ys)) \<Longrightarrow>
     replies h P (case xs of [] \<Rightarrow> a | y # ys \<Rightarrow> b y ys)"
  by (simp split: list.split)

lemma replies_known: "r = Inr x \<Longrightarrow> replies h P (f x) \<Longrightarrow> replies h P (act_bind (compute (\<lambda>_. r)) f)"
  by (simp add: known_bind)

lemma replies_out [replies_rules]: "(\<And>x. P x) \<Longrightarrow> replies h P (git_out h args)"
  unfolding git_out_def by (intro replies_rules) simp_all

lemma replies_ok [replies_rules]: "(\<And>x. P x) \<Longrightarrow> replies h P (git_ok h args)"
  unfolding git_ok_def by (intro replies_rules) simp_all

lemma replies_queries [replies_rules]:
  shows "replies h (\<lambda>_. True) (is_ancestor h a d)" and "replies h (\<lambda>_. True) (branch_exists h b)"
    and "replies h (\<lambda>_. True) (main_sha h)" and "replies h (\<lambda>_. True) (read_checkout h)"
    and "replies h (\<lambda>_. True) (unpushed_commits h x y)" and "replies h (\<lambda>_. True) (lock_changed_between h x y)"
    and "replies h (\<lambda>_. True) (short_sha h x)" and "replies h (\<lambda>_. True) (merge_tree h x y)"
    and "replies h (\<lambda>_. True) (clock h)" and "replies h (\<lambda>_. True) (path_exists h p)"
    and "replies h (\<lambda>_. True) (advance_checkout h co new)" and "replies h (\<lambda>_. True) (replay_commit h base sha extra)"
  unfolding is_ancestor_def branch_exists_def main_sha_def either_out_def read_checkout_def unpushed_commits_def
    lock_changed_between_def short_sha_def merge_tree_def clock_def path_exists_def advance_checkout_def replay_commit_def
  by (intro replies_rules replies_compute; simp)+

lemma replies_replays [replies_rules]: "replies h (\<lambda>_. True) (replay_all h tip dropped shas)"
  by (induction h tip dropped shas rule: replay_all.induct) (auto intro!: replies_rules split: option.split)

lemma replies_sync [replies_rules]: "replies h (\<lambda>_. True) (sync_main_locked h remote interval force rescue throttled)"
proof -
  have "replies h (\<lambda>_. True) (move_main h head tip dropped)" for head tip dropped
    unfolding move_main_def update_main_cas_def by (intro replies_rules) simp_all
  then have "replies h (\<lambda>_. True) (sync_main_impl h remote rescue)"
    unfolding sync_main_impl_def by (auto intro!: replies_rules split: option.split)
  then show ?thesis
    unfolding sync_main_locked_def mark_synced_def by (auto intro!: replies_rules replies_compute)
qed

lemma replies_pr:
  assumes "queue_slug (ps_queue pr) = Inr q"
  shows "replies h (\<lambda>_. True) (open_pr h pr sha out)"
  unfolding open_pr_def Let_def by (rule replies_known [OF assms]) (intro replies_rules; simp)

definition pr_ready :: "repo_context \<Rightarrow> landing_mode \<Rightarrow> bool" where
  "pr_ready ctx mode \<longleftrightarrow> (mode = LM_PR \<longrightarrow> (\<exists>pr q. cx_pr ctx = Some pr \<and> queue_slug (ps_queue pr) = Inr q))"

text \<open>The last pass settles the land.\<close>

definition settles :: "nat \<Rightarrow> nat \<Rightarrow> land_outcome option \<Rightarrow> bool" where
  "settles max_retries attempt result \<longleftrightarrow> (attempt \<ge> max_retries \<longrightarrow> result \<noteq> None)"

text \<open>A producer that answers with a commit or with a failure.\<close>

locale answering_producer = producer +
  fixes h :: "'a host"
  assumes produce_answers: "replies h (\<lambda>p. pd_failure p \<noteq> None \<or> pd_sha p \<noteq> None) (produce base)"
begin

lemma cas_answers: "replies h (\<lambda>_. True) (cas_and_advance h co base new display)"
  unfolding cas_and_advance_def update_main_cas_def by (intro replies_rules) simp_all

lemma push_settles:
  "replies h (settles max_retries attempt) (push_pass h ctx max_retries attempt co base new display)"
  unfolding push_pass_def push_main_def Let_def
  by (intro replies_rules cas_answers) (simp_all add: settles_def)

lemma local_settles:
  assumes "mode = LM_PR \<longrightarrow> (\<exists>pr q. cx_pr ctx = Some pr \<and> queue_slug (ps_queue pr) = Inr q)"
  shows "replies h (settles max_retries attempt) (local_pass h ctx mode max_retries attempt co base new display)"
  unfolding local_pass_def
proof (rule replies_then [OF cas_answers])
    fix moved
    show "replies h (settles max_retries attempt) (case moved of
       None \<Rightarrow> answer (if attempt < max_retries then None
         else Some ((new_land_outcome LK_PUSH_REJECTED)\<lparr>lo_detail :=
           ''local main kept advancing during the land - update-ref rejected after '' @
           nat_text (max_retries + 1) @ '' attempt(s)''\<rparr>))
     | Some out \<Rightarrow>
         if mode = LM_PR then
           (case cx_pr ctx of None \<Rightarrow> compute (\<lambda>_. Inl AssertionError)
            | Some pr \<Rightarrow> act_bind (open_pr h pr new (out\<lparr>lo_remote := Some ''pr''\<rparr>)) (\<lambda>out. answer (Some out)))
         else answer (Some out))"
    using assms by (auto intro!: replies_rules replies_pr simp: settles_def split: option.split)
qed

lemma pass_settles:
  assumes "pr_ready ctx mode"
  shows "replies h (settles max_retries attempt) (integrate_pass h ctx produce mode max_retries attempt)"
proof -
  have rest: "replies h (settles max_retries attempt) (case pd_failure p of Some out \<Rightarrow> answer (Some out)
         | None \<Rightarrow> (case pd_sha p of None \<Rightarrow> compute (\<lambda>_. Inl AssertionError)
           | Some new \<Rightarrow> act_bind (read_checkout h) (\<lambda>checkout.
                 if mode = LM_PUSH then push_pass h ctx max_retries attempt checkout base new (opt_or (pd_display p) new)
                 else local_pass h ctx mode max_retries attempt checkout base new (opt_or (pd_display p) new))))"
    if "pd_failure p \<noteq> None \<or> pd_sha p \<noteq> None" for p base
    using that assms[unfolded pr_ready_def]
    by (auto intro!: replies_rules push_settles local_settles simp: settles_def split: option.split)
  show ?thesis
    unfolding integrate_pass_def Let_def
    by (rule replies_then [OF replies_queries(3)], rule replies_option)
      (auto intro!: replies_answer replies_bind [OF produce_answers] rest simp: settles_def)
qed

lemma loop_answers:
  assumes "pr_ready ctx mode"
  shows "attempt + n = Suc max_retries \<Longrightarrow> n > 0 \<Longrightarrow>
    replies h (\<lambda>_. True) (integrate_from h ctx produce mode max_retries n attempt dropped)"
proof (induction n arbitrary: attempt dropped)
  case (Suc n)
  have "replies h (\<lambda>_. True) (sync_pass h ctx attempt)"
    unfolding sync_pass_def by (intro replies_rules) simp_all
  moreover have "replies h (\<lambda>_. True) (act_bind (integrate_pass h ctx produce mode max_retries attempt) (\<lambda>result.
       case result of Some out \<Rightarrow> answer (noting_drops d out)
       | None \<Rightarrow> integrate_from h ctx produce mode max_retries n (Suc attempt) d))" for d
    by (rule replies_bind [OF pass_settles [OF assms]])
      (use Suc in \<open>auto intro!: replies_rules simp: settles_def split: option.split\<close>)
  ultimately show ?case by (simp add: replies_then)
qed simp

lemma integrate_answers:
  "pr_ready ctx mode \<Longrightarrow> replies h (\<lambda>_. True) (integrate_and_push h ctx produce mode max_retries)"
  unfolding integrate_and_push_def by (rule loop_answers) simp_all

end

lemma squash_answers: "replies h (\<lambda>p. pd_failure p \<noteq> None \<or> pd_sha p \<noteq> None) (squash_produce h branch title aid base)"
  unfolding squash_produce_def Let_def
  by (intro replies_rules; (rule replies_then, simp add: replies_rules)?; auto intro!: replies_rules
    simp: not_produced_def produced_def split: prod.split)

lemma cherry_answers: "replies h (\<lambda>p. pd_failure p \<noteq> None \<or> pd_sha p \<noteq> None) (cherry_produce h sha aid base)"
  unfolding cherry_produce_def
  by (intro replies_rules) (simp_all add: not_produced_def produced_def)

interpretation squash: answering_producer "squash_produce h branch title aid" "squashed title aid" h for h branch title aid
  by unfold_locales (rule squash_answers)

interpretation cherry: answering_producer "cherry_produce h sha aid" "picked aid" h for h sha aid
  by unfold_locales (rule cherry_answers)

text \<open>The directory of a task exists where its branch has a name.\<close>

lemma names_together:
  assumes "worktree_branch task queue = Inr branch" "safe_component ''repo'' repo = Inr repo"
  obtains q where "queue_slug queue = Inr q" "safe_component ''task'' task = Inr task"
    "branch = ''task-local/'' @ q @ ''/'' @ task"
    "worktree_dir workspace repo task queue = Inr (workspace @ ''/.worktrees'' @ ''/'' @ repo @ ''/task-local-'' @ q @ ''-'' @ task)"
proof -
  obtain q where q: "queue_slug queue = Inr q" using assms(1) by (cases "queue_slug queue") (auto simp: worktree_branch_def)
  moreover have t: "safe_component ''task'' task = Inr task"
    using assms(1) q by (auto simp: worktree_branch_def safe_component_def split: if_splits)
  moreover have "branch = ''task-local/'' @ q @ ''/'' @ task"
    using assms(1) q t by (simp add: worktree_branch_def)
  moreover have "worktree_dir workspace repo task queue =
      Inr (workspace @ ''/.worktrees'' @ ''/'' @ repo @ ''/task-local-'' @ q @ ''-'' @ task)"
    using q t assms(2) unfolding worktree_dir_def Let_def by (simp add: py_startswith_def)
  ultimately show ?thesis by (rule that)
qed

lemma safe_repo: "safe_component kind x = Inr y \<Longrightarrow> y = x"
  by (auto simp: safe_component_def split: if_splits)

text \<open>
  C6: a land answers. In a repository whose name is a safe component of a path, a land of a task whose
  own or whose queue's name is not runs no command and raises; every other land answers with an
  outcome, whatever git and gh answer: the retries end, the pull request has its name, and no pass is
  left without a commit or a refusal. The one exception that leaves it is that of a command that could
  not be run at all (git or gh is not installed, a directory is gone).
\<close>

theorem land_always_answers:
  assumes "safe_component ''repo'' (ho_repo h) = Inr repo"
  shows "case worktree_branch (lj_task j) (lj_queue j) of
      Inl e \<Rightarrow> land_locked h j s = (s, Inl e)
    | Inr branch \<Rightarrow> (\<exists>out. snd (land_locked h j s) = Inr out) \<or>
        (\<exists>e c w. snd (land_locked h j s) = Inl e \<and> snd (ho_run h c w) = Inl e)"
proof (cases "worktree_branch (lj_task j) (lj_queue j)")
  case (Inl e)
  then show ?thesis by (simp add: land_locked_def known_bind)
next
  case (Inr branch)
  obtain q dir where q: "queue_slug (lj_queue j) = Inr q" and dir: "task_dir h (lj_task j) (lj_queue j) = Inr dir"
    using names_together [OF Inr assms [unfolded safe_repo [OF assms]]] by metis
  have tear: "replies h (\<lambda>_. True) (teardown_worktree h (lj_task j) (lj_queue j))"
    unfolding teardown_worktree_def by (rule replies_known [OF dir], rule replies_known [OF Inr]) (intro replies_rules; simp)
  have obt: "replies h (\<lambda>_. True) (obtain_branch h j ref)" for ref
    unfolding obtain_branch_def fetch_rendezvous_branch_def Let_def
    by (intro replies_rules replies_known [OF Inr]; simp)
  have cross: "replies h (\<lambda>_. True) (is_cross_machine h j)"
    unfolding is_cross_machine_def by (intro replies_rules replies_known [OF dir]; simp)
  have prune: "replies h (\<lambda>_. True) (prune_rendezvous_branch h remote ref)" for remote ref
    unfolding prune_rendezvous_branch_def by (intro replies_rules; simp)
  have pr: "replies h (\<lambda>_. True) (open_pr h (job_pr j) sha out)" for sha out
    by (rule replies_pr) (use q in \<open>simp add: job_pr_def\<close>)
  have policy: "replies h (\<lambda>_. True) (apply_remote_policy h sha (lj_mode j) (job_pr j) out remote)" for sha out remote
    unfolding apply_remote_policy_def push_main_def
    by (cases "lj_mode j"; simp only: landing_mode.case; intro replies_rules pr; simp)
  have adopt: "replies h (\<lambda>_. True) (adopt_agent_land h (lj_task j) (lj_queue j) base (lj_mode j) (job_pr j) remote)" for base remote
    unfolding adopt_agent_land_def main_advanced_sha_def has_commits_def
    by (intro replies_rules replies_known [OF Inr] tear policy; simp)
  have reclaim: "replies h (\<lambda>_. True) (squash_and_reclaim h j branch)"
    unfolding squash_and_reclaim_def
    by (intro replies_rules squash.integrate_answers tear) (use q in \<open>simp_all add: pr_ready_def job_context_def job_pr_def\<close>)
  have "replies h (\<lambda>_. True) (land_branch h j branch c)" for c
    unfolding land_branch_def
    by (rule replies_then [OF adopt], rule replies_then)
      (auto intro!: replies_rules reclaim prune split: option.split sum.split)
  then have "replies h (\<lambda>_. True) (land_locked h j)"
    unfolding land_locked_eq
    by (intro replies_known [OF Inr] replies_rules cross obt) simp_all
  then have "case snd (land_locked h j s) of Inr x \<Rightarrow> True | Inl e \<Rightarrow> unstarted h e"
    by (simp add: replies_def)
  then show ?thesis using Inr by (cases "snd (land_locked h j s)") (auto simp: unstarted_def)
qed

section \<open>The land of a resolved commit\<close>

definition pushes :: "steps \<Rightarrow> nat" where
  "pushes t = length (filter (\<lambda>(c, _). publishes c) t)"

lemma pushes_append [simp]: "pushes (t @ t') = pushes t + pushes t'"
  by (simp add: pushes_def)

lemma pushes_none: "list_all (\<lambda>(c, _). withheld c) t \<Longrightarrow> pushes t = 0"
  by (induction t) (auto simp: pushes_def withheld_def split: prod.split)

definition at_most :: "nat \<Rightarrow> ('g shell, 'a) action \<Rightarrow> bool" where
  "at_most k a \<longleftrightarrow> traced a (\<lambda>t r. pushes t \<le> k)"

lemma at_most_none: "only withheld a \<Longrightarrow> at_most k a"
  unfolding at_most_def by (rule traced_mono [OF traced_only]) (auto simp: pushes_none)

lemma at_most_bind:
  assumes "at_most k a" "\<And>x. at_most l (f x)"
  shows "at_most (k + l) (act_bind a f)"
proof -
  have "traced (f x) (\<lambda>t'. \<lambda>r. pushes (t @ t') \<le> k + l)" if "pushes t \<le> k" for x t
    by (rule traced_mono [OF assms(2) [unfolded at_most_def]]) (use that in simp)
  then show ?thesis
    unfolding at_most_def
    by (intro traced_bind traced_mono [OF assms(1) [unfolded at_most_def]]) (auto split: sum.split)
qed

lemma at_most_after: "only withheld a \<Longrightarrow> (\<And>x. at_most l (f x)) \<Longrightarrow> at_most l (act_bind a f)"
  using at_most_bind [of 0 a l f] by (simp add: at_most_none)

lemma only_withheld_cas: "only withheld (cas_and_advance h co base new display)"
  unfolding cas_and_advance_def update_main_cas_def main_cas_def [symmetric]
  by (intro only_rules only_command withheld_commands(1) still_advance [THEN only_withheld(2)])

lemma push_pass_once: "at_most 1 (push_pass h ctx max_retries attempt co base new display)"
proof -
  have "at_most 1 (push_main h remote new)" for remote
    unfolding push_main_def at_most_def by (rule traced_command) (simp_all add: pushes_def split: prod.split)
  moreover have "at_most 0 (if \<not> gr_ok push then answer x
     else act_bind (cas_and_advance h co base new display) (\<lambda>moved. answer (f moved)))" for push x and f :: "land_outcome option \<Rightarrow> 'b"
    by (intro at_most_none only_rules only_withheld_cas)
  ultimately show ?thesis
    unfolding push_pass_def Let_def using at_most_bind [of 1 _ 0] by fastforce
qed

lemma at_most_if: "at_most k a \<Longrightarrow> at_most k b \<Longrightarrow> at_most k (if c then a else b)"
  by simp

lemma local_pass_none: "at_most k (local_pass h ctx mode max_retries attempt co base new display)"
  unfolding local_pass_def
  by (intro at_most_none only_bind only_withheld_cas)
    (auto intro!: only_rules still_pr [THEN only_withheld(2)] split: option.split)

context producer
begin

lemma pass_once: "at_most 1 (integrate_pass h ctx produce mode max_retries attempt)"
proof -
  have rest: "at_most 1 (case pd_failure p of Some out \<Rightarrow> answer (Some out)
         | None \<Rightarrow> (case pd_sha p of None \<Rightarrow> compute (\<lambda>_. Inl AssertionError)
           | Some new \<Rightarrow> act_bind (read_checkout h) (\<lambda>checkout.
                 if mode = LM_PUSH then push_pass h ctx max_retries attempt checkout base new (opt_or (pd_display p) new)
                 else local_pass h ctx mode max_retries attempt checkout base new (opt_or (pd_display p) new))))" for p base
    by (auto intro!: at_most_none [OF only_answer] at_most_none [OF only_compute] push_pass_once [simplified] local_pass_none
        at_most_after [OF only_read_checkout [THEN only_withheld(1)]] split: option.split)
  show ?thesis
    unfolding integrate_pass_def Let_def
    by (rule at_most_after [OF only_main_sha [THEN only_withheld(1)]])
      (auto intro!: at_most_none [OF only_answer] at_most_after [OF produce_queries [THEN only_withheld(1)]] rest
        simp del: One_nat_def split: option.split)
qed

lemma loop_pushes: "at_most n (integrate_from h ctx produce mode max_retries n attempt dropped)"
proof (induction n arbitrary: attempt dropped)
  case (Suc n)
  have sync: "only withheld (sync_pass h ctx attempt)"
    unfolding sync_pass_def by (intro only_rules withheld_sync)
  have "at_most (1 + n) (act_bind (integrate_pass h ctx produce mode max_retries attempt) (\<lambda>result. case result of
           Some out \<Rightarrow> answer (noting_drops d out)
         | None \<Rightarrow> integrate_from h ctx produce mode max_retries n (Suc attempt) d))" for d
    by (rule at_most_bind [OF pass_once]) (auto intro!: at_most_none [OF only_answer] Suc.IH split: option.split)
  then show ?case by (auto intro!: at_most_after [OF sync])
qed (simp add: at_most_none only_compute)

end

text \<open>
  C7: the land of a resolved commit answers, after at most one push of main for each of its passes.
  When it says yes, main of the remote accepted either a commit made on a base, with the trailer of
  the attempt where there is one, or a base itself; when it says no, no push of main was accepted.
  What git answers does not matter; only a command that could not be run at all makes it raise, and
  then too the pushes are bounded.
\<close>

theorem resolved_land_truthful:
  "\<exists>s' r t. push_resolved_main h remote sha n throttled aid s = (s', r) \<and>
     sh_trace s' = sh_trace s @ t \<and> pushes t \<le> Suc n \<and>
     (case r of
        Inr (done, text) \<Rightarrow>
          if done then \<exists>new base target. picked aid new base t \<and> accepted t (main_push target new) else unpublished t
      | Inl e \<Rightarrow> \<exists>c w. snd (ho_run h c w) = Inl e)"
proof -
  let ?ctx = "\<lparr>cx_remote = remote, cx_sync = nonempty remote, cx_refresh_seconds = 0, cx_rescue_first = True,
         cx_pr = None, cx_throttled = throttled\<rparr>"
  let ?loop = "integrate_and_push h ?ctx (cherry_produce h sha aid) LM_PUSH n"
  obtain s' r where run: "?loop s = (s', r)" by fastforce
  have "replies h (\<lambda>_. True) ?loop" by (rule cherry.integrate_answers) (simp add: pr_ready_def)
  then have raised: "\<exists>c w. snd (ho_run h c w) = Inl e" if "r = Inl e" for e
    using run that by (auto simp: replies_def unstarted_def dest: spec [of _ s])
  have bound: "at_most (Suc n) ?loop"
    unfolding integrate_and_push_def by (rule cherry.loop_pushes)
  have "traced ?loop (\<lambda>t r. cherry.loop_tells aid ?ctx LM_PUSH t r \<and> pushes t \<le> Suc n)"
    by (intro traced_conj cherry_loop) (use bound in \<open>simp add: at_most_def\<close>)
  from tracedD [OF this run] obtain t where t: "sh_trace s' = sh_trace s @ t"
      "cherry.loop_tells aid ?ctx LM_PUSH t r" "pushes t \<le> Suc n" by blast
  show ?thesis
  proof (cases r)
    case (Inl e)
    then show ?thesis
      unfolding push_resolved_main_def act_bind_def using run t(1,3) raised by simp
  next
    case (Inr out)
    then show ?thesis
      unfolding push_resolved_main_def act_bind_def
      using run t by (auto simp: answer_def cherry.loop_tells_def cherry.landed_def split: if_splits)
  qed
qed

section \<open>A run on another machine\<close>

text \<open>The worktree is here, or the branch was fetched and has the commit the worker named.\<close>

definition verified :: "land_job \<Rightarrow> string \<Rightarrow> string \<Rightarrow> steps \<Rightarrow> bool" where
  "verified j dir branch t \<longleftrightarrow> accepted t (Exists dir) \<or>
     (\<exists>remote ref head r. lj_remote j = Some remote \<and> lj_branch_ref j = Some ref \<and> lj_head_sha j = Some head \<and>
        accepted t (branch_fetch remote ref branch) \<and>
        (Run_Git [''rev-parse'', branch], r) \<in> set t \<and> gr_ok r \<and> py_strip (gr_out r) = head)"

lemma bind_answer: "act_bind (answer x) f = f x"
  by (simp add: act_bind_def answer_def fun_eq_iff)

lemma verified_append: "verified j dir branch t \<Longrightarrow> verified j dir branch (t @ t')"
  "verified j dir branch t' \<Longrightarrow> verified j dir branch (t @ t')"
  by (auto simp: verified_def)

lemma cross_seen:
  assumes "lj_branch_ref j \<noteq> None" "task_dir h (lj_task j) (lj_queue j) = Inr dir"
  shows "traced (is_cross_machine h j) (\<lambda>t r. unpublished t \<and> unmoved t \<and> (\<forall>cross. r = Inr cross \<and> \<not> cross \<longrightarrow> accepted t (Exists dir)))"
proof -
  have "traced (is_cross_machine h j) (\<lambda>t r. \<forall>cross. r = Inr cross \<and> \<not> cross \<longrightarrow> accepted t (Exists dir))"
    unfolding is_cross_machine_def path_exists_def using assms(1)
    by (auto simp: assms(2) act_bind_def compute_def command_def answer_def traced_def split: prod.split sum.split)
  from traced_conj [OF traced_only [OF still_cross] this] show ?thesis
    by (rule traced_mono) (blast dest: still_trace)
qed

lemma obtain_seen:
  assumes "lj_branch_ref j = Some ref" "worktree_branch (lj_task j) (lj_queue j) = Inr branch"
  shows "traced (obtain_branch h j ref) (\<lambda>t r. unpublished t \<and> unmoved t \<and> (\<forall>x. r = Inr x \<longrightarrow>
     (case x of Some out \<Rightarrow> lo_kind out \<notin> LAND_SUCCESS_KINDS | None \<Rightarrow> verified j dir branch t)))"
proof -
  have seen: "traced (obtain_branch h j ref) (\<lambda>t r. r = Inr None \<longrightarrow> verified j dir branch t)"
  proof (cases "nonempty (lj_remote j) \<and> nonempty (lj_head_sha j)")
    case False
    then show ?thesis by (auto simp: obtain_branch_def intro: traced_answer)
  next
    case True
    then obtain remote head where names: "lj_remote j = Some remote" "lj_head_sha j = Some head" "remote \<noteq> []" "head \<noteq> []"
      by (auto simp: nonempty_def split: option.splits)
    show ?thesis
      using True unfolding obtain_branch_def fetch_rendezvous_branch_def Let_def git_out_def
      by (auto simp: assms names act_bind_def compute_def command_def answer_def traced_def verified_def
          branch_fetch_def stripped_out_def split: prod.split sum.split option.split if_splits)
  qed
  show ?thesis
    by (rule traced_mono [OF traced_conj [OF traced_answers [OF still_obtain obtain_refuses] seen]])
      (auto dest!: still_trace split: option.split)
qed

text \<open>
  C5: content from another machine is landed only once it is checked. When a land with a submitted
  ref succeeds, or publishes or moves main at all, the task's worktree was found here, or the ref
  was fetched into the task's branch and the branch then named the commit the worker reported.
\<close>

theorem cross_machine_verified:
  assumes "lj_branch_ref j = Some ref" "worktree_branch (lj_task j) (lj_queue j) = Inr branch"
    "task_dir h (lj_task j) (lj_queue j) = Inr dir" "land_locked h j s = (s', r)"
  shows "\<exists>t. sh_trace s' = sh_trace s @ t \<and> (verified j dir branch t \<or>
     unpublished t \<and> unmoved t \<and> (\<forall>out. r = Inr out \<longrightarrow> lo_kind out \<notin> LAND_SUCCESS_KINDS))"
proof -
  let ?Q = "\<lambda>t r. verified j dir branch t \<or>
     unpublished t \<and> unmoved t \<and> (\<forall>out. r = Inr out \<longrightarrow> lo_kind out \<notin> LAND_SUCCESS_KINDS)"
  have any: "traced (land_branch h j branch c) (\<lambda>_ _. True)" for c
    by (rule traced_mono [OF branch_tells]) simp
  have here: "traced (land_branch h j branch c) (\<lambda>t'. ?Q (t @ t'))" if "verified j dir branch t" for c t
    by (rule traced_mono [OF any]) (simp add: verified_append that)
  have there: "traced (act_bind (obtain_branch h j ref) (\<lambda>refusal.
       case refusal of Some out \<Rightarrow> answer out | None \<Rightarrow> land_branch h j branch c)) (\<lambda>t'. ?Q (t @ t'))"
    if quiet: "unpublished t" "unmoved t" for c t
  proof (rule traced_bind, rule traced_mono [OF obtain_seen [OF assms(1,2), where dir = dir]], goal_cases)
    case (1 t' r)
    then show ?case
      using quiet here [of "t @ t'"]
      by (auto intro!: traced_answer simp: verified_append split: sum.split option.splits)
  qed
  have "traced (land_locked h j) ?Q"
    unfolding land_locked_eq assms(2)
  proof (rule traced_known, simp, rule traced_bind, rule traced_mono [OF cross_seen [OF _ assms(3)]], simp add: assms(1), goal_cases)
    case (1 x t r)
    then have seen: "\<And>cross. r = Inr cross \<Longrightarrow> \<not> cross \<Longrightarrow> accepted t (Exists dir)" "unpublished t" "unmoved t" by blast+
    show ?case
    proof (cases r)
      case (Inl e)
      then show ?thesis using seen by simp
    next
      case (Inr cross)
      then show ?thesis
        using 1(1) seen there [of t] here [of t]
        by (cases cross) (auto simp: assms(1) verified_def bind_answer)
    qed
  qed
  from tracedD [OF this assms(4)] show ?thesis .
qed

section \<open>Names of branches and worktrees\<close>

lemma safe_no_slash: "safe_component kind x = Inr y \<Longrightarrow> CHR ''/'' \<notin> set x"
  by (auto simp: safe_component_def split: if_splits)

lemma split_at_slash:
  "CHR ''/'' \<notin> set a \<Longrightarrow> CHR ''/'' \<notin> set b \<Longrightarrow> a @ ''/'' @ x = b @ ''/'' @ y \<Longrightarrow> a = b \<and> x = y"
  by (auto simp: append_eq_append_conv2 Cons_eq_append_conv append_eq_Cons_conv)

text \<open>Two tasks share a branch name only when they are the same task of the same queue.\<close>

theorem branches_distinct:
  assumes "worktree_branch task queue = Inr b" "worktree_branch task' queue' = Inr b"
  shows "task = task' \<and> opt_or queue ''main'' = opt_or queue' ''main''"
proof -
  have parts: "b = ''task-local/'' @ opt_or q ''main'' @ ''/'' @ t \<and> CHR ''/'' \<notin> set (opt_or q ''main'')"
    if named: "worktree_branch t q = Inr b" for t q
  proof -
    obtain x where x: "queue_slug q = Inr x" using named by (cases "queue_slug q") (auto simp: worktree_branch_def)
    obtain y where y: "safe_component ''task'' t = Inr y"
      using named x by (cases "safe_component ''task'' t") (auto simp: worktree_branch_def)
    show ?thesis
      using named x y safe_repo [OF y] safe_repo [OF x [unfolded queue_slug_def]] safe_no_slash [OF x [unfolded queue_slug_def]]
      by (simp add: worktree_branch_def)
  qed
  then have "opt_or queue ''main'' @ ''/'' @ task = opt_or queue' ''main'' @ ''/'' @ task'"
    using assms by (metis same_append_eq)
  then show ?thesis
    using parts assms split_at_slash by blast
qed

text \<open>The directories are not told apart: a hyphen joins the queue and the task.\<close>

lemma worktree_dirs_collide:
  assumes "safe_component ''repo'' repo = Inr repo"
  shows "worktree_dir ws repo ''b-c'' (Some ''a'') = worktree_dir ws repo ''c'' (Some ''a-b'')"
    and "worktree_branch ''b-c'' (Some ''a'') \<noteq> worktree_branch ''c'' (Some ''a-b'')"
proof -
  have b: "worktree_branch ''b-c'' (Some ''a'') = Inr ''task-local/a/b-c''"
    "worktree_branch ''c'' (Some ''a-b'') = Inr ''task-local/a-b/c''" by code_simp+
  have q: "queue_slug (Some ''a'') = Inr ''a''" "queue_slug (Some ''a-b'') = Inr ''a-b''" by code_simp+
  show "worktree_dir ws repo ''b-c'' (Some ''a'') = worktree_dir ws repo ''c'' (Some ''a-b'')"
    by (rule names_together [OF b(1) assms, of ws], rule names_together [OF b(2) assms, of ws]) (auto simp: q)
  show "worktree_branch ''b-c'' (Some ''a'') \<noteq> worktree_branch ''c'' (Some ''a-b'')"
    by (simp add: b)
qed

section \<open>A repository the theorems apply to\<close>

text \<open>Main is at \<open>base\<close>, the task's branch at \<open>work\<close>, every command succeeds; no worktree is here
  when the flag is off.\<close>

definition demo_answer :: "string list \<Rightarrow> string" where
  "demo_answer args =
     (if args = [''rev-parse'', ''refs/heads/main''] then ''base''
      else if args = [''rev-parse'', ''base^{tree}''] then ''tree0''
      else if take 1 args = [''merge-tree''] then ''tree1''
      else if take 1 args = [''commit-tree''] then ''new''
      else ''work'')"

definition demo_host :: "bool \<Rightarrow> unit host" where
  "demo_host here = \<lparr>
     ho_run = (\<lambda>c w. (w, Inr (case c of
         Run_Git args \<Rightarrow> \<lparr>gr_code = 0, gr_out = demo_answer args, gr_err = []\<rparr>
       | Exists path \<Rightarrow> \<lparr>gr_code = (if here then 0 else 1), gr_out = [], gr_err = []\<rparr>
       | _ \<Rightarrow> \<lparr>gr_code = 0, gr_out = [], gr_err = []\<rparr>))),
     ho_clock = (\<lambda>_. 0), ho_workspace = ''/w'', ho_repo = ''app'', ho_scratch = ''/tmp''\<rparr>"

definition demo_job :: land_job where
  "demo_job = \<lparr>lj_task = ''t1'', lj_title = ''One'', lj_queue = None, lj_base_ref = None, lj_mode = LM_NONE,
     lj_automerge = False, lj_draft = False, lj_branch_ref = Some ''refs/heads/wip/t1'', lj_head_sha = Some ''work'',
     lj_remote = Some ''origin'', lj_max_retries = 2, lj_refresh_seconds = 0, lj_throttled = False,
     lj_attempt = Some ''a1''\<rparr>"

definition demo_shell :: "unit shell" where
  "demo_shell = \<lparr>sh_world = (), sh_trace = [], sh_last_sync = None\<rparr>"

lemma demo_names:
  "worktree_branch (lj_task demo_job) (lj_queue demo_job) = Inr ''task-local/main/t1''"
  "task_dir (demo_host here) (lj_task demo_job) (lj_queue demo_job) = Inr ''/w/.worktrees/app/task-local-main-t1''"
  "safe_component ''repo'' (ho_repo (demo_host here)) = Inr ''app''"
  by (cases here; code_simp)+

lemma demo_lands:
  "map_sum id lo_kind (snd (land_locked (demo_host False) demo_job demo_shell)) = Inr LK_LANDED"
  by code_simp

abbreviation demo_run :: "unit shell \<times> (py_error + land_outcome)" where
  "demo_run \<equiv> land_locked (demo_host False) demo_job demo_shell"

lemma demo_shell_trace [simp]: "sh_trace demo_shell = []"
  by (simp add: demo_shell_def)

lemma demo_outcome:
  obtains out where "demo_run = (fst demo_run, Inr out)" "lo_kind out = LK_LANDED"
  using demo_lands by (cases "snd demo_run") (auto simp: prod_eq_iff)

lemma land_runs_plumbing_witness:
  "list_all (\<lambda>(c, _). land_command ''task-local/main/t1'' c) (sh_trace (fst demo_run))"
  using land_runs_plumbing [OF demo_names(1), of "demo_host False" demo_shell "fst demo_run" "snd demo_run"] by auto

lemma land_outcome_truthful_witness:
  "\<exists>base tree r. (Run_Git [''commit-tree'', tree, ''-p'', base, ''-m'', squash_message ''One'' (Some ''a1'')], r) \<in>
       set (sh_trace (fst demo_run)) \<and> gr_ok r \<and>
     (py_strip (gr_out r) = base \<or> accepted (sh_trace (fst demo_run)) (main_cas (py_strip (gr_out r)) base))"
proof (rule demo_outcome)
  fix out
  assume run: "demo_run = (fst demo_run, Inr out)" and kind: "lo_kind out = LK_LANDED"
  have "LK_LANDED \<in> LAND_SUCCESS_KINDS" by (simp add: lifecycle_sets)
  then show ?thesis
    using land_outcome_truthful [OF run] kind by (simp add: demo_job_def)
qed

lemma demo_starts: "snd (ho_run (demo_host here) c w) \<noteq> Inl e"
  by (simp add: demo_host_def)

lemma land_always_answers_witness: "\<exists>out. snd demo_run = Inr out"
  using land_always_answers [OF demo_names(3) [of False], of demo_job demo_shell] demo_names(1) demo_starts by auto

text \<open>Without gh, a land that opens a pull request raises after main has moved.\<close>

definition host_without_gh :: "unit host" where
  "host_without_gh = (demo_host False)\<lparr>ho_run := (\<lambda>c w. case c of
       Gh args \<Rightarrow> (w, Inl (FileNotFoundError ''gh''))
     | _ \<Rightarrow> ho_run (demo_host False) c w)\<rparr>"

lemma missing_gh_raises:
  "snd (land_locked host_without_gh (demo_job\<lparr>lj_mode := LM_PR\<rparr>) demo_shell) = Inl (FileNotFoundError ''gh'')"
  "list_ex (\<lambda>(c, r). c = Run_Git [''update-ref'', MAIN_REF, ''new'', ''base''] \<and> gr_ok r)
     (sh_trace (fst (land_locked host_without_gh (demo_job\<lparr>lj_mode := LM_PR\<rparr>) demo_shell)))"
  by code_simp+

lemma cross_machine_verified_witness:
  "verified demo_job ''/w/.worktrees/app/task-local-main-t1'' ''task-local/main/t1'' (sh_trace (fst demo_run))"
proof (rule demo_outcome)
  fix out
  assume run: "demo_run = (fst demo_run, Inr out)" and kind: "lo_kind out = LK_LANDED"
  have "LK_LANDED \<in> LAND_SUCCESS_KINDS" by (simp add: lifecycle_sets)
  then show ?thesis
    using cross_machine_verified [OF _ demo_names(1) demo_names(2) run, of "''refs/heads/wip/t1''"] kind
    by (auto simp: demo_job_def)
qed

section \<open>A count that fails\<close>

text \<open>
  A count of the branch's commits that git refuses, with nothing on its standard output, reads as
  no commits. When main has moved past the task's base, for whatever reason, the land then
  adopts the tip of main and deletes the branch with the work.
\<close>

definition refusing_host :: "unit host" where
  "refusing_host = (demo_host True)\<lparr>ho_run := (\<lambda>c w. case c of
       Run_Git (q # args) \<Rightarrow> if q = ''rev-list'' then (w, Inr \<lparr>gr_code = 128, gr_out = [], gr_err = ''fatal''\<rparr>)
         else ho_run (demo_host True) c w
     | _ \<Rightarrow> ho_run (demo_host True) c w)\<rparr>"

lemma failed_count_adopts:
  "map_sum id lo_kind (snd (land_locked refusing_host (demo_job\<lparr>lj_base_ref := Some ''old''\<rparr>) demo_shell)) = Inr LK_ADOPTED"
  "list_ex (\<lambda>(c, r). c = Run_Git [''branch'', ''-D'', ''task-local/main/t1''] \<and> gr_ok r)
     (sh_trace (fst (land_locked refusing_host (demo_job\<lparr>lj_base_ref := Some ''old''\<rparr>) demo_shell)))"
  "snd (has_commits refusing_host ''t1'' None demo_shell) = Inr False"
  by code_simp+

end
