(* ===== verification/Edit_Blocks.thy ===== *)
theory Edit_Blocks
  imports Frontmatter
begin

text \<open>
  The SEARCH/REPLACE edits of the agent (\<^verbatim>\<open>src/nightshift/agent/apply.py\<close>): the parser of the
  fences and the applier, with the theorems that a rendered batch reads back and that an edit
  replaces the only occurrence of its text.
\<close>

section \<open>Blocks\<close>

definition SEARCH_MARKER :: string where "SEARCH_MARKER = ''<<<<<<< SEARCH''"
definition DIVIDER_MARKER :: string where "DIVIDER_MARKER = ''=======''"
definition REPLACE_MARKER :: string where "REPLACE_MARKER = ''>>>>>>> REPLACE''"

record block =
  bk_search :: string
  bk_replace :: string

definition in_quotes :: "string \<Rightarrow> string" where
  "in_quotes s = CHR 0x27 # s @ [CHR 0x27]"

definition malformed :: "nat \<Rightarrow> string \<Rightarrow> py_error" where
  "malformed k message = ApplyError ''malformed'' (int k) message"

text \<open>
  The lines of one half of a block, up to the marker that closes it; the search marker and one more
  marker must not come before.
\<close>

fun read_half :: "string \<Rightarrow> string \<Rightarrow> string \<Rightarrow> nat \<Rightarrow> string list \<Rightarrow> py_error + string list \<times> string list" where
  "read_half stop bad name k [] =
     Inl (malformed k (''unterminated '' @ name @ '' block: missing '' @ in_quotes stop))"
| "read_half stop bad name k (line # lines) =
     (if py_strip line = stop then Inr ([], lines)
      else if py_strip line = SEARCH_MARKER \<or> py_strip line = bad
        then Inl (malformed k (''expected '' @ in_quotes stop @ '' before '' @ in_quotes (py_strip line)))
      else bind_result (read_half stop bad name k lines) (\<lambda>(half, rest). Inr (line # half, rest)))"

lemma read_half_shorter: "read_half stop bad name k lines = Inr (half, rest) \<Longrightarrow> length rest < length lines"
  by (induction lines arbitrary: half) (auto simp: bind_result_eq_Inr_iff split: if_splits)

lemma bind_result_cong [fundef_cong]:
  "m = m' \<Longrightarrow> (\<And>x. m' = Inr x \<Longrightarrow> f x = f' x) \<Longrightarrow> bind_result m f = bind_result m' f'"
  by (cases m') auto

function parse_from :: "nat \<Rightarrow> string list \<Rightarrow> py_error + block list" where
  "parse_from k [] = Inr []"
| "parse_from k (line # lines) =
     (if py_strip line \<noteq> SEARCH_MARKER then parse_from k lines
      else bind_result (read_half DIVIDER_MARKER REPLACE_MARKER ''SEARCH'' k lines) (\<lambda>(s, rest).
           bind_result (read_half REPLACE_MARKER DIVIDER_MARKER ''REPLACE'' k rest) (\<lambda>(r, rest').
           bind_result (parse_from (Suc k) rest') (\<lambda>blocks.
             Inr (\<lparr>bk_search = py_join [newline] s, bk_replace = py_join [newline] r\<rparr> # blocks)))))"
  by pat_completeness auto
termination
  by (relation "measure (\<lambda>(k, lines). length lines)") (auto dest!: read_half_shorter)

definition parse_blocks :: "string \<Rightarrow> py_error + block list" where
  "parse_blocks text = parse_from 0 (py_splitlines text)"

section \<open>Applying\<close>

text \<open>\<open>s.find(p)\<close>, and \<open>s.find(p, n)\<close> as a position in \<open>s\<close>.\<close>

fun str_find :: "string \<Rightarrow> string \<Rightarrow> nat option" where
  "str_find p [] = (if p = [] then Some 0 else None)"
| "str_find p (c # s) = (if py_startswith (c # s) p then Some 0 else map_option Suc (str_find p s))"

definition str_find_from :: "string \<Rightarrow> string \<Rightarrow> nat \<Rightarrow> nat option" where
  "str_find_from p s n = (if n > length s then None else map_option (\<lambda>i. n + i) (str_find p (drop n s)))"

definition apply_block :: "nat \<Rightarrow> string \<Rightarrow> block \<Rightarrow> py_error + string" where
  "apply_block k text b =
     (if bk_search b = [] then
        if text \<noteq> [] then Inl (ApplyError ''create_conflict'' (int k) ''empty SEARCH against non-empty content'')
        else Inr (bk_replace b)
      else case str_find (bk_search b) text of
        None \<Rightarrow> Inl (ApplyError ''zero_match'' (int k) ''SEARCH text not found'')
      | Some i \<Rightarrow>
          if str_find_from (bk_search b) text (i + 1) \<noteq> None
          then Inl (ApplyError ''multi_match'' (int k) ''SEARCH text matched more than once'')
          else Inr (take i text @ bk_replace b @ drop (i + length (bk_search b)) text))"

fun apply_from :: "nat \<Rightarrow> string \<Rightarrow> block list \<Rightarrow> py_error + string" where
  "apply_from k text [] = Inr text"
| "apply_from k text (b # bs) = bind_result (apply_block k text b) (\<lambda>text'. apply_from (Suc k) text' bs)"

definition apply_edits :: "string \<Rightarrow> block list \<Rightarrow> py_error + string" where
  "apply_edits original blocks = apply_from 0 original blocks"

section \<open>An edit replaces the only occurrence\<close>

definition occurrences :: "string \<Rightarrow> string \<Rightarrow> nat set" where
  "occurrences p s = {i. i \<le> length s \<and> py_startswith (drop i s) p}"

lemma occurrences_Cons:
  "occurrences p (c # s) = (if py_startswith (c # s) p then {0} else {}) \<union> Suc ` occurrences p s"
proof (rule set_eqI)
  fix i
  show "i \<in> occurrences p (c # s) \<longleftrightarrow> i \<in> (if py_startswith (c # s) p then {0} else {}) \<union> Suc ` occurrences p s"
    by (cases i) (auto simp: occurrences_def)
qed

lemma find_least: "str_find p s = Some i \<longleftrightarrow> i \<in> occurrences p s \<and> (\<forall>j \<in> occurrences p s. i \<le> j)"
proof (induction s arbitrary: i)
  case Nil
  then show ?case by (auto simp: occurrences_def py_startswith_def)
next
  case (Cons c s)
  show ?case
    using Cons by (cases "py_startswith (c # s) p"; cases i) (auto simp: occurrences_Cons)
qed

lemma find_some: "i \<in> occurrences p s \<Longrightarrow> str_find p s \<noteq> None"
  by (induction s arbitrary: i) (auto simp: occurrences_Cons occurrences_def [of _ "[]"] py_startswith_def)

lemma find_none: "str_find p s = None \<longleftrightarrow> occurrences p s = {}"
  using find_least [of p s] find_some [of _ p s] by (cases "str_find p s") auto

lemma occurrences_drop: "n \<le> length s \<Longrightarrow> j \<in> occurrences p (drop n s) \<longleftrightarrow> n + j \<in> occurrences p s"
  by (auto simp: occurrences_def add.commute)

lemma find_from_none: "str_find_from p s n = None \<longleftrightarrow> (\<forall>j \<in> occurrences p s. j < n)"
proof (cases "n > length s")
  case True
  then show ?thesis by (auto simp: str_find_from_def occurrences_def)
next
  case False
  then have "(\<exists>j. j \<in> occurrences p (drop n s)) \<longleftrightarrow> (\<exists>j \<in> occurrences p s. n \<le> j)"
    using occurrences_drop [of n s _ p] by (metis le_add1 le_add_diff_inverse not_less)
  then show ?thesis
    using False by (simp add: str_find_from_def find_none) (metis ex_in_conv not_less)
qed

text \<open>
  C16: an edit with a SEARCH text is decided by the positions of the text: without one it is refused
  as a missing match, with more than one (those that overlap included) as an ambiguous one, and the
  only one is replaced. An edit without SEARCH text creates the content of an empty file and never
  replaces other content.
\<close>

theorem edit_by_occurrences:
  "apply_block k body b =
     (let found = occurrences (bk_search b) body in
      if bk_search b = [] then
        (if body = [] then Inr (bk_replace b)
         else Inl (ApplyError ''create_conflict'' (int k) ''empty SEARCH against non-empty content''))
      else if found = {} then Inl (ApplyError ''zero_match'' (int k) ''SEARCH text not found'')
      else if is_singleton found then
        Inr (take (the_elem found) body @ bk_replace b @ drop (the_elem found + length (bk_search b)) body)
      else Inl (ApplyError ''multi_match'' (int k) ''SEARCH text matched more than once''))"
proof (cases "bk_search b = [] \<or> occurrences (bk_search b) body = {}")
  case True
  then show ?thesis
    using find_none [of "bk_search b" body] by (cases "bk_search b = []") (simp_all add: apply_block_def)
next
  case False
  let ?found = "occurrences (bk_search b) body"
  obtain i where i: "str_find (bk_search b) body = Some i" using False find_none [of "bk_search b" body] by auto
  then have least: "i \<in> ?found" "\<forall>j \<in> ?found. i \<le> j" by (auto simp: find_least)
  have only: "str_find_from (bk_search b) body (i + 1) = None \<longleftrightarrow> ?found = {i}"
    using least by (force simp: find_from_none)
  show ?thesis
  proof (cases "?found = {i}")
    case True
    then show ?thesis using i only False by (simp add: apply_block_def)
  next
    case many: False
    then have "\<not> is_singleton ?found" using least(1) by (auto simp: is_singleton_def)
    then show ?thesis using i only many False by (simp add: apply_block_def)
  qed
qed

section \<open>A batch reads back\<close>

definition half_lines :: "string \<Rightarrow> string list" where
  "half_lines t = (if t = [] then [] else py_split newline t)"

lemma join_half [simp]: "py_join [newline] (half_lines t) = t"
  by (simp add: half_lines_def join_split)

definition fence_line :: "string \<Rightarrow> bool" where
  "fence_line l \<longleftrightarrow> py_strip l \<in> {SEARCH_MARKER, DIVIDER_MARKER, REPLACE_MARKER}"

text \<open>A block with the narration before it, as the model writes it.\<close>

definition written :: "string list \<times> block \<Rightarrow> string list" where
  "written = (\<lambda>(talk, b). talk @ [SEARCH_MARKER] @ half_lines (bk_search b) @ [DIVIDER_MARKER] @
     half_lines (bk_replace b) @ [REPLACE_MARKER])"

definition writable :: "string list \<times> block \<Rightarrow> bool" where
  "writable = (\<lambda>(talk, b). (\<forall>l \<in> set talk. unbroken l \<and> py_strip l \<noteq> SEARCH_MARKER) \<and>
     (\<forall>l \<in> set (half_lines (bk_search b) @ half_lines (bk_replace b)). unbroken l \<and> \<not> fence_line l))"

lemma markers_stripped [simp]:
  "py_strip SEARCH_MARKER = SEARCH_MARKER" "py_strip DIVIDER_MARKER = DIVIDER_MARKER" "py_strip REPLACE_MARKER = REPLACE_MARKER"
  by code_simp+

lemma markers_distinct [simp]:
  "SEARCH_MARKER \<noteq> DIVIDER_MARKER" "SEARCH_MARKER \<noteq> REPLACE_MARKER" "DIVIDER_MARKER \<noteq> REPLACE_MARKER"
  "DIVIDER_MARKER \<noteq> SEARCH_MARKER" "REPLACE_MARKER \<noteq> SEARCH_MARKER" "REPLACE_MARKER \<noteq> DIVIDER_MARKER"
  by (simp_all add: SEARCH_MARKER_def DIVIDER_MARKER_def REPLACE_MARKER_def)

lemma markers_unbroken [simp]: "unbroken SEARCH_MARKER" "unbroken DIVIDER_MARKER" "unbroken REPLACE_MARKER"
  by (simp_all add: unbroken_def SEARCH_MARKER_def DIVIDER_MARKER_def REPLACE_MARKER_def is_linebreak_def)

lemma read_half_written:
  "\<forall>l \<in> set half. \<not> fence_line l \<Longrightarrow> (stop, bad) \<in> {(DIVIDER_MARKER, REPLACE_MARKER), (REPLACE_MARKER, DIVIDER_MARKER)} \<Longrightarrow>
     read_half stop bad name k (half @ stop # rest) = Inr (half, rest)"
  by (induction half) (auto simp: fence_line_def)

lemma parse_talk: "\<forall>l \<in> set talk. py_strip l \<noteq> SEARCH_MARKER \<Longrightarrow> parse_from k (talk @ rest) = parse_from k rest"
  by (induction talk) simp_all

lemma parse_written:
  "\<forall>x \<in> set batch. writable x \<Longrightarrow> \<forall>l \<in> set talk. py_strip l \<noteq> SEARCH_MARKER \<Longrightarrow>
     parse_from k (concat (map written batch) @ talk) = Inr (map snd batch)"
proof (induction batch arbitrary: k)
  case Nil
  then show ?case using parse_talk [of talk k "[]"] by simp
next
  case (Cons x batch)
  obtain before b where x: "x = (before, b)" by fastforce
  have "parse_from (Suc k) (concat (map written batch) @ talk) = Inr (map snd batch)"
    using Cons by simp
  then show ?case
    using Cons.prems x
    by (auto simp: written_def writable_def parse_talk read_half_written)
qed

text \<open>
  C17: the edits of a reply read back. A reply that fences its blocks and narrates around them, in
  lines of its own, is parsed to exactly those blocks, whatever the narration is, as long as no line
  of a block is itself a marker.
\<close>

theorem edits_read_back:
  assumes "\<forall>x \<in> set batch. writable x" "\<forall>l \<in> set talk. unbroken l \<and> py_strip l \<noteq> SEARCH_MARKER"
  shows "parse_blocks (lines_text (concat (map written batch) @ talk)) = Inr (map snd batch)"
proof -
  have "\<forall>l \<in> set (concat (map written batch) @ talk). unbroken l"
    using assms by (auto simp: written_def writable_def split: prod.splits)
  then show ?thesis
    using parse_written [OF assms(1), of talk 0] assms(2) by (simp add: parse_blocks_def splitlines_unbroken)
qed

definition sample_block :: block where
  "sample_block = \<lparr>bk_search = ''x = 1'', bk_replace = ''x = 2''\<rparr>"

lemma edits_read_back_witness:
  "parse_blocks (lines_text (written ([''Sure:''], sample_block) @ [''Done.''])) = Inr [sample_block]"
proof -
  have "writable ([''Sure:''], sample_block)" by code_simp
  moreover have "unbroken ''Done.'' \<and> py_strip ''Done.'' \<noteq> SEARCH_MARKER" by code_simp
  ultimately show ?thesis using edits_read_back [of "[([''Sure:''], sample_block)]" "[''Done.'']"] by simp
qed

text \<open>The lines of a half are joined with line feeds, whatever separated them.\<close>

lemma form_feed_is_lost:
  "parse_blocks (SEARCH_MARKER @ [newline] @ DIVIDER_MARKER @ [newline] @ [CHR ''a'', CHR 0x0C, CHR ''b''] @ [newline] @ REPLACE_MARKER) =
     Inr [\<lparr>bk_search = [], bk_replace = [CHR ''a'', newline, CHR ''b'']\<rparr>]"
  by code_simp

end
