(* ===== verification/Agent_Tools.thy ===== *)
theory Agent_Tools
  imports Manager Edit_Blocks
begin

text \<open>
  The tools of the agent (\<^verbatim>\<open>src/nightshift/agent/tools.py\<close>) on a disk of files and
  directories: the sandbox, the handlers and the dispatch, with what reaches a file outside the
  sandbox and what escapes the dispatch.

  The resolution of links, ripgrep, the compiler of patterns, the expansion of globs and the shell
  are parameters; ripgrep and the shell are programs, so each may change the disk, and the expansion
  of a glob may raise. A path is its list of components below the root directory. A write that begins
  completes: the moment between the truncation of a file and its new content is not modelled.
\<close>

section \<open>The disk\<close>

type_synonym path = "string list"

record disk =
  dk_files :: "(path \<times> string) list"
  dk_dirs :: "path list"

definition file_at :: "disk \<Rightarrow> path \<Rightarrow> string option" where
  "file_at d p = dget (dk_files d) p"

definition dir_at :: "disk \<Rightarrow> path \<Rightarrow> bool" where
  "dir_at d p \<longleftrightarrow> p = [] \<or> p \<in> set (dk_dirs d)"

definition below :: "path \<Rightarrow> path \<Rightarrow> bool" where
  "below r p \<longleftrightarrow> take (length r) p = r"

text \<open>Reading a file as text turns every line end into a line feed.\<close>

fun universal :: "string \<Rightarrow> string" where
  "universal [] = []"
| "universal (c # s) =
     (if c = CHR 0x0D
      then newline # (case s of [] \<Rightarrow> [] | x # s' \<Rightarrow> if x = newline then universal s' else universal (x # s'))
      else c # universal s)"

definition put_file :: "path \<Rightarrow> string \<Rightarrow> (disk, unit) action" where
  "put_file p t d =
     (if dir_at d p then (d, Inl (OSError ''is a directory''))
      else (d\<lparr>dk_files := dset (dk_files d) p t\<rparr>, Inr ()))"

fun ancestors :: "path \<Rightarrow> path list" where
  "ancestors [] = [[]]"
| "ancestors (c # p) = [] # map ((#) c) (ancestors p)"

text \<open>\<open>mkdir(parents=True, exist_ok=True)\<close>.\<close>

definition make_dirs :: "path \<Rightarrow> (disk, unit) action" where
  "make_dirs p d =
     (if list_ex (\<lambda>q. file_at d q \<noteq> None) (ancestors p) then (d, Inl (OSError ''not a directory''))
      else (d\<lparr>dk_dirs := dk_dirs d @ filter (\<lambda>q. \<not> dir_at d q) (ancestors p)\<rparr>, Inr ()))"

section \<open>Arguments and the sandbox\<close>

record proc =
  pc_code :: int
  pc_out :: string
  pc_err :: string

record agent_env =
  ag_root :: path
  ag_resolve :: "path \<Rightarrow> py_error + path"
  ag_policy :: string
  ag_timeout :: "rat option"
  ag_rg :: "(string list \<Rightarrow> disk \<Rightarrow> disk \<times> proc option) option"
  ag_compile :: "bool \<Rightarrow> string \<Rightarrow> string + (string \<Rightarrow> bool)"
  ag_glob :: "disk \<Rightarrow> path \<Rightarrow> string \<Rightarrow> py_error + path list"
  ag_bash :: "string \<Rightarrow> disk \<Rightarrow> disk \<times> proc option"
  ag_abort :: bool
  ag_ftext :: "rat \<Rightarrow> string"
  ag_enabled :: "string list"

definition ALL_TOOLS :: "string list" where
  "ALL_TOOLS = [''read_file'', ''list_dir'', ''grep'', ''edit_file'', ''write_file'', ''run_bash'']"

definition MAX_OUTPUT_CHARS :: nat where "MAX_OUTPUT_CHARS = 20000"

definition TRUNCATION_NOTE :: string where "TRUNCATION_NOTE = newline # ''...[truncated]''"

definition truncate_text :: "string \<Rightarrow> string" where
  "truncate_text s = (if length s \<le> MAX_OUTPUT_CHARS then s else take MAX_OUTPUT_CHARS s @ TRUNCATION_NOTE)"

definition was_truncated :: "string \<Rightarrow> bool" where
  "was_truncated s \<longleftrightarrow> length s > MAX_OUTPUT_CHARS"

record tool_result =
  tr_content :: string
  tr_error :: bool
  tr_truncated :: bool

definition tool_ok :: "string \<Rightarrow> tool_result" where
  "tool_ok s = \<lparr>tr_content = s, tr_error = False, tr_truncated = False\<rparr>"

definition tool_error :: "string \<Rightarrow> tool_result" where
  "tool_error s = \<lparr>tr_content = s, tr_error = True, tr_truncated = False\<rparr>"

definition clipped :: "string \<Rightarrow> tool_result" where
  "clipped s = \<lparr>tr_content = truncate_text s, tr_error = False, tr_truncated = was_truncated s\<rparr>"

text \<open>\<open>args[k]\<close>, and a text argument.\<close>

definition required :: "pydict \<Rightarrow> string \<Rightarrow> py_error + pyval" where
  "required args k = (case dget args k of None \<Rightarrow> Inl (KeyError k) | Some v \<Rightarrow> Inr v)"

fun text_of :: "pyval \<Rightarrow> py_error + string" where
  "text_of (PStr s) = Inr s"
| "text_of _ = Inl TypeError"

definition path_parts :: "string \<Rightarrow> path" where
  "path_parts s = filter (\<lambda>c. c \<noteq> [] \<and> c \<noteq> ''.'') (py_split (CHR ''/'') s)"

definition resolve_in_sandbox :: "agent_env \<Rightarrow> pyval \<Rightarrow> py_error + path" where
  "resolve_in_sandbox e v =
     (if v = PNone \<or> v = PStr [] then Inl (SandboxError ''empty path'')
      else bind_result (text_of v) (\<lambda>rel.
        if py_startswith rel ''/'' then Inl (SandboxError (''absolute path not allowed: '' @ str_repr rel))
        else
          bind_result (ag_resolve e (ag_root e)) (\<lambda>r.
          bind_result (ag_resolve e (r @ path_parts rel)) (\<lambda>target.
            if below r target then Inr target
            else Inl (SandboxError (''path escapes sandbox: '' @ str_repr rel))))))"

section \<open>Reading tools\<close>

definition pad_left :: "nat \<Rightarrow> string \<Rightarrow> string" where
  "pad_left n s = replicate (n - length s) CHR '' '' @ s"

definition number_lines :: "string \<Rightarrow> int \<Rightarrow> string" where
  "number_lines t start =
     (let ls = py_splitlines t in
      py_join [newline] (map2 (\<lambda>k l. pad_left 6 (int_text (start + int k)) @ CHR 0x09 # l) [0..<length ls] ls))"

definition span_hint :: "nat \<Rightarrow> string" where
  "span_hint height = newline # ''...['' @ nat_text height @
     '' lines; pass start/end to read a span instead of the whole file]''"

definition bound_arg :: "pydict \<Rightarrow> string \<Rightarrow> int \<Rightarrow> py_error + int" where
  "bound_arg args k v = int_of (dget_or args k (PInt v))"

definition read_span :: "agent_env \<Rightarrow> pydict \<Rightarrow> string list \<Rightarrow> int \<Rightarrow> int \<Rightarrow> tool_result" where
  "read_span e args ls start stop =
     (let height = length ls; start = max 1 start; stop = min (int height) stop in
      if start > stop then tool_error (''empty range '' @ int_text start @ ''-'' @ int_text stop)
      else
        let whole = (ag_policy e = ''spans'' \<and> \<not> dhas args ''start'' \<and> \<not> dhas args ''end'' \<and> height > 400);
            stop = (if whole then min (int height) 400 else stop);
            body = number_lines (py_join [newline] (take (nat stop - nat (start - 1)) (drop (nat (start - 1)) ls))) start
        in (clipped body)\<lparr>tr_content := truncate_text body @ (if whole then span_hint height else [])\<rparr>)"

definition read_file :: "agent_env \<Rightarrow> pydict \<Rightarrow> disk \<Rightarrow> py_error + tool_result" where
  "read_file e args d =
     bind_result (required args ''path'') (\<lambda>v.
     bind_result (resolve_in_sandbox e v) (\<lambda>p.
     case file_at d p of
       None \<Rightarrow> Inr (tool_error (''not a file: '' @ py_repr (ag_ftext e) v))
     | Some raw \<Rightarrow>
         let ls = py_splitlines (universal raw) in
         bind_result (bound_arg args ''start'' 1) (\<lambda>start.
         bind_result (bound_arg args ''end'' (int (length ls))) (\<lambda>stop.
           Inr (read_span e args ls start stop)))))"

definition children :: "disk \<Rightarrow> path \<Rightarrow> string list" where
  "children d p = sort (remdups (map last (filter (\<lambda>q. q \<noteq> [] \<and> butlast q = p) (map fst (dk_files d) @ dk_dirs d))))"

definition list_dir :: "agent_env \<Rightarrow> pydict \<Rightarrow> disk \<Rightarrow> py_error + tool_result" where
  "list_dir e args d =
     (let v = dget_or args ''path'' (PStr ''.'') in
      bind_result (resolve_in_sandbox e v) (\<lambda>p.
        if \<not> dir_at d p then Inr (tool_error (''not a directory: '' @ py_repr (ag_ftext e) v))
        else Inr (clipped (py_join [newline] (map (\<lambda>c. c @ (if dir_at d (p @ [c]) then ''/'' else [])) (children d p))))))"

definition path_text :: "path \<Rightarrow> string" where
  "path_text p = ''/'' @ py_join ''/'' p"

definition rg_args :: "agent_env \<Rightarrow> pydict \<Rightarrow> string \<Rightarrow> path \<Rightarrow> string list" where
  "rg_args e args pattern p =
     [''rg'', ''--line-number'', ''--no-heading'', ''--color'', ''never''] @
     (if truthy (dget_or args ''literal'' (PBool False)) then [''--fixed-strings''] else []) @
     (let g = dget_or args ''glob'' PNone in if truthy g then [''--glob'', py_str (ag_ftext e) g] else []) @
     [pattern, path_text p]"

definition found_lines :: "(string \<Rightarrow> bool) \<Rightarrow> disk \<Rightarrow> path \<Rightarrow> string list" where
  "found_lines matching d p =
     (case file_at d p of None \<Rightarrow> []
      | Some raw \<Rightarrow>
          let ls = py_splitlines (universal raw) in
          concat (map2 (\<lambda>k l. if matching l then [path_text p @ '':'' @ nat_text (k + 1) @ '':'' @ l] else []) [0..<length ls] ls))"

definition or_no_matches :: "string \<Rightarrow> tool_result" where
  "or_no_matches s = (clipped s)\<lparr>tr_content := str_or (truncate_text s) ''(no matches)''\<rparr>"

text \<open>The files of a search: \<open>rglob\<close> raises \<open>NotImplementedError\<close>, a \<open>RuntimeError\<close>, on an absolute
  pattern.\<close>

definition search_files :: "agent_env \<Rightarrow> pydict \<Rightarrow> path \<Rightarrow> disk \<Rightarrow> py_error + path list" where
  "search_files e args p d =
     (if file_at d p \<noteq> None then Inr [p]
      else
        let g = dget_or args ''glob'' PNone in
        bind_result (if truthy g then text_of g else Inr ''*'') (\<lambda>g.
          if py_startswith g ''/'' then Inl (RuntimeError ''Non-relative patterns are unsupported'')
          else ag_glob e d p g))"

definition grep_python :: "agent_env \<Rightarrow> pydict \<Rightarrow> string \<Rightarrow> path \<Rightarrow> disk \<Rightarrow> py_error + tool_result" where
  "grep_python e args pattern p d =
     (case ag_compile e (truthy (dget_or args ''literal'' (PBool False))) pattern of
        Inl message \<Rightarrow> Inr (tool_error (''bad pattern: '' @ message))
      | Inr matching \<Rightarrow>
          bind_result (search_files e args p d) (\<lambda>files.
            Inr (or_no_matches (py_join [newline] (concat (map (found_lines matching d) files))))))"

definition run_rg :: "(string list \<Rightarrow> disk \<Rightarrow> disk \<times> proc option) \<Rightarrow> string list \<Rightarrow> (disk, proc) action" where
  "run_rg rg argv d =
     (case rg argv d of (d', r) \<Rightarrow> (d', case r of None \<Rightarrow> Inl TimeoutExpired | Some x \<Rightarrow> Inr x))"

definition grep_tool :: "agent_env \<Rightarrow> pydict \<Rightarrow> (disk, tool_result) action" where
  "grep_tool e args =
     act_bind (compute (\<lambda>_. required args ''pattern'')) (\<lambda>pv.
     act_bind (compute (\<lambda>_. resolve_in_sandbox e (dget_or args ''path'' (PStr ''.'')))) (\<lambda>p.
     act_bind (compute (\<lambda>_. text_of pv)) (\<lambda>pattern.
     case ag_rg e of
       None \<Rightarrow> compute (grep_python e args pattern p)
     | Some rg \<Rightarrow>
         act_bind (run_rg rg (rg_args e args pattern p)) (\<lambda>r. answer
           (if pc_code r > 1 then tool_error (''grep failed: '' @ py_strip (pc_err r))
            else or_no_matches (pc_out r))))))"

section \<open>Writing tools and the shell\<close>

definition edit_file :: "agent_env \<Rightarrow> pydict \<Rightarrow> (disk, tool_result) action" where
  "edit_file e args =
     act_bind (compute (\<lambda>_. required args ''path'')) (\<lambda>v.
     act_bind (compute (\<lambda>_. resolve_in_sandbox e v)) (\<lambda>p.
     act_bind (compute (\<lambda>d. Inr (file_at d p))) (\<lambda>file.
     case file of
       None \<Rightarrow> answer (tool_error (''not a file: '' @ py_repr (ag_ftext e) v))
     | Some raw \<Rightarrow>
         act_bind (compute (\<lambda>_. bind_result (required args ''edits'') text_of)) (\<lambda>edits.
         act_bind (compute (\<lambda>_. parse_blocks edits)) (\<lambda>blocks.
         if blocks = [] then answer (tool_error ''no SEARCH/REPLACE blocks found'')
         else
           act_bind (compute (\<lambda>_. apply_edits (universal raw) blocks)) (\<lambda>updated.
           act_bind (put_file p updated) (\<lambda>_.
             answer (tool_ok (''applied '' @ nat_text (length blocks) @ '' edit(s) to '' @ py_str (ag_ftext e) v)))))))))"

definition write_file :: "agent_env \<Rightarrow> pydict \<Rightarrow> (disk, tool_result) action" where
  "write_file e args =
     act_bind (compute (\<lambda>_. required args ''path'')) (\<lambda>v.
     act_bind (compute (\<lambda>_. resolve_in_sandbox e v)) (\<lambda>p.
     act_bind (make_dirs (butlast p)) (\<lambda>_.
     act_bind (compute (\<lambda>_. bind_result (required args ''contents'') text_of)) (\<lambda>contents.
     act_bind (put_file p contents) (\<lambda>_.
       answer (tool_ok (''wrote '' @ py_str (ag_ftext e) v)))))))"

definition timeout_text :: "agent_env \<Rightarrow> string" where
  "timeout_text e = (case ag_timeout e of None \<Rightarrow> ''None'' | Some t \<Rightarrow> ag_ftext e t)"

definition run_bash :: "agent_env \<Rightarrow> pydict \<Rightarrow> (disk, tool_result) action" where
  "run_bash e args =
     (if ag_abort e then answer (tool_error ''aborted before run'')
      else
        act_bind (compute (\<lambda>_. bind_result (required args ''command'') text_of)) (\<lambda>shell_line.
        act_bind (\<lambda>d. case ag_bash e shell_line d of (d', r) \<Rightarrow> (d', Inr r)) (\<lambda>done.
        answer (case done of
          None \<Rightarrow> tool_error (''command timed out after '' @ timeout_text e @ ''s'')
        | Some r \<Rightarrow>
            let body = pc_out r @ pc_err r in
            \<lparr>tr_content = ''[exit '' @ int_text (pc_code r) @ '']'' @ newline # truncate_text body,
             tr_error = (pc_code r \<noteq> 0), tr_truncated = was_truncated body\<rparr>))))"

section \<open>Dispatch\<close>

definition tool_handler :: "agent_env \<Rightarrow> string \<Rightarrow> (pydict \<Rightarrow> (disk, tool_result) action) option" where
  "tool_handler e name =
     (if name \<notin> set ALL_TOOLS \<or> name \<notin> set (ag_enabled e) then None
      else if name = ''read_file'' then Some (\<lambda>args. compute (read_file e args))
      else if name = ''list_dir'' then Some (\<lambda>args. compute (list_dir e args))
      else if name = ''grep'' then Some (grep_tool e)
      else if name = ''edit_file'' then Some (edit_file e)
      else if name = ''write_file'' then Some (write_file e)
      else Some (run_bash e))"

text \<open>The exceptions that become a result; the others go on to the loop.\<close>

fun error_result :: "string \<Rightarrow> py_error \<Rightarrow> tool_result option" where
  "error_result name (SandboxError m) = Some (tool_error (''sandbox error: '' @ m))"
| "error_result name (ApplyError kind k m) = Some (tool_error (''edit failed ('' @ kind @ ''): '' @ m))"
| "error_result name (OSError m) = Some (tool_error (name @ '' failed: '' @ m))"
| "error_result name (FileNotFoundError m) = Some (tool_error (name @ '' failed: '' @ m))"
| "error_result name (FileExistsError m) = Some (tool_error (name @ '' failed: '' @ m))"
| "error_result name (ValueError m) = Some (tool_error (name @ '' failed: '' @ m))"
| "error_result name _ = None"

definition dispatch :: "agent_env \<Rightarrow> string \<Rightarrow> pydict \<Rightarrow> (disk, tool_result) action" where
  "dispatch e name args d =
     (case tool_handler e name of
        None \<Rightarrow> (d, Inr (tool_error (''unknown tool: '' @ str_repr name)))
      | Some handler \<Rightarrow>
          (case handler args d of
             (d', Inr r) \<Rightarrow> (d', Inr r)
           | (d', Inl exc) \<Rightarrow> (d', case error_result name exc of Some r \<Rightarrow> Inr r | None \<Rightarrow> Inl exc)))"

section \<open>What a tool can reach\<close>

text \<open>A file the tools may not reach: one that is not below the resolved root.\<close>

definition reachable_file :: "agent_env \<Rightarrow> path \<Rightarrow> bool" where
  "reachable_file e p \<longleftrightarrow> (\<exists>r. ag_resolve e (ag_root e) = Inr r \<and> below r p)"

definition same_outside :: "agent_env \<Rightarrow> disk \<Rightarrow> disk \<Rightarrow> bool" where
  "same_outside e d0 d \<longleftrightarrow> (\<forall>p. \<not> reachable_file e p \<longrightarrow> file_at d p = file_at d0 p)"

lemma resolved_inside: "resolve_in_sandbox e v = Inr p \<Longrightarrow> reachable_file e p"
  by (auto simp: resolve_in_sandbox_def reachable_file_def bind_result_eq_Inr_iff split: if_splits)

lemma same_put: "reachable_file e p \<Longrightarrow> keeps (same_outside e d0) (put_file p t)"
  by (auto simp: keeps_def put_file_def same_outside_def file_at_def)

lemma same_dirs: "keeps (same_outside e d0) (make_dirs p)"
  by (auto simp: keeps_def make_dirs_def same_outside_def file_at_def)

lemma same_edit: "keeps (same_outside e d0) (edit_file e args)"
  unfolding edit_file_def
  by (intro keeps_compute_bind) (auto intro!: keeps_rules keeps_compute_bind same_put dest: resolved_inside split: option.split)

lemma same_write: "keeps (same_outside e d0) (write_file e args)"
  unfolding write_file_def
  by (intro keeps_compute_bind keeps_bind same_dirs) (auto intro!: keeps_rules keeps_compute_bind same_put dest: resolved_inside)

text \<open>
  Ripgrep as it is documented: a search whose pattern is no flag only reads. The pattern of a call is
  handed over as a bare argument, so one that begins with a dash is a flag.
\<close>

definition rg_only_reads :: "agent_env \<Rightarrow> bool" where
  "rg_only_reads e \<longleftrightarrow>
     (\<forall>rg args pattern p d. ag_rg e = Some rg \<and> \<not> py_startswith pattern ''-'' \<longrightarrow>
        fst (rg (rg_args e args pattern p) d) = d)"

definition dashed_pattern :: "pydict \<Rightarrow> bool" where
  "dashed_pattern args \<longleftrightarrow> (\<exists>pattern. dget args ''pattern'' = Some (PStr pattern) \<and> py_startswith pattern ''-'')"

lemma text_of_Inr: "text_of v = Inr t \<longleftrightarrow> v = PStr t"
  by (cases v) auto

lemma required_Inr: "required args k = Inr v \<longleftrightarrow> dget args k = Some v"
  by (auto simp: required_def split: option.splits)

lemma same_grep:
  assumes "rg_only_reads e \<and> \<not> dashed_pattern args \<or> ag_rg e = None"
  shows "keeps P (grep_tool e args)"
  unfolding grep_tool_def
proof (intro keeps_compute_bind)
  fix pv p pattern
  assume pattern: "required args ''pattern'' = Inr pv" "text_of pv = Inr pattern"
  show "keeps P (case ag_rg e of
       None \<Rightarrow> compute (grep_python e args pattern p)
     | Some rg \<Rightarrow>
         act_bind (run_rg rg (rg_args e args pattern p)) (\<lambda>r. answer
           (if pc_code r > 1 then tool_error (''grep failed: '' @ py_strip (pc_err r))
            else or_no_matches (pc_out r))))"
  proof (cases "ag_rg e")
    case (Some rg)
    then have "rg_only_reads e" "\<not> py_startswith pattern ''-''"
      using assms pattern by (auto simp: dashed_pattern_def required_Inr text_of_Inr)
    then have "fst (rg (rg_args e args pattern p) d) = d" for d
      using Some by (simp add: rg_only_reads_def)
    then have "keeps P (run_rg rg (rg_args e args pattern p))"
      by (simp add: keeps_def run_rg_def split: prod.split) (metis fst_conv)
    with Some show ?thesis by (auto intro!: keeps_rules)
  qed (auto intro: keeps_rules)
qed

lemma same_dispatch:
  assumes "name \<noteq> ''run_bash'' \<or> ''run_bash'' \<notin> set (ag_enabled e)"
    and "name = ''grep'' \<and> ''grep'' \<in> set (ag_enabled e) \<longrightarrow> rg_only_reads e \<and> \<not> dashed_pattern args \<or> ag_rg e = None"
  shows "keeps (same_outside e d0) (dispatch e name args)"
proof -
  have "keeps (same_outside e d0) (handler args)" if "tool_handler e name = Some handler" for handler
    using that assms
    by (auto simp: tool_handler_def ALL_TOOLS_def intro: same_edit same_write same_grep keeps_rules split: if_splits)
  then show ?thesis
    by (auto simp: keeps_def dispatch_def split: option.split prod.split sum.split) (metis fst_conv)+
qed

text \<open>
  C12: whatever a model asks for, with whatever arguments, every tool but the shell leaves each file
  that is not below the resolved root of the sandbox as it was, provided that ripgrep, where it is
  installed, only reads when its pattern is no flag, and that a search run by ripgrep is not given a
  pattern that begins with a dash (it would be read as a flag, and \<^verbatim>\<open>--pre\<close> runs a program: see
  \<open>dashed_pattern_runs_program\<close>). Links are whatever the resolution says they are.
\<close>

theorem tools_stay_in_sandbox:
  assumes "name \<noteq> ''run_bash''" "ag_resolve e (ag_root e) = Inr r" "\<not> below r p"
    and "rg_only_reads e" "name = ''grep'' \<longrightarrow> ag_rg e = None \<or> \<not> dashed_pattern args"
  shows "file_at (fst (dispatch e name args d)) p = file_at d p"
  using same_dispatch [of name e args d] assms
  by (auto simp: keeps_def same_outside_def reachable_file_def)

text \<open>What the edit handler does, step by step.\<close>

definition edit_outcome :: "agent_env \<Rightarrow> pydict \<Rightarrow> disk \<Rightarrow> disk \<Rightarrow> py_error + tool_result \<Rightarrow> bool" where
  "edit_outcome e args d d' r \<longleftrightarrow> d' = d \<and> (\<forall>x. r = Inr x \<longrightarrow> tr_error x) \<or>
    (\<exists>v p raw edits blocks updated. dget args ''path'' = Some v \<and> resolve_in_sandbox e v = Inr p \<and>
       file_at d p = Some raw \<and> dget args ''edits'' = Some (PStr edits) \<and> parse_blocks edits = Inr blocks \<and> blocks \<noteq> [] \<and>
       apply_edits (universal raw) blocks = Inr updated \<and>
       d' = d\<lparr>dk_files := dset (dk_files d) p updated\<rparr> \<and> (\<exists>x. r = Inr x \<and> \<not> tr_error x))"

lemma edit_refused: "tr_error x \<Longrightarrow> edit_outcome e args d d (Inr x)"
  by (simp add: edit_outcome_def)

lemma put_file_cases: "put_file p t d = (d, Inl (OSError ''is a directory'')) \<or>
    put_file p t d = (d\<lparr>dk_files := dset (dk_files d) p t\<rparr>, Inr ())"
  by (simp add: put_file_def)

lemma run_compute: "act_bind (compute f) g d = (case f d of Inl e \<Rightarrow> (d, Inl e) | Inr x \<Rightarrow> g x d)"
  by (simp add: act_bind_def compute_def split: sum.split)

lemma edit_file_outcome: "edit_outcome e args d (fst (edit_file e args d)) (snd (edit_file e args d))"
proof -
  have last: "edit_outcome e args d (fst (a d)) (snd (a d))"
    if "a = act_bind (put_file p updated) (\<lambda>_. answer (tool_ok m))"
      "dget args ''path'' = Some v" "resolve_in_sandbox e v = Inr p" "file_at d p = Some raw"
      "dget args ''edits'' = Some (PStr edits)" "parse_blocks edits = Inr blocks" "blocks \<noteq> []"
      "apply_edits (universal raw) blocks = Inr updated" for a m v p raw edits blocks updated
    using that put_file_cases [of p updated d]
    by (auto simp: edit_outcome_def act_bind_def answer_def tool_ok_def)
  have refused: "edit_outcome e args d d (Inl x)" "edit_outcome e args d d (Inr (tool_error m))" for x m
    by (simp_all add: edit_outcome_def tool_error_def)
  show ?thesis
    unfolding edit_file_def run_compute
    by (auto simp: run_compute answer_def refused required_Inr text_of_Inr bind_result_eq_Inr_iff
        intro!: refused last [OF refl] split: sum.split option.split)
qed

text \<open>
  C15: an edit is all or nothing. Whatever the reply says, the file named is either as it was, or the
  text of the file with every block applied; no other file and no directory changes, and the tool
  reports success only in the second case.
\<close>

theorem edit_is_atomic:
  assumes "dispatch e ''edit_file'' args d = (d', r)"
  shows "edit_outcome e args d d' r"
proof -
  have "edit_outcome e args d d' (case error_result n x of Some r \<Rightarrow> Inr r | None \<Rightarrow> Inl x)"
    if "edit_outcome e args d d' (Inl x)" for n x
    using that by (cases x) (auto simp: edit_outcome_def tool_error_def)
  then show ?thesis
    using assms edit_file_outcome [of e args d]
    by (auto simp: dispatch_def tool_handler_def ALL_TOOLS_def edit_refused tool_error_def
        split: if_splits prod.splits sum.splits)
qed

section \<open>Calls that fit the schema\<close>

text \<open>The input schema a tool declares: the arguments with their types, and those required.\<close>

definition tool_schema :: "string \<Rightarrow> (string \<times> string) list \<times> string list" where
  "tool_schema name =
     (if name = ''read_file'' then ([(''path'', ''string''), (''start'', ''integer''), (''end'', ''integer'')], [''path''])
      else if name = ''list_dir'' then ([(''path'', ''string'')], [])
      else if name = ''grep''
        then ([(''pattern'', ''string''), (''path'', ''string''), (''glob'', ''string''), (''literal'', ''boolean'')], [''pattern''])
      else if name = ''edit_file'' then ([(''path'', ''string''), (''edits'', ''string'')], [''path'', ''edits''])
      else if name = ''write_file'' then ([(''path'', ''string''), (''contents'', ''string'')], [''path'', ''contents''])
      else if name = ''run_bash'' then ([(''command'', ''string'')], [''command''])
      else ([], []))"

fun of_type :: "string \<Rightarrow> pyval \<Rightarrow> bool" where
  "of_type t (PStr s) \<longleftrightarrow> t = ''string''"
| "of_type t (PInt i) \<longleftrightarrow> t = ''integer''"
| "of_type t (PBool b) \<longleftrightarrow> t = ''boolean''"
| "of_type t _ \<longleftrightarrow> False"

definition fits_schema :: "string \<Rightarrow> pydict \<Rightarrow> bool" where
  "fits_schema name args \<longleftrightarrow>
     (\<forall>k \<in> set (snd (tool_schema name)). dget args k \<noteq> None) \<and>
     (\<forall>(k, t) \<in> set (fst (tool_schema name)). \<forall>v. dget args k = Some v \<longrightarrow> of_type t v)"

text \<open>An action whose exceptions the dispatch turns into results.\<close>

definition catchable :: "string \<Rightarrow> py_error + 'a \<Rightarrow> bool" where
  "catchable name r \<longleftrightarrow> (\<forall>x. r = Inl x \<longrightarrow> error_result name x \<noteq> None)"

lemma catchable_Inr [simp]: "catchable name (Inr x)"
  by (simp add: catchable_def)

lemma catchable_bind: "catchable name r \<Longrightarrow> (\<And>x. r = Inr x \<Longrightarrow> catchable name (f x)) \<Longrightarrow> catchable name (bind_result r f)"
  by (cases r) (auto simp: catchable_def)

lemma catchable_raise [simp]:
  "catchable name (Inl (SandboxError m))" "catchable name (Inl (ApplyError t k m))" "catchable name (Inl (OSError m))"
  "catchable name (Inl (ValueError m))"
  by (simp_all add: catchable_def)

definition handles :: "string \<Rightarrow> (disk, 'a) action \<Rightarrow> bool" where
  "handles name a \<longleftrightarrow> (\<forall>d. catchable name (snd (a d)))"

lemma handles_bind: "handles name a \<Longrightarrow> (\<And>x. handles name (f x)) \<Longrightarrow> handles name (act_bind a f)"
  unfolding handles_def act_bind_def by (auto split: prod.split sum.split simp: catchable_def) (metis snd_conv)+

lemma handles_compute: "(\<And>d. catchable name (f d)) \<Longrightarrow> (\<And>d x. f d = Inr x \<Longrightarrow> handles name (g x)) \<Longrightarrow>
    handles name (act_bind (compute f) g)"
  unfolding handles_def run_compute by (auto split: sum.split simp: catchable_def)

lemma handles_answer [simp]: "handles name (answer x)" "handles name (put_file p t)" "handles name (make_dirs p)"
  by (simp_all add: handles_def answer_def put_file_def make_dirs_def)

lemma handles_put: "handles name (act_bind (put_file p t) (\<lambda>_. answer x))"
  by (rule handles_bind) simp_all

lemma catchable_half: "catchable name (read_half stop bad n k lines)"
  by (induction lines) (auto simp: malformed_def intro!: catchable_bind split: prod.split)

lemma catchable_parse: "catchable name (parse_from k lines)"
  by (induction k lines rule: parse_from.induct)
    (auto intro!: catchable_bind catchable_half split: prod.split)

lemma catchable_apply: "catchable name (apply_from k t bs)"
  by (induction k t bs rule: apply_from.induct)
    (auto intro!: catchable_bind simp: apply_block_def split: option.split)

lemma catchable_edits: "catchable name (parse_blocks t)" "catchable name (apply_edits t bs)"
  by (simp_all add: parse_blocks_def apply_edits_def catchable_parse catchable_apply)

text \<open>
  What an answer relies on: the resolution of a path and the expansion of a relative glob raise only
  errors the dispatch catches, and ripgrep ends in its time. A call is proper when it fits the schema
  of its tool and its glob, if it has one, is relative.
\<close>

definition tame :: "agent_env \<Rightarrow> bool" where
  "tame e \<longleftrightarrow> (\<forall>name p. catchable name (ag_resolve e p)) \<and>
     (\<forall>name d p g. \<not> py_startswith g ''/'' \<longrightarrow> catchable name (ag_glob e d p g)) \<and>
     (\<forall>rg a d. ag_rg e = Some rg \<longrightarrow> snd (rg a d) \<noteq> None)"

definition proper_call :: "string \<Rightarrow> pydict \<Rightarrow> bool" where
  "proper_call name args \<longleftrightarrow> fits_schema name args \<and>
     (name = ''grep'' \<longrightarrow> (\<forall>g. dget args ''glob'' = Some (PStr g) \<longrightarrow> \<not> py_startswith g ''/''))"

lemma catchable_resolve: "tame e \<Longrightarrow> of_type ''string'' v \<Longrightarrow> catchable name (resolve_in_sandbox e v)"
  by (cases v) (auto simp: resolve_in_sandbox_def tame_def intro!: catchable_bind)

lemma string_value: "of_type ''string'' v \<longleftrightarrow> (\<exists>s. v = PStr s)"
  by (cases v) auto

lemma integer_value: "of_type ''integer'' v \<Longrightarrow> catchable name (int_of v)"
  by (cases v) auto

lemma catchable_read:
  assumes "tame e" "fits_schema ''read_file'' args"
  shows "catchable name (read_file e args d)"
proof -
  obtain v where v: "dget args ''path'' = Some v" "of_type ''string'' v"
    using assms(2) by (auto simp: fits_schema_def tool_schema_def)
  have "catchable name (bound_arg args k n)" if "k \<in> {''start'', ''end''}" for k n
    using that assms(2)
    by (auto simp: bound_arg_def dget_or_def fits_schema_def tool_schema_def integer_value split: option.split)
  then show ?thesis
    using v assms(1) unfolding read_file_def Let_def
    by (auto intro!: catchable_bind catchable_resolve simp: required_def split: option.split)
qed

lemma catchable_list: "tame e \<Longrightarrow> fits_schema ''list_dir'' args \<Longrightarrow> catchable name (list_dir e args d)"
  unfolding list_dir_def Let_def
  by (auto intro!: catchable_bind catchable_resolve simp: dget_or_def fits_schema_def tool_schema_def split: option.split)

lemma handles_only: "handles name (compute f) \<longleftrightarrow> (\<forall>d. catchable name (f d))"
  by (simp add: handles_def compute_def)

lemma catchable_files:
  assumes "tame e" "proper_call ''grep'' args"
  shows "catchable name (search_files e args p d)"
proof -
  have "of_type ''string'' v" if "dget args ''glob'' = Some v" for v
    using assms(2) that by (auto simp: proper_call_def fits_schema_def tool_schema_def)
  then have "dget args ''glob'' = None \<or> (\<exists>g. dget args ''glob'' = Some (PStr g) \<and> \<not> py_startswith g ''/'')"
    using assms(2) by (cases "dget args ''glob''") (auto simp: string_value proper_call_def)
  moreover have "catchable name (ag_glob e d p g)" if "\<not> py_startswith g ''/''" for g
    using assms(1) that by (simp add: tame_def)
  moreover have "\<not> py_startswith ''*'' ''/''" by code_simp
  ultimately show ?thesis
    unfolding search_files_def Let_def by (auto simp: dget_or_def)
qed

lemma handles_rg: "tame e \<Longrightarrow> ag_rg e = Some rg \<Longrightarrow> handles name (run_rg rg argv)"
proof -
  assume "tame e" "ag_rg e = Some rg"
  then have "snd (rg argv d) \<noteq> None" for d unfolding tame_def by blast
  then have ended: "\<exists>d' x. rg argv d = (d', Some x)" for d
    by (metis prod.collapse not_None_eq)
  have "\<exists>x. snd (run_rg rg argv d) = Inr x" for d
    using ended [of d] by (auto simp: run_rg_def)
  then show ?thesis unfolding handles_def catchable_def by (metis Inl_Inr_False)
qed

lemma handles_grep:
  assumes "tame e" "proper_call ''grep'' args"
  shows "handles name (grep_tool e args)"
proof -
  have fits: "fits_schema ''grep'' args" using assms(2) by (simp add: proper_call_def)
  obtain s where s: "dget args ''pattern'' = Some (PStr s)"
    using fits by (auto simp: fits_schema_def tool_schema_def string_value)
  have "of_type ''string'' (dget_or args ''path'' (PStr ''.''))"
    using fits by (auto simp: dget_or_def fits_schema_def tool_schema_def split: option.split)
  then have resolve: "catchable name (resolve_in_sandbox e (dget_or args ''path'' (PStr ''.'')))"
    by (rule catchable_resolve [OF assms(1)])
  have python: "handles name (compute (grep_python e args s p))" for p
    unfolding handles_only grep_python_def
    by (auto intro!: catchable_bind catchable_files [OF assms] split: sum.split)
  show ?thesis
    unfolding grep_tool_def required_def s option.case text_of.simps
    by (intro handles_compute; (use resolve in simp; fail)?)
      (auto intro!: python handles_bind [OF handles_rg [OF assms(1)]] split: option.split)
qed

lemma handles_edit:
  assumes "tame e" "fits_schema ''edit_file'' args"
  shows "handles name (edit_file e args)"
proof -
  obtain p t where args: "dget args ''path'' = Some (PStr p)" "dget args ''edits'' = Some (PStr t)"
    using assms(2) by (auto simp: fits_schema_def tool_schema_def string_value)
  have resolve: "catchable name (resolve_in_sandbox e (PStr p))"
    using assms(1) by (simp add: catchable_resolve)
  show ?thesis
    unfolding edit_file_def required_def args option.case bind_result.simps text_of.simps
    by (intro handles_compute; (use resolve in simp; fail)?)
      (auto split: option.split intro!: handles_compute handles_put catchable_edits)
qed

lemma handles_write:
  assumes "tame e" "fits_schema ''write_file'' args"
  shows "handles name (write_file e args)"
proof -
  obtain p t where args: "dget args ''path'' = Some (PStr p)" "dget args ''contents'' = Some (PStr t)"
    using assms(2) by (auto simp: fits_schema_def tool_schema_def string_value)
  have resolve: "catchable name (resolve_in_sandbox e (PStr p))"
    using assms(1) by (simp add: catchable_resolve)
  show ?thesis
    unfolding write_file_def required_def args option.case bind_result.simps text_of.simps
    by (intro handles_compute handles_bind [OF handles_answer(3)] handles_put handles_answer(1))
      (use resolve in auto)
qed

lemma handles_shell:
  assumes "fits_schema ''run_bash'' args"
  shows "handles name (run_bash e args)"
proof -
  obtain t where args: "dget args ''command'' = Some (PStr t)"
    using assms by (auto simp: fits_schema_def tool_schema_def string_value)
  have ran: "handles name (\<lambda>d. case ag_bash e t d of (d', r) \<Rightarrow> (d', Inr r))" for t
    by (simp add: handles_def split: prod.split)
  show ?thesis
    unfolding run_bash_def required_def args option.case bind_result.simps text_of.simps
    by (cases "ag_abort e") (auto intro!: handles_compute handles_bind [OF ran])
qed

text \<open>
  A proper call is always answered. When the resolution of paths and the expansion of globs raise only
  errors the dispatch catches and a search ends in its time, the dispatch of such a call never raises:
  whatever goes wrong comes back to the model as a result.
\<close>

lemma fitting_calls_answered:
  assumes "tame e" "proper_call name args"
  shows "\<exists>x. snd (dispatch e name args d) = Inr x"
proof -
  have "handles name (handler args)" if "tool_handler e name = Some handler" for handler
    using that assms
    by (auto simp: proper_call_def tool_handler_def ALL_TOOLS_def handles_only catchable_read catchable_list
        handles_grep handles_edit handles_write handles_shell split: if_splits)
  then have "catchable name (snd (handler args d))" if "tool_handler e name = Some handler" for handler
    using that by (simp add: handles_def)
  then show ?thesis
    by (auto simp: dispatch_def catchable_def split: option.split prod.split sum.split)
qed

section \<open>A sample sandbox, and what escapes the dispatch\<close>

text \<open>A resolution without links: a component \<open>..\<close> drops the one before it.\<close>

definition collapse :: "path \<Rightarrow> path" where
  "collapse p = rev (foldl (\<lambda>acc c. if c = ''..'' then tl acc else c # acc) [] p)"

definition sample_tools :: agent_env where
  "sample_tools =
     \<lparr>ag_root = [''w''], ag_resolve = (\<lambda>p. Inr (collapse p)), ag_policy = ''spans'', ag_timeout = None,
      ag_rg = None, ag_compile = (\<lambda>_ p. Inr (\<lambda>l. l = p)), ag_glob = (\<lambda>_ _ _. Inr []),
      ag_bash = (\<lambda>_ d. (d, None)), ag_abort = False, ag_ftext = (\<lambda>_. []), ag_enabled = ALL_TOOLS\<rparr>"

definition sample_disk :: disk where
  "sample_disk = \<lparr>dk_files = [([''w'', ''a''], ''x''), ([''etc'', ''key''], ''k'')], dk_dirs = [[''w''], [''etc'']]\<rparr>"

theorem tools_stay_in_sandbox_witness:
  "file_at (fst (dispatch sample_tools ''write_file'' [(''path'', PStr ''../etc/key''), (''contents'', PStr ''z'')] sample_disk))
     [''etc'', ''key''] = Some ''k''"
proof -
  have "ag_resolve sample_tools (ag_root sample_tools) = Inr [''w'']" "\<not> below [''w''] [''etc'', ''key'']"
    by (simp_all add: sample_tools_def collapse_def below_def)
  moreover have "rg_only_reads sample_tools"
    by (simp add: rg_only_reads_def sample_tools_def)
  ultimately show ?thesis
    by (subst tools_stay_in_sandbox) (simp_all add: sample_disk_def file_at_def)
qed

theorem edit_is_atomic_witness:
  "edit_outcome sample_tools [(''path'', PStr ''a''), (''edits'', PStr [])] sample_disk sample_disk
     (Inr (tool_error ''no SEARCH/REPLACE blocks found''))"
  by (rule edit_is_atomic)
    (simp add: dispatch_def tool_handler_def ALL_TOOLS_def sample_tools_def sample_disk_def edit_file_def act_bind_def compute_def
      answer_def required_def resolve_in_sandbox_def collapse_def below_def path_parts_def py_startswith_def file_at_def
      parse_blocks_def py_splitlines_def)

lemma sample_tame: "tame sample_tools"
  by (simp add: tame_def sample_tools_def)

text \<open>A call without a required argument raises out of the dispatch; so does a search that overruns.\<close>

lemma missing_argument_escapes:
  "''read_file'' \<in> set (ag_enabled e) \<Longrightarrow> dispatch e ''read_file'' [] d = (d, Inl (KeyError ''path''))"
  by (simp add: dispatch_def tool_handler_def ALL_TOOLS_def compute_def read_file_def required_def)

lemma sample_dispatch:
  "dispatch (sample_tools\<lparr>ag_rg := r\<rparr>) ''grep'' args d =
    (case grep_tool (sample_tools\<lparr>ag_rg := r\<rparr>) args d of
       (d', Inr x) \<Rightarrow> (d', Inr x)
     | (d', Inl exc) \<Rightarrow> (d', case error_result ''grep'' exc of Some x \<Rightarrow> Inr x | None \<Rightarrow> Inl exc))"
  by (simp add: dispatch_def tool_handler_def ALL_TOOLS_def sample_tools_def)

lemma sample_grep:
  assumes "dget args ''path'' = None" "dget args ''pattern'' = Some (PStr s)"
  shows "grep_tool (sample_tools\<lparr>ag_rg := r\<rparr>) args d =
    (case r of
       None \<Rightarrow> (d, grep_python (sample_tools\<lparr>ag_rg := r\<rparr>) args s [''w''] d)
     | Some rg \<Rightarrow> act_bind (run_rg rg (rg_args (sample_tools\<lparr>ag_rg := r\<rparr>) args s [''w''])) (\<lambda>x. answer
         (if pc_code x > 1 then tool_error (''grep failed: '' @ py_strip (pc_err x)) else or_no_matches (pc_out x))) d)"
proof -
  have "resolve_in_sandbox (sample_tools\<lparr>ag_rg := r\<rparr>) (dget_or args ''path'' (PStr ''.'')) = Inr [''w'']"
    using assms(1) by (simp add: dget_or_def resolve_in_sandbox_def sample_tools_def collapse_def below_def path_parts_def py_startswith_def)
  then show ?thesis
    using assms(2) by (simp add: grep_tool_def run_compute required_def compute_def split: option.split)
qed

lemma slow_search_escapes:
  "snd (dispatch (sample_tools\<lparr>ag_rg := Some (\<lambda>_ d. (d, None))\<rparr>) ''grep'' [(''pattern'', PStr ''x'')] sample_disk) =
     Inl TimeoutExpired"
proof -
  let ?args = "[(''pattern'', PStr ''x'')] :: pydict"
  have "dget ?args ''path'' = None" "dget ?args ''pattern'' = Some (PStr ''x'')" by simp_all
  from sample_grep [OF this] show ?thesis
    by (simp add: sample_dispatch run_rg_def act_bind_def)
qed

text \<open>Without ripgrep, an absolute glob raises out of the dispatch.\<close>

lemma absolute_glob_escapes:
  "snd (dispatch (sample_tools\<lparr>ag_rg := None\<rparr>) ''grep'' [(''pattern'', PStr ''x''), (''glob'', PStr ''/etc/k*'')] sample_disk) =
     Inl (RuntimeError ''Non-relative patterns are unsupported'')"
proof -
  let ?args = "[(''pattern'', PStr ''x''), (''glob'', PStr ''/etc/k*'')] :: pydict"
  have "dget ?args ''path'' = None" "dget ?args ''pattern'' = Some (PStr ''x'')" by simp_all
  note run = sample_grep [OF this]
  have "search_files e ?args [''w''] sample_disk = Inl (RuntimeError ''Non-relative patterns are unsupported'')" for e
    by (simp add: search_files_def dget_or_def sample_disk_def file_at_def py_startswith_def)
  then have "grep_python (sample_tools\<lparr>ag_rg := None\<rparr>) ?args ''x'' [''w''] sample_disk =
      Inl (RuntimeError ''Non-relative patterns are unsupported'')"
    by (simp add: grep_python_def) (simp add: sample_tools_def)
  then show ?thesis by (simp add: sample_dispatch run)
qed

text \<open>A ripgrep that runs its preprocessor, as \<^verbatim>\<open>--pre\<close> asks it to: the pattern of a call reaches it as
  that flag, and a file outside the sandbox changes.\<close>

definition preprocessing_rg :: "string list \<Rightarrow> disk \<Rightarrow> disk \<times> proc option" where
  "preprocessing_rg argv d =
     ((if list_ex (\<lambda>a. py_startswith a ''--pre='') argv
       then d\<lparr>dk_files := dset (dk_files d) [''etc'', ''key''] ''overwritten''\<rparr> else d),
      Some \<lparr>pc_code = 0, pc_out = [], pc_err = []\<rparr>)"

lemma dashed_pattern_runs_program:
  "file_at (fst (dispatch (sample_tools\<lparr>ag_rg := Some preprocessing_rg\<rparr>) ''grep''
     [(''pattern'', PStr ''--pre=./run.sh'')] sample_disk)) [''etc'', ''key''] = Some ''overwritten''"
proof -
  let ?args = "[(''pattern'', PStr ''--pre=./run.sh'')] :: pydict"
  have "dget ?args ''path'' = None" "dget ?args ''pattern'' = Some (PStr ''--pre=./run.sh'')" by simp_all
  note run = sample_grep [OF this]
  have "list_ex (\<lambda>a. py_startswith a ''--pre='') (rg_args e ?args ''--pre=./run.sh'' [''w''])" for e
    by (simp add: rg_args_def dget_or_def py_startswith_def)
  then show ?thesis
    by (simp add: sample_dispatch run run_rg_def preprocessing_rg_def act_bind_def answer_def sample_disk_def file_at_def)
qed

text \<open>An edit of one line writes every line of the file anew: the carriage returns are gone.\<close>

lemma block_adds_replacement: "apply_block k t b = Inr u \<Longrightarrow> set u \<subseteq> set t \<union> set (bk_replace b)"
  by (auto simp: apply_block_def split: if_splits option.splits dest: in_set_takeD in_set_dropD)

lemma edits_add_replacements: "apply_from k t bs = Inr u \<Longrightarrow> set u \<subseteq> set t \<union> (\<Union>b \<in> set bs. set (bk_replace b))"
proof (induction k t bs rule: apply_from.induct)
  case (2 k t b bs)
  then obtain t' where t': "apply_block k t b = Inr t'" "apply_from (Suc k) t' bs = Inr u"
    by (auto simp: bind_result_eq_Inr_iff)
  show ?case
    using 2(1) [OF t'] block_adds_replacement [OF t'(1)] by auto
qed simp

lemma universal_no_return: "CHR 0x0D \<notin> set (universal s)"
proof (induction s rule: universal.induct)
  case (2 c s)
  then show ?case by (cases s) auto
qed simp

lemma edit_drops_carriage_returns:
  assumes "apply_edits (universal raw) blocks = Inr updated"
    and "\<forall>b \<in> set blocks. CHR 0x0D \<notin> set (bk_replace b)"
  shows "CHR 0x0D \<notin> set updated"
  using edits_add_replacements [OF assms(1) [unfolded apply_edits_def]] assms(2) universal_no_return [of raw] by auto

end
