(* ===== verification/Agent_Loop.thy ===== *)
theory Agent_Loop
  imports Agent_Tools
begin

text \<open>
  The loop of the agent (\<^verbatim>\<open>src/nightshift/agent/loop.py\<close>): the conversation with a model, the
  tools its answers ask for, the limits and the account of the turns.

  The model behind the transport, the clock, the abort signal and the encoder of JSON are
  parameters; they read and change a world of their own beside the disk and the log.
\<close>

section \<open>Calls, answers and requests\<close>

record tool_call =
  tc_id :: string
  tc_name :: string
  tc_input :: pydict

record completion =
  co_text :: string
  co_calls :: "tool_call list"
  co_usage :: pydict
  co_stop :: "string option"
  co_honoured :: pydict

record request =
  rq_messages :: "pydict list"
  rq_tools :: "pyval list"
  rq_knobs :: pydict
  rq_model :: string
  rq_system :: "pydict list"
  rq_timeout :: "rat option"

record 'w agent_state =
  as_world :: 'w
  as_disk :: disk
  as_log :: "string list"

record 'w loop_env =
  le_tools :: agent_env
  le_charter :: string
  le_brief :: string
  le_model :: string
  le_knobs :: pydict
  le_max_turns :: "int option"
  le_timeout :: "rat option"
  le_abort :: "'w \<Rightarrow> string option"
  le_clock :: "'w \<Rightarrow> 'w \<times> rat"
  le_complete :: "request \<Rightarrow> 'w \<Rightarrow> 'w \<times> (py_error + completion)"
  le_dumps :: "pyval \<Rightarrow> string"
  le_dumps_sorted :: "pyval \<Rightarrow> string"

definition DEFAULT_MAX_TURNS :: int where "DEFAULT_MAX_TURNS = 50"

definition MAX_CACHE_BREAKPOINTS :: nat where "MAX_CACHE_BREAKPOINTS = 4"

definition split_vendor :: "string \<Rightarrow> string \<times> string" where
  "split_vendor model = (case py_partition (CHR ''/'') model of (vendor, _, upstream) \<Rightarrow> (py_strip vendor, py_strip upstream))"

text \<open>The tool definitions a request carries, sorted by name.\<close>

definition tool_description :: "string \<Rightarrow> string" where
  "tool_description name =
     (if name = ''read_file'' then ''Read a file (line-numbered). Pass start/end (1-based) to read a span.''
      else if name = ''list_dir'' then ''List directory entries (directories end with '' @ [CHR 0x27] @ ''/'' @ [CHR 0x27] @ '').''
      else if name = ''grep'' then ''Search file contents. Set literal=true for a fixed string.''
      else if name = ''edit_file'' then ''Edit a file via SEARCH/REPLACE blocks (aider fences). Atomic.''
      else if name = ''write_file'' then ''Create or overwrite a file with the given contents.''
      else ''Run a shell command in the sandbox root.'')"

definition tool_spec :: "string \<Rightarrow> pyval" where
  "tool_spec name = PDict
     [(''name'', PStr name), (''description'', PStr (tool_description name)),
      (''input_schema'', PDict
        [(''type'', PStr ''object''),
         (''properties'', PDict (map (\<lambda>(k, t). (k, PDict [(''type'', PStr t)])) (fst (tool_schema name)))),
         (''required'', PList (map PStr (snd (tool_schema name))))])]"

definition registry_names :: "agent_env \<Rightarrow> string list" where
  "registry_names e = sort (filter (\<lambda>n. n \<in> set (ag_enabled e)) ALL_TOOLS)"

definition registry_specs :: "agent_env \<Rightarrow> pyval list" where
  "registry_specs e = map tool_spec (registry_names e)"

section \<open>The account of the tokens and the cache markers\<close>

definition USAGE_KEYS :: "string list" where
  "USAGE_KEYS = [''input_tokens'', ''output_tokens'', ''cache_creation_input_tokens'', ''cache_read_input_tokens'']"

text \<open>\<open>d.get(k)\<close> as a value, and the count an accumulator holds: its values are integers.\<close>

definition pget :: "pydict \<Rightarrow> string \<Rightarrow> pyval" where
  "pget d k = dget_or d k PNone"

fun count_at :: "pydict \<Rightarrow> string \<Rightarrow> int" where
  "count_at d k = (case dget d k of Some (PInt i) \<Rightarrow> i | _ \<Rightarrow> 0)"

fun sum_keys :: "string list \<Rightarrow> pydict \<Rightarrow> pydict \<Rightarrow> py_error + pydict" where
  "sum_keys [] acc u = Inr acc"
| "sum_keys (k # ks) acc u =
     (if pget u k = PNone then sum_keys ks acc u
      else bind_result (int_of (pget u k)) (\<lambda>v. sum_keys ks (dset acc k (PInt (count_at acc k + v))) u))"

definition sum_usage :: "pydict \<Rightarrow> pydict \<Rightarrow> py_error + pydict" where
  "sum_usage acc u = sum_keys USAGE_KEYS acc u"

definition set_last :: "('a \<Rightarrow> 'a) \<Rightarrow> 'a list \<Rightarrow> 'a list" where
  "set_last f xs = (if xs = [] then [] else butlast xs @ [f (last xs)])"

definition cache_control :: "string \<Rightarrow> pyval" where
  "cache_control ttl = PDict ((''type'', PStr ''ephemeral'') # (if ttl = ''1h'' then [(''ttl'', PStr ''1h'')] else []))"

fun mark_block :: "string \<Rightarrow> pyval \<Rightarrow> pyval" where
  "mark_block ttl (PDict b) = PDict (dset b ''cache_control'' (cache_control ttl))"
| "mark_block ttl v = v"

definition mark_message :: "string \<Rightarrow> pydict \<Rightarrow> pydict" where
  "mark_message ttl m =
     (case dget m ''content'' of
        Some (PList blocks) \<Rightarrow> if blocks = [] then m else dset m ''content'' (PList (set_last (mark_block ttl) blocks))
      | _ \<Rightarrow> m)"

definition apply_cache_breakpoints :: "bool \<Rightarrow> string \<Rightarrow> pydict list \<Rightarrow> pydict list \<Rightarrow> pydict list \<times> pydict list" where
  "apply_cache_breakpoints enabled ttl system messages =
     (if \<not> enabled then (system, messages)
      else (set_last (\<lambda>b. dset b ''cache_control'' (cache_control ttl)) system, set_last (mark_message ttl) messages))"

section \<open>The loop\<close>

record loop_state =
  ls_turns :: int
  ls_text :: string
  ls_usage :: pydict
  ls_per_turn :: "pydict list"
  ls_honoured :: pydict
  ls_system :: "pydict list"
  ls_messages :: "pydict list"
  ls_transcript :: int

record loop_result =
  lr_turns :: int
  lr_text :: string
  lr_error :: "string option"
  lr_aborted :: "string option"
  lr_exit :: string
  lr_usage :: pydict
  lr_per_turn :: "pydict list"
  lr_prompt_chars :: pydict
  lr_honoured :: pydict

definition finish :: "'w loop_env \<Rightarrow> loop_state \<Rightarrow> string option \<Rightarrow> string option \<Rightarrow> string \<Rightarrow> loop_result" where
  "finish e st err stopped exit =
     \<lparr>lr_turns = ls_turns st, lr_text = ls_text st, lr_error = err, lr_aborted = stopped, lr_exit = exit,
      lr_usage = ls_usage st, lr_per_turn = ls_per_turn st,
      lr_prompt_chars =
        [(''system'', PInt (int (length (le_charter e) + length (le_dumps_sorted e (PList (registry_specs (le_tools e))))))),
         (''brief'', PInt (int (length (le_brief e))))],
      lr_honoured = ls_honoured st\<rparr>"

definition loop_start :: "'w loop_env \<Rightarrow> loop_state" where
  "loop_start e =
     \<lparr>ls_turns = 0, ls_text = [], ls_usage = [], ls_per_turn = [], ls_honoured = [],
      ls_system = [[(''type'', PStr ''text''), (''text'', PStr (le_charter e))]],
      ls_messages = [[(''role'', PStr ''user''), (''content'', PStr (le_brief e))]],
      ls_transcript = 0\<rparr>"

definition turn_limit :: "'w loop_env \<Rightarrow> int" where
  "turn_limit e = (case le_max_turns e of None \<Rightarrow> DEFAULT_MAX_TURNS | Some n \<Rightarrow> n)"

definition cache_enabled :: "'w loop_env \<Rightarrow> bool" where
  "cache_enabled e \<longleftrightarrow>
     fst (split_vendor (le_model e)) = ''anthropic'' \<and> truthy (dget_or (le_knobs e) ''enable_cache'' (PBool True))"

definition cache_ttl :: "'w loop_env \<Rightarrow> string" where
  "cache_ttl e = py_str (ag_ftext (le_tools e)) (dget_or (le_knobs e) ''cache_ttl'' (PStr ''5m''))"

definition read_clock :: "'w loop_env \<Rightarrow> ('w agent_state, rat) action" where
  "read_clock e s = (case le_clock e (as_world s) of (w, t) \<Rightarrow> (s\<lparr>as_world := w\<rparr>, Inr t))"

definition emit :: "string \<Rightarrow> ('w agent_state, unit) action" where
  "emit line = change (\<lambda>s. s\<lparr>as_log := as_log s @ [line]\<rparr>)"

definition elapsed_ms :: "rat \<Rightarrow> rat \<Rightarrow> int" where
  "elapsed_ms started ended = py_trunc ((ended - started) * 1000)"

definition deadline_of :: "'w loop_env \<Rightarrow> ('w agent_state, rat option) action" where
  "deadline_of e =
     (case le_timeout e of
        Some t \<Rightarrow> if t > 0 then act_bind (read_clock e) (\<lambda>now. answer (Some (now + t))) else answer None
      | None \<Rightarrow> answer None)"

definition past_deadline :: "'w loop_env \<Rightarrow> rat option \<Rightarrow> ('w agent_state, bool) action" where
  "past_deadline e deadline =
     (case deadline of None \<Rightarrow> answer False | Some t \<Rightarrow> act_bind (read_clock e) (\<lambda>now. answer (now \<ge> t)))"

definition remaining_time :: "'w loop_env \<Rightarrow> rat option \<Rightarrow> ('w agent_state, rat option) action" where
  "remaining_time e deadline =
     (case deadline of
        None \<Rightarrow> answer (le_timeout e)
      | Some t \<Rightarrow> act_bind (read_clock e) (\<lambda>now. answer (Some (max 0 (t - now)))))"

text \<open>One call of the transport: its failure is a value, any other exception goes on.\<close>

definition send :: "'w loop_env \<Rightarrow> request \<Rightarrow> ('w agent_state, string + completion) action" where
  "send e q s =
     (case le_complete e q (as_world s) of
        (w, Inr c) \<Rightarrow> (s\<lparr>as_world := w\<rparr>, Inr (Inr c))
      | (w, Inl (TransportError m)) \<Rightarrow> (s\<lparr>as_world := w\<rparr>, Inr (Inl m))
      | (w, Inl x) \<Rightarrow> (s\<lparr>as_world := w\<rparr>, Inl x))"

text \<open>One call of a tool; the shell asks for the abort signal first.\<close>

definition abort_wanted :: "'w loop_env \<Rightarrow> 'w \<Rightarrow> bool" where
  "abort_wanted e w \<longleftrightarrow> nonempty (le_abort e w)"

definition run_tool :: "'w loop_env \<Rightarrow> tool_call \<Rightarrow> ('w agent_state, tool_result) action" where
  "run_tool e call s =
     (case dispatch ((le_tools e)\<lparr>ag_abort := abort_wanted e (as_world s)\<rparr>) (tc_name call) (tc_input call) (as_disk s) of
        (d, r) \<Rightarrow> (s\<lparr>as_disk := d\<rparr>, r))"

definition result_block :: "tool_call \<Rightarrow> tool_result \<Rightarrow> pydict" where
  "result_block call out =
     [(''type'', PStr ''tool_result''), (''tool_use_id'', PStr (tc_id call)), (''content'', PStr (tr_content out))] @
     (if tr_error out then [(''is_error'', PBool True)] else [])"

definition call_record :: "'w loop_env \<Rightarrow> tool_call \<Rightarrow> tool_result \<Rightarrow> int \<Rightarrow> pydict" where
  "call_record e call out ms =
     [(''name'', PStr (tc_name call)), (''result_chars'', PInt (int (length (le_dumps e (PDict (result_block call out)))))),
      (''ms'', PInt ms)] @
     (if tr_error out then [(''err'', PBool True)] else []) @ (if tr_truncated out then [(''trunc'', PBool True)] else [])"

record call_outcome =
  ca_block :: pyval
  ca_record :: pyval
  ca_ms :: int

definition call_step :: "'w loop_env \<Rightarrow> tool_call \<Rightarrow> ('w agent_state, call_outcome list) action" where
  "call_step e call =
     act_bind (read_clock e) (\<lambda>started.
     act_bind (run_tool e call) (\<lambda>out.
     act_bind (read_clock e) (\<lambda>ended.
     let ms = elapsed_ms started ended in
     act_bind (emit (''  ['' @ tc_name call @ ''] '' @ (if tr_error out then ''error'' else ''ok'') @ [newline])) (\<lambda>_.
       answer [\<lparr>ca_block = PDict (result_block call out), ca_record = PDict (call_record e call out ms), ca_ms = ms\<rparr>]))))"

definition use_block :: "tool_call \<Rightarrow> pyval" where
  "use_block call = PDict
     [(''type'', PStr ''tool_use''), (''id'', PStr (tc_id call)), (''name'', PStr (tc_name call)), (''input'', PDict (tc_input call))]"

definition assistant_content :: "completion \<Rightarrow> pyval list" where
  "assistant_content c =
     (if co_text c \<noteq> [] then [PDict [(''type'', PStr ''text''), (''text'', PStr (co_text c))]] else []) @ map use_block (co_calls c)"

definition turn_record :: "loop_state \<Rightarrow> completion \<Rightarrow> int \<Rightarrow> pyval list \<Rightarrow> pydict" where
  "turn_record st c ms calls =
     [(''turn'', PInt (ls_turns st + 1)), (''usage'', PDict (co_usage c)), (''stop'', pstr (co_stop c)), (''ms_model'', PInt ms),
      (''transcript_chars'', PInt (ls_transcript st)), (''tool_calls'', PList calls)]"

text \<open>The state after a completion, with the record of the turn.\<close>

definition after_completion :: "loop_state \<Rightarrow> completion \<Rightarrow> pydict \<Rightarrow> pydict \<Rightarrow> loop_state" where
  "after_completion st c usage rec =
     st\<lparr>ls_turns := ls_turns st + 1, ls_usage := usage, ls_per_turn := ls_per_turn st @ [rec], ls_honoured := co_honoured c,
        ls_text := (if co_text c \<noteq> [] then co_text c else ls_text st)\<rparr>"

definition after_tools :: "'w loop_env \<Rightarrow> completion \<Rightarrow> call_outcome list \<Rightarrow> loop_state \<Rightarrow> loop_state" where
  "after_tools e c outs st =
     (let said = PList (assistant_content c); results = PList (map ca_block outs) in
      st\<lparr>ls_messages := ls_messages st @ [[(''role'', PStr ''assistant''), (''content'', said)], [(''role'', PStr ''user''), (''content'', results)]],
         ls_transcript := ls_transcript st + int (length (le_dumps e said)) + int (length (le_dumps e results))\<rparr>)"

definition wants_tools :: "completion \<Rightarrow> bool" where
  "wants_tools c \<longleftrightarrow> co_calls c \<noteq> [] \<or> co_stop c = Some ''tool_use''"

definition take_completion :: "'w loop_env \<Rightarrow> loop_state \<Rightarrow> int \<Rightarrow> completion \<Rightarrow> ('w agent_state, loop_result + loop_state) action" where
  "take_completion e st ms c =
     act_bind (compute (\<lambda>_. sum_usage (ls_usage st) (co_usage c))) (\<lambda>usage.
     act_bind (if co_text c \<noteq> [] then emit (co_text c @ [newline]) else answer ()) (\<lambda>_.
     if \<not> wants_tools c
     then answer (Inl (finish e (after_completion st c usage (turn_record st c ms [])) None None ''completed''))
     else
       act_bind (act_each (call_step e) (co_calls c)) (\<lambda>outs.
         let rec = turn_record st c ms (map ca_record outs) @ [(''ms_tools'', PInt (sum_list (map ca_ms outs)))]
         in answer (Inr (after_tools e c outs (after_completion st c usage rec))))))"

definition turn_request :: "'w loop_env \<Rightarrow> loop_state \<Rightarrow> rat option \<Rightarrow> request" where
  "turn_request e st remaining =
     \<lparr>rq_messages = ls_messages st, rq_tools = registry_specs (le_tools e), rq_knobs = le_knobs e, rq_model = le_model e,
      rq_system = ls_system st, rq_timeout = remaining\<rparr>"

definition with_breakpoints :: "'w loop_env \<Rightarrow> loop_state \<Rightarrow> loop_state" where
  "with_breakpoints e st =
     (case apply_cache_breakpoints (cache_enabled e) (cache_ttl e) (ls_system st) (ls_messages st) of
        (system, messages) \<Rightarrow> st\<lparr>ls_system := system, ls_messages := messages\<rparr>)"

text \<open>One turn: a result ends the loop, a state goes on.\<close>

definition turn_step :: "'w loop_env \<Rightarrow> rat option \<Rightarrow> loop_state \<Rightarrow> ('w agent_state, loop_result + loop_state) action" where
  "turn_step e deadline st =
     act_bind (compute (\<lambda>s. Inr (le_abort e (as_world s)))) (\<lambda>reason.
     case reason of
       Some r \<Rightarrow> answer (Inl (finish e st None (Some r) ''aborted''))
     | None \<Rightarrow>
         act_bind (past_deadline e deadline) (\<lambda>late.
         if late then answer (Inl (finish e st None (Some ''timeout'') ''timeout''))
         else
           let st = with_breakpoints e st in
           act_bind (remaining_time e deadline) (\<lambda>remaining.
           act_bind (read_clock e) (\<lambda>started.
           act_bind (send e (turn_request e st remaining)) (\<lambda>reply.
           case reply of
             Inl m \<Rightarrow> answer (Inl (finish e st (Some m) None ''transport_error''))
           | Inr c \<Rightarrow> act_bind (read_clock e) (\<lambda>ended. take_completion e st (elapsed_ms started ended) c))))))"

definition out_of_turns :: "'w loop_env \<Rightarrow> loop_state \<Rightarrow> loop_result" where
  "out_of_turns e st =
     finish e st (Some (''reached max_turns ('' @ int_text (turn_limit e) @ '') without completing'')) None ''max_turns''"

fun turns_from :: "'w loop_env \<Rightarrow> rat option \<Rightarrow> nat \<Rightarrow> loop_state \<Rightarrow> ('w agent_state, loop_result) action" where
  "turns_from e deadline n st =
     (if ls_turns st \<ge> turn_limit e then answer (out_of_turns e st)
      else case n of
        0 \<Rightarrow> answer (out_of_turns e st)
      | Suc n \<Rightarrow>
          act_bind (turn_step e deadline st) (\<lambda>next.
          case next of Inl r \<Rightarrow> answer r | Inr st' \<Rightarrow> turns_from e deadline n st'))"

declare turns_from.simps [simp del]

definition run_loop :: "'w loop_env \<Rightarrow> ('w agent_state, loop_result) action" where
  "run_loop e = act_bind (deadline_of e) (\<lambda>deadline. turns_from e deadline (nat (turn_limit e)) (loop_start e))"

end
