(* ===== verification/Agent_Loop_Facts.thy ===== *)
theory Agent_Loop_Facts
  imports Agent_Loop
begin

text \<open>
  What the loop of the agent promises: how a run ends and what its account says, which requests the
  model ever sees, what a run can reach on the disk, and the cache markers that pile up.
\<close>

section \<open>The value of an action\<close>

text \<open>Whatever an action answers has the property; nothing is said when it raises.\<close>

definition gives :: "('a \<Rightarrow> bool) \<Rightarrow> ('s, 'a) action \<Rightarrow> bool" where
  "gives Q a \<longleftrightarrow> (\<forall>s x. snd (a s) = Inr x \<longrightarrow> Q x)"

lemma givesD: "gives Q a \<Longrightarrow> snd (a s) = Inr x \<Longrightarrow> Q x"
  by (simp add: gives_def)

lemma gives_answer [simp]: "gives Q (answer x) \<longleftrightarrow> Q x"
  by (simp add: gives_def answer_def)

lemma gives_compute: "(\<And>s x. f s = Inr x \<Longrightarrow> Q x) \<Longrightarrow> gives Q (compute f)"
  by (auto simp: gives_def compute_def)

lemma gives_bind: "gives P a \<Longrightarrow> (\<And>x. P x \<Longrightarrow> gives Q (f x)) \<Longrightarrow> gives Q (act_bind a f)"
  unfolding gives_def act_bind_def by (auto split: prod.splits sum.splits) (metis snd_conv)

lemma gives_then: "(\<And>x. gives Q (f x)) \<Longrightarrow> gives Q (act_bind a f)"
  by (rule gives_bind [of "\<lambda>_. True"]) (simp_all add: gives_def)

lemma gives_True [simp]: "gives (\<lambda>_. True) a"
  by (simp add: gives_def)

lemma gives_each: "(\<And>x. x \<in> set xs \<Longrightarrow> gives (\<lambda>ys. map g ys = [h x]) (f x)) \<Longrightarrow>
    gives (\<lambda>ys. map g ys = map h xs) (act_each f xs)"
proof (induction xs)
  case (Cons x xs)
  have "gives (\<lambda>ys. map g ys = map h (x # xs)) (act_bind (f x) (\<lambda>ys. act_bind (act_each f xs) (\<lambda>zs. answer (ys @ zs))))"
    by (rule gives_bind [OF Cons.prems], simp, rule gives_bind [OF Cons.IH]) (use Cons.prems in auto)
  then show ?case by simp
qed simp

section \<open>The account\<close>

definition tokens_in :: "pydict \<Rightarrow> string \<Rightarrow> int" where
  "tokens_in u k = (case int_of (pget u k) of Inr v \<Rightarrow> v | Inl _ \<Rightarrow> 0)"

definition turn_tokens :: "pydict \<Rightarrow> string \<Rightarrow> int" where
  "turn_tokens rec k = (case dget rec ''usage'' of Some (PDict u) \<Rightarrow> tokens_in u k | _ \<Rightarrow> 0)"

definition account :: "int \<Rightarrow> pydict \<Rightarrow> pydict list \<Rightarrow> bool" where
  "account turns usage recs \<longleftrightarrow>
     map (\<lambda>rec. dget rec ''turn'') recs = map (\<lambda>k. Some (PInt (int k + 1))) [0..<nat turns] \<and> turns \<ge> 0 \<and>
     (\<forall>k \<in> set USAGE_KEYS. count_at usage k = (\<Sum>rec\<leftarrow>recs. turn_tokens rec k))"

lemma sum_keys_counts:
  assumes "sum_keys ks acc u = Inr acc'" "distinct ks"
  shows "count_at acc' k = count_at acc k + (if k \<in> set ks then tokens_in u k else 0)"
  using assms
proof (induction ks arbitrary: acc)
  case (Cons k' ks)
  show ?case
  proof (cases "pget u k' = PNone")
    case True
    then show ?thesis
      using Cons by (auto simp: tokens_in_def)
  next
    case False
    then obtain v where v: "int_of (pget u k') = Inr v"
        "sum_keys ks (dset acc k' (PInt (count_at acc k' + v))) u = Inr acc'"
      using Cons.prems(1) by (auto simp: bind_result_eq_Inr_iff simp del: count_at.simps)
    have "count_at (dset acc k' (PInt n)) k = (if k = k' then n else count_at acc k)" for n
      by simp
    then show ?thesis
      using Cons.IH [OF v(2)] Cons.prems(2) v(1) by (auto simp: tokens_in_def simp del: count_at.simps)
  qed
qed simp

lemma account_step:
  assumes "account turns usage recs" "sum_usage usage u = Inr usage'"
    and "dget rec ''turn'' = Some (PInt (turns + 1))" "dget rec ''usage'' = Some (PDict u)"
  shows "account (turns + 1) usage' (recs @ [rec])"
proof -
  have "nat (turns + 1) = Suc (nat turns)" "int (nat turns) = turns"
    using assms(1) by (auto simp: account_def)
  moreover have "count_at usage' k = count_at usage k + tokens_in u k" if "k \<in> set USAGE_KEYS" for k
    using sum_keys_counts [OF assms(2) [unfolded sum_usage_def], of k] that by (simp add: USAGE_KEYS_def del: count_at.simps)
  ultimately show ?thesis
    using assms by (simp add: account_def turn_tokens_def del: count_at.simps)
qed

section \<open>How a run ends\<close>

definition state_account :: "loop_state \<Rightarrow> bool" where
  "state_account st \<longleftrightarrow> account (ls_turns st) (ls_usage st) (ls_per_turn st)"

definition honest_exit :: "'w loop_env \<Rightarrow> loop_result \<Rightarrow> bool" where
  "honest_exit e r \<longleftrightarrow>
     (lr_exit r = ''completed'' \<and> lr_error r = None \<and> lr_aborted r = None \<and> 1 \<le> lr_turns r \<and> lr_turns r \<le> turn_limit e) \<or>
     (lr_exit r = ''max_turns'' \<and> lr_error r \<noteq> None \<and> lr_aborted r = None \<and> lr_turns r = max 0 (turn_limit e)) \<or>
     (lr_exit r = ''timeout'' \<and> lr_error r = None \<and> lr_aborted r = Some ''timeout'' \<and> lr_turns r < turn_limit e \<and>
        (\<exists>t. le_timeout e = Some t \<and> t > 0)) \<or>
     (lr_exit r = ''aborted'' \<and> lr_error r = None \<and> lr_aborted r \<noteq> None \<and> lr_turns r < turn_limit e) \<or>
     (lr_exit r = ''transport_error'' \<and> lr_error r \<noteq> None \<and> lr_aborted r = None \<and> lr_turns r < turn_limit e)"

definition good_result :: "'w loop_env \<Rightarrow> loop_result \<Rightarrow> bool" where
  "good_result e r \<longleftrightarrow> honest_exit e r \<and> account (lr_turns r) (lr_usage r) (lr_per_turn r)"

text \<open>What one turn leaves: a result that is good, or a state one turn further.\<close>

definition good_step :: "'w loop_env \<Rightarrow> int \<Rightarrow> loop_result + loop_state \<Rightarrow> bool" where
  "good_step e n x = (case x of Inl r \<Rightarrow> good_result e r | Inr st' \<Rightarrow> state_account st' \<and> ls_turns st' = n + 1)"

lemma finish_fields [simp]:
  "lr_turns (finish e st er ab ex) = ls_turns st" "lr_error (finish e st er ab ex) = er"
  "lr_aborted (finish e st er ab ex) = ab" "lr_exit (finish e st er ab ex) = ex"
  "lr_usage (finish e st er ab ex) = ls_usage st" "lr_per_turn (finish e st er ab ex) = ls_per_turn st"
  by (simp_all add: finish_def)

lemma after_completion_fields [simp]:
  "ls_turns (after_completion st c u rec) = ls_turns st + 1" "ls_usage (after_completion st c u rec) = u"
  "ls_per_turn (after_completion st c u rec) = ls_per_turn st @ [rec]"
  "ls_messages (after_completion st c u rec) = ls_messages st" "ls_system (after_completion st c u rec) = ls_system st"
  by (simp_all add: after_completion_def)

lemma after_tools_fields [simp]:
  "ls_turns (after_tools e c outs st) = ls_turns st" "ls_usage (after_tools e c outs st) = ls_usage st"
  "ls_per_turn (after_tools e c outs st) = ls_per_turn st" "ls_system (after_tools e c outs st) = ls_system st"
  by (simp_all add: after_tools_def Let_def)

lemma with_breakpoints_fields [simp]:
  "ls_turns (with_breakpoints e st) = ls_turns st" "ls_usage (with_breakpoints e st) = ls_usage st"
  "ls_per_turn (with_breakpoints e st) = ls_per_turn st"
  by (simp_all add: with_breakpoints_def split: prod.split)

lemma turn_record_keys:
  "dget (turn_record st c ms calls @ rest) ''turn'' = Some (PInt (ls_turns st + 1))"
  "dget (turn_record st c ms calls @ rest) ''usage'' = Some (PDict (co_usage c))"
  by (simp_all add: turn_record_def)

lemma account_nonneg: "account n u recs \<Longrightarrow> 0 \<le> n"
  by (simp add: account_def)

lemma good_take:
  assumes "state_account st" "ls_turns st < turn_limit e"
  shows "gives (good_step e (ls_turns st)) (take_completion e st ms c)"
proof -
  have step: "account (ls_turns st + 1) usage (ls_per_turn st @ [turn_record st c ms calls @ rest])"
    if "sum_usage (ls_usage st) (co_usage c) = Inr usage" for usage calls rest
    using account_step [OF assms(1) [unfolded state_account_def] that turn_record_keys] .
  show ?thesis
    unfolding take_completion_def Let_def
  proof (rule gives_bind [OF gives_compute [of _ "\<lambda>u. sum_usage (ls_usage st) (co_usage c) = Inr u"]])
    fix usage
    assume usage: "sum_usage (ls_usage st) (co_usage c) = Inr usage"
    have "good_step e (ls_turns st) (Inl (finish e (after_completion st c usage (turn_record st c ms [])) None None ''completed''))"
      using step [OF usage, of "[]" "[]"] assms account_nonneg
      by (auto simp: good_step_def good_result_def honest_exit_def state_account_def)
    then show "gives (good_step e (ls_turns st))
        (act_bind (if co_text c \<noteq> [] then emit (co_text c @ [newline]) else answer ())
          (\<lambda>_. if \<not> wants_tools c
            then answer (Inl (finish e (after_completion st c usage (turn_record st c ms [])) None None ''completed''))
            else act_bind (act_each (call_step e) (co_calls c))
              (\<lambda>outs. answer (Inr (after_tools e c outs
                (after_completion st c usage (turn_record st c ms (map ca_record outs) @ [(''ms_tools'', PInt (sum_list (map ca_ms outs)))])))))))"
      using step [OF usage]
      by (auto intro!: gives_then simp: good_step_def state_account_def)
  qed
qed

lemma good_turn:
  assumes "state_account st" "ls_turns st < turn_limit e" "deadline \<noteq> None \<Longrightarrow> \<exists>t. le_timeout e = Some t \<and> t > 0"
  shows "gives (good_step e (ls_turns st)) (turn_step e deadline st)"
proof -
  have late: "gives (\<lambda>late. late \<longrightarrow> deadline \<noteq> None) (past_deadline e deadline)"
    by (cases deadline) (auto simp: past_deadline_def)
  have ends: "good_step e (ls_turns st) (Inl (finish e st None (Some r) ''aborted''))"
      "deadline \<noteq> None \<Longrightarrow> good_step e (ls_turns st) (Inl (finish e st None (Some ''timeout'') ''timeout''))"
      "good_step e (ls_turns st) (Inl (finish e (with_breakpoints e st) (Some m) None ''transport_error''))" for r m
    using assms by (auto simp: good_step_def good_result_def honest_exit_def state_account_def)
  have take: "gives (good_step e (ls_turns st)) (take_completion e (with_breakpoints e st) ms c)" for ms c
    using good_take [of "with_breakpoints e st" e ms c] assms by (simp add: state_account_def)
  have asks: "gives (good_step e (ls_turns st))
      (act_bind (remaining_time e deadline) (\<lambda>remaining.
       act_bind (read_clock e) (\<lambda>started.
       act_bind (send e (turn_request e (with_breakpoints e st) remaining)) (\<lambda>reply.
         case reply of
           Inl m \<Rightarrow> answer (Inl (finish e (with_breakpoints e st) (Some m) None ''transport_error''))
         | Inr c \<Rightarrow> act_bind (read_clock e) (\<lambda>ended. take_completion e (with_breakpoints e st) (elapsed_ms started ended) c)))))"
    by (auto simp: ends intro!: gives_then take split: sum.split)
  have in_time: "gives (good_step e (ls_turns st))
      (act_bind (past_deadline e deadline)
        (\<lambda>late. if late then answer (Inl (finish e st None (Some ''timeout'') ''timeout'')) else act))"
    if "gives (good_step e (ls_turns st)) act" for act
    by (rule gives_bind [OF late]) (use that ends(2) in auto)
  show ?thesis
    unfolding turn_step_def Let_def
    by (rule gives_then) (auto simp: ends(1) in_time asks split: option.split)
qed

lemma good_turns:
  assumes "state_account st" "nat (turn_limit e - ls_turns st) \<le> n" "ls_turns st \<le> max 0 (turn_limit e)"
    and "deadline \<noteq> None \<Longrightarrow> \<exists>t. le_timeout e = Some t \<and> t > 0"
  shows "gives (good_result e) (turns_from e deadline n st)"
  using assms
proof (induction n arbitrary: st)
  case 0
  moreover have "0 \<le> ls_turns st"
    using 0(1) account_nonneg by (simp add: state_account_def)
  ultimately show ?case
    by (auto simp: turns_from.simps out_of_turns_def good_result_def honest_exit_def state_account_def)
next
  case (Suc n)
  show ?case
  proof (cases "ls_turns st \<ge> turn_limit e")
    case True
    moreover have "0 \<le> ls_turns st"
      using Suc.prems(1) account_nonneg by (simp add: state_account_def)
    ultimately show ?thesis
      using Suc.prems by (auto simp: turns_from.simps out_of_turns_def good_result_def honest_exit_def state_account_def)
  next
    case False
    have go_on: "gives (good_result e) (case x of Inl r \<Rightarrow> answer r | Inr st' \<Rightarrow> turns_from e deadline n st')"
      if "good_step e (ls_turns st) x" for x
      using that Suc.IH Suc.prems False by (cases x) (auto simp: good_step_def)
    show ?thesis
      using False Suc.prems by (subst turns_from.simps) (auto intro!: gives_bind [OF good_turn] go_on)
  qed
qed

lemma start_account: "state_account (loop_start e)"
  by (simp add: state_account_def loop_start_def account_def)

lemma deadline_given: "gives (\<lambda>d. d \<noteq> None \<longrightarrow> (\<exists>t. le_timeout e = Some t \<and> t > 0)) (deadline_of e)"
  by (auto simp: deadline_of_def intro!: gives_then split: option.split)

text \<open>
  C11: a run of the agent ends, whatever the model answers, within its limit of turns, and says
  honestly how: completed after a turn of the model without error, stopped by the limit exactly when
  every turn of it was used, stopped by the time given, by the abort signal, or by a failure of the
  transport. Its account has one record per turn, numbered in order, and its token counts are the
  sums over those records.
\<close>

theorem loop_ends_honestly:
  assumes "snd (run_loop e s) = Inr r"
  shows "honest_exit e r \<and> account (lr_turns r) (lr_usage r) (lr_per_turn r)"
proof -
  have "gives (good_result e) (run_loop e)"
    unfolding run_loop_def
    by (rule gives_bind [OF deadline_given], rule good_turns [OF start_account]) (simp_all add: loop_start_def)
  from givesD [OF this assms] show ?thesis
    by (simp add: good_result_def)
qed

section \<open>What a run can reach\<close>

lemma same_outside_abort [simp]: "same_outside (t\<lparr>ag_abort := b\<rparr>) = same_outside t"
  by (intro ext) (simp add: same_outside_def reachable_file_def)

text \<open>Without the shell and without ripgrep no tool runs a program.\<close>

definition runs_nothing :: "agent_env \<Rightarrow> bool" where
  "runs_nothing t \<longleftrightarrow> ''run_bash'' \<notin> set (ag_enabled t) \<and> (''grep'' \<notin> set (ag_enabled t) \<or> ag_rg t = None)"

lemma keeps_tool:
  assumes "runs_nothing (le_tools e)"
  shows "keeps (\<lambda>s. same_outside (le_tools e) d0 (as_disk s)) (run_tool e call)"
  using same_dispatch [of "tc_name call" "(le_tools e)\<lparr>ag_abort := b\<rparr>" "tc_input call" d0 for b] assms
  by (auto simp: runs_nothing_def keeps_def run_tool_def split: prod.split) (metis fst_conv)+

lemma keeps_clock: "keeps (\<lambda>s. P (as_disk s)) (read_clock e)"
  by (simp add: keeps_def read_clock_def split: prod.split)

lemma keeps_send: "keeps (\<lambda>s. P (as_disk s)) (send e q)"
  by (auto simp: keeps_def send_def split: prod.split sum.split py_error.split)

lemma keeps_log: "keeps (\<lambda>s. P (as_disk s)) (emit l)"
  by (simp add: emit_def keeps_def change_def)

lemma keeps_turn:
  assumes "runs_nothing (le_tools e)"
  shows "keeps (\<lambda>s. same_outside (le_tools e) d0 (as_disk s)) (turn_step e deadline st)"
proof -
  let ?P = "\<lambda>s. same_outside (le_tools e) d0 (as_disk s)"
  note rules = keeps_rules keeps_clock keeps_send keeps_log keeps_tool [OF assms]
  have clocks: "keeps ?P (past_deadline e deadline)" "keeps ?P (remaining_time e deadline)"
    by (auto simp: past_deadline_def remaining_time_def intro!: rules split: option.split)
  have "keeps ?P (call_step e call)" for call
    unfolding call_step_def Let_def by (intro rules)
  then have "keeps ?P (take_completion e st ms c)" for st ms c
    unfolding take_completion_def Let_def by (auto intro!: rules)
  then show ?thesis
    unfolding turn_step_def Let_def by (auto intro!: rules clocks split: option.split sum.split)
qed

lemma keeps_turns:
  assumes "runs_nothing (le_tools e)"
  shows "keeps (\<lambda>s. same_outside (le_tools e) d0 (as_disk s)) (turns_from e deadline n st)"
proof (induction n arbitrary: st)
  case 0
  show ?case by (subst turns_from.simps) (auto intro: keeps_rules)
next
  case (Suc n)
  show ?case
    by (subst turns_from.simps) (auto intro!: keeps_rules keeps_turn [OF assms] Suc.IH split: sum.split)
qed

text \<open>A run without the shell and without ripgrep leaves each file outside the sandbox as it was, whatever the model does.\<close>

lemma loop_stays_in_sandbox:
  assumes "runs_nothing (le_tools e)" "ag_resolve (le_tools e) (ag_root (le_tools e)) = Inr r" "\<not> below r p"
  shows "file_at (as_disk (fst (run_loop e s))) p = file_at (as_disk s) p"
proof -
  have "keeps (\<lambda>s'. same_outside (le_tools e) (as_disk s) (as_disk s')) (run_loop e)"
    unfolding run_loop_def deadline_of_def
    by (intro keeps_bind keeps_turns assms) (auto intro!: keeps_rules keeps_clock split: option.split)
  then show ?thesis
    using assms by (auto simp: keeps_def same_outside_def reachable_file_def)
qed

section \<open>The requests of a run\<close>

definition block_ids :: "string \<Rightarrow> string \<Rightarrow> pydict \<Rightarrow> pyval list" where
  "block_ids kind key m =
     (case dget m ''content'' of
        Some (PList blocks) \<Rightarrow>
          concat (map (\<lambda>b. case b of PDict d \<Rightarrow> if dget d ''type'' = Some (PStr kind) then [pget d key] else [] | _ \<Rightarrow> []) blocks)
      | _ \<Rightarrow> [])"

text \<open>Each turn of the model is followed by the results of its calls, in their order and no others.\<close>

fun paired :: "pydict list \<Rightarrow> bool" where
  "paired [] \<longleftrightarrow> True"
| "paired [m] \<longleftrightarrow> False"
| "paired (a # u # ms) \<longleftrightarrow>
     dget a ''role'' = Some (PStr ''assistant'') \<and> dget u ''role'' = Some (PStr ''user'') \<and>
     block_ids ''tool_use'' ''id'' a = block_ids ''tool_result'' ''tool_use_id'' u \<and> paired ms"

definition brief_message :: "'w loop_env \<Rightarrow> pydict" where
  "brief_message e = [(''role'', PStr ''user''), (''content'', PStr (le_brief e))]"

definition stable_system :: "'w loop_env \<Rightarrow> pydict list" where
  "stable_system e =
     [[(''type'', PStr ''text''), (''text'', PStr (le_charter e))] @
      (if cache_enabled e then [(''cache_control'', cache_control (cache_ttl e))] else [])]"

definition good_request :: "'w loop_env \<Rightarrow> request \<Rightarrow> bool" where
  "good_request e q \<longleftrightarrow>
     rq_tools q = registry_specs (le_tools e) \<and> rq_system q = stable_system e \<and> rq_model q = le_model e \<and>
     rq_knobs q = le_knobs e \<and> (\<exists>ms. rq_messages q = brief_message e # ms \<and> paired ms)"

definition conversation :: "'w loop_env \<Rightarrow> loop_state \<Rightarrow> bool" where
  "conversation e st \<longleftrightarrow>
     (ls_system st = stable_system e \<or> ls_system st = ls_system (loop_start e)) \<and>
     (\<exists>ms. ls_messages st = brief_message e # ms \<and> paired ms)"

lemma set_last_Cons: "set_last f (x # xs) = (if xs = [] then [f x] else x # set_last f xs)"
  by (simp add: set_last_def)

lemma block_ids_mark:
  assumes "key \<noteq> ''cache_control''"
  shows "block_ids kind key (mark_message ttl m) = block_ids kind key m"
proof -
  define ids where "ids = (\<lambda>b. case b of PDict d \<Rightarrow> if dget d ''type'' = Some (PStr kind) then [pget d key] else [] | _ \<Rightarrow> [])"
  have "ids (mark_block ttl b) = ids b" for b
    using assms by (cases b) (auto simp: ids_def pget_def)
  then have "concat (map ids (set_last (mark_block ttl) bs)) = concat (map ids bs)" for bs
    by (induction bs) (auto simp: set_last_Cons set_last_def [of _ "[]"])
  then show ?thesis
    by (auto simp: block_ids_def mark_message_def ids_def split: option.split pyval.split)
qed

lemma role_mark: "dget (mark_message ttl m) ''role'' = dget m ''role''"
  by (auto simp: mark_message_def split: option.split pyval.split)

lemma paired_mark: "paired (set_last (mark_message ttl) ms) = paired ms"
  by (induction ms rule: paired.induct)
    (auto simp: set_last_Cons set_last_def [of _ "[]"] role_mark block_ids_mark)

lemma breakpoints_conversation:
  assumes "conversation e st"
  shows "conversation e (with_breakpoints e st)" "ls_system (with_breakpoints e st) = stable_system e"
proof -
  obtain ms where ms: "ls_messages st = brief_message e # ms" "paired ms"
    using assms by (auto simp: conversation_def)
  have "mark_message t (brief_message e) = brief_message e" for t
    by (simp add: mark_message_def brief_message_def)
  then have "\<exists>ms. ls_messages (with_breakpoints e st) = brief_message e # ms \<and> paired ms"
    using ms by (auto simp: with_breakpoints_def apply_cache_breakpoints_def set_last_Cons paired_mark)
  moreover show "ls_system (with_breakpoints e st) = stable_system e"
    using assms
    by (auto simp: conversation_def with_breakpoints_def apply_cache_breakpoints_def stable_system_def loop_start_def set_last_def)
  ultimately show "conversation e (with_breakpoints e st)"
    by (simp add: conversation_def)
qed

lemma good_turn_request: "conversation e st \<Longrightarrow> good_request e (turn_request e (with_breakpoints e st) remaining)"
  using breakpoints_conversation [of e st] by (simp add: good_request_def turn_request_def conversation_def)

lemma call_blocks: "gives (\<lambda>outs. map (\<lambda>out. block_ids ''tool_result'' ''tool_use_id'' [(''content'', PList [ca_block out])]) outs =
    map (\<lambda>c. [PStr (tc_id c)]) calls) (act_each (call_step e) calls)"
  by (rule gives_each) (auto simp: call_step_def Let_def block_ids_def result_block_def pget_def dget_or_def intro!: gives_then)

lemma block_ids_single:
  "block_ids kind key [(''role'', r), (''content'', PList bs)] = concat (map (\<lambda>b. block_ids kind key [(''content'', PList [b])]) bs)"
  by (simp add: block_ids_def)

lemma use_ids: "block_ids ''tool_use'' ''id'' [(''role'', r), (''content'', PList (assistant_content c))] = map (\<lambda>c. PStr (tc_id c)) (co_calls c)"
  by (simp add: block_ids_single assistant_content_def block_ids_def use_block_def pget_def dget_or_def comp_def)

lemma paired_append: "paired ms \<Longrightarrow> paired rest \<Longrightarrow> paired (ms @ rest)"
  by (induction ms rule: paired.induct) auto

lemma tools_conversation:
  assumes "conversation e st"
    and "map (\<lambda>out. block_ids ''tool_result'' ''tool_use_id'' [(''content'', PList [ca_block out])]) outs = map (\<lambda>c. [PStr (tc_id c)]) (co_calls c)"
  shows "conversation e (after_tools e c outs (after_completion st c u rec))"
proof -
  have "block_ids ''tool_result'' ''tool_use_id'' [(''role'', PStr ''user''), (''content'', PList (map ca_block outs))] =
      concat (map (\<lambda>out. block_ids ''tool_result'' ''tool_use_id'' [(''content'', PList [ca_block out])]) outs)"
    by (simp add: block_ids_single comp_def)
  then have "paired [[(''role'', PStr ''assistant''), (''content'', PList (assistant_content c))],
      [(''role'', PStr ''user''), (''content'', PList (map ca_block outs))]]"
    unfolding assms(2) by (simp add: use_ids)
  then show ?thesis
    using assms(1) paired_append
    by (fastforce simp: conversation_def after_tools_def Let_def after_completion_def)
qed

definition conversing :: "'w loop_env \<Rightarrow> loop_result + loop_state \<Rightarrow> bool" where
  "conversing e x = (case x of Inl _ \<Rightarrow> True | Inr st \<Rightarrow> conversation e st)"

lemma conversing_take: "conversation e st \<Longrightarrow> gives (conversing e) (take_completion e st ms c)"
  unfolding take_completion_def Let_def
  by (auto intro!: gives_then gives_bind [OF call_blocks] simp: conversing_def tools_conversation)

lemma conversing_turn:
  assumes "conversation e st"
  shows "gives (conversing e) (turn_step e deadline st)"
proof -
  have ended: "conversing e (Inl r)" for r
    by (simp add: conversing_def)
  show ?thesis
    unfolding turn_step_def Let_def
    by (intro gives_then)
      (auto simp: ended intro!: gives_then conversing_take breakpoints_conversation(1) [OF assms] split: option.split sum.split)
qed

lemma bind_same: "gives P a \<Longrightarrow> (\<And>x. P x \<Longrightarrow> f x = g x) \<Longrightarrow> act_bind a f = act_bind a g"
  by (intro ext) (auto simp: act_bind_def gives_def split: prod.split sum.split dest: arg_cong [of _ _ snd])

text \<open>A run with another model behind the transport: everything but the completions is the same.\<close>

lemma other_transport [simp]:
  shows "turn_limit (e\<lparr>le_complete := t\<rparr>) = turn_limit e" "loop_start (e\<lparr>le_complete := t\<rparr>) = loop_start e" "deadline_of (e\<lparr>le_complete := t\<rparr>) = deadline_of e"
    "past_deadline (e\<lparr>le_complete := t\<rparr>) = past_deadline e" "remaining_time (e\<lparr>le_complete := t\<rparr>) = remaining_time e" "read_clock (e\<lparr>le_complete := t\<rparr>) = read_clock e"
    "take_completion (e\<lparr>le_complete := t\<rparr>) = take_completion e" "finish (e\<lparr>le_complete := t\<rparr>) = finish e" "with_breakpoints (e\<lparr>le_complete := t\<rparr>) = with_breakpoints e"
    "turn_request (e\<lparr>le_complete := t\<rparr>) = turn_request e" "out_of_turns (e\<lparr>le_complete := t\<rparr>) = out_of_turns e"
proof -
  show clock: "read_clock (e\<lparr>le_complete := t\<rparr>) = read_clock e" and fin: "finish (e\<lparr>le_complete := t\<rparr>) = finish e"
    by (intro ext; simp add: read_clock_def finish_def)+
  show lim: "turn_limit (e\<lparr>le_complete := t\<rparr>) = turn_limit e"
    by (simp add: turn_limit_def)
  show "deadline_of (e\<lparr>le_complete := t\<rparr>) = deadline_of e" "loop_start (e\<lparr>le_complete := t\<rparr>) = loop_start e"
    by (simp_all add: deadline_of_def loop_start_def clock cong: option.case_cong if_cong)
  show "past_deadline (e\<lparr>le_complete := t\<rparr>) = past_deadline e" "remaining_time (e\<lparr>le_complete := t\<rparr>) = remaining_time e"
      "out_of_turns (e\<lparr>le_complete := t\<rparr>) = out_of_turns e"
    by (intro ext; simp add: past_deadline_def remaining_time_def out_of_turns_def clock fin lim cong: option.case_cong if_cong)+
  have tools: "run_tool (e\<lparr>le_complete := t\<rparr>) = run_tool e" "call_record (e\<lparr>le_complete := t\<rparr>) = call_record e"
      "after_tools (e\<lparr>le_complete := t\<rparr>) = after_tools e"
    by (intro ext; simp add: run_tool_def abort_wanted_def call_record_def after_tools_def)+
  have "call_step (e\<lparr>le_complete := t\<rparr>) = call_step e"
    by (intro ext) (simp add: call_step_def clock tools)
  then show "take_completion (e\<lparr>le_complete := t\<rparr>) = take_completion e"
    by (intro ext) (simp add: take_completion_def fin tools cong: if_cong)
  show "with_breakpoints (e\<lparr>le_complete := t\<rparr>) = with_breakpoints e" "turn_request (e\<lparr>le_complete := t\<rparr>) = turn_request e"
    by (intro ext; simp add: with_breakpoints_def cache_enabled_def cache_ttl_def turn_request_def)+
qed

lemma other_turn:
  assumes "\<And>q w. good_request e q \<Longrightarrow> t q w = le_complete e q w" "conversation e st"
  shows "turn_step (e\<lparr>le_complete := t\<rparr>) deadline st = turn_step e deadline st"
proof -
  have "send (e\<lparr>le_complete := t\<rparr>) (turn_request e (with_breakpoints e st) remaining) =
      send e (turn_request e (with_breakpoints e st) remaining)" for remaining
    by (intro ext) (simp add: send_def assms(1) [OF good_turn_request [OF assms(2)]])
  then show ?thesis
    by (simp add: turn_step_def cong: option.case_cong sum.case_cong if_cong)
qed

lemma other_turns:
  assumes "\<And>q w. good_request e q \<Longrightarrow> t q w = le_complete e q w" "conversation e st"
  shows "turns_from (e\<lparr>le_complete := t\<rparr>) deadline n st = turns_from e deadline n st"
  using assms(2)
proof (induction n arbitrary: st)
  case 0
  show ?case by (simp add: turns_from.simps)
next
  case (Suc n)
  have "act_bind (turn_step e deadline st) (\<lambda>next. case next of Inl r \<Rightarrow> answer r | Inr st' \<Rightarrow> turns_from (e\<lparr>le_complete := t\<rparr>) deadline n st')
      = act_bind (turn_step e deadline st) (\<lambda>next. case next of Inl r \<Rightarrow> answer r | Inr st' \<Rightarrow> turns_from e deadline n st')"
    by (rule bind_same [OF conversing_turn [OF Suc.prems]]) (auto simp: conversing_def Suc.IH split: sum.split)
  then show ?case
    by (simp add: turns_from.simps other_turn [OF assms(1) Suc.prems])
qed

lemma start_conversation: "conversation e (loop_start e)"
  by (simp add: conversation_def loop_start_def brief_message_def)

text \<open>
  C13: every request of a run is well formed, so a model that differs only in what it would answer to
  other requests makes no difference. Each request carries the same tool definitions and the same
  system prompt, byte for byte, and the conversation is the brief followed by turns of the model,
  each with one result for each call it made, under the same id and in the same order.
\<close>

theorem requests_well_formed:
  assumes "\<And>q w. good_request e q \<Longrightarrow> t q w = le_complete e q w"
  shows "run_loop (e\<lparr>le_complete := t\<rparr>) s = run_loop e s"
  using other_turns [OF assms start_conversation] by (simp add: run_loop_def)

section \<open>A run answers\<close>

text \<open>An action that answers in every state, with a value of the given kind.\<close>

definition returns :: "('a \<Rightarrow> bool) \<Rightarrow> ('s, 'a) action \<Rightarrow> bool" where
  "returns Q a \<longleftrightarrow> (\<forall>s. \<exists>x. snd (a s) = Inr x \<and> Q x)"

lemma returns_answer [simp]: "returns Q (answer x) \<longleftrightarrow> Q x"
  by (simp add: returns_def answer_def)















section \<open>Sample runs\<close>

definition sample_reply :: completion where
  "sample_reply =
     \<lparr>co_text = ''done'', co_calls = [], co_usage = [(''input_tokens'', PInt 3)], co_stop = Some ''end_turn'', co_honoured = []\<rparr>"

definition sample_loop :: "unit loop_env" where
  "sample_loop =
     \<lparr>le_tools = sample_tools, le_charter = ''c'', le_brief = ''b'', le_model = ''anthropic/m'', le_knobs = [],
      le_max_turns = None, le_timeout = None, le_abort = (\<lambda>_. None), le_clock = (\<lambda>w. (w, 0)),
      le_complete = (\<lambda>_ w. (w, Inr sample_reply)), le_dumps = (\<lambda>_. []), le_dumps_sorted = (\<lambda>_. [])\<rparr>"

definition sample_start :: "unit agent_state" where
  "sample_start = \<lparr>as_world = (), as_disk = sample_disk, as_log = []\<rparr>"



definition sample_result :: loop_result where
  "sample_result =
     \<lparr>lr_turns = 1, lr_text = ''done'', lr_error = None, lr_aborted = None, lr_exit = ''completed'',
      lr_usage = [(''input_tokens'', PInt 3)],
      lr_per_turn = [turn_record (loop_start sample_loop) sample_reply 0 []],
      lr_prompt_chars = [(''system'', PInt 1), (''brief'', PInt 1)], lr_honoured = []\<rparr>"

lemma sample_run: "snd (run_loop sample_loop sample_start) = Inr sample_result"
  by code_simp

theorem loop_ends_honestly_witness:
  "honest_exit sample_loop sample_result \<and> account 1 [(''input_tokens'', PInt 3)] [turn_record (loop_start sample_loop) sample_reply 0 []]"
  using loop_ends_honestly [OF sample_run] by (simp add: sample_result_def)

theorem requests_well_formed_witness:
  "run_loop (sample_loop\<lparr>le_complete := \<lambda>q w. if rq_messages q = [] then (w, Inl TypeError) else (w, Inr sample_reply)\<rparr>) sample_start =
   run_loop sample_loop sample_start"
  by (rule requests_well_formed) (auto simp: good_request_def sample_loop_def)

section \<open>Cache markers pile up\<close>

text \<open>The markers a request carries.\<close>

definition markers :: "request \<Rightarrow> nat" where
  "markers q =
     length (filter (\<lambda>b. dhas b ''cache_control'') (rq_system q)) +
     length (filter (\<lambda>b. case b of PDict d \<Rightarrow> dhas d ''cache_control'' | _ \<Rightarrow> False)
       (concat (map (\<lambda>m. case dget m ''content'' of Some (PList bs) \<Rightarrow> bs | _ \<Rightarrow> []) (rq_messages q))))"

text \<open>A model that asks for a tool on every turn (none is enabled), behind an interface that takes four markers.\<close>

definition curious_reply :: completion where
  "curious_reply =
     \<lparr>co_text = [], co_calls = [\<lparr>tc_id = ''t'', tc_name = ''list_dir'', tc_input = []\<rparr>], co_usage = [],
      co_stop = Some ''tool_use'', co_honoured = []\<rparr>"

definition curious_loop :: "unit loop_env" where
  "curious_loop = sample_loop
     \<lparr>le_tools := sample_tools\<lparr>ag_enabled := []\<rparr>, le_complete := \<lambda>q w. (w, if markers q > MAX_CACHE_BREAKPOINTS then Inl (TransportError ''too many markers'') else Inr curious_reply)\<rparr>"

text \<open>The marker of a turn is never taken back: the fifth request has five and the run fails.\<close>

lemma markers_exceed_the_maximum:
  "map_sum id (\<lambda>r. (lr_turns r, lr_exit r, lr_error r)) (snd (run_loop curious_loop sample_start)) =
     Inr (4, ''transport_error'', Some ''too many markers'')"
  by code_simp

end
