(* ===== verification/Settings_Registry.thy ===== *)
theory Settings_Registry
  imports Models
begin

text \<open>
  The fields of the settings: what the configuration classes declare
  (\<^verbatim>\<open>src/nightshift/config/manager.py\<close>, \<^verbatim>\<open>worker.py\<close>, \<^verbatim>\<open>player.py\<close>) and the registry that
  \<^verbatim>\<open>registry.py\<close> derives from them. Labels, descriptions and categories are left out.
\<close>

section \<open>Declarations\<close>

datatype setting_type =
    FT_STRING | FT_INT | FT_FLOAT | FT_BOOL | FT_ENUM | FT_DURATION | FT_SI_INT
  | FT_STRING_LIST | FT_INT_LIST | FT_REGEX_LIST | FT_STR_MAP

datatype store_file = SF_MANAGER | SF_WORKER | SF_PLAYER | SF_ENV

text \<open>The annotation of a field, and what \<open>meta(...)\<close> attaches to it.\<close>

datatype annotation =
    Ann_Bool | Ann_Int | Ann_Float | Ann_Str | Ann_Optional annotation | Ann_Tuple | Ann_List | Ann_Dict | Ann_Other

record field_meta =
  fm_apply :: string
  fm_type :: "setting_type option"
  fm_options :: "string list option"
  fm_secret :: bool
  fm_env :: "string option"
  fm_editable :: bool
  fm_json_key :: "string option"
  fm_validate :: "string option"

definition plain_meta :: field_meta where
  "plain_meta =
     \<lparr>fm_apply = ''next-task'', fm_type = None, fm_options = None, fm_secret = False, fm_env = None,
      fm_editable = True, fm_json_key = None, fm_validate = None\<rparr>"

text \<open>A field of a class: a value with its default, or a class of its own (flattened or not).\<close>

datatype field_decl =
    Field string annotation pyval field_meta
  | Nested string bool "field_decl list"

definition DEFAULT_CLAUDE_BILLING :: string where "DEFAULT_CLAUDE_BILLING = ''auto''"
definition DEFAULT_AUTO_MODEL :: string where "DEFAULT_AUTO_MODEL = ''claude-code/claude-sonnet-4-6''"
definition DEFAULT_MAX_MODEL :: string where "DEFAULT_MAX_MODEL = ''claude-code/claude-opus-4-8''"

definition cadences_decls :: "field_decl list" where
  "cadences_decls =
    [Field ''poll_seconds'' Ann_Float (PFloat 5) (plain_meta\<lparr>fm_apply := ''restart''\<rparr>),
     Field ''heartbeat_seconds'' Ann_Float (PFloat 10) (plain_meta\<lparr>fm_apply := ''restart''\<rparr>),
     Field ''lease_ttl_seconds'' Ann_Float (PFloat 120) (plain_meta\<lparr>fm_apply := ''restart''\<rparr>),
     Field ''worker_stale_seconds'' Ann_Float (PFloat 45) (plain_meta\<lparr>fm_apply := ''restart''\<rparr>),
     Field ''refresh_ms'' Ann_Int (PInt 20000) (plain_meta\<lparr>fm_apply := ''restart''\<rparr>),
     Field ''git_refresh_seconds'' Ann_Float (PFloat 15) (plain_meta\<lparr>fm_apply := ''restart''\<rparr>),
     Field ''ci_refresh_seconds'' Ann_Float (PFloat 120) (plain_meta\<lparr>fm_apply := ''restart''\<rparr>),
     Field ''auto_import_seconds'' Ann_Float (PFloat 60) (plain_meta\<lparr>fm_apply := ''restart''\<rparr>)]"

definition operator_decls :: "field_decl list" where
  "operator_decls =
    [Field ''max_per_day'' Ann_Int (PInt 200) (plain_meta\<lparr>fm_env := Some ''NIGHTSHIFT_MAX_PER_DAY''\<rparr>),
     Field ''max_concurrent_queues'' Ann_Int (PInt 2) plain_meta,
     Field ''max_nights_before_parking'' Ann_Int (PInt 2) plain_meta,
     Field ''default_model'' Ann_Str (PStr ''auto'') (plain_meta\<lparr>fm_env := Some ''NIGHTSHIFT_DEFAULT_MODEL'', fm_validate := Some ''model_id_or_keyword''\<rparr>),
     Field ''enhance_brief_model'' Ann_Str (PStr ''anthropic/claude-sonnet-4-6'') (plain_meta\<lparr>fm_env := Some ''NIGHTSHIFT_ENHANCE_MODEL'', fm_validate := Some ''model_id''\<rparr>),
     Field ''claude_billing'' Ann_Str (PStr DEFAULT_CLAUDE_BILLING) (plain_meta\<lparr>fm_apply := ''restart'',
       fm_options := Some CLAUDE_BILLING_MODES\<rparr>),
     Field ''planner_model'' Ann_Str (PStr []) (plain_meta\<lparr>fm_apply := ''restart'',
       fm_env := Some ''NIGHTSHIFT_PLANNER_MODEL'', fm_validate := Some ''model_id_or_keyword''\<rparr>),
     Field ''scheduled_models_allow'' Ann_Tuple (PList [PStr ''claude-code/claude-sonnet-4-6'',
       PStr ''claude-code/claude-opus-4-8'']) (plain_meta\<lparr>fm_type := Some FT_STRING_LIST,
       fm_validate := Some ''model_id_list''\<rparr>),
     Field ''landing_mode'' Ann_Other (PStr ''none'') (plain_meta\<lparr>fm_apply := ''restart'',
       fm_options := Some [''none'', ''push'', ''pr''], fm_env := Some ''NIGHTSHIFT_LANDING_MODE''\<rparr>),
     Field ''rendezvous_remote'' (Ann_Optional Ann_Str) (PStr ''origin'') (plain_meta\<lparr>fm_apply := ''restart'', fm_env := Some ''NIGHTSHIFT_RENDEZVOUS_REMOTE''\<rparr>),
     Field ''wip_ref_prefix'' Ann_Str (PStr ''nightshift-wip'') (plain_meta\<lparr>fm_apply := ''restart'',
       fm_env := Some ''NIGHTSHIFT_WIP_REF_PREFIX''\<rparr>),
     Field ''tasks_repo'' Ann_Str (PStr ''nightshift-tasks'') (plain_meta\<lparr>fm_apply := ''restart'',
       fm_env := Some ''NIGHTSHIFT_TASKS_REPO''\<rparr>),
     Field ''automerge'' Ann_Bool (PBool False) plain_meta,
     Field ''draft'' Ann_Bool (PBool False) plain_meta,
     Field ''max_push_retries'' Ann_Int (PInt 3) plain_meta,
     Field ''validate_on_integrate'' Ann_Bool (PBool False) plain_meta,
     Field ''forbidden_paths'' Ann_Tuple (PList [PStr (''^'' @ [CHR 0x5C] @ ''.github/workflows/''),
       PStr (''^CLAUDE'' @ [CHR 0x5C] @ ''.md$''),
       PStr (''^AGENTS'' @ [CHR 0x5C] @ ''.md$'')]) (plain_meta\<lparr>fm_type := Some FT_REGEX_LIST\<rparr>),
     Field ''forbidden_template_paths'' Ann_Tuple (PList [PStr ''^tools/nightshift/templates/'']) (plain_meta\<lparr>fm_type := Some FT_REGEX_LIST\<rparr>),
     Field ''diff_cap_lines'' Ann_Int (PInt 1500) plain_meta,
     Field ''diff_cap_exempt_paths'' Ann_Tuple (PList [PStr ''^tests/fixtures/'', PStr ''^docs/'',
       PStr ([CHR 0x5C] @ ''.md$'')]) (plain_meta\<lparr>fm_type := Some FT_REGEX_LIST\<rparr>),
     Field ''max_fix_attempts'' Ann_Int (PInt 6) plain_meta,
     Field ''validate_cmd'' Ann_Str (PStr ''just validate'') (plain_meta\<lparr>fm_json_key := Some ''validate''\<rparr>),
     Field ''quarantine_threshold'' Ann_Int (PInt 2) (plain_meta\<lparr>fm_env := Some ''NIGHTSHIFT_QUARANTINE_THRESHOLD''\<rparr>),
     Field ''retry_backoff_seconds'' Ann_Float (PFloat 60) plain_meta,
     Field ''document_cap_bytes'' Ann_Int (PInt 262144) (plain_meta\<lparr>fm_env := Some ''NIGHTSHIFT_DOCUMENT_CAP_BYTES''\<rparr>),
     Field ''allowed_doc_media_types'' Ann_Tuple (PList [PStr ''text/*'', PStr ''application/json'',
       PStr ''application/yaml'', PStr ''image/png'', PStr ''image/jpeg'', PStr ''image/gif'', PStr ''image/webp'',
       PStr ''application/pdf'']) (plain_meta\<lparr>fm_type := Some FT_STRING_LIST\<rparr>),
     Field ''document_budget_bytes'' Ann_Int (PInt 4194304) plain_meta,
     Field ''auto_resolve'' Ann_Bool (PBool True) plain_meta,
     Field ''max_resolve_attempts'' Ann_Int (PInt 2) plain_meta,
     Field ''resolve_model'' (Ann_Optional Ann_Str) PNone (plain_meta\<lparr>fm_validate := Some ''model_id''\<rparr>),
     Field ''resolve_backend'' (Ann_Optional Ann_Str) PNone plain_meta,
     Field ''max_concurrent_resolves'' Ann_Int (PInt 1) plain_meta]"

definition manager_decls :: "field_decl list" where
  "manager_decls =
    [Field ''host'' Ann_Str (PStr ''0.0.0.0'') (plain_meta\<lparr>fm_apply := ''restart'',
       fm_env := Some ''NIGHTSHIFT_MANAGER_HOST''\<rparr>),
     Field ''port'' Ann_Int (PInt 8800) (plain_meta\<lparr>fm_apply := ''restart'',
       fm_env := Some ''NIGHTSHIFT_MANAGER_PORT''\<rparr>),
     Field ''shared_secret'' (Ann_Optional Ann_Str) PNone (plain_meta\<lparr>fm_apply := ''restart'',
       fm_secret := True, fm_env := Some ''NIGHTSHIFT_SHARED_SECRET''\<rparr>),
     Field ''dsn'' (Ann_Optional Ann_Str) PNone (plain_meta\<lparr>fm_apply := ''restart'', fm_secret := True,
       fm_env := Some ''NIGHTSHIFT_PG_DSN''\<rparr>),
     Nested ''cadences'' False cadences_decls,
     Nested ''operator'' True operator_decls,
     Field ''raw'' Ann_Dict (PDict []) (plain_meta\<lparr>fm_apply := ''restart'', fm_editable := False\<rparr>)]"

definition harness_decls :: "field_decl list" where
  "harness_decls =
    [Field ''enabled'' Ann_Bool (PBool False) plain_meta,
     Field ''vendor'' Ann_Str (PStr ''anthropic'') (plain_meta\<lparr>fm_options := Some [''anthropic'',
       ''ollama-cloud'', ''ollama'']\<rparr>),
     Field ''model'' Ann_Str (PStr ''claude-sonnet-4-6'') plain_meta,
     Field ''max_tokens'' Ann_Int (PInt 4096) (plain_meta\<lparr>fm_type := Some FT_SI_INT\<rparr>),
     Field ''effort'' Ann_Str (PStr ''off'') (plain_meta\<lparr>fm_options := Some [''off'', ''low'', ''medium'',
       ''high'', ''xhigh'', ''max'']\<rparr>),
     Field ''enable_cache'' Ann_Bool (PBool True) plain_meta,
     Field ''cache_ttl'' Ann_Str (PStr ''5m'') (plain_meta\<lparr>fm_options := Some [''5m'', ''1h'']\<rparr>),
     Field ''max_retries'' Ann_Int (PInt 2) plain_meta,
     Field ''tools_enabled'' Ann_List (PList []) (plain_meta\<lparr>fm_type := Some FT_STRING_LIST\<rparr>),
     Field ''context_policy'' Ann_Str (PStr ''spans'') (plain_meta\<lparr>fm_options := Some [''spans'',
       ''whole_file'']\<rparr>)]"

definition worker_decls :: "field_decl list" where
  "worker_decls =
    [Field ''workspace'' Ann_Other PNone (plain_meta\<lparr>fm_apply := ''restart'', fm_editable := False\<rparr>),
     Field ''worker_id'' Ann_Str (PStr []) (plain_meta\<lparr>fm_apply := ''restart'',
       fm_env := Some ''NIGHTSHIFT_WORKER_ID''\<rparr>),
     Field ''manager_url'' Ann_Str (PStr ''http://localhost:8800'') (plain_meta\<lparr>fm_apply := ''restart'',
       fm_env := Some ''NIGHTSHIFT_MANAGER_URL''\<rparr>),
     Field ''shared_secret'' (Ann_Optional Ann_Str) PNone (plain_meta\<lparr>fm_apply := ''restart'',
       fm_secret := True, fm_env := Some ''NIGHTSHIFT_SHARED_SECRET''\<rparr>),
     Field ''rendezvous_remote'' (Ann_Optional Ann_Str) PNone (plain_meta\<lparr>fm_apply := ''restart'',
       fm_env := Some ''NIGHTSHIFT_RENDEZVOUS_REMOTE''\<rparr>),
     Field ''queues'' (Ann_Optional Ann_List) PNone (plain_meta\<lparr>fm_apply := ''restart'',
       fm_type := Some FT_STRING_LIST, fm_env := Some ''NIGHTSHIFT_WORKER_QUEUES''\<rparr>),
     Field ''priorities'' (Ann_Optional Ann_List) PNone (plain_meta\<lparr>fm_apply := ''restart'',
       fm_type := Some FT_INT_LIST, fm_env := Some ''NIGHTSHIFT_WORKER_PRIORITIES''\<rparr>),
     Field ''mcps'' Ann_List (PList []) (plain_meta\<lparr>fm_apply := ''restart'', fm_type := Some FT_STRING_LIST,
       fm_env := Some ''NIGHTSHIFT_WORKER_MCPS''\<rparr>),
     Field ''models'' Ann_List (PList []) (plain_meta\<lparr>fm_apply := ''restart'',
       fm_type := Some FT_STRING_LIST, fm_env := Some ''NIGHTSHIFT_WORKER_MODELS'',
       fm_validate := Some ''model_id_list''\<rparr>),
     Field ''model_aliases'' Ann_Dict (PDict []) (plain_meta\<lparr>fm_apply := ''restart'',
       fm_type := Some FT_STR_MAP, fm_validate := Some ''model_id_map''\<rparr>),
     Field ''auto_model'' Ann_Str (PStr DEFAULT_AUTO_MODEL) (plain_meta\<lparr>fm_apply := ''restart'',
       fm_validate := Some ''model_id''\<rparr>),
     Field ''max_model'' Ann_Str (PStr DEFAULT_MAX_MODEL) (plain_meta\<lparr>fm_apply := ''restart'',
       fm_validate := Some ''model_id''\<rparr>),
     Field ''model_timeout_seconds'' Ann_Float (PFloat 0) (plain_meta\<lparr>fm_apply := ''restart'',
       fm_env := Some ''NIGHTSHIFT_MODEL_TIMEOUT_SECONDS''\<rparr>),
     Field ''claude_billing'' Ann_Str (PStr DEFAULT_CLAUDE_BILLING) (plain_meta\<lparr>fm_apply := ''restart'',
       fm_options := Some CLAUDE_BILLING_MODES\<rparr>),
     Field ''quarantine'' Ann_Bool (PBool False) (plain_meta\<lparr>fm_apply := ''restart'',
       fm_env := Some ''NIGHTSHIFT_WORKER_QUARANTINE''\<rparr>),
     Field ''worker_url'' (Ann_Optional Ann_Str) PNone (plain_meta\<lparr>fm_apply := ''restart'',
       fm_env := Some ''NIGHTSHIFT_WORKER_URL''\<rparr>),
     Field ''ui_host'' Ann_Str (PStr ''0.0.0.0'') (plain_meta\<lparr>fm_apply := ''restart'',
       fm_env := Some ''NIGHTSHIFT_WORKER_UI_HOST''\<rparr>),
     Field ''ui_port'' Ann_Int (PInt 8810) (plain_meta\<lparr>fm_apply := ''restart'',
       fm_env := Some ''NIGHTSHIFT_WORKER_UI_PORT''\<rparr>),
     Field ''refresh_ms'' Ann_Int (PInt 3000) (plain_meta\<lparr>fm_apply := ''restart'',
       fm_editable := False\<rparr>),
     Nested ''nightshift'' False harness_decls,
     Field ''raw'' Ann_Dict (PDict []) (plain_meta\<lparr>fm_apply := ''restart'', fm_editable := False\<rparr>)]"

definition player_decls :: "field_decl list" where
  "player_decls =
    [Field ''theme'' Ann_Str (PStr ''dark'') (plain_meta\<lparr>fm_apply := ''live'',
       fm_options := Some [''light'', ''dark'']\<rparr>),
     Field ''transport_mode'' Ann_Str (PStr ''auto'') (plain_meta\<lparr>fm_apply := ''live'',
       fm_options := Some [''oneshot'', ''auto'', ''repeat'']\<rparr>),
     Field ''repeat_interval'' Ann_Str (PStr ''30m'') (plain_meta\<lparr>fm_apply := ''live'',
       fm_type := Some FT_DURATION\<rparr>)]"

section \<open>The registry\<close>

record field_spec =
  fs_key :: string
  fs_surface :: string
  fs_store :: store_file
  fs_type :: setting_type
  fs_apply :: string
  fs_default :: pyval
  fs_options :: "string list option"
  fs_secret :: bool
  fs_env :: "string option"
  fs_json_key :: "string option"
  fs_validate :: "string option"

fun plain_type :: "annotation \<Rightarrow> setting_type option" where
  "plain_type Ann_Bool = Some FT_BOOL"
| "plain_type Ann_Int = Some FT_INT"
| "plain_type Ann_Float = Some FT_FLOAT"
| "plain_type Ann_Str = Some FT_STRING"
| "plain_type _ = None"

definition infer_type :: "annotation \<Rightarrow> field_meta \<Rightarrow> setting_type" where
  "infer_type a m =
     (case fm_type m of Some t \<Rightarrow> t
      | None \<Rightarrow>
          if fm_options m \<noteq> None then FT_ENUM
          else case plain_type a of Some t \<Rightarrow> t
          | None \<Rightarrow>
              (case a of
                 Ann_Optional b \<Rightarrow> (case plain_type b of Some t \<Rightarrow> t | None \<Rightarrow> FT_STRING)
               | Ann_Tuple \<Rightarrow> FT_STRING_LIST
               | Ann_List \<Rightarrow> FT_STRING_LIST
               | Ann_Dict \<Rightarrow> FT_STR_MAP
               | _ \<Rightarrow> FT_STRING))"

definition surface_store :: "string \<Rightarrow> store_file" where
  "surface_store surface =
     (if surface = ''manager'' then SF_MANAGER else if surface = ''worker'' then SF_WORKER else SF_PLAYER)"

fun walk_decl :: "string \<Rightarrow> string \<Rightarrow> field_decl \<Rightarrow> field_spec list" where
  "walk_decl surface prefix (Nested name flatten decls) =
     concat (map (walk_decl surface (if flatten then prefix else prefix @ name @ ''.'')) decls)"
| "walk_decl surface prefix (Field name a dv m) =
     (if \<not> fm_editable m then []
      else [\<lparr>fs_key = prefix @ name, fs_surface = surface,
             fs_store = (if fm_secret m then SF_ENV else surface_store surface),
             fs_type = infer_type a m, fs_apply = fm_apply m, fs_default = dv, fs_options = fm_options m,
             fs_secret = fm_secret m, fs_env = fm_env m, fs_json_key = fm_json_key m, fs_validate = fm_validate m\<rparr>])"

definition walk_class :: "string \<Rightarrow> field_decl list \<Rightarrow> field_spec list" where
  "walk_class surface decls = concat (map (walk_decl surface []) decls)"

definition registry :: "field_spec list" where
  "registry = walk_class ''manager'' manager_decls @ walk_class ''worker'' worker_decls @ walk_class ''player'' player_decls"

text \<open>\<open>registry_by_key().get((surface, key))\<close>: a later field would replace an earlier one.\<close>

definition spec_of :: "string \<Rightarrow> string \<Rightarrow> field_spec option" where
  "spec_of surface key = find (\<lambda>s. fs_surface s = surface \<and> fs_key s = key) (rev registry)"

definition specs_for_surface :: "string \<Rightarrow> field_spec list" where
  "specs_for_surface surface = filter (\<lambda>s. fs_surface s = surface) registry"

end
