(* ===== verification/Dotenv.thy ===== *)
theory Dotenv
  imports Frontmatter
begin

text \<open>
  The secrets of a workspace: reading \<^verbatim>\<open>.env\<close> into the environment of the process and writing one
  key of it (\<^verbatim>\<open>src/nightshift/config/io.py\<close>), with the theorem that a secret that was written is
  the one the next start reads. The environment is an association list.
\<close>

section \<open>Reading and writing\<close>

type_synonym environ = "(string \<times> string) list"

definition unquote :: "string \<Rightarrow> string" where
  "unquote v = py_strip_of (\<lambda>c. c = CHR 0x27) (py_strip_of (\<lambda>c. c = CHR 0x22) v)"

definition dotenv_pair :: "string \<Rightarrow> (string \<times> string) option" where
  "dotenv_pair raw =
     (let line = py_strip raw in
      if line = [] \<or> py_startswith line ''#'' \<or> CHR ''='' \<notin> set line then None
      else case py_partition (CHR ''='') line of (k, _, v) \<Rightarrow> Some (py_strip k, unquote (py_strip v)))"

text \<open>\<open>os.environ.setdefault(k, v)\<close>: an empty name and a null character are refused.\<close>

definition env_setdefault :: "environ \<Rightarrow> string \<Rightarrow> string \<Rightarrow> py_error + environ" where
  "env_setdefault env k v =
     (if dhas env k then Inr env
      else if CHR 0x00 \<in> set k \<or> CHR 0x00 \<in> set v then Inl (ValueError ''embedded null byte'')
      else if k = [] then Inl (OSError ''invalid argument'')
      else Inr (env @ [(k, v)]))"

fun load_lines :: "string list \<Rightarrow> environ \<Rightarrow> py_error + environ" where
  "load_lines [] env = Inr env"
| "load_lines (line # lines) env =
     (case dotenv_pair line of
        None \<Rightarrow> load_lines lines env
      | Some (k, v) \<Rightarrow> bind_result (env_setdefault env k v) (load_lines lines))"

definition load_dotenv :: "string option \<Rightarrow> environ \<Rightarrow> py_error + environ" where
  "load_dotenv file env = (case file of None \<Rightarrow> Inr env | Some t \<Rightarrow> load_lines (py_splitlines t) env)"

text \<open>The name a line assigns when it stands at its start: the pattern of the writer.\<close>

definition name_char :: "char \<Rightarrow> bool" where
  "name_char c \<longleftrightarrow> (let n = of_char c :: nat in
     (48 \<le> n \<and> n \<le> 57) \<or> (65 \<le> n \<and> n \<le> 90) \<or> n = 95 \<or> (97 \<le> n \<and> n \<le> 122))"

definition is_name :: "string \<Rightarrow> bool" where
  "is_name k \<longleftrightarrow> k \<noteq> [] \<and> \<not> is_digit (hd k) \<and> list_all name_char k"

definition env_line_key :: "string \<Rightarrow> string option" where
  "env_line_key line =
     (let k = takeWhile name_char line; rest = dropWhile is_space (dropWhile name_char line) in
      if is_name k \<and> py_startswith rest ''='' then Some k else None)"

definition saved_lines :: "string list \<Rightarrow> string \<Rightarrow> string \<Rightarrow> string list" where
  "saved_lines lines key value =
     map (\<lambda>l. if env_line_key l = Some key then key @ ''='' @ value else l) lines @
     (if list_ex (\<lambda>l. env_line_key l = Some key) lines then [] else [key @ ''='' @ value])"

definition save_dotenv_key :: "string option \<Rightarrow> string \<Rightarrow> string \<Rightarrow> string" where
  "save_dotenv_key file key value =
     py_join [newline] (saved_lines (case file of None \<Rightarrow> [] | Some t \<Rightarrow> py_splitlines t) key value) @ [newline]"

section \<open>What a load leaves in the environment\<close>

definition pairs_of :: "string list \<Rightarrow> environ" where
  "pairs_of lines = List.map_filter dotenv_pair lines"

lemma pairs_of_Cons [simp]:
  "pairs_of (l # ls) = (case dotenv_pair l of None \<Rightarrow> pairs_of ls | Some p \<Rightarrow> p # pairs_of ls)"
  by (simp add: pairs_of_def map_filter_def split: option.split)

lemma pairs_of_append [simp]: "pairs_of (a @ b) = pairs_of a @ pairs_of b"
  by (simp add: pairs_of_def map_filter_def)

text \<open>A name the process has keeps its value; for another the first line counts.\<close>

lemma load_lines_lookup:
  "load_lines lines env = Inr env' \<Longrightarrow>
     dget env' k = (case dget env k of Some v \<Rightarrow> Some v | None \<Rightarrow> dget (pairs_of lines) k)"
proof (induction lines env rule: load_lines.induct)
  case (2 line lines env)
  show ?case
  proof (cases "dotenv_pair line")
    case (Some p)
    then obtain key v where p: "dotenv_pair line = Some (key, v)" by (cases p) auto
    then obtain env1 where env1: "env_setdefault env key v = Inr env1" "load_lines lines env1 = Inr env'"
      using 2(3) by (auto simp: bind_result_eq_Inr_iff)
    have "dget env1 k = (case dget env k of Some w \<Rightarrow> Some w | None \<Rightarrow> if k = key then Some v else None)"
      using env1(1) by (auto simp: env_setdefault_def dhas_iff_dget map_add_def split: if_splits option.split)
    then show ?thesis
      using 2(2) [OF p refl env1(2)] p by (auto simp: map_add_def split: option.splits)
  qed (use 2 in \<open>simp split: option.split\<close>)
qed (simp add: pairs_of_def map_filter_def split: option.split)

text \<open>When a load goes through: each line that brings a name the process lacks brings a fit one.\<close>

definition fit_pair :: "string \<times> string \<Rightarrow> bool" where
  "fit_pair p \<longleftrightarrow> fst p \<noteq> [] \<and> CHR 0x00 \<notin> set (fst p) \<and> CHR 0x00 \<notin> set (snd p)"

lemma setdefault_fit: "fit_pair (k, v) \<Longrightarrow> \<exists>env'. env_setdefault env k v = Inr env'"
  by (auto simp: env_setdefault_def fit_pair_def)

lemma load_lines_fit: "\<forall>p \<in> set (pairs_of lines). fit_pair p \<Longrightarrow> \<exists>env'. load_lines lines env = Inr env'"
proof (induction lines env rule: load_lines.induct)
  case (2 line lines env)
  show ?case
  proof (cases "dotenv_pair line")
    case (Some p)
    then obtain key v where p: "dotenv_pair line = Some (key, v)" by (cases p) auto
    then obtain env1 where "env_setdefault env key v = Inr env1"
      using 2(3) setdefault_fit by fastforce
    then show ?thesis
      using 2(2) [OF p refl, of env1] 2(3) p by simp
  qed (use 2 in simp)
qed simp

section \<open>A secret that was written is read\<close>

lemma name_char_plain: "name_char c \<Longrightarrow> \<not> is_space c \<and> c \<noteq> CHR ''='' \<and> c \<noteq> CHR ''#'' \<and> c \<noteq> CHR 0x00"
  by (auto simp: name_char_def is_space_def Let_def)

lemma linebreak_is_space: "is_linebreak c \<Longrightarrow> is_space c"
  by (auto simp: is_linebreak_def is_space_def Let_def)

lemma equals_not_space: "\<not> is_space (CHR ''='')"
  by (simp add: is_space_def)

lemma strip_front: "s \<noteq> [] \<Longrightarrow> \<not> p (hd s) \<Longrightarrow> py_strip_of p s = rev (dropWhile p (rev s))"
  by (cases s) (simp_all add: py_strip_of_def)

lemma strip_back_append: "\<not> p c \<Longrightarrow> rev (dropWhile p (rev (a @ c # b))) = a @ c # rev (dropWhile p (rev b))"
  by (simp add: dropWhile_append)

lemma strip_orders: "dropWhile p (rev (dropWhile p (rev v))) = rev (dropWhile p (rev (dropWhile p v)))"
proof (induction v)
  case (Cons a v)
  then show ?case
    by (cases "\<forall>x \<in> set v. p x") (auto simp: dropWhile_append dest: set_dropWhileD)
qed simp

lemma strip_of_right_stripped: "py_strip_of p (rev (dropWhile p (rev v))) = py_strip_of p v"
  by (simp add: py_strip_of_def strip_orders dropWhile_idem)

text \<open>A line that starts with its name: the name is what the reader takes.\<close>

lemma pair_at_start:
  assumes "is_name k" "list_all is_space ws"
  shows "dotenv_pair (k @ ws @ ''='' @ v) = Some (k, unquote (py_strip v))"
proof -
  let ?line = "k @ ws @ ''='' @ v"
  have k: "k \<noteq> []" "\<forall>c \<in> set k. name_char c"
    using assms(1) by (auto simp: is_name_def list_all_iff)
  have hd: "hd ?line = hd k" "?line \<noteq> []" "name_char (hd k)"
    using k by auto
  have "py_strip ?line = rev (dropWhile is_space (rev ?line))"
    by (rule strip_front) (use hd name_char_plain in auto)
  also have "\<dots> = (k @ ws) @ CHR ''='' # rev (dropWhile is_space (rev v))"
    using strip_back_append [of is_space "CHR ''=''" "k @ ws" v, OF equals_not_space] by simp
  finally have strip: "py_strip ?line = (k @ ws) @ CHR ''='' # rev (dropWhile is_space (rev v))" .
  have "CHR ''='' \<notin> set (k @ ws)"
    using k(2) assms(2) name_char_plain equals_not_space by (auto simp: list_all_iff)
  then have parts: "py_partition (CHR ''='') (py_strip ?line) = (k @ ws, True, rev (dropWhile is_space (rev v)))"
    unfolding strip by (rule py_partition_append)
  have kws: "py_strip (k @ ws) = k"
  proof -
    have "\<not> is_space (last k)" using k name_char_plain by simp
    moreover have "py_strip (k @ ws) = rev (dropWhile is_space (rev (k @ ws)))"
      by (rule strip_front) (use k hd(3) name_char_plain in auto)
    ultimately show ?thesis
      using k(1) assms(2) by (simp add: dropWhile_append list_all_iff dropWhile_idem_hd hd_rev)
  qed
  have vs: "py_strip (rev (dropWhile is_space (rev v))) = py_strip v"
    by (rule strip_of_right_stripped)
  have "\<not> py_startswith (py_strip ?line) ''#''"
    unfolding strip using hd(3) k(1) name_char_plain by (cases k) (auto simp: py_startswith_def)
  then show ?thesis
    using parts kws vs strip by (simp add: dotenv_pair_def Let_def)
qed

lemma env_line_key_pair:
  assumes "env_line_key l = Some k"
  shows "\<exists>v. dotenv_pair l = Some (k, v)"
proof -
  define ws where "ws = takeWhile is_space (dropWhile name_char l)"
  define rest where "rest = dropWhile is_space (dropWhile name_char l)"
  have k: "takeWhile name_char l = k" "is_name k" "py_startswith rest ''=''"
    using assms unfolding env_line_key_def Let_def rest_def by (simp_all split: if_splits)
  obtain v where v: "rest = ''='' @ v"
    using k(3) by (cases rest) (simp_all add: py_startswith_def)
  have "dropWhile name_char l = ws @ rest"
    unfolding ws_def rest_def by simp
  then have "l = k @ ws @ ''='' @ v"
    using k(1) v takeWhile_dropWhile_id [of name_char l] by simp
  moreover have "list_all is_space ws"
    unfolding ws_def list_all_iff by (auto dest: set_takeWhileD)
  ultimately show ?thesis
    using pair_at_start [OF k(2), of ws v] by blast
qed

text \<open>A value a line can hold as it is, and a file whose lines for a name start with it.\<close>

definition plain_value :: "string \<Rightarrow> bool" where
  "plain_value v \<longleftrightarrow> unbroken v \<and> py_strip v = v \<and> unquote v = v \<and> CHR 0x00 \<notin> set v"

definition at_start :: "string \<Rightarrow> string \<Rightarrow> bool" where
  "at_start k line \<longleftrightarrow> (case dotenv_pair line of Some (x, _) \<Rightarrow> x = k \<longrightarrow> env_line_key line = Some k | None \<Rightarrow> True)"

definition dotenv_lines :: "string option \<Rightarrow> string list" where
  "dotenv_lines file = (case file of None \<Rightarrow> [] | Some t \<Rightarrow> py_splitlines t)"

lemma load_dotenv_lines: "load_dotenv file env = load_lines (dotenv_lines file) env"
  by (simp add: load_dotenv_def dotenv_lines_def split: option.split)

lemma saved_pairs:
  assumes "is_name k" "plain_value v" "\<forall>l \<in> set lines. at_start k l"
  shows "dget (pairs_of (saved_lines lines k v)) x = (if x = k then Some v else dget (pairs_of lines) x)"
proof -
  have new: "dotenv_pair (k @ ''='' @ v) = Some (k, v)"
    using pair_at_start [OF assms(1), of "[]" v] assms(2) by (simp add: plain_value_def)
  let ?put = "\<lambda>l. if env_line_key l = Some k then k @ ''='' @ v else l"
  have replaced: "dget (pairs_of (map ?put lines)) x =
      (if x = k then (if list_ex (\<lambda>l. env_line_key l = Some k) lines then Some v else None) else dget (pairs_of lines) x)"
    using assms(3)
  proof (induction lines)
    case (Cons l lines)
    show ?case
    proof (cases "env_line_key l = Some k")
      case True
      then obtain w where "dotenv_pair l = Some (k, w)" using env_line_key_pair by blast
      then show ?thesis using Cons True new by simp
    next
      case False
      then have "\<And>w. dotenv_pair l \<noteq> Some (k, w)" using Cons.prems by (auto simp: at_start_def)
      then show ?thesis using Cons False by (auto split: option.split)
    qed
  qed (simp add: pairs_of_def map_filter_def)
  show ?thesis
    unfolding saved_lines_def using replaced new
    by (auto simp: map_add_def pairs_of_def [of "[]"] map_filter_def split: option.split)
qed

lemma saved_unbroken:
  assumes "is_name k" "unbroken v" "\<forall>l \<in> set lines. unbroken l"
  shows "\<forall>l \<in> set (saved_lines lines k v). unbroken l"
proof -
  have "unbroken k"
    using assms(1) name_char_plain linebreak_is_space by (auto simp: is_name_def unbroken_def list_all_iff)
  then have "unbroken (k @ ''='' @ v)"
    using assms(2) equals_not_space linebreak_is_space by (auto simp: unbroken_def)
  then show ?thesis
    using assms(3) by (auto simp: saved_lines_def)
qed

lemma saved_dotenv_lines:
  assumes "is_name k" "unbroken v"
  shows "dotenv_lines (Some (save_dotenv_key file k v)) = saved_lines (dotenv_lines file) k v"
proof -
  have "\<forall>l \<in> set (dotenv_lines file). unbroken l"
    using splitlines_lines_unbroken by (auto simp: dotenv_lines_def split: option.splits)
  moreover have "py_join [newline] ls @ [newline] = lines_text ls" if "ls \<noteq> []" for ls
    using that by (induction ls rule: induct_list012) (simp_all add: lines_text_def)
  moreover have "saved_lines (dotenv_lines file) k v \<noteq> []"
    by (auto simp: saved_lines_def)
  ultimately show ?thesis
    using saved_unbroken [OF assms] splitlines_unbroken
    by (simp add: save_dotenv_key_def dotenv_lines_def [of "Some t" for t] dotenv_lines_def [of "file", symmetric])
qed

lemma load_lines_append: "load_lines (a @ b) env = bind_result (load_lines a env) (load_lines b)"
proof (induction a env rule: load_lines.induct)
  case (2 line lines env)
  then show ?case
    by (cases "dotenv_pair line"; cases "env_setdefault env (fst (the (dotenv_pair line))) (snd (the (dotenv_pair line)))") auto
qed simp

lemma load_replaced:
  assumes "is_name k" "plain_value v"
  shows "load_lines lines env = Inr e \<Longrightarrow> set (dkeys env) = set (dkeys env') \<Longrightarrow>
    \<exists>e'. load_lines (map (\<lambda>l. if env_line_key l = Some k then k @ ''='' @ v else l) lines) env' = Inr e'"
proof (induction lines arbitrary: env env')
  case (Cons l lines)
  have new: "dotenv_pair (k @ ''='' @ v) = Some (k, v)"
    using pair_at_start [OF assms(1), of "[]" v] assms(2) by (simp add: plain_value_def)
  have fit: "CHR 0x00 \<notin> set k" "k \<noteq> []" "CHR 0x00 \<notin> set v"
    using assms name_char_plain by (auto simp: is_name_def list_all_iff plain_value_def)
  show ?case
  proof (cases "dotenv_pair l")
    case None
    then have "env_line_key l \<noteq> Some k" using env_line_key_pair by fastforce
    then show ?thesis using Cons None by simp
  next
    case (Some p)
    then obtain x w where l: "dotenv_pair l = Some (x, w)" by (cases p) auto
    obtain env1 where env1: "env_setdefault env x w = Inr env1" "load_lines lines env1 = Inr e"
      using Cons.prems(1) l by (auto simp: bind_result_eq_Inr_iff)
    have keys: "set (dkeys env1) = insert x (set (dkeys env))"
      using env1(1) by (auto simp: env_setdefault_def dhas_def split: if_splits)
    let ?w = "if env_line_key l = Some k then v else w"
    have "\<exists>env2. env_setdefault env' x ?w = Inr env2 \<and> set (dkeys env2) = insert x (set (dkeys env'))"
      using env1(1) Cons.prems(2) fit env_line_key_pair [of l k] l
      by (auto simp: env_setdefault_def dhas_def split: if_splits) (metis fst_conv image_eqI)+
    then obtain env2 where env2: "env_setdefault env' x ?w = Inr env2" "set (dkeys env1) = set (dkeys env2)"
      using keys Cons.prems(2) by auto
    then show ?thesis
      using Cons.IH [OF env1(2) env2(2)] l new env_line_key_pair [of l k] by (auto split: if_splits)
  qed
qed simp

text \<open>
  C22: a secret that is written is the one the next start reads, and no other name changes. The value
  must be one a line can hold as it is (no line break, no outer blanks or quotes), the file must not
  assign the name on an indented line, and the process must not have the name already.
\<close>

theorem secret_reads_back:
  assumes "is_name k" "plain_value v" "\<forall>l \<in> set (dotenv_lines file). at_start k l"
    and "load_dotenv file env = Inr env0"
  shows "\<exists>env'. load_dotenv (Some (save_dotenv_key file k v)) env = Inr env' \<and>
    (\<forall>x. dget env' x = (if x = k \<and> dget env k = None then Some v else dget env0 x))"
proof -
  let ?lines = "dotenv_lines file" and ?old = "load_lines (dotenv_lines file) env"
  have pv: "unbroken v" using assms(2) by (simp add: plain_value_def)
  have old: "?old = Inr env0" using assms(4) by (simp add: load_dotenv_lines)
  have new: "dotenv_pair (k @ ''='' @ v) = Some (k, v)"
    using pair_at_start [OF assms(1), of "[]" v] assms(2) by (simp add: plain_value_def)
  have fit: "CHR 0x00 \<notin> set k" "k \<noteq> []" "CHR 0x00 \<notin> set v"
    using assms(1,2) name_char_plain by (auto simp: is_name_def list_all_iff plain_value_def)
  obtain e1 where "load_lines (map (\<lambda>l. if env_line_key l = Some k then k @ ''='' @ v else l) ?lines) env = Inr e1"
    using load_replaced [OF assms(1,2) old refl] by blast
  then have "\<exists>e. load_lines (saved_lines ?lines k v) env = Inr e"
    using new fit by (auto simp: saved_lines_def load_lines_append env_setdefault_def)
  then obtain e where e: "load_lines (saved_lines ?lines k v) env = Inr e" by blast
  have "dget e x = (if x = k \<and> dget env k = None then Some v else dget env0 x)" for x
    using load_lines_lookup [OF e, of x] load_lines_lookup [OF old, of x] saved_pairs [OF assms(1,2,3), of x]
    by (auto split: option.splits)
  then show ?thesis
    using e by (simp add: load_dotenv_lines saved_dotenv_lines [OF assms(1) pv])
qed

definition sample_env_file :: string where
  "sample_env_file = ''# keys'' @ [newline] @ ''A=old'' @ [newline] @ ''B = b'' @ [newline]"

theorem secret_reads_back_witness:
  "\<exists>env'. load_dotenv (Some (save_dotenv_key (Some sample_env_file) ''A'' ''new'')) [] = Inr env' \<and>
    (\<forall>x. dget env' x = (if x = ''A'' \<and> dget [] ''A'' = (None :: string option) then Some ''new'' else dget [(''A'', ''old''), (''B'', ''b'')] x))"
proof (rule secret_reads_back)
  show "is_name ''A''" "plain_value ''new''" by code_simp+
  show "\<forall>l \<in> set (dotenv_lines (Some sample_env_file)). at_start ''A'' l"
    by code_simp
  show "load_dotenv (Some sample_env_file) [] = Inr [(''A'', ''old''), (''B'', ''b'')]" by code_simp
qed

text \<open>
  An older line with blanks before the name keeps its value, since the writer does not see it and the
  first line counts; a value with a line break brings a name of its own; outer quotes are lost; and a
  line without a name stops the start of every process.
\<close>

lemma indented_line_shadows:
  "load_dotenv (Some (save_dotenv_key (Some ('' A=old'' @ [newline])) ''A'' ''new'')) [] = Inr [(''A'', ''old'')]"
  by code_simp

lemma line_break_injects:
  "load_dotenv (Some (save_dotenv_key None ''A'' (''x'' @ [newline] @ ''B=y''))) [] = Inr [(''A'', ''x''), (''B'', ''y'')]"
  by code_simp

lemma outer_quotes_lost:
  "load_dotenv (Some (save_dotenv_key None ''A'' ([CHR 0x22] @ ''x'' @ [CHR 0x22]))) [] = Inr [(''A'', ''x'')]"
  by code_simp

lemma nameless_line_raises: "load_dotenv (Some ''=x'') [] = Inl (OSError ''invalid argument'')"
  by code_simp

end
