(* ===== verification/Settings.thy ===== *)
theory Settings
  imports Settings_Registry Dotenv Git_Shell
begin

text \<open>
  Editing the settings (\<^verbatim>\<open>src/nightshift/config/validate.py\<close> and the parsers of
  \<^verbatim>\<open>config/player.py\<close>): the validation of a delta against the registry, the routing of its values
  to the files, and the values the editor shows.

  A settings file is its decoded object; a file that is absent, malformed or no object is not in the
  list. The texts and readers of floats and the compiler of patterns are parameters.
\<close>

record settings_env =
  se_ftext :: "rat \<Rightarrow> string"
  se_float :: "string \<Rightarrow> rat option"
  se_regex :: "string \<Rightarrow> string option"

section \<open>Durations and sizes\<close>

text \<open>One match of the pattern of a duration at the start of a text: its length, number and unit.\<close>

definition unit_seconds :: "char \<Rightarrow> nat option" where
  "unit_seconds c = (if c = CHR ''s'' then Some 1 else if c = CHR ''m'' then Some 60 else if c = CHR ''h'' then Some 3600 else None)"

definition number_of :: "string \<Rightarrow> nat" where
  "number_of ds = foldl (\<lambda>v c. 10 * v + digit_val c) 0 ds"

definition match_duration :: "string \<Rightarrow> (nat \<times> nat) option" where
  "match_duration s =
     (let ds = takeWhile is_digit s; r = dropWhile is_digit s; ws = takeWhile is_space r; u = dropWhile is_space r in
      if ds = [] \<or> length ds > 9 \<or> length ws > 10 then None
      else case u of [] \<Rightarrow> None
        | c # _ \<Rightarrow> map_option (\<lambda>k. (length ds + length ws + 1, number_of ds * k)) (unit_seconds c))"

text \<open>The matches of a text from left to right, each with its text and its seconds.\<close>

function duration_matches :: "string \<Rightarrow> (string \<times> nat) list" where
  "duration_matches s =
     (if s = [] then []
      else case match_duration s of
        None \<Rightarrow> duration_matches (tl s)
      | Some (n, secs) \<Rightarrow> (take n s, secs) # duration_matches (drop n s))"
  by pat_completeness auto
termination
  by (relation "measure length") (auto simp: match_duration_def Let_def split: if_splits list.splits)

declare duration_matches.simps [simp del]

definition without_spaces :: "string \<Rightarrow> string" where
  "without_spaces s = filter (\<lambda>c. c \<noteq> CHR '' '') s"

definition parse_duration :: "(rat \<Rightarrow> string) \<Rightarrow> pyval \<Rightarrow> py_error + int" where
  "parse_duration ftext v =
     (let body = py_lower (py_strip (py_str ftext v)); ms = duration_matches body; seconds = sum_list (map snd ms) in
      if body = [] then Inl (ValueError ''interval is empty'')
      else if ms = [] \<or> concat (map (without_spaces \<circ> fst) ms) \<noteq> without_spaces body
        then Inl (ValueError (''invalid duration: '' @ py_repr ftext v @ '' (use e.g. 30m, 2h, 1h30m)''))
      else if seconds = 0 then Inl (ValueError ''interval must be greater than zero'')
      else Inr (int seconds))"

definition si_multiplier :: "string \<Rightarrow> int option" where
  "si_multiplier s =
     (if s \<in> {''k'', ''K''} then Some 1024 else if s = ''Mi'' then Some (1024 ^ 2)
      else if s = ''Gi'' then Some (1024 ^ 3) else if s = ''Ti'' then Some (1024 ^ 4) else None)"

definition si_suffix :: "string \<Rightarrow> bool" where
  "si_suffix s \<longleftrightarrow> s \<noteq> [] \<and> hd s \<in> set ''kKMGT'' \<and> tl s \<in> {[], ''i''}"

definition parse_si_int :: "(rat \<Rightarrow> string) \<Rightarrow> pyval \<Rightarrow> py_error + int" where
  "parse_si_int ftext v =
     (case v of PInt i \<Rightarrow> Inr i | PBool b \<Rightarrow> Inr (if b then 1 else 0)
      | _ \<Rightarrow>
          let body = py_strip (py_str ftext v) in
          if body = [] then Inl (ValueError ''value is empty'')
          else case py_int body of Some i \<Rightarrow> Inr i
          | None \<Rightarrow>
              let ds = takeWhile is_digit body; r = dropWhile is_digit body;
                  ws = takeWhile is_space r; suffix = dropWhile is_space r in
              if ds = [] \<or> length ds > 15 \<or> length ws > 10 \<or> \<not> si_suffix suffix
              then Inl (ValueError (''invalid SI value: '' @ py_repr ftext v @ '' (use e.g. 16k, 1Mi, 2Gi)''))
              else case si_multiplier suffix of
                None \<Rightarrow> Inl (ValueError (''unknown SI suffix: '' @ str_repr suffix @ '' (use k, K, Mi, Gi, Ti)''))
              | Some m \<Rightarrow>
                  if int (number_of ds) * m \<le> 0 then Inl (ValueError ''value must be greater than zero'')
                  else Inr (int (number_of ds) * m))"

section \<open>One value\<close>

text \<open>The message of a \<open>ValueError\<close> that was caught.\<close>

definition refusal :: "py_error + 'a \<Rightarrow> string option" where
  "refusal r = (case r of Inl (ValueError m) \<Rightarrow> Some m | _ \<Rightarrow> None)"

fun is_text :: "pyval \<Rightarrow> bool" where
  "is_text (PStr s) = True"
| "is_text _ = False"

fun is_whole :: "pyval \<Rightarrow> bool" where
  "is_whole (PInt i) = True"
| "is_whole _ = False"

fun regex_error :: "settings_env \<Rightarrow> nat \<Rightarrow> pyval list \<Rightarrow> string option" where
  "regex_error e k [] = None"
| "regex_error e k (v # vs) =
     (case v of
        PStr p \<Rightarrow> (case se_regex e p of
            Some m \<Rightarrow> Some (''item '' @ nat_text k @ '': invalid regex: '' @ m)
          | None \<Rightarrow> regex_error e (Suc k) vs)
      | _ \<Rightarrow> Some (''item '' @ nat_text k @ '': expected string''))"

definition check_text :: "settings_env \<Rightarrow> field_spec \<Rightarrow> pyval \<Rightarrow> string option" where
  "check_text e spec v =
     (if \<not> is_text v \<and> v \<noteq> PNone then Some ''expected string''
      else if fs_key spec = ''wip_ref_prefix'' \<and> is_text v then refusal (normalize_wip_prefix (se_ftext e) v)
      else None)"

definition validate_field :: "settings_env \<Rightarrow> field_spec \<Rightarrow> pyval \<Rightarrow> string option" where
  "validate_field e spec v =
     (case fs_type spec of
        FT_BOOL \<Rightarrow> (case v of PBool _ \<Rightarrow> None | _ \<Rightarrow> Some ''expected boolean'')
      | FT_INT \<Rightarrow> (case v of PInt _ \<Rightarrow> None | _ \<Rightarrow> Some ''expected integer'')
      | FT_FLOAT \<Rightarrow> (case v of PInt _ \<Rightarrow> None | PFloat _ \<Rightarrow> None | _ \<Rightarrow> Some ''expected number'')
      | FT_STRING \<Rightarrow> check_text e spec v
      | FT_ENUM \<Rightarrow>
          (case fs_options spec of
             Some (o1 # os) \<Rightarrow>
               if v \<in> PStr ` set (o1 # os) then None
               else Some (''must be one of '' @ py_repr (se_ftext e) (PList (map PStr (o1 # os))))
           | _ \<Rightarrow> None)
      | FT_DURATION \<Rightarrow> if \<not> is_text v then Some ''expected duration string'' else refusal (parse_duration (se_ftext e) v)
      | FT_SI_INT \<Rightarrow>
          if \<not> is_text v \<and> \<not> is_whole v then Some ''expected integer or SI string (e.g. 16k, 1Mi)''
          else refusal (parse_si_int (se_ftext e) v)
      | FT_STRING_LIST \<Rightarrow>
          (case v of PList xs \<Rightarrow> if list_all is_text xs then None else Some ''all items must be strings''
           | _ \<Rightarrow> Some ''expected list of strings'')
      | FT_INT_LIST \<Rightarrow>
          (case v of PList xs \<Rightarrow> if list_all is_whole xs then None else Some ''all items must be integers''
           | _ \<Rightarrow> Some ''expected list of integers'')
      | FT_REGEX_LIST \<Rightarrow>
          (case v of PList xs \<Rightarrow> regex_error e 0 xs | _ \<Rightarrow> Some ''expected list of regex patterns'')
      | FT_STR_MAP \<Rightarrow>
          (case v of PDict d \<Rightarrow> if list_all is_text (dvalues d) then None else Some ''all keys and values must be strings''
           | _ \<Rightarrow> Some ''expected object (string -> string map)''))"

definition validate_model_id :: "bool \<Rightarrow> string \<Rightarrow> string option" where
  "validate_model_id allow_keywords value =
     (let stripped = py_strip value; q = [CHR 0x27] in
      if stripped = [] then (if allow_keywords then None else Some ''model id must not be empty'')
      else if py_lower stripped \<in> set AGNOSTIC then
        (if allow_keywords then None else Some (q @ stripped @ q @ '' is a keyword, not a qualified model id - use provider/model''))
      else if \<not> is_qualified (Some stripped) then
        Some (q @ stripped @ q @ '' requires a provider/ prefix (e.g. claude-code/'' @ stripped @ '')'')
      else None)"

fun model_list_error :: "nat \<Rightarrow> pyval list \<Rightarrow> string option" where
  "model_list_error k [] = None"
| "model_list_error k (v # vs) =
     (case v of
        PStr s \<Rightarrow> (case validate_model_id False s of
            Some m \<Rightarrow> Some (''item '' @ nat_text k @ '': '' @ m)
          | None \<Rightarrow> model_list_error (Suc k) vs)
      | _ \<Rightarrow> model_list_error (Suc k) vs)"

fun model_map_error :: "pydict \<Rightarrow> string option" where
  "model_map_error [] = None"
| "model_map_error ((k, v) # d) =
     (case validate_model_id False k of
        Some m \<Rightarrow> Some (''key '' @ [CHR 0x27] @ k @ [CHR 0x27] @ '': '' @ m)
      | None \<Rightarrow>
          (case (case v of PStr s \<Rightarrow> validate_model_id False s | _ \<Rightarrow> None) of
             Some m \<Rightarrow> Some (''value for '' @ [CHR 0x27] @ k @ [CHR 0x27] @ '': '' @ m)
           | None \<Rightarrow> model_map_error d))"

definition validate_semantic :: "field_spec \<Rightarrow> pyval \<Rightarrow> string option" where
  "validate_semantic spec v =
     (case opt_or (fs_validate spec) [] of rule \<Rightarrow>
      if rule = ''model_id'' then (case v of PStr s \<Rightarrow> validate_model_id False s | _ \<Rightarrow> None)
      else if rule = ''model_id_or_keyword'' then (case v of PStr s \<Rightarrow> validate_model_id True s | _ \<Rightarrow> None)
      else if rule = ''model_id_list'' then (case v of PList xs \<Rightarrow> model_list_error 0 xs | _ \<Rightarrow> None)
      else if rule = ''model_id_map'' then (case v of PDict d \<Rightarrow> model_map_error d | _ \<Rightarrow> None)
      else None)"

definition normalize_field :: "settings_env \<Rightarrow> field_spec \<Rightarrow> pyval \<Rightarrow> py_error + pyval" where
  "normalize_field e spec v =
     (if fs_type spec = FT_SI_INT then bind_result (parse_si_int (se_ftext e) v) (\<lambda>i. Inr (PInt i))
      else if fs_key spec = ''wip_ref_prefix'' \<and> is_text v
        then (case normalize_wip_prefix (se_ftext e) v of Inr t \<Rightarrow> Inr (PStr t) | Inl _ \<Rightarrow> Inr v)
      else Inr v)"

section \<open>A delta\<close>

type_synonym resolved = "(string \<times> pydict) list"
type_synonym errors = "(string \<times> string) list"

definition full_key :: "string \<Rightarrow> string \<Rightarrow> string" where
  "full_key surface key = surface @ ''.'' @ key"

definition resolve_key :: "resolved \<Rightarrow> string \<Rightarrow> string \<Rightarrow> pyval \<Rightarrow> resolved" where
  "resolve_key resolved surface key v = dset resolved surface (dset (dget_or resolved surface []) key v)"

definition delta_field :: "settings_env \<Rightarrow> string \<Rightarrow> string \<times> pyval \<Rightarrow> resolved \<times> errors \<Rightarrow> py_error + resolved \<times> errors" where
  "delta_field e surface = (\<lambda>(key, v) (resolved, errors).
     let refuse = (\<lambda>m. Inr (resolved, dset errors (full_key surface key) m)) in
     case spec_of surface key of
       None \<Rightarrow> refuse ''unknown field''
     | Some spec \<Rightarrow>
         (case validate_field e spec v of
            Some m \<Rightarrow> refuse m
          | None \<Rightarrow>
              (case validate_semantic spec v of
                 Some m \<Rightarrow> refuse m
               | None \<Rightarrow> bind_result (normalize_field e spec v) (\<lambda>w. Inr (resolve_key resolved surface key w, errors)))))"

fun fold_result :: "('x \<Rightarrow> 's \<Rightarrow> 'e + 's) \<Rightarrow> 'x list \<Rightarrow> 's \<Rightarrow> 'e + 's" where
  "fold_result f [] s = Inr s"
| "fold_result f (x # xs) s = bind_result (f x s) (fold_result f xs)"

definition delta_surface :: "settings_env \<Rightarrow> string list \<Rightarrow> string \<times> pyval \<Rightarrow> resolved \<times> errors \<Rightarrow> py_error + resolved \<times> errors" where
  "delta_surface e allowed = (\<lambda>(surface, v) (resolved, errors).
     if surface \<notin> set allowed
     then Inr (resolved, dset errors surface (''unknown or disallowed surface: '' @ surface))
     else case v of
       PDict fs \<Rightarrow> fold_result (delta_field e surface) fs (resolved, errors)
     | _ \<Rightarrow> Inl AttributeError)"

definition validate_delta :: "settings_env \<Rightarrow> string list \<Rightarrow> pydict \<Rightarrow> py_error + resolved \<times> errors" where
  "validate_delta e allowed delta = fold_result (delta_surface e allowed) delta ([], [])"

section \<open>Writing\<close>

record settings_files =
  sf_json :: "(store_file \<times> pydict) list"
  sf_env :: "string option"

definition load_json :: "settings_files \<Rightarrow> store_file \<Rightarrow> pydict" where
  "load_json ws store = dget_or (sf_json ws) store []"

definition save_json :: "store_file \<Rightarrow> pydict \<Rightarrow> settings_files \<Rightarrow> settings_files" where
  "save_json store d ws = ws\<lparr>sf_json := dset (sf_json ws) store d\<rparr>"

fun set_path :: "string list \<Rightarrow> pyval \<Rightarrow> pydict \<Rightarrow> pydict" where
  "set_path [] v d = d"
| "set_path [p] v d = dset d p v"
| "set_path (p # q # ps) v d =
     dset d p (PDict (set_path (q # ps) v (case dget d p of Some (PDict s) \<Rightarrow> s | _ \<Rightarrow> [])))"

fun get_path :: "string list \<Rightarrow> pydict \<Rightarrow> pyval option" where
  "get_path [] d = None"
| "get_path [p] d = dget d p"
| "get_path (p # q # ps) d = (case dget d p of Some (PDict s) \<Rightarrow> get_path (q # ps) s | _ \<Rightarrow> None)"

definition dotted :: "string \<Rightarrow> string list" where
  "dotted key = py_split (CHR ''.'') key"

definition set_dotted :: "string \<Rightarrow> pyval \<Rightarrow> pydict \<Rightarrow> pydict" where
  "set_dotted key v d = set_path (dotted key) v d"

definition get_dotted :: "string \<Rightarrow> pydict \<Rightarrow> pyval option" where
  "get_dotted key d = get_path (dotted key) d"

definition file_key :: "field_spec \<Rightarrow> string" where
  "file_key spec = opt_or (fs_json_key spec) (fs_key spec)"

text \<open>The writes of a resolved delta, grouped by file, and the keys it applies now and later.\<close>

record write_plan =
  wp_live :: "string list"
  wp_restart :: "string list"
  wp_json :: "(store_file \<times> (string \<times> pyval) list) list"
  wp_env :: "(string \<times> string) list"

definition plan_write :: "settings_env \<Rightarrow> string \<Rightarrow> string \<times> pyval \<Rightarrow> write_plan \<Rightarrow> py_error + write_plan" where
  "plan_write e surface = (\<lambda>(key, v) plan.
     case spec_of surface key of
       None \<Rightarrow> Inl (KeyError (full_key surface key))
     | Some spec \<Rightarrow>
         let plan = (if fs_apply spec = ''live'' then plan\<lparr>wp_live := wp_live plan @ [full_key surface key]\<rparr>
                     else plan\<lparr>wp_restart := wp_restart plan @ [full_key surface key]\<rparr>) in
         Inr (if fs_store spec = SF_ENV
              then (case fs_env spec of
                      Some name \<Rightarrow> if name = [] then plan else plan\<lparr>wp_env := wp_env plan @ [(name, py_str (se_ftext e) v)]\<rparr>
                    | None \<Rightarrow> plan)
              else plan\<lparr>wp_json := dset (wp_json plan) (fs_store spec)
                          (dget_or (wp_json plan) (fs_store spec) [] @ [(file_key spec, v)])\<rparr>))"

definition plan_writes :: "settings_env \<Rightarrow> resolved \<Rightarrow> py_error + write_plan" where
  "plan_writes e resolved =
     fold_result (\<lambda>(surface, fs). fold_result (plan_write e surface) fs) resolved
       \<lparr>wp_live = [], wp_restart = [], wp_json = [], wp_env = []\<rparr>"

definition write_env :: "(string \<times> string) list \<Rightarrow> settings_files \<Rightarrow> settings_files" where
  "write_env writes ws = foldl (\<lambda>ws (k, v). ws\<lparr>sf_env := Some (save_dotenv_key (sf_env ws) k v)\<rparr>) ws writes"

definition write_store :: "settings_files \<Rightarrow> store_file \<times> (string \<times> pyval) list \<Rightarrow> settings_files" where
  "write_store ws = (\<lambda>(store, changes). save_json store (foldl (\<lambda>d (k, v). set_dotted k v d) (load_json ws store) changes) ws)"

definition write_delta :: "settings_env \<Rightarrow> resolved \<Rightarrow> settings_files \<Rightarrow> py_error + settings_files \<times> string list \<times> string list" where
  "write_delta e resolved ws =
     bind_result (plan_writes e resolved) (\<lambda>plan.
       Inr (foldl write_store (write_env (wp_env plan) ws) (wp_json plan), wp_live plan, wp_restart plan))"

text \<open>The request that edits the settings: nothing is written unless every field is accepted.\<close>

definition put_settings :: "settings_env \<Rightarrow> string list \<Rightarrow> pydict \<Rightarrow> settings_files \<Rightarrow>
    py_error + settings_files \<times> (errors + string list \<times> string list)" where
  "put_settings e surfaces body ws =
     bind_result (validate_delta e surfaces body) (\<lambda>(resolved, errors).
       if errors \<noteq> [] then Inr (ws, Inl errors)
       else bind_result (write_delta e resolved ws) (\<lambda>(ws', live, restart). Inr (ws', Inr (live, restart))))"

section \<open>The values the editor shows\<close>

definition effective_value :: "settings_env \<Rightarrow> field_spec \<Rightarrow> pyval \<Rightarrow> string \<Rightarrow> pyval" where
  "effective_value e spec stored text =
     (case fs_type spec of
        FT_INT \<Rightarrow> (case py_int text of Some i \<Rightarrow> PInt i | None \<Rightarrow> stored)
      | FT_FLOAT \<Rightarrow> (case se_float e text of Some q \<Rightarrow> PFloat q | None \<Rightarrow> stored)
      | FT_BOOL \<Rightarrow> PBool (py_lower text \<in> {''true'', ''1'', ''yes''})
      | _ \<Rightarrow> PStr text)"

definition field_value :: "settings_env \<Rightarrow> environ \<Rightarrow> field_spec \<Rightarrow> pydict \<Rightarrow> pydict" where
  "field_value e env spec file =
     (let variable = opt_or (fs_env spec) []; text = (if variable = [] then None else dget env variable) in
      if fs_secret spec then
        [(''stored'', PNone), (''is_set'', PBool (opt_or text [] \<noteq> [])), (''effective'', PNone), (''env'', PStr variable),
         (''env_shadowed'', PBool False)]
      else
        let stored = (case get_dotted (file_key spec) file of Some v \<Rightarrow> v | None \<Rightarrow> fs_default spec) in
        [(''stored'', stored),
         (''effective'', case text of Some t \<Rightarrow> effective_value e spec stored t | None \<Rightarrow> stored),
         (''env'', PStr (str_or variable ''-'')), (''env_shadowed'', PBool (text \<noteq> None))])"

end
