(* ===== verification/Settings_Load.thy ===== *)
theory Settings_Load
  imports Settings
begin

text \<open>
  What a process makes of its settings at start: the manager's, the worker's and the player's objects
  read from environment and file, and the file that holds such an object
  (\<^verbatim>\<open>src/nightshift/config/manager.py\<close>, \<^verbatim>\<open>worker.py\<close>, \<^verbatim>\<open>player.py\<close>). A value the code takes
  as it is, of whatever type the file has, is a Python value.
\<close>

section \<open>Reading values\<close>

text \<open>\<open>a or b\<close>, a variable of the environment and a key of a file, with \<open>None\<close> for one that is absent.\<close>

definition py_or :: "pyval \<Rightarrow> pyval \<Rightarrow> pyval" where
  "py_or a b = (if truthy a then a else b)"

definition variable :: "environ \<Rightarrow> string \<Rightarrow> pyval" where
  "variable env name = (case dget env name of Some t \<Rightarrow> PStr t | None \<Rightarrow> PNone)"

definition stored_value :: "pydict \<Rightarrow> string \<Rightarrow> pyval" where
  "stored_value d k = dget_or d k PNone"

fun float_of :: "settings_env \<Rightarrow> pyval \<Rightarrow> py_error + rat" where
  "float_of e (PInt i) = Inr (of_int i)"
| "float_of e (PBool b) = Inr (if b then 1 else 0)"
| "float_of e (PFloat q) = Inr q"
| "float_of e (PStr s) = (case se_float e s of Some q \<Rightarrow> Inr q
     | None \<Rightarrow> Inl (ValueError (''could not convert string to float: '' @ str_repr s)))"
| "float_of e _ = Inl TypeError"

definition or_default :: "py_error + 'a \<Rightarrow> 'a \<Rightarrow> 'a" where
  "or_default r d = (case r of Inr x \<Rightarrow> x | Inl _ \<Rightarrow> d)"

definition as_float :: "settings_env \<Rightarrow> pyval \<Rightarrow> rat \<Rightarrow> rat" where
  "as_float e v d = or_default (float_of e v) d"

definition as_int :: "pyval \<Rightarrow> int \<Rightarrow> int" where
  "as_int v d = or_default (int_of v) d"

definition as_tuple :: "settings_env \<Rightarrow> pyval \<Rightarrow> string list \<Rightarrow> string list" where
  "as_tuple e v d = (case v of PList xs \<Rightarrow> map (py_str (se_ftext e)) xs | _ \<Rightarrow> d)"

section \<open>The manager\<close>

record cadences =
  cd_poll_seconds :: rat
  cd_heartbeat_seconds :: rat
  cd_lease_ttl_seconds :: rat
  cd_worker_stale_seconds :: rat
  cd_refresh_ms :: int
  cd_git_refresh_seconds :: rat
  cd_ci_refresh_seconds :: rat
  cd_auto_import_seconds :: rat

record operator_config =
  oc_max_per_day :: int
  oc_max_concurrent_queues :: int
  oc_max_nights_before_parking :: int
  oc_default_model :: pyval
  oc_enhance_brief_model :: pyval
  oc_claude_billing :: string
  oc_planner_model :: pyval
  oc_scheduled_models_allow :: "string list"
  oc_landing_mode :: landing_mode
  oc_rendezvous_remote :: "string option"
  oc_wip_ref_prefix :: string
  oc_tasks_repo :: pyval
  oc_automerge :: bool
  oc_draft :: bool
  oc_max_push_retries :: int
  oc_validate_on_integrate :: bool
  oc_forbidden_paths :: "string list"
  oc_forbidden_template_paths :: "string list"
  oc_diff_cap_lines :: int
  oc_diff_cap_exempt_paths :: "string list"
  oc_max_fix_attempts :: int
  oc_validate_cmd :: string
  oc_quarantine_threshold :: int
  oc_retry_backoff_seconds :: rat
  oc_document_cap_bytes :: int
  oc_allowed_doc_media_types :: "string list"
  oc_document_budget_bytes :: int
  oc_auto_resolve :: bool
  oc_max_resolve_attempts :: int
  oc_resolve_model :: pyval
  oc_resolve_backend :: pyval
  oc_max_concurrent_resolves :: int

record manager_settings =
  ms_host :: pyval
  ms_port :: int
  ms_shared_secret :: "string option"
  ms_dsn :: "string option"
  ms_cadences :: cadences
  ms_operator :: operator_config
  ms_raw :: pydict

definition cadences_of :: "settings_env \<Rightarrow> pydict \<Rightarrow> cadences" where
  "cadences_of e d =
     (let c = (case dget d ''cadences'' of Some (PDict c) \<Rightarrow> c | _ \<Rightarrow> []) in
      \<lparr>cd_poll_seconds = as_float e (stored_value c ''poll_seconds'') 5,
       cd_heartbeat_seconds = as_float e (stored_value c ''heartbeat_seconds'') 10,
       cd_lease_ttl_seconds = as_float e (stored_value c ''lease_ttl_seconds'') 120,
       cd_worker_stale_seconds = as_float e (stored_value c ''worker_stale_seconds'') 45,
       cd_refresh_ms = as_int (stored_value c ''refresh_ms'') 20000,
       cd_git_refresh_seconds = as_float e (dget_or c ''git_refresh_seconds'' (stored_value c ''origin_sync_seconds'')) 15,
       cd_ci_refresh_seconds = as_float e (stored_value c ''ci_refresh_seconds'') 120,
       cd_auto_import_seconds = as_float e (stored_value c ''auto_import_seconds'') 60\<rparr>)"

fun landing_mode_value :: "landing_mode \<Rightarrow> string" where
  "landing_mode_value LM_NONE = ''none''"
| "landing_mode_value LM_PUSH = ''push''"
| "landing_mode_value LM_PR = ''pr''"

definition landing_mode_of :: "settings_env \<Rightarrow> pyval \<Rightarrow> py_error + landing_mode" where
  "landing_mode_of e v =
     (case find (\<lambda>m. v = PStr (landing_mode_value m)) [LM_NONE, LM_PUSH, LM_PR] of
        Some m \<Rightarrow> Inr m
      | None \<Rightarrow> Inl (ValueError (py_repr (se_ftext e) v @ '' is not a valid LandingMode'')))"

definition rendezvous_of :: "settings_env \<Rightarrow> environ \<Rightarrow> pydict \<Rightarrow> string option" where
  "rendezvous_of e env d =
     (let name = opt_or (dget env ''NIGHTSHIFT_RENDEZVOUS_REMOTE'') [] in
      if name \<noteq> [] then Some name
      else case dget d ''rendezvous_remote'' of
        Some v \<Rightarrow> if truthy v then Some (py_str (se_ftext e) v) else None
      | None \<Rightarrow> Some ''origin'')"

definition wip_prefix_of :: "settings_env \<Rightarrow> environ \<Rightarrow> pydict \<Rightarrow> py_error + string" where
  "wip_prefix_of e env d =
     (case normalize_wip_prefix (se_ftext e)
             (py_or (variable env ''NIGHTSHIFT_WIP_REF_PREFIX'') (py_or (stored_value d ''wip_ref_prefix'') (PStr WIP_REF_PREFIX))) of
        Inl (ValueError m) \<Rightarrow> Inr WIP_REF_PREFIX
      | r \<Rightarrow> r)"

definition DEFAULT_SCHEDULED :: "string list" where
  "DEFAULT_SCHEDULED = [''claude-code/claude-sonnet-4-6'', ''claude-code/claude-opus-4-8'']"

definition DEFAULT_MEDIA_TYPES :: "string list" where
  "DEFAULT_MEDIA_TYPES =
     [''text/*'', ''application/json'', ''application/yaml'', ''image/png'', ''image/jpeg'', ''image/gif'', ''image/webp'',
      ''application/pdf'']"

definition backslash_text :: "string \<Rightarrow> string \<Rightarrow> string" where
  "backslash_text a b = a @ [CHR 0x5C] @ b"

definition operator_of ::
  "settings_env \<Rightarrow> environ \<Rightarrow> pydict \<Rightarrow> landing_mode \<Rightarrow> string \<Rightarrow> string \<Rightarrow> operator_config" where
  "operator_of e env d mode prefix billing =
     \<lparr>oc_max_per_day = as_int (stored_value d ''max_per_day'') 200,
      oc_max_concurrent_queues = as_int (stored_value d ''max_concurrent_queues'') 2,
      oc_max_nights_before_parking = as_int (stored_value d ''max_nights_before_parking'') 2,
      oc_default_model =
        py_or (variable env ''NIGHTSHIFT_DEFAULT_MODEL'') (py_or (stored_value d ''default_model'') (PStr ''auto'')),
      oc_enhance_brief_model =
        py_or (variable env ''NIGHTSHIFT_ENHANCE_MODEL'')
          (py_or (stored_value d ''enhance_brief_model'') (PStr ''anthropic/claude-sonnet-4-6'')),
      oc_claude_billing = billing,
      oc_planner_model =
        py_or (variable env ''NIGHTSHIFT_PLANNER_MODEL'') (py_or (stored_value d ''planner_model'') (PStr [])),
      oc_scheduled_models_allow =
        as_tuple e (py_or (stored_value d ''scheduled_models_allow'') (stored_value d ''scheduled_models'')) DEFAULT_SCHEDULED,
      oc_landing_mode = mode,
      oc_rendezvous_remote = rendezvous_of e env d,
      oc_wip_ref_prefix = prefix,
      oc_tasks_repo =
        py_or (variable env ''NIGHTSHIFT_TASKS_REPO'') (py_or (stored_value d ''tasks_repo'') (PStr ''nightshift-tasks'')),
      oc_automerge = truthy (dget_or d ''automerge'' (PBool False)),
      oc_draft = truthy (dget_or d ''draft'' (PBool False)),
      oc_max_push_retries = as_int (stored_value d ''max_push_retries'') 3,
      oc_validate_on_integrate = truthy (dget_or d ''validate_on_integrate'' (PBool False)),
      oc_forbidden_paths = as_tuple e (stored_value d ''forbidden_paths'')
        [backslash_text ''^'' ''.github/workflows/'', backslash_text ''^CLAUDE'' ''.md$'', backslash_text ''^AGENTS'' ''.md$''],
      oc_forbidden_template_paths = as_tuple e (stored_value d ''forbidden_template_paths'') [''^tools/nightshift/templates/''],
      oc_diff_cap_lines = as_int (stored_value d ''diff_cap_lines'') 1500,
      oc_diff_cap_exempt_paths = as_tuple e (stored_value d ''diff_cap_exempt_paths'')
        [''^tests/fixtures/'', ''^docs/'', backslash_text [] ''.md$''],
      oc_max_fix_attempts = as_int (stored_value d ''max_fix_attempts'') 6,
      oc_validate_cmd = py_str (se_ftext e)
        (if dhas d ''validate'' then stored_value d ''validate'' else dget_or d ''validate_cmd'' (PStr ''just validate'')),
      oc_quarantine_threshold =
        as_int (py_or (variable env ''NIGHTSHIFT_QUARANTINE_THRESHOLD'') (stored_value d ''quarantine_threshold'')) 2,
      oc_retry_backoff_seconds = as_float e (stored_value d ''retry_backoff_seconds'') 60,
      oc_document_cap_bytes = 256 * 1024,
      oc_allowed_doc_media_types = DEFAULT_MEDIA_TYPES,
      oc_document_budget_bytes = 4 * 1024 * 1024,
      oc_auto_resolve = truthy (dget_or d ''auto_resolve'' (PBool True)),
      oc_max_resolve_attempts = as_int (stored_value d ''max_resolve_attempts'') 2,
      oc_resolve_model = stored_value d ''resolve_model'',
      oc_resolve_backend = stored_value d ''resolve_backend'',
      oc_max_concurrent_resolves = as_int (stored_value d ''max_concurrent_resolves'') 1\<rparr>"

text \<open>The object for an environment that has the secrets already, then with the file of secrets loaded first.\<close>

definition resolve_manager :: "settings_env \<Rightarrow> environ \<Rightarrow> pydict \<Rightarrow> py_error + manager_settings" where
  "resolve_manager e env d =
     bind_result (landing_mode_of e
         (py_or (variable env ''NIGHTSHIFT_LANDING_MODE'') (py_or (stored_value d ''landing_mode'') (PStr ''none'')))) (\<lambda>mode.
     bind_result (wip_prefix_of e env d) (\<lambda>prefix.
     bind_result (billing_setting (se_ftext e) (Some d)) (\<lambda>billing.
       Inr \<lparr>ms_host = py_or (variable env ''NIGHTSHIFT_MANAGER_HOST'') (py_or (stored_value d ''host'') (PStr ''0.0.0.0'')),
            ms_port = as_int (py_or (variable env ''NIGHTSHIFT_MANAGER_PORT'') (stored_value d ''port'')) 8800,
            ms_shared_secret = (case dget env ''NIGHTSHIFT_SHARED_SECRET'' of Some [] \<Rightarrow> None | s \<Rightarrow> s),
            ms_dsn = (case dget env ''NIGHTSHIFT_PG_DSN'' of Some [] \<Rightarrow> None | s \<Rightarrow> s),
            ms_cadences = cadences_of e d, ms_operator = operator_of e env d mode prefix billing, ms_raw = d\<rparr>)))"

definition load_manager_settings :: "settings_env \<Rightarrow> settings_files \<Rightarrow> environ \<Rightarrow> py_error + environ \<times> manager_settings" where
  "load_manager_settings e ws env =
     bind_result (load_dotenv (sf_env ws) env) (\<lambda>env'.
     bind_result (resolve_manager e env' (load_json ws SF_MANAGER)) (\<lambda>ms. Inr (env', ms)))"

definition optional :: "string option \<Rightarrow> pyval" where
  "optional v = (case v of Some t \<Rightarrow> PStr t | None \<Rightarrow> PNone)"

definition manager_file :: "manager_settings \<Rightarrow> pydict" where
  "manager_file ms =
     [(''host'', ms_host ms),
      (''port'', PInt (ms_port ms)),
      (''landing_mode'', PStr (landing_mode_value (oc_landing_mode (ms_operator ms)))),
      (''rendezvous_remote'', optional (oc_rendezvous_remote (ms_operator ms))),
      (''tasks_repo'', oc_tasks_repo (ms_operator ms)),
      (''wip_ref_prefix'', PStr (oc_wip_ref_prefix (ms_operator ms))),
      (''cadences'', PDict
          [(''poll_seconds'', PFloat (cd_poll_seconds (ms_cadences ms))),
           (''heartbeat_seconds'', PFloat (cd_heartbeat_seconds (ms_cadences ms))),
           (''lease_ttl_seconds'', PFloat (cd_lease_ttl_seconds (ms_cadences ms))),
           (''worker_stale_seconds'', PFloat (cd_worker_stale_seconds (ms_cadences ms))),
           (''refresh_ms'', PInt (cd_refresh_ms (ms_cadences ms))),
           (''git_refresh_seconds'', PFloat (cd_git_refresh_seconds (ms_cadences ms))),
           (''ci_refresh_seconds'', PFloat (cd_ci_refresh_seconds (ms_cadences ms))),
           (''auto_import_seconds'', PFloat (cd_auto_import_seconds (ms_cadences ms)))]),
      (''default_model'', oc_default_model (ms_operator ms)),
      (''enhance_brief_model'', oc_enhance_brief_model (ms_operator ms)),
      (''claude_billing'', PStr (oc_claude_billing (ms_operator ms))),
      (''planner_model'', oc_planner_model (ms_operator ms)),
      (''scheduled_models_allow'', PList (map PStr (oc_scheduled_models_allow (ms_operator ms)))),
      (''max_per_day'', PInt (oc_max_per_day (ms_operator ms))),
      (''max_concurrent_queues'', PInt (oc_max_concurrent_queues (ms_operator ms))),
      (''max_nights_before_parking'', PInt (oc_max_nights_before_parking (ms_operator ms))),
      (''automerge'', PBool (oc_automerge (ms_operator ms))),
      (''draft'', PBool (oc_draft (ms_operator ms))),
      (''max_push_retries'', PInt (oc_max_push_retries (ms_operator ms))),
      (''validate_on_integrate'', PBool (oc_validate_on_integrate (ms_operator ms))),
      (''diff_cap_lines'', PInt (oc_diff_cap_lines (ms_operator ms))),
      (''diff_cap_exempt_paths'', PList (map PStr (oc_diff_cap_exempt_paths (ms_operator ms)))),
      (''forbidden_paths'', PList (map PStr (oc_forbidden_paths (ms_operator ms)))),
      (''forbidden_template_paths'', PList (map PStr (oc_forbidden_template_paths (ms_operator ms)))),
      (''max_fix_attempts'', PInt (oc_max_fix_attempts (ms_operator ms))),
      (''validate'', PStr (oc_validate_cmd (ms_operator ms))),
      (''quarantine_threshold'', PInt (oc_quarantine_threshold (ms_operator ms))),
      (''retry_backoff_seconds'', PFloat (oc_retry_backoff_seconds (ms_operator ms))),
      (''auto_resolve'', PBool (oc_auto_resolve (ms_operator ms))),
      (''max_resolve_attempts'', PInt (oc_max_resolve_attempts (ms_operator ms))),
      (''resolve_model'', oc_resolve_model (ms_operator ms)),
      (''resolve_backend'', oc_resolve_backend (ms_operator ms)),
      (''max_concurrent_resolves'', PInt (oc_max_concurrent_resolves (ms_operator ms)))]"

definition save_manager_settings :: "manager_settings \<Rightarrow> settings_files \<Rightarrow> settings_files" where
  "save_manager_settings ms = save_json SF_MANAGER (manager_file ms)"

text \<open>The flat object the manager works with.\<close>

record loaded_config =
  lc_host :: pyval
  lc_port :: int
  lc_landing_mode :: landing_mode
  lc_default_model :: pyval
  lc_enhance_brief_model :: pyval
  lc_claude_billing :: string
  lc_planner_model :: pyval
  lc_shared_secret :: "string option"
  lc_dsn :: "string option"
  lc_tasks_repo :: pyval
  lc_rendezvous_remote :: "string option"
  lc_wip_ref_prefix :: string
  lc_quarantine_threshold :: int
  lc_retry_backoff_seconds :: rat
  lc_max_push_retries :: int
  lc_validate_on_integrate :: bool
  lc_auto_resolve :: bool
  lc_max_concurrent_resolves :: int
  lc_cadences :: cadences
  lc_raw :: pydict

definition config_of :: "manager_settings \<Rightarrow> loaded_config" where
  "config_of ms =
     \<lparr>lc_host = ms_host ms,
      lc_port = ms_port ms,
      lc_landing_mode = oc_landing_mode (ms_operator ms),
      lc_default_model = oc_default_model (ms_operator ms),
      lc_enhance_brief_model = oc_enhance_brief_model (ms_operator ms),
      lc_claude_billing = oc_claude_billing (ms_operator ms),
      lc_planner_model = oc_planner_model (ms_operator ms),
      lc_shared_secret = ms_shared_secret ms,
      lc_dsn = ms_dsn ms,
      lc_tasks_repo = oc_tasks_repo (ms_operator ms),
      lc_rendezvous_remote = oc_rendezvous_remote (ms_operator ms),
      lc_wip_ref_prefix = oc_wip_ref_prefix (ms_operator ms),
      lc_quarantine_threshold = oc_quarantine_threshold (ms_operator ms),
      lc_retry_backoff_seconds = oc_retry_backoff_seconds (ms_operator ms),
      lc_max_push_retries = oc_max_push_retries (ms_operator ms),
      lc_validate_on_integrate = oc_validate_on_integrate (ms_operator ms),
      lc_auto_resolve = oc_auto_resolve (ms_operator ms),
      lc_max_concurrent_resolves = oc_max_concurrent_resolves (ms_operator ms),
      lc_cadences = ms_cadences ms,
      lc_raw = ms_raw ms\<rparr>"

definition load_manager_config :: "settings_env \<Rightarrow> settings_files \<Rightarrow> environ \<Rightarrow> py_error + environ \<times> loaded_config" where
  "load_manager_config e ws env = bind_result (load_manager_settings e ws env) (\<lambda>(env', ms). Inr (env', config_of ms))"

section \<open>The player\<close>

record player_config =
  pc_theme :: pyval
  pc_transport_mode :: pyval
  pc_repeat_interval :: pyval

definition load_player_config :: "settings_files \<Rightarrow> player_config" where
  "load_player_config ws =
     (let d = load_json ws SF_PLAYER in
      \<lparr>pc_theme = dget_or d ''theme'' (PStr ''dark''), pc_transport_mode = dget_or d ''transport_mode'' (PStr ''auto''),
       pc_repeat_interval = dget_or d ''repeat_interval'' (PStr ''30m'')\<rparr>)"

definition player_file :: "player_config \<Rightarrow> pydict" where
  "player_file c =
     [(''theme'', pc_theme c), (''transport_mode'', pc_transport_mode c), (''repeat_interval'', pc_repeat_interval c)]"

definition save_player_config :: "player_config \<Rightarrow> settings_files \<Rightarrow> settings_files" where
  "save_player_config c = save_json SF_PLAYER (player_file c)"

section \<open>The worker\<close>

record harness_config =
  hc_enabled :: bool
  hc_vendor :: string
  hc_model :: string
  hc_max_tokens :: int
  hc_effort :: string
  hc_enable_cache :: bool
  hc_cache_ttl :: string
  hc_max_retries :: int
  hc_tools_enabled :: "string list"
  hc_context_policy :: string

record worker_config =
  wc_workspace :: string
  wc_worker_id :: pyval
  wc_manager_url :: string
  wc_shared_secret :: "string option"
  wc_rendezvous_remote :: pyval
  wc_queues :: "string list option"
  wc_priorities :: "int list option"
  wc_mcps :: "string list"
  wc_models :: "string list"
  wc_model_aliases :: pydict
  wc_auto_model :: string
  wc_max_model :: string
  wc_model_timeout_seconds :: rat
  wc_claude_billing :: string
  wc_quarantine :: bool
  wc_worker_url :: pyval
  wc_ui_host :: pyval
  wc_ui_port :: int
  wc_refresh_ms :: int
  wc_nightshift :: harness_config
  wc_raw :: pydict

definition parse_bool :: "string option \<Rightarrow> pyval \<Rightarrow> bool" where
  "parse_bool given fallback =
     (case given of Some t \<Rightarrow> py_lower t \<in> {''1'', ''true'', ''yes''} | None \<Rightarrow> truthy fallback)"

definition csv_list :: "string option \<Rightarrow> string list option" where
  "csv_list v =
     (case v of None \<Rightarrow> None
      | Some t \<Rightarrow> (case filter (\<lambda>x. x \<noteq> []) (map py_strip (py_split (CHR '','') t)) of [] \<Rightarrow> None | xs \<Rightarrow> Some xs))"

definition int_csv :: "string option \<Rightarrow> int list option" where
  "int_csv v =
     (case csv_list v of None \<Rightarrow> None
      | Some items \<Rightarrow> (case List.map_filter py_int items of [] \<Rightarrow> None | xs \<Rightarrow> Some xs))"

text \<open>A list of the file, when the environment has none: its items as texts.\<close>

definition listed_texts :: "settings_env \<Rightarrow> environ \<Rightarrow> string \<Rightarrow> pydict \<Rightarrow> string \<Rightarrow> string list option" where
  "listed_texts e env name d k =
     (case csv_list (dget env name) of Some xs \<Rightarrow> Some xs
      | None \<Rightarrow> (case stored_value d k of PList xs \<Rightarrow> Some (map (py_str (se_ftext e)) xs) | _ \<Rightarrow> None))"

definition priorities_of :: "environ \<Rightarrow> pydict \<Rightarrow> py_error + int list option" where
  "priorities_of env d =
     (case int_csv (dget env ''NIGHTSHIFT_WORKER_PRIORITIES'') of Some xs \<Rightarrow> Inr (Some xs)
      | None \<Rightarrow> (case stored_value d ''priorities'' of
          PList xs \<Rightarrow> bind_result (map_result int_of xs) (\<lambda>is. Inr (Some is)) | _ \<Rightarrow> Inr None))"

definition nonempty_list :: "'a list option \<Rightarrow> 'a list option" where
  "nonempty_list v = (case v of Some [] \<Rightarrow> None | _ \<Rightarrow> v)"

text \<open>Bare models get the provider of an old single-backend file.\<close>

definition join_legacy :: "settings_env \<Rightarrow> pyval \<Rightarrow> string \<Rightarrow> py_error + string" where
  "join_legacy e legacy m =
     (if \<not> truthy legacy \<or> m = [] then Inl (ValueError ''provider and model must both be non-empty'')
      else Inr (py_str (se_ftext e) legacy @ ''/'' @ m))"

definition qualify :: "settings_env \<Rightarrow> string list \<Rightarrow> pyval \<Rightarrow> py_error + string list" where
  "qualify e models legacy =
     (if \<not> truthy legacy then Inr models
      else map_result (\<lambda>m. if is_qualified (Some m) then Inr m else join_legacy e legacy m) models)"

definition legacy_single :: "settings_env \<Rightarrow> pyval \<Rightarrow> pyval \<Rightarrow> string \<Rightarrow> py_error + string" where
  "legacy_single e legacy value d =
     (case value of
        PStr v \<Rightarrow>
          if py_strip v = [] then Inr d
          else if is_qualified (Some v) then Inr v
          else bind_result (qualify e [v] legacy) (\<lambda>ms. Inr (hd ms))
      | PDict m \<Rightarrow>
          if \<not> truthy legacy then Inr d
          else (case legacy of
              PList _ \<Rightarrow> Inl TypeError
            | PDict _ \<Rightarrow> Inl TypeError
            | PStr k \<Rightarrow>
                if truthy (stored_value m k) then join_legacy e legacy (py_str (se_ftext e) (stored_value m k)) else Inr d
            | _ \<Rightarrow> Inr d)
      | _ \<Rightarrow> Inr d)"

definition load_nightshift :: "settings_env \<Rightarrow> pyval \<Rightarrow> py_error + harness_config" where
  "load_nightshift e data =
     (let d = (case data of PDict d \<Rightarrow> d | _ \<Rightarrow> []);
          text = (\<lambda>k v. py_str (se_ftext e) (dget_or d k (PStr v))) in
      bind_result (parse_si_int (se_ftext e) (dget_or d ''max_tokens'' (PInt 4096))) (\<lambda>max_tokens.
      bind_result (int_of (dget_or d ''max_retries'' (PInt 2))) (\<lambda>max_retries.
        Inr \<lparr>hc_enabled = parse_bool None (dget_or d ''enabled'' (PBool False)), hc_vendor = text ''vendor'' ''anthropic'',
             hc_model = text ''model'' ''claude-sonnet-4-6'', hc_max_tokens = max_tokens, hc_effort = text ''effort'' ''off'',
             hc_enable_cache = parse_bool None (dget_or d ''enable_cache'' (PBool True)),
             hc_cache_ttl = text ''cache_ttl'' ''5m'', hc_max_retries = max_retries,
             hc_tools_enabled = as_tuple e (stored_value d ''tools_enabled'') [],
             hc_context_policy = text ''context_policy'' ''spans''\<rparr>)))"

text \<open>\<open>(env or file or default).rstrip('/')\<close>: a value that is no text has no such method.\<close>

definition manager_url_of :: "environ \<Rightarrow> pydict \<Rightarrow> py_error + string" where
  "manager_url_of env d =
     (case py_or (variable env ''NIGHTSHIFT_MANAGER_URL'') (py_or (stored_value d ''manager_url'') (PStr ''http://localhost:8800'')) of
        PStr t \<Rightarrow> Inr (rev (dropWhile (\<lambda>c. c = CHR ''/'') (rev t)))
      | _ \<Rightarrow> Inl AttributeError)"

definition resolve_worker :: "settings_env \<Rightarrow> string \<Rightarrow> string \<Rightarrow> environ \<Rightarrow> pydict \<Rightarrow> py_error + worker_config" where
  "resolve_worker e identity workspace env d =
     (let legacy = stored_value d ''backend'';
          first = (\<lambda>name k v. py_or (variable env name) (py_or (stored_value d k) v)) in
      bind_result (manager_url_of env d) (\<lambda>url.
      bind_result (priorities_of env d) (\<lambda>priorities.
      bind_result (qualify e (case listed_texts e env ''NIGHTSHIFT_WORKER_MODELS'' d ''models'' of Some ms \<Rightarrow> ms | None \<Rightarrow> []) legacy) (\<lambda>models.
      bind_result (legacy_single e legacy (stored_value d ''auto_model'') DEFAULT_AUTO_MODEL) (\<lambda>auto_model.
      bind_result (legacy_single e legacy (stored_value d ''max_model'') DEFAULT_MAX_MODEL) (\<lambda>max_model.
      bind_result (float_of e (first ''NIGHTSHIFT_MODEL_TIMEOUT_SECONDS'' ''model_timeout_seconds'' (PFloat 0))) (\<lambda>timeout.
      bind_result (billing_setting (se_ftext e) (Some d)) (\<lambda>billing.
      bind_result (int_of (first ''NIGHTSHIFT_WORKER_UI_PORT'' ''ui_port'' (PInt 8810))) (\<lambda>ui_port.
      bind_result (load_nightshift e (stored_value d ''nightshift'')) (\<lambda>harness.
        Inr \<lparr>wc_workspace = workspace, wc_worker_id = first ''NIGHTSHIFT_WORKER_ID'' ''worker_id'' (PStr identity),
             wc_manager_url = url,
             wc_shared_secret = (case dget env ''NIGHTSHIFT_SHARED_SECRET'' of Some [] \<Rightarrow> None | s \<Rightarrow> s),
             wc_rendezvous_remote = first ''NIGHTSHIFT_RENDEZVOUS_REMOTE'' ''rendezvous_remote'' PNone,
             wc_queues = nonempty_list (listed_texts e env ''NIGHTSHIFT_WORKER_QUEUES'' d ''queues''),
             wc_priorities = nonempty_list priorities,
             wc_mcps = (case listed_texts e env ''NIGHTSHIFT_WORKER_MCPS'' d ''mcps'' of Some ms \<Rightarrow> ms | None \<Rightarrow> []),
             wc_models = models,
             wc_model_aliases = (case stored_value d ''model_aliases'' of PDict m \<Rightarrow> m | _ \<Rightarrow> []),
             wc_auto_model = auto_model, wc_max_model = max_model, wc_model_timeout_seconds = timeout,
             wc_claude_billing = billing,
             wc_quarantine = parse_bool (dget env ''NIGHTSHIFT_WORKER_QUARANTINE'') (dget_or d ''quarantine'' (PBool False)),
             wc_worker_url = first ''NIGHTSHIFT_WORKER_URL'' ''worker_url'' PNone,
             wc_ui_host = first ''NIGHTSHIFT_WORKER_UI_HOST'' ''ui_host'' (PStr ''0.0.0.0''), wc_ui_port = ui_port,
             wc_refresh_ms = 3000, wc_nightshift = harness, wc_raw = d\<rparr>))))))))))"

definition load_worker_config ::
  "settings_env \<Rightarrow> string \<Rightarrow> string \<Rightarrow> settings_files \<Rightarrow> environ \<Rightarrow> py_error + environ \<times> worker_config" where
  "load_worker_config e identity workspace ws env =
     bind_result (load_dotenv (sf_env ws) env) (\<lambda>env'.
     bind_result (resolve_worker e identity workspace env' (load_json ws SF_WORKER)) (\<lambda>wc. Inr (env', wc)))"

definition harness_file :: "harness_config \<Rightarrow> pydict" where
  "harness_file h =
     [(''enabled'', PBool (hc_enabled h)), (''vendor'', PStr (hc_vendor h)), (''model'', PStr (hc_model h)),
      (''max_tokens'', PInt (hc_max_tokens h)), (''effort'', PStr (hc_effort h)), (''enable_cache'', PBool (hc_enable_cache h)),
      (''cache_ttl'', PStr (hc_cache_ttl h)), (''max_retries'', PInt (hc_max_retries h)),
      (''tools_enabled'', PList (map PStr (hc_tools_enabled h))), (''context_policy'', PStr (hc_context_policy h))]"

definition listed :: "('a \<Rightarrow> pyval) \<Rightarrow> 'a list option \<Rightarrow> pyval" where
  "listed f v = (case v of Some xs \<Rightarrow> PList (map f xs) | None \<Rightarrow> PNone)"

definition worker_file :: "worker_config \<Rightarrow> pydict" where
  "worker_file c =
     [(''worker_id'', wc_worker_id c), (''manager_url'', PStr (wc_manager_url c)),
      (''rendezvous_remote'', wc_rendezvous_remote c), (''queues'', listed PStr (wc_queues c)),
      (''priorities'', listed PInt (wc_priorities c)), (''models'', PList (map PStr (wc_models c))),
      (''mcps'', PList (map PStr (wc_mcps c))), (''model_aliases'', PDict (wc_model_aliases c)),
      (''auto_model'', PStr (wc_auto_model c)), (''max_model'', PStr (wc_max_model c)),
      (''model_timeout_seconds'', PFloat (wc_model_timeout_seconds c)), (''claude_billing'', PStr (wc_claude_billing c)),
      (''quarantine'', PBool (wc_quarantine c)), (''worker_url'', wc_worker_url c), (''ui_host'', wc_ui_host c),
      (''ui_port'', PInt (wc_ui_port c)), (''nightshift'', PDict (harness_file (wc_nightshift c)))]"

definition save_worker_config :: "worker_config \<Rightarrow> settings_files \<Rightarrow> settings_files" where
  "save_worker_config c = save_json SF_WORKER (worker_file c)"

section \<open>The models of a worker\<close>

text \<open>
  The backend of a provider on this host: none registered, or whether it is available. An alias may be
  any value of the file; a provider is asked of texts only.
\<close>

type_synonym backends = "string \<Rightarrow> bool option"

definition AGENTIC_CLI_PROVIDERS :: "string list" where
  "AGENTIC_CLI_PROVIDERS = [''claude-code'', ''cursor'', ''antigravity'']"

definition route_to_harness :: "backends \<Rightarrow> worker_config \<Rightarrow> pyval \<Rightarrow> py_error + pyval" where
  "route_to_harness available c qualified =
     (if \<not> hc_enabled (wc_nightshift c) \<or> \<not> truthy qualified then Inr qualified
      else case qualified of
        PStr q \<Rightarrow>
          (case provider_of (Some q) of
             None \<Rightarrow> Inr qualified
           | Some p \<Rightarrow>
               if p \<notin> set AGENTIC_CLI_PROVIDERS \<or> available ''nightshift'' \<noteq> Some True then Inr qualified
               else Inr (PStr (''nightshift/'' @ hc_vendor (wc_nightshift c) @ ''/'' @ hc_model (wc_nightshift c))))
      | _ \<Rightarrow> Inl AttributeError)"

definition resolve_model :: "backends \<Rightarrow> worker_config \<Rightarrow> string option \<Rightarrow> py_error + pyval" where
  "resolve_model available c requested =
     (let name = opt_or requested []; key = py_lower (py_strip (if name = [] then ''auto'' else name)) in
      route_to_harness available c
        (if key \<in> {[], ''auto'', ''default''} then PStr (wc_auto_model c)
         else if key = ''max'' then PStr (wc_max_model c)
         else dget_or (wc_model_aliases c) name (PStr name)))"

definition providers :: "worker_config \<Rightarrow> string list" where
  "providers c =
     remdups (filter (\<lambda>p. p \<noteq> [])
       (List.map_filter (\<lambda>m. provider_of (Some m)) (wc_models c @ [wc_auto_model c, wc_max_model c])))"

definition advertised_models :: "backends \<Rightarrow> worker_config \<Rightarrow> string list" where
  "advertised_models available c =
     filter (\<lambda>m. case provider_of (Some m) of None \<Rightarrow> False | Some p \<Rightarrow> available p = Some True) (wc_models c)"

end
