(* ===== verification/Settings_Facts.thy ===== *)
theory Settings_Facts
  imports Settings
begin

text \<open>
  What an edit of the settings promises: an accepted delta holds values of the declared types, a
  refused one writes nothing, and an accepted one reads back from its files, field by field.
\<close>

section \<open>Dotted keys\<close>

text \<open>Neither path is the beginning of the other.\<close>

fun apart :: "string list \<Rightarrow> string list \<Rightarrow> bool" where
  "apart (a # p) (b # q) \<longleftrightarrow> a \<noteq> b \<or> apart p q"
| "apart _ _ \<longleftrightarrow> False"

lemma apart_Nil [simp]: "\<not> apart [] q" "\<not> apart p []"
  by (cases p; simp)+

lemma apart_sym: "apart p q \<Longrightarrow> apart q p"
  by (induction p q rule: apart.induct) auto

lemma get_set_same: "p \<noteq> [] \<Longrightarrow> get_path p (set_path p v d) = Some v"
  by (induction p v d rule: set_path.induct) auto

lemma get_path_empty [simp]: "get_path p [] = None"
  by (cases p rule: get_path.cases [of "(p, [])" for p]) auto

lemma get_set_apart: "apart p q \<Longrightarrow> get_path p (set_path q v d) = get_path p d"
proof (induction q v d arbitrary: p rule: set_path.induct)
  case (1 v d)
  then show ?case by simp
next
  case (2 b v d)
  then show ?case by (cases p rule: get_path.cases [of "(p, d)" for p]) auto
next
  case (3 b q qs v d)
  show ?case
  proof (cases "p = [] \<or> hd p \<noteq> b")
    case True
    then show ?thesis by (cases p rule: get_path.cases [of "(p, d)" for p]) auto
  next
    case False
    then obtain ps where p: "p = b # ps" by (cases p) auto
    then have ps: "apart ps (q # qs)" "ps \<noteq> []" using 3(2) by auto
    then obtain r rs where r: "ps = r # rs" by (cases ps) auto
    show ?thesis
      using 3(1) [OF ps(1)] p r by (auto split: option.split pyval.split)
  qed
qed

lemma dotted_nonempty [simp]: "dotted k \<noteq> []"
  by (simp add: dotted_def)

lemma dotted_inj: "dotted k = dotted k' \<Longrightarrow> k = k'"
  unfolding dotted_def by (metis join_split)

text \<open>Writing keys that are apart: each reads back, and a key apart from all keeps its value.\<close>

lemma get_dotted_others:
  "\<forall>(k', v) \<in> set changes. apart (dotted k) (dotted k') \<Longrightarrow>
     get_dotted k (foldl (\<lambda>d (k, v). set_dotted k v d) d changes) = get_dotted k d"
  by (induction changes arbitrary: d) (auto simp: get_dotted_def set_dotted_def get_set_apart)

lemma get_dotted_written:
  "sorted_wrt (\<lambda>(k, _) (k', _). apart (dotted k) (dotted k')) changes \<Longrightarrow> (k, v) \<in> set changes \<Longrightarrow>
     get_dotted k (foldl (\<lambda>d (k, v). set_dotted k v d) d changes) = Some v"
proof (induction changes arbitrary: d)
  case (Cons c changes)
  obtain k' v' where c: "c = (k', v')" by (cases c) auto
  show ?case
  proof (cases "(k, v) = c")
    case True
    then have "\<forall>(k', v) \<in> set changes. apart (dotted k) (dotted k')"
      using Cons.prems(1) by auto
    from get_dotted_others [OF this] show ?thesis
      using True by (auto simp: get_dotted_def set_dotted_def get_set_same)
  next
    case False
    then show ?thesis using Cons c by auto
  qed
qed simp

section \<open>The registry\<close>

text \<open>
  Fields of one settings file have keys of their own, and none is the beginning of another: a key has
  one part, or two with the first of an object that is no field itself.
\<close>

definition group_names :: "string list" where
  "group_names = [''cadences'', ''nightshift'']"

lemma registry_distinct: "distinct (map (\<lambda>s. (fs_store s, file_key s)) (filter (\<lambda>s. fs_store s \<noteq> SF_ENV) registry))"
  by code_simp

lemma registry_shape:
  "list_all (\<lambda>s. case dotted (file_key s) of [a] \<Rightarrow> a \<notin> set group_names | [a, b] \<Rightarrow> a \<in> set group_names | _ \<Rightarrow> False) registry"
  by code_simp

lemma slots_apart:
  assumes "s \<in> set registry" "t \<in> set registry" "s \<noteq> t" "fs_store s \<noteq> SF_ENV" "fs_store t = fs_store s"
  shows "apart (dotted (file_key s)) (dotted (file_key t))"
proof -
  have "inj_on (\<lambda>s. (fs_store s, file_key s)) (set (filter (\<lambda>s. fs_store s \<noteq> SF_ENV) registry))"
    using registry_distinct by (simp only: distinct_map)
  then have "file_key s \<noteq> file_key t"
    using assms by (auto dest: inj_onD)
  then have differ: "dotted (file_key s) \<noteq> dotted (file_key t)"
    using dotted_inj by blast
  have shape: "\<And>u. u \<in> set registry \<Longrightarrow>
      case dotted (file_key u) of [a] \<Rightarrow> a \<notin> set group_names | [a, b] \<Rightarrow> a \<in> set group_names | _ \<Rightarrow> False"
    using registry_shape by (simp only: list_all_iff)
  show ?thesis
    using shape [OF assms(1)] shape [OF assms(2)] differ by (auto split: list.splits)
qed

lemma spec_of_Some: "spec_of surface key = Some s \<Longrightarrow> s \<in> set registry \<and> fs_surface s = surface \<and> fs_key s = key"
  by (auto simp: spec_of_def find_Some_iff rev_nth)

section \<open>What a delta resolves to\<close>

text \<open>The value a field of the delta is stored as, when it is accepted.\<close>

definition accepted_value :: "settings_env \<Rightarrow> string \<Rightarrow> string \<times> pyval \<Rightarrow> pyval \<Rightarrow> bool" where
  "accepted_value e surface kv w \<longleftrightarrow>
     (\<exists>spec. spec_of surface (fst kv) = Some spec \<and> validate_field e spec (snd kv) = None \<and>
        validate_semantic spec (snd kv) = None \<and> normalize_field e spec (snd kv) = Inr w)"

lemma dset_not_Nil [simp]: "dset d k v \<noteq> []"
  by (induction d k v rule: dset.induct) auto

lemma delta_field_cases:
  assumes "delta_field e surface kv (r, er) = Inr (r', er')"
  shows "er' \<noteq> [] \<or> (\<exists>w. accepted_value e surface kv w \<and> r' = resolve_key r surface (fst kv) w \<and> er' = er)"
  using assms
  by (auto simp: delta_field_def accepted_value_def bind_result_eq_Inr_iff Let_def split: prod.splits option.splits)

lemma delta_field_errors: "delta_field e surface kv (r, er) = Inr (r', er') \<Longrightarrow> er \<noteq> [] \<Longrightarrow> er' \<noteq> []"
  by (auto simp: delta_field_def bind_result_eq_Inr_iff Let_def split: prod.splits option.splits)

lemma fold_result_inv:
  "fold_result f xs s = Inr s' \<Longrightarrow> P s \<Longrightarrow> (\<And>x s s'. x \<in> set xs \<Longrightarrow> f x s = Inr s' \<Longrightarrow> P s \<Longrightarrow> P s') \<Longrightarrow> P s'"
  by (induction xs arbitrary: s) (auto simp: bind_result_eq_Inr_iff)

lemma resolve_key_lookup:
  "dget_or (resolve_key r surface k w) s [] = (if s = surface then dset (dget_or r s []) k w else dget_or r s [])"
  by (simp add: resolve_key_def)

lemma delta_fields_resolved:
  assumes "fold_result (delta_field e surface) fs (r, er) = Inr (r', [])" "distinct (dkeys fs)"
  shows "er = [] \<and>
    (\<forall>kv \<in> set fs. \<exists>w. accepted_value e surface kv w \<and> dget (dget_or r' surface []) (fst kv) = Some w) \<and>
    (\<forall>s k. s \<noteq> surface \<or> k \<notin> set (dkeys fs) \<longrightarrow> dget (dget_or r' s []) k = dget (dget_or r s []) k)"
  using assms
proof (induction fs arbitrary: r er)
  case (Cons kv fs)
  obtain r1 er1 where step: "delta_field e surface kv (r, er) = Inr (r1, er1)"
      "fold_result (delta_field e surface) fs (r1, er1) = Inr (r', [])"
    using Cons.prems(1) by (auto simp: bind_result_eq_Inr_iff)
  note rest = Cons.IH [OF step(2)]
  have "er1 = []" using rest Cons.prems(2) by simp
  then obtain w where w: "accepted_value e surface kv w" "r1 = resolve_key r surface (fst kv) w" "er = []"
    using delta_field_cases [OF step(1)] by auto
  have new: "fst kv \<notin> set (dkeys fs)" using Cons.prems(2) by simp
  have "dget (dget_or r1 s []) k = (if s = surface \<and> k = fst kv then Some w else dget (dget_or r s []) k)" for s k
    by (simp add: w(2) resolve_key_lookup)
  then show ?case
    using rest Cons.prems(2) w(1,3) new by auto
qed simp

lemma delta_surfaces_resolved:
  assumes "fold_result (delta_surface e allowed) body (r, er) = Inr (r', [])"
    and "distinct (dkeys body)" "\<forall>(s, v) \<in> set body. \<forall>fs. v = PDict fs \<longrightarrow> distinct (dkeys fs)"
  shows "er = [] \<and>
    (\<forall>(s, v) \<in> set body. s \<in> set allowed \<and> (\<exists>fs. v = PDict fs \<and>
       (\<forall>kv \<in> set fs. \<exists>w. accepted_value e s kv w \<and> dget (dget_or r' s []) (fst kv) = Some w))) \<and>
    (\<forall>s k. (\<forall>fs. (s, PDict fs) \<in> set body \<longrightarrow> k \<notin> set (dkeys fs)) \<longrightarrow> dget (dget_or r' s []) k = dget (dget_or r s []) k)"
  using assms
proof (induction body arbitrary: r er)
  case (Cons sv body)
  obtain s v where sv: "sv = (s, v)" by (cases sv)
  obtain r1 er1 where step: "delta_surface e allowed (s, v) (r, er) = Inr (r1, er1)"
      "fold_result (delta_surface e allowed) body (r1, er1) = Inr (r', [])"
    using Cons.prems(1) sv by (auto simp: bind_result_eq_Inr_iff)
  note rest = Cons.IH [OF step(2)]
  have "er1 = []" using rest Cons.prems(2,3) by simp
  then obtain fs where fs: "s \<in> set allowed" "v = PDict fs" "fold_result (delta_field e s) fs (r, er) = Inr (r1, [])"
    using step(1) by (auto simp: delta_surface_def split: if_splits pyval.splits)
  note here = delta_fields_resolved [OF fs(3)]
  have new: "s \<notin> set (dkeys body)" "distinct (dkeys fs)" using Cons.prems(2,3) sv fs(2) by auto
  have tail: "er1 = []"
      "\<forall>(s, v) \<in> set body. s \<in> set allowed \<and> (\<exists>fs. v = PDict fs \<and>
         (\<forall>kv \<in> set fs. \<exists>w. accepted_value e s kv w \<and> dget (dget_or r' s []) (fst kv) = Some w))"
      "\<And>s k. (\<And>fs. (s, PDict fs) \<in> set body \<Longrightarrow> k \<notin> set (dkeys fs)) \<Longrightarrow> dget (dget_or r' s []) k = dget (dget_or r1 s []) k"
    using rest Cons.prems(2,3) by simp_all
  have head: "er = []" "\<forall>kv \<in> set fs. \<exists>w. accepted_value e s kv w \<and> dget (dget_or r1 s []) (fst kv) = Some w"
      "\<And>s' k. s' \<noteq> s \<or> k \<notin> set (dkeys fs) \<Longrightarrow> dget (dget_or r1 s' []) k = dget (dget_or r s' []) k"
    using here [OF new(2)] by simp_all
  have later: "dget (dget_or r' s []) k = dget (dget_or r1 s []) k" for k
    by (rule tail(3)) (use new(1) in force)
  have "dget (dget_or r' s' []) k = dget (dget_or r s' []) k"
    if "\<forall>fs. (s', PDict fs) \<in> set (sv # body) \<longrightarrow> k \<notin> set (dkeys fs)" for s' k
    using tail(3) [of s' k] head(3) [of s' k] that sv fs(2) by simp
  moreover have "\<forall>(s, v) \<in> set (sv # body). s \<in> set allowed \<and> (\<exists>fs. v = PDict fs \<and>
       (\<forall>kv \<in> set fs. \<exists>w. accepted_value e s kv w \<and> dget (dget_or r' s []) (fst kv) = Some w))"
    using tail(2) head(2) fs(1,2) sv later by simp
  ultimately show ?case
    using head(1) by blast
qed simp

text \<open>A resolved delta is a dictionary of dictionaries.\<close>

definition tidy :: "resolved \<Rightarrow> bool" where
  "tidy r \<longleftrightarrow> distinct (dkeys r) \<and> (\<forall>fs \<in> set (dvalues r). distinct (dkeys fs))"

lemma dvalues_dset: "set (dvalues (dset d k v)) \<subseteq> insert v (set (dvalues d))"
  by (induction d k v rule: dset.induct) auto

lemma tidy_resolve: "tidy r \<Longrightarrow> tidy (resolve_key r s k w)"
proof -
  assume r: "tidy r"
  have "distinct (dkeys (dget_or r s []))"
    using r by (auto simp: tidy_def dget_or_def split: option.split dest!: map_of_SomeD)
  then have "distinct (dkeys (dset (dget_or r s []) k w))"
    by simp
  then show "tidy (resolve_key r s k w)"
    using r dvalues_dset [of r s "dset (dget_or r s []) k w"]
    unfolding tidy_def resolve_key_def by (auto simp del: set_map)
qed

lemma tidy_field: "delta_field e s kv x = Inr y \<Longrightarrow> tidy (fst x) \<Longrightarrow> tidy (fst y)"
  by (cases x) (auto simp: delta_field_def bind_result_eq_Inr_iff Let_def tidy_resolve split: prod.splits option.splits)

lemma tidy_surface: "delta_surface e allowed sv x = Inr y \<Longrightarrow> tidy (fst x) \<Longrightarrow> tidy (fst y)"
proof -
  assume a: "delta_surface e allowed sv x = Inr y" "tidy (fst x)"
  obtain s v where sv: "sv = (s, v)" by (cases sv)
  have "tidy (fst y)" if "fold_result (delta_field e s) fs x = Inr y" for fs
    using that a(2) by (rule fold_result_inv [where P = "\<lambda>x. tidy (fst x)"]) (rule tidy_field)
  then show ?thesis
    using a sv by (cases x) (auto simp: delta_surface_def split: if_splits pyval.splits)
qed

lemma tidy_start: "tidy []"
  by (simp add: tidy_def)

lemma tidy_delta: "validate_delta e allowed body = Inr (r, er) \<Longrightarrow> tidy r"
proof -
  assume "validate_delta e allowed body = Inr (r, er)"
  then have "tidy (fst (r, er))"
    unfolding validate_delta_def
    by (rule fold_result_inv [where P = "\<lambda>x. tidy (fst x)"]) (simp_all add: tidy_start tidy_surface)
  then show ?thesis by simp
qed

section \<open>What is written\<close>

type_synonym item = "string \<times> string \<times> pyval"

definition items_of :: "resolved \<Rightarrow> item list" where
  "items_of r = concat (map (\<lambda>(s, fs). map (Pair s) fs) r)"

definition item_key :: "item \<Rightarrow> string \<times> string" where
  "item_key = (\<lambda>(s, k, w). (s, k))"

lemma fold_result_append: "fold_result f (xs @ ys) s = bind_result (fold_result f xs s) (fold_result f ys)"
proof (induction xs arbitrary: s)
  case (Cons x xs)
  then show ?case by (cases "f x s") simp_all
qed simp

lemma plan_by_item:
  "fold_result (\<lambda>(s, fs). fold_result (plan_write e s) fs) r p = fold_result (\<lambda>(s, kv). plan_write e s kv) (items_of r) p"
proof (induction r arbitrary: p)
  case (Cons x r)
  obtain s fs where x: "x = (s, fs)" by (cases x)
  have "fold_result (\<lambda>(s, kv). plan_write e s kv) (map (Pair s) fs) p = fold_result (plan_write e s) fs p" for p
  proof (induction fs arbitrary: p)
    case (Cons y fs)
    then show ?case by (cases "plan_write e s y p") simp_all
  qed simp
  then show ?case
    using Cons.IH x by (cases "fold_result (plan_write e s) fs p") (simp_all add: items_of_def fold_result_append)
qed (simp add: items_of_def)

lemma item_key_simp [simp]: "item_key (s, k, w) = (s, k)"
  by (simp add: item_key_def)

lemma items_distinct: "tidy r \<Longrightarrow> distinct (map item_key (items_of r))"
proof (induction r)
  case (Cons x r)
  obtain s fs where x: "x = (s, fs)" by (cases x)
  have r: "tidy r" "s \<notin> set (dkeys r)" "distinct (dkeys fs)"
    using Cons.prems x by (auto simp: tidy_def)
  have keys: "map item_key (map (Pair s) fs) = map (Pair s) (dkeys fs)"
    by (induction fs) auto
  then have "distinct (map item_key (map (Pair s) fs))"
    using r(3) by (simp add: distinct_map inj_on_def)
  moreover have "set (map item_key (map (Pair s) fs)) \<inter> set (map item_key (items_of r)) = {}"
    unfolding keys using r(2) by (force simp: items_of_def)
  moreover have "items_of (x # r) = map (Pair s) fs @ items_of r"
    by (simp add: items_of_def x)
  ultimately show ?case
    using Cons.IH [OF r(1)] by (simp only: map_append distinct_append)
qed (simp add: items_of_def)

definition changes_in :: "write_plan \<Rightarrow> store_file \<Rightarrow> (string \<times> pyval) list" where
  "changes_in p store = dget_or (wp_json p) store []"

definition planned :: "item list \<Rightarrow> write_plan \<Rightarrow> bool" where
  "planned seen p \<longleftrightarrow>
     distinct (dkeys (wp_json p)) \<and>
     (\<forall>(s, k, w) \<in> set seen. \<exists>spec. spec_of s k = Some spec \<and>
        (fs_store spec \<noteq> SF_ENV \<longrightarrow> (file_key spec, w) \<in> set (changes_in p (fs_store spec))) \<and>
        full_key s k \<in> set (if fs_apply spec = ''live'' then wp_live p else wp_restart p)) \<and>
     (\<forall>store. \<exists>specs. map file_key specs = dkeys (changes_in p store) \<and> distinct specs \<and>
        (\<forall>spec \<in> set specs. store \<noteq> SF_ENV \<and> fs_store spec = store \<and>
           (\<exists>s k. (s, k) \<in> item_key ` set seen \<and> spec_of s k = Some spec)))"

lemma planned_start: "planned [] \<lparr>wp_live = [], wp_restart = [], wp_json = [], wp_env = []\<rparr>"
  by (auto simp: planned_def changes_in_def dget_or_def)

lemma changes_set:
  "changes_in (p\<lparr>wp_json := dset (wp_json p) st c\<rparr>) store = (if store = st then c else changes_in p store)"
  by (simp add: changes_in_def)

lemma planned_step:
  assumes "planned seen p" "plan_write e s (k, w) p = Inr p'" "(s, k) \<notin> item_key ` set seen"
  shows "planned (seen @ [(s, k, w)]) p'"
proof -
  obtain spec where spec: "spec_of s k = Some spec"
    using assms(2) by (cases "spec_of s k") (auto simp: plan_write_def)
  define q where "q = (if fs_apply spec = ''live'' then p\<lparr>wp_live := wp_live p @ [full_key s k]\<rparr>
      else p\<lparr>wp_restart := wp_restart p @ [full_key s k]\<rparr>)"
  have q: "wp_json q = wp_json p" "set (wp_live p) \<subseteq> set (wp_live q)" "set (wp_restart p) \<subseteq> set (wp_restart q)"
      "full_key s k \<in> set (if fs_apply spec = ''live'' then wp_live q else wp_restart q)"
    by (auto simp: q_def)
  have p': "p' = (if fs_store spec = SF_ENV
        then (case fs_env spec of Some name \<Rightarrow> if name = [] then q else q\<lparr>wp_env := wp_env q @ [(name, py_str (se_ftext e) w)]\<rparr>
              | None \<Rightarrow> q)
        else q\<lparr>wp_json := dset (wp_json q) (fs_store spec) (changes_in q (fs_store spec) @ [(file_key spec, w)])\<rparr>)"
    using assms(2) spec by (auto simp: plan_write_def Let_def q_def changes_in_def split: option.splits)
  have lists: "wp_live p' = wp_live q" "wp_restart p' = wp_restart q" "distinct (dkeys (wp_json p) :: store_file list) \<Longrightarrow> distinct (dkeys (wp_json p'))"
    by (auto simp: p' q(1) split: option.split)
  have changes: "changes_in p' store =
      (if store = fs_store spec \<and> store \<noteq> SF_ENV then changes_in p store @ [(file_key spec, w)] else changes_in p store)" for store
    by (auto simp: p' changes_set changes_in_def q(1) split: option.split)
  have fresh: "spec \<notin> set specs"
    if "\<forall>sp \<in> set specs. store \<noteq> SF_ENV \<and> fs_store sp = store \<and> (\<exists>s k. (s, k) \<in> item_key ` set seen \<and> spec_of s k = Some sp)" for specs store
    using that assms(3) spec spec_of_Some by (metis)
  have "\<exists>specs. map file_key specs = dkeys (changes_in p' store) \<and> distinct specs \<and>
        (\<forall>sp \<in> set specs. store \<noteq> SF_ENV \<and> fs_store sp = store \<and>
           (\<exists>s' k'. (s', k') \<in> item_key ` set (seen @ [(s, k, w)]) \<and> spec_of s' k' = Some sp))" for store
  proof -
    obtain specs where specs: "map file_key specs = dkeys (changes_in p store)" "distinct specs"
        "\<forall>sp \<in> set specs. store \<noteq> SF_ENV \<and> fs_store sp = store \<and> (\<exists>s k. (s, k) \<in> item_key ` set seen \<and> spec_of s k = Some sp)"
      using assms(1) unfolding planned_def by blast
    show ?thesis
    proof (cases "store = fs_store spec \<and> store \<noteq> SF_ENV")
      case True
      then show ?thesis
        using specs fresh [OF specs(3)] spec
        by (intro exI [of _ "specs @ [spec]"]) (simp add: changes, blast)
    next
      case False
      then show ?thesis
        using specs by (intro exI [of _ specs]) (simp add: changes, blast)
    qed
  qed
  moreover have "\<forall>(s, k, w) \<in> set (seen @ [(s, k, w)]). \<exists>spec. spec_of s k = Some spec \<and>
        (fs_store spec \<noteq> SF_ENV \<longrightarrow> (file_key spec, w) \<in> set (changes_in p' (fs_store spec))) \<and>
        full_key s k \<in> set (if fs_apply spec = ''live'' then wp_live p' else wp_restart p')"
    using assms(1) spec q unfolding planned_def lists by (fastforce simp: changes split: if_splits)
  ultimately show ?thesis
    using assms(1) lists(3) unfolding planned_def by blast
qed

lemma planned_items:
  assumes "fold_result (\<lambda>(s, kv). plan_write e s kv) items p = Inr p'" "planned seen p" "distinct (map item_key (seen @ items))"
  shows "planned (seen @ items) p'"
  using assms
proof (induction items arbitrary: seen p)
  case (Cons i items)
  obtain s k w where i: "i = (s, k, w)" by (cases i) auto
  obtain p1 where p1: "plan_write e s (k, w) p = Inr p1" "fold_result (\<lambda>(s, kv). plan_write e s kv) items p1 = Inr p'"
    using Cons.prems(1) i by (auto simp: bind_result_eq_Inr_iff)
  have "(s, k) \<notin> item_key ` set seen"
    using Cons.prems(3) i by auto
  from planned_step [OF Cons.prems(2) p1(1) this]
  show ?case
    using Cons.IH [OF p1(2), of "seen @ [i]"] Cons.prems(3) i by simp
qed simp

text \<open>The planned changes of one file are apart from one another and from every other field.\<close>

lemma planned_specs:
  assumes "planned seen p"
  obtains specs where "map file_key specs = dkeys (changes_in p store)" "distinct specs"
    "\<And>spec. spec \<in> set specs \<Longrightarrow> spec \<in> set registry \<and> store \<noteq> SF_ENV \<and> fs_store spec = store \<and>
       (fs_surface spec, fs_key spec) \<in> item_key ` set seen"
proof -
  obtain specs where specs: "map file_key specs = dkeys (changes_in p store)" "distinct specs"
      "\<forall>sp \<in> set specs. store \<noteq> SF_ENV \<and> fs_store sp = store \<and> (\<exists>s k. (s, k) \<in> item_key ` set seen \<and> spec_of s k = Some sp)"
    using assms unfolding planned_def by blast
  then show thesis
    using that [OF specs(1,2)] spec_of_Some by blast
qed

lemma planned_apart:
  assumes "planned seen p"
  shows "sorted_wrt (\<lambda>(k, _) (k', _). apart (dotted k) (dotted k')) (changes_in p store)"
proof -
  obtain specs where specs: "map file_key specs = dkeys (changes_in p store)" "distinct specs"
      "\<And>spec. spec \<in> set specs \<Longrightarrow> spec \<in> set registry \<and> store \<noteq> SF_ENV \<and> fs_store spec = store \<and>
         (fs_surface spec, fs_key spec) \<in> item_key ` set seen"
    using planned_specs [OF assms] by blast
  have "apart (dotted (file_key (specs ! i))) (dotted (file_key (specs ! j)))" if "i < j" "j < length specs" for i j
    using that specs(2) specs(3) [of "specs ! i"] specs(3) [of "specs ! j"]
    by (intro slots_apart) (simp_all add: nth_eq_iff_index_eq)
  then have "sorted_wrt (\<lambda>s t. apart (dotted (file_key s)) (dotted (file_key t))) specs"
    by (simp add: sorted_wrt_iff_nth_less)
  then have "sorted_wrt (\<lambda>k k'. apart (dotted k) (dotted k')) (dkeys (changes_in p store))"
    by (simp only: specs(1) [symmetric] sorted_wrt_map)
  then have "sorted_wrt (\<lambda>x y. apart (dotted (fst x)) (dotted (fst y))) (changes_in p store)"
    by (simp only: sorted_wrt_map)
  then show ?thesis
    by (rule sorted_wrt_mono_rel [rotated]) auto
qed

lemma load_json_save: "load_json (save_json st d ws) store = (if store = st then d else load_json ws store)"
  by (simp add: load_json_def save_json_def)

lemma written_stores:
  "distinct (dkeys js) \<Longrightarrow> load_json (foldl write_store ws js) store =
     foldl (\<lambda>d (k, v). set_dotted k v d) (load_json ws store) (dget_or js store [])"
proof (induction js arbitrary: ws)
  case (Cons x js)
  obtain st c where x: "x = (st, c)" by (cases x)
  then have "dget js st = None" if "store = st"
    using Cons.prems by (auto simp: map_of_eq_None_iff)
  then show ?case
    using Cons x by (auto simp: write_store_def load_json_save dget_or_def)
qed (simp add: dget_or_def)

lemma write_env_json: "load_json (write_env writes ws) store = load_json ws store"
proof -
  have "sf_json (write_env writes ws) = sf_json ws"
    unfolding write_env_def by (induction writes arbitrary: ws) auto
  then show ?thesis by (simp add: load_json_def)
qed

lemma put_accepted:
  assumes "put_settings e surfaces body ws = Inr (ws', Inr (live, restart))"
  obtains r p where "validate_delta e surfaces body = Inr (r, [])" "planned (items_of r) p"
    "\<And>store. load_json ws' store = foldl (\<lambda>d (k, v). set_dotted k v d) (load_json ws store) (changes_in p store)"
    "live = wp_live p" "restart = wp_restart p"
proof -
  obtain r p where rp: "validate_delta e surfaces body = Inr (r, [])" "plan_writes e r = Inr p"
      "ws' = foldl write_store (write_env (wp_env p) ws) (wp_json p)" "live = wp_live p" "restart = wp_restart p"
    using assms by (auto simp: put_settings_def bind_result_eq_Inr_iff write_delta_def split: if_splits)
  have "planned ([] @ items_of r) p"
    using rp(2) items_distinct [OF tidy_delta [OF rp(1)]]
    unfolding plan_writes_def plan_by_item by (intro planned_items [OF _ planned_start]) simp_all
  then have plan: "planned (items_of r) p" by simp
  then have "load_json ws' store = foldl (\<lambda>d (k, v). set_dotted k v d) (load_json ws store) (changes_in p store)" for store
    using written_stores [of "wp_json p" "write_env (wp_env p) ws" store]
    by (simp add: rp(3) planned_def write_env_json changes_in_def)
  then show thesis
    using that rp plan by blast
qed

lemma item_iff:
  assumes "tidy r"
  shows "(s, k, w) \<in> set (items_of r) \<longleftrightarrow> dget (dget_or r s []) k = Some w"
proof -
  have "(s, k, w) \<in> set (items_of r) \<longleftrightarrow> (\<exists>fs. (s, fs) \<in> set r \<and> (k, w) \<in> set fs)"
    by (auto simp: items_of_def)
  also have "\<dots> \<longleftrightarrow> (\<exists>fs. dget r s = Some fs \<and> (k, w) \<in> set fs)"
    using assms by (simp add: tidy_def map_of_eq_Some_iff)
  also have "\<dots> \<longleftrightarrow> (\<exists>fs. dget r s = Some fs \<and> dget fs k = Some w)"
  proof -
    have "(k, w) \<in> set fs \<longleftrightarrow> dget fs k = Some w" if "dget r s = Some fs" for fs
    proof -
      have "fs \<in> set (dvalues r)" using map_of_SomeD [OF that] by force
      then show ?thesis using assms by (simp only: tidy_def map_of_eq_Some_iff)
    qed
    then show ?thesis by blast
  qed
  also have "\<dots> \<longleftrightarrow> dget (dget_or r s []) k = Some w"
    by (auto simp: dget_or_def split: option.split)
  finally show ?thesis .
qed

lemma others_kept:
  assumes "planned seen p" "spec \<in> set registry" "fs_store spec \<noteq> SF_ENV" "(fs_surface spec, fs_key spec) \<notin> item_key ` set seen"
  shows "get_dotted (file_key spec) (foldl (\<lambda>d (k, v). set_dotted k v d) d (changes_in p (fs_store spec))) = get_dotted (file_key spec) d"
proof (rule planned_specs [OF assms(1), of "fs_store spec"])
  fix specs
  assume keys: "map file_key specs = dkeys (changes_in p (fs_store spec))"
    and specs: "\<And>sp. sp \<in> set specs \<Longrightarrow> sp \<in> set registry \<and> fs_store spec \<noteq> SF_ENV \<and> fs_store sp = fs_store spec \<and>
       (fs_surface sp, fs_key sp) \<in> item_key ` set seen"
  have "apart (dotted (file_key spec)) (dotted (file_key sp))" if "sp \<in> set specs" for sp
  proof -
    have "spec \<noteq> sp" using specs [OF that] assms(4) by metis
    with specs [OF that] assms(2,3) show ?thesis by (intro slots_apart) simp_all
  qed
  then have "\<forall>k \<in> set (map file_key specs). apart (dotted (file_key spec)) (dotted k)"
    by simp
  then have "\<forall>(k, v) \<in> set (changes_in p (fs_store spec)). apart (dotted (file_key spec)) (dotted k)"
    unfolding keys by auto
  then show ?thesis
    by (rule get_dotted_others)
qed

lemma planned_item:
  "planned seen p \<Longrightarrow> (s, k, w) \<in> set seen \<Longrightarrow> \<exists>spec. spec_of s k = Some spec \<and>
     (fs_store spec \<noteq> SF_ENV \<longrightarrow> (file_key spec, w) \<in> set (changes_in p (fs_store spec))) \<and>
     full_key s k \<in> set (if fs_apply spec = ''live'' then wp_live p else wp_restart p)"
  unfolding planned_def by (drule conjunct2, drule conjunct1, drule (1) bspec) simp

text \<open>What the request promises of one field it names.\<close>

definition field_settled ::
  "settings_env \<Rightarrow> settings_files \<Rightarrow> string list \<Rightarrow> string list \<Rightarrow> string \<Rightarrow> string \<times> pyval \<Rightarrow> bool" where
  "field_settled e ws' live restart s kv \<longleftrightarrow>
     (\<exists>spec w. spec_of s (fst kv) = Some spec \<and> accepted_value e s kv w \<and>
        (fs_store spec \<noteq> SF_ENV \<longrightarrow> get_dotted (file_key spec) (load_json ws' (fs_store spec)) = Some w) \<and>
        full_key s (fst kv) \<in> set (if fs_apply spec = ''live'' then live else restart))"

lemma item_settled:
  assumes "planned seen p" "\<And>store. load_json ws' store = foldl (\<lambda>d (k, v). set_dotted k v d) (load_json ws store) (changes_in p store)"
    and "accepted_value e s kv w" "(s, fst kv, w) \<in> set seen"
  shows "field_settled e ws' (wp_live p) (wp_restart p) s kv"
proof -
  obtain spec where spec: "spec_of s (fst kv) = Some spec"
      "fs_store spec \<noteq> SF_ENV \<longrightarrow> (file_key spec, w) \<in> set (changes_in p (fs_store spec))"
      "full_key s (fst kv) \<in> set (if fs_apply spec = ''live'' then wp_live p else wp_restart p)"
    using planned_item [OF assms(1,4)] by blast
  have "fs_store spec \<noteq> SF_ENV \<longrightarrow> get_dotted (file_key spec) (load_json ws' (fs_store spec)) = Some w"
    using spec(2) get_dotted_written [OF planned_apart [OF assms(1)]] by (simp add: assms(2))
  then show ?thesis
    unfolding field_settled_def using spec(1,3) assms(3) by blast
qed

text \<open>The plan an accepted request carries out: an item for each field it names, and no other.\<close>

lemma accepted_plan:
  assumes "put_settings e surfaces body ws = Inr (ws', Inr (live, restart))"
    and "distinct (dkeys body)" "\<forall>(s, v) \<in> set body. \<forall>fs. v = PDict fs \<longrightarrow> distinct (dkeys fs)"
  obtains items p where "planned items p"
    and "\<And>store. load_json ws' store = foldl (\<lambda>d (k, v). set_dotted k v d) (load_json ws store) (changes_in p store)"
    and "live = wp_live p" "restart = wp_restart p"
    and "\<forall>(s, v) \<in> set body. s \<in> set surfaces \<and>
      (\<exists>fs. v = PDict fs \<and> (\<forall>kv \<in> set fs. \<exists>w. accepted_value e s kv w \<and> (s, fst kv, w) \<in> set items))"
    and "\<And>s k. \<forall>fs. (s, PDict fs) \<in> set body \<longrightarrow> k \<notin> set (dkeys fs) \<Longrightarrow> (s, k) \<notin> item_key ` set items"
proof -
  obtain r p where rp: "validate_delta e surfaces body = Inr (r, [])" "planned (items_of r) p"
      "\<And>store. load_json ws' store = foldl (\<lambda>d (k, v). set_dotted k v d) (load_json ws store) (changes_in p store)"
      "live = wp_live p" "restart = wp_restart p"
    by (rule put_accepted [OF assms(1)]) (rule that; simp)
  note delta = delta_surfaces_resolved [OF rp(1) [unfolded validate_delta_def] assms(2,3), THEN conjunct2]
  have item: "(s, k, w) \<in> set (items_of r) \<longleftrightarrow> dget (dget_or r s []) k = Some w" for s k w
    using item_iff [OF tidy_delta [OF rp(1)]] .
  have named: "\<forall>(s, v) \<in> set body. s \<in> set surfaces \<and>
      (\<exists>fs. v = PDict fs \<and> (\<forall>kv \<in> set fs. \<exists>w. accepted_value e s kv w \<and> (s, fst kv, w) \<in> set (items_of r)))"
    using conjunct1 [OF delta] unfolding item by simp
  have unnamed: "(s, k) \<notin> item_key ` set (items_of r)" if "\<forall>fs. (s, PDict fs) \<in> set body \<longrightarrow> k \<notin> set (dkeys fs)" for s k
  proof -
    have "dget (dget_or r s []) k = None" using conjunct2 [OF delta] that by (simp add: dget_or_def)
    then show ?thesis using item by (auto simp: item_key_def)
  qed
  show thesis
    by (rule that [OF rp(2-5) named unnamed])
qed

lemma named_settled:
  assumes "put_settings e surfaces body ws = Inr (ws', Inr (live, restart))"
    and "distinct (dkeys body)" "\<forall>(s, v) \<in> set body. \<forall>fs. v = PDict fs \<longrightarrow> distinct (dkeys fs)"
    and "(s, v) \<in> set body"
  shows "s \<in> set surfaces \<and> (\<exists>fs. v = PDict fs \<and> (\<forall>kv \<in> set fs. field_settled e ws' live restart s kv))"
proof (rule accepted_plan [OF assms(1-3)])
  fix items p
  assume plan: "planned items p"
      "\<And>store. load_json ws' store = foldl (\<lambda>d (k, v). set_dotted k v d) (load_json ws store) (changes_in p store)"
      "live = wp_live p" "restart = wp_restart p"
    and named: "\<forall>(s, v) \<in> set body. s \<in> set surfaces \<and>
      (\<exists>fs. v = PDict fs \<and> (\<forall>kv \<in> set fs. \<exists>w. accepted_value e s kv w \<and> (s, fst kv, w) \<in> set items))"
  have settled: "field_settled e ws' live restart s kv" if "accepted_value e s kv w" "(s, fst kv, w) \<in> set items" for s kv w
    unfolding plan(3,4) by (rule item_settled [OF plan(1,2) that])
  obtain fs where fs: "s \<in> set surfaces" "v = PDict fs"
      "\<forall>kv \<in> set fs. \<exists>w. accepted_value e s kv w \<and> (s, fst kv, w) \<in> set items"
    using bspec [OF named assms(4)] unfolding prod.case by (elim conjE exE) (rule that)
  have "field_settled e ws' live restart s kv" if "kv \<in> set fs" for kv
    using bspec [OF fs(3) that] by (elim exE conjE) (rule settled)
  then show ?thesis using fs(1,2) by simp
qed

lemma unnamed_kept:
  assumes "put_settings e surfaces body ws = Inr (ws', Inr (live, restart))"
    and "distinct (dkeys body)" "\<forall>(s, v) \<in> set body. \<forall>fs. v = PDict fs \<longrightarrow> distinct (dkeys fs)"
    and "spec \<in> set registry" "fs_store spec \<noteq> SF_ENV"
    and "\<forall>fs. (fs_surface spec, PDict fs) \<in> set body \<longrightarrow> fs_key spec \<notin> set (dkeys fs)"
  shows "get_dotted (file_key spec) (load_json ws' (fs_store spec)) = get_dotted (file_key spec) (load_json ws (fs_store spec))"
proof (rule accepted_plan [OF assms(1-3)])
  fix items p
  assume plan: "planned items p"
      "\<And>store. load_json ws' store = foldl (\<lambda>d (k, v). set_dotted k v d) (load_json ws store) (changes_in p store)"
    and unnamed: "\<And>s k. \<forall>fs. (s, PDict fs) \<in> set body \<longrightarrow> k \<notin> set (dkeys fs) \<Longrightarrow> (s, k) \<notin> item_key ` set items"
  from others_kept [OF plan(1) assms(4,5) unnamed [OF assms(6)]]
  show ?thesis by (simp add: plan(2))
qed

text \<open>
  C18: settings that were accepted are the settings of the files. Each field of the request passed the
  checks of its declaration, reads back from its settings file as the value it was normalised to, and
  is reported as applied or as waiting for a restart, as declared; a field the request does not name
  keeps the value it had. (A secret goes to the environment file instead.)
\<close>

theorem accepted_settings_read_back:
  assumes "put_settings e surfaces body ws = Inr (ws', Inr (live, restart))"
    and "distinct (dkeys body)" "\<forall>(s, v) \<in> set body. \<forall>fs. v = PDict fs \<longrightarrow> distinct (dkeys fs)"
  shows "(\<forall>(s, v) \<in> set body. s \<in> set surfaces \<and>
      (\<exists>fs. v = PDict fs \<and> (\<forall>kv \<in> set fs. field_settled e ws' live restart s kv))) \<and>
    (\<forall>spec \<in> set registry. fs_store spec \<noteq> SF_ENV \<and>
      (\<forall>fs. (fs_surface spec, PDict fs) \<in> set body \<longrightarrow> fs_key spec \<notin> set (dkeys fs)) \<longrightarrow>
      get_dotted (file_key spec) (load_json ws' (fs_store spec)) = get_dotted (file_key spec) (load_json ws (fs_store spec)))"
proof (intro conjI ballI impI)
  fix x
  assume x: "x \<in> set body"
  obtain s v where sv: "x = (s, v)" by (cases x) (rule that)
  show "case x of (s, v) \<Rightarrow> s \<in> set surfaces \<and> (\<exists>fs. v = PDict fs \<and> (\<forall>kv \<in> set fs. field_settled e ws' live restart s kv))"
    unfolding sv prod.case by (rule named_settled [OF assms x [unfolded sv]])
next
  fix spec
  assume "spec \<in> set registry"
    and "fs_store spec \<noteq> SF_ENV \<and> (\<forall>fs. (fs_surface spec, PDict fs) \<in> set body \<longrightarrow> fs_key spec \<notin> set (dkeys fs))"
  then show "get_dotted (file_key spec) (load_json ws' (fs_store spec)) = get_dotted (file_key spec) (load_json ws (fs_store spec))"
    by (intro unnamed_kept [OF assms]) simp_all
qed

definition sample_settings_env :: settings_env where
  "sample_settings_env = \<lparr>se_ftext = \<lambda>_. [], se_float = \<lambda>_. None, se_regex = \<lambda>_. None\<rparr>"

definition sample_edit :: pydict where
  "sample_edit = [(''player'', PDict [(''theme'', PStr ''light'')]), (''worker'', PDict [(''nightshift.max_tokens'', PStr ''16k'')])]"

definition sample_settings :: settings_files where
  "sample_settings = \<lparr>sf_json = [(SF_PLAYER, [(''theme'', PStr ''dark''), (''repeat_interval'', PStr ''2h'')])], sf_env = None\<rparr>"

definition edited_settings :: settings_files where
  "edited_settings =
     \<lparr>sf_json = [(SF_PLAYER, [(''theme'', PStr ''light''), (''repeat_interval'', PStr ''2h'')]),
                (SF_WORKER, [(''nightshift'', PDict [(''max_tokens'', PInt 16384)])])], sf_env = None\<rparr>"

lemma sample_edit_accepted:
  "put_settings sample_settings_env [''player'', ''worker''] sample_edit sample_settings =
     Inr (edited_settings, Inr ([''player.theme''], [''worker.nightshift.max_tokens'']))"
  by code_simp

theorem accepted_settings_read_back_witness:
  "field_settled sample_settings_env edited_settings [''player.theme''] [''worker.nightshift.max_tokens''] ''player''
     (''theme'', PStr ''light'') \<and>
   field_settled sample_settings_env edited_settings [''player.theme''] [''worker.nightshift.max_tokens''] ''worker''
     (''nightshift.max_tokens'', PStr ''16k'')"
proof -
  have "\<forall>(s, v) \<in> set sample_edit. s \<in> set [''player'', ''worker''] \<and>
      (\<exists>fs. v = PDict fs \<and> (\<forall>kv \<in> set fs.
        field_settled sample_settings_env edited_settings [''player.theme''] [''worker.nightshift.max_tokens''] s kv))"
    by (rule conjunct1 [OF accepted_settings_read_back [OF sample_edit_accepted]]) (simp_all add: sample_edit_def)
  then show ?thesis
    by (simp add: sample_edit_def)
qed

section \<open>The type of an accepted value\<close>

text \<open>The rule of a field, read on the stored value: a model names its provider before a slash, or is
  one of the keywords where the rule admits them.\<close>

definition names_provider :: "string \<Rightarrow> bool" where
  "names_provider t \<longleftrightarrow> CHR ''/'' \<in> set t"

definition fits_rule :: "field_spec \<Rightarrow> pyval \<Rightarrow> bool" where
  "fits_rule spec w \<longleftrightarrow>
     (fs_validate spec = Some ''model_id'' \<longrightarrow> (\<forall>t. w = PStr t \<longrightarrow> names_provider t)) \<and>
     (fs_validate spec = Some ''model_id_or_keyword'' \<longrightarrow> (\<forall>t. w = PStr t \<longrightarrow>
        names_provider t \<or> py_lower (py_strip t) \<in> {[], ''auto'', ''max'', ''default''})) \<and>
     (fs_validate spec = Some ''model_id_list'' \<longrightarrow> (\<forall>ts. w = PList (map PStr ts) \<longrightarrow>
        (\<forall>t \<in> set ts. names_provider t))) \<and>
     (fs_validate spec = Some ''model_id_map'' \<longrightarrow> (\<forall>d. w = PDict d \<longrightarrow>
        (\<forall>k \<in> set (dkeys d). names_provider k) \<and> (\<forall>t. PStr t \<in> set (dvalues d) \<longrightarrow> names_provider t)))"

definition fits_type :: "settings_env \<Rightarrow> field_spec \<Rightarrow> pyval \<Rightarrow> bool" where
  "fits_type e spec w \<longleftrightarrow>
     (case fs_type spec of
        FT_BOOL \<Rightarrow> \<exists>b. w = PBool b
      | FT_INT \<Rightarrow> \<exists>i. w = PInt i
      | FT_FLOAT \<Rightarrow> (\<exists>i. w = PInt i) \<or> (\<exists>q. w = PFloat q)
      | FT_STRING \<Rightarrow> w = PNone \<or> (\<exists>t. w = PStr t \<and> (fs_key spec = ''wip_ref_prefix'' \<longrightarrow> normalize_wip_prefix (se_ftext e) w = Inr t))
      | FT_ENUM \<Rightarrow> \<forall>os. fs_options spec = Some os \<and> os \<noteq> [] \<longrightarrow> w \<in> PStr ` set os
      | FT_DURATION \<Rightarrow> (\<exists>t n. w = PStr t \<and> parse_duration (se_ftext e) w = Inr n \<and> 0 < n)
      | FT_SI_INT \<Rightarrow> \<exists>i. w = PInt i
      | FT_STRING_LIST \<Rightarrow> \<exists>ts. w = PList (map PStr ts)
      | FT_INT_LIST \<Rightarrow> \<exists>ns. w = PList (map PInt ns)
      | FT_REGEX_LIST \<Rightarrow> \<exists>ts. w = PList (map PStr ts) \<and> (\<forall>t \<in> set ts. se_regex e t = None)
      | FT_STR_MAP \<Rightarrow> \<exists>d. w = PDict d \<and> (\<forall>v \<in> set (dvalues d). \<exists>t. v = PStr t))"

lemma is_text_iff: "is_text v \<longleftrightarrow> (\<exists>t. v = PStr t)"
  by (cases v) auto

lemma is_whole_iff: "is_whole v \<longleftrightarrow> (\<exists>i. v = PInt i)"
  by (cases v) auto

lemma all_text: "list_all is_text xs \<longleftrightarrow> (\<exists>ts. xs = map PStr ts)"
  by (induction xs) (auto simp: is_text_iff Cons_eq_map_conv)

lemma all_whole: "list_all is_whole xs \<longleftrightarrow> (\<exists>ns. xs = map PInt ns)"
  by (induction xs) (auto simp: is_whole_iff Cons_eq_map_conv)

lemma regexes_compile: "regex_error e k xs = None \<Longrightarrow> \<exists>ts. xs = map PStr ts \<and> (\<forall>t \<in> set ts. se_regex e t = None)"
proof (induction e k xs rule: regex_error.induct)
  case (2 e k v vs)
  then obtain t ts where "v = PStr t" "se_regex e t = None" "vs = map PStr ts" "\<forall>t \<in> set ts. se_regex e t = None"
    by (fastforce split: pyval.splits option.splits)
  then show ?case by (intro exI [of _ "t # ts"]) simp
qed simp

lemma strip_names_provider: "CHR ''/'' \<in> set (py_strip t) \<Longrightarrow> names_provider t"
  using set_dropWhileD [of "CHR ''/''" is_space "rev (dropWhile is_space t)"] set_dropWhileD [of "CHR ''/''" is_space t]
  by (simp add: py_strip_of_def names_provider_def)

lemma qualified_names_provider: "is_qualified (Some t) \<Longrightarrow> names_provider t"
proof -
  assume q: "is_qualified (Some t)"
  have "CHR ''/'' \<in> set u" if "py_partition (CHR ''/'') u = (a, True, b)" for u a b
    using that by (induction u arbitrary: a b) (auto split: if_splits prod.splits)
  then have "CHR ''/'' \<in> set (py_strip t)"
    using q by (auto simp: is_qualified_def provider_of_def split_model_def Let_def split: prod.splits if_splits)
  then show ?thesis by (rule strip_names_provider)
qed

lemma models_qualified:
  assumes "validate_model_id keywords t = None"
  shows "names_provider t \<or> keywords \<and> py_lower (py_strip t) \<in> {[], ''auto'', ''max'', ''default''}"
proof (cases "py_lower (py_strip t) \<in> set AGNOSTIC")
  case True
  then show ?thesis
    using assms by (auto simp: validate_model_id_def Let_def AGNOSTIC_def split: if_splits)
next
  case False
  then have "py_strip t \<noteq> []" by (auto simp: AGNOSTIC_def py_lower_def)
  with False have "is_qualified (Some (py_strip t))"
    using assms by (auto simp: validate_model_id_def Let_def split: if_splits)
  then have "names_provider (py_strip t)" by (rule qualified_names_provider)
  then show ?thesis using strip_names_provider by (simp add: names_provider_def)
qed

lemma model_lists_qualified: "model_list_error k (map PStr ts) = None \<Longrightarrow> \<forall>t \<in> set ts. names_provider t"
  by (induction ts arbitrary: k) (auto dest: models_qualified split: option.splits)

lemma model_maps_qualified:
  "model_map_error d = None \<Longrightarrow>
     (\<forall>k \<in> set (dkeys d). names_provider k) \<and> (\<forall>t. PStr t \<in> set (dvalues d) \<longrightarrow> names_provider t)"
  by (induction d rule: model_map_error.induct) (auto dest: models_qualified split: option.splits pyval.splits)

text \<open>A parser answers, or raises the one error the validation catches.\<close>

definition value_or_refusal :: "('a \<Rightarrow> bool) \<Rightarrow> py_error + 'a \<Rightarrow> bool" where
  "value_or_refusal Q r \<longleftrightarrow> (case r of Inr x \<Rightarrow> Q x | Inl x \<Rightarrow> (\<exists>m. x = ValueError m))"

lemma value_or_refusal_simps [simp]:
  "value_or_refusal Q (Inr x) = Q x" "value_or_refusal Q (Inl (ValueError m))"
  by (simp_all add: value_or_refusal_def)

lemma accepted_outcome: "value_or_refusal Q r \<Longrightarrow> refusal r = None \<Longrightarrow> \<exists>x. r = Inr x \<and> Q x"
  by (auto simp: value_or_refusal_def refusal_def split: sum.splits)

lemma duration_outcome: "value_or_refusal (\<lambda>n. 0 < n) (parse_duration f v)"
proof -
  define n where "n = sum_list (map snd (duration_matches (py_lower (py_strip (py_str f v)))))"
  show ?thesis
    unfolding parse_duration_def Let_def n_def [symmetric] by simp
qed

lemma size_outcome: "value_or_refusal (\<lambda>_. True) (parse_si_int f v)"
proof -
  have "value_or_refusal (\<lambda>_. True) (case o1 of Some i \<Rightarrow> Inr i | None \<Rightarrow> r)" if "value_or_refusal (\<lambda>_. True) r" for o1 :: "int option" and r
    using that by (cases o1) simp_all
  then show ?thesis
    unfolding parse_si_int_def Let_def
    by (cases v) (simp_all split: option.split)
qed

lemma prefix_outcome: "value_or_refusal (\<lambda>_. True) (normalize_wip_prefix f v)"
  by (simp add: normalize_wip_prefix_def Let_def)

lemma prefix_idempotent:
  assumes "normalize_wip_prefix f v = Inr t"
  shows "normalize_wip_prefix f (PStr t) = Inr t"
proof -
  have t: "t \<noteq> []" "py_strip_of (\<lambda>c. c = CHR ''/'') t = t" "\<not> py_startswith t ''-''" "\<not> substring_of ''..'' t"
      "\<not> substring_of ''//'' t" "ref_head (hd t)" "list_all ref_char (tl t)"
    using assms unfolding normalize_wip_prefix_def Let_def by (auto split: if_splits)
  have chars: "\<not> is_space c" if "ref_head c \<or> ref_char c" for c
    using that by (auto simp: ref_head_def ref_char_def is_digit_def is_space_def Let_def)
  have "\<not> is_space (hd t)" "\<not> is_space (last t)"
    using t(1,6,7) chars by (cases t; auto simp: list_all_iff)+
  then have "py_strip t = t" by (intro py_strip_of_id) simp
  then show ?thesis
    using t by (simp add: normalize_wip_prefix_def)
qed

lemma registry_special:
  "list_all (\<lambda>s. (fs_type s = FT_SI_INT \<longrightarrow> fs_validate s = None) \<and>
     (fs_key s = ''wip_ref_prefix'' \<longrightarrow> fs_type s = FT_STRING \<and> fs_validate s = None)) registry"
  by code_simp

lemma special_fields:
  assumes "spec \<in> set registry"
  shows "fs_type spec = FT_SI_INT \<Longrightarrow> fs_validate spec = None"
    "fs_key spec = ''wip_ref_prefix'' \<Longrightarrow> fs_type spec = FT_STRING" "fs_key spec = ''wip_ref_prefix'' \<Longrightarrow> fs_validate spec = None"
  using registry_special assms unfolding list_all_iff by blast+

lemma plain_fits:
  assumes "validate_field e spec w = None" "fs_type spec \<noteq> FT_SI_INT"
    and "fs_key spec = ''wip_ref_prefix'' \<longrightarrow> fs_type spec = FT_STRING \<and> \<not> is_text w"
  shows "fits_type e spec w"
proof (cases "fs_type spec")
  case FT_STRING
  then show ?thesis using assms
    by (cases w) (auto simp: validate_field_def fits_type_def check_text_def split: if_splits)
next
  case FT_ENUM
  then show ?thesis using assms
    by (auto simp: validate_field_def fits_type_def split: option.splits list.splits if_splits)
next
  case FT_DURATION
  then show ?thesis using assms accepted_outcome [OF duration_outcome, of "se_ftext e" w]
    by (cases w) (auto simp: validate_field_def fits_type_def)
next
  case FT_STRING_LIST
  then show ?thesis using assms
    by (cases w) (auto simp: validate_field_def fits_type_def all_text split: if_splits)
next
  case FT_INT_LIST
  then show ?thesis using assms
    by (cases w) (auto simp: validate_field_def fits_type_def all_whole split: if_splits)
next
  case FT_REGEX_LIST
  then show ?thesis using assms regexes_compile [of e 0]
    by (cases w) (auto simp: validate_field_def fits_type_def)
next
  case FT_STR_MAP
  then show ?thesis using assms
    by (cases w) (auto simp: validate_field_def fits_type_def list_all_iff is_text_iff split: if_splits)
qed (use assms in \<open>cases w; simp add: validate_field_def fits_type_def\<close>)+

lemma accepted_kinds:
  assumes "validate_field e spec v = None" "normalize_field e spec v = Inr w" "spec \<in> set registry"
  obtains (size) "fs_type spec = FT_SI_INT" "\<exists>i. w = PInt i" "fs_validate spec = None"
    | (wip) t where "fs_type spec = FT_STRING" "fs_key spec = ''wip_ref_prefix''" "fs_validate spec = None" "w = PStr t"
        "normalize_wip_prefix (se_ftext e) w = Inr t"
    | (plain) "fs_type spec \<noteq> FT_SI_INT" "w = v" "fs_key spec = ''wip_ref_prefix'' \<longrightarrow> fs_type spec = FT_STRING \<and> \<not> is_text v"
proof -
  note special = special_fields [OF assms(3)]
  show thesis
  proof (cases "fs_type spec = FT_SI_INT")
    case True
    then show thesis using assms(2) special by (intro size) (auto simp: normalize_field_def bind_result_eq_Inr_iff)
  next
    case False
    show thesis
    proof (cases "fs_key spec = ''wip_ref_prefix'' \<and> is_text v")
      case True
      then have "refusal (normalize_wip_prefix (se_ftext e) v) = None"
        using assms(1) special by (simp add: validate_field_def check_text_def split: if_splits)
      then obtain t where t: "normalize_wip_prefix (se_ftext e) v = Inr t"
        using accepted_outcome [OF prefix_outcome] by blast
      then have "w = PStr t" using assms(2) False True by (simp add: normalize_field_def)
      then show thesis using wip special True prefix_idempotent [OF t] by blast
    next
      case other: False
      then have "w = v" using assms(2) False by (auto simp: normalize_field_def split: if_splits)
      then show thesis using plain False other special by blast
    qed
  qed
qed

lemma semantic_fits:
  assumes "validate_semantic spec w = None"
  shows "fits_rule spec w"
  unfolding fits_rule_def
proof (intro conjI impI allI)
  show "names_provider t" if "fs_validate spec = Some ''model_id''" "w = PStr t" for t
    using assms models_qualified [of False t] by (simp add: validate_semantic_def that)
  show "names_provider t \<or> py_lower (py_strip t) \<in> {[], ''auto'', ''max'', ''default''}"
    if "fs_validate spec = Some ''model_id_or_keyword''" "w = PStr t" for t
    using assms models_qualified [of True t] by (simp add: validate_semantic_def that)
  show "\<forall>t \<in> set ts. names_provider t"
    if "fs_validate spec = Some ''model_id_list''" "w = PList (map PStr ts)" for ts
    using assms model_lists_qualified [of 0 ts] by (simp add: validate_semantic_def that)
  have pairs: "(\<forall>k \<in> set (dkeys d). names_provider k) \<and> (\<forall>t. PStr t \<in> set (dvalues d) \<longrightarrow> names_provider t)"
    if "fs_validate spec = Some ''model_id_map''" "w = PDict d" for d
    by (rule model_maps_qualified) (use assms in \<open>simp add: validate_semantic_def that\<close>)
  show "\<forall>k \<in> set (dkeys d). names_provider k" if "fs_validate spec = Some ''model_id_map''" "w = PDict d" for d
    using pairs [OF that] ..
  show "names_provider t" if "fs_validate spec = Some ''model_id_map''" "w = PDict d" "PStr t \<in> set (dvalues d)" for d t
    using pairs [OF that(1,2)] that(3) by blast
qed

lemma accepted_fits:
  assumes ok: "validate_field e spec v = None" "validate_semantic spec v = None" "normalize_field e spec v = Inr w"
  and spec: "spec \<in> set registry"
  shows "fits_type e spec w \<and> fits_rule spec w"
proof (cases rule: accepted_kinds [OF ok(1,3) spec, case_names size wip plain])
  case size
  then show ?thesis by (simp add: fits_type_def fits_rule_def)
next
  case wip
  then show ?thesis by (simp add: fits_type_def fits_rule_def)
next
  case plain
  have "fits_type e spec w"
    using ok(1) plain by (intro plain_fits) simp_all
  moreover have "fits_rule spec w"
    by (rule semantic_fits) (use ok(2) plain(2) in simp)
  ultimately show ?thesis ..
qed

lemma registry_names_distinct: "distinct (map (\<lambda>s. (fs_surface s, fs_key s)) registry)"
  by code_simp

lemma spec_of_registry:
  assumes "spec \<in> set registry"
  shows "spec_of (fs_surface spec) (fs_key spec) = Some spec"
proof -
  have "spec_of (fs_surface spec) (fs_key spec) \<noteq> None"
    using assms by (auto simp: spec_of_def find_None_iff)
  then obtain other where other: "spec_of (fs_surface spec) (fs_key spec) = Some other" by blast
  then show ?thesis
    using spec_of_Some [OF other] registry_names_distinct assms
    by (auto simp: distinct_map inj_on_def)
qed

text \<open>The settings files hold, for every declared field that has a value in them, a value of its type
  that satisfies its rule.\<close>

definition files_fit :: "settings_env \<Rightarrow> settings_files \<Rightarrow> bool" where
  "files_fit e ws \<longleftrightarrow>
     (\<forall>spec \<in> set registry. fs_store spec \<noteq> SF_ENV \<longrightarrow>
        (\<forall>w. get_dotted (file_key spec) (load_json ws (fs_store spec)) = Some w \<longrightarrow> fits_type e spec w \<and> fits_rule spec w))"

lemma settled_fits:
  assumes "field_settled e ws' live restart (fs_surface spec) kv" "fst kv = fs_key spec"
    and "spec \<in> set registry" "fs_store spec \<noteq> SF_ENV"
  shows "\<exists>w. get_dotted (file_key spec) (load_json ws' (fs_store spec)) = Some w \<and> fits_type e spec w \<and> fits_rule spec w"
proof -
  obtain w where w: "accepted_value e (fs_surface spec) kv w"
      "get_dotted (file_key spec) (load_json ws' (fs_store spec)) = Some w"
    using assms spec_of_registry [OF assms(3)] by (auto simp: field_settled_def)
  have "fits_type e spec w \<and> fits_rule spec w"
    using w(1) assms(2) spec_of_registry [OF assms(3)] accepted_fits [OF _ _ _ assms(3)] by (auto simp: accepted_value_def)
  with w(2) show ?thesis by blast
qed

text \<open>
  C19: an edit of the settings never leaves a value in a settings file that its field does not admit.
  If every declared field that has a value in the files fits its declaration before the request, this
  still holds after it, accepted or refused: a truth value, a number, one of the options, a duration
  that parses to more than zero seconds, a size as a plain integer, lists of texts, of integers or of
  patterns that compile, a map of texts, a prefix that is safe in a ref; and under each of the four
  rules a model names its provider (a list each of its models, a map each of its keys and texts)
  or, where the rule admits it, is a keyword. (The objects of the request have distinct keys, as
  parsed JSON has; secrets are kept in the environment file.)
\<close>

theorem accepted_values_fit:
  assumes "put_settings e surfaces body ws = Inr (ws', resp)"
    and "distinct (dkeys body)" "\<forall>(s, v) \<in> set body. \<forall>fs. v = PDict fs \<longrightarrow> distinct (dkeys fs)"
    and "files_fit e ws"
  shows "files_fit e ws'"
proof (cases resp)
  case (Inl errors)
  then have "ws' = ws"
    using assms(1) by (auto simp: put_settings_def bind_result_eq_Inr_iff split: if_splits)
  then show ?thesis using assms(4) by simp
next
  case (Inr lists)
  then obtain live restart where ok: "put_settings e surfaces body ws = Inr (ws', Inr (live, restart))"
    using assms(1) by (cases lists) auto
  show ?thesis
    unfolding files_fit_def
  proof (intro ballI impI allI)
    fix spec w
    assume spec: "spec \<in> set registry" "fs_store spec \<noteq> SF_ENV"
      and w: "get_dotted (file_key spec) (load_json ws' (fs_store spec)) = Some w"
    show "fits_type e spec w \<and> fits_rule spec w"
    proof (cases "\<forall>fs. (fs_surface spec, PDict fs) \<in> set body \<longrightarrow> fs_key spec \<notin> set (dkeys fs)")
      case True
      have "get_dotted (file_key spec) (load_json ws (fs_store spec)) = Some w"
        using unnamed_kept [OF ok assms(2,3) spec True] w by simp
      then show ?thesis using assms(4) spec by (simp add: files_fit_def)
    next
      case False
      then obtain fs kv where named: "(fs_surface spec, PDict fs) \<in> set body" "kv \<in> set fs" "fst kv = fs_key spec"
        by auto
      then have "field_settled e ws' live restart (fs_surface spec) kv"
        using named_settled [OF ok assms(2,3) named(1)] by auto
      then show ?thesis using settled_fits [OF _ named(3) spec] w by fastforce
    qed
  qed
qed

lemma empty_files_fit: "files_fit e \<lparr>sf_json = [], sf_env = None\<rparr>"
proof -
  have "get_path ps [] = None" for ps
    by (cases "(ps, [] :: pydict)" rule: get_path.cases) simp_all
  then show ?thesis by (simp add: files_fit_def get_dotted_def load_json_def dget_or_def)
qed

theorem accepted_values_fit_witness:
  "files_fit sample_settings_env
     \<lparr>sf_json = [(SF_PLAYER, [(''theme'', PStr ''light'')]),
        (SF_WORKER, [(''nightshift'', PDict [(''max_tokens'', PInt 16384)])])], sf_env = None\<rparr>"
proof -
  have put: "put_settings sample_settings_env [''player'', ''worker''] sample_edit \<lparr>sf_json = [], sf_env = None\<rparr> =
      Inr (\<lparr>sf_json = [(SF_PLAYER, [(''theme'', PStr ''light'')]),
        (SF_WORKER, [(''nightshift'', PDict [(''max_tokens'', PInt 16384)])])], sf_env = None\<rparr>,
        Inr ([''player.theme''], [''worker.nightshift.max_tokens'']))"
    by code_simp
  show ?thesis
    by (rule accepted_values_fit [OF put _ _ empty_files_fit]) (simp_all add: sample_edit_def)
qed

section \<open>Durations read back\<close>

definition duration_text :: "(nat \<times> char) list \<Rightarrow> string" where
  "duration_text parts = concat (map (\<lambda>(n, u). nat_text n @ [u]) parts)"

definition duration_seconds :: "(nat \<times> char) list \<Rightarrow> nat" where
  "duration_seconds parts = (\<Sum>(n, u)\<leftarrow>parts. if u = CHR ''h'' then 3600 * n else if u = CHR ''m'' then 60 * n else n)"

definition duration_part :: "nat \<times> char \<Rightarrow> bool" where
  "duration_part p \<longleftrightarrow> fst p < 10 ^ 9 \<and> snd p \<in> set ''smh''"

lemma nat_text_length: "n < 10 ^ Suc k \<Longrightarrow> length (nat_text n) \<le> Suc k"
proof (induction k arbitrary: n)
  case 0
  then show ?case by (subst nat_text.simps) simp
next
  case (Suc k)
  show ?case
  proof (cases "n < 10")
    case True
    then show ?thesis by (subst nat_text.simps) simp
  next
    case False
    have "length (nat_text (n div 10)) \<le> Suc k"
      by (rule Suc.IH) (use Suc.prems in \<open>simp add: less_mult_imp_div_less\<close>)
    then show ?thesis using False by (subst nat_text.simps) simp
  qed
qed

lemma unit_chars: "u \<in> set ''smh'' \<Longrightarrow> \<not> is_digit u \<and> \<not> is_space u \<and> lower_char u = u \<and> u \<noteq> CHR '' '' \<and> (\<exists>k. unit_seconds u = Some k \<and> 0 < k)"
  by (auto simp: is_digit_def is_space_def lower_char_def unit_seconds_def)

lemma match_part:
  assumes "duration_part (n, u)"
  shows "match_duration (nat_text n @ u # rest) = Some (length (nat_text n) + 1, n * the (unit_seconds u))"
proof -
  have "u \<in> set ''smh''"
    using assms by (simp only: duration_part_def snd_conv)
  then obtain k where u: "\<not> is_digit u" "\<not> is_space u" "unit_seconds u = Some k"
    using unit_chars [of u] by blast
  have ds: "takeWhile is_digit (nat_text n @ u # rest) = nat_text n" "dropWhile is_digit (nat_text n @ u # rest) = u # rest"
    using u(1) nat_text_digits [of n] by (simp_all add: takeWhile_append2 dropWhile_append2)
  have "n < 10 ^ 9"
    using assms by (simp only: duration_part_def fst_conv)
  then have "length (nat_text n) \<le> 9"
    using nat_text_length [of n 8] by simp
  then show ?thesis
    unfolding match_duration_def ds Let_def using u foldl_nat_text [of n] by (simp add: number_of_def)
qed

lemma matches_some:
  "s \<noteq> [] \<Longrightarrow> match_duration s = Some (n, k) \<Longrightarrow> duration_matches s = (take n s, k) # duration_matches (drop n s)"
  by (subst duration_matches.simps) simp

lemma matches_step:
  assumes "duration_part (n, u)"
  shows "duration_matches (nat_text n @ u # rest) = (nat_text n @ [u], n * the (unit_seconds u)) # duration_matches rest"
  using matches_some [OF _ match_part [OF assms], of rest] by simp

lemma matches_parts:
  "\<forall>p \<in> set parts. duration_part p \<Longrightarrow>
     duration_matches (duration_text parts) = map (\<lambda>(n, u). (nat_text n @ [u], n * the (unit_seconds u))) parts"
proof (induction parts)
  case Nil
  show ?case by (simp add: duration_text_def duration_matches.simps)
next
  case (Cons p parts)
  obtain n u where p: "p = (n, u)" by (cases p)
  have cons: "duration_text (p # parts) = nat_text n @ u # duration_text parts"
    by (simp add: duration_text_def p)
  show ?case
    unfolding cons using Cons p matches_step [of n u] by simp
qed

lemma part_seconds:
  "duration_part (n, u) \<Longrightarrow> n * the (unit_seconds u) = (if u = CHR ''h'' then 3600 * n else if u = CHR ''m'' then 60 * n else n)"
  by (auto simp: duration_part_def unit_seconds_def)

text \<open>
  C21: a duration that is written out reads back. A text of one or more whole numbers below a billion, each
  followed by its unit (\<open>h\<close> for 3600 seconds, \<open>m\<close> for 60, \<open>s\<close> for one), parses to the sum of
  their seconds, in any order and however often a unit occurs; only a sum of zero is refused.
\<close>

theorem duration_reads_back:
  assumes "parts \<noteq> []" "\<forall>p \<in> set parts. duration_part p"
  shows "parse_duration f (PStr (duration_text parts)) =
    (if duration_seconds parts = 0 then Inl (ValueError ''interval must be greater than zero'')
     else Inr (int (duration_seconds parts)))"
proof -
  let ?t = "duration_text parts"
  have chars: "is_digit c \<or> c \<in> set ''smh''" if "c \<in> set ?t" for c
    using that assms(2) nat_text_digits by (fastforce simp: duration_text_def duration_part_def)
  have t: "?t \<noteq> []" using assms(1) by (cases parts) (auto simp: duration_text_def)
  have plain: "\<not> is_space c \<and> lower_char c = c \<and> c \<noteq> CHR '' ''" if "c \<in> set ?t" for c
    using chars [OF that] unit_chars [of c] is_digit_not_space [of c]
    by (auto simp: is_digit_def lower_char_def Let_def)
  have "py_strip ?t = ?t"
    using plain t by (intro py_strip_of_id) (meson hd_in_set last_in_set)
  moreover have "py_lower ?t = ?t"
    using plain by (simp add: py_lower_def map_idI)
  moreover have spaces: "without_spaces s = s" if "set s \<subseteq> set ?t" for s
    using that plain by (auto simp: without_spaces_def intro: filter_True)
  moreover have "concat (map (without_spaces \<circ> fst) (duration_matches ?t)) = ?t"
  proof -
    have "without_spaces (nat_text n @ [u]) = nat_text n @ [u]" if "(n, u) \<in> set parts" for n u
      using that by (intro spaces) (force simp: duration_text_def)
    then show ?thesis
      unfolding matches_parts [OF assms(2)] by (auto simp: duration_text_def intro!: arg_cong [of _ _ concat])
  qed
  moreover have "sum_list (map snd (duration_matches ?t)) = duration_seconds parts"
    unfolding matches_parts [OF assms(2)] duration_seconds_def
    using assms(2) part_seconds by (auto simp: comp_def intro!: arg_cong [of _ _ sum_list])
  moreover have "duration_matches ?t \<noteq> []"
    unfolding matches_parts [OF assms(2)] using assms(1) by simp
  ultimately show ?thesis
    using t by (simp add: parse_duration_def Let_def)
qed

theorem duration_reads_back_witness:
  "parse_duration (\<lambda>_. []) (PStr ''1h30m'') = Inr 5400"
proof -
  have "duration_text [(1, CHR ''h''), (30, CHR ''m'')] = ''1h30m''" "duration_seconds [(1, CHR ''h''), (30, CHR ''m'')] = 5400"
    by code_simp+
  then show ?thesis
    using duration_reads_back [of "[(1, CHR ''h''), (30, CHR ''m'')]" "\<lambda>_. []"] by (simp add: duration_part_def)
qed

section \<open>What an edit can leave behind\<close>

text \<open>
  A secret that is set to null is accepted and written as the text of \<open>None\<close>, so that the next start
  has a shared secret; and the lists a worker declares with null for any of them cannot be set back to null.
\<close>

lemma null_secret_written:
  "put_settings sample_settings_env [''manager''] [(''manager'', PDict [(''shared_secret'', PNone)])] sample_settings =
     Inr (sample_settings\<lparr>sf_env := Some (''NIGHTSHIFT_SHARED_SECRET=None'' @ [newline])\<rparr>,
       Inr ([], [''manager.shared_secret'']))"
  by code_simp

lemma null_queues_refused:
  "map_option fs_default (spec_of ''worker'' ''queues'') = Some PNone \<and>
     put_settings sample_settings_env [''worker''] [(''worker'', PDict [(''queues'', PNone)])] sample_settings =
       Inr (sample_settings, Inl [(''worker.queues'', ''expected list of strings'')])"
  by code_simp

text \<open>A model without provider passes as qualified when it has a slash.\<close>

lemma empty_provider_accepted:
  "put_settings sample_settings_env [''worker''] [(''worker'', PDict [(''auto_model'', PStr ''/'')])] sample_settings =
     Inr (sample_settings\<lparr>sf_json := sf_json sample_settings @ [(SF_WORKER, [(''auto_model'', PStr ''/'')])]\<rparr>,
       Inr ([], [''worker.auto_model'']))"
  by code_simp

text \<open>A size of zero is refused with a suffix and accepted without one, as a negative size is.\<close>

lemma sizes_without_suffix_unchecked:
  "parse_si_int f (PStr ''0k'') = Inl (ValueError ''value must be greater than zero'')"
  "parse_si_int f (PStr ''0'') = Inr 0" "parse_si_int f (PStr ''-5'') = Inr (- 5)"
  by code_simp+

end
