(* ===== verification/Settings_Load_Facts.thy ===== *)
theory Settings_Load_Facts
  imports Settings_Load Settings_Facts
begin

text \<open>
  What becomes of an edit when the process starts again: the manager's settings load after every accepted
  edit, with the values that were accepted.
\<close>

section \<open>How a field is read\<close>




definition same_value :: "pyval \<Rightarrow> pyval \<Rightarrow> bool" where
  "same_value a b \<longleftrightarrow> b = a \<or> (\<exists>i. a = PInt i \<and> b = PFloat (of_int i))"



lemma py_or_unset [simp]: "\<not> truthy a \<Longrightarrow> py_or a b = b"
  by (simp add: py_or_def)

lemma py_or_set [simp]: "truthy a \<Longrightarrow> py_or a b = a"
  by (simp add: py_or_def)

lemma as_int_PInt [simp]: "as_int (PInt i) d = i"
  by (simp add: as_int_def or_default_def)

lemma as_float_number [simp]: "as_float e (PInt i) d = of_int i" "as_float e (PFloat q) d = q"
  by (simp_all add: as_float_def or_default_def)

lemma as_tuple_texts [simp]: "as_tuple e (PList (map PStr ts)) d = ts"
  by (induction ts) (simp_all add: as_tuple_def)


lemma same_value_float [simp]: "same_value (PInt i) (PFloat (of_int i))"
  by (simp add: same_value_def)




















definition unset :: "environ \<Rightarrow> string option \<Rightarrow> bool" where
  "unset env v \<longleftrightarrow> (\<forall>name. v = Some name \<longrightarrow> \<not> truthy (variable env name))"

lemma unset_simps [simp]: "unset env None" "unset env (Some n) \<longleftrightarrow> \<not> truthy (variable env n)"
  by (simp_all add: unset_def)


























section \<open>An edit reaches the next start\<close>
















section \<open>Edits that do not reach it\<close>

text \<open>
  An empty list of models, which the editor accepts and shows, is loaded as the list of defaults; and the
  variable that the editor shows to shadow the daily limit is not read.
\<close>

lemma empty_list_means_default:
  "map_sum id (\<lambda>ms. oc_scheduled_models_allow (ms_operator ms))
     (resolve_manager sample_settings_env [] [(''scheduled_models_allow'', PList [])]) = Inr DEFAULT_SCHEDULED"
  by code_simp

lemma daily_limit_variable_ignored:
  "map_option (\<lambda>spec. dget (field_value sample_settings_env [(''NIGHTSHIFT_MAX_PER_DAY'', ''5'')] spec []) ''effective'')
     (spec_of ''manager'' ''max_per_day'') = Some (Some (PInt 5)) \<and>
   map_sum id (\<lambda>ms. oc_max_per_day (ms_operator ms))
     (resolve_manager sample_settings_env [(''NIGHTSHIFT_MAX_PER_DAY'', ''5'')] []) = Inr 200"
  by code_simp

text \<open>A file that holds a resolved object resolves to it again, but for what a file cannot hold.\<close>

lemma player_file_loads: "load_player_config (save_player_config c ws) = c"
  by (simp add: load_player_config_def save_player_config_def save_json_def load_json_def player_file_def dget_or_def)

end
