(* ===== verification/Spec2Isabelle.thy ===== *)
theory Spec2Isabelle
  imports Attempt_Life Scheduler_Facts Effect_Facts Workflow_Run Models Shell_Words
    Tending_Facts Inbox_Facts Land_Facts Agent_Loop_Facts
    Settings_Load_Facts
begin

text \<open>
  A verification development for nightshift.

  \<^bold>\<open>The program.\<close> Nightshift hands markdown task briefs from file-backed queues to coding workers,
  records each run as an attempt in a database, lands the result in git and decides what becomes of
  a task that failed. A manager owns the queues (directories of briefs with YAML frontmatter), the
  store (SQLite or PostgreSQL) and the repositories' main branches. A worker polls the manager over
  HTTP, receives an order, runs an agent in a worktree, and submits the outcome. The submit goes
  through a pure transition function, whose value (row fields, new state, effects, events, response)
  the manager applies in one transaction and then carries out. A reconciler repairs what an
  interruption left. Names below are those of \<^verbatim>\<open>src/nightshift/\<close>.

  \<^bold>\<open>How the theories follow the program.\<close> Each component has a theory with its state as a record, its
  vocabulary as datatypes and one function per operation, in the order of the source, and a theory of
  facts.

  \<^item> Prelude: Python values, dictionaries as association lists in insertion order, the string
    operations, numbers and their text, and results that may raise (a sum with the exception on the left).
  \<^item> Lifecycle (\<^verbatim>\<open>lifecycle.py\<close>): the enumerations with their wire values, telemetry, outcomes, retry
    policy and back-off, effects, transitions and land outcomes.
  \<^item> Transitions (\<^verbatim>\<open>transitions.py\<close>): every transition function on every branch; an assertion or a
    raise is a value. Workflows (\<^verbatim>\<open>workflows.py\<close>): the parser and validator of workflow definitions,
    role and model resolution, routing, visit counters. Workflow\_Run composes both into the run of a
    workflow over its submits.
  \<^item> Sql\_Table, Store (\<^verbatim>\<open>manager/store.py\<close>): tables as lists of rows, every verb of the query layer,
    transactions that leave the caller's database when they raise. Store\_Facts: the invariant of the
    tables, the compare-and-swap of a transition, the counters; its upserts interpret one locale.
    Attempt\_Life joins transitions and store.
  \<^item> Frontmatter (\<^verbatim>\<open>spawn_daily.py\<close>, \<^verbatim>\<open>task_files.py\<close>): the two codecs of a brief. Queues
    (\<^verbatim>\<open>queue_config.py\<close>, \<^verbatim>\<open>playlists.py\<close>, \<^verbatim>\<open>repos.py\<close>, \<^verbatim>\<open>task_files.py\<close>) and Queue\_Facts: settings, order,
    scans, names. Task\_Files (\<^verbatim>\<open>task_files.py\<close>, \<^verbatim>\<open>spawn_daily.py\<close>) and Task\_File\_Facts: sections, edits,
    imports, deletion, decomposition.
  \<^item> Scheduler (\<^verbatim>\<open>manager/scheduler.py\<close>) and Scheduler\_Facts: candidates, filters, arbitration, fairness;
    the workflow resolver is a locale interpreted on the loaded definitions.
  \<^item> Manager (\<^verbatim>\<open>manager/app.py\<close>, \<^verbatim>\<open>manager/registry.py\<close>): the shared state and actions on it.
    Worker\_Orders, Worker\_Submit (\<^verbatim>\<open>manager/api_worker.py\<close>, \<^verbatim>\<open>manager/work_orders.py\<close>,
    \<^verbatim>\<open>manager/failure_policy.py\<close>, \<^verbatim>\<open>manager/wire.py\<close>): poll, lease, heartbeat, submit and resolve results,
    each handler whole. Worker\_Facts, Effect\_Facts, Poll\_Facts: what they keep and promise.
  \<^item> Reconciler (\<^verbatim>\<open>manager/reconciler.py\<close>, \<^verbatim>\<open>manager/resolve_job.py\<close>), Reconciler\_Facts, Tending\_Facts:
    every duty of the loop and the recovery at start-up.
  \<^item> Ci\_Status (\<^verbatim>\<open>ci.py\<close>, \<^verbatim>\<open>lifecycle_compat.py\<close>): the verdict on workflow runs and the legacy statuses.
  \<^item> Repo\_Inbox (\<^verbatim>\<open>repo_tasks.py\<close>, \<^verbatim>\<open>auto_import.py\<close>) and Inbox\_Facts: the briefs a repository publishes.
  \<^item> Git\_Shell, Git\_Landing, Landing (\<^verbatim>\<open>git/\<close>, \<^verbatim>\<open>manager/landing.py\<close>): every git operation as the
    sequence of commands the code runs, over a host that is a parameter. Git\_Facts, Land\_Facts: which
    commands a land runs and what its outcome tells; producers of commits are a locale.
  \<^item> Models, Shell\_Words (\<^verbatim>\<open>model_id.py\<close>, \<^verbatim>\<open>price.py\<close>, \<^verbatim>\<open>billing.py\<close>, \<^verbatim>\<open>queue_config.py\<close>, \<^verbatim>\<open>preflight.py\<close>): model
    identifiers, prices, credentials; the commands of a queue, split and quoted.
  \<^item> Edit\_Blocks, Agent\_Tools, Agent\_Loop, Agent\_Loop\_Facts (\<^verbatim>\<open>agent/apply.py\<close>, \<^verbatim>\<open>agent/tools.py\<close>,
    \<^verbatim>\<open>agent/loop.py\<close>): the agent a worker can run in its own process: the applier of edits, the sandboxed
    tools and the loop of turns.
  \<^item> Dotenv, Settings\_Registry, Settings (\<^verbatim>\<open>config/\<close>): the environment file of secrets; the fields the
    configuration classes declare and the registry walked from them; durations, sizes, the validation of an
    edit, its routing to the files and the request that makes it. Settings\_Load: what manager, worker and
    player make of environment and file at start. Settings\_Facts,
    Settings\_Load\_Facts: what an edit promises, of the files and of the next start.

  \<^bold>\<open>Actions and composition.\<close> A handler is an action: a function from the state to the state and a
  value or an exception; what was written before an exception stays, as in the code. Actions are bound in
  the order of the source. The same shape serves the manager (state: database, briefs, watch, cool-downs),
  the reconciler, git (state: a world and the trace of commands), the tools (a disk) and the agent (world,
  disk, log). \<^const>\<open>reachable_db\<close>, \<^const>\<open>reachable_manager\<close> and \<^const>\<open>reachable_system\<close> are the states that
  the verbs, the handlers and the handlers with the reconciler's duties reach in any order, so the
  interleaving of requests is a sequence of steps; within a step the code holds its transaction or lock.

  \<^bold>\<open>What the lemmas show.\<close>

  \<^item> Transitions and store: every way a submit ends has the response, events and effects it should and
    fits the row; two racing transitions exclude each other; every verb keeps the invariant of the
    tables; the counter of the failure ladder is the streak of recorded outcomes.
  \<^item> Handlers: a submit is answered once; a poll hands out only an admissible candidate with its attempt
    created; the document of a workflow step is stored before its cursor moves; a workflow run ends.
  \<^item> Reconciler: overdue attempts end; an interrupted land is settled by whether main holds its trailer,
    the work survives and the rerun succeeds, and is never reported landed without one of these proofs;
    suspect answers wait; only abandoned branches are collected.
  \<^item> Queues and briefs: the scan finds exactly the runnable briefs, orders are permutations, a dragged order is followed for
    any list the drag sends, edits and frontmatter read back for texts free of their own delimiters, decomposition and import lose no brief.
  \<^item> Git: for every host, which answers a command or fails to start it, a land runs only the listed commands,
    moves main only by compare-and-swap or an accepted push, answers within its retries or raises the
    error of a command that could not be run, and tells what happened.
  \<^item> Agent: a run ends within its limit and accounts for its turns; the tools stay in the sandbox as long
    as no pattern of a search is a flag of ripgrep; an edit is all or nothing and replaces the only
    occurrence of its text; every request is well formed; no failure of a tool leaves the loop when calls
    fit their schemas and ripgrep ends in time. What breaks when these conditions fail is shown beside them.
  \<^item> Settings: an accepted edit reads back from its files field by field and leaves the others; no edit
    leaves a value that its field's type or any of the four rules refuses; an edit never prevents the next start
    and reaches it; a secret that is written is the one
    the next start reads; durations read back.

  \<^bold>\<open>Bounds.\<close> No fuel is chosen by hand: structural recursion, measures, and one counter. The loop of the agent
  recurses on its limit of turns, and a run that stops by it has used them all (part of
  \<open>loop_ends_honestly\<close>). The retries of a land recurse on the number of passes left, and
  \<open>land_always_answers\<close> shows that an answer comes before it runs out. The search for cycles of a
  workflow and the parser of edits end by measures.

  \<^bold>\<open>Inputs.\<close> What is not under \<^verbatim>\<open>src/\<close> is an argument: git, gh, processes, the file system and clocks (the
  host of Git\_Shell, the ticks of the reconciler, the environment of the handlers), the land job of
  the reconciler, the digest and the JSON reader of the inbox, document
  resolution of an order, link resolution, patterns, globs, ripgrep and the shell of the tools (programs
  that may change the disk; a glob may raise), the model behind the transport of the agent. A command of
  git or gh is answered or fails to start with an error of the host. Theorems hold for every such argument
  unless a hypothesis says what is relied on.

  \<^bold>\<open>Not modelled, and simplifications.\<close>

  \<^item> A string has one character per code point below 256; an em dash or an ellipsis in a text of the
    program is written in ASCII. A float is an exact rational, and its text is an argument. Frontmatter
    values are scalars.
  \<^item> Locks and threads: an operation runs with its lock held. The git executor, the broadcast of events to
    browsers, the shared secret of the API, connection pools, the text of the SQL and the statistics
    views have no part in the state modelled.
  \<^item> The commits of the task store follow its writes in the code; the handlers' models leave them out
    (the commands of such a commit are in Landing).
  \<^item> A write of a file that begins completes: a crash or a full disk in the middle of a write is not
    modelled. A changed value of the frontmatter is a scalar: the JSON that the writer makes of a dictionary or
    list is left out. The decomposition of a task leaves out its commits and the removal of its output
    directory. The reconciler's scans of main for a trailer answer.
  \<^item> Not modelled at all: the HTTP adapters of the agent's transport, the command-line backends, the
    Slack bridge, the operator's HTTP routes beyond the helpers named in Manager, the user interface, the
    smoke scripts: network, process and presentation code around the parts above.
  \<^item> Of the configuration, the labels and categories of fields and the JSON schema are left out; a settings file is its decoded object.
\<close>

end
